(* ===== verification/Prelude.thy ===== *)
theory Prelude
  imports Main "HOL-Library.AList" "HOL-Library.Monad_Syntax"
begin

text \<open>
  What the component theories share: the JSON-like Python values that requests, transactions and
  state records are made of, the exceptions the sources raise, the sequencing of computations that
  may raise (or may not return), Python's string operations, and the lemmas about them.
\<close>

named_theorems py_defs \<open>definitions of the Python primitives\<close>
named_theorems path_defs \<open>definitions of state paths and their constants\<close>

section \<open>Values\<close>

text \<open>
  A dictionary keeps its insertion order, as Python's does: \<open>AList.update\<close> overwrites in place and
  appends a new key at the end.
\<close>

datatype pyval =
    PyNone
  | PyBool bool
  | PyInt int
  | PyStr string
  | PyList "pyval list"
  | PyDict "(string \<times> pyval) list"

type_synonym dict = "(string \<times> pyval) list"

text \<open>\<open>d.get(k)\<close> and \<open>d.get(k, dflt)\<close>; the value \<open>None\<close> is \<open>PyNone\<close>.\<close>

definition dict_get :: "dict \<Rightarrow> string \<Rightarrow> pyval" where
  "dict_get d k = (case map_of d k of None \<Rightarrow> PyNone | Some v \<Rightarrow> v)"

definition dict_get_default :: "dict \<Rightarrow> string \<Rightarrow> pyval \<Rightarrow> pyval" where
  "dict_get_default d k dflt = (case map_of d k of None \<Rightarrow> dflt | Some v \<Rightarrow> v)"

definition dict_in :: "string \<Rightarrow> dict \<Rightarrow> bool" where
  "dict_in k d \<longleftrightarrow> map_of d k \<noteq> None"

definition dict_set :: "dict \<Rightarrow> string \<Rightarrow> pyval \<Rightarrow> dict" where
  "dict_set d k v = AList.update k v d"

text \<open>\<open>d.update(e)\<close>\<close>

fun dict_update :: "dict \<Rightarrow> dict \<Rightarrow> dict" where
  "dict_update d [] = d"
| "dict_update d ((k, v) # e) = dict_update (dict_set d k v) e"

lemma map_of_dict_set [simp]: "map_of (dict_set d k v) = (map_of d)(k \<mapsto> v)"
  by (simp add: dict_set_def update_conv')

lemma dict_get_set [simp]: "dict_get (dict_set d k v) k' = (if k' = k then v else dict_get d k')"
  by (simp add: dict_get_def)

lemma dict_get_default_set [simp]:
  "dict_get_default (dict_set d k v) k' dflt = (if k' = k then v else dict_get_default d k' dflt)"
  by (simp add: dict_get_default_def)

lemma distinct_dict_set [simp]: "distinct (map fst d) \<Longrightarrow> distinct (map fst (dict_set d k v))"
  by (simp add: dict_set_def distinct_update)

text \<open>
  The contract of a dictionary: an update changes the value of its key and no other, and keeps the
  dictionary well-formed. Of a sequence of updates the last one of a key counts.
\<close>

locale dict_like =
  fixes look :: "'m \<Rightarrow> 'k \<Rightarrow> 'v option"
    and upd :: "'k \<Rightarrow> 'v \<Rightarrow> 'm \<Rightarrow> 'm"
    and wf_dict :: "'m \<Rightarrow> bool"
  assumes look_upd: "wf_dict m \<Longrightarrow> look (upd k v m) = (look m)(k \<mapsto> v)"
    and wf_upd: "wf_dict m \<Longrightarrow> wf_dict (upd k v m)"
begin

lemma wf_updates: "wf_dict m \<Longrightarrow> wf_dict (fold (\<lambda>(k, v). upd k v) kvs m)"
  by (induction kvs arbitrary: m) (auto simp: wf_upd)

lemma look_updates: "wf_dict m \<Longrightarrow> look (fold (\<lambda>(k, v). upd k v) kvs m) = look m ++ map_of (rev kvs)"
  by (induction kvs arbitrary: m) (auto simp: look_upd wf_upd fun_eq_iff map_add_def split: option.splits)

lemma look_updates_distinct:
  assumes "wf_dict m" "distinct (map fst kvs)"
  shows "look (fold (\<lambda>(k, v). upd k v) kvs m) = look m ++ map_of kvs"
  using look_updates [OF assms(1)] map_of_inject_set [of "rev kvs" kvs] assms(2) by (simp add: rev_map [symmetric])

end

interpretation pydict: dict_like map_of "\<lambda>k v d. dict_set d k v" "\<lambda>d. True"
  by unfold_locales simp_all

lemma dict_update_fold: "dict_update d e = fold (\<lambda>(k, v) d. dict_set d k v) e d"
  by (induction d e rule: dict_update.induct) simp_all

lemma map_of_dict_update:
  "distinct (map fst e) \<Longrightarrow> map_of (dict_update d e) k = (case map_of e k of None \<Rightarrow> map_of d k | Some v \<Rightarrow> Some v)"
  by (simp add: dict_update_fold pydict.look_updates_distinct map_add_def)

text \<open>Truth value testing (\<open>if x:\<close>).\<close>

fun truthy :: "pyval \<Rightarrow> bool" where
  "truthy PyNone = False"
| "truthy (PyBool b) = b"
| "truthy (PyInt i) = (i \<noteq> 0)"
| "truthy (PyStr s) = (s \<noteq> [])"
| "truthy (PyList xs) = (xs \<noteq> [])"
| "truthy (PyDict d) = (d \<noteq> [])"

section \<open>Exceptions\<close>

text \<open>
  \<open>InvalidClientRequest\<close> and \<open>UnauthorizedClientRequest\<close> carry the identifier, the request id and
  the reason, as the classes of the plenum package do; the others are Python's own exceptions and the
  exceptions that the sources define.
\<close>

datatype exn =
    InvalidClientRequest "string option" int string
  | UnauthorizedClientRequest "string option" int string
  | AuthValidationError string
  | InvalidDIDDocException string
  | KeyError string
  | IndexError string
  | ValueError string
  | TypeError string
  | AttributeError string
  | AssertionError
  | OverflowError string
  | ShellError string
  | OtherException string

type_synonym 'a res = "exn + 'a"

definition rbind :: "'a res \<Rightarrow> ('a \<Rightarrow> 'b res) \<Rightarrow> 'b res" where
  "rbind m f = (case m of Inl e \<Rightarrow> Inl e | Inr x \<Rightarrow> f x)"

definition py_assert :: "bool \<Rightarrow> unit res" where
  "py_assert b = (if b then Inr () else Inl AssertionError)"

lemma rbind_simps [simp]:
  "rbind (Inl e) f = Inl e"
  "rbind (Inr x) f = f x"
  by (simp_all add: rbind_def)

lemma rbind_Inr_iff: "rbind m f = Inr y \<longleftrightarrow> (\<exists>x. m = Inr x \<and> f x = Inr y)"
  by (cases m) auto

lemma rbind_Inl_iff: "rbind m f = Inl e \<longleftrightarrow> m = Inl e \<or> (\<exists>x. m = Inr x \<and> f x = Inl e)"
  by (cases m) auto

lemma rbind_assoc: "rbind (rbind m f) g = rbind m (\<lambda>x. rbind (f x) g)"
  by (cases m) auto

lemma rbind_cong [fundef_cong]:
  "m = m' \<Longrightarrow> (\<And>x. m' = Inr x \<Longrightarrow> f x = f' x) \<Longrightarrow> rbind m f = rbind m' f'"
  by (cases m') auto

lemma py_assert_iff [simp]: "py_assert b = Inr u \<longleftrightarrow> b" "py_assert b = Inl e \<longleftrightarrow> \<not> b \<and> e = AssertionError"
  by (auto simp: py_assert_def)

text \<open>A text in single and in double quotes, for messages.\<close>

definition squoted :: "string \<Rightarrow> string" where
  "squoted s = [CHR 0x27] @ s @ [CHR 0x27]"

definition dquoted :: "string \<Rightarrow> string" where
  "dquoted s = [CHR 0x22] @ s @ [CHR 0x22]"

text \<open>\<open>d[k]\<close> on a dictionary, and on any other value.\<close>

definition dict_index :: "dict \<Rightarrow> string \<Rightarrow> pyval res" where
  "dict_index d k = (case map_of d k of None \<Rightarrow> Inl (KeyError k) | Some v \<Rightarrow> Inr v)"

fun py_index :: "pyval \<Rightarrow> string \<Rightarrow> pyval res" where
  "py_index (PyDict d) k = dict_index d k"
| "py_index v k = Inl (TypeError k)"

text \<open>\<open>v.get(k)\<close>: only dictionaries have the method.\<close>

fun py_get :: "pyval \<Rightarrow> string \<Rightarrow> pyval res" where
  "py_get (PyDict d) k = Inr (dict_get d k)"
| "py_get v k = Inl (AttributeError ''get'')"

fun py_get_default :: "pyval \<Rightarrow> string \<Rightarrow> pyval \<Rightarrow> pyval res" where
  "py_get_default (PyDict d) k dflt = Inr (dict_get_default d k dflt)"
| "py_get_default v k dflt = Inl (AttributeError ''get'')"

section \<open>Computations that may not return\<close>

text \<open>\<open>None\<close> stands for a computation that runs forever.\<close>

type_synonym 'a comp = "'a res option"

definition ret :: "'a \<Rightarrow> 'a comp" where
  "ret x = Some (Inr x)"

definition raise :: "exn \<Rightarrow> 'a comp" where
  "raise e = Some (Inl e)"

definition cbind :: "'a comp \<Rightarrow> ('a \<Rightarrow> 'b comp) \<Rightarrow> 'b comp" where
  "cbind m f = (case m of None \<Rightarrow> None | Some (Inl e) \<Rightarrow> Some (Inl e) | Some (Inr x) \<Rightarrow> f x)"

lemma cbind_simps [simp]:
  "cbind None f = None"
  "cbind (raise e) f = raise e"
  "cbind (ret x) f = f x"
  by (simp_all add: cbind_def ret_def raise_def)

lemma ret_inject [simp]: "ret x = ret y \<longleftrightarrow> x = y"
  by (simp add: ret_def)

lemma ret_not_raise [simp]: "ret x \<noteq> raise e" "raise e \<noteq> ret x" "ret x \<noteq> None" "raise e \<noteq> None"
  by (simp_all add: ret_def raise_def)

lemma cbind_ret_iff: "cbind m f = ret y \<longleftrightarrow> (\<exists>x. m = ret x \<and> f x = ret y)"
  by (auto simp: cbind_def ret_def split: option.splits sum.splits)

text \<open>A loop \<open>for x in xs: s = f(s, x)\<close> whose body may raise or not return.\<close>

fun cfold :: "('s \<Rightarrow> 'a \<Rightarrow> 's comp) \<Rightarrow> 's \<Rightarrow> 'a list \<Rightarrow> 's comp" where
  "cfold f s [] = ret s"
| "cfold f s (x # xs) = cbind (f s x) (\<lambda>s'. cfold f s' xs)"

lemma cfold_append: "cfold f s (xs @ ys) = cbind (cfold f s xs) (\<lambda>s'. cfold f s' ys)"
  by (induction xs arbitrary: s) (auto simp: cbind_def ret_def split: option.splits sum.splits)

text \<open>A loop whose body keeps an invariant while it consumes its list.\<close>

lemma cfold_invariant:
  assumes "P s []"
    and step: "\<And>s x ys zs. P s ys \<Longrightarrow> xs = ys @ x # zs \<Longrightarrow> \<exists>s'. f s x = ret s' \<and> P s' (ys @ [x])"
  shows "\<exists>s'. cfold f s xs = ret s' \<and> P s' xs"
proof -
  have "\<exists>s'. cfold f s zs = ret s' \<and> P s' (ys @ zs)" if "P s ys" "xs = ys @ zs" for s ys zs
    using that
  proof (induction zs arbitrary: s ys)
    case Nil
    then show ?case by simp
  next
    case (Cons z zs)
    then obtain s' where s': "f s z = ret s'" "P s' (ys @ [z])"
      using step by blast
    with Cons.prems(2) Cons.IH [of s' "ys @ [z]"] show ?case by simp
  qed
  from this [of s "[]" xs] assms(1) show ?thesis by simp
qed

section \<open>Computations that change a state and may raise\<close>

text \<open>What was done before an exception stays done: the state is returned in either case.\<close>

type_synonym ('s, 'a) sres = "'s \<Rightarrow> 's \<times> 'a res"

definition sret :: "'a \<Rightarrow> ('s, 'a) sres" where
  "sret x s = (s, Inr x)"

definition sraise :: "exn \<Rightarrow> ('s, 'a) sres" where
  "sraise e s = (s, Inl e)"

definition sbind :: "('s, 'a) sres \<Rightarrow> ('a \<Rightarrow> ('s, 'b) sres) \<Rightarrow> ('s, 'b) sres" where
  "sbind m f s = (case m s of (s', Inl e) \<Rightarrow> (s', Inl e) | (s', Inr x) \<Rightarrow> f x s')"

definition slift :: "'a res \<Rightarrow> ('s, 'a) sres" where
  "slift r s = (s, r)"

definition smodify :: "('s \<Rightarrow> 's) \<Rightarrow> ('s, unit) sres" where
  "smodify f s = (f s, Inr ())"

text \<open>\<open>try: m except ...\<close>\<close>

definition scatch :: "('s, 'a) sres \<Rightarrow> (exn \<Rightarrow> ('s, 'a) sres) \<Rightarrow> ('s, 'a) sres" where
  "scatch m h s = (case m s of (s', Inl e) \<Rightarrow> h e s' | (s', Inr x) \<Rightarrow> (s', Inr x))"

lemma sres_simps [simp]:
  "sret x s = (s, Inr x)"
  "sraise e s = (s, Inl e)"
  "slift r s = (s, r)"
  "smodify g s = (g s, Inr ())"
  by (simp_all add: sret_def sraise_def slift_def smodify_def)

lemma sbind_Inr_iff: "sbind m f s = (s', Inr y) \<longleftrightarrow> (\<exists>s1 x. m s = (s1, Inr x) \<and> f x s1 = (s', Inr y))"
  by (auto simp: sbind_def split: prod.splits sum.splits)

lemma sbind_step [simp]: "m s = (s1, Inr x) \<Longrightarrow> sbind m f s = f x s1"
  by (simp add: sbind_def)

lemma sbind_stop [simp]: "m s = (s1, Inl e) \<Longrightarrow> sbind m f s = (s1, Inl e)"
  by (simp add: sbind_def)

text \<open>A property of the state that a computation keeps, whether it raises or not.\<close>

definition keeps :: "('s \<Rightarrow> bool) \<Rightarrow> ('s, 'a) sres \<Rightarrow> bool" where
  "keeps P m \<longleftrightarrow> (\<forall>s. P s \<longrightarrow> P (fst (m s)))"

named_theorems keeps_rules \<open>how computations keep a property of the state\<close>

lemma keepsI: "(\<And>s. P s \<Longrightarrow> P (fst (m s))) \<Longrightarrow> keeps P m"
  by (simp add: keeps_def)

lemma keepsD: "keeps P m \<Longrightarrow> P s \<Longrightarrow> P (fst (m s))"
  by (simp add: keeps_def)

lemma keeps_basic [keeps_rules]: "keeps P (sret x)" "keeps P (sraise e)" "keeps P (slift r)"
  by (simp_all add: keeps_def)

lemma keeps_sbind [keeps_rules]: "keeps P m \<Longrightarrow> (\<And>x. keeps P (f x)) \<Longrightarrow> keeps P (sbind m f)"
  by (fastforce simp: keeps_def sbind_def split: prod.splits sum.splits)

lemma keeps_scatch [keeps_rules]: "keeps P m \<Longrightarrow> (\<And>e. keeps P (h e)) \<Longrightarrow> keeps P (scatch m h)"
  by (fastforce simp: keeps_def scatch_def split: prod.splits sum.splits)

lemma keeps_smodify: "(\<And>s. P s \<Longrightarrow> P (g s)) \<Longrightarrow> keeps P (smodify g)"
  by (simp add: keeps_def)

lemma keeps_if [keeps_rules]: "(b \<Longrightarrow> keeps P m) \<Longrightarrow> (\<not> b \<Longrightarrow> keeps P n) \<Longrightarrow> keeps P (if b then m else n)"
  by simp

lemma keeps_case_option [keeps_rules]:
  "(x = None \<Longrightarrow> keeps P m) \<Longrightarrow> (\<And>y. x = Some y \<Longrightarrow> keeps P (f y)) \<Longrightarrow> keeps P (case x of None \<Rightarrow> m | Some y \<Rightarrow> f y)"
  by (cases x) simp_all

lemma keeps_case_prod [keeps_rules]: "(\<And>a b. keeps P (f a b)) \<Longrightarrow> keeps P (case x of (a, b) \<Rightarrow> f a b)"
  by (cases x) simp

lemma keeps_Let [keeps_rules]: "keeps P (f x) \<Longrightarrow> keeps P (Let x f)"
  by simp

text \<open>A first part that establishes the property in place of keeping it.\<close>

lemma sbind_establish:
  assumes "Q s" and "\<And>s. Q s \<Longrightarrow> P (fst (m s))" and "\<And>x. keeps P (f x)"
  shows "P (fst (sbind m f s))"
  using assms(1) assms(2) [OF assms(1)] assms(3) by (fastforce simp: keeps_def sbind_def split: prod.splits sum.splits)

section \<open>Step relations\<close>

text \<open>The contract of an invariant of a step relation, and what it gives for every reachable state.\<close>

locale step_invariant =
  fixes step :: "'s \<Rightarrow> 's \<Rightarrow> bool" and inv :: "'s \<Rightarrow> bool"
  assumes inv_step: "inv s \<Longrightarrow> step s s' \<Longrightarrow> inv s'"
begin

lemma inv_reachable: "step\<^sup>*\<^sup>* s s' \<Longrightarrow> inv s \<Longrightarrow> inv s'"
  by (induction rule: rtranclp_induct) (auto intro: inv_step)

end

end
