(* ===== verification/PyText.thy ===== *)
theory PyText
  imports Prelude
begin

text \<open>
  Python's text operations as the sources use them: \<open>str.join\<close>, \<open>str.split\<close>, \<open>str()\<close> and \<open>repr()\<close> of
  JSON-like values, and decimal conversion of integers, with the round trips that action ids,
  state paths and the identity cache rest on. Strings hold Latin-1 characters.
\<close>

section \<open>Joining and splitting\<close>

text \<open>\<open>sep.join(parts)\<close>\<close>

fun py_join :: "string \<Rightarrow> string list \<Rightarrow> string" where
  "py_join sep [] = []"
| "py_join sep [p] = p"
| "py_join sep (p # q # ps) = p @ sep @ py_join sep (q # ps)"

text \<open>\<open>s.split(sep)\<close>, scanning from the left, \<open>acc\<close> holding the current part in reverse.\<close>

function py_split_from :: "string \<Rightarrow> string \<Rightarrow> string \<Rightarrow> string list" where
  "py_split_from sep acc [] = [rev acc]"
| "py_split_from sep acc (c # cs) =
     (if sep \<noteq> [] \<and> take (length sep) (c # cs) = sep
      then rev acc # py_split_from sep [] (drop (length sep) (c # cs))
      else py_split_from sep (c # acc) cs)"
  by pat_completeness auto
termination
  by (relation "measure (\<lambda>(sep, acc, s). length s)") (auto simp: Suc_le_eq)

declare py_split_from.simps [simp del]

definition py_split :: "string \<Rightarrow> string \<Rightarrow> string list" where
  "py_split s sep = py_split_from sep [] s"

text \<open>\<open>s.split(":", 1)[0]\<close>\<close>

definition py_first_field :: "char \<Rightarrow> string \<Rightarrow> string" where
  "py_first_field c s = takeWhile (\<lambda>x. x \<noteq> c) s"

text \<open>A part that a separator following it does not disturb.\<close>

definition split_safe :: "string \<Rightarrow> string \<Rightarrow> bool" where
  "split_safe sep p \<longleftrightarrow> (\<forall>i<length p. take (length sep) (drop i (p @ sep)) \<noteq> sep)"

lemma split_safe_tl: "split_safe sep (c # p) \<Longrightarrow> split_safe sep p"
  by (auto simp: split_safe_def)

lemma split_safe_hd: "split_safe sep (c # p) \<Longrightarrow> take (length sep) (c # p @ sep) \<noteq> sep"
  by (auto simp: split_safe_def)

lemma split_safe_last: "split_safe sep (c # p) \<Longrightarrow> take (length sep) (c # p) \<noteq> sep"
proof
  assume safe: "split_safe sep (c # p)" and eq: "take (length sep) (c # p) = sep"
  have "length sep \<le> length (c # p)"
    using arg_cong [OF eq, of length] by simp
  then have "take (length sep) (c # p @ sep) = sep"
    using eq by (cases sep) auto
  with split_safe_hd [OF safe] show False by simp
qed

lemma py_split_from_part:
  assumes "sep \<noteq> []" "split_safe sep p"
  shows "py_split_from sep acc (p @ sep @ rest) = (rev acc @ p) # py_split_from sep [] rest"
  using assms(2)
proof (induction p arbitrary: acc)
  case Nil
  obtain c cs where "sep = c # cs" using assms(1) by (cases sep) auto
  then show ?case by (simp add: py_split_from.simps)
next
  case (Cons c p)
  have "take (length sep) ((c # p @ sep) @ rest) = take (length sep) (c # p @ sep)"
    by (rule take_append [THEN trans]) simp
  then have "take (length sep) (c # p @ sep @ rest) \<noteq> sep"
    using split_safe_hd [OF Cons.prems] by simp
  then show ?case
    using Cons.IH [OF split_safe_tl [OF Cons.prems], of "c # acc"]
    by (simp add: py_split_from.simps)
qed

lemma py_split_from_last:
  "split_safe sep p \<Longrightarrow> py_split_from sep acc p = [rev acc @ p]"
proof (induction p arbitrary: acc)
  case Nil
  then show ?case by (simp add: py_split_from.simps)
next
  case (Cons c p)
  then show ?case
    using split_safe_last [OF Cons.prems] split_safe_tl [OF Cons.prems]
    by (simp add: py_split_from.simps)
qed

lemma py_split_join:
  assumes "sep \<noteq> []" "ps \<noteq> []" "\<forall>p\<in>set ps. split_safe sep p"
  shows "py_split (py_join sep ps) sep = ps"
  using assms(2,3) unfolding py_split_def
proof (induction ps rule: induct_list012)
  case (3 p q ps)
  then show ?case
    using py_split_from_part [OF assms(1), of p "[]" "py_join sep (q # ps)"] by simp
qed (simp_all add: py_split_from_last)

lemma py_split_from_not_Nil [simp]: "py_split_from sep acc s \<noteq> []"
  by (induction sep acc s rule: py_split_from.induct) (simp_all add: py_split_from.simps)

lemma length_py_split_from_pos [simp]: "0 < length (py_split_from sep acc s)"
  by simp

text \<open>A text that contains the separator splits into two parts at least.\<close>

lemma length_py_split_sep:
  "sep \<noteq> [] \<Longrightarrow> 2 \<le> length (py_split_from sep acc (u @ sep @ w))"
proof (induction u arbitrary: acc)
  case Nil
  obtain c cs where "sep = c # cs" using Nil by (cases sep) auto
  then show ?case by (simp add: py_split_from.simps Suc_le_eq)
next
  case (Cons c u)
  then show ?case by (simp add: py_split_from.simps Suc_le_eq)
qed

text \<open>White space, \<open>s.strip()\<close> and \<open>s.rstrip()\<close>\<close>

definition is_space :: "char \<Rightarrow> bool" where
  "is_space c \<longleftrightarrow> of_char c \<in> {9, 10, 11, 12, 13, 28, 29, 30, 31, 32, 133, 160 :: nat}"

definition py_strip :: "string \<Rightarrow> string" where
  "py_strip s = rev (dropWhile is_space (rev (dropWhile is_space s)))"

definition rstrip :: "string \<Rightarrow> string" where
  "rstrip s = rev (dropWhile is_space (rev s))"

text \<open>\<open>s.lower()\<close>\<close>

definition lower_char :: "char \<Rightarrow> char" where
  "lower_char c =
     (let n = of_char c :: nat
      in if 65 \<le> n \<and> n \<le> 90 \<or> 192 \<le> n \<and> n \<le> 222 \<and> n \<noteq> 215 then char_of (n + 32) else c)"

definition py_lower :: "string \<Rightarrow> string" where
  "py_lower s = map lower_char s"

section \<open>Decimal numbers\<close>

definition digit_char :: "nat \<Rightarrow> char" where
  "digit_char n = ''0123456789'' ! n"

fun nat_str :: "nat \<Rightarrow> string" where
  "nat_str n = (if n < 10 then [digit_char n] else nat_str (n div 10) @ [digit_char (n mod 10)])"

declare nat_str.simps [simp del]

text \<open>\<open>str(i)\<close> of an integer\<close>

definition int_str :: "int \<Rightarrow> string" where
  "int_str i = (if i < 0 then CHR ''-'' # nat_str (nat (- i)) else nat_str (nat i))"

definition char_digit :: "char \<Rightarrow> nat option" where
  "char_digit c = (let n = length (takeWhile (\<lambda>d. d \<noteq> c) ''0123456789'') in if n < 10 then Some n else None)"

fun str_nat_from :: "nat \<Rightarrow> string \<Rightarrow> nat option" where
  "str_nat_from acc [] = Some acc"
| "str_nat_from acc (c # cs) =
     (case char_digit c of None \<Rightarrow> None | Some d \<Rightarrow> str_nat_from (10 * acc + d) cs)"

text \<open>\<open>int(s)\<close> of decimal digits with an optional sign; every other text is a \<open>ValueError\<close>.\<close>

definition py_int :: "string \<Rightarrow> int res" where
  "py_int s =
     (let (neg, ds) = (case s of c # cs \<Rightarrow> if c = CHR ''-'' then (True, cs) else (False, s) | [] \<Rightarrow> (False, []))
      in case (if ds = [] then None else str_nat_from 0 ds) of
           None \<Rightarrow> Inl (ValueError s)
         | Some n \<Rightarrow> Inr (if neg then - int n else int n))"

lemma less_10_cases:
  "n < (10::nat) \<Longrightarrow> n = 0 \<or> n = 1 \<or> n = 2 \<or> n = 3 \<or> n = 4 \<or> n = 5 \<or> n = 6 \<or> n = 7 \<or> n = 8 \<or> n = 9"
  by arith

lemma char_digit_digit_char [simp]: "n < 10 \<Longrightarrow> char_digit (digit_char n) = Some n"
  by (drule less_10_cases) (elim disjE; simp add: char_digit_def digit_char_def)

lemma digit_char_not_minus [simp]: "n < 10 \<Longrightarrow> digit_char n \<noteq> CHR ''-''"
  by (drule less_10_cases) (elim disjE; simp add: digit_char_def)

lemma digit_char_not_colon [simp]: "n < 10 \<Longrightarrow> digit_char n \<noteq> CHR '':''"
  by (drule less_10_cases) (elim disjE; simp add: digit_char_def)

lemma str_nat_from_append:
  "str_nat_from acc (xs @ ys) = (case str_nat_from acc xs of None \<Rightarrow> None | Some a \<Rightarrow> str_nat_from a ys)"
  by (induction xs arbitrary: acc) (auto split: option.splits)

lemma str_nat_nat_str [simp]: "str_nat_from 0 (nat_str n) = Some n"
proof (induction n rule: nat_str.induct)
  case (1 n)
  then show ?case
    by (subst nat_str.simps) (auto simp: str_nat_from_append)
qed

lemma nat_str_not_Nil [simp]: "nat_str n \<noteq> []"
  by (subst nat_str.simps) auto

lemma set_nat_str: "c \<in> set (nat_str n) \<Longrightarrow> \<exists>d<10. c = digit_char d"
proof (induction n rule: nat_str.induct)
  case (1 n)
  show ?case
  proof (cases "n < 10")
    case True
    with "1.prems" show ?thesis by (subst (asm) nat_str.simps) auto
  next
    case False
    with "1.prems" have "c \<in> set (nat_str (n div 10)) \<or> c = digit_char (n mod 10)"
      by (subst (asm) nat_str.simps) auto
    moreover have "n mod 10 < 10" by simp
    ultimately show ?thesis using "1.IH" [OF False] by blast
  qed
qed

lemma minus_not_in_nat_str [simp]: "CHR ''-'' \<notin> set (nat_str n)"
  using set_nat_str [of "CHR ''-''" n] digit_char_not_minus by metis

lemma colon_not_in_nat_str [simp]: "CHR '':'' \<notin> set (nat_str n)"
  using set_nat_str [of "CHR '':''" n] digit_char_not_colon by metis

lemma colon_not_in_int_str [simp]: "CHR '':'' \<notin> set (int_str i)"
  by (simp add: int_str_def)

lemma int_str_not_Nil [simp]: "int_str i \<noteq> []"
  by (simp add: int_str_def)

lemma py_int_int_str [simp]: "py_int (int_str i) = Inr i"
proof (cases "i < 0")
  case True
  then show ?thesis by (simp add: py_int_def int_str_def)
next
  case False
  obtain c cs where eq: "nat_str (nat i) = c # cs" by (cases "nat_str (nat i)") auto
  then have "c \<noteq> CHR ''-''" using minus_not_in_nat_str [of "nat i"] by auto
  moreover have "str_nat_from 0 (c # cs) = Some (nat i)"
    using eq str_nat_nat_str [of "nat i"] by metis
  ultimately show ?thesis using False eq by (simp add: py_int_def int_str_def)
qed

lemma int_str_inject [simp]: "int_str i = int_str j \<longleftrightarrow> i = j"
  by (metis py_int_int_str sum.inject(2))

section \<open>Text of values\<close>

text \<open>
  \<open>repr\<close> of a string: single quotes unless the text has a single quote and no double quote;
  backslash, newline, carriage return and tab escaped.
\<close>

definition repr_char :: "char \<Rightarrow> char \<Rightarrow> string" where
  "repr_char q c =
     (if c = q \<or> c = CHR 0x5C then [CHR 0x5C, c]
      else if c = CHR 0x0A then [CHR 0x5C, CHR ''n'']
      else if c = CHR 0x0D then [CHR 0x5C, CHR ''r'']
      else if c = CHR 0x09 then [CHR 0x5C, CHR ''t'']
      else [c])"

definition repr_str :: "string \<Rightarrow> string" where
  "repr_str s =
     (let q = (if CHR 0x27 \<in> set s \<and> CHR 0x22 \<notin> set s then CHR 0x22 else CHR 0x27)
      in q # concat (map (repr_char q) s) @ [q])"

fun py_repr :: "pyval \<Rightarrow> string"
  and py_repr_list :: "pyval list \<Rightarrow> string list"
  and py_repr_items :: "(string \<times> pyval) list \<Rightarrow> string list" where
  "py_repr PyNone = ''None''"
| "py_repr (PyBool b) = (if b then ''True'' else ''False'')"
| "py_repr (PyInt i) = int_str i"
| "py_repr (PyStr s) = repr_str s"
| "py_repr (PyList xs) = ''['' @ py_join '', '' (py_repr_list xs) @ '']''"
| "py_repr (PyDict d) = ''{'' @ py_join '', '' (py_repr_items d) @ ''}''"
| "py_repr_list [] = []"
| "py_repr_list (x # xs) = py_repr x # py_repr_list xs"
| "py_repr_items [] = []"
| "py_repr_items ((k, v) # d) = (repr_str k @ '': '' @ py_repr v) # py_repr_items d"

text \<open>\<open>str(v)\<close>, also what \<open>str.format\<close> inserts: a string as it is, any other value by \<open>repr\<close>.\<close>

fun py_str :: "pyval \<Rightarrow> string" where
  "py_str (PyStr s) = s"
| "py_str v = py_repr v"

lemma py_repr_validator_list: "py_repr (PyList [PyStr ''VALIDATOR'']) = [CHR ''['', CHR 0x27] @ ''VALIDATOR'' @ [CHR 0x27, CHR '']'']"
  by (simp add: repr_str_def repr_char_def Let_def)

end
