(* ===== verification/Constants.thy ===== *)
theory Constants
  imports PyText
begin

text \<open>
  The role codes and transaction type codes (indy_common/roles.py, transactions.py, constants.py). The
  codes inherited from the plenum package (TRUSTEE, STEWARD, NODE, NYM and the transaction author
  agreement and ledgers-freeze types) are the ones that docs/source/transactions.md and requests.md
  state.
\<close>

section \<open>Roles\<close>

abbreviation TRUSTEE :: string where "TRUSTEE \<equiv> ''0''"
abbreviation STEWARD :: string where "STEWARD \<equiv> ''2''"
abbreviation ENDORSER :: string where "ENDORSER \<equiv> ''101''"
abbreviation NETWORK_MONITOR :: string where "NETWORK_MONITOR \<equiv> ''201''"

text \<open>The enum \<open>Roles\<close>: values and names. \<open>IDENTITY_OWNER\<close> is the value \<open>None\<close>.\<close>

definition Roles :: "(string option \<times> string) list" where
  "Roles = [(None, ''IDENTITY_OWNER''), (Some TRUSTEE, ''TRUSTEE''), (Some STEWARD, ''STEWARD''),
            (Some ENDORSER, ''ENDORSER''), (Some NETWORK_MONITOR, ''NETWORK_MONITOR'')]"

text \<open>\<open>Roles(value).name\<close>: a \<open>ValueError\<close> for a value that is no member.\<close>

definition Roles_name :: "string option \<Rightarrow> string res" where
  "Roles_name value =
     (case map_of Roles value of None \<Rightarrow> Inl (ValueError ''not a valid Roles'') | Some n \<Rightarrow> Inr n)"

definition nameFromValue :: "string option \<Rightarrow> string res" where
  "nameFromValue value =
     (case value of None \<Rightarrow> Inr ''None role''
      | Some s \<Rightarrow> if s = [] then Inr ''None role'' else Roles_name (Some s))"

definition get_named_role :: "string option \<Rightarrow> string" where
  "get_named_role role_code =
     (case nameFromValue role_code of Inr n \<Rightarrow> n | Inl _ \<Rightarrow> ''Unknown role'')"

section \<open>Transaction types\<close>

abbreviation NODE :: string where "NODE \<equiv> ''0''"
abbreviation NYM :: string where "NYM \<equiv> ''1''"
abbreviation TXN_AUTHOR_AGREEMENT :: string where "TXN_AUTHOR_AGREEMENT \<equiv> ''4''"
abbreviation TXN_AUTHOR_AGREEMENT_AML :: string where "TXN_AUTHOR_AGREEMENT_AML \<equiv> ''5''"
abbreviation TXN_AUTHOR_AGREEMENT_DISABLE :: string where "TXN_AUTHOR_AGREEMENT_DISABLE \<equiv> ''8''"
abbreviation LEDGERS_FREEZE :: string where "LEDGERS_FREEZE \<equiv> ''9''"
abbreviation ATTRIB :: string where "ATTRIB \<equiv> ''100''"
abbreviation SCHEMA :: string where "SCHEMA \<equiv> ''101''"
abbreviation CLAIM_DEF :: string where "CLAIM_DEF \<equiv> ''102''"
abbreviation POOL_UPGRADE :: string where "POOL_UPGRADE \<equiv> ''109''"
abbreviation NODE_UPGRADE :: string where "NODE_UPGRADE \<equiv> ''110''"
abbreviation POOL_CONFIG :: string where "POOL_CONFIG \<equiv> ''111''"
abbreviation REVOC_REG_DEF :: string where "REVOC_REG_DEF \<equiv> ''113''"
abbreviation REVOC_REG_ENTRY :: string where "REVOC_REG_ENTRY \<equiv> ''114''"
abbreviation POOL_RESTART :: string where "POOL_RESTART \<equiv> ''118''"
abbreviation VALIDATOR_INFO :: string where "VALIDATOR_INFO \<equiv> ''119''"
abbreviation AUTH_RULE :: string where "AUTH_RULE \<equiv> ''120''"
abbreviation AUTH_RULES :: string where "AUTH_RULES \<equiv> ''122''"
abbreviation FLAG :: string where "FLAG \<equiv> ''130''"
abbreviation JSON_LD_CONTEXT :: string where "JSON_LD_CONTEXT \<equiv> ''200''"
abbreviation RICH_SCHEMA :: string where "RICH_SCHEMA \<equiv> ''201''"
abbreviation RICH_SCHEMA_ENCODING :: string where "RICH_SCHEMA_ENCODING \<equiv> ''202''"
abbreviation RICH_SCHEMA_MAPPING :: string where "RICH_SCHEMA_MAPPING \<equiv> ''203''"
abbreviation RICH_SCHEMA_CRED_DEF :: string where "RICH_SCHEMA_CRED_DEF \<equiv> ''204''"
abbreviation RICH_SCHEMA_PRES_DEF :: string where "RICH_SCHEMA_PRES_DEF \<equiv> ''205''"

text \<open>The enum \<open>IndyTransactions\<close> with its names, and \<open>get_name_from_code\<close>.\<close>

definition IndyTransactions :: "(string \<times> string) list" where
  "IndyTransactions =
     [(NODE, ''NODE''), (NYM, ''NYM''), (ATTRIB, ''ATTRIB''), (SCHEMA, ''SCHEMA''),
      (CLAIM_DEF, ''CLAIM_DEF''), (''103'', ''DISCLO''), (''104'', ''GET_ATTR''), (''105'', ''GET_NYM''),
      (''3'', ''GET_TXNS''), (''107'', ''GET_SCHEMA''), (''108'', ''GET_CLAIM_DEF''),
      (POOL_UPGRADE, ''POOL_UPGRADE''), (NODE_UPGRADE, ''NODE_UPGRADE''), (POOL_CONFIG, ''POOL_CONFIG''),
      (''112'', ''CHANGE_KEY''), (REVOC_REG_DEF, ''REVOC_REG_DEF''), (REVOC_REG_ENTRY, ''REVOC_REG_ENTRY''),
      (''115'', ''GET_REVOC_REG_DEF''), (''116'', ''GET_REVOC_REG''), (''117'', ''GET_REVOC_REG_DELTA''),
      (POOL_RESTART, ''POOL_RESTART''), (VALIDATOR_INFO, ''VALIDATOR_INFO''),
      (AUTH_RULE, ''AUTH_RULE''), (''121'', ''GET_AUTH_RULE''), (AUTH_RULES, ''AUTH_RULES''),
      (FLAG, ''FLAG''), (''131'', ''GET_FLAG''),
      (JSON_LD_CONTEXT, ''JSON_LD_CONTEXT''), (RICH_SCHEMA, ''RICH_SCHEMA''),
      (RICH_SCHEMA_ENCODING, ''RICH_SCHEMA_ENCODING''), (RICH_SCHEMA_MAPPING, ''RICH_SCHEMA_MAPPING''),
      (RICH_SCHEMA_CRED_DEF, ''RICH_SCHEMA_CRED_DEF''), (RICH_SCHEMA_PRES_DEF, ''RICH_SCHEMA_PRES_DEF''),
      (''300'', ''GET_RICH_SCHEMA_OBJECT_BY_ID''), (''301'', ''GET_RICH_SCHEMA_OBJECT_BY_METADATA'')]"

definition get_name_from_code :: "string \<Rightarrow> string" where
  "get_name_from_code code =
     (case map_of IndyTransactions code of Some n \<Rightarrow> n | None \<Rightarrow> ''Unknown_transaction_type'')"

section \<open>Requests\<close>

text \<open>
  The attributes of a client request that the sources read (class \<open>Request\<close> of the plenum package,
  extended in indy_common/types.py): the author's DID, the request id, the operation, the single
  signature or the dictionary of signatures by DID, and the endorser's DID.
\<close>

record request =
  req_identifier :: "string option"
  reqId :: int
  operation :: dict
  signature :: "string option"
  signatures :: "(string \<times> string) list option"
  endorser :: "string option"

text \<open>\<open>request.signature\<close> and \<open>request.signatures\<close> in a condition.\<close>

definition has_signature :: "request \<Rightarrow> bool" where
  "has_signature req \<longleftrightarrow> (case signature req of None \<Rightarrow> False | Some s \<Rightarrow> s \<noteq> [])"

definition sigs :: "request \<Rightarrow> (string \<times> string) list" where
  "sigs req = (case signatures req of None \<Rightarrow> [] | Some ss \<Rightarrow> ss)"

definition signed_by :: "request \<Rightarrow> string option \<Rightarrow> bool" where
  "signed_by req idr \<longleftrightarrow> (case idr of None \<Rightarrow> False | Some d \<Rightarrow> d \<in> set (map fst (sigs req)))"

end
