(* ===== verification/AuthActions.thy ===== *)
theory AuthActions
  imports Constants
begin

text \<open>
  Authorization actions and their ids (indy_common/authorize/auth_actions.py), and the matching of an
  action id against a rule's id (auth_cons_strategies.py, \<open>AbstractAuthStrategy\<close>).
\<close>

abbreviation RULE_DELIMETER :: string where "RULE_DELIMETER \<equiv> ''--''"
abbreviation ADD_PREFIX :: string where "ADD_PREFIX \<equiv> ''ADD''"
abbreviation EDIT_PREFIX :: string where "EDIT_PREFIX \<equiv> ''EDIT''"

record ActionDef =
  ad_txn_type :: string
  ad_prefix :: string
  ad_field :: string
  ad_old_value :: string
  ad_new_value :: string

definition compile_action_id :: "string \<Rightarrow> string \<Rightarrow> string \<Rightarrow> string \<Rightarrow> string \<Rightarrow> string" where
  "compile_action_id txn_type field old_value new_value prefx =
     py_join RULE_DELIMETER [txn_type, prefx, field, old_value, new_value]"

text \<open>\<open>ActionDef(*parts)\<close> needs five parts exactly.\<close>

definition split_action_id :: "string \<Rightarrow> ActionDef res" where
  "split_action_id action_id =
     (case py_split action_id RULE_DELIMETER of
        [t, p, f, old, new] \<Rightarrow>
          Inr \<lparr>ad_txn_type = t, ad_prefix = p, ad_field = f, ad_old_value = old, ad_new_value = new\<rparr>
      | _ \<Rightarrow> Inl (TypeError ''ActionDef''))"

datatype auth_action =
    AuthActionAdd (act_txn_type: string) (act_field: string) (act_value: string) (act_is_owner: bool)
  | AuthActionEdit (act_txn_type: string) (act_field: string) (act_old_value: string)
      (act_new_value: string) (act_is_owner: bool)

text \<open>The constructors turn \<open>None\<close> into the empty text and any other value into its text.\<close>

definition str_or_empty :: "pyval \<Rightarrow> string" where
  "str_or_empty v = (if v = PyNone then [] else py_str v)"

definition mk_AuthActionAdd :: "string \<Rightarrow> pyval \<Rightarrow> pyval \<Rightarrow> bool \<Rightarrow> auth_action" where
  "mk_AuthActionAdd txn_type field value is_owner =
     AuthActionAdd txn_type (str_or_empty field) (str_or_empty value) is_owner"

definition mk_AuthActionEdit :: "string \<Rightarrow> pyval \<Rightarrow> pyval \<Rightarrow> pyval \<Rightarrow> bool \<Rightarrow> auth_action" where
  "mk_AuthActionEdit txn_type field old_value new_value is_owner =
     AuthActionEdit txn_type (str_or_empty field) (str_or_empty old_value) (str_or_empty new_value) is_owner"

fun get_action_id :: "auth_action \<Rightarrow> string" where
  "get_action_id (AuthActionAdd t f v own) = compile_action_id t f ''*'' v ADD_PREFIX"
| "get_action_id (AuthActionEdit t f old new own) = compile_action_id t f old new EDIT_PREFIX"

definition is_accepted_action_id :: "string \<Rightarrow> string \<Rightarrow> bool res" where
  "is_accepted_action_id from_auth_map from_req =
     rbind (split_action_id from_auth_map) (\<lambda>am.
     rbind (split_action_id from_req) (\<lambda>r.
       if ad_prefix r \<noteq> ad_prefix am then Inr False
       else if ad_txn_type r \<noteq> ad_txn_type am then Inr False
       else if ad_field r \<noteq> ad_field am \<and> ad_field am \<noteq> ''*'' then Inr False
       else if ad_old_value r \<noteq> ad_old_value am \<and> ad_old_value am \<noteq> ''*'' then Inr False
       else if ad_new_value r \<noteq> ad_new_value am \<and> ad_new_value am \<noteq> ''*'' then Inr False
       else Inr True))"

section \<open>Properties\<close>

definition id_safe :: "string \<Rightarrow> bool" where
  "id_safe p \<longleftrightarrow> split_safe RULE_DELIMETER p"

lemma id_safe_literals [simp]:
  "id_safe ''ADD''" "id_safe ''EDIT''" "id_safe ''*''" "id_safe []"
  by (simp_all add: id_safe_def split_safe_def less_Suc_eq all_conj_distrib)

lemma split_compile_action_id:
  assumes "id_safe t" "id_safe p" "id_safe f" "id_safe old" "id_safe new"
  shows "split_action_id (compile_action_id t f old new p) =
    Inr \<lparr>ad_txn_type = t, ad_prefix = p, ad_field = f, ad_old_value = old, ad_new_value = new\<rparr>"
proof -
  have "py_split (py_join RULE_DELIMETER [t, p, f, old, new]) RULE_DELIMETER = [t, p, f, old, new]"
    by (rule py_split_join) (use assms in \<open>auto simp: id_safe_def\<close>)
  then show ?thesis by (simp only: split_action_id_def compile_action_id_def) simp
qed

text \<open>The wildcard pattern that a rule id stands for.\<close>

definition matches :: "string \<Rightarrow> string \<Rightarrow> bool" where
  "matches pat v \<longleftrightarrow> pat = v \<or> pat = ''*''"

fun action_prefix :: "auth_action \<Rightarrow> string" where
  "action_prefix (AuthActionAdd t f v own) = ADD_PREFIX"
| "action_prefix (AuthActionEdit t f old new own) = EDIT_PREFIX"

fun action_old :: "auth_action \<Rightarrow> string" where
  "action_old (AuthActionAdd t f v own) = ''*''"
| "action_old (AuthActionEdit t f old new own) = old"

fun action_new :: "auth_action \<Rightarrow> string" where
  "action_new (AuthActionAdd t f v own) = v"
| "action_new (AuthActionEdit t f old new own) = new"

definition action_safe :: "auth_action \<Rightarrow> bool" where
  "action_safe a \<longleftrightarrow> id_safe (act_txn_type a) \<and> id_safe (act_field a) \<and> id_safe (action_old a) \<and> id_safe (action_new a)"

lemma get_action_id_eq:
  "get_action_id a = compile_action_id (act_txn_type a) (act_field a) (action_old a) (action_new a) (action_prefix a)"
  by (cases a) simp_all

lemma id_safe_action_prefix [simp]: "id_safe (action_prefix a)"
  by (cases a) simp_all

lemma split_get_action_id:
  "action_safe a \<Longrightarrow> split_action_id (get_action_id a) =
    Inr \<lparr>ad_txn_type = act_txn_type a, ad_prefix = action_prefix a, ad_field = act_field a,
         ad_old_value = action_old a, ad_new_value = action_new a\<rparr>"
  by (simp add: get_action_id_eq split_compile_action_id action_safe_def)

text \<open>
  A value that contains the delimiter makes the id split into more than five parts.
\<close>

lemma split_action_id_delimiter_in_value:
  assumes "id_safe t" "id_safe p" "id_safe f" "id_safe old"
  shows "split_action_id (compile_action_id t f old (u @ RULE_DELIMETER @ w) p) = Inl (TypeError ''ActionDef'')"
proof -
  let ?tail = "py_split_from RULE_DELIMETER [] (u @ RULE_DELIMETER @ w)"
  have "py_split (compile_action_id t f old (u @ RULE_DELIMETER @ w) p) RULE_DELIMETER = t # p # f # old # ?tail"
    using assms
      py_split_from_part [of RULE_DELIMETER t "[]" "p @ RULE_DELIMETER @ f @ RULE_DELIMETER @ old @ RULE_DELIMETER @ u @ RULE_DELIMETER @ w"]
      py_split_from_part [of RULE_DELIMETER p "[]" "f @ RULE_DELIMETER @ old @ RULE_DELIMETER @ u @ RULE_DELIMETER @ w"]
      py_split_from_part [of RULE_DELIMETER f "[]" "old @ RULE_DELIMETER @ u @ RULE_DELIMETER @ w"]
      py_split_from_part [of RULE_DELIMETER old "[]" "u @ RULE_DELIMETER @ w"]
    by (simp add: compile_action_id_def py_split_def id_safe_def)
  moreover have "2 \<le> length ?tail"
    by (rule length_py_split_sep) simp
  then obtain x y zs where "?tail = x # y # zs"
    by (metis One_nat_def Suc_1 Suc_le_length_iff)
  ultimately show ?thesis by (simp add: split_action_id_def)
qed

lemma is_accepted_iff:
  assumes "action_safe rule" "action_safe a"
  shows "is_accepted_action_id (get_action_id rule) (get_action_id a) =
    Inr (action_prefix rule = action_prefix a \<and> act_txn_type rule = act_txn_type a
      \<and> matches (act_field rule) (act_field a) \<and> matches (action_old rule) (action_old a)
      \<and> matches (action_new rule) (action_new a))"
  using assms by (auto simp: is_accepted_action_id_def split_get_action_id matches_def)

end
