(* ===== verification/AuthConstraints.thy ===== *)
theory AuthConstraints
  imports Constants
begin

text \<open>
  Authorization constraints (indy_common/authorize/auth_constraints.py): the constraint classes, their
  dictionary form, their text form, and their construction from a dictionary. Fields of a dictionary
  whose JSON type the client message schema rejects (types.py, \<open>ConstraintEntityField\<close>: a signature
  count that is no integer, a flag that is no boolean, metadata that is no object) are a \<open>TypeError\<close>
  here.
\<close>

abbreviation CONSTRAINT_ID :: string where "CONSTRAINT_ID \<equiv> ''constraint_id''"
abbreviation AUTH_CONSTRAINTS :: string where "AUTH_CONSTRAINTS \<equiv> ''auth_constraints''"
abbreviation ROLE :: string where "ROLE \<equiv> ''role''"
abbreviation METADATA :: string where "METADATA \<equiv> ''metadata''"
abbreviation SIG_COUNT :: string where "SIG_COUNT \<equiv> ''sig_count''"
abbreviation NEED_TO_BE_OWNER :: string where "NEED_TO_BE_OWNER \<equiv> ''need_to_be_owner''"
abbreviation OFF_LEDGER_SIGNATURE :: string where "OFF_LEDGER_SIGNATURE \<equiv> ''off_ledger_signature''"

abbreviation ROLE_CONSTRAINT_ID :: string where "ROLE_CONSTRAINT_ID \<equiv> ''ROLE''"
abbreviation AND_CONSTRAINT_ID :: string where "AND_CONSTRAINT_ID \<equiv> ''AND''"
abbreviation OR_CONSTRAINT_ID :: string where "OR_CONSTRAINT_ID \<equiv> ''OR''"
abbreviation FORBIDDEN_CONSTRAINT_ID :: string where "FORBIDDEN_CONSTRAINT_ID \<equiv> ''FORBIDDEN''"

section \<open>The classes\<close>

text \<open>A role is \<open>None\<close> (IDENTITY_OWNER), a role code, or the wildcard.\<close>

definition accepted_roles :: "string option list" where
  "accepted_roles = [None, Some NETWORK_MONITOR, Some ENDORSER, Some STEWARD, Some TRUSTEE, Some ''*'']"

datatype constraint =
    AuthConstraint (c_role: "string option") (c_sig_count: int) (c_need_to_be_owner: bool)
      (c_off_ledger_signature: "bool option") (c_metadata: dict)
  | AuthConstraintAnd (c_and: "constraint list")
  | AuthConstraintOr (c_or: "constraint list")
  | AuthConstraintForbidden

fun constraint_id :: "constraint \<Rightarrow> string" where
  "constraint_id (AuthConstraint r n own off m) = ROLE_CONSTRAINT_ID"
| "constraint_id (AuthConstraintAnd cs) = AND_CONSTRAINT_ID"
| "constraint_id (AuthConstraintOr cs) = OR_CONSTRAINT_ID"
| "constraint_id AuthConstraintForbidden = FORBIDDEN_CONSTRAINT_ID"

fun role_val :: "string option \<Rightarrow> pyval" where
  "role_val None = PyNone"
| "role_val (Some r) = PyStr r"

definition is_off_ledger :: "bool option \<Rightarrow> bool" where
  "is_off_ledger off \<longleftrightarrow> off = Some True"

definition role_validation :: "pyval \<Rightarrow> bool \<Rightarrow> unit res" where
  "role_validation role off_ledger_signature =
     (if role \<notin> set (map role_val accepted_roles)
      then Inl (ValueError (''Role '' @ py_str role @ '' is not acceptable''))
      else if off_ledger_signature \<and> role \<noteq> PyStr ''*''
      then Inl (ValueError ([CHR 0x27] @ ''off_ledger_signature'' @ [CHR 0x27]
             @ '' can be set to True only if any role is accepted (role='' @ [CHR 0x27] @ ''*'' @ [CHR 0x27]
             @ ''). Got '' @ py_str role @ '' role instead.''))
      else Inr ())"

text \<open>\<open>set_metadata\<close>: the children of a composite share the metadata; a forbidden constraint has none.\<close>

fun set_metadata :: "dict \<Rightarrow> constraint \<Rightarrow> constraint" where
  "set_metadata md (AuthConstraint r n own off m) = AuthConstraint r n own off md"
| "set_metadata md (AuthConstraintAnd cs) = AuthConstraintAnd (map (set_metadata md) cs)"
| "set_metadata md (AuthConstraintOr cs) = AuthConstraintOr (map (set_metadata md) cs)"
| "set_metadata md AuthConstraintForbidden = AuthConstraintForbidden"

section \<open>Dictionary form\<close>

fun as_dict :: "constraint \<Rightarrow> dict" where
  "as_dict (AuthConstraint r n own off m) =
     [(CONSTRAINT_ID, PyStr ROLE_CONSTRAINT_ID), (ROLE, role_val r), (SIG_COUNT, PyInt n),
      (NEED_TO_BE_OWNER, PyBool own), (METADATA, PyDict m)]
     @ (case off of None \<Rightarrow> [] | Some b \<Rightarrow> [(OFF_LEDGER_SIGNATURE, PyBool b)])"
| "as_dict (AuthConstraintAnd cs) =
     [(CONSTRAINT_ID, PyStr AND_CONSTRAINT_ID), (AUTH_CONSTRAINTS, PyList (map (\<lambda>c. PyDict (as_dict c)) cs))]"
| "as_dict (AuthConstraintOr cs) =
     [(CONSTRAINT_ID, PyStr OR_CONSTRAINT_ID), (AUTH_CONSTRAINTS, PyList (map (\<lambda>c. PyDict (as_dict c)) cs))]"
| "as_dict AuthConstraintForbidden = [(CONSTRAINT_ID, PyStr FORBIDDEN_CONSTRAINT_ID)]"

text \<open>The types that the schema demands of the fields.\<close>

fun as_int :: "pyval \<Rightarrow> int res" where
  "as_int (PyInt i) = Inr i"
| "as_int v = Inl (TypeError ''int'')"

fun as_bool :: "pyval \<Rightarrow> bool res" where
  "as_bool (PyBool b) = Inr b"
| "as_bool v = Inl (TypeError ''bool'')"

fun as_opt_bool :: "pyval \<Rightarrow> bool option res" where
  "as_opt_bool PyNone = Inr None"
| "as_opt_bool (PyBool b) = Inr (Some b)"
| "as_opt_bool v = Inl (TypeError ''bool'')"

fun as_object :: "pyval \<Rightarrow> dict res" where
  "as_object (PyDict d) = Inr d"
| "as_object v = Inl (TypeError ''dict'')"

text \<open>\<open>AuthConstraint.from_dict\<close>\<close>

definition role_from_dict :: "dict \<Rightarrow> constraint res" where
  "role_from_dict d =
     rbind (dict_index d ROLE) (\<lambda>role.
     rbind (dict_index d SIG_COUNT) (\<lambda>sig_count.
       let own = dict_get_default d NEED_TO_BE_OWNER (PyBool False);
           off = dict_get_default d OFF_LEDGER_SIGNATURE PyNone;
           md = dict_get_default d METADATA (PyDict [])
       in rbind (role_validation role (truthy off)) (\<lambda>_.
          rbind (as_int sig_count) (\<lambda>n. rbind (as_bool own) (\<lambda>own'.
          rbind (as_opt_bool off) (\<lambda>off'. rbind (as_object md) (\<lambda>m.
            Inr (AuthConstraint (case role of PyStr s \<Rightarrow> Some s | _ \<Rightarrow> None) n own' off' m))))))))"

text \<open>
  \<open>dict(v)\<close> of a JSON value: an object, or a list whose elements yield two values each (a list, a text of two characters,
  an object with two keys). A key that is no text is under a name that no constraint has: it is only ever unexpected.
\<close>

fun pair_of :: "pyval \<Rightarrow> (pyval \<times> pyval) res" where
  "pair_of (PyList [k, v]) = Inr (k, v)"
| "pair_of (PyStr [a, b]) = Inr (PyStr [a], PyStr [b])"
| "pair_of (PyDict [(a, _), (b, _)]) = Inr (PyStr a, PyStr b)"
| "pair_of (PyList _) = Inl (ValueError ''dict'')"
| "pair_of (PyStr _) = Inl (ValueError ''dict'')"
| "pair_of (PyDict _) = Inl (ValueError ''dict'')"
| "pair_of _ = Inl (TypeError ''dict'')"

fun key_text :: "pyval \<Rightarrow> string res" where
  "key_text (PyStr s) = Inr s"
| "key_text (PyList _) = Inl (TypeError ''unhashable'')"
| "key_text (PyDict _) = Inl (TypeError ''unhashable'')"
| "key_text v = Inr (''<'' @ py_str v @ ''>'')"

fun dict_of_pairs :: "dict \<Rightarrow> pyval list \<Rightarrow> dict res" where
  "dict_of_pairs d [] = Inr d"
| "dict_of_pairs d (x # xs) = rbind (pair_of x) (\<lambda>(k, v). rbind (key_text k) (\<lambda>t. dict_of_pairs (dict_set d t v) xs))"

fun py_dict :: "pyval \<Rightarrow> dict res" where
  "py_dict (PyDict d) = Inr d"
| "py_dict (PyList xs) = dict_of_pairs [] xs"
| "py_dict (PyStr []) = Inr []"
| "py_dict (PyStr s) = Inl (ValueError ''dict'')"
| "py_dict v = Inl (TypeError ''dict'')"

text \<open>
  The loop of \<open>from_dict\<close> over a list of constraints, for the values that are no list: an empty text
  or object gives no element, any other iterates over texts, which \<open>dict\<close> refuses.
\<close>

fun non_list_elements :: "pyval \<Rightarrow> constraint list res" where
  "non_list_elements (PyStr []) = Inr []"
| "non_list_elements (PyStr s) = Inl (ValueError ''dict'')"
| "non_list_elements (PyDict []) = Inr []"
| "non_list_elements (PyDict ((k, v) # d)) = (if k = [] then Inl (KeyError CONSTRAINT_ID) else Inl (ValueError ''dict''))"
| "non_list_elements v = Inl (TypeError ''not iterable'')"

definition composite :: "(constraint list \<Rightarrow> constraint) \<Rightarrow> dict \<Rightarrow> constraint list \<Rightarrow> constraint res" where
  "composite cls d cs =
     (if \<forall>k\<in>set (map fst d). k = AUTH_CONSTRAINTS then Inr (cls cs)
      else Inl (TypeError ''unexpected keyword argument''))"

lemma size_map_of:
  "map_of d k = Some v \<Longrightarrow> size v < size_list (size_prod (\<lambda>_. 0) size) d"
  by (induction d) (auto split: if_splits simp: less_Suc_eq)

lemma pair_of_list: "pair_of x = Inr (k, PyList ys) \<Longrightarrow> x = PyList [k, PyList ys]"
  by (cases x rule: pair_of.cases) auto

lemma size_dict_of_pairs:
  assumes "dict_of_pairs d xs = Inr d'" "map_of d' k = Some (PyList ys)"
  shows "map_of d k = Some (PyList ys) \<or> size_list size ys < size_list size xs"
  using assms
proof (induction xs arbitrary: d)
  case (Cons x xs)
  then obtain a v t where x: "pair_of x = Inr (a, v)" "dict_of_pairs (dict_set d t v) xs = Inr d'"
    by (auto simp: rbind_Inr_iff)
  from Cons.IH [OF x(2) Cons.prems(2)] x(1) show ?case by (auto split: if_splits dest: pair_of_list)
qed simp

lemma size_py_dict:
  assumes "py_dict v = Inr d" "map_of d k = Some (PyList xs)"
  shows "size_list size xs < size v"
  using assms size_map_of [OF assms(2)]
  by (cases v rule: py_dict.cases) (auto dest: size_dict_of_pairs)

text \<open>
  \<open>strict\<close>: \<open>create_constraint\<close> and \<open>AuthConstraintOr.from_dict\<close> refuse a \<open>constraint_id\<close> that is
  \<open>None\<close> with a \<open>KeyError\<close>; \<open>AuthConstraintAnd.from_dict\<close> does not, and fails on the missing class.
\<close>

function (sequential) constraint_from :: "bool \<Rightarrow> pyval \<Rightarrow> constraint res"
  and constraints_from :: "bool \<Rightarrow> pyval list \<Rightarrow> constraint list res" where
  "constraint_from strict v =
     rbind (py_dict v) (\<lambda>d.
     rbind (dict_index d CONSTRAINT_ID) (\<lambda>cid.
       let d' = AList.delete CONSTRAINT_ID d;
           children = (\<lambda>st. case map_of d' AUTH_CONSTRAINTS of
                         None \<Rightarrow> Inl (KeyError AUTH_CONSTRAINTS)
                       | Some (PyList xs) \<Rightarrow> constraints_from st xs
                       | Some u \<Rightarrow> non_list_elements u)
       in if strict \<and> cid = PyNone then Inl (KeyError CONSTRAINT_ID)
          else if cid = PyStr ROLE_CONSTRAINT_ID then role_from_dict d'
          else if cid = PyStr AND_CONSTRAINT_ID then rbind (children False) (composite AuthConstraintAnd d')
          else if cid = PyStr OR_CONSTRAINT_ID then rbind (children True) (composite AuthConstraintOr d')
          else if cid = PyStr FORBIDDEN_CONSTRAINT_ID then Inr AuthConstraintForbidden
          else case cid of
                 PyList _ \<Rightarrow> Inl (TypeError ''unhashable'')
               | PyDict _ \<Rightarrow> Inl (TypeError ''unhashable'')
               | _ \<Rightarrow> Inl (AttributeError ''from_dict'')))"
| "constraints_from strict [] = Inr []"
| "constraints_from strict (x # xs) =
     rbind (constraint_from strict x) (\<lambda>c. rbind (constraints_from strict xs) (\<lambda>cs. Inr (c # cs)))"
  by pat_completeness auto
termination
  by (relation "measure (\<lambda>x. case x of Inl (s, v) \<Rightarrow> 2 * size v | Inr (s, vs) \<Rightarrow> Suc (2 * size_list size vs))")
    (auto dest: size_py_dict)

declare constraint_from.simps [simp del]

definition create_constraint :: "pyval \<Rightarrow> constraint res" where
  "create_constraint input_dict = constraint_from True input_dict"

section \<open>Text form\<close>

definition metadata_str :: "dict \<Rightarrow> string" where
  "metadata_str md =
     (if md = [] then []
      else ''with additional metadata '' @ py_join '' '' (concat (map (\<lambda>(k, v). [k, py_str v]) md)))"

definition role_constraint_str :: "string option \<Rightarrow> int \<Rightarrow> bool \<Rightarrow> bool option \<Rightarrow> dict \<Rightarrow> string" where
  "role_constraint_str r n own off md =
     (let role = (if r \<noteq> Some ''*'' then get_named_role r else ''ALL'');
          off_ledger = is_off_ledger off;
          error_msg =
            (if off_ledger \<and> n > 1 then int_str n @ '' signatures of any role (off-ledger included) are required''
             else if off_ledger \<and> n = 1 then ''1 signature of any role (off-ledger included) is required''
             else if role \<noteq> ''ALL'' \<and> own \<and> n > 1 then int_str n @ '' '' @ role @ '' signatures are required and needs to be owner''
             else if role \<noteq> ''ALL'' \<and> \<not> own \<and> n > 1 then int_str n @ '' '' @ role @ '' signatures are required''
             else if role \<noteq> ''ALL'' \<and> \<not> own \<and> n = 1 then ''1 '' @ role @ '' signature is required''
             else if role \<noteq> ''ALL'' \<and> own \<and> n = 1 then ''1 '' @ role @ '' signature is required and needs to be owner''
             else if role = ''ALL'' \<and> own \<and> n = 1 then ''1 signature of any role is required and needs to be owner''
             else if role = ''ALL'' \<and> \<not> own \<and> n = 1 then ''1 signature of any role is required '' @ role
             else if role = ''ALL'' \<and> \<not> own \<and> n > 1 then int_str n @ '' signatures of any role are required''
             else if role = ''ALL'' \<and> own \<and> n > 1 then int_str n @ '' signatures of any role are required and needs to be owner''
             else []);
          ms = metadata_str md
      in if ms \<noteq> [] then error_msg @ '' '' @ ms else error_msg)"

fun constraint_str :: "constraint \<Rightarrow> string" where
  "constraint_str (AuthConstraint r n own off m) = role_constraint_str r n own off m"
| "constraint_str (AuthConstraintAnd cs) = py_join '' AND '' (map constraint_str cs)"
| "constraint_str (AuthConstraintOr cs) = py_join '' OR '' (map constraint_str cs)"
| "constraint_str AuthConstraintForbidden = ''The action is forbidden''"

section \<open>Serialization\<close>

text \<open>
  The state serializer belongs to the plenum package: \<open>ser\<close> and \<open>deser\<close> are parameters.
\<close>

definition serialize_constraint :: "(pyval \<Rightarrow> 'b) \<Rightarrow> constraint option \<Rightarrow> 'b" where
  "serialize_constraint ser c = ser (PyDict (case c of None \<Rightarrow> [] | Some c' \<Rightarrow> as_dict c'))"

definition deserialize_constraint :: "('b \<Rightarrow> pyval) \<Rightarrow> 'b \<Rightarrow> constraint res" where
  "deserialize_constraint deser b = create_constraint (deser b)"

section \<open>Properties\<close>

text \<open>The constraints that the class constructors accept.\<close>

fun wf_constraint :: "constraint \<Rightarrow> bool" where
  "wf_constraint (AuthConstraint r n own off m) =
     (r \<in> set accepted_roles \<and> (is_off_ledger off \<longrightarrow> r = Some ''*''))"
| "wf_constraint (AuthConstraintAnd cs) = (\<forall>c\<in>set cs. wf_constraint c)"
| "wf_constraint (AuthConstraintOr cs) = (\<forall>c\<in>set cs. wf_constraint c)"
| "wf_constraint AuthConstraintForbidden = True"

lemma role_val_inject [simp]: "role_val r = role_val r' \<longleftrightarrow> r = r'"
  by (cases r; cases r') auto

lemma role_val_in_set: "role_val r \<in> role_val ` S \<longleftrightarrow> r \<in> S"
  by auto

lemma role_validation_ok:
  "role_validation v off = Inr u \<longleftrightarrow>
    (\<exists>r\<in>set accepted_roles. v = role_val r \<and> (off \<longrightarrow> r = Some ''*''))"
proof -
  have star: "PyStr ''*'' = role_val r \<longleftrightarrow> r = Some ''*''" "role_val r = PyStr ''*'' \<longleftrightarrow> r = Some ''*''" for r
    by (cases r; auto)+
  show ?thesis by (auto simp: role_validation_def star)
qed

lemma constraint_from_role:
  assumes "wf_constraint (AuthConstraint r n own off m)"
  shows "constraint_from strict (PyDict (as_dict (AuthConstraint r n own off m))) = Inr (AuthConstraint r n own off m)"
proof -
  have ok: "role_validation (role_val r) (is_off_ledger off) = Inr ()"
    using assms by (auto simp: role_validation_ok)
  show ?thesis
  proof (cases off)
    case None
    then show ?thesis using ok
      by (cases r) (simp_all add: constraint_from.simps dict_index_def role_from_dict_def dict_get_default_def is_off_ledger_def)
  next
    case (Some b)
    then show ?thesis using ok
      by (cases r; cases b) (simp_all add: constraint_from.simps dict_index_def role_from_dict_def dict_get_default_def is_off_ledger_def)
  qed
qed

lemma constraints_from_map:
  "(\<And>c. c \<in> set cs \<Longrightarrow> constraint_from st (f c) = Inr c) \<Longrightarrow> constraints_from st (map f cs) = Inr cs"
  by (induction cs) auto

lemma constraint_from_as_dict:
  "wf_constraint c \<Longrightarrow> constraint_from strict (PyDict (as_dict c)) = Inr c"
proof (induction c arbitrary: strict)
  case (AuthConstraint r n own off m)
  then show ?case by (rule constraint_from_role)
next
  case (AuthConstraintAnd cs)
  then have "constraints_from False (map (\<lambda>c. PyDict (as_dict c)) cs) = Inr cs"
    by (intro constraints_from_map) auto
  then show ?case by (simp add: constraint_from.simps dict_index_def composite_def)
next
  case (AuthConstraintOr cs)
  then have "constraints_from True (map (\<lambda>c. PyDict (as_dict c)) cs) = Inr cs"
    by (intro constraints_from_map) auto
  then show ?case by (simp add: constraint_from.simps dict_index_def composite_def)
next
  case AuthConstraintForbidden
  then show ?case by (simp add: constraint_from.simps dict_index_def)
qed

lemma as_opt_bool_truthy: "as_opt_bool v = Inr off \<Longrightarrow> truthy v = is_off_ledger off"
  by (cases v) (auto simp: is_off_ledger_def)

lemma role_of_role_val [simp]: "(case role_val r of PyStr s \<Rightarrow> Some s | _ \<Rightarrow> None) = r"
  by (cases r) auto

lemma role_from_dict_wf: "role_from_dict d = Inr c \<Longrightarrow> wf_constraint c"
  by (auto simp: role_from_dict_def rbind_Inr_iff role_validation_ok Let_def dest!: as_opt_bool_truthy)

lemma constraints_from_element:
  "constraints_from st xs = Inr cs \<Longrightarrow> c \<in> set cs \<Longrightarrow> \<exists>x. constraint_from st x = Inr c"
  by (induction xs arbitrary: cs) (auto simp: rbind_Inr_iff)

lemma non_list_elements_Nil: "non_list_elements u = Inr ys \<Longrightarrow> ys = []"
  by (induction u rule: non_list_elements.induct) (auto split: if_splits)

text \<open>What \<open>from_dict\<close> can return, and where its children come from.\<close>

lemma constraint_from_result:
  assumes "constraint_from strict v = Inr c"
  shows "(\<exists>d. role_from_dict d = Inr c) \<or> c = AuthConstraintForbidden
    \<or> (\<exists>cs. (c = AuthConstraintAnd cs \<or> c = AuthConstraintOr cs)
         \<and> (\<forall>c'\<in>set cs. \<exists>st x. constraint_from st x = Inr c'))"
proof -
  have children: "(case map_of d AUTH_CONSTRAINTS of None \<Rightarrow> Inl (KeyError AUTH_CONSTRAINTS)
        | Some (PyList xs) \<Rightarrow> constraints_from st xs | Some u \<Rightarrow> non_list_elements u) = Inr cs
      \<Longrightarrow> \<forall>c'\<in>set cs. \<exists>st x. constraint_from st x = Inr c'" for d st cs
    by (auto dest!: non_list_elements_Nil dest: constraints_from_element split: option.splits pyval.splits)
      (blast dest: constraints_from_element)
  show ?thesis using assms
    by (subst (asm) constraint_from.simps)
      (auto simp: rbind_Inr_iff Let_def composite_def dest!: children split: if_splits pyval.splits)
qed

lemma constraint_from_wf: "constraint_from strict v = Inr c \<Longrightarrow> wf_constraint c"
proof (induction c arbitrary: strict v)
  case (AuthConstraint r n own off m)
  with constraint_from_result [OF AuthConstraint] show ?case
    by (auto dest: role_from_dict_wf simp del: wf_constraint.simps)
next
  case (AuthConstraintAnd cs)
  from constraint_from_result [OF AuthConstraintAnd.prems] AuthConstraintAnd.IH show ?case
    using role_from_dict_wf by fastforce
next
  case (AuthConstraintOr cs)
  from constraint_from_result [OF AuthConstraintOr.prems] AuthConstraintOr.IH show ?case
    using role_from_dict_wf by fastforce
qed simp

end
