(* ===== verification/Authorizer.thy ===== *)
theory Authorizer
  imports AuthActions AuthConstraints
begin

text \<open>
  The authorizers (indy_common/authorize/authorizer.py). The identity cache enters as the function
  \<open>gr\<close>, the cache's \<open>getRole\<close> on uncommitted data: the role text of a DID (empty for an identity
  owner), a \<open>KeyError\<close> for a DID that is not on the ledger.
\<close>

section \<open>RolesAuthorizer\<close>

text \<open>\<open>_get_role\<close>; without an identifier the lookup fails on encoding \<open>None\<close>.\<close>

fun roles_get_role :: "(string \<Rightarrow> string res) \<Rightarrow> string option \<Rightarrow> string option res" where
  "roles_get_role gr None = Inl (AttributeError ''encode'')"
| "roles_get_role gr (Some idr) =
     (case gr idr of
        Inl (KeyError k) \<Rightarrow> Inr None
      | Inl e \<Rightarrow> Inl e
      | Inr r \<Rightarrow> Inr (Some r))"

definition get_role :: "(string \<Rightarrow> string res) \<Rightarrow> request \<Rightarrow> string option res" where
  "get_role gr req = (if req_identifier req = None then Inr None else roles_get_role gr (req_identifier req))"

definition role_of_text :: "string \<Rightarrow> string option" where
  "role_of_text r = (if r = [] then None else Some r)"

definition is_role_accepted :: "string option \<Rightarrow> string option \<Rightarrow> bool" where
  "is_role_accepted role auth_constraint_role \<longleftrightarrow>
     (case role of
        None \<Rightarrow> False
      | Some r \<Rightarrow> role_of_text r = auth_constraint_role \<or> auth_constraint_role = Some ''*'')"

fun count_signers :: "(string \<Rightarrow> string res) \<Rightarrow> string option \<Rightarrow> bool \<Rightarrow> (string \<times> string) list \<Rightarrow> int \<Rightarrow> int res" where
  "count_signers gr role off [] n = Inr n"
| "count_signers gr role off ((idr, sg) # rest) n =
     rbind (roles_get_role gr (Some idr)) (\<lambda>signer_role.
       count_signers gr role off rest (if off \<or> is_role_accepted signer_role role then n + 1 else n))"

definition get_sig_count :: "(string \<Rightarrow> string res) \<Rightarrow> request \<Rightarrow> string option \<Rightarrow> bool \<Rightarrow> int res" where
  "get_sig_count gr req role off_ledger_signature =
     (if has_signature req
      then (if off_ledger_signature then Inr 1
            else rbind (roles_get_role gr (req_identifier req)) (\<lambda>r. Inr (if is_role_accepted r role then 1 else 0)))
      else if sigs req = [] then Inr 0
      else if role = Some ''*'' then Inr (int (length (sigs req)))
      else count_signers gr role off_ledger_signature (sigs req) 0)"

definition is_owner_accepted :: "bool \<Rightarrow> auth_action \<Rightarrow> bool" where
  "is_owner_accepted need_to_be_owner action \<longleftrightarrow> \<not> (need_to_be_owner \<and> \<not> act_is_owner action)"

definition get_named_role_from_req :: "(string \<Rightarrow> string res) \<Rightarrow> request \<Rightarrow> string res" where
  "get_named_role_from_req gr req = rbind (get_role gr req) (\<lambda>r. Inr (get_named_role r))"

definition show_did :: "string option \<Rightarrow> string" where
  "show_did d = (case d of None \<Rightarrow> ''None'' | Some s \<Rightarrow> s)"

definition roles_authorize ::
  "(string \<Rightarrow> string res) \<Rightarrow> request \<Rightarrow> auth_action \<Rightarrow> string option \<Rightarrow> int \<Rightarrow> bool \<Rightarrow> bool option \<Rightarrow> (bool \<times> string) res" where
  "roles_authorize gr req action role sig_count need_to_be_owner off_ledger_signature =
     (let off = is_off_ledger off_ledger_signature
      in if \<not> is_owner_accepted need_to_be_owner action
         then (if act_field action \<noteq> ''*''
               then rbind (get_named_role_from_req gr req) (\<lambda>n.
                      Inr (False, n @ '' can not touch '' @ act_field action @ '' field since only the owner can modify it''))
               else rbind (get_named_role_from_req gr req) (\<lambda>n.
                      Inr (False, n @ '' can not edit '' @ get_name_from_code (act_txn_type action)
                                  @ '' txn since only owner can modify it'')))
         else rbind (get_role gr req) (\<lambda>author_role.
           if sig_count > 0 \<and> \<not> off \<and> author_role = None
           then Inr (False, ''sender'' @ [CHR 0x27] @ ''s DID '' @ show_did (req_identifier req) @ '' is not found in the Ledger'')
           else if sig_count > 0 \<and> sigs req \<noteq> [] \<and> \<not> signed_by req (req_identifier req)
           then Inr (False, ''Author must sign the transaction'')
           else rbind (get_sig_count gr req role off) (\<lambda>n.
             if n \<ge> sig_count then Inr (True, [])
             else if role \<noteq> Some ''*''
             then rbind (Roles_name role) (\<lambda>rn. Inr (False, ''Not enough '' @ rn @ '' signatures''))
             else Inr (False, ''Not enough * signatures''))))"

section \<open>EndorserAuthorizer\<close>

definition NO_NEED_FOR_ENDORSER_ROLES :: "string list" where
  "NO_NEED_FOR_ENDORSER_ROLES = [ENDORSER, TRUSTEE, STEWARD]"

fun endorser_get_role :: "(string \<Rightarrow> string res) \<Rightarrow> string option \<Rightarrow> string option res" where
  "endorser_get_role gr None = Inr None"
| "endorser_get_role gr (Some idr) = roles_get_role gr (Some idr)"

definition check_endorser_role :: "(string \<Rightarrow> string res) \<Rightarrow> request \<Rightarrow> (bool \<times> string) res" where
  "check_endorser_role gr req =
     (if endorser req = None then Inr (True, [])
      else rbind (endorser_get_role gr (endorser req)) (\<lambda>endorser_role.
        if endorser_role \<noteq> Some ENDORSER
        then Inr (False, ''Endorser must have one of the following roles: {'' @ [CHR 0x27] @ ''ENDORSER'' @ [CHR 0x27] @ ''}'')
        else Inr (True, [])))"

definition is_privileged :: "string option \<Rightarrow> bool" where
  "is_privileged role \<longleftrightarrow> (case role of None \<Rightarrow> False | Some r \<Rightarrow> r \<in> set NO_NEED_FOR_ENDORSER_ROLES)"

text \<open>The loop over the signatures stops at the first privileged one.\<close>

fun has_privileged_sig :: "(string \<Rightarrow> string res) \<Rightarrow> (string \<times> string) list \<Rightarrow> bool res" where
  "has_privileged_sig gr [] = Inr False"
| "has_privileged_sig gr ((idr, sg) # rest) =
     rbind (endorser_get_role gr (Some idr)) (\<lambda>role. if is_privileged role then Inr True else has_privileged_sig gr rest)"

definition check_endorser_field_presence :: "(string \<Rightarrow> string res) \<Rightarrow> request \<Rightarrow> (bool \<times> string) res" where
  "check_endorser_field_presence gr req =
     (let present = (case endorser req of None \<Rightarrow> False | Some e \<Rightarrow> e \<noteq> [])
      in if endorser req \<noteq> req_identifier req \<and> present \<and> sigs req = []
         then Inr (False, ''Endorser must sign the transaction'')
         else if endorser req \<noteq> req_identifier req \<and> present \<and> \<not> signed_by req (endorser req)
         then Inr (False, ''Endorser must sign the transaction'')
         else if sigs req = [] then Inr (True, [])
         else if \<not> (length (sigs req) > 1 \<or> \<not> signed_by req (req_identifier req)) then Inr (True, [])
         else rbind (endorser_get_role gr (req_identifier req)) (\<lambda>author_role.
           if is_privileged (case author_role of None \<Rightarrow> None | Some r \<Rightarrow> role_of_text r) then Inr (True, [])
           else rbind (has_privileged_sig gr (sigs req)) (\<lambda>priv.
             if \<not> priv then Inr (True, [])
             else if endorser req = None
             then Inr (False, [CHR 0x27] @ ''Endorser'' @ [CHR 0x27] @ '' field must be explicitly set for the endorsed transaction'')
             else Inr (True, []))))"

definition endorser_authorize :: "(string \<Rightarrow> string res) \<Rightarrow> request \<Rightarrow> (bool \<times> string) res" where
  "endorser_authorize gr req =
     rbind (check_endorser_role gr req) (\<lambda>(res, reason).
       if \<not> res then Inr (res, reason)
       else rbind (check_endorser_field_presence gr req) (\<lambda>(res', reason').
         if \<not> res' then Inr (res', reason') else Inr (True, [])))"

section \<open>CompositeAuthorizer\<close>

datatype authorizer = RolesAuthorizer | EndorserAuthorizer | AndAuthorizer | OrAuthorizer | ForbiddenAuthorizer

type_synonym registry = "(string \<times> authorizer list) list"

text \<open>\<open>self.authorizers.setdefault(auth_constraint_id, []).append(authorizer)\<close>\<close>

definition register_authorizer :: "registry \<Rightarrow> authorizer \<Rightarrow> string \<Rightarrow> registry" where
  "register_authorizer regs a cid =
     AList.update cid ((case map_of regs cid of None \<Rightarrow> [] | Some as \<Rightarrow> as) @ [a]) regs"

text \<open>The attribute \<open>auth_constraints\<close> of the composite constraints.\<close>

fun children :: "constraint \<Rightarrow> constraint list option" where
  "children (AuthConstraintAnd cs) = Some cs"
| "children (AuthConstraintOr cs) = Some cs"
| "children c = None"

lemma size_children: "children c = Some cs \<Longrightarrow> c' \<in> set cs \<Longrightarrow> size c' < size c"
  by (cases c) (auto dest: size_list_estimation' [of _ _ _ size] simp: less_Suc_eq_le size_list_estimation')

text \<open>The loop of \<open>CompositeAuthorizer.authorize\<close> over the authorizers registered for a constraint.\<close>

fun run_authorizers :: "(authorizer \<Rightarrow> (bool \<times> string) res) \<Rightarrow> authorizer list \<Rightarrow> (bool \<times> string) res" where
  "run_authorizers run [] = Inr (True, [])"
| "run_authorizers run (a # as) =
     rbind (run a) (\<lambda>(authorized, reason).
       if \<not> authorized then Inl (AuthValidationError reason) else run_authorizers run as)"

text \<open>The loop of \<open>AndAuthorizer.authorize\<close>: the first child that fails ends it.\<close>

fun and_loop :: "(constraint \<Rightarrow> (bool \<times> string) res) \<Rightarrow> constraint list \<Rightarrow> (bool \<times> string) res" where
  "and_loop authorize [] = Inr (True, [])"
| "and_loop authorize (c # cs) =
     rbind (authorize c) (\<lambda>(authorized, reason).
       if \<not> authorized then Inl (AuthValidationError reason) else and_loop authorize cs)"

text \<open>
  The loop of \<open>OrAuthorizer.authorize\<close>: it tries every child, counts the successes and collects the
  reasons of the \<open>AuthValidationError\<close>s; any other exception ends it.
\<close>

fun or_loop ::
  "(constraint \<Rightarrow> (bool \<times> string) res) \<Rightarrow> constraint list \<Rightarrow> nat \<Rightarrow> string list \<Rightarrow> (nat \<times> string list) res" where
  "or_loop authorize [] successes fails = Inr (successes, fails)"
| "or_loop authorize (c # cs) successes fails =
     (case authorize c of
        Inl (AuthValidationError reason) \<Rightarrow>
          or_loop authorize cs successes (fails @ [''Constraint: '' @ constraint_str c @ '', Error: '' @ reason])
      | Inl e \<Rightarrow> Inl e
      | Inr r \<Rightarrow> or_loop authorize cs (Suc successes) fails)"

definition or_reason :: "constraint \<Rightarrow> string list \<Rightarrow> string" where
  "or_reason c fails =
     py_join [CHR 0x0A] [''Rule for this action is: '' @ constraint_str c, ''Failed checks:'', py_join [CHR 0x0A] fails]"

lemma run_authorizers_cong [fundef_cong]:
  "as = as' \<Longrightarrow> (\<And>a. a \<in> set as' \<Longrightarrow> f a = g a) \<Longrightarrow> run_authorizers f as = run_authorizers g as'"
  by (induction as arbitrary: as') (auto simp: rbind_def split: sum.splits prod.splits)

lemma and_loop_cong [fundef_cong]:
  "cs = cs' \<Longrightarrow> (\<And>c. c \<in> set cs' \<Longrightarrow> f c = g c) \<Longrightarrow> and_loop f cs = and_loop g cs'"
  by (induction cs arbitrary: cs') (auto simp: rbind_def split: sum.splits prod.splits)

lemma or_loop_cong [fundef_cong]:
  "cs = cs' \<Longrightarrow> n = n' \<Longrightarrow> fs = fs' \<Longrightarrow> (\<And>c. c \<in> set cs' \<Longrightarrow> f c = g c) \<Longrightarrow> or_loop f cs n fs = or_loop g cs' n' fs'"
proof (induction cs arbitrary: cs' n fs n' fs')
  case (Cons c cs)
  then show ?case by (auto split: sum.splits exn.splits)
qed auto

text \<open>
  \<open>authorize\<close> of the composite; the and- and or-authorizers call it back through \<open>self.parent\<close>. The
  arguments \<open>regs\<close>, \<open>gr\<close>, \<open>req\<close> and \<open>action\<close> are fixed throughout.
\<close>

function composite_authorize ::
  "registry \<Rightarrow> (string \<Rightarrow> string res) \<Rightarrow> request \<Rightarrow> auth_action \<Rightarrow> constraint \<Rightarrow> (bool \<times> string) res" where
  "composite_authorize regs gr req action c =
     (case map_of regs (constraint_id c) of
        None \<Rightarrow> Inl (TypeError ''not iterable'')
      | Some as \<Rightarrow>
          run_authorizers (\<lambda>a.
            case a of
              RolesAuthorizer \<Rightarrow>
                (case c of
                   AuthConstraint r n own off m \<Rightarrow> roles_authorize gr req action r n own off
                 | _ \<Rightarrow> Inl (AttributeError ''need_to_be_owner''))
            | EndorserAuthorizer \<Rightarrow> endorser_authorize gr req
            | ForbiddenAuthorizer \<Rightarrow> Inr (False, constraint_str c)
            | AndAuthorizer \<Rightarrow>
                (case children c of
                   None \<Rightarrow> Inl (AttributeError ''auth_constraints'')
                 | Some cs \<Rightarrow> and_loop (\<lambda>c'. composite_authorize regs gr req action c') cs)
            | OrAuthorizer \<Rightarrow>
                (case children c of
                   None \<Rightarrow> Inl (AttributeError ''auth_constraints'')
                 | Some cs \<Rightarrow>
                     rbind (or_loop (\<lambda>c'. composite_authorize regs gr req action c') cs 0 []) (\<lambda>(successes, fails).
                       if successes = 0 then Inl (AuthValidationError (or_reason c fails)) else Inr (True, [])))) as)"
  by pat_completeness auto
termination
  by (relation "measure (\<lambda>(regs, gr, req, action, c). size c)") (auto dest: size_children)

declare composite_authorize.simps [simp del]

text \<open>\<open>register_default_authorizers\<close> of the request validator (auth_request_validator.py).\<close>

definition default_authorizers :: registry where
  "default_authorizers =
     register_authorizer (register_authorizer (register_authorizer (register_authorizer (register_authorizer []
       RolesAuthorizer ROLE_CONSTRAINT_ID) EndorserAuthorizer ROLE_CONSTRAINT_ID)
       AndAuthorizer AND_CONSTRAINT_ID) OrAuthorizer OR_CONSTRAINT_ID)
       ForbiddenAuthorizer FORBIDDEN_CONSTRAINT_ID"

section \<open>The contract: a constraint as a formula over the signatures\<close>

text \<open>
  What a constraint demands, stated over the role of each DID on the ledger (\<open>ro\<close>, \<open>None\<close> for a DID
  that is not there) with no control flow and no messages.
\<close>

definition sig_counts :: "(string \<Rightarrow> string option) \<Rightarrow> request \<Rightarrow> string option \<Rightarrow> bool \<Rightarrow> int" where
  "sig_counts ro req role off =
     (if has_signature req
      then (if off \<or> (\<exists>d. req_identifier req = Some d \<and> is_role_accepted (ro d) role) then 1 else 0)
      else int (length (filter (\<lambda>(d, _). role = Some ''*'' \<or> off \<or> is_role_accepted (ro d) role) (sigs req))))"

definition role_satisfied ::
  "(string \<Rightarrow> string option) \<Rightarrow> request \<Rightarrow> auth_action \<Rightarrow> string option \<Rightarrow> int \<Rightarrow> bool \<Rightarrow> bool option \<Rightarrow> bool" where
  "role_satisfied ro req action role n own off \<longleftrightarrow>
     (own \<longrightarrow> act_is_owner action)
     \<and> (n > 0 \<and> \<not> is_off_ledger off \<longrightarrow> (\<exists>d. req_identifier req = Some d \<and> ro d \<noteq> None))
     \<and> (n > 0 \<and> sigs req \<noteq> [] \<longrightarrow> signed_by req (req_identifier req))
     \<and> n \<le> sig_counts ro req role (is_off_ledger off)"

definition endorsed :: "(string \<Rightarrow> string option) \<Rightarrow> request \<Rightarrow> bool" where
  "endorsed ro req \<longleftrightarrow>
     (\<forall>e. endorser req = Some e \<longrightarrow>
        ro e = Some ENDORSER \<and> (req_identifier req = Some e \<or> e = [] \<or> signed_by req (Some e)))
     \<and> (endorser req = None \<and> sigs req \<noteq> [] \<and> (length (sigs req) > 1 \<or> \<not> signed_by req (req_identifier req)) \<longrightarrow>
        (\<exists>d. req_identifier req = Some d \<and> is_privileged (ro d))
        \<or> \<not> (\<exists>(d, s)\<in>set (sigs req). is_privileged (ro d)))"

fun satisfied :: "(string \<Rightarrow> string option) \<Rightarrow> request \<Rightarrow> auth_action \<Rightarrow> constraint \<Rightarrow> bool" where
  "satisfied ro req action (AuthConstraint r n own off m) =
     (role_satisfied ro req action r n own off \<and> endorsed ro req)"
| "satisfied ro req action (AuthConstraintAnd cs) = (\<forall>c\<in>set cs. satisfied ro req action c)"
| "satisfied ro req action (AuthConstraintOr cs) = (\<exists>c\<in>set cs. satisfied ro req action c)"
| "satisfied ro req action AuthConstraintForbidden = False"

text \<open>The cache answers every lookup with a role or a \<open>KeyError\<close>, and \<open>ro\<close> is its contents.\<close>

definition reads :: "(string \<Rightarrow> string res) \<Rightarrow> (string \<Rightarrow> string option) \<Rightarrow> bool" where
  "reads gr ro \<longleftrightarrow> (\<forall>d. gr d = (case ro d of None \<Rightarrow> Inl (KeyError d) | Some r \<Rightarrow> Inr r))"

lemma roles_get_role_reads [simp]: "reads gr ro \<Longrightarrow> roles_get_role gr (Some d) = Inr (ro d)"
  by (auto simp: reads_def split: option.splits)

lemma endorser_get_role_reads:
  "reads gr ro \<Longrightarrow> endorser_get_role gr idr = Inr (case idr of None \<Rightarrow> None | Some d \<Rightarrow> ro d)"
  by (cases idr) (auto simp del: roles_get_role.simps)

lemma count_signers_reads:
  "reads gr ro \<Longrightarrow> count_signers gr role off ss n =
     Inr (n + int (length (filter (\<lambda>(d, _). off \<or> is_role_accepted (ro d) role) ss)))"
  by (induction ss arbitrary: n) (auto split: if_splits simp del: roles_get_role.simps)

lemma is_privileged_None [simp]: "\<not> is_privileged None"
  by (simp add: is_privileged_def)

lemma has_privileged_sig_reads:
  "reads gr ro \<Longrightarrow> has_privileged_sig gr ss = Inr (\<exists>(d, s)\<in>set ss. is_privileged (ro d))"
  by (induction ss) (auto simp: endorser_get_role_reads simp del: endorser_get_role.simps)

lemma is_privileged_text: "is_privileged (case r of None \<Rightarrow> None | Some x \<Rightarrow> role_of_text x) = is_privileged r"
  by (auto simp: is_privileged_def role_of_text_def NO_NEED_FOR_ENDORSER_ROLES_def split: option.splits)

lemma get_sig_count_reads:
  assumes "reads gr ro" "req_identifier req = Some d"
  shows "get_sig_count gr req role off = Inr (sig_counts ro req role off)"
  using assms
  by (auto simp: get_sig_count_def sig_counts_def count_signers_reads simp del: roles_get_role.simps)

lemma get_role_reads: "reads gr ro \<Longrightarrow> req_identifier req = Some d \<Longrightarrow> get_role gr req = Inr (ro d)"
  by (simp add: get_role_def del: roles_get_role.simps)

lemma Roles_name_accepted:
  "r \<in> set accepted_roles \<Longrightarrow> r \<noteq> Some ''*'' \<Longrightarrow> \<exists>n. Roles_name r = Inr n"
  by (auto simp: accepted_roles_def Roles_name_def Roles_def)

lemma roles_authorize_iff:
  assumes "reads gr ro" "req_identifier req = Some d" "r \<in> set accepted_roles"
  shows "\<exists>msg. roles_authorize gr req action r n own off = Inr (role_satisfied ro req action r n own off, msg)"
proof -
  note facts = get_role_reads [OF assms(1,2)] get_sig_count_reads [OF assms(1,2)]
  show ?thesis
    using assms(2) Roles_name_accepted [OF assms(3)]
    by (cases "r = Some ''*''")
      (auto simp: roles_authorize_def role_satisfied_def is_owner_accepted_def get_named_role_from_req_def facts Let_def)
qed

lemma endorser_authorize_iff:
  assumes "reads gr ro"
  shows "\<exists>msg. endorser_authorize gr req = Inr (endorsed ro req, msg)"
proof (cases "endorser req")
  case None
  then show ?thesis
    by (cases "req_identifier req")
      (auto simp: endorser_authorize_def check_endorser_role_def check_endorser_field_presence_def endorsed_def
        endorser_get_role_reads [OF assms] has_privileged_sig_reads [OF assms] is_privileged_text Let_def
        simp del: endorser_get_role.simps)
next
  case (Some e)
  then show ?thesis
    by (cases "endorser req = req_identifier req"; cases "sigs req = []"; cases e)
      (auto simp: endorser_authorize_def check_endorser_role_def check_endorser_field_presence_def endorsed_def
        endorser_get_role_reads [OF assms] has_privileged_sig_reads [OF assms] is_privileged_text Let_def
        signed_by_def simp del: endorser_get_role.simps)
qed

lemma default_authorizers_lookup [simp]:
  "map_of default_authorizers ROLE_CONSTRAINT_ID = Some [RolesAuthorizer, EndorserAuthorizer]"
  "map_of default_authorizers AND_CONSTRAINT_ID = Some [AndAuthorizer]"
  "map_of default_authorizers OR_CONSTRAINT_ID = Some [OrAuthorizer]"
  "map_of default_authorizers FORBIDDEN_CONSTRAINT_ID = Some [ForbiddenAuthorizer]"
  by (simp_all add: default_authorizers_def register_authorizer_def)

text \<open>Either success or an \<open>AuthValidationError\<close>, according to a truth value.\<close>

definition verdict :: "bool \<Rightarrow> (bool \<times> string) res \<Rightarrow> bool" where
  "verdict b r \<longleftrightarrow> (if b then r = Inr (True, []) else (\<exists>reason. r = Inl (AuthValidationError reason)))"

lemma verdict_True [simp]: "verdict True r \<longleftrightarrow> r = Inr (True, [])"
  by (simp add: verdict_def)

lemma verdict_False [simp]: "verdict False r \<longleftrightarrow> (\<exists>reason. r = Inl (AuthValidationError reason))"
  by (simp add: verdict_def)

lemma verdict_and_loop:
  assumes "\<And>c. c \<in> set cs \<Longrightarrow> verdict (ok c) (authorize c)"
  shows "verdict (\<forall>c\<in>set cs. ok c) (and_loop authorize cs)"
  using assms
proof (induction cs)
  case (Cons c cs)
  from Cons.prems have "verdict (ok c) (authorize c)" by simp
  moreover have "verdict (\<forall>c\<in>set cs. ok c) (and_loop authorize cs)"
    by (rule Cons.IH) (use Cons.prems in auto)
  ultimately show ?case by (cases "ok c") auto
qed simp

lemma verdict_or_loop:
  assumes "\<And>c. c \<in> set cs \<Longrightarrow> verdict (ok c) (authorize c)"
  shows "\<exists>fails'. or_loop authorize cs n fails = Inr (n + length (filter ok cs), fails')"
  using assms
proof (induction cs arbitrary: n fails)
  case (Cons c cs)
  from Cons.prems have head: "verdict (ok c) (authorize c)" by simp
  have tail: "\<exists>fails'. or_loop authorize cs k fs = Inr (k + length (filter ok cs), fails')" for k fs
    by (rule Cons.IH) (use Cons.prems in auto)
  show ?case using head tail [of "Suc n"] tail [of n] by (cases "ok c") auto
qed simp

theorem composite_authorize_verdict:
  assumes "reads gr ro" "req_identifier req = Some d" "wf_constraint c"
  shows "verdict (satisfied ro req action c) (composite_authorize default_authorizers gr req action c)"
  using assms(3)
proof (induction c)
  case (AuthConstraint r n own off m)
  then have "r \<in> set accepted_roles" by simp
  with roles_authorize_iff [OF assms(1,2)] endorser_authorize_iff [OF assms(1)] obtain m1 m2 where
    "roles_authorize gr req action r n own off = Inr (role_satisfied ro req action r n own off, m1)"
    "endorser_authorize gr req = Inr (endorsed ro req, m2)"
    by metis
  then show ?case by (simp add: composite_authorize.simps verdict_def)
next
  case (AuthConstraintAnd cs)
  have "verdict (\<forall>c\<in>set cs. satisfied ro req action c)
      (and_loop (composite_authorize default_authorizers gr req action) cs)"
    by (rule verdict_and_loop) (use AuthConstraintAnd in auto)
  then show ?case by (auto simp: composite_authorize.simps [of _ _ _ _ "AuthConstraintAnd cs"] verdict_def split: if_splits)
next
  case (AuthConstraintOr cs)
  obtain fails where "or_loop (composite_authorize default_authorizers gr req action) cs 0 []
      = Inr (0 + length (filter (satisfied ro req action) cs), fails)"
    using verdict_or_loop [of cs "satisfied ro req action" "composite_authorize default_authorizers gr req action" 0 "[]"]
      AuthConstraintOr by auto
  then show ?case
    by (auto simp: composite_authorize.simps [of _ _ _ _ "AuthConstraintOr cs"] verdict_def filter_empty_conv)
next
  case AuthConstraintForbidden
  then show ?case by (simp add: composite_authorize.simps verdict_def)
qed

end
