(* ===== verification/AuthMap.thy ===== *)
theory AuthMap
  imports Authorizer
begin

text \<open>
  The default authorization rules (indy_common/authorize/auth_map.py): the actions, the constraints and
  the ordered map from action ids to constraints, in the order of the source, which is the order in
  which the strategies try them.
\<close>

named_theorems auth_map_defs \<open>the actions, constraints and rules of the default map\<close>

section \<open>Actions\<close>

text \<open>\<open>edit_role_actions[role_from][role_to]\<close>\<close>

definition edit_role_action :: "string option \<Rightarrow> string option \<Rightarrow> auth_action" where [auth_map_defs]:
  "edit_role_action role_from role_to = mk_AuthActionEdit NYM (PyStr ROLE) (role_val role_from) (role_val role_to) True"

definition add_new_trustee :: auth_action where [auth_map_defs]:
  "add_new_trustee = mk_AuthActionAdd NYM (PyStr ROLE) (PyStr TRUSTEE) True"

definition add_new_steward :: auth_action where [auth_map_defs]:
  "add_new_steward = mk_AuthActionAdd NYM (PyStr ROLE) (PyStr STEWARD) True"

definition add_new_endorser :: auth_action where [auth_map_defs]:
  "add_new_endorser = mk_AuthActionAdd NYM (PyStr ROLE) (PyStr ENDORSER) True"

definition add_new_network_monitor :: auth_action where [auth_map_defs]:
  "add_new_network_monitor = mk_AuthActionAdd NYM (PyStr ROLE) (PyStr NETWORK_MONITOR) True"

definition add_new_identity_owner :: auth_action where [auth_map_defs]:
  "add_new_identity_owner = mk_AuthActionAdd NYM (PyStr ROLE) PyNone True"

definition key_rotation :: auth_action where [auth_map_defs]:
  "key_rotation = mk_AuthActionEdit NYM (PyStr ''verkey'') (PyStr ''*'') (PyStr ''*'') True"

definition txn_author_agreement :: auth_action where [auth_map_defs]:
  "txn_author_agreement = mk_AuthActionAdd TXN_AUTHOR_AGREEMENT (PyStr ''*'') (PyStr ''*'') True"

definition edit_txn_author_agreement :: auth_action where [auth_map_defs]:
  "edit_txn_author_agreement = mk_AuthActionEdit TXN_AUTHOR_AGREEMENT (PyStr ''*'') (PyStr ''*'') (PyStr ''*'') True"

definition disable_txn_author_agreement :: auth_action where [auth_map_defs]:
  "disable_txn_author_agreement = mk_AuthActionAdd TXN_AUTHOR_AGREEMENT_DISABLE (PyStr ''*'') (PyStr ''*'') True"

definition txn_author_agreement_aml :: auth_action where [auth_map_defs]:
  "txn_author_agreement_aml = mk_AuthActionAdd TXN_AUTHOR_AGREEMENT_AML (PyStr ''*'') (PyStr ''*'') True"

definition add_attrib :: auth_action where [auth_map_defs]:
  "add_attrib = mk_AuthActionAdd ATTRIB (PyStr ''*'') (PyStr ''*'') True"

definition edit_attrib :: auth_action where [auth_map_defs]:
  "edit_attrib = mk_AuthActionEdit ATTRIB (PyStr ''*'') (PyStr ''*'') (PyStr ''*'') True"

definition add_schema :: auth_action where [auth_map_defs]:
  "add_schema = mk_AuthActionAdd SCHEMA (PyStr ''*'') (PyStr ''*'') True"

definition edit_schema :: auth_action where [auth_map_defs]:
  "edit_schema = mk_AuthActionEdit SCHEMA (PyStr ''*'') (PyStr ''*'') (PyStr ''*'') True"

definition add_json_ld_context :: auth_action where [auth_map_defs]:
  "add_json_ld_context = mk_AuthActionAdd JSON_LD_CONTEXT (PyStr ''*'') (PyStr ''*'') True"

definition edit_json_ld_context :: auth_action where [auth_map_defs]:
  "edit_json_ld_context = mk_AuthActionEdit JSON_LD_CONTEXT (PyStr ''*'') (PyStr ''*'') (PyStr ''*'') True"

definition add_rich_schema :: auth_action where [auth_map_defs]:
  "add_rich_schema = mk_AuthActionAdd RICH_SCHEMA (PyStr ''*'') (PyStr ''*'') True"

definition edit_rich_schema :: auth_action where [auth_map_defs]:
  "edit_rich_schema = mk_AuthActionEdit RICH_SCHEMA (PyStr ''*'') (PyStr ''*'') (PyStr ''*'') True"

definition add_rich_schema_encoding :: auth_action where [auth_map_defs]:
  "add_rich_schema_encoding = mk_AuthActionAdd RICH_SCHEMA_ENCODING (PyStr ''*'') (PyStr ''*'') True"

definition edit_rich_schema_encoding :: auth_action where [auth_map_defs]:
  "edit_rich_schema_encoding = mk_AuthActionEdit RICH_SCHEMA_ENCODING (PyStr ''*'') (PyStr ''*'') (PyStr ''*'') True"

definition add_rich_schema_mapping :: auth_action where [auth_map_defs]:
  "add_rich_schema_mapping = mk_AuthActionAdd RICH_SCHEMA_MAPPING (PyStr ''*'') (PyStr ''*'') True"

definition edit_rich_schema_mapping :: auth_action where [auth_map_defs]:
  "edit_rich_schema_mapping = mk_AuthActionEdit RICH_SCHEMA_MAPPING (PyStr ''*'') (PyStr ''*'') (PyStr ''*'') True"

definition add_rich_schema_cred_def :: auth_action where [auth_map_defs]:
  "add_rich_schema_cred_def = mk_AuthActionAdd RICH_SCHEMA_CRED_DEF (PyStr ''*'') (PyStr ''*'') True"

definition edit_rich_schema_cred_def :: auth_action where [auth_map_defs]:
  "edit_rich_schema_cred_def = mk_AuthActionEdit RICH_SCHEMA_CRED_DEF (PyStr ''*'') (PyStr ''*'') (PyStr ''*'') True"

definition add_rich_schema_pres_def :: auth_action where [auth_map_defs]:
  "add_rich_schema_pres_def = mk_AuthActionAdd RICH_SCHEMA_PRES_DEF (PyStr ''*'') (PyStr ''*'') True"

definition edit_rich_schema_pres_def :: auth_action where [auth_map_defs]:
  "edit_rich_schema_pres_def = mk_AuthActionEdit RICH_SCHEMA_PRES_DEF (PyStr ''*'') (PyStr ''*'') (PyStr ''*'') True"

definition add_claim_def :: auth_action where [auth_map_defs]:
  "add_claim_def = mk_AuthActionAdd CLAIM_DEF (PyStr ''*'') (PyStr ''*'') True"

definition edit_claim_def :: auth_action where [auth_map_defs]:
  "edit_claim_def = mk_AuthActionEdit CLAIM_DEF (PyStr ''*'') (PyStr ''*'') (PyStr ''*'') True"

definition adding_new_node :: auth_action where [auth_map_defs]:
  "adding_new_node = mk_AuthActionAdd NODE (PyStr ''services'') (PyList [PyStr ''VALIDATOR'']) True"

definition adding_new_node_with_empty_services :: auth_action where [auth_map_defs]:
  "adding_new_node_with_empty_services = mk_AuthActionAdd NODE (PyStr ''services'') (PyList []) True"

definition demote_node :: auth_action where [auth_map_defs]:
  "demote_node = mk_AuthActionEdit NODE (PyStr ''services'') (PyList [PyStr ''VALIDATOR'']) (PyList []) True"

definition promote_node :: auth_action where [auth_map_defs]:
  "promote_node = mk_AuthActionEdit NODE (PyStr ''services'') (PyList []) (PyList [PyStr ''VALIDATOR'']) True"

definition change_node_ip :: auth_action where [auth_map_defs]:
  "change_node_ip = mk_AuthActionEdit NODE (PyStr ''node_ip'') (PyStr ''*'') (PyStr ''*'') True"

definition change_node_port :: auth_action where [auth_map_defs]:
  "change_node_port = mk_AuthActionEdit NODE (PyStr ''node_port'') (PyStr ''*'') (PyStr ''*'') True"

definition change_client_ip :: auth_action where [auth_map_defs]:
  "change_client_ip = mk_AuthActionEdit NODE (PyStr ''client_ip'') (PyStr ''*'') (PyStr ''*'') True"

definition change_client_port :: auth_action where [auth_map_defs]:
  "change_client_port = mk_AuthActionEdit NODE (PyStr ''client_port'') (PyStr ''*'') (PyStr ''*'') True"

definition change_bls_key :: auth_action where [auth_map_defs]:
  "change_bls_key = mk_AuthActionEdit NODE (PyStr ''blskey'') (PyStr ''*'') (PyStr ''*'') True"

definition start_upgrade :: auth_action where [auth_map_defs]:
  "start_upgrade = mk_AuthActionAdd POOL_UPGRADE (PyStr ''action'') (PyStr ''start'') True"

definition cancel_upgrade :: auth_action where [auth_map_defs]:
  "cancel_upgrade = mk_AuthActionEdit POOL_UPGRADE (PyStr ''action'') (PyStr ''start'') (PyStr ''cancel'') True"

definition pool_restart :: auth_action where [auth_map_defs]:
  "pool_restart = mk_AuthActionAdd POOL_RESTART (PyStr ''action'') (PyStr ''*'') True"

definition pool_config :: auth_action where [auth_map_defs]:
  "pool_config = mk_AuthActionEdit POOL_CONFIG (PyStr ''action'') (PyStr ''*'') (PyStr ''*'') True"

definition auth_rule :: auth_action where [auth_map_defs]:
  "auth_rule = mk_AuthActionEdit AUTH_RULE (PyStr ''*'') (PyStr ''*'') (PyStr ''*'') True"

definition auth_rules :: auth_action where [auth_map_defs]:
  "auth_rules = mk_AuthActionEdit AUTH_RULES (PyStr ''*'') (PyStr ''*'') (PyStr ''*'') True"

definition validator_info :: auth_action where [auth_map_defs]:
  "validator_info = mk_AuthActionAdd VALIDATOR_INFO (PyStr ''*'') (PyStr ''*'') True"

definition add_revoc_reg_def :: auth_action where [auth_map_defs]:
  "add_revoc_reg_def = mk_AuthActionAdd REVOC_REG_DEF (PyStr ''*'') (PyStr ''*'') True"

definition add_revoc_reg_entry :: auth_action where [auth_map_defs]:
  "add_revoc_reg_entry = mk_AuthActionAdd REVOC_REG_ENTRY (PyStr ''*'') (PyStr ''*'') True"

definition edit_revoc_reg_def :: auth_action where [auth_map_defs]:
  "edit_revoc_reg_def = mk_AuthActionEdit REVOC_REG_DEF (PyStr ''*'') (PyStr ''*'') (PyStr ''*'') True"

definition edit_revoc_reg_entry :: auth_action where [auth_map_defs]:
  "edit_revoc_reg_entry = mk_AuthActionEdit REVOC_REG_ENTRY (PyStr ''*'') (PyStr ''*'') (PyStr ''*'') True"

definition edit_frozen_ledgers :: auth_action where [auth_map_defs]:
  "edit_frozen_ledgers = mk_AuthActionEdit LEDGERS_FREEZE (PyStr ''*'') (PyStr ''*'') (PyStr ''*'') True"

definition edit_config_flag :: auth_action where [auth_map_defs]:
  "edit_config_flag = mk_AuthActionEdit FLAG (PyStr ''*'') (PyStr ''*'') (PyStr ''*'') True"

section \<open>Constraints\<close>

definition anyone_constraint :: constraint where [auth_map_defs]:
  "anyone_constraint = AuthConstraint (Some ''*'') 1 False None []"

definition no_one_constraint :: constraint where [auth_map_defs]:
  "no_one_constraint = AuthConstraintForbidden"

definition owner_constraint :: constraint where [auth_map_defs]:
  "owner_constraint = AuthConstraint (Some ''*'') 1 True None []"

definition steward_owner_constraint :: constraint where [auth_map_defs]:
  "steward_owner_constraint = AuthConstraint (Some STEWARD) 1 True None []"

definition one_trustee_constraint :: constraint where [auth_map_defs]:
  "one_trustee_constraint = AuthConstraint (Some TRUSTEE) 1 False None []"

definition three_trustee_constraint :: constraint where [auth_map_defs]:
  "three_trustee_constraint = AuthConstraint (Some TRUSTEE) 3 False None []"

definition steward_or_trustee_constraint :: constraint where [auth_map_defs]:
  "steward_or_trustee_constraint = AuthConstraintOr
       [AuthConstraint (Some STEWARD) 1 False None [],
        AuthConstraint (Some TRUSTEE) 1 False None []]"

definition endorser_or_steward_or_trustee_constraint :: constraint where [auth_map_defs]:
  "endorser_or_steward_or_trustee_constraint = AuthConstraintOr
       [AuthConstraint (Some TRUSTEE) 1 False None [],
        AuthConstraint (Some STEWARD) 1 False None [],
        AuthConstraint (Some ENDORSER) 1 False None []]"

definition trustee_or_owner_steward :: constraint where [auth_map_defs]:
  "trustee_or_owner_steward = AuthConstraintOr
       [AuthConstraint (Some TRUSTEE) 1 False None [],
        AuthConstraint (Some STEWARD) 1 True None []]"

definition endorser_or_steward_or_trustee_owner_constraint :: constraint where [auth_map_defs]:
  "endorser_or_steward_or_trustee_owner_constraint = AuthConstraintOr
       [AuthConstraint (Some TRUSTEE) 1 True None [],
        AuthConstraint (Some STEWARD) 1 True None [],
        AuthConstraint (Some ENDORSER) 1 True None []]"

section \<open>The map\<close>

definition auth_map_base :: "(string \<times> constraint) list" where [auth_map_defs]:
  "auth_map_base =
    [(get_action_id add_new_trustee, one_trustee_constraint),
     (get_action_id add_new_steward, one_trustee_constraint),
     (get_action_id add_new_endorser, steward_or_trustee_constraint),
     (get_action_id add_new_network_monitor, steward_or_trustee_constraint),
     (get_action_id add_new_identity_owner, endorser_or_steward_or_trustee_constraint),
     (get_action_id key_rotation, owner_constraint),
     (get_action_id txn_author_agreement, one_trustee_constraint),
     (get_action_id edit_txn_author_agreement, one_trustee_constraint),
     (get_action_id disable_txn_author_agreement, one_trustee_constraint),
     (get_action_id txn_author_agreement_aml, one_trustee_constraint),
     (get_action_id add_attrib, owner_constraint),
     (get_action_id edit_attrib, owner_constraint),
     (get_action_id add_schema, endorser_or_steward_or_trustee_constraint),
     (get_action_id edit_schema, no_one_constraint),
     (get_action_id add_json_ld_context, endorser_or_steward_or_trustee_constraint),
     (get_action_id edit_json_ld_context, no_one_constraint),
     (get_action_id add_rich_schema, endorser_or_steward_or_trustee_constraint),
     (get_action_id edit_rich_schema, no_one_constraint),
     (get_action_id add_rich_schema_encoding, endorser_or_steward_or_trustee_constraint),
     (get_action_id edit_rich_schema_encoding, no_one_constraint),
     (get_action_id add_rich_schema_mapping, endorser_or_steward_or_trustee_constraint),
     (get_action_id edit_rich_schema_mapping, no_one_constraint),
     (get_action_id add_rich_schema_cred_def, endorser_or_steward_or_trustee_constraint),
     (get_action_id edit_rich_schema_cred_def, no_one_constraint),
     (get_action_id add_rich_schema_pres_def, endorser_or_steward_or_trustee_constraint),
     (get_action_id edit_rich_schema_pres_def, no_one_constraint),
     (get_action_id add_claim_def, endorser_or_steward_or_trustee_constraint),
     (get_action_id edit_claim_def, owner_constraint),
     (get_action_id adding_new_node, steward_owner_constraint),
     (get_action_id adding_new_node_with_empty_services, steward_owner_constraint),
     (get_action_id demote_node, trustee_or_owner_steward),
     (get_action_id promote_node, trustee_or_owner_steward),
     (get_action_id change_node_ip, steward_owner_constraint),
     (get_action_id change_node_port, steward_owner_constraint),
     (get_action_id change_client_ip, steward_owner_constraint),
     (get_action_id change_client_port, steward_owner_constraint),
     (get_action_id change_bls_key, steward_owner_constraint),
     (get_action_id start_upgrade, one_trustee_constraint),
     (get_action_id cancel_upgrade, one_trustee_constraint),
     (get_action_id pool_restart, one_trustee_constraint),
     (get_action_id pool_config, one_trustee_constraint),
     (get_action_id auth_rule, one_trustee_constraint),
     (get_action_id auth_rules, one_trustee_constraint),
     (get_action_id validator_info, AuthConstraintOr
       [AuthConstraint (Some TRUSTEE) 1 False None [],
        AuthConstraint (Some STEWARD) 1 False None [],
        AuthConstraint (Some NETWORK_MONITOR) 1 False None []]),
     (get_action_id add_revoc_reg_def, endorser_or_steward_or_trustee_constraint),
     (get_action_id add_revoc_reg_entry, endorser_or_steward_or_trustee_owner_constraint),
     (get_action_id edit_revoc_reg_def, owner_constraint),
     (get_action_id edit_revoc_reg_entry, owner_constraint),
     (get_action_id edit_frozen_ledgers, three_trustee_constraint),
     (get_action_id edit_config_flag, one_trustee_constraint)]"

definition auth_map_trustee :: "(string \<times> constraint) list" where [auth_map_defs]:
  "auth_map_trustee =
    [(get_action_id (edit_role_action (Some TRUSTEE) (Some TRUSTEE)), owner_constraint),
     (get_action_id (edit_role_action (Some TRUSTEE) (Some STEWARD)), one_trustee_constraint),
     (get_action_id (edit_role_action (Some TRUSTEE) (Some ENDORSER)), one_trustee_constraint),
     (get_action_id (edit_role_action (Some TRUSTEE) (Some NETWORK_MONITOR)), one_trustee_constraint),
     (get_action_id (edit_role_action (Some TRUSTEE) None), one_trustee_constraint)]"

definition auth_map_steward :: "(string \<times> constraint) list" where [auth_map_defs]:
  "auth_map_steward =
    [(get_action_id (edit_role_action (Some STEWARD) (Some TRUSTEE)), one_trustee_constraint),
     (get_action_id (edit_role_action (Some STEWARD) (Some STEWARD)), owner_constraint),
     (get_action_id (edit_role_action (Some STEWARD) (Some ENDORSER)), one_trustee_constraint),
     (get_action_id (edit_role_action (Some STEWARD) (Some NETWORK_MONITOR)), one_trustee_constraint),
     (get_action_id (edit_role_action (Some STEWARD) None), one_trustee_constraint)]"

definition auth_map_endorser :: "(string \<times> constraint) list" where [auth_map_defs]:
  "auth_map_endorser =
    [(get_action_id (edit_role_action (Some ENDORSER) (Some TRUSTEE)), one_trustee_constraint),
     (get_action_id (edit_role_action (Some ENDORSER) (Some STEWARD)), one_trustee_constraint),
     (get_action_id (edit_role_action (Some ENDORSER) (Some ENDORSER)), owner_constraint),
     (get_action_id (edit_role_action (Some ENDORSER) (Some NETWORK_MONITOR)), one_trustee_constraint),
     (get_action_id (edit_role_action (Some ENDORSER) None), one_trustee_constraint)]"

definition auth_map_network_monitor :: "(string \<times> constraint) list" where [auth_map_defs]:
  "auth_map_network_monitor =
    [(get_action_id (edit_role_action (Some NETWORK_MONITOR) (Some TRUSTEE)), one_trustee_constraint),
     (get_action_id (edit_role_action (Some NETWORK_MONITOR) (Some STEWARD)), one_trustee_constraint),
     (get_action_id (edit_role_action (Some NETWORK_MONITOR) (Some ENDORSER)), steward_or_trustee_constraint),
     (get_action_id (edit_role_action (Some NETWORK_MONITOR) (Some NETWORK_MONITOR)), owner_constraint),
     (get_action_id (edit_role_action (Some NETWORK_MONITOR) None), steward_or_trustee_constraint)]"

definition auth_map_identity_owner :: "(string \<times> constraint) list" where [auth_map_defs]:
  "auth_map_identity_owner =
    [(get_action_id (edit_role_action None (Some TRUSTEE)), one_trustee_constraint),
     (get_action_id (edit_role_action None (Some STEWARD)), one_trustee_constraint),
     (get_action_id (edit_role_action None (Some ENDORSER)), steward_or_trustee_constraint),
     (get_action_id (edit_role_action None (Some NETWORK_MONITOR)), steward_or_trustee_constraint),
     (get_action_id (edit_role_action None None), owner_constraint)]"

text \<open>\<open>OrderedDict.update\<close>\<close>

definition odict_update :: "(string \<times> 'v) list \<Rightarrow> (string \<times> 'v) list \<Rightarrow> (string \<times> 'v) list" where
  "odict_update m e = fold (\<lambda>(k, v). AList.update k v) e m"

definition auth_map :: "(string \<times> constraint) list" where
  "auth_map =
     odict_update (odict_update (odict_update (odict_update (odict_update auth_map_base
       auth_map_trustee) auth_map_steward) auth_map_endorser) auth_map_network_monitor) auth_map_identity_owner"

section \<open>Properties\<close>

text \<open>The same rules, with the actions in place of their ids.\<close>

definition default_rules :: "(auth_action \<times> constraint) list" where
  "default_rules =
    [(add_new_trustee, one_trustee_constraint),
     (add_new_steward, one_trustee_constraint),
     (add_new_endorser, steward_or_trustee_constraint),
     (add_new_network_monitor, steward_or_trustee_constraint),
     (add_new_identity_owner, endorser_or_steward_or_trustee_constraint),
     (key_rotation, owner_constraint),
     (txn_author_agreement, one_trustee_constraint),
     (edit_txn_author_agreement, one_trustee_constraint),
     (disable_txn_author_agreement, one_trustee_constraint),
     (txn_author_agreement_aml, one_trustee_constraint),
     (add_attrib, owner_constraint),
     (edit_attrib, owner_constraint),
     (add_schema, endorser_or_steward_or_trustee_constraint),
     (edit_schema, no_one_constraint),
     (add_json_ld_context, endorser_or_steward_or_trustee_constraint),
     (edit_json_ld_context, no_one_constraint),
     (add_rich_schema, endorser_or_steward_or_trustee_constraint),
     (edit_rich_schema, no_one_constraint),
     (add_rich_schema_encoding, endorser_or_steward_or_trustee_constraint),
     (edit_rich_schema_encoding, no_one_constraint),
     (add_rich_schema_mapping, endorser_or_steward_or_trustee_constraint),
     (edit_rich_schema_mapping, no_one_constraint),
     (add_rich_schema_cred_def, endorser_or_steward_or_trustee_constraint),
     (edit_rich_schema_cred_def, no_one_constraint),
     (add_rich_schema_pres_def, endorser_or_steward_or_trustee_constraint),
     (edit_rich_schema_pres_def, no_one_constraint),
     (add_claim_def, endorser_or_steward_or_trustee_constraint),
     (edit_claim_def, owner_constraint),
     (adding_new_node, steward_owner_constraint),
     (adding_new_node_with_empty_services, steward_owner_constraint),
     (demote_node, trustee_or_owner_steward),
     (promote_node, trustee_or_owner_steward),
     (change_node_ip, steward_owner_constraint),
     (change_node_port, steward_owner_constraint),
     (change_client_ip, steward_owner_constraint),
     (change_client_port, steward_owner_constraint),
     (change_bls_key, steward_owner_constraint),
     (start_upgrade, one_trustee_constraint),
     (cancel_upgrade, one_trustee_constraint),
     (pool_restart, one_trustee_constraint),
     (pool_config, one_trustee_constraint),
     (auth_rule, one_trustee_constraint),
     (auth_rules, one_trustee_constraint),
     (validator_info, AuthConstraintOr
       [AuthConstraint (Some TRUSTEE) 1 False None [],
        AuthConstraint (Some STEWARD) 1 False None [],
        AuthConstraint (Some NETWORK_MONITOR) 1 False None []]),
     (add_revoc_reg_def, endorser_or_steward_or_trustee_constraint),
     (add_revoc_reg_entry, endorser_or_steward_or_trustee_owner_constraint),
     (edit_revoc_reg_def, owner_constraint),
     (edit_revoc_reg_entry, owner_constraint),
     (edit_frozen_ledgers, three_trustee_constraint),
     (edit_config_flag, one_trustee_constraint),
     ((edit_role_action (Some TRUSTEE) (Some TRUSTEE)), owner_constraint),
     ((edit_role_action (Some TRUSTEE) (Some STEWARD)), one_trustee_constraint),
     ((edit_role_action (Some TRUSTEE) (Some ENDORSER)), one_trustee_constraint),
     ((edit_role_action (Some TRUSTEE) (Some NETWORK_MONITOR)), one_trustee_constraint),
     ((edit_role_action (Some TRUSTEE) None), one_trustee_constraint),
     ((edit_role_action (Some STEWARD) (Some TRUSTEE)), one_trustee_constraint),
     ((edit_role_action (Some STEWARD) (Some STEWARD)), owner_constraint),
     ((edit_role_action (Some STEWARD) (Some ENDORSER)), one_trustee_constraint),
     ((edit_role_action (Some STEWARD) (Some NETWORK_MONITOR)), one_trustee_constraint),
     ((edit_role_action (Some STEWARD) None), one_trustee_constraint),
     ((edit_role_action (Some ENDORSER) (Some TRUSTEE)), one_trustee_constraint),
     ((edit_role_action (Some ENDORSER) (Some STEWARD)), one_trustee_constraint),
     ((edit_role_action (Some ENDORSER) (Some ENDORSER)), owner_constraint),
     ((edit_role_action (Some ENDORSER) (Some NETWORK_MONITOR)), one_trustee_constraint),
     ((edit_role_action (Some ENDORSER) None), one_trustee_constraint),
     ((edit_role_action (Some NETWORK_MONITOR) (Some TRUSTEE)), one_trustee_constraint),
     ((edit_role_action (Some NETWORK_MONITOR) (Some STEWARD)), one_trustee_constraint),
     ((edit_role_action (Some NETWORK_MONITOR) (Some ENDORSER)), steward_or_trustee_constraint),
     ((edit_role_action (Some NETWORK_MONITOR) (Some NETWORK_MONITOR)), owner_constraint),
     ((edit_role_action (Some NETWORK_MONITOR) None), steward_or_trustee_constraint),
     ((edit_role_action None (Some TRUSTEE)), one_trustee_constraint),
     ((edit_role_action None (Some STEWARD)), one_trustee_constraint),
     ((edit_role_action None (Some ENDORSER)), steward_or_trustee_constraint),
     ((edit_role_action None (Some NETWORK_MONITOR)), steward_or_trustee_constraint),
     ((edit_role_action None None), owner_constraint)]"

definition rule_ids :: "(auth_action \<times> constraint) list \<Rightarrow> (string \<times> constraint) list" where
  "rule_ids rules = map (\<lambda>(a, c). (get_action_id a, c)) rules"

lemma update_new: "k \<notin> set (map fst m) \<Longrightarrow> AList.update k v m = m @ [(k, v)]"
  by (induction m) auto

lemma odict_update_distinct:
  "distinct (map fst (m @ e)) \<Longrightarrow> odict_update m e = m @ e"
proof (induction e arbitrary: m)
  case Nil
  then show ?case by (simp add: odict_update_def)
next
  case (Cons kv e)
  obtain k v where kv: "kv = (k, v)" by force
  with Cons.prems have "AList.update k v m = m @ [(k, v)]"
    by (intro update_new) auto
  with Cons.IH [of "m @ [(k, v)]"] Cons.prems kv show ?case
    by (simp add: odict_update_def)
qed

lemma odict_update_chain:
  assumes "distinct (map fst (m @ e1 @ e2 @ e3 @ e4 @ e5))"
  shows "odict_update (odict_update (odict_update (odict_update (odict_update m e1) e2) e3) e4) e5 =
    m @ e1 @ e2 @ e3 @ e4 @ e5"
proof -
  have step: "distinct (map fst (m @ e @ es)) \<Longrightarrow> odict_update m e = m @ e \<and> distinct (map fst ((m @ e) @ es))"
    for m e es :: "(string \<times> 'a) list"
    by (simp add: odict_update_distinct Int_Un_distrib)
  show ?thesis
    using step [OF assms] step [of "m @ e1" e2 "e3 @ e4 @ e5"] step [of "m @ e1 @ e2" e3 "e4 @ e5"]
      step [of "m @ e1 @ e2 @ e3" e4 e5] step [of "m @ e1 @ e2 @ e3 @ e4" e5 "[]"]
    by (simp only: append_assoc append_Nil2 simp_thms)
qed

lemma distinct_rule_ids: "distinct (map fst (rule_ids default_rules))"
  by code_simp

lemma default_rules_safe: "(a, c) \<in> set default_rules \<Longrightarrow> action_safe a"
proof -
  have "\<forall>a\<in>set (map fst default_rules). action_safe a" by code_simp
  then show "(a, c) \<in> set default_rules \<Longrightarrow> action_safe a" by force
qed

lemma default_rules_wf: "(a, c) \<in> set default_rules \<Longrightarrow> wf_constraint c"
proof -
  have "\<forall>c\<in>set (map snd default_rules). wf_constraint c" by code_simp
  then show "(a, c) \<in> set default_rules \<Longrightarrow> wf_constraint c" by force
qed

lemma auth_map_eq: "auth_map = rule_ids default_rules"
proof -
  have parts: "rule_ids default_rules =
      auth_map_base @ auth_map_trustee @ auth_map_steward @ auth_map_endorser @ auth_map_network_monitor @ auth_map_identity_owner"
    by (simp only: rule_ids_def default_rules_def auth_map_base_def auth_map_trustee_def auth_map_steward_def
        auth_map_endorser_def auth_map_network_monitor_def auth_map_identity_owner_def list.map append.simps split)
  show ?thesis
    unfolding parts auth_map_def by (rule odict_update_chain [OF distinct_rule_ids [unfolded parts]])
qed

end
