(* ===== verification/AuthValidator.thy ===== *)
theory AuthValidator
  imports AuthMap
begin

text \<open>
  The strategies that find the constraint of an action (indy_common/authorize/auth_cons_strategies.py)
  and the write request validator (auth_request_validator.py). The lookup of the configuration state
  (\<open>state.get\<close> on uncommitted data, \<open>None\<close> for an absent or empty value) and the state serializer
  are parameters, as is the text form of a request (\<open>fmt\<close>) that an error message quotes. The counter
  behind the \<open>AUTH_RULES_FROM_STATE_COUNT\<close> metric is left out.
\<close>

abbreviation MARKER_AUTH_RULE :: string where "MARKER_AUTH_RULE \<equiv> ''1''"

definition make_state_path_for_auth_rule :: "string \<Rightarrow> string" where [path_defs]:
  "make_state_path_for_auth_rule action_id = MARKER_AUTH_RULE @ '':'' @ action_id"

section \<open>Strategies\<close>

text \<open>\<open>_find_auth_constraint_key\<close>, the same in both strategies: the first id of the map that accepts.\<close>

fun find_auth_constraint_key :: "string \<Rightarrow> (string \<times> constraint) list \<Rightarrow> string option res" where
  "find_auth_constraint_key action_id [] = Inr None"
| "find_auth_constraint_key action_id ((am_id, c) # m) =
     rbind (is_accepted_action_id am_id action_id) (\<lambda>ok.
       if ok then Inr (Some am_id) else find_auth_constraint_key action_id m)"

definition local_get_auth_constraint :: "(string \<times> constraint) list \<Rightarrow> string \<Rightarrow> constraint option res" where
  "local_get_auth_constraint amap action_id =
     rbind (find_auth_constraint_key action_id amap) (\<lambda>am_id.
       Inr (case am_id of None \<Rightarrow> None | Some k \<Rightarrow> map_of amap k))"

definition get_from_state :: "(string \<Rightarrow> 'b option) \<Rightarrow> ('b \<Rightarrow> pyval) \<Rightarrow> string \<Rightarrow> constraint option res" where
  "get_from_state st deser key =
     (case st key of
        None \<Rightarrow> Inr None
      | Some from_state \<Rightarrow> rbind (deserialize_constraint deser from_state) (\<lambda>c. Inr (Some c)))"

definition find_auth_constraint ::
  "(string \<times> constraint) list \<Rightarrow> (string \<Rightarrow> 'b option) \<Rightarrow> ('b \<Rightarrow> pyval) \<Rightarrow> string \<Rightarrow> constraint option res" where
  "find_auth_constraint amap st deser action_id =
     rbind (find_auth_constraint_key action_id amap) (\<lambda>am_id.
       case am_id of
         None \<Rightarrow> Inr None
       | Some k \<Rightarrow>
           if k = [] then Inr None
           else rbind (get_from_state st deser (make_state_path_for_auth_rule k)) (\<lambda>c.
                  case c of None \<Rightarrow> Inr (map_of amap k) | Some c' \<Rightarrow> Inr (Some c')))"

definition config_ledger_get_auth_constraint ::
  "(string \<times> constraint) list \<Rightarrow> (string \<Rightarrow> 'b option) \<Rightarrow> ('b \<Rightarrow> pyval) \<Rightarrow> string \<Rightarrow> constraint option res" where
  "config_ledger_get_auth_constraint amap st deser action_id = find_auth_constraint amap st deser action_id"

abbreviation LOCAL_AUTH_POLICY :: int where "LOCAL_AUTH_POLICY \<equiv> 1"
abbreviation CONFIG_LEDGER_AUTH_POLICY :: int where "CONFIG_LEDGER_AUTH_POLICY \<equiv> 2"

text \<open>\<open>create_auth_strategy\<close>: no strategy for any other policy.\<close>

definition create_auth_strategy ::
  "int \<Rightarrow> (string \<times> constraint) list \<Rightarrow> (string \<Rightarrow> 'b option) \<Rightarrow> ('b \<Rightarrow> pyval)
     \<Rightarrow> (string \<Rightarrow> constraint option res) option" where
  "create_auth_strategy authPolicy amap st deser =
     (if authPolicy = LOCAL_AUTH_POLICY then Some (local_get_auth_constraint amap)
      else if authPolicy = CONFIG_LEDGER_AUTH_POLICY then Some (config_ledger_get_auth_constraint amap st deser)
      else None)"

section \<open>The validator\<close>

text \<open>
  \<open>validate\<close>: the loop returns at its first action, with \<open>True\<close> or an exception; with no action it
  falls through and returns \<open>None\<close>.
\<close>

fun validate ::
  "(request \<Rightarrow> string) \<Rightarrow> registry \<Rightarrow> (string \<Rightarrow> string res) \<Rightarrow> (string \<Rightarrow> constraint option res) \<Rightarrow> request
     \<Rightarrow> auth_action list \<Rightarrow> bool option res" where
  "validate fmt regs gr strategy req [] = Inr None"
| "validate fmt regs gr strategy req (action # rest) =
     rbind (strategy (get_action_id action)) (\<lambda>auth_constraint.
       case auth_constraint of
         Some c \<Rightarrow>
           (case composite_authorize regs gr req action c of
              Inl (AuthValidationError reason) \<Rightarrow> Inl (UnauthorizedClientRequest (req_identifier req) (reqId req) reason)
            | Inl e \<Rightarrow> Inl e
            | Inr _ \<Rightarrow> Inr (Some True))
       | None \<Rightarrow> Inl (UnauthorizedClientRequest (req_identifier req) (reqId req)
                   (''Request can not be authorized as action is not allowed: '' @ fmt req)))"

section \<open>The interface of a strategy\<close>

text \<open>The rule that governs an action: the first one whose pattern it matches.\<close>

definition rule_matches :: "auth_action \<Rightarrow> auth_action \<Rightarrow> bool" where
  "rule_matches rule a \<longleftrightarrow>
     action_prefix rule = action_prefix a \<and> act_txn_type rule = act_txn_type a
     \<and> matches (act_field rule) (act_field a) \<and> matches (action_old rule) (action_old a)
     \<and> matches (action_new rule) (action_new a)"

definition governing_rule :: "(auth_action \<times> constraint) list \<Rightarrow> auth_action \<Rightarrow> (auth_action \<times> constraint) option" where
  "governing_rule rules a = find (\<lambda>(rule, c). rule_matches rule a) rules"

text \<open>
  A strategy answers every well-formed action with the constraint in force (\<open>in_force\<close>), and that
  constraint is one that the authorizers understand.
\<close>

locale auth_strategy =
  fixes strategy :: "string \<Rightarrow> constraint option res"
    and in_force :: "auth_action \<Rightarrow> constraint option res"
  assumes strategy_in_force: "action_safe a \<Longrightarrow> strategy (get_action_id a) = in_force a"
    and in_force_wf: "in_force a = Inr (Some c) \<Longrightarrow> wf_constraint c"
begin

lemma validate_first:
  assumes "reads gr ro" "req_identifier req = Some d" "action_safe a" "in_force a = Inr (Some c)"
  shows "if satisfied ro req a c then validate fmt default_authorizers gr strategy req (a # as) = Inr (Some True)
    else \<exists>reason. validate fmt default_authorizers gr strategy req (a # as)
           = Inl (UnauthorizedClientRequest (Some d) (reqId req) reason)"
  using composite_authorize_verdict [OF assms(1,2) in_force_wf [OF assms(4)], of a]
  by (auto simp: verdict_def strategy_in_force [OF assms(3)] assms(2,4) split: if_splits)

lemma validate_accepts:
  assumes "reads gr ro" "req_identifier req = Some d" "action_safe a"
  shows "validate fmt default_authorizers gr strategy req (a # as) = Inr r \<longleftrightarrow>
    r = Some True \<and> (\<exists>c. in_force a = Inr (Some c) \<and> satisfied ro req a c)"
proof (cases "in_force a")
  case (Inr co)
  show ?thesis
  proof (cases co)
    case None
    with Inr show ?thesis by (simp add: strategy_in_force [OF assms(3)])
  next
    case (Some c)
    with Inr have f: "in_force a = Inr (Some c)" by simp
    show ?thesis using validate_first [OF assms f, of fmt as]
      by (cases "satisfied ro req a c") (auto simp: f simp del: validate.simps)
  qed
qed (simp add: strategy_in_force [OF assms(3)])

end

section \<open>Both strategies on the default rules\<close>

lemma find_key_rule_ids:
  assumes "\<And>rule c. (rule, c) \<in> set rules \<Longrightarrow> action_safe rule" "action_safe a"
  shows "find_auth_constraint_key (get_action_id a) (rule_ids rules) =
    Inr (map_option (\<lambda>(rule, c). get_action_id rule) (governing_rule rules a))"
  using assms
proof (induction rules)
  case (Cons rc rules)
  obtain rule c where rc: "rc = (rule, c)" by force
  with Cons.prems have "action_safe rule" by auto
  then have head: "is_accepted_action_id (get_action_id rule) (get_action_id a) = Inr (rule_matches rule a)"
    using Cons.prems(2) by (simp add: is_accepted_iff rule_matches_def)
  have "find_auth_constraint_key (get_action_id a) (rule_ids rules) =
      Inr (map_option (\<lambda>(rule, c). get_action_id rule) (governing_rule rules a))"
    by (rule Cons.IH) (use Cons.prems in auto)
  then show ?case
    by (simp add: rule_ids_def governing_rule_def rc head)
qed (simp add: rule_ids_def governing_rule_def)

lemma governing_rule_in: "governing_rule rules a = Some rc \<Longrightarrow> rc \<in> set rules"
  by (auto simp: governing_rule_def find_Some_iff dest: nth_mem)

lemma lookup_rule_ids:
  assumes "distinct (map fst (rule_ids rules))" "(rule, c) \<in> set rules"
  shows "map_of (rule_ids rules) (get_action_id rule) = Some c"
  using assms by (intro map_of_is_SomeI) (auto simp: rule_ids_def)

lemma get_action_id_not_Nil [simp]: "get_action_id a \<noteq> []"
  by (cases a) (simp_all add: compile_action_id_def)

text \<open>The default constraint of an action, and the one that the configuration state puts in its place.\<close>

definition default_in_force :: "auth_action \<Rightarrow> constraint option" where
  "default_in_force a = map_option snd (governing_rule default_rules a)"

definition config_in_force :: "(string \<Rightarrow> 'b option) \<Rightarrow> ('b \<Rightarrow> pyval) \<Rightarrow> auth_action \<Rightarrow> constraint option res" where
  "config_in_force st deser a =
     (case governing_rule default_rules a of
        None \<Rightarrow> Inr None
      | Some (rule, c) \<Rightarrow>
          (case st (make_state_path_for_auth_rule (get_action_id rule)) of
             None \<Rightarrow> Inr (Some c)
           | Some b \<Rightarrow> rbind (deserialize_constraint deser b) (\<lambda>c'. Inr (Some c'))))"

lemma find_key_default:
  "action_safe a \<Longrightarrow> find_auth_constraint_key (get_action_id a) auth_map =
     Inr (map_option (\<lambda>(rule, c). get_action_id rule) (governing_rule default_rules a))"
  unfolding auth_map_eq by (rule find_key_rule_ids) (auto dest: default_rules_safe)

lemma lookup_default:
  "governing_rule default_rules a = Some (rule, c) \<Longrightarrow> map_of auth_map (get_action_id rule) = Some c"
  unfolding auth_map_eq by (intro lookup_rule_ids distinct_rule_ids governing_rule_in)

lemma governing_default_wf: "governing_rule default_rules a = Some (rule, c) \<Longrightarrow> wf_constraint c"
  by (rule default_rules_wf [OF governing_rule_in])

lemma deserialize_constraint_wf: "deserialize_constraint deser b = Inr c \<Longrightarrow> wf_constraint c"
  by (simp add: deserialize_constraint_def create_constraint_def constraint_from_wf)

interpretation local_strategy: auth_strategy "local_get_auth_constraint auth_map" "\<lambda>a. Inr (default_in_force a)"
  by unfold_locales
    (auto simp: local_get_auth_constraint_def find_key_default default_in_force_def lookup_default
      split: option.splits dest: governing_default_wf)

interpretation config_strategy: auth_strategy "config_ledger_get_auth_constraint auth_map st deser" "config_in_force st deser"
  for st :: "string \<Rightarrow> 'b option" and deser
proof unfold_locales
  show "config_ledger_get_auth_constraint auth_map st deser (get_action_id a) = config_in_force st deser a"
    if "action_safe a" for a
    using that
    by (auto simp: config_ledger_get_auth_constraint_def find_auth_constraint_def find_key_default
        config_in_force_def get_from_state_def lookup_default rbind_def split: option.splits sum.splits)
  show "wf_constraint c" if "config_in_force st deser a = Inr (Some c)" for a c
    using that
    by (auto simp: config_in_force_def rbind_Inr_iff split: option.splits
        dest: governing_default_wf deserialize_constraint_wf)
qed

end
