(* ===== verification/IdrCache.thy ===== *)
theory IdrCache
  imports Constants
begin

text \<open>
  The identity cache (indy_node/persistence/idr_cache.py), the handler that fills it
  (domain_req_handlers/idr_cache_nym_handler.py) and the batch handler that drives it
  (request_handlers/idr_cache_batch_handler.py). The optimistic key-value store that \<open>IdrCache\<close>
  extends and the rlp codec are code of other packages: they are the parameters \<open>kv\<close> and \<open>rlp\<close>.
\<close>

text \<open>
  The operations of \<open>OptimisticKVStore\<close> that the cache calls. The boolean is \<open>is_committed\<close>; a read
  of a missing key raises \<open>KeyError\<close>.
\<close>

record ('s, 'b) kv_ops =
  kv_get :: "'s \<Rightarrow> string \<Rightarrow> bool \<Rightarrow> 'b option res"
  kv_set :: "'s \<Rightarrow> string \<Rightarrow> 'b \<Rightarrow> bool \<Rightarrow> 's"
  kv_create_batch_from_current :: "'s \<Rightarrow> string \<Rightarrow> 's"
  kv_reject_batch :: "'s \<Rightarrow> 's res"
  kv_first_batch_idr :: "'s \<Rightarrow> string option"
  kv_commit_batch :: "'s \<Rightarrow> 's res"

record 'b rlp_ops =
  rlp_encode :: "string list \<Rightarrow> 'b"
  rlp_decode :: "'b \<Rightarrow> string list"

section \<open>Packing\<close>

abbreviation unsetVerkey :: string where "unsetVerkey \<equiv> ''-''"

definition encodeVerkey :: "string option \<Rightarrow> string" where
  "encodeVerkey verkey = (case verkey of None \<Rightarrow> unsetVerkey | Some v \<Rightarrow> v)"

definition decodeVerkey :: "string \<Rightarrow> string option" where
  "decodeVerkey verkey = (if verkey \<noteq> unsetVerkey then Some verkey else None)"

definition opt_text :: "string option \<Rightarrow> string" where
  "opt_text v = (case v of None \<Rightarrow> [] | Some s \<Rightarrow> s)"

definition packIdrValue ::
  "'b rlp_ops \<Rightarrow> int option \<Rightarrow> int option \<Rightarrow> string option \<Rightarrow> string option \<Rightarrow> string option \<Rightarrow> 'b res" where
  "packIdrValue rlp seqNo txnTime ta role verkey =
     (case seqNo of
        None \<Rightarrow> Inl (ValueError ''seqNo should not be None!'')
      | Some n \<Rightarrow> Inr (rlp_encode rlp
          [int_str n, (case txnTime of None \<Rightarrow> [] | Some t \<Rightarrow> int_str t),
           opt_text ta, opt_text role, encodeVerkey verkey]))"

text \<open>An entry of the cache: sequence number, time, author, role, verification key.\<close>

record idr_value =
  iv_seqNo :: int
  iv_txnTime :: "int option"
  iv_ta :: string
  iv_role :: string
  iv_verkey :: "string option"

text \<open>\<open>unpackIdrValue\<close> returns \<open>None\<close> for a missing value.\<close>

definition unpackIdrValue :: "'b rlp_ops \<Rightarrow> 'b option \<Rightarrow> idr_value option res" where
  "unpackIdrValue rlp value =
     (case value of
        None \<Rightarrow> Inr None
      | Some b \<Rightarrow>
          (case rlp_decode rlp b of
             [seqNo, txnTime, ta, role, verkey] \<Rightarrow>
               rbind (py_int seqNo) (\<lambda>n.
               rbind (if txnTime \<noteq> [] then rbind (py_int txnTime) (\<lambda>t. Inr (Some t)) else Inr None) (\<lambda>t.
                 Inr (Some \<lparr>iv_seqNo = n, iv_txnTime = t, iv_ta = ta, iv_role = role,
                            iv_verkey = decodeVerkey verkey\<rparr>)))
           | _ \<Rightarrow> Inl (ValueError ''unpack'')))"

section \<open>Reading and writing\<close>

definition idr_get :: "('s, 'b) kv_ops \<Rightarrow> 'b rlp_ops \<Rightarrow> 's \<Rightarrow> string \<Rightarrow> bool \<Rightarrow> idr_value option res" where
  "idr_get kv rlp s idr isCommitted = rbind (kv_get kv s idr isCommitted) (unpackIdrValue rlp)"

definition idr_set ::
  "('s, 'b) kv_ops \<Rightarrow> 'b rlp_ops \<Rightarrow> 's \<Rightarrow> string \<Rightarrow> int option \<Rightarrow> int option \<Rightarrow> string option
     \<Rightarrow> string option \<Rightarrow> string option \<Rightarrow> bool \<Rightarrow> 's res" where
  "idr_set kv rlp s idr seqNo txnTime ta role verkey isCommitted =
     rbind (packIdrValue rlp seqNo txnTime ta role verkey) (\<lambda>val. Inr (kv_set kv s idr val isCommitted))"

text \<open>The tuple assignment fails on a value that is \<open>None\<close>.\<close>

definition idr_fields :: "('s, 'b) kv_ops \<Rightarrow> 'b rlp_ops \<Rightarrow> 's \<Rightarrow> string \<Rightarrow> bool \<Rightarrow> idr_value res" where
  "idr_fields kv rlp s idr isCommitted =
     rbind (idr_get kv rlp s idr isCommitted) (\<lambda>v. case v of None \<Rightarrow> Inl (TypeError ''unpack'') | Some iv \<Rightarrow> Inr iv)"

definition getVerkey :: "('s, 'b) kv_ops \<Rightarrow> 'b rlp_ops \<Rightarrow> 's \<Rightarrow> string \<Rightarrow> bool \<Rightarrow> string option res" where
  "getVerkey kv rlp s idr isCommitted = rbind (idr_fields kv rlp s idr isCommitted) (\<lambda>iv. Inr (iv_verkey iv))"

definition getRole :: "('s, 'b) kv_ops \<Rightarrow> 'b rlp_ops \<Rightarrow> 's \<Rightarrow> string \<Rightarrow> bool \<Rightarrow> string res" where
  "getRole kv rlp s idr isCommitted = rbind (idr_fields kv rlp s idr isCommitted) (\<lambda>iv. Inr (iv_role iv))"

text \<open>The record that \<open>getNym\<close> returns: a value that tests false is \<open>None\<close>.\<close>

record nym_info =
  ni_role :: "string option"
  ni_verkey :: "string option"
  ni_identifier :: "string option"
  ni_seqNo :: "int option"
  ni_txnTime :: "int option"

definition text_or_None :: "string \<Rightarrow> string option" where
  "text_or_None s = (if s = [] then None else Some s)"

definition getNym ::
  "('s, 'b) kv_ops \<Rightarrow> 'b rlp_ops \<Rightarrow> 's \<Rightarrow> string \<Rightarrow> string option \<Rightarrow> bool \<Rightarrow> nym_info option res" where
  "getNym kv rlp s nym role isCommitted =
     (case idr_fields kv rlp s nym isCommitted of
        Inl (KeyError k) \<Rightarrow> Inr None
      | Inl e \<Rightarrow> Inl e
      | Inr iv \<Rightarrow>
          if (case role of None \<Rightarrow> False | Some r \<Rightarrow> r \<noteq> [] \<and> r \<noteq> iv_role iv) then Inr None
          else Inr (Some \<lparr>ni_role = text_or_None (iv_role iv),
                          ni_verkey = (case iv_verkey iv of None \<Rightarrow> None | Some v \<Rightarrow> text_or_None v),
                          ni_identifier = text_or_None (iv_ta iv),
                          ni_seqNo = (if iv_seqNo iv = 0 then None else Some (iv_seqNo iv)),
                          ni_txnTime = (case iv_txnTime iv of None \<Rightarrow> None | Some t \<Rightarrow> if t = 0 then None else Some t)\<rparr>))"

definition hasNymWithRole ::
  "('s, 'b) kv_ops \<Rightarrow> 'b rlp_ops \<Rightarrow> 's \<Rightarrow> string option \<Rightarrow> string \<Rightarrow> bool \<Rightarrow> bool res" where
  "hasNymWithRole kv rlp s role nym isCommitted =
     rbind (getNym kv rlp s nym role isCommitted) (\<lambda>n. Inr (n \<noteq> None))"

definition hasTrustee :: "('s, 'b) kv_ops \<Rightarrow> 'b rlp_ops \<Rightarrow> 's \<Rightarrow> string \<Rightarrow> bool \<Rightarrow> bool res" where
  "hasTrustee kv rlp s = hasNymWithRole kv rlp s (Some TRUSTEE)"

definition hasSteward :: "('s, 'b) kv_ops \<Rightarrow> 'b rlp_ops \<Rightarrow> 's \<Rightarrow> string \<Rightarrow> bool \<Rightarrow> bool res" where
  "hasSteward kv rlp s = hasNymWithRole kv rlp s (Some STEWARD)"

definition hasEndorser :: "('s, 'b) kv_ops \<Rightarrow> 'b rlp_ops \<Rightarrow> 's \<Rightarrow> string \<Rightarrow> bool \<Rightarrow> bool res" where
  "hasEndorser kv rlp s = hasNymWithRole kv rlp s (Some ENDORSER)"

definition hasNym :: "('s, 'b) kv_ops \<Rightarrow> 'b rlp_ops \<Rightarrow> 's \<Rightarrow> string \<Rightarrow> bool \<Rightarrow> bool res" where
  "hasNym kv rlp s = hasNymWithRole kv rlp s None"

text \<open>The owner of a DID with a key of its own is the DID itself, of one without a key its creator.\<close>

definition getOwnerFor :: "('s, 'b) kv_ops \<Rightarrow> 'b rlp_ops \<Rightarrow> 's \<Rightarrow> string \<Rightarrow> bool \<Rightarrow> string option res" where
  "getOwnerFor kv rlp s nym isCommitted =
     rbind (getNym kv rlp s nym None isCommitted) (\<lambda>nymData.
       case nymData of
         None \<Rightarrow> Inr None
       | Some ni \<Rightarrow> (case ni_verkey ni of None \<Rightarrow> Inr (ni_identifier ni) | Some _ \<Rightarrow> Inr (Some nym)))"

section \<open>Batches\<close>

definition currentBatchCreated :: "('s, 'b) kv_ops \<Rightarrow> 's \<Rightarrow> string \<Rightarrow> 's" where
  "currentBatchCreated kv s stateRoot = kv_create_batch_from_current kv s stateRoot"

definition batchRejected :: "('s, 'b) kv_ops \<Rightarrow> 's \<Rightarrow> 's res" where
  "batchRejected kv s = kv_reject_batch kv s"

definition onBatchCommitted :: "('s, 'b) kv_ops \<Rightarrow> 's \<Rightarrow> string \<Rightarrow> 's res" where
  "onBatchCommitted kv s stateRoot =
     (case kv_first_batch_idr kv s of
        None \<Rightarrow> Inr s
      | Some batch_idr \<Rightarrow>
          if batch_idr \<noteq> stateRoot then Inr s
          else (case kv_commit_batch kv s of
                  Inl (ValueError v) \<Rightarrow> Inr s
                | Inl e \<Rightarrow> Inl e
                | Inr s' \<Rightarrow> Inr s'))"

text \<open>\<open>IdrCacheNymHandler.update_state\<close>: the cache entry written for an applied NYM transaction.\<close>

fun opt_str :: "pyval \<Rightarrow> string option" where
  "opt_str (PyStr s) = Some s"
| "opt_str v = None"

definition idr_cache_update_state ::
  "('s, 'b) kv_ops \<Rightarrow> 'b rlp_ops \<Rightarrow> 's \<Rightarrow> string \<Rightarrow> int option \<Rightarrow> int option \<Rightarrow> dict \<Rightarrow> bool \<Rightarrow> 's res" where
  "idr_cache_update_state kv rlp s nym seq_no txn_time prev_result is_committed =
     idr_set kv rlp s nym seq_no txn_time
       (opt_str (dict_get prev_result ''identifier'')) (opt_str (dict_get prev_result ''role''))
       (opt_str (dict_get prev_result ''verkey'')) is_committed"

text \<open>\<open>IdrCacheBatchHandler\<close>: \<open>b58decode\<close> is a parameter.\<close>

definition idr_commit_batch :: "(string \<Rightarrow> string) \<Rightarrow> ('s, 'b) kv_ops \<Rightarrow> 's \<Rightarrow> string \<Rightarrow> 's res" where
  "idr_commit_batch b58decode kv s state_root = onBatchCommitted kv s (b58decode state_root)"

definition idr_post_batch_applied :: "('s, 'b) kv_ops \<Rightarrow> 's \<Rightarrow> string \<Rightarrow> 's" where
  "idr_post_batch_applied kv s state_root = currentBatchCreated kv s state_root"

definition idr_post_batch_rejected :: "('s, 'b) kv_ops \<Rightarrow> 's \<Rightarrow> 's res" where
  "idr_post_batch_rejected kv s = batchRejected kv s"

section \<open>Properties\<close>

lemma decode_encodeVerkey: "vk \<noteq> Some unsetVerkey \<Longrightarrow> decodeVerkey (encodeVerkey vk) = vk"
  by (auto simp: decodeVerkey_def encodeVerkey_def split: option.splits)

lemma unpack_pack:
  assumes "\<And>xs. rlp_decode rlp (rlp_encode rlp xs) = xs"
    and "packIdrValue rlp (Some n) t ta role vk = Inr b"
  shows "unpackIdrValue rlp (Some b) = Inr (Some \<lparr>iv_seqNo = n, iv_txnTime = t, iv_ta = opt_text ta,
    iv_role = opt_text role, iv_verkey = decodeVerkey (encodeVerkey vk)\<rparr>)"
  using assms(2) by (auto simp: packIdrValue_def unpackIdrValue_def assms(1) split: option.splits)

text \<open>What the cache answers about a DID right after an entry for it was written.\<close>

lemma idr_fields_set:
  assumes "\<And>xs. rlp_decode rlp (rlp_encode rlp xs) = xs"
    and "\<And>s k v c. kv_get kv (kv_set kv s k v c) k c = Inr (Some v)"
    and "idr_set kv rlp s idr (Some n) t ta role vk c = Inr s'"
  shows "idr_fields kv rlp s' idr c = Inr \<lparr>iv_seqNo = n, iv_txnTime = t, iv_ta = opt_text ta,
    iv_role = opt_text role, iv_verkey = decodeVerkey (encodeVerkey vk)\<rparr>"
  using assms(3)
  by (auto simp: idr_set_def rbind_Inr_iff idr_fields_def idr_get_def assms(2) unpack_pack [OF assms(1)])

lemma idr_fields_set_other:
  assumes "\<And>s k k' v c c'. k \<noteq> k' \<Longrightarrow> kv_get kv (kv_set kv s k v c) k' c' = kv_get kv s k' c'"
    and "idr_set kv rlp s idr n t ta role vk c = Inr s'" "idr \<noteq> idr'"
  shows "idr_fields kv rlp s' idr' c' = idr_fields kv rlp s idr' c'"
  using assms(2,3) by (auto simp: idr_set_def rbind_Inr_iff idr_fields_def idr_get_def assms(1))

lemma text_or_None_eq_Some: "text_or_None s = Some x \<longleftrightarrow> s = x \<and> x \<noteq> []"
  by (auto simp: text_or_None_def)

lemma getNym_no_role:
  "getNym kv rlp s nym None c = Inr (Some ni) \<longleftrightarrow>
    (\<exists>iv. idr_fields kv rlp s nym c = Inr iv
      \<and> ni = \<lparr>ni_role = text_or_None (iv_role iv),
              ni_verkey = (case iv_verkey iv of None \<Rightarrow> None | Some v \<Rightarrow> text_or_None v),
              ni_identifier = text_or_None (iv_ta iv),
              ni_seqNo = (if iv_seqNo iv = 0 then None else Some (iv_seqNo iv)),
              ni_txnTime = (case iv_txnTime iv of None \<Rightarrow> None | Some t \<Rightarrow> if t = 0 then None else Some t)\<rparr>)"
  by (auto simp: getNym_def split: sum.splits exn.splits)

lemma getNym_role:
  assumes "r \<noteq> []"
  shows "getNym kv rlp s nym (Some r) c = Inr (Some ni) \<longleftrightarrow>
    getNym kv rlp s nym None c = Inr (Some ni) \<and> ni_role ni = Some r"
  using assms by (auto simp: getNym_def text_or_None_def split: sum.splits exn.splits if_splits)

end
