(* ===== verification/AuthProperties.thy ===== *)
theory AuthProperties
  imports AuthValidator IdrCache
begin

text \<open>
  What the authorization layer guarantees: which requests the validator lets through, under the default
  rules and under rules stored in the configuration state. The example ledger at the start is the
  concrete input on which the theorems are applied.
\<close>

lemmas rule_eval = default_in_force_def governing_rule_def default_rules_def rule_matches_def matches_def auth_map_defs
  mk_AuthActionAdd_def mk_AuthActionEdit_def str_or_empty_def

section \<open>An example ledger\<close>

definition ex_roles :: "string \<Rightarrow> string option" where
  "ex_roles d =
     map_of [(''T1'', TRUSTEE), (''T2'', TRUSTEE), (''S1'', STEWARD), (''E1'', ENDORSER), (''O1'', [])] d"

definition ex_cache :: "string \<Rightarrow> string res" where
  "ex_cache d = (case ex_roles d of None \<Rightarrow> Inl (KeyError d) | Some r \<Rightarrow> Inr r)"

definition ex_request :: "string \<Rightarrow> request" where
  "ex_request d = \<lparr>req_identifier = Some d, reqId = 7, operation = [], signature = Some ''sig'', signatures = None,
                  endorser = None\<rparr>"

lemma ex_reads: "reads ex_cache ex_roles"
  by (simp add: reads_def ex_cache_def)

section \<open>Shared facts\<close>

text \<open>The DIDs that signed a request.\<close>

definition signers :: "request \<Rightarrow> string set" where
  "signers req = (if has_signature req then set_option (req_identifier req) else set (map fst (sigs req)))"

lemma role_accepted_Some: "r \<noteq> [] \<Longrightarrow> r \<noteq> ''*'' \<Longrightarrow> is_role_accepted x (Some r) \<longleftrightarrow> x = Some r"
  by (auto simp: is_role_accepted_def role_of_text_def split: option.splits if_splits)

text \<open>A role constraint with a positive count needs a signer that holds the role.\<close>

lemma sig_counts_signer:
  assumes "0 < sig_counts ro req (Some r) False" "r \<noteq> []" "r \<noteq> ''*''"
  shows "\<exists>d\<in>signers req. ro d = Some r"
proof (cases "has_signature req")
  case True
  with assms show ?thesis by (auto simp: sig_counts_def signers_def role_accepted_Some split: if_splits)
next
  case False
  with assms have "filter (\<lambda>(d, _). ro d = Some r) (sigs req) \<noteq> []"
    by (simp add: sig_counts_def role_accepted_Some)
  with False show ?thesis by (force simp: filter_empty_conv signers_def)
qed

lemma one_trustee_signer:
  "satisfied ro req a one_trustee_constraint \<Longrightarrow> \<exists>d\<in>signers req. ro d = Some TRUSTEE"
  by (rule sig_counts_signer) (auto simp: one_trustee_constraint_def role_satisfied_def is_off_ledger_def)

text \<open>The roles a DID can have, and the action ids they give.\<close>

definition ledger_roles :: "string option set" where
  "ledger_roles = {None, Some NETWORK_MONITOR, Some ENDORSER, Some STEWARD, Some TRUSTEE}"

lemma safe_role_edit:
  assumes "r \<in> ledger_roles" "r' \<in> ledger_roles"
  shows "action_safe (mk_AuthActionEdit NYM (PyStr ROLE) (role_val r) (role_val r') own)"
    and "action_safe (mk_AuthActionAdd NYM (PyStr ROLE) (role_val r') own)"
proof -
  have "\<forall>r\<in>ledger_roles. \<forall>r'\<in>ledger_roles. \<forall>own\<in>{True, False}.
      action_safe (mk_AuthActionEdit NYM (PyStr ROLE) (role_val r) (role_val r') own)
      \<and> action_safe (mk_AuthActionAdd NYM (PyStr ROLE) (role_val r') own)"
    unfolding ledger_roles_def by code_simp
  with assms show "action_safe (mk_AuthActionEdit NYM (PyStr ROLE) (role_val r) (role_val r') own)"
    and "action_safe (mk_AuthActionAdd NYM (PyStr ROLE) (role_val r') own)" by (cases own; blast)+
qed

lemma default_privileged_edit:
  assumes "old \<in> ledger_roles" "new \<in> {TRUSTEE, STEWARD}" "old \<noteq> Some new"
  shows "default_in_force (mk_AuthActionEdit NYM (PyStr ROLE) (role_val old) (PyStr new) own) = Some one_trustee_constraint"
  using assms unfolding ledger_roles_def by (elim insertE emptyE; hypsubst; simp add: rule_eval)

lemma default_privileged_add:
  "new \<in> {TRUSTEE, STEWARD} \<Longrightarrow>
    default_in_force (mk_AuthActionAdd NYM (PyStr ROLE) (PyStr new) own) = Some one_trustee_constraint"
  by (elim insertE emptyE; hypsubst; simp add: rule_eval)

lemma default_key_rotation: "default_in_force (AuthActionEdit NYM ''verkey'' old new own) = Some owner_constraint"
  by (simp add: rule_eval)

lemma default_immutable:
  "t \<in> {SCHEMA, JSON_LD_CONTEXT, RICH_SCHEMA, RICH_SCHEMA_ENCODING, RICH_SCHEMA_MAPPING, RICH_SCHEMA_CRED_DEF,
        RICH_SCHEMA_PRES_DEF}
    \<Longrightarrow> default_in_force (AuthActionEdit t f old new own) = Some AuthConstraintForbidden"
  by (elim insertE emptyE; hypsubst; simp add: rule_eval)

text \<open>Constraints that no request can satisfy without passing a role constraint.\<close>

fun role_bound :: "constraint \<Rightarrow> bool" where
  "role_bound (AuthConstraint r n own off m) = True"
| "role_bound (AuthConstraintAnd cs) = (\<exists>c\<in>set cs. role_bound c)"
| "role_bound (AuthConstraintOr cs) = (\<forall>c\<in>set cs. role_bound c)"
| "role_bound AuthConstraintForbidden = True"

lemma role_bound_endorsed: "role_bound c \<Longrightarrow> satisfied ro req a c \<Longrightarrow> endorsed ro req"
  by (induction c) auto

lemma default_role_bound: "default_in_force a = Some c \<Longrightarrow> role_bound c"
proof -
  assume "default_in_force a = Some c"
  then obtain rule where "(rule, c) \<in> set default_rules"
    by (auto simp: default_in_force_def dest: governing_rule_in)
  moreover have "\<forall>c\<in>set (map snd default_rules). role_bound c" by code_simp
  ultimately show "role_bound c" by force
qed

lemma find_key_malformed:
  assumes "split_action_id action_id = Inl e"
  shows "find_auth_constraint_key action_id auth_map = Inl e"
proof -
  obtain rule c rest where rules: "default_rules = (rule, c) # rest"
    by (simp add: default_rules_def)
  have "action_safe rule"
    by (rule default_rules_safe [of _ c]) (simp add: rules)
  then show ?thesis
    unfolding auth_map_eq rule_ids_def rules
    by (simp add: is_accepted_action_id_def split_get_action_id assms del: get_action_id.simps)
qed

section \<open>Properties\<close>

abbreviation config_validate where
  "config_validate fmt gr st deser \<equiv> validate fmt default_authorizers gr (config_ledger_get_auth_constraint auth_map st deser)"

abbreviation local_validate where
  "local_validate fmt gr \<equiv> validate fmt default_authorizers gr (local_get_auth_constraint auth_map)"

text \<open>
  C1: The validator lets a request through exactly when the constraint in force for its first action, read
  as a formula over the roles of the signers, is satisfied. The constraint in force is the one that the
  configuration state stores for the governing rule of the auth map, else the default one. The request has an author,
  and the type, the field and the values of the action neither contain the delimiter \<open>--\<close> of action ids nor end with
  a dash; an action with the delimiter in a value is not judged by its constraint but raises (\<open>delimiter_in_value_raises\<close>).
\<close>

theorem validate_iff_satisfied:
  assumes "reads gr ro" "req_identifier req = Some d" "action_safe a"
  shows "validate fmt default_authorizers gr (config_ledger_get_auth_constraint auth_map st deser) req (a # as) = Inr r \<longleftrightarrow>
    r = Some True \<and> (\<exists>c. config_in_force st deser a = Inr (Some c) \<and> satisfied ro req a c)"
  by (rule config_strategy.validate_accepts [OF assms])

lemma ex_one_trustee:
  "satisfied ex_roles (ex_request ''T1'') a one_trustee_constraint"
  by (simp add: one_trustee_constraint_def role_satisfied_def endorsed_def sig_counts_def is_role_accepted_def
      role_of_text_def ex_roles_def ex_request_def has_signature_def sigs_def is_off_ledger_def)

theorem validate_iff_satisfied_witness:
  "validate (\<lambda>r. []) default_authorizers ex_cache (config_ledger_get_auth_constraint auth_map (\<lambda>k. None :: pyval option) id)
     (ex_request ''T1'') [mk_AuthActionAdd NYM (PyStr ROLE) (PyStr TRUSTEE) False] = Inr (Some True)"
proof -
  let ?a = "mk_AuthActionAdd NYM (PyStr ROLE) (PyStr TRUSTEE) False"
  have "action_safe ?a" using safe_role_edit(2) [of None "Some TRUSTEE" False] by (simp add: ledger_roles_def)
  moreover have "config_in_force (\<lambda>k. None :: pyval option) id ?a = Inr (Some one_trustee_constraint)"
    using default_privileged_add [of TRUSTEE False]
    by (auto simp: config_in_force_def default_in_force_def split: option.splits)
  ultimately show ?thesis
    using validate_iff_satisfied [OF ex_reads, of "ex_request ''T1''" "''T1''" ?a "\<lambda>r. []" "\<lambda>k. None :: pyval option" id "[]" "Some True"]
      ex_one_trustee [of ?a] by (simp add: ex_request_def del: validate.simps)
qed

text \<open>
  C2: No escalation of privileges: under the default rules, a request that gives a DID the role of
  trustee or steward (a new DID, or one with another role) passes only if a trustee signed it.
\<close>

theorem privileged_role_needs_trustee:
  assumes "reads gr ro" "req_identifier req = Some d" "old \<in> ledger_roles" "new \<in> {TRUSTEE, STEWARD}" "old \<noteq> Some new"
    and "a = mk_AuthActionEdit NYM (PyStr ROLE) (role_val old) (PyStr new) own
         \<or> a = mk_AuthActionAdd NYM (PyStr ROLE) (PyStr new) own"
    and "validate fmt default_authorizers gr (local_get_auth_constraint auth_map) req (a # as) = Inr r"
  shows "\<exists>t\<in>signers req. ro t = Some TRUSTEE"
proof -
  have new: "Some new \<in> ledger_roles"
    using assms(4) by (auto simp: ledger_roles_def)
  have "action_safe a"
    using assms(6) safe_role_edit [OF assms(3) new, of own] by auto
  moreover have "default_in_force a = Some one_trustee_constraint"
    using assms(6) default_privileged_edit [OF assms(3-5)] default_privileged_add [OF assms(4)] by auto
  ultimately have "satisfied ro req a one_trustee_constraint"
    using local_strategy.validate_accepts [OF assms(1,2), of a fmt as r] assms(7) by auto
  then show ?thesis by (rule one_trustee_signer)
qed

theorem privileged_role_needs_trustee_witness:
  "\<exists>t\<in>signers (ex_request ''T1''). ex_roles t = Some TRUSTEE"
proof (rule privileged_role_needs_trustee [OF ex_reads, of _ "''T1''" None TRUSTEE
      "mk_AuthActionAdd NYM (PyStr ROLE) (PyStr TRUSTEE) False" False "\<lambda>r. []" "[]" "Some True"])
  let ?a = "mk_AuthActionAdd NYM (PyStr ROLE) (PyStr TRUSTEE) False"
  have "action_safe ?a" using safe_role_edit(2) [of None "Some TRUSTEE" False] by (simp add: ledger_roles_def)
  then show "local_validate (\<lambda>r. []) ex_cache (ex_request ''T1'') [?a] = Inr (Some True)"
    using local_strategy.validate_accepts [OF ex_reads, of "ex_request ''T1''" "''T1''" ?a "\<lambda>r. []" "[]" "Some True"]
      default_privileged_add [of TRUSTEE False] ex_one_trustee [of ?a] by (simp add: ex_request_def del: validate.simps)
qed (simp_all add: ex_request_def ledger_roles_def)

text \<open>
  C3: Under the default rules the verification key of a DID is changed only by its owner: such a request
  passes exactly when the action is the owner's, the author is on the ledger, a signature is there (the
  author's among them) and the endorser rules hold.
\<close>

theorem key_rotation_by_owner:
  assumes "reads gr ro" "req_identifier req = Some d" "id_safe old" "id_safe new"
  shows "validate fmt default_authorizers gr (local_get_auth_constraint auth_map) req
      (AuthActionEdit NYM ''verkey'' old new own # as) = Inr (Some True) \<longleftrightarrow>
    own \<and> ro d \<noteq> None \<and> (has_signature req \<or> sigs req \<noteq> []) \<and> (sigs req \<noteq> [] \<longrightarrow> d \<in> set (map fst (sigs req)))
    \<and> endorsed ro req"
proof -
  have "id_safe NYM" "id_safe ''verkey''"
    by code_simp+
  then have "action_safe (AuthActionEdit NYM ''verkey'' old new own)"
    using assms(3,4) by (simp add: action_safe_def)
  from local_strategy.validate_accepts [OF assms(1,2) this, of fmt as "Some True"] assms(2)
  show ?thesis
    by (auto simp: default_key_rotation owner_constraint_def role_satisfied_def is_off_ledger_def sig_counts_def
        signed_by_def is_role_accepted_def Suc_le_eq simp del: validate.simps split: option.splits if_splits)
qed

theorem key_rotation_by_owner_witness:
  "validate (\<lambda>r. []) default_authorizers ex_cache (local_get_auth_constraint auth_map) (ex_request ''O1'')
     [AuthActionEdit NYM ''verkey'' ''k1'' ''k2'' True] = Inr (Some True)
   \<and> validate (\<lambda>r. []) default_authorizers ex_cache (local_get_auth_constraint auth_map) (ex_request ''T1'')
     [AuthActionEdit NYM ''verkey'' ''k1'' ''k2'' False] \<noteq> Inr (Some True)"
proof -
  have "id_safe ''k1''" "id_safe ''k2''" by code_simp+
  then show ?thesis
    using key_rotation_by_owner [OF ex_reads, of "ex_request ''O1''" "''O1''" "''k1''" "''k2''" "\<lambda>r. []" True "[]"]
      key_rotation_by_owner [OF ex_reads, of "ex_request ''T1''" "''T1''" "''k1''" "''k2''" "\<lambda>r. []" False "[]"]
    by (simp add: ex_request_def has_signature_def ex_roles_def endorsed_def sigs_def del: validate.simps)
qed

text \<open>
  Schemas and rich schema objects are immutable under the default rules: an edit is refused as
  unauthorized whoever signs it.
\<close>

theorem immutable_objects:
  assumes "reads gr ro" "req_identifier req = Some d" "action_safe (AuthActionEdit t f old new own)"
    and "t \<in> {SCHEMA, JSON_LD_CONTEXT, RICH_SCHEMA, RICH_SCHEMA_ENCODING, RICH_SCHEMA_MAPPING, RICH_SCHEMA_CRED_DEF,
        RICH_SCHEMA_PRES_DEF}"
  shows "\<exists>reason. validate fmt default_authorizers gr (local_get_auth_constraint auth_map) req
      (AuthActionEdit t f old new own # as) = Inl (UnauthorizedClientRequest (Some d) (reqId req) reason)"
proof -
  have "Inr (default_in_force (AuthActionEdit t f old new own)) = Inr (Some AuthConstraintForbidden)"
    using default_immutable [OF assms(4)] by simp
  from local_strategy.validate_first [OF assms(1-3) this, of fmt as] show ?thesis by simp
qed

theorem immutable_objects_witness:
  "\<exists>reason. validate (\<lambda>r. []) default_authorizers ex_cache (local_get_auth_constraint auth_map) (ex_request ''T1'')
      [AuthActionEdit SCHEMA ''*'' ''a'' ''b'' True] = Inl (UnauthorizedClientRequest (Some ''T1'') 7 reason)"
proof -
  have "action_safe (AuthActionEdit SCHEMA ''*'' ''a'' ''b'' True)" by code_simp
  from immutable_objects [OF ex_reads _ this, of "ex_request ''T1''" "''T1''" "\<lambda>r. []" "[]"] show ?thesis
    by (simp add: ex_request_def del: validate.simps)
qed

text \<open>
  C4: Under the default rules a request that names an endorser passes only if that DID has the role
  ENDORSER on the ledger and is the author or one of the signers.
\<close>

theorem endorser_has_role_and_signs:
  assumes "reads gr ro" "req_identifier req = Some d" "action_safe a" "endorser req = Some e" "e \<noteq> []"
    and "validate fmt default_authorizers gr (local_get_auth_constraint auth_map) req (a # as) = Inr r"
  shows "ro e = Some ENDORSER \<and> (e = d \<or> e \<in> set (map fst (sigs req)))"
proof -
  obtain c where c: "default_in_force a = Some c" "satisfied ro req a c"
    using local_strategy.validate_accepts [OF assms(1-3), of fmt as r] assms(6) by auto
  from role_bound_endorsed [OF default_role_bound [OF c(1)] c(2)] show ?thesis
    using assms(2,4,5) by (auto simp: endorsed_def signed_by_def)
qed

definition ex_endorsed :: request where
  "ex_endorsed = \<lparr>req_identifier = Some ''O1'', reqId = 8, operation = [], signature = None,
     signatures = Some [(''O1'', ''s1''), (''E1'', ''s2'')], endorser = Some ''E1''\<rparr>"

theorem endorser_has_role_and_signs_witness:
  "ex_roles ''E1'' = Some ENDORSER \<and> (''E1'' = ''O1'' \<or> ''E1'' \<in> set (map fst (sigs ex_endorsed)))"
proof (rule endorser_has_role_and_signs [OF ex_reads])
  let ?a = "AuthActionAdd SCHEMA ''*'' ''*'' False"
  show safe: "action_safe ?a" by code_simp
  have force: "default_in_force ?a = Some endorser_or_steward_or_trustee_constraint"
    by (simp add: rule_eval)
  have "satisfied ex_roles ex_endorsed ?a endorser_or_steward_or_trustee_constraint"
    by (simp add: endorser_or_steward_or_trustee_constraint_def role_satisfied_def endorsed_def sig_counts_def
        is_role_accepted_def role_of_text_def ex_roles_def ex_endorsed_def has_signature_def sigs_def is_off_ledger_def
        signed_by_def)
  then show "local_validate (\<lambda>r. []) ex_cache ex_endorsed [?a] = Inr (Some True)"
    using local_strategy.validate_accepts [OF ex_reads, of ex_endorsed "''O1''" ?a "\<lambda>r. []" "[]" "Some True"] safe force
    by (simp add: ex_endorsed_def del: validate.simps)
qed (simp_all add: ex_endorsed_def)

text \<open>
  An action id decodes to the parts it was made of, so two actions whose parts are free of the
  delimiter have the same id only if they agree on the type, the prefix, the field and both values.
\<close>

theorem action_id_roundtrip:
  assumes "action_safe a"
  shows "split_action_id (get_action_id a) =
    Inr \<lparr>ad_txn_type = act_txn_type a, ad_prefix = action_prefix a, ad_field = act_field a,
         ad_old_value = action_old a, ad_new_value = action_new a\<rparr>"
  using assms by (rule split_get_action_id)

theorem action_id_roundtrip_witness:
  "split_action_id (get_action_id (AuthActionEdit NYM ''role'' [] ENDORSER True)) =
    Inr \<lparr>ad_txn_type = NYM, ad_prefix = ''EDIT'', ad_field = ''role'', ad_old_value = [], ad_new_value = ENDORSER\<rparr>"
proof -
  have "action_safe (AuthActionEdit NYM ''role'' [] ENDORSER True)" by code_simp
  from action_id_roundtrip [OF this] show ?thesis by simp
qed

text \<open>
  A value that contains the delimiter of action ids breaks the lookup of its rule: validation of an
  attribute whose new value contains \<open>--\<close> ends in a \<open>TypeError\<close>, neither accepted nor refused.
\<close>

theorem delimiter_in_value_raises:
  assumes "id_safe f"
  shows "validate fmt regs gr (config_ledger_get_auth_constraint auth_map st deser) req
      (AuthActionAdd ATTRIB f (u @ RULE_DELIMETER @ w) own # as) = Inl (TypeError ''ActionDef'')"
proof -
  have safe: "id_safe ATTRIB" "id_safe ADD_PREFIX" "id_safe ''*''"
    by code_simp+
  have "split_action_id (get_action_id (AuthActionAdd ATTRIB f (u @ RULE_DELIMETER @ w) own)) = Inl (TypeError ''ActionDef'')"
    using split_action_id_delimiter_in_value [OF safe(1,2) assms safe(3)] by simp
  then have "find_auth_constraint_key (get_action_id (AuthActionAdd ATTRIB f (u @ RULE_DELIMETER @ w) own)) auth_map
      = Inl (TypeError ''ActionDef'')"
    by (rule find_key_malformed)
  then show ?thesis
    by (simp add: config_ledger_get_auth_constraint_def find_auth_constraint_def del: get_action_id.simps)
qed

theorem delimiter_in_value_raises_witness:
  "validate (\<lambda>r. []) default_authorizers ex_cache (config_ledger_get_auth_constraint auth_map (\<lambda>k. None :: pyval option) id)
     (ex_request ''O1'') [AuthActionAdd ATTRIB ''enc'' ''ab--cd'' True] = Inl (TypeError ''ActionDef'')"
proof -
  have "id_safe ''enc''" by code_simp
  from delimiter_in_value_raises [OF this, of "\<lambda>r. []" default_authorizers ex_cache "\<lambda>k. None :: pyval option" id
      "ex_request ''O1''" "''ab''" "''cd''" True "[]"]
  show ?thesis by simp
qed

end
