(* ===== verification/StatePaths.thy ===== *)
theory StatePaths
  imports Constants
begin

text \<open>
  Keys and values of the domain state (indy_common/state/domain.py) and the accessors of requests and
  transactions it uses (indy_common/req_utils.py). The serializers and the hash function of other
  packages are parameters: \<open>sha\<close> is the hexadecimal SHA-256 digest of a text, \<open>sha_raw\<close> the raw one,
  \<open>ser\<close> and \<open>deser\<close> the domain state serializer, \<open>ser_text\<close> its output as a text, \<open>loads\<close> and \<open>dumps\<close>
  the JSON serializer of raw attributes. The class of bytes that states hold is a type variable.
\<close>

section \<open>Transactions\<close>

text \<open>A transaction as the accessors of plenum's \<open>txn_util\<close> see it.\<close>

record txn =
  get_type :: string
  get_payload_data :: dict
  get_from :: "string option"
  get_req_id :: int
  get_seq_no :: "int option"
  get_txn_time :: "int option"

abbreviation TARGET_NYM :: string where "TARGET_NYM \<equiv> ''dest''"
abbreviation RAW :: string where "RAW \<equiv> ''raw''"
abbreviation ENC :: string where "ENC \<equiv> ''enc''"
abbreviation HASH :: string where "HASH \<equiv> ''hash''"
abbreviation DATA :: string where "DATA \<equiv> ''data''"
abbreviation TXN_TYPE :: string where "TXN_TYPE \<equiv> ''type''"
abbreviation TXN_TIME :: string where "TXN_TIME \<equiv> ''txnTime''"
abbreviation SEQ_NO :: string where "SEQ_NO \<equiv> ''seqNo''"
abbreviation IDENTIFIER :: string where "IDENTIFIER \<equiv> ''identifier''"
abbreviation VERKEY :: string where "VERKEY \<equiv> ''verkey''"
abbreviation SCHEMA_NAME :: string where "SCHEMA_NAME \<equiv> ''name''"
abbreviation SCHEMA_VERSION :: string where "SCHEMA_VERSION \<equiv> ''version''"
abbreviation SCHEMA_ATTR_NAMES :: string where "SCHEMA_ATTR_NAMES \<equiv> ''attr_names''"
abbreviation SCHEMA_FROM :: string where "SCHEMA_FROM \<equiv> ''dest''"
abbreviation CLAIM_DEF_SIGNATURE_TYPE :: string where "CLAIM_DEF_SIGNATURE_TYPE \<equiv> ''signature_type''"
abbreviation CLAIM_DEF_SCHEMA_REF :: string where "CLAIM_DEF_SCHEMA_REF \<equiv> ''ref''"
abbreviation CLAIM_DEF_TAG :: string where "CLAIM_DEF_TAG \<equiv> ''tag''"
abbreviation CLAIM_DEF_PUBLIC_KEYS :: string where "CLAIM_DEF_PUBLIC_KEYS \<equiv> ''data''"
abbreviation CLAIM_DEF_FROM :: string where "CLAIM_DEF_FROM \<equiv> ''origin''"
abbreviation CLAIM_DEF_TAG_DEFAULT :: string where "CLAIM_DEF_TAG_DEFAULT \<equiv> ''tag''"
abbreviation CLAIM_DEF_CL :: string where "CLAIM_DEF_CL \<equiv> ''CL''"
abbreviation CRED_DEF_ID :: string where "CRED_DEF_ID \<equiv> ''credDefId''"
abbreviation REVOC_TYPE :: string where "REVOC_TYPE \<equiv> ''revocDefType''"
abbreviation TAG :: string where "TAG \<equiv> ''tag''"
abbreviation REVOC_REG_DEF_ID :: string where "REVOC_REG_DEF_ID \<equiv> ''revocRegDefId''"
abbreviation GET_ATTR :: string where "GET_ATTR \<equiv> ''104''"

text \<open>The value of an optional integer, and of an optional DID, in a dictionary.\<close>

fun opt_int_val :: "int option \<Rightarrow> pyval" where
  "opt_int_val None = PyNone"
| "opt_int_val (Some n) = PyInt n"

fun did_val :: "string option \<Rightarrow> pyval" where
  "did_val None = PyNone"
| "did_val (Some d) = PyStr d"

section \<open>Accessors\<close>

definition get_write_schema_name :: "request \<Rightarrow> pyval res" where
  "get_write_schema_name req = rbind (dict_index (operation req) DATA) (\<lambda>d. py_index d SCHEMA_NAME)"

definition get_write_schema_version :: "request \<Rightarrow> pyval res" where
  "get_write_schema_version req = rbind (dict_index (operation req) DATA) (\<lambda>d. py_index d SCHEMA_VERSION)"

definition get_txn_schema_name :: "txn \<Rightarrow> pyval res" where
  "get_txn_schema_name t = rbind (dict_index (get_payload_data t) DATA) (\<lambda>d. py_index d SCHEMA_NAME)"

definition get_txn_schema_version :: "txn \<Rightarrow> pyval res" where
  "get_txn_schema_version t = rbind (dict_index (get_payload_data t) DATA) (\<lambda>d. py_index d SCHEMA_VERSION)"

definition get_txn_schema_attr_names :: "txn \<Rightarrow> pyval res" where
  "get_txn_schema_attr_names t = rbind (dict_index (get_payload_data t) DATA) (\<lambda>d. py_index d SCHEMA_ATTR_NAMES)"

definition get_read_schema_from :: "request \<Rightarrow> pyval res" where
  "get_read_schema_from req = dict_index (operation req) SCHEMA_FROM"

definition get_reply_schema_name :: "dict \<Rightarrow> pyval res" where
  "get_reply_schema_name reply = rbind (dict_index reply DATA) (\<lambda>d. py_index d SCHEMA_NAME)"

definition get_reply_schema_version :: "dict \<Rightarrow> pyval res" where
  "get_reply_schema_version reply = rbind (dict_index reply DATA) (\<lambda>d. py_index d SCHEMA_VERSION)"

definition get_reply_schema_attr_names :: "dict \<Rightarrow> pyval res" where
  "get_reply_schema_attr_names reply = rbind (dict_index reply DATA) (\<lambda>d. py_get d SCHEMA_ATTR_NAMES)"

definition get_reply_schema_from :: "dict \<Rightarrow> pyval res" where
  "get_reply_schema_from reply = dict_index reply SCHEMA_FROM"

definition get_write_claim_def_signature_type :: "request \<Rightarrow> pyval" where
  "get_write_claim_def_signature_type req = dict_get_default (operation req) CLAIM_DEF_SIGNATURE_TYPE (PyStr CLAIM_DEF_CL)"

definition get_write_claim_def_schema_ref :: "request \<Rightarrow> pyval res" where
  "get_write_claim_def_schema_ref req = dict_index (operation req) CLAIM_DEF_SCHEMA_REF"

definition get_write_claim_def_tag :: "request \<Rightarrow> pyval" where
  "get_write_claim_def_tag req = dict_get_default (operation req) CLAIM_DEF_TAG (PyStr CLAIM_DEF_TAG_DEFAULT)"

definition get_txn_claim_def_signature_type :: "txn \<Rightarrow> pyval" where
  "get_txn_claim_def_signature_type t = dict_get_default (get_payload_data t) CLAIM_DEF_SIGNATURE_TYPE (PyStr CLAIM_DEF_CL)"

definition get_txn_claim_def_schema_ref :: "txn \<Rightarrow> pyval res" where
  "get_txn_claim_def_schema_ref t = dict_index (get_payload_data t) CLAIM_DEF_SCHEMA_REF"

definition get_txn_claim_def_tag :: "txn \<Rightarrow> pyval" where
  "get_txn_claim_def_tag t = dict_get_default (get_payload_data t) CLAIM_DEF_TAG (PyStr CLAIM_DEF_TAG_DEFAULT)"

definition get_txn_claim_def_public_keys :: "txn \<Rightarrow> pyval res" where
  "get_txn_claim_def_public_keys t = dict_index (get_payload_data t) CLAIM_DEF_PUBLIC_KEYS"

section \<open>Paths\<close>

abbreviation MARKER_ATTR :: string where "MARKER_ATTR \<equiv> ''1''"
abbreviation MARKER_SCHEMA :: string where "MARKER_SCHEMA \<equiv> ''2''"
abbreviation MARKER_CLAIM_DEF :: string where "MARKER_CLAIM_DEF \<equiv> ''3''"
abbreviation MARKER_REVOC_DEF :: string where "MARKER_REVOC_DEF \<equiv> ''4''"
abbreviation MARKER_REVOC_REG_ENTRY :: string where "MARKER_REVOC_REG_ENTRY \<equiv> ''5''"
abbreviation MARKER_REVOC_REG_ENTRY_ACCUM :: string where "MARKER_REVOC_REG_ENTRY_ACCUM \<equiv> ''6''"
abbreviation MARKER_CONTEXT :: string where "MARKER_CONTEXT \<equiv> ''7''"

text \<open>The parts of a path are formatted with \<open>str\<close> and joined by colons.\<close>

definition make_state_path_for_nym :: "(string \<Rightarrow> string) \<Rightarrow> string \<Rightarrow> string" where [path_defs]:
  "make_state_path_for_nym sha_raw did = sha_raw did"

definition make_state_path_for_attr :: "(string \<Rightarrow> string) \<Rightarrow> pyval \<Rightarrow> string \<Rightarrow> bool \<Rightarrow> string" where [path_defs]:
  "make_state_path_for_attr sha did attr_name attr_is_hash =
     py_join '':'' [py_str did, MARKER_ATTR, (if \<not> attr_is_hash then sha attr_name else attr_name)]"

definition make_state_path_for_context :: "pyval \<Rightarrow> pyval \<Rightarrow> pyval \<Rightarrow> string" where [path_defs]:
  "make_state_path_for_context authors_did context_name context_version =
     py_join '':'' [py_str authors_did, MARKER_CONTEXT, py_str context_name, py_str context_version]"

definition make_state_path_for_schema :: "pyval \<Rightarrow> pyval \<Rightarrow> pyval \<Rightarrow> string" where [path_defs]:
  "make_state_path_for_schema authors_did schema_name schema_version =
     py_join '':'' [py_str authors_did, MARKER_SCHEMA, py_str schema_name, py_str schema_version]"

definition make_state_path_for_claim_def :: "pyval \<Rightarrow> pyval \<Rightarrow> pyval \<Rightarrow> pyval \<Rightarrow> string" where [path_defs]:
  "make_state_path_for_claim_def authors_did schema_seq_no signature_type tag =
     py_join '':'' [py_str authors_did, MARKER_CLAIM_DEF, py_str signature_type, py_str schema_seq_no, py_str tag]"

definition make_state_path_for_revoc_def :: "pyval \<Rightarrow> pyval \<Rightarrow> pyval \<Rightarrow> pyval \<Rightarrow> string" where [path_defs]:
  "make_state_path_for_revoc_def authors_did cred_def_id revoc_def_type revoc_def_tag =
     py_join '':'' [py_str authors_did, MARKER_REVOC_DEF, py_str cred_def_id, py_str revoc_def_type, py_str revoc_def_tag]"

definition make_state_path_for_revoc_reg_entry :: "pyval \<Rightarrow> string" where [path_defs]:
  "make_state_path_for_revoc_reg_entry revoc_reg_def_id = py_join '':'' [MARKER_REVOC_REG_ENTRY, py_str revoc_reg_def_id]"

definition make_state_path_for_revoc_reg_entry_accum :: "pyval \<Rightarrow> string" where [path_defs]:
  "make_state_path_for_revoc_reg_entry_accum revoc_reg_def_id =
     py_join '':'' [MARKER_REVOC_REG_ENTRY_ACCUM, py_str revoc_reg_def_id]"

section \<open>Values\<close>

definition encode_state_value :: "(pyval \<Rightarrow> 'b) \<Rightarrow> pyval \<Rightarrow> pyval \<Rightarrow> pyval \<Rightarrow> 'b" where
  "encode_state_value ser value seqNo txnTime = ser (PyDict [(''lsn'', seqNo), (''lut'', txnTime), (''val'', value)])"

definition decode_state_value :: "('b \<Rightarrow> pyval) \<Rightarrow> 'b \<Rightarrow> (pyval \<times> pyval \<times> pyval) res" where
  "decode_state_value deser encoded_value =
     (let decoded = deser encoded_value
      in rbind (py_get decoded ''val'') (\<lambda>value.
         rbind (py_get decoded ''lsn'') (\<lambda>last_seq_no.
         rbind (py_get decoded ''lut'') (\<lambda>last_update_time. Inr (value, last_seq_no, last_update_time)))))"

text \<open>\<open>hash_of\<close>: a text is hashed as it is, any other value in its serialized form.\<close>

fun hash_of :: "(string \<Rightarrow> string) \<Rightarrow> (pyval \<Rightarrow> string) \<Rightarrow> pyval \<Rightarrow> string" where
  "hash_of sha ser_text (PyStr text) = sha text"
| "hash_of sha ser_text v = sha (ser_text v)"

section \<open>Attributes\<close>

definition ALL_ATR_KEYS :: "string list" where
  "ALL_ATR_KEYS = [RAW, ENC, HASH]"

definition extract_attr_typed_value :: "dict \<Rightarrow> (string \<times> pyval) res" where
  "extract_attr_typed_value txn_data =
     (case filter (\<lambda>key. dict_in key txn_data) ALL_ATR_KEYS of
        [] \<Rightarrow> Inl (ValueError (''ATTR should have one of the following fields: '' @ py_str (PyList (map PyStr ALL_ATR_KEYS))))
      | [existing_key] \<Rightarrow> rbind (dict_index txn_data existing_key) (\<lambda>v. Inr (existing_key, v))
      | _ \<Rightarrow> Inl (ValueError (''ATTR should have only one of the following fields: '' @ py_str (PyList (map PyStr ALL_ATR_KEYS)))))"

text \<open>\<open>popitem\<close> of a dictionary: its last item.\<close>

fun popitem :: "pyval \<Rightarrow> (string \<times> pyval) res" where
  "popitem (PyDict d) = (if d = [] then Inl (KeyError ''popitem'') else Inr (last d))"
| "popitem v = Inl (AttributeError ''popitem'')"

definition parse_attr_txn ::
  "(pyval \<Rightarrow> pyval res) \<Rightarrow> (pyval \<Rightarrow> string) \<Rightarrow> dict \<Rightarrow> (string \<times> pyval \<times> pyval) res" where
  "parse_attr_txn loads dumps txn_data =
     rbind (extract_attr_typed_value txn_data) (\<lambda>(attr_type, attr).
       if attr_type = RAW then
         rbind (loads attr) (\<lambda>data.
         rbind (popitem data) (\<lambda>(key, _). Inr (attr_type, PyStr key, PyStr (dumps data))))
       else if attr_type = ENC then Inr (attr_type, attr, attr)
       else Inr (attr_type, attr, PyNone))"

text \<open>The value of \<open>attr_name.encode()\<close>: only texts have it.\<close>

fun encodable :: "pyval \<Rightarrow> string res" where
  "encodable (PyStr s) = Inr s"
| "encodable v = Inl (AttributeError ''encode'')"

record 'b attr_state =
  as_type :: string
  as_path :: string
  as_value :: pyval
  as_hashed_value :: string
  as_value_bytes :: 'b

definition prepare_attr_for_state ::
  "(string \<Rightarrow> string) \<Rightarrow> (pyval \<Rightarrow> string) \<Rightarrow> (pyval \<Rightarrow> 'b) \<Rightarrow> (pyval \<Rightarrow> pyval res) \<Rightarrow> (pyval \<Rightarrow> string) \<Rightarrow> txn
     \<Rightarrow> 'b attr_state res" where
  "prepare_attr_for_state sha ser_text ser loads dumps t =
     rbind (py_assert (get_type t = ATTRIB)) (\<lambda>_.
     rbind (dict_index (get_payload_data t) TARGET_NYM) (\<lambda>nym.
     rbind (parse_attr_txn loads dumps (get_payload_data t)) (\<lambda>(attr_type, attr_key, value).
     rbind (if attr_type = HASH then Inr (py_str attr_key) else encodable attr_key) (\<lambda>key.
       let hashed_value = (if truthy value then hash_of sha ser_text value else [])
       in Inr \<lparr>as_type = attr_type, as_path = make_state_path_for_attr sha nym key (attr_type = HASH),
               as_value = value, as_hashed_value = hashed_value,
               as_value_bytes = encode_state_value ser (PyStr hashed_value)
                 (opt_int_val (get_seq_no t)) (opt_int_val (get_txn_time t))\<rparr>))))"

text \<open>\<open>prepare_get_attr_for_state\<close>, on the reply to a read; without data only type and path are known.\<close>

definition prepare_get_attr_for_state ::
  "(string \<Rightarrow> string) \<Rightarrow> (pyval \<Rightarrow> string) \<Rightarrow> (pyval \<Rightarrow> 'b) \<Rightarrow> (pyval \<Rightarrow> pyval res) \<Rightarrow> (pyval \<Rightarrow> string) \<Rightarrow> dict
     \<Rightarrow> (string \<times> string \<times> ('b attr_state) option) res" where
  "prepare_get_attr_for_state sha ser_text ser loads dumps reply =
     rbind (dict_index reply TARGET_NYM) (\<lambda>nym.
     rbind (extract_attr_typed_value reply) (\<lambda>(attr_type, attr_key).
       let data = dict_get reply DATA
       in if truthy data then
            let reply' = dict_set (AList.delete DATA reply) attr_type data
            in rbind (dict_index reply' TXN_TYPE) (\<lambda>ty.
               rbind (py_assert (ty = PyStr GET_ATTR)) (\<lambda>_.
               rbind (parse_attr_txn loads dumps reply') (\<lambda>(attr_type', attr_key', value).
               rbind (dict_index reply' SEQ_NO) (\<lambda>seq_no.
               rbind (dict_index reply' TXN_TIME) (\<lambda>txn_time.
               rbind (if attr_type' = HASH then Inr (py_str attr_key') else encodable attr_key') (\<lambda>key.
                 let hashed_value = (if truthy value then hash_of sha ser_text value else []);
                     path = make_state_path_for_attr sha nym key (attr_type' = HASH)
                 in Inr (attr_type', path, Some \<lparr>as_type = attr_type', as_path = path, as_value = value,
                      as_hashed_value = hashed_value,
                      as_value_bytes = encode_state_value ser (PyStr hashed_value) seq_no txn_time\<rparr>)))))))
          else
            let attr_key' = (if attr_type = ENC then PyStr (hash_of sha ser_text attr_key) else attr_key)
            in rbind (if attr_type = HASH \<or> attr_type = ENC then Inr (py_str attr_key') else encodable attr_key') (\<lambda>key.
                 Inr (attr_type, make_state_path_for_attr sha nym key (attr_type = HASH \<or> attr_type = ENC), None))))"

section \<open>State records of the other transactions\<close>

text \<open>Each function yields the path and the value; \<open>path_only\<close> calls use the path alone.\<close>

definition claim_def_path :: "txn \<Rightarrow> string res" where
  "claim_def_path t =
     rbind (get_txn_claim_def_schema_ref t) (\<lambda>schema_seq_no.
     if schema_seq_no = PyNone then Inl (ValueError (squoted CLAIM_DEF_SCHEMA_REF @ '' field is absent, but it must contain schema seq no''))
     else rbind (get_txn_claim_def_public_keys t) (\<lambda>data.
       if data = PyNone then Inl (ValueError (squoted CLAIM_DEF_PUBLIC_KEYS @ '' field is absent, but it must contain components of keys''))
       else Inr (make_state_path_for_claim_def (did_val (get_from t)) schema_seq_no
                   (get_txn_claim_def_signature_type t) (get_txn_claim_def_tag t))))"

definition prepare_claim_def_for_state :: "(pyval \<Rightarrow> 'b) \<Rightarrow> txn \<Rightarrow> (string \<times> 'b) res" where
  "prepare_claim_def_for_state ser t =
     rbind (claim_def_path t) (\<lambda>path.
     rbind (get_txn_claim_def_public_keys t) (\<lambda>data.
       Inr (path, encode_state_value ser data (opt_int_val (get_seq_no t)) (opt_int_val (get_txn_time t)))))"

definition revoc_def_path :: "txn \<Rightarrow> string res" where
  "revoc_def_path t =
     (let d = get_payload_data t; author_did = did_val (get_from t); cred_def_id = dict_get d CRED_DEF_ID;
          revoc_def_type = dict_get d REVOC_TYPE; revoc_def_tag = dict_get d TAG
      in rbind (py_assert (truthy author_did)) (\<lambda>_. rbind (py_assert (truthy cred_def_id)) (\<lambda>_.
         rbind (py_assert (truthy revoc_def_type)) (\<lambda>_. rbind (py_assert (truthy revoc_def_tag)) (\<lambda>_.
           Inr (make_state_path_for_revoc_def author_did cred_def_id revoc_def_type revoc_def_tag))))))"

text \<open>\<open>assert seq_no; assert txn_time\<close>\<close>

definition assert_numbered :: "pyval \<Rightarrow> pyval \<Rightarrow> unit res" where
  "assert_numbered seq_no txn_time = rbind (py_assert (truthy seq_no)) (\<lambda>_. py_assert (truthy txn_time))"

definition prepare_revoc_def_for_state :: "(pyval \<Rightarrow> 'b) \<Rightarrow> txn \<Rightarrow> (string \<times> 'b) res" where
  "prepare_revoc_def_for_state ser t =
     (let seq_no = opt_int_val (get_seq_no t); txn_time = opt_int_val (get_txn_time t)
      in rbind (revoc_def_path t) (\<lambda>path. rbind (assert_numbered seq_no txn_time) (\<lambda>_.
           Inr (path, encode_state_value ser (PyDict (get_payload_data t)) seq_no txn_time))))"

definition revoc_reg_entry_path :: "txn \<Rightarrow> string res" where
  "revoc_reg_entry_path t =
     (let revoc_reg_def_id = dict_get (get_payload_data t) REVOC_REG_DEF_ID
      in rbind (py_assert (truthy (did_val (get_from t)))) (\<lambda>_. rbind (py_assert (truthy revoc_reg_def_id)) (\<lambda>_.
           Inr (make_state_path_for_revoc_reg_entry revoc_reg_def_id))))"

text \<open>The payload with the sequence number and the time, as it is stored.\<close>

definition numbered_payload :: "txn \<Rightarrow> pyval" where
  "numbered_payload t =
     PyDict (dict_set (dict_set (get_payload_data t) SEQ_NO (opt_int_val (get_seq_no t))) TXN_TIME (opt_int_val (get_txn_time t)))"

definition prepare_revoc_reg_entry_for_state :: "(pyval \<Rightarrow> 'b) \<Rightarrow> txn \<Rightarrow> (string \<times> 'b) res" where
  "prepare_revoc_reg_entry_for_state ser t =
     (let seq_no = opt_int_val (get_seq_no t); txn_time = opt_int_val (get_txn_time t)
      in rbind (revoc_reg_entry_path t) (\<lambda>path. rbind (assert_numbered seq_no txn_time) (\<lambda>_.
           Inr (path, encode_state_value ser (numbered_payload t) seq_no txn_time))))"

definition prepare_revoc_reg_entry_accum_for_state :: "(pyval \<Rightarrow> 'b) \<Rightarrow> txn \<Rightarrow> (string \<times> 'b) res" where
  "prepare_revoc_reg_entry_accum_for_state ser t =
     (let revoc_reg_def_id = dict_get (get_payload_data t) REVOC_REG_DEF_ID;
          seq_no = opt_int_val (get_seq_no t); txn_time = opt_int_val (get_txn_time t)
      in rbind (py_assert (truthy (did_val (get_from t)))) (\<lambda>_. rbind (py_assert (truthy revoc_reg_def_id)) (\<lambda>_.
         rbind (assert_numbered seq_no txn_time) (\<lambda>_.
           Inr (make_state_path_for_revoc_reg_entry_accum revoc_reg_def_id,
                encode_state_value ser (numbered_payload t) seq_no txn_time)))))"

definition schema_path :: "txn \<Rightarrow> string res" where
  "schema_path t =
     rbind (get_txn_schema_name t) (\<lambda>schema_name. rbind (get_txn_schema_version t) (\<lambda>schema_version.
     rbind (get_txn_schema_attr_names t) (\<lambda>_.
       Inr (make_state_path_for_schema (did_val (get_from t)) schema_name schema_version))))"

definition prepare_schema_for_state :: "(pyval \<Rightarrow> 'b) \<Rightarrow> txn \<Rightarrow> (string \<times> 'b) res" where
  "prepare_schema_for_state ser t =
     rbind (schema_path t) (\<lambda>path. rbind (get_txn_schema_attr_names t) (\<lambda>attr_names.
       Inr (path, encode_state_value ser (PyDict [(SCHEMA_ATTR_NAMES, attr_names)])
                    (opt_int_val (get_seq_no t)) (opt_int_val (get_txn_time t)))))"

section \<open>State records from replies\<close>

text \<open>\<open>parsed.pop(k, None)\<close>: only dictionaries have it.\<close>

fun as_dict_value :: "pyval \<Rightarrow> dict res" where
  "as_dict_value (PyDict d) = Inr d"
| "as_dict_value v = Inl (AttributeError ''pop'')"

definition prepare_get_nym_for_state ::
  "(string \<Rightarrow> string) \<Rightarrow> (pyval \<Rightarrow> 'b) \<Rightarrow> (pyval \<Rightarrow> pyval) \<Rightarrow> dict \<Rightarrow> (string \<times> 'b option) res" where
  "prepare_get_nym_for_state sha_raw ser deser reply =
     (let data = dict_get reply DATA
      in rbind (if data = PyNone then Inr None
                else rbind (as_dict_value (deser data)) (\<lambda>parsed. Inr (Some (ser (PyDict (AList.delete TARGET_NYM parsed))))))
         (\<lambda>value. rbind (dict_index reply TARGET_NYM) (\<lambda>nym. rbind (encodable nym) (\<lambda>did.
            Inr (make_state_path_for_nym sha_raw did, value)))))"

definition prepare_get_claim_def_for_state :: "(pyval \<Rightarrow> 'b) \<Rightarrow> dict \<Rightarrow> (string \<times> 'b option) res" where
  "prepare_get_claim_def_for_state ser reply =
     (let schema_seq_no = dict_get reply CLAIM_DEF_SCHEMA_REF
      in if schema_seq_no = PyNone then Inl (ValueError (squoted CLAIM_DEF_SCHEMA_REF @ '' field is absent, but it must contain schema seq no''))
         else let path = make_state_path_for_claim_def (dict_get reply CLAIM_DEF_FROM) schema_seq_no
                           (dict_get_default reply CLAIM_DEF_SIGNATURE_TYPE (PyStr CLAIM_DEF_CL))
                           (dict_get_default reply CLAIM_DEF_TAG (PyStr CLAIM_DEF_TAG_DEFAULT));
                  data = dict_get reply CLAIM_DEF_PUBLIC_KEYS
              in rbind (dict_index reply SEQ_NO) (\<lambda>seq_no.
                 if data = PyNone then Inr (path, None)
                 else rbind (dict_index reply TXN_TIME) (\<lambda>txn_time.
                        Inr (path, Some (encode_state_value ser data seq_no txn_time)))))"

text \<open>The common shape of the three revocation replies, with the path from the reply's data.\<close>

definition numbered_reply :: "(pyval \<Rightarrow> 'b) \<Rightarrow> dict \<Rightarrow> string \<Rightarrow> (string \<times> 'b) res" where
  "numbered_reply ser reply path =
     rbind (dict_index reply SEQ_NO) (\<lambda>seq_no. rbind (dict_index reply TXN_TIME) (\<lambda>txn_time.
     rbind (assert_numbered seq_no txn_time) (\<lambda>_. rbind (dict_index reply DATA) (\<lambda>data.
       Inr (path, encode_state_value ser data seq_no txn_time)))))"

definition prepare_get_revoc_def_for_state :: "(pyval \<Rightarrow> 'b) \<Rightarrow> dict \<Rightarrow> (string \<times> 'b) res" where
  "prepare_get_revoc_def_for_state ser reply =
     (let author_did = dict_get reply IDENTIFIER; data = dict_get reply DATA
      in rbind (py_get data CRED_DEF_ID) (\<lambda>cred_def_id. rbind (py_get data REVOC_TYPE) (\<lambda>revoc_def_type.
         rbind (py_get data TAG) (\<lambda>revoc_def_tag.
         rbind (py_assert (truthy author_did)) (\<lambda>_. rbind (py_assert (truthy cred_def_id)) (\<lambda>_.
         rbind (py_assert (truthy revoc_def_type)) (\<lambda>_. rbind (py_assert (truthy revoc_def_tag)) (\<lambda>_.
           numbered_reply ser reply
             (make_state_path_for_revoc_def author_did cred_def_id revoc_def_type revoc_def_tag)))))))))"

definition prepare_get_revoc_reg_entry_for_state :: "(pyval \<Rightarrow> 'b) \<Rightarrow> dict \<Rightarrow> (string \<times> 'b) res" where
  "prepare_get_revoc_reg_entry_for_state ser reply =
     rbind (py_get (dict_get reply DATA) REVOC_REG_DEF_ID) (\<lambda>revoc_reg_def_id.
     rbind (py_assert (truthy revoc_reg_def_id)) (\<lambda>_.
       numbered_reply ser reply (make_state_path_for_revoc_reg_entry revoc_reg_def_id)))"

definition prepare_get_revoc_reg_entry_accum_for_state :: "(pyval \<Rightarrow> 'b) \<Rightarrow> dict \<Rightarrow> (string \<times> 'b) res" where
  "prepare_get_revoc_reg_entry_accum_for_state ser reply =
     rbind (py_get (dict_get reply DATA) REVOC_REG_DEF_ID) (\<lambda>revoc_reg_def_id.
     rbind (dict_index reply SEQ_NO) (\<lambda>seq_no. rbind (dict_index reply TXN_TIME) (\<lambda>txn_time.
     rbind (py_assert (truthy revoc_reg_def_id)) (\<lambda>_. rbind (assert_numbered seq_no txn_time) (\<lambda>_.
     rbind (dict_index reply DATA) (\<lambda>data.
       Inr (make_state_path_for_revoc_reg_entry_accum revoc_reg_def_id, encode_state_value ser data seq_no txn_time)))))))"

definition prepare_get_schema_for_state :: "(pyval \<Rightarrow> 'b) \<Rightarrow> dict \<Rightarrow> (string \<times> 'b option) res" where
  "prepare_get_schema_for_state ser reply =
     rbind (get_reply_schema_from reply) (\<lambda>origin. rbind (get_reply_schema_name reply) (\<lambda>schema_name.
     rbind (get_reply_schema_version reply) (\<lambda>schema_version.
       let path = make_state_path_for_schema origin schema_name schema_version
       in rbind (get_reply_schema_attr_names reply) (\<lambda>attr_names.
          if truthy attr_names
          then rbind (dict_index reply SEQ_NO) (\<lambda>seq_no. rbind (dict_index reply TXN_TIME) (\<lambda>txn_time.
                 Inr (path, Some (encode_state_value ser (PyDict [(SCHEMA_ATTR_NAMES, attr_names)]) seq_no txn_time))))
          else Inr (path, None)))))"

section \<open>Properties\<close>

definition colon_free :: "string \<Rightarrow> bool" where
  "colon_free s \<longleftrightarrow> CHR '':'' \<notin> set s"

text \<open>Joining with colons is injective when all parts but one are free of colons.\<close>

lemma colon_prefix_inject:
  assumes "colon_free a" "colon_free b" "a @ '':'' @ x = b @ '':'' @ y"
  shows "a = b \<and> x = y"
proof -
  have "takeWhile (\<lambda>c. c \<noteq> CHR '':'') (a @ '':'' @ x) = a" "takeWhile (\<lambda>c. c \<noteq> CHR '':'') (b @ '':'' @ y) = b"
    using assms(1,2) by (auto simp: colon_free_def intro!: takeWhile_eq_all_conv [THEN iffD2] simp: takeWhile_append)
  with assms(3) show ?thesis by simp
qed

lemma colon_suffix_inject:
  assumes "colon_free a" "colon_free b" "x @ '':'' @ a = y @ '':'' @ b"
  shows "x = y \<and> a = b"
proof -
  have "colon_free (rev a)" "colon_free (rev b)" using assms(1,2) by (auto simp: colon_free_def)
  moreover have "rev a @ '':'' @ rev x = rev b @ '':'' @ rev y"
    using arg_cong [OF assms(3), of rev] by simp
  ultimately have "rev a = rev b \<and> rev x = rev y" by (rule colon_prefix_inject)
  then show ?thesis by simp
qed

end
