(* ===== verification/NymHandler.thy ===== *)
theory NymHandler
  imports AuthProperties StatePaths
begin

text \<open>
  The NYM write handler (indy_node/server/request_handlers/domain_req_handlers/nym_handler.py) with the
  role check of the legacy authoriser (indy_common/auth.py). The identity cache is the modelled one, over
  the key-value store \<open>kv\<close> in state \<open>s\<close>; the write request validator is the argument \<open>wrv\<close>. Code of
  other packages: \<open>loads\<close> (json), \<open>b58encode\<close>, \<open>b58decode\<close>, \<open>sha256\<close>, the state serializer, and plenum's
  \<open>get_nym_details\<close> and \<open>nym_to_state_key\<close>.
\<close>

abbreviation DIDDOC_CONTENT :: string where "DIDDOC_CONTENT \<equiv> ''diddocContent''"
abbreviation NYM_VERSION :: string where "NYM_VERSION \<equiv> ''version''"
abbreviation NYM_VERSION_NULL :: int where "NYM_VERSION_NULL \<equiv> 0"
abbreviation NYM_VERSION_CONVENTION :: int where "NYM_VERSION_CONVENTION \<equiv> 1"
abbreviation NYM_VERSION_SELF_CERT :: int where "NYM_VERSION_SELF_CERT \<equiv> 2"

definition refuse :: "request \<Rightarrow> string \<Rightarrow> 'a res" where
  "refuse req reason = Inl (InvalidClientRequest (req_identifier req) (reqId req) reason)"

section \<open>Static validation\<close>

definition ValidRoles :: "pyval list" where
  "ValidRoles = [PyStr TRUSTEE, PyStr STEWARD, PyStr ENDORSER, PyStr NETWORK_MONITOR, PyNone]"

definition isValidRole :: "pyval \<Rightarrow> bool" where
  "isValidRole role \<longleftrightarrow> role \<in> set ValidRoles"

text \<open>\<open>item["id"].partition("#")[2]\<close>\<close>

definition after_hash :: "string \<Rightarrow> string" where
  "after_hash s = drop 1 (dropWhile (\<lambda>c. c \<noteq> CHR ''#'') s)"

fun has_same_id_fragment :: "pyval \<Rightarrow> string \<Rightarrow> bool res" where
  "has_same_id_fragment (PyDict item) fragment =
     (case map_of item ''id'' of
        None \<Rightarrow> Inr False
      | Some (PyStr i) \<Rightarrow> Inr (after_hash i = fragment)
      | Some v \<Rightarrow> Inl (AttributeError ''partition''))"
| "has_same_id_fragment v fragment = Inr False"

fun check_items :: "pyval list \<Rightarrow> unit res" where
  "check_items [] = Inr ()"
| "check_items (item # items) =
     rbind (has_same_id_fragment item ''verkey'') (\<lambda>same.
       if same then Inl (InvalidDIDDocException ''diddocContent must not have object with `id` containing fragment `verkey`'')
       else check_items items)"

fun check_values :: "pyval list \<Rightarrow> unit res" where
  "check_values [] = Inr ()"
| "check_values (PyList el # vs) = rbind (check_items el) (\<lambda>_. check_values vs)"
| "check_values (v # vs) = check_values vs"

definition validate_diddoc_content :: "pyval \<Rightarrow> unit res" where
  "validate_diddoc_content diddoc =
     rbind (py_get diddoc ''id'') (\<lambda>i.
       if truthy i then Inl (InvalidDIDDocException ''diddocContent must not have `id` at root'')
       else case diddoc of PyDict d \<Rightarrow> check_values (map snd d) | _ \<Rightarrow> Inl (AttributeError ''values''))"

text \<open>A number as Python compares it: a boolean is 0 or 1.\<close>

fun as_number :: "pyval \<Rightarrow> int option" where
  "as_number (PyInt i) = Some i"
| "as_number (PyBool b) = Some (if b then 1 else 0)"
| "as_number v = None"

definition nym_static_validation :: "(pyval \<Rightarrow> pyval res) \<Rightarrow> request \<Rightarrow> unit res" where
  "nym_static_validation loads req =
     (let role = dict_get (operation req) ROLE;
          nym = (case dict_get (operation req) TARGET_NYM of PyStr n \<Rightarrow> PyStr (py_strip n) | v \<Rightarrow> v);
          diddoc_content = dict_get (operation req) DIDDOC_CONTENT;
          version = dict_get (operation req) NYM_VERSION
      in if \<not> truthy nym then refuse req ''dest needs to be present''
         else if \<not> isValidRole role then refuse req (py_str role @ '' not a valid role'')
         else rbind (if truthy diddoc_content
                     then rbind (loads diddoc_content) (\<lambda>d.
                            case validate_diddoc_content d of
                              Inl (InvalidDIDDocException reason) \<Rightarrow> refuse req reason
                            | r \<Rightarrow> r)
                     else Inr ()) (\<lambda>_.
           if version \<noteq> PyNone \<and> as_number version \<notin> {Some NYM_VERSION_NULL, Some NYM_VERSION_CONVENTION, Some NYM_VERSION_SELF_CERT}
           then refuse req (''Version must be one of {0, 1, 2}, received '' @ py_str version)
           else Inr ()))"

section \<open>Dynamic validation\<close>

record codecs =
  b58encode :: "string \<Rightarrow> string"
  b58decode :: "pyval \<Rightarrow> string res"
  sha256 :: "string \<Rightarrow> string"

definition is_self_certifying :: "codecs \<Rightarrow> pyval \<Rightarrow> pyval \<Rightarrow> bool res" where
  "is_self_certifying cd nym verkey =
     rbind (b58decode cd verkey) (\<lambda>k. Inr (nym = PyStr (b58encode cd (take 16 (sha256 cd k)))))"

definition legacy_convention_validation :: "codecs \<Rightarrow> pyval \<Rightarrow> pyval \<Rightarrow> bool res" where
  "legacy_convention_validation cd nym verkey =
     rbind (b58decode cd verkey) (\<lambda>k. Inr (nym = PyStr (b58encode cd (take 16 k))))"

text \<open>\<open>getNym(operation[TARGET_NYM])\<close>; the DID is a text by the message schema.\<close>

fun nym_key :: "pyval \<Rightarrow> string res" where
  "nym_key (PyStr d) = Inr d"
| "nym_key v = Inl (AttributeError ''encode'')"

definition validate_new_nym ::
  "codecs \<Rightarrow> ('s, 'b) kv_ops \<Rightarrow> 'b rlp_ops \<Rightarrow> 's \<Rightarrow> (request \<Rightarrow> auth_action list \<Rightarrow> bool option res) \<Rightarrow> request \<Rightarrow> unit res" where
  "validate_new_nym cd kv rlp s wrv req =
     (let role = dict_get (operation req) ROLE; dest = dict_get (operation req) TARGET_NYM;
          verkey = dict_get (operation req) VERKEY; version = dict_get (operation req) NYM_VERSION
      in rbind (nym_key (did_val (req_identifier req))) (\<lambda>author.
         rbind (getNym kv rlp s author None False) (\<lambda>nym_data.
         if nym_data = None \<and> did_val (req_identifier req) \<noteq> dest
         then refuse req (''DID which is not stored on ledger can send nym txn only if appropriate auth_rules set ''
                @ ''and sender did equal to destination nym'')
         else if nym_data = None \<and> \<not> truthy verkey
         then refuse req ''Non-ledger nym txn must contain verkey for new did''
         else rbind (if as_number version = Some NYM_VERSION_CONVENTION
                     then rbind (legacy_convention_validation cd dest verkey) (\<lambda>b. Inr (\<not> b)) else Inr False) (\<lambda>bad1.
           if bad1 then refuse req ''Identifier with version 1 must be first 16 bytes of verkey''
           else rbind (if as_number version = Some NYM_VERSION_SELF_CERT
                       then rbind (is_self_certifying cd dest verkey) (\<lambda>b. Inr (\<not> b)) else Inr False) (\<lambda>bad2.
             if bad2 then refuse req ''Identifier with version 2 must be first 16 bytes of SHA256 of verkey''
             else rbind (wrv req [mk_AuthActionAdd NYM (PyStr ROLE) role True]) (\<lambda>_. Inr ()))))))"

text \<open>\<open>nym_data.get(key)\<close> on the record of the cache.\<close>

definition nym_field :: "nym_info \<Rightarrow> string \<Rightarrow> pyval" where
  "nym_field ni key = (if key = ROLE then role_val (ni_role ni) else role_val (ni_verkey ni))"

text \<open>The loop over the keys that may be updated; the flag says whether one of them is in the operation.\<close>

fun validate_keys ::
  "(request \<Rightarrow> auth_action list \<Rightarrow> bool option res) \<Rightarrow> request \<Rightarrow> nym_info \<Rightarrow> bool \<Rightarrow> string list \<Rightarrow> bool \<Rightarrow> bool res" where
  "validate_keys wrv req nym_data is_owner [] flag = Inr flag"
| "validate_keys wrv req nym_data is_owner (key # keys) flag =
     (if dict_in key (operation req)
      then rbind (dict_index (operation req) key) (\<lambda>newVal.
             rbind (wrv req [mk_AuthActionEdit NYM (PyStr key) (nym_field nym_data key) newVal is_owner]) (\<lambda>_.
               validate_keys wrv req nym_data is_owner keys True))
      else validate_keys wrv req nym_data is_owner keys flag)"

definition validate_existing_nym ::
  "('s, 'b) kv_ops \<Rightarrow> 'b rlp_ops \<Rightarrow> 's \<Rightarrow> (request \<Rightarrow> auth_action list \<Rightarrow> bool option res) \<Rightarrow> request \<Rightarrow> string \<Rightarrow> nym_info
     \<Rightarrow> unit res" where
  "validate_existing_nym kv rlp s wrv req dest nym_data =
     rbind (getOwnerFor kv rlp s dest False) (\<lambda>owner.
     let is_owner = (req_identifier req = owner)
     in if dict_in NYM_VERSION (operation req) then refuse req ''Cannot set version on existing nym''
        else rbind (validate_keys wrv req nym_data is_owner [ROLE, VERKEY] is_owner) (\<lambda>flag.
               if \<not> flag then refuse req [] else Inr ()))"

definition nym_dynamic_validation ::
  "codecs \<Rightarrow> ('s, 'b) kv_ops \<Rightarrow> 'b rlp_ops \<Rightarrow> 's \<Rightarrow> (request \<Rightarrow> auth_action list \<Rightarrow> bool option res) \<Rightarrow> request \<Rightarrow> unit res" where
  "nym_dynamic_validation cd kv rlp s wrv req =
     rbind (dict_index (operation req) TARGET_NYM) (\<lambda>v. rbind (nym_key v) (\<lambda>dest.
     rbind (getNym kv rlp s dest None False) (\<lambda>nym_data.
       case nym_data of
         Some ni \<Rightarrow> validate_existing_nym kv rlp s wrv req dest ni
       | None \<Rightarrow> validate_new_nym cd kv rlp s wrv req)))"

section \<open>State update\<close>

text \<open>\<open>if k in txn_data: new_data[k] = txn_data[k]\<close>\<close>

definition copy_key :: "dict \<Rightarrow> string \<Rightarrow> dict \<Rightarrow> dict" where
  "copy_key txn_data k new_data =
     (case map_of txn_data k of None \<Rightarrow> new_data | Some v \<Rightarrow> dict_set new_data k v)"

definition nym_new_data :: "txn \<Rightarrow> dict \<Rightarrow> dict" where
  "nym_new_data t existing_data =
     (let d = get_payload_data t;
          d0 = (if existing_data = [] then [(IDENTIFIER, did_val (get_from t)), (ROLE, PyNone), (VERKEY, PyNone)] else []);
          d1 = copy_key d NYM_VERSION (copy_key d DIDDOC_CONTENT (copy_key d VERKEY (copy_key d ROLE d0)))
      in dict_set (dict_set d1 SEQ_NO (opt_int_val (get_seq_no t))) TXN_TIME (opt_int_val (get_txn_time t)))"

text \<open>The data that \<open>update_state\<close> returns, and the one write that it makes.\<close>

definition nym_update_state ::
  "(pyval \<Rightarrow> 'b) \<Rightarrow> (string \<Rightarrow> dict) \<Rightarrow> (string \<Rightarrow> string) \<Rightarrow> txn \<Rightarrow> (dict \<times> string \<times> 'b) res" where
  "nym_update_state ser nym_details nym_to_state_key t =
     rbind (nym_key (dict_get (get_payload_data t) TARGET_NYM)) (\<lambda>nym.
       let existing_data = nym_details nym; data = dict_update existing_data (nym_new_data t existing_data)
       in Inr (data, nym_to_state_key nym, ser (PyDict data)))"

definition nym_gen_txn_id :: "(string \<Rightarrow> string) \<Rightarrow> (string \<Rightarrow> string) \<Rightarrow> txn \<Rightarrow> string res" where
  "nym_gen_txn_id sha_raw hexlify t =
     rbind (nym_key (dict_get (get_payload_data t) TARGET_NYM)) (\<lambda>nym. Inr (hexlify (make_state_path_for_nym sha_raw nym)))"

end
