(* ===== verification/Probe.thy ===== *)
theory Probe
  imports Prelude "HOL-Library.Word"
begin

unbundle bit_operations_syntax

text \<open>
  The probe sequence of the hash table behind \<open>CompatSet\<close> (indy_common/compat_set.py, the loops of
  \<open>look_entry\<close> and \<open>insert_entry_clean\<close>), and why it reaches every slot: once the hash has been
  shifted out, the index runs through \<open>i \<mapsto> 5 i + 1\<close> modulo a power of two, which is a single cycle.
\<close>

abbreviation LINEAR_PROBES :: nat where "LINEAR_PROBES \<equiv> 9"
abbreviation PERTURB_SHIFT :: nat where "PERTURB_SHIFT \<equiv> 5"

text \<open>\<open>x & mask\<close>, the next index and the slots looked at for one index.\<close>

definition masked :: "nat \<Rightarrow> int \<Rightarrow> nat" where
  "masked msk x = nat (x AND int msk)"

definition next_index :: "nat \<Rightarrow> nat \<Rightarrow> int \<Rightarrow> nat" where
  "next_index msk i perturb = masked msk (int i * 5 + 1 + perturb)"

definition window :: "nat \<Rightarrow> nat \<Rightarrow> nat list" where
  "window msk i = (if i + LINEAR_PROBES \<le> msk then [i..<i + LINEAR_PROBES + 1] else [i])"

lemma masked_mod: "masked (2 ^ k - Suc 0) x = nat (x mod 2 ^ k)"
proof -
  have "int (2 ^ k - Suc 0) = mask k" by (simp add: mask_eq_exp_minus_1 of_nat_diff)
  then show ?thesis by (simp add: masked_def take_bit_eq_mask [symmetric] take_bit_eq_mod)
qed

lemma int_masked: "int (masked (2 ^ k - Suc 0) x) = x mod 2 ^ k"
  by (simp add: masked_mod)

lemma masked_less: "masked (2 ^ k - Suc 0) x < 2 ^ k"
proof -
  have "int (masked (2 ^ k - Suc 0) x) < int (2 ^ k)" by (simp add: int_masked)
  then show ?thesis by (simp only: of_nat_less_iff)
qed

lemma window_head [simp]: "i \<in> set (window msk i)"
  by (simp add: window_def)

lemma window_bound: "i \<le> msk \<Longrightarrow> j \<in> set (window msk i) \<Longrightarrow> j \<le> msk"
  by (auto simp: window_def split: if_splits)

section \<open>The cycle\<close>

abbreviation lcg :: "int \<Rightarrow> int" where "lcg y \<equiv> 5 * y + 1"

text \<open>After \<open>2 ^ k\<close> steps the value has moved by an odd multiple of \<open>2 ^ k\<close>.\<close>

lemma lcg_power: "\<exists>u. odd u \<and> (\<forall>y. ((\<lambda>y. lcg y) ^^ (2 ^ k)) y = y + 2 ^ k * u * (4 * y + 1))"
proof (induction k)
  case 0
  show ?case by (rule exI [of _ 1]) simp
next
  case (Suc k)
  then obtain u where u: "odd u" "\<And>y. ((\<lambda>y. lcg y) ^^ (2 ^ k)) y = y + 2 ^ k * u * (4 * y + 1)"
    by blast
  have twice: "((\<lambda>y. lcg y) ^^ (2 ^ Suc k)) y = ((\<lambda>y. lcg y) ^^ (2 ^ k)) (((\<lambda>y. lcg y) ^^ (2 ^ k)) y)" for y
    by (simp add: mult_2 funpow_add)
  have square: "(y + c * (4 * y + 1)) + c * (4 * (y + c * (4 * y + 1)) + 1) = y + 2 * c * (1 + 2 * c) * (4 * y + 1)"
    for c y :: int by (simp add: algebra_simps)
  have "((\<lambda>y. lcg y) ^^ (2 ^ Suc k)) y = y + 2 ^ Suc k * (u * (1 + 2 ^ Suc k * u)) * (4 * y + 1)" for y
    unfolding twice u(2) square by simp
  moreover have "odd (u * (1 + 2 ^ Suc k * u))" using u(1) by simp
  ultimately show ?case by blast
qed

lemma lcg_half_cycle: "((\<lambda>y. lcg y) ^^ (2 ^ k)) y mod 2 ^ Suc k = (y + 2 ^ k) mod 2 ^ Suc k"
proof -
  obtain u where u: "odd u" "((\<lambda>y. lcg y) ^^ (2 ^ k)) y = y + 2 ^ k * u * (4 * y + 1)"
    using lcg_power by blast
  have "odd (u * (4 * y + 1))" using u(1) by simp
  then obtain v where "u * (4 * y + 1) = 2 * v + 1" by (elim oddE)
  then have "((\<lambda>y. lcg y) ^^ (2 ^ k)) y = (y + 2 ^ k) + 2 ^ Suc k * v"
    unfolding u(2) mult.assoc by (simp add: algebra_simps)
  then show ?thesis by simp
qed

lemma lcg_cong: "x mod m = y mod m \<Longrightarrow> ((\<lambda>y. lcg y) ^^ n) x mod m = ((\<lambda>y. lcg y) ^^ n) y mod m"
proof (induction n)
  case (Suc n)
  then have "((\<lambda>y. lcg y) ^^ n) x mod m = ((\<lambda>y. lcg y) ^^ n) y mod m" by simp
  then have "(5 * ((\<lambda>y. lcg y) ^^ n) x + 1) mod m = (5 * ((\<lambda>y. lcg y) ^^ n) y + 1) mod m"
    by (intro mod_add_cong mod_mult_cong) simp_all
  then show ?case by simp
qed simp

lemma mod_double: "x mod 2 ^ k = t mod 2 ^ k \<Longrightarrow> x mod 2 ^ Suc k = t mod 2 ^ Suc k \<or> (x + 2 ^ k) mod 2 ^ Suc k = t mod 2 ^ Suc k"
  for x t :: int
proof -
  assume "x mod 2 ^ k = t mod 2 ^ k"
  then obtain q where q: "x = t + 2 ^ k * q"
    by (metis mod_eqE)
  show ?thesis
  proof (cases "even q")
    case True
    then obtain r where "q = 2 * r" by (elim evenE)
    with q have "x = t + 2 ^ Suc k * r" by simp
    then show ?thesis by simp
  next
    case False
    then obtain r where "q = 2 * r + 1" by (elim oddE)
    with q have "x + 2 ^ k = t + 2 ^ Suc k * (r + 1)" by (simp add: algebra_simps)
    then show ?thesis by (metis mod_mult_self2)
  qed
qed

theorem lcg_reaches: "\<exists>n. ((\<lambda>y. lcg y) ^^ n) x mod 2 ^ k = t mod 2 ^ k" for x t :: int
proof (induction k)
  case 0
  show ?case by simp
next
  case (Suc k)
  then obtain n where "((\<lambda>y. lcg y) ^^ n) x mod 2 ^ k = t mod 2 ^ k" by blast
  from mod_double [OF this] show ?case
  proof
    assume "(((\<lambda>y. lcg y) ^^ n) x + 2 ^ k) mod 2 ^ Suc k = t mod 2 ^ Suc k"
    then have "((\<lambda>y. lcg y) ^^ (2 ^ k + n)) x mod 2 ^ Suc k = t mod 2 ^ Suc k"
      by (simp only: funpow_add comp_apply lcg_half_cycle)
    then show ?thesis by blast
  qed blast
qed

section \<open>The probe sequence of a hash\<close>

fun probe_index :: "nat \<Rightarrow> int \<Rightarrow> nat \<Rightarrow> nat" where
  "probe_index msk h 0 = masked msk h"
| "probe_index msk h (Suc n) = next_index msk (probe_index msk h n) (drop_bit (PERTURB_SHIFT * Suc n) h)"

lemma probe_index_less: "probe_index (2 ^ k - Suc 0) h n < 2 ^ k"
  by (cases n) (auto simp: next_index_def masked_less)

lemma drop_bit_vanishes: "0 \<le> h \<Longrightarrow> \<exists>m. \<forall>n\<ge>m. drop_bit (PERTURB_SHIFT * n) h = (0 :: int)"
proof -
  assume h: "0 \<le> h"
  have "drop_bit (5 * n) h = 0" if "nat h \<le> n" for n
  proof -
    have "nat h < 2 ^ (nat h)" by (rule less_exp)
    also have "(2 :: nat) ^ nat h \<le> 2 ^ (5 * n)" using that by (intro power_increasing) auto
    finally have "h < 2 ^ (5 * n)" using h by (metis nat_less_iff of_nat_numeral of_nat_power)
    with h show ?thesis by (simp add: drop_bit_eq_div)
  qed
  then show ?thesis by blast
qed

theorem probe_index_reaches:
  assumes "0 \<le> h" "t < 2 ^ k"
  shows "\<exists>n. probe_index (2 ^ k - Suc 0) h n = t"
proof -
  obtain m where m: "\<And>n. m \<le> n \<Longrightarrow> drop_bit (PERTURB_SHIFT * n) h = 0"
    using drop_bit_vanishes [OF assms(1)] by blast
  let ?i = "\<lambda>n. int (probe_index (2 ^ k - Suc 0) h n)"
  have "?i (m + n) mod 2 ^ k = ((\<lambda>y. lcg y) ^^ n) (?i m) mod 2 ^ k" for n
  proof (induction n)
    case (Suc n)
    have "?i (m + Suc n) = (?i (m + n) * 5 + 1) mod 2 ^ k"
      using m [of "Suc (m + n)"] by (simp add: next_index_def int_masked)
    also have "\<dots> = (5 * ((\<lambda>y. lcg y) ^^ n) (?i m) + 1) mod 2 ^ k"
      using Suc by (intro mod_add_cong) (metis mod_mult_cong mult.commute, simp)
    finally show ?case by simp
  qed simp
  moreover obtain n where "((\<lambda>y. lcg y) ^^ n) (?i m) mod 2 ^ k = int t mod 2 ^ k"
    using lcg_reaches by blast
  ultimately have "?i (m + n) mod 2 ^ k = int t mod 2 ^ k" by metis
  moreover have "?i (m + n) < 2 ^ k" "int t < 2 ^ k"
    using probe_index_less [of k h "m + n"] assms(2) by (simp_all only: of_nat_less_numeral_power_cancel_iff)
  ultimately have "probe_index (2 ^ k - Suc 0) h (m + n) = t" by simp
  then show ?thesis by blast
qed

end
