(* ===== verification/CompatSet.thy ===== *)
theory CompatSet
  imports Probe
begin

text \<open>
  \<open>CompatSet\<close> (indy_common/compat_set.py), the set with the iteration order of Python 3.5 that orders
  revocation indices in legacy mode. Elements have a type of their own; Python's \<open>hash\<close> is the
  argument \<open>hsh\<close>, and a value of type \<open>comp\<close> is \<open>None\<close> where the code loops forever. Indices stay
  within the table, so list access needs no bounds check.
\<close>

section \<open>The table\<close>

abbreviation MIN_SIZE :: nat where "MIN_SIZE \<equiv> 8"

text \<open>A slot is empty, a removed marker, or an entry (element and hash).\<close>

datatype 'a slot = Empty | REMOVED | Used 'a int

type_synonym 'a entry = "'a \<times> int"

definition from_elem :: "('a \<Rightarrow> int) \<Rightarrow> 'a \<Rightarrow> 'a entry" where
  "from_elem hsh x = (x, hsh x)"

record 'a inner =
  fill :: int
  tmask :: nat
  search :: nat
  table :: "'a slot list"
  used :: int

definition new_inner :: "'a inner" where
  "new_inner = \<lparr>fill = 0, tmask = MIN_SIZE - 1, search = 0, table = replicate MIN_SIZE Empty, used = 0\<rparr>"

fun entry_of :: "'a slot \<Rightarrow> 'a entry option" where
  "entry_of (Used x h) = Some (x, h)"
| "entry_of s = None"

text \<open>The entries in table order (\<open>entry is not None and entry is not REMOVED\<close>).\<close>

definition entries :: "'a slot list \<Rightarrow> 'a entry list" where
  "entries t = List.map_filter entry_of t"

section \<open>Lookup\<close>

text \<open>
  One round of \<open>look_entry\<close>: the slots of one index in turn, remembering the first removed one. Both
  returns of the source yield the slot itself whether or not a removed slot was seen.
\<close>

fun look_scan :: "'a slot list \<Rightarrow> 'a entry \<Rightarrow> nat option \<Rightarrow> nat list \<Rightarrow> nat + nat option" where
  "look_scan t e free_idx [] = Inr free_idx"
| "look_scan t e free_idx (j # js) =
     (case t ! j of
        Empty \<Rightarrow> Inl (if free_idx = None then j else j)
      | REMOVED \<Rightarrow> look_scan t e (if free_idx = None then Some j else free_idx) js
      | Used x h \<Rightarrow> if (x, h) = e then Inl j else look_scan t e free_idx js)"

partial_function (option) look_loop ::
  "'a slot list \<Rightarrow> nat \<Rightarrow> 'a entry \<Rightarrow> nat option \<Rightarrow> nat \<Rightarrow> int \<Rightarrow> nat option" where
  "look_loop t msk e free_idx i perturb =
     (case look_scan t e free_idx (window msk i) of
        Inl j \<Rightarrow> Some j
      | Inr free_idx' \<Rightarrow>
          look_loop t msk e free_idx' (next_index msk i (drop_bit PERTURB_SHIFT perturb)) (drop_bit PERTURB_SHIFT perturb))"

definition look_entry :: "'a inner \<Rightarrow> 'a entry \<Rightarrow> nat comp" where
  "look_entry s e =
     (if \<not> fill s \<le> int (tmask s) then raise AssertionError
      else map_option Inr (look_loop (table s) (tmask s) e None (masked (tmask s) (snd e)) (snd e)))"

definition contains_entry :: "'a inner \<Rightarrow> 'a entry \<Rightarrow> bool comp" where
  "contains_entry s e = cbind (look_entry s e) (\<lambda>j. ret (table s ! j \<noteq> Empty \<and> table s ! j \<noteq> REMOVED))"

definition contains :: "('a \<Rightarrow> int) \<Rightarrow> 'a inner \<Rightarrow> 'a \<Rightarrow> bool comp" where
  "contains hsh s x = contains_entry s (from_elem hsh x)"

section \<open>Insertion and removal\<close>

fun put :: "'a slot list \<Rightarrow> nat \<Rightarrow> 'a entry \<Rightarrow> 'a slot list" where
  "put t j (x, h) = t[j := Used x h]"

definition insert_entry :: "'a inner \<Rightarrow> 'a entry \<Rightarrow> ('a inner \<times> bool) comp" where
  "insert_entry s e =
     cbind (look_entry s e) (\<lambda>j.
       case table s ! j of
         Empty \<Rightarrow> ret (s\<lparr>table := put (table s) j e, fill := fill s + 1, used := used s + 1\<rparr>, True)
       | REMOVED \<Rightarrow> ret (s\<lparr>table := put (table s) j e, used := used s + 1\<rparr>, True)
       | Used _ _ \<Rightarrow> ret (s, False))"

text \<open>The loop of \<open>insert_entry_clean\<close>, which stops at the first empty slot.\<close>

partial_function (option) clean_loop :: "'a slot list \<Rightarrow> nat \<Rightarrow> nat \<Rightarrow> int \<Rightarrow> nat option" where
  "clean_loop t msk i perturb =
     (case find (\<lambda>j. t ! j = Empty) (window msk i) of
        Some j \<Rightarrow> Some j
      | None \<Rightarrow>
          clean_loop t msk (next_index msk i (drop_bit PERTURB_SHIFT perturb)) (drop_bit PERTURB_SHIFT perturb))"

definition insert_entry_clean :: "'a inner \<Rightarrow> 'a entry \<Rightarrow> 'a inner comp" where
  "insert_entry_clean s e =
     (case clean_loop (table s) (tmask s) (masked (tmask s) (snd e)) (snd e) of
        None \<Rightarrow> None
      | Some j \<Rightarrow> ret (s\<lparr>table := put (table s) j e, fill := fill s + 1, used := used s + 1\<rparr>))"

text \<open>\<open>while new_size <= min_used: new_size *= 2\<close>, from a positive size.\<close>

function new_size_for :: "nat \<Rightarrow> int \<Rightarrow> nat" where
  "new_size_for n min_used = (if 0 < n \<and> int n \<le> min_used then new_size_for (2 * n) min_used else n)"
  by pat_completeness auto
termination
  by (relation "measure (\<lambda>(n, m). nat (m + 1) - n)") auto

declare new_size_for.simps [simp del]

definition resize :: "'a inner \<Rightarrow> int \<Rightarrow> 'a inner comp" where
  "resize s min_used =
     (if \<not> 0 \<le> min_used then raise AssertionError
      else let new_size = new_size_for MIN_SIZE min_used
           in cfold insert_entry_clean
                (s\<lparr>table := replicate new_size Empty, fill := 0, tmask := new_size - 1, used := 0\<rparr>)
                (entries (table s)))"

definition grow :: "'a inner \<Rightarrow> 'a inner comp" where
  "grow s = resize s (if used s > 50000 then used s * 2 else used s * 4)"

definition add_entry :: "'a inner \<Rightarrow> 'a entry \<Rightarrow> 'a inner comp" where
  "add_entry s e =
     cbind (insert_entry s e) (\<lambda>(s', inserted).
       if inserted \<and> fill s' * 3 \<ge> (int (tmask s') + 1) * 2 then grow s' else ret s')"

definition add :: "('a \<Rightarrow> int) \<Rightarrow> 'a inner \<Rightarrow> 'a \<Rightarrow> 'a inner comp" where
  "add hsh s x = add_entry s (from_elem hsh x)"

definition discard_entry :: "'a inner \<Rightarrow> 'a entry \<Rightarrow> ('a inner \<times> bool) comp" where
  "discard_entry s e =
     cbind (look_entry s e) (\<lambda>j.
       if table s ! j \<noteq> Empty \<and> table s ! j \<noteq> REMOVED
       then ret (s\<lparr>table := (table s)[j := REMOVED], used := used s - 1\<rparr>, True)
       else ret (s, False))"

definition discard :: "('a \<Rightarrow> int) \<Rightarrow> 'a inner \<Rightarrow> 'a \<Rightarrow> ('a inner \<times> bool) comp" where
  "discard hsh s x = discard_entry s (from_elem hsh x)"

section \<open>Iteration\<close>

text \<open>\<open>next\<close>: the first entry at or after a position, and the position behind it.\<close>

function next_entry :: "'a inner \<Rightarrow> nat \<Rightarrow> nat \<times> 'a entry option" where
  "next_entry s pos =
     (if pos > tmask s then (pos, None)
      else case entry_of (table s ! pos) of
             None \<Rightarrow> next_entry s (pos + 1)
           | Some e \<Rightarrow> (pos + 1, Some e))"
  by pat_completeness auto
termination
  by (relation "measure (\<lambda>(s, pos). Suc (tmask s) - pos)") auto

declare next_entry.simps [simp del]

lemma next_entry_bound: "next_entry s pos = (pos', Some e) \<Longrightarrow> pos < pos' \<and> pos' \<le> Suc (tmask s)"
proof (induction s pos rule: next_entry.induct)
  case (1 s pos)
  then show ?case
    by (subst (asm) (2) next_entry.simps) (auto split: if_splits option.splits)
qed

text \<open>What the \<open>while True: (pos, entry) = self.next(pos)\<close> loops and the iterator visit.\<close>

function iter_from :: "'a inner \<Rightarrow> nat \<Rightarrow> 'a entry list" where
  "iter_from s pos =
     (case next_entry s pos of
        (pos', None) \<Rightarrow> []
      | (pos', Some e) \<Rightarrow> e # iter_from s pos')"
  by pat_completeness auto
termination
  by (relation "measure (\<lambda>(s, pos). Suc (Suc (tmask s)) - pos)") (auto dest: next_entry_bound [OF sym])

declare iter_from.simps [simp del]

definition iter_elems :: "'a inner \<Rightarrow> 'a list" where
  "iter_elems s = map fst (iter_from s 0)"

section \<open>Operations on several sets\<close>

text \<open>
  The argument of an operation: another \<open>CompatSet\<close>, the very same one (\<open>other._inner is self\<close>), a
  Python set in its iteration order, or any other iterable.
\<close>

datatype 'a operand = OtherSet "'a inner" | Itself | PySet "'a list" | Elems "'a list"

text \<open>\<open>merge\<close> after the resize: copy the table, insert without or with a check for duplicates.\<close>

definition merge_into :: "'a inner \<Rightarrow> 'a inner \<Rightarrow> 'a inner comp" where
  "merge_into s other =
     (if fill s = 0 \<and> tmask s = tmask other \<and> fill other = used other
      then ret (s\<lparr>table := table other, fill := fill other, used := used other\<rparr>)
      else if fill s = 0 then cfold insert_entry_clean s (entries (table other))
      else cfold (\<lambda>s e. cbind (insert_entry s e) (\<lambda>r. ret (fst r))) s (entries (table other)))"

definition merge :: "'a inner \<Rightarrow> 'a inner \<Rightarrow> 'a inner comp" where
  "merge s other =
     (if used other = 0 then ret s
      else if (fill s + used other) * 3 \<ge> (int (tmask s) + 1) * 2
      then cbind (resize s ((used s + used other) * 2)) (\<lambda>s'. merge_into s' other)
      else merge_into s other)"

definition copy :: "'a inner \<Rightarrow> 'a inner comp" where
  "copy s = merge new_inner s"

fun update :: "('a \<Rightarrow> int) \<Rightarrow> 'a inner \<Rightarrow> 'a operand \<Rightarrow> 'a inner comp" where
  "update hsh s (OtherSet t) = merge s t"
| "update hsh s Itself = ret s"
| "update hsh s (PySet xs) = cfold (add hsh) s xs"
| "update hsh s (Elems xs) = cfold (add hsh) s xs"

fun operand_elems :: "'a inner \<Rightarrow> 'a operand \<Rightarrow> 'a list" where
  "operand_elems s (OtherSet t) = iter_elems t"
| "operand_elems s Itself = iter_elems s"
| "operand_elems s (PySet xs) = xs"
| "operand_elems s (Elems xs) = xs"

definition difference_update :: "('a \<Rightarrow> int) \<Rightarrow> 'a inner \<Rightarrow> 'a operand \<Rightarrow> 'a inner comp" where
  "difference_update hsh s other =
     (if other = Itself then ret new_inner
      else cbind (cfold (\<lambda>s x. cbind (discard hsh s x) (\<lambda>r. ret (fst r))) s (operand_elems s other)) (\<lambda>s.
        if (fill s - used s) * 5 \<ge> int (tmask s) then grow s else ret s))"

text \<open>
  \<open>difference\<close>: for a set whose size is not much smaller, keep the entries that are not in it;
  otherwise copy and remove.
\<close>

definition keep_entries :: "('a entry \<Rightarrow> bool comp) \<Rightarrow> 'a entry list \<Rightarrow> 'a inner comp" where
  "keep_entries keep es =
     cfold (\<lambda>res e. cbind (keep e) (\<lambda>k. if k then add_entry res e else ret res)) new_inner es"

definition difference :: "('a \<Rightarrow> int) \<Rightarrow> 'a inner \<Rightarrow> 'a operand \<Rightarrow> 'a inner comp" where
  "difference hsh s other =
     (let by_removal = cbind (copy s) (\<lambda>res. difference_update hsh res (case other of Itself \<Rightarrow> OtherSet s | _ \<Rightarrow> other));
          drop_from = (\<lambda>t. keep_entries (\<lambda>e. cbind (contains_entry t e) (\<lambda>b. ret (\<not> b))) (iter_from s 0))
      in case other of
           OtherSet t \<Rightarrow> if used s div 4 \<le> used t then drop_from t else by_removal
         | Itself \<Rightarrow> if used s div 4 \<le> used s then drop_from s else by_removal
         | PySet xs \<Rightarrow>
             if used s div 4 \<le> int (length xs) then keep_entries (\<lambda>e. ret (fst e \<notin> set xs)) (iter_from s 0) else by_removal
         | Elems xs \<Rightarrow> by_removal)"

text \<open>
  \<open>intersection\<close>: with itself it calls \<open>update\<close> on the inner set, which is no iterable; with a larger
  set it swaps \<open>self\<close> (an inner set) and \<open>other\<close> (a \<open>CompatSet\<close>, which has no \<open>contains_entry\<close>).
\<close>

definition intersection :: "('a \<Rightarrow> int) \<Rightarrow> 'a inner \<Rightarrow> 'a operand \<Rightarrow> 'a inner comp" where
  "intersection hsh s other =
     (case other of
        Itself \<Rightarrow> raise (TypeError ''not iterable'')
      | OtherSet t \<Rightarrow>
          if used t > used s
          then keep_entries (\<lambda>e. raise (AttributeError ''contains_entry'')) (iter_from t 0)
          else keep_entries (contains_entry s) (iter_from t 0)
      | PySet xs \<Rightarrow> keep_entries (contains_entry s) (map (from_elem hsh) xs)
      | Elems xs \<Rightarrow> keep_entries (contains_entry s) (map (from_elem hsh) xs))"

definition symmetric_difference_update :: "('a \<Rightarrow> int) \<Rightarrow> 'a inner \<Rightarrow> 'a operand \<Rightarrow> 'a inner comp" where
  "symmetric_difference_update hsh s other =
     (if other = Itself then ret new_inner
      else cfold (\<lambda>s x. cbind (discard hsh s x) (\<lambda>(s', found). if found then ret s' else add hsh s' x))
             s (operand_elems s other))"

partial_function (option) pop_loop :: "'a inner \<Rightarrow> nat \<Rightarrow> (nat \<times> 'a) option" where
  "pop_loop s i =
     (case entry_of (table s ! i) of
        Some e \<Rightarrow> Some (i, fst e)
      | None \<Rightarrow> pop_loop s (if i + 1 > tmask s then 0 else i + 1))"

definition pop :: "'a inner \<Rightarrow> ('a inner \<times> 'a) comp" where
  "pop s =
     (if used s = 0 then raise (KeyError ''pop from empty set'')
      else case pop_loop s (masked (tmask s) (int (search s))) of
             None \<Rightarrow> None
           | Some (i, x) \<Rightarrow> ret (s\<lparr>table := (table s)[i := REMOVED], used := used s - 1, search := i + 1\<rparr>, x))"

text \<open>\<open>__eq__\<close> of the inner sets: the loop covers the first \<open>_used\<close> slots of the table.\<close>

fun eq_loop :: "'a inner \<Rightarrow> 'a slot list \<Rightarrow> bool comp" where
  "eq_loop other [] = ret True"
| "eq_loop other (sl # sls) =
     (case entry_of sl of
        None \<Rightarrow> eq_loop other sls
      | Some e \<Rightarrow> cbind (contains_entry other e) (\<lambda>b. if \<not> b then ret False else eq_loop other sls))"

definition inner_eq :: "'a inner \<Rightarrow> 'a inner \<Rightarrow> bool comp" where
  "inner_eq s other =
     (if used other \<noteq> used s then ret False else eq_loop other (take (nat (used s)) (table s)))"

section \<open>The class CompatSet\<close>

definition CompatSet :: "('a \<Rightarrow> int) \<Rightarrow> 'a operand option \<Rightarrow> 'a inner comp" where
  "CompatSet hsh elems = (case elems of None \<Rightarrow> ret new_inner | Some es \<Rightarrow> update hsh new_inner es)"

definition cs_remove :: "('a \<Rightarrow> int) \<Rightarrow> 'a inner \<Rightarrow> 'a \<Rightarrow> 'a inner comp" where
  "cs_remove hsh s x =
     cbind (discard hsh s x) (\<lambda>(s', found). if \<not> found then raise (KeyError ''elem'') else ret s')"

text \<open>\<open>difference(*others)\<close>: a copy when there is no argument.\<close>

fun cs_difference :: "('a \<Rightarrow> int) \<Rightarrow> 'a inner \<Rightarrow> 'a operand list \<Rightarrow> 'a inner comp" where
  "cs_difference hsh s [] = copy s"
| "cs_difference hsh s (o1 # os) =
     cbind (difference hsh s o1) (\<lambda>inner.
       cfold (\<lambda>inner other. difference_update hsh inner (case other of Itself \<Rightarrow> OtherSet s | _ \<Rightarrow> other)) inner os)"

definition cs_symmetric_difference :: "('a \<Rightarrow> int) \<Rightarrow> 'a inner \<Rightarrow> 'a operand \<Rightarrow> 'a inner comp" where
  "cs_symmetric_difference hsh s other =
     cbind (update hsh new_inner (case other of Itself \<Rightarrow> OtherSet s | _ \<Rightarrow> other)) (\<lambda>inner.
       symmetric_difference_update hsh inner (OtherSet s))"

definition cs_update :: "('a \<Rightarrow> int) \<Rightarrow> 'a inner \<Rightarrow> 'a operand list \<Rightarrow> 'a inner comp" where
  "cs_update hsh s others = cfold (update hsh) s others"

definition cs_union :: "('a \<Rightarrow> int) \<Rightarrow> 'a inner \<Rightarrow> 'a operand list \<Rightarrow> 'a inner comp" where
  "cs_union hsh s others =
     cbind (copy s) (\<lambda>inner.
       cfold (\<lambda>inner other. update hsh inner (case other of Itself \<Rightarrow> OtherSet s | _ \<Rightarrow> other)) inner others)"

text \<open>\<open>intersection(*others)\<close>: the first argument may be the set itself, the result is a new one.\<close>

fun cs_intersection :: "('a \<Rightarrow> int) \<Rightarrow> 'a inner \<Rightarrow> 'a operand list \<Rightarrow> 'a inner comp" where
  "cs_intersection hsh s [] = copy s"
| "cs_intersection hsh s (o1 # os) =
     cbind (intersection hsh s o1) (\<lambda>inner.
       cfold (\<lambda>inner other. intersection hsh inner (case other of Itself \<Rightarrow> OtherSet s | _ \<Rightarrow> other)) inner os)"

text \<open>\<open>all(p(x) for x in xs)\<close>, which stops at the first failure.\<close>

fun call :: "('a \<Rightarrow> bool comp) \<Rightarrow> 'a list \<Rightarrow> bool comp" where
  "call p [] = ret True"
| "call p (x # xs) = cbind (p x) (\<lambda>b. if b then call p xs else ret False)"

text \<open>\<open>x in other\<close> and \<open>len(other)\<close> for an operand.\<close>

fun operand_contains :: "('a \<Rightarrow> int) \<Rightarrow> 'a inner \<Rightarrow> 'a operand \<Rightarrow> 'a \<Rightarrow> bool comp" where
  "operand_contains hsh s (OtherSet t) x = contains hsh t x"
| "operand_contains hsh s Itself x = contains hsh s x"
| "operand_contains hsh s (PySet xs) x = ret (x \<in> set xs)"
| "operand_contains hsh s (Elems xs) x = ret (x \<in> set xs)"

fun operand_len :: "'a inner \<Rightarrow> 'a operand \<Rightarrow> int" where
  "operand_len s (OtherSet t) = used t"
| "operand_len s Itself = used s"
| "operand_len s (PySet xs) = int (length xs)"
| "operand_len s (Elems xs) = int (length xs)"

definition isdisjoint :: "('a \<Rightarrow> int) \<Rightarrow> 'a inner \<Rightarrow> 'a operand \<Rightarrow> bool comp" where
  "isdisjoint hsh s other =
     (if used s > operand_len s other
      then call (\<lambda>x. cbind (operand_contains hsh s other x) (\<lambda>b. ret (\<not> b))) (iter_elems s)
      else call (\<lambda>x. cbind (contains hsh s x) (\<lambda>b. ret (\<not> b))) (operand_elems s other))"

definition issubset :: "('a \<Rightarrow> int) \<Rightarrow> 'a inner \<Rightarrow> 'a operand \<Rightarrow> bool comp" where
  "issubset hsh s other = call (operand_contains hsh s other) (iter_elems s)"

definition issuperset :: "('a \<Rightarrow> int) \<Rightarrow> 'a inner \<Rightarrow> 'a operand \<Rightarrow> bool comp" where
  "issuperset hsh s other = call (contains hsh s) (operand_elems s other)"

text \<open>\<open>__eq__\<close>: with a \<open>CompatSet\<close> (compared from the other side), with a Python set, with anything else.\<close>

fun cs_eq :: "('a \<Rightarrow> int) \<Rightarrow> 'a inner \<Rightarrow> 'a operand \<Rightarrow> bool comp" where
  "cs_eq hsh s (OtherSet t) = inner_eq t s"
| "cs_eq hsh s Itself = inner_eq s s"
| "cs_eq hsh s (PySet xs) = (if int (length xs) = used s then call (\<lambda>x. ret (x \<in> set xs)) (iter_elems s) else ret False)"
| "cs_eq hsh s (Elems xs) = ret False"

end
