(* ===== verification/CompatSetInv.thy ===== *)
theory CompatSetInv
  imports CompatSet
begin

text \<open>
  Why \<open>CompatSet\<close> is a set: the invariant of its table (every entry is where a lookup from its hash
  ends, and there is an empty slot), and that lookups return, with the effect of each operation on the
  set of elements, for elements with a hash that is not negative.
\<close>

section \<open>First hit of the probe sequence\<close>

definition probes :: "nat \<Rightarrow> int \<Rightarrow> nat \<Rightarrow> nat \<Rightarrow> nat list" where
  "probes msk h m n = concat (map (\<lambda>r. window msk (probe_index msk h r)) [m..<n])"

definition first_at :: "(nat \<Rightarrow> bool) \<Rightarrow> nat \<Rightarrow> int \<Rightarrow> nat \<Rightarrow> bool" where
  "first_at P msk h j \<longleftrightarrow> (\<exists>n. find P (probes msk h 0 n) = Some j)"

lemma find_append: "find P (xs @ ys) = (case find P xs of None \<Rightarrow> find P ys | Some x \<Rightarrow> Some x)"
  by (induction xs) auto

lemma probes_Suc: "m < n \<Longrightarrow> probes msk h m n = window msk (probe_index msk h m) @ probes msk h (Suc m) n"
  by (simp add: probes_def upt_conv_Cons)

lemma probes_append: "m \<le> n \<Longrightarrow> probes msk h 0 n = probes msk h 0 m @ probes msk h m n"
proof -
  assume "m \<le> n"
  then obtain d where "n = m + d" by (blast dest: le_Suc_ex)
  then show ?thesis by (simp add: probes_def upt_add_eq_append [of 0 m d, simplified])
qed

lemma first_at_unique: "first_at P msk h i \<Longrightarrow> first_at P msk h j \<Longrightarrow> i = j"
proof -
  have "find P (probes msk h 0 n) = Some i"
    if "find P (probes msk h 0 m) = Some i" "m \<le> n" for i m n
    using that by (simp add: probes_append [of m n] find_append)
  then show "first_at P msk h i \<Longrightarrow> first_at P msk h j \<Longrightarrow> i = j"
    unfolding first_at_def by (metis linorder_linear option.inject)
qed

lemma first_at_holds: "first_at P msk h j \<Longrightarrow> P j"
  by (auto simp: first_at_def find_Some_iff)

text \<open>Fewer stops that still include the first one leave it the first.\<close>

lemma find_stronger: "find P xs = Some j \<Longrightarrow> Q j \<Longrightarrow> (\<And>i. Q i \<Longrightarrow> P i) \<Longrightarrow> find Q xs = Some j"
  by (induction xs) (auto split: if_splits)

lemma first_at_stronger: "first_at P msk h j \<Longrightarrow> Q j \<Longrightarrow> (\<And>i. Q i \<Longrightarrow> P i) \<Longrightarrow> first_at Q msk h j"
  unfolding first_at_def using find_stronger by metis

lemma probes_bound: "j \<in> set (probes (2 ^ k - Suc 0) h m n) \<Longrightarrow> j < 2 ^ k"
proof -
  assume "j \<in> set (probes (2 ^ k - Suc 0) h m n)"
  then obtain r where "j \<in> set (window (2 ^ k - Suc 0) (probe_index (2 ^ k - Suc 0) h r))"
    by (auto simp: probes_def)
  moreover have "probe_index (2 ^ k - Suc 0) h r \<le> 2 ^ k - Suc 0"
    using probe_index_less [of k h r] by linarith
  ultimately have "j \<le> 2 ^ k - Suc 0" by (rule window_bound [rotated])
  moreover have "(0 :: nat) < 2 ^ k" by simp
  ultimately show "j < 2 ^ k" by linarith
qed

lemma first_at_bound: "first_at P (2 ^ k - Suc 0) h j \<Longrightarrow> j < 2 ^ k"
  using probes_bound by (auto simp: first_at_def find_Some_iff dest: nth_mem)

lemma first_at_exists:
  assumes "0 \<le> h" "t < 2 ^ k" "P t"
  shows "\<exists>j. first_at P (2 ^ k - Suc 0) h j"
proof -
  obtain n where "probe_index (2 ^ k - Suc 0) h n = t"
    using probe_index_reaches [OF assms(1,2)] by blast
  then have "t \<in> set (probes (2 ^ k - Suc 0) h 0 (Suc n))"
    by (force simp: probes_def)
  then have "find P (probes (2 ^ k - Suc 0) h 0 (Suc n)) \<noteq> None"
    using assms(3) by (auto simp: find_None_iff)
  then show ?thesis unfolding first_at_def by blast
qed

section \<open>The loops find the first hit\<close>

lemma loop_finds:
  assumes hit: "\<And>f n j. find P (window msk (probe_index msk h n)) = Some j \<Longrightarrow> F f n = Some j"
    and miss: "\<And>f n. find P (window msk (probe_index msk h n)) = None \<Longrightarrow> \<exists>f'. F f n = F f' (Suc n)"
    and "first_at P msk h j"
  shows "F f 0 = Some j"
proof -
  obtain N where "find P (probes msk h 0 N) = Some j"
    using assms(3) by (auto simp: first_at_def)
  moreover have "find P (probes msk h n N) = Some j \<Longrightarrow> F f n = Some j" for n f
  proof (induction "N - n" arbitrary: n f)
    case 0
    then show ?case by (simp add: probes_def)
  next
    case (Suc d)
    then have split: "probes msk h n N = window msk (probe_index msk h n) @ probes msk h (Suc n) N"
      by (intro probes_Suc) simp
    show ?case
    proof (cases "find P (window msk (probe_index msk h n))")
      case None
      with miss obtain f' where "F f n = F f' (Suc n)" by blast
      moreover have "F f' (Suc n) = Some j"
        by (rule Suc.hyps(1)) (use Suc.hyps(2) Suc.prems None split in \<open>auto simp: find_append\<close>)
      ultimately show ?thesis by simp
    next
      case (Some i)
      with Suc.prems split hit [OF Some] show ?thesis by (auto simp: find_append)
    qed
  qed
  ultimately show ?thesis by blast
qed

text \<open>A slot at which a lookup stops: an empty one, or the entry itself.\<close>

definition stops :: "'a slot list \<Rightarrow> 'a entry \<Rightarrow> nat \<Rightarrow> bool" where
  "stops t e j \<longleftrightarrow> t ! j = Empty \<or> t ! j = Used (fst e) (snd e)"

lemma look_scan_hit: "find (stops t e) js = Some j \<Longrightarrow> look_scan t e f js = Inl j"
  by (induction js arbitrary: f) (auto simp: stops_def split: slot.splits if_splits)

lemma look_scan_miss: "find (stops t e) js = None \<Longrightarrow> \<exists>f'. look_scan t e f js = Inr f'"
  by (induction js arbitrary: f) (auto simp: stops_def split: slot.splits if_splits)

lemma look_loop_first:
  assumes "first_at (stops t e) msk h j"
  shows "look_loop t msk e f (masked msk h) h = Some j"
proof -
  let ?F = "\<lambda>f n. look_loop t msk e f (probe_index msk h n) (drop_bit (PERTURB_SHIFT * n) h)"
  have "?F f 0 = Some j"
  proof (rule loop_finds [where F = ?F, OF _ _ assms])
    show "?F f n = Some j" if "find (stops t e) (window msk (probe_index msk h n)) = Some j" for f n j
      by (subst look_loop.simps) (simp add: look_scan_hit [OF that])
    show "\<exists>f'. ?F f n = ?F f' (Suc n)" if miss: "find (stops t e) (window msk (probe_index msk h n)) = None" for f n
    proof -
      obtain f' where "look_scan t e f (window msk (probe_index msk h n)) = Inr f'"
        using look_scan_miss [OF miss] by blast
      then have "?F f n = ?F f' (Suc n)"
        by (subst look_loop.simps) simp
      then show ?thesis by blast
    qed
  qed
  then show ?thesis by simp
qed

lemma clean_loop_first:
  assumes "first_at (\<lambda>j. t ! j = Empty) msk h j"
  shows "clean_loop t msk (masked msk h) h = Some j"
proof -
  let ?F = "\<lambda>f n. clean_loop t msk (probe_index msk h n) (drop_bit (PERTURB_SHIFT * n) h)"
  have "?F () 0 = Some j"
  proof (rule loop_finds [where F = ?F, OF _ _ assms])
    show "?F f n = Some j" if "find (\<lambda>j. t ! j = Empty) (window msk (probe_index msk h n)) = Some j" for f n j
      by (subst clean_loop.simps) (simp add: that)
    show "\<exists>f'. ?F f n = ?F f' (Suc n)" if "find (\<lambda>j. t ! j = Empty) (window msk (probe_index msk h n)) = None" for f n
      by (subst clean_loop.simps) (simp add: that)
  qed
  then show ?thesis by simp
qed

section \<open>Tables\<close>

definition elems :: "'a slot list \<Rightarrow> 'a set" where
  "elems t = fst ` set (entries t)"

definition occupied :: "'a slot list \<Rightarrow> nat" where
  "occupied t = length (filter (\<lambda>sl. sl \<noteq> Empty) t)"

text \<open>Every entry carries the hash of its element and is where a lookup ends.\<close>

definition placed :: "('a \<Rightarrow> int) \<Rightarrow> nat \<Rightarrow> 'a slot list \<Rightarrow> bool" where
  "placed hsh msk t \<longleftrightarrow>
     (\<forall>j<length t. \<forall>x h. t ! j = Used x h \<longrightarrow> h = hsh x \<and> 0 \<le> h \<and> first_at (stops t (x, h)) msk h j)"

lemma placedD:
  "placed hsh msk t \<Longrightarrow> j < length t \<Longrightarrow> t ! j = Used x h
    \<Longrightarrow> h = hsh x \<and> 0 \<le> h \<and> first_at (stops t (x, h)) msk h j"
  unfolding placed_def by blast

lemma entries_append [simp]: "entries (t @ u) = entries t @ entries u"
  by (simp add: entries_def map_filter_def)

lemma entries_Cons [simp]: "entries (sl # t) = (case entry_of sl of None \<Rightarrow> entries t | Some e \<Rightarrow> e # entries t)"
  by (simp add: entries_def map_filter_def split: option.splits)

lemma entries_Nil [simp]: "entries [] = []"
  by (simp add: entries_def map_filter_def)

lemma entry_of_Some [simp]: "entry_of sl = Some e \<longleftrightarrow> sl = Used (fst e) (snd e)"
  by (cases sl) auto

lemma set_entries: "(x, h) \<in> set (entries t) \<longleftrightarrow> (\<exists>j<length t. t ! j = Used x h)"
proof -
  have "(x, h) \<in> set (entries t) \<longleftrightarrow> Used x h \<in> set t"
    by (induction t) (auto split: option.splits)
  then show ?thesis by (simp add: in_set_conv_nth)
qed

lemma elems_iff: "x \<in> elems t \<longleftrightarrow> (\<exists>j<length t. \<exists>h. t ! j = Used x h)"
proof -
  have "x \<in> elems t \<longleftrightarrow> (\<exists>h. (x, h) \<in> set (entries t))" by (force simp: elems_def)
  then show ?thesis by (auto simp: set_entries)
qed

lemma elems_hashed: "placed hsh msk t \<Longrightarrow> x \<in> elems t \<Longrightarrow> (x, hsh x) \<in> set (entries t) \<and> 0 \<le> hsh x"
  by (auto simp: elems_iff placed_def set_entries)

lemma entries_placed: "placed hsh msk t \<Longrightarrow> (x, h) \<in> set (entries t) \<Longrightarrow> h = hsh x \<and> 0 \<le> h \<and> x \<in> elems t"
  by (auto simp: set_entries placed_def elems_iff)

lemma slot_unique:
  assumes "placed hsh msk t" "i < length t" "j < length t" "t ! i = Used x h" "t ! j = Used x h'"
  shows "i = j"
proof -
  have i: "h = hsh x" "first_at (stops t (x, hsh x)) msk (hsh x) i"
    using assms(1,2,4) by (auto simp: placed_def)
  have j: "first_at (stops t (x, hsh x)) msk (hsh x) j"
    using assms(1,3,5) by (auto simp: placed_def)
  from first_at_unique [OF i(2) j] show ?thesis .
qed

lemma distinct_entries:
  assumes "placed hsh msk t"
  shows "distinct (map fst (entries t))"
proof -
  have "entries t = map (\<lambda>j. the (entry_of (t ! j))) (filter (\<lambda>j. entry_of (t ! j) \<noteq> None) [0..<length t])"
    using filter_map [of "\<lambda>sl. entry_of sl \<noteq> None" "nth t" "[0..<length t]"]
    by (simp add: entries_def map_filter_def map_nth comp_def)
  moreover have "inj_on (\<lambda>j. fst (the (entry_of (t ! j)))) (set (filter (\<lambda>j. entry_of (t ! j) \<noteq> None) [0..<length t]))"
    by (rule inj_onI) (auto intro: slot_unique [OF assms])
  ultimately show ?thesis by (simp add: distinct_map comp_def)
qed

lemma card_elems: "placed hsh msk t \<Longrightarrow> length (entries t) = card (elems t)"
  using distinct_card [OF distinct_entries, of hsh msk t] by (simp add: elems_def)

lemma finite_elems [simp]: "finite (elems t)"
  by (simp add: elems_def)

lemma entries_le_occupied: "length (entries t) \<le> occupied t"
  by (induction t) (auto simp: occupied_def split: option.splits)

text \<open>The two changes of a slot.\<close>

lemma split_at: "j < length t \<Longrightarrow> t = take j t @ t ! j # drop (Suc j) t"
  by (rule id_take_nth_drop)

lemma length_entries_fill:
  assumes "j < length t" "t ! j = Empty"
  shows "occupied (t[j := Used x h]) = Suc (occupied t)"
    and "length (entries (t[j := Used x h])) = Suc (length (entries t))"
proof -
  have t: "t = take j t @ Empty # drop (Suc j) t" using split_at [OF assms(1)] assms(2) by simp
  have u: "t[j := Used x h] = take j t @ Used x h # drop (Suc j) t" using assms(1) by (rule upd_conv_take_nth_drop)
  show "occupied (t[j := Used x h]) = Suc (occupied t)"
    unfolding u by (subst (3) t) (simp add: occupied_def)
  show "length (entries (t[j := Used x h])) = Suc (length (entries t))"
    unfolding u by (subst (3) t) simp
qed

lemma length_entries_remove:
  assumes "j < length t" "t ! j = Used x h"
  shows "occupied (t[j := REMOVED]) = occupied t"
    and "Suc (length (entries (t[j := REMOVED]))) = length (entries t)"
proof -
  have t: "t = take j t @ Used x h # drop (Suc j) t" using split_at [OF assms(1)] assms(2) by simp
  have u: "t[j := REMOVED] = take j t @ REMOVED # drop (Suc j) t" using assms(1) by (rule upd_conv_take_nth_drop)
  show "occupied (t[j := REMOVED]) = occupied t"
    unfolding u by (subst (3) t) (simp add: occupied_def)
  show "Suc (length (entries (t[j := REMOVED]))) = length (entries t)"
    unfolding u by (subst (3) t) simp
qed

lemma elems_fill: "j < length t \<Longrightarrow> t ! j = Empty \<Longrightarrow> elems (t[j := Used x h]) = insert x (elems t)"
  by (auto simp: set_eq_iff elems_iff nth_list_update) (metis slot.distinct(3))+

lemma elems_remove:
  "placed hsh msk t \<Longrightarrow> j < length t \<Longrightarrow> t ! j = Used x h \<Longrightarrow> elems (t[j := REMOVED]) = elems t - {x}"
  by (auto simp: set_eq_iff elems_iff nth_list_update dest: slot_unique) (metis slot.inject)

lemma placed_fill:
  assumes "placed hsh msk t" "j < length t" "t ! j = Empty" "0 \<le> hsh x" "first_at (stops t (x, hsh x)) msk (hsh x) j"
  shows "placed hsh msk (t[j := Used x (hsh x)])"
  unfolding placed_def
proof (intro allI impI)
  let ?u = "t[j := Used x (hsh x)]"
  fix i y h assume i: "i < length ?u" "?u ! i = Used y h"
  have fewer: "stops ?u e k \<Longrightarrow> stops t e k" if "e = (x, hsh x) \<or> True" for e k
    using assms(2,3) by (cases "k = j") (auto simp: stops_def nth_list_update)
  show "h = hsh y \<and> 0 \<le> h \<and> first_at (stops ?u (y, h)) msk h i"
  proof (cases "i = j")
    case True
    with i assms have "y = x" "h = hsh x" by auto
    with True assms show ?thesis
      by (auto intro!: first_at_stronger [OF assms(5)] fewer simp: stops_def)
  next
    case False
    with i assms(1) have "h = hsh y" "0 \<le> h" "first_at (stops t (y, h)) msk h i"
      by (auto simp: placed_def)
    with False i show ?thesis
      by (auto intro!: first_at_stronger [of "stops t (y, h)"] fewer simp: stops_def)
  qed
qed

lemma placed_remove:
  assumes "placed hsh msk t" "j < length t" "t ! j = Used x h0"
  shows "placed hsh msk (t[j := REMOVED])"
  unfolding placed_def
proof (intro allI impI)
  let ?u = "t[j := REMOVED]"
  fix i y h assume i: "i < length ?u" "?u ! i = Used y h"
  then have "i \<noteq> j" by (auto simp: nth_list_update split: if_splits)
  with i assms(1) have "h = hsh y" "0 \<le> h" "first_at (stops t (y, h)) msk h i"
    by (auto simp: placed_def)
  moreover have "stops ?u (y, h) k \<Longrightarrow> stops t (y, h) k" for k
    using assms(2) by (cases "k = j") (auto simp: stops_def)
  moreover have "stops ?u (y, h) i" using i by (simp add: stops_def)
  ultimately show "h = hsh y \<and> 0 \<le> h \<and> first_at (stops ?u (y, h)) msk h i"
    by (blast intro: first_at_stronger)
qed

section \<open>The invariant\<close>

definition contents :: "'a inner \<Rightarrow> 'a set" where
  "contents s = elems (table s)"

definition capacity :: "'a inner \<Rightarrow> nat" where
  "capacity s = tmask s + 1"

text \<open>\<open>good\<close>: the fields agree with the table. \<open>ok\<close>: moreover less than two thirds of it is occupied.\<close>

definition good :: "('a \<Rightarrow> int) \<Rightarrow> 'a inner \<Rightarrow> bool" where
  "good hsh s \<longleftrightarrow>
     (\<exists>k\<ge>3. length (table s) = 2 ^ k \<and> tmask s = 2 ^ k - Suc 0)
     \<and> placed hsh (tmask s) (table s)
     \<and> fill s = int (occupied (table s)) \<and> used s = int (length (entries (table s)))"

definition ok :: "('a \<Rightarrow> int) \<Rightarrow> 'a inner \<Rightarrow> bool" where
  "ok hsh s \<longleftrightarrow> good hsh s \<and> 3 * fill s < 2 * int (capacity s)"

lemma good_length: "good hsh s \<Longrightarrow> length (table s) = capacity s"
  by (auto simp: good_def capacity_def)

lemma good_used: "good hsh s \<Longrightarrow> used s = int (card (contents s))"
  by (auto simp: good_def contents_def card_elems)

lemma good_used_fill:
  assumes "good hsh s"
  shows "0 \<le> used s" "used s \<le> fill s"
  using assms by (auto simp: good_def entries_le_occupied)

lemma good_entries: "good hsh s \<Longrightarrow> (x, h) \<in> set (entries (table s)) \<Longrightarrow> h = hsh x \<and> 0 \<le> h \<and> x \<in> contents s"
  by (auto simp: good_def contents_def dest: entries_placed)

lemma ok_room: "ok hsh s \<Longrightarrow> fill s < int (capacity s)"
  by (auto simp: ok_def good_def)

lemma ok_new_inner [simp]: "ok hsh new_inner" "contents new_inner = {}"
proof -
  have "\<exists>k\<ge>3. (8 :: nat) = 2 ^ k \<and> (7 :: nat) = 2 ^ k - Suc 0" by (rule exI [of _ 3]) simp
  then show "ok hsh new_inner"
    by (simp add: ok_def good_def new_inner_def placed_def occupied_def capacity_def nth_Cons' numeral_eq_Suc)
  show "contents new_inner = {}"
    by (simp add: contents_def elems_def new_inner_def numeral_eq_Suc)
qed

lemma empty_slot: "occupied t < length t \<Longrightarrow> \<exists>j<length t. t ! j = Empty"
proof (rule ccontr)
  assume "occupied t < length t" and "\<not> (\<exists>j<length t. t ! j = Empty)"
  then have "filter (\<lambda>sl. sl \<noteq> Empty) t = t" by (auto simp: filter_id_conv in_set_conv_nth)
  with \<open>occupied t < length t\<close> show False by (simp add: occupied_def)
qed

lemma good_empty_slot:
  assumes "good hsh s" "fill s < int (capacity s)"
  obtains k t where "length (table s) = 2 ^ k" "tmask s = 2 ^ k - Suc 0" "t < 2 ^ k" "table s ! t = Empty"
proof -
  obtain k where k: "length (table s) = 2 ^ k" "tmask s = 2 ^ k - Suc 0"
    using assms(1) by (auto simp: good_def)
  moreover have "occupied (table s) < length (table s)"
    using assms good_length [OF assms(1)] by (simp add: good_def)
  ultimately show thesis using that empty_slot by metis
qed

lemma look_entry_good:
  assumes "good hsh s" "fill s < int (capacity s)" "0 \<le> hsh x"
  shows "\<exists>j<length (table s). look_entry s (x, hsh x) = ret j
    \<and> first_at (stops (table s) (x, hsh x)) (tmask s) (hsh x) j
    \<and> (if x \<in> contents s then table s ! j = Used x (hsh x) else table s ! j = Empty)"
proof -
  obtain k t where kt: "length (table s) = 2 ^ k" "tmask s = 2 ^ k - Suc 0" "t < 2 ^ k" "table s ! t = Empty"
    using good_empty_slot [OF assms(1,2)] .
  obtain j where j: "first_at (stops (table s) (x, hsh x)) (tmask s) (hsh x) j"
    using first_at_exists [OF assms(3) kt(3), of "stops (table s) (x, hsh x)"] kt(2,4) by (auto simp: stops_def)
  have bound: "j < length (table s)" using first_at_bound j kt by auto
  have placed: "placed hsh (tmask s) (table s)" using assms(1) by (simp add: good_def)
  have "table s ! j = Used x (hsh x)" if "x \<in> contents s"
  proof -
    obtain i where i: "i < length (table s)" "table s ! i = Used x (hsh x)"
      using elems_hashed [OF placed] \<open>x \<in> contents s\<close> by (auto simp: contents_def set_entries)
    then have "first_at (stops (table s) (x, hsh x)) (tmask s) (hsh x) i"
      using placedD [OF placed] by blast
    from first_at_unique [OF j this] i(2) show ?thesis by simp
  qed
  moreover have "table s ! j = Empty" if "x \<notin> contents s"
    using first_at_holds [OF j] that bound by (auto simp: stops_def contents_def elems_iff)
  moreover have "look_entry s (x, hsh x) = ret j"
    using look_loop_first [OF j] assms(2) by (simp add: look_entry_def capacity_def ret_def)
  ultimately show ?thesis using bound j by auto
qed

lemma contains_good:
  assumes "good hsh s" "fill s < int (capacity s)" "0 \<le> hsh x"
  shows "contains_entry s (x, hsh x) = ret (x \<in> contents s)"
  using look_entry_good [OF assms] by (auto simp: contains_entry_def split: if_splits)

text \<open>An empty slot that the probe sequence reaches first takes the entry.\<close>

lemma good_fill:
  assumes "good hsh s" "0 \<le> hsh x" "j < length (table s)" "table s ! j = Empty"
    and "first_at (stops (table s) (x, hsh x)) (tmask s) (hsh x) j"
  shows "good hsh (s\<lparr>table := (table s)[j := Used x (hsh x)], fill := fill s + 1, used := used s + 1\<rparr>)"
    and "contents (s\<lparr>table := (table s)[j := Used x (hsh x)], fill := fill s + 1, used := used s + 1\<rparr>) = insert x (contents s)"
  using assms length_entries_fill [OF assms(3,4)] placed_fill [of hsh "tmask s" "table s" j x]
  by (auto simp: good_def contents_def elems_fill)

lemma insert_entry_good:
  assumes "good hsh s" "fill s < int (capacity s)" "0 \<le> hsh x"
  shows "\<exists>s'. insert_entry s (x, hsh x) = ret (s', x \<notin> contents s) \<and> good hsh s' \<and> tmask s' = tmask s
    \<and> contents s' = insert x (contents s) \<and> fill s' = fill s + (if x \<in> contents s then 0 else 1)"
proof -
  obtain j where j: "j < length (table s)" "look_entry s (x, hsh x) = ret j"
      "first_at (stops (table s) (x, hsh x)) (tmask s) (hsh x) j"
      "if x \<in> contents s then table s ! j = Used x (hsh x) else table s ! j = Empty"
    using look_entry_good [OF assms] by blast
  show ?thesis
  proof (cases "x \<in> contents s")
    case True
    with j assms(1) show ?thesis by (simp add: insert_entry_def insert_absorb)
  next
    case False
    with j good_fill [OF assms(1,3) j(1) _ j(3)] show ?thesis by (simp add: insert_entry_def)
  qed
qed

lemma insert_entry_clean_good:
  assumes "good hsh s" "fill s < int (capacity s)" "0 \<le> hsh x" "x \<notin> contents s"
  shows "\<exists>s'. insert_entry_clean s (x, hsh x) = ret s' \<and> good hsh s' \<and> tmask s' = tmask s
    \<and> contents s' = insert x (contents s) \<and> fill s' = fill s + 1"
proof -
  let ?empty = "\<lambda>j. table s ! j = Empty"
  obtain k t where kt: "length (table s) = 2 ^ k" "tmask s = 2 ^ k - Suc 0" "t < 2 ^ k" "table s ! t = Empty"
    using good_empty_slot [OF assms(1,2)] .
  obtain j where j: "first_at ?empty (tmask s) (hsh x) j"
    using first_at_exists [OF assms(3) kt(3), of ?empty] kt(2,4) by auto
  have bound: "j < length (table s)" using first_at_bound j kt by auto
  obtain i where i: "first_at (stops (table s) (x, hsh x)) (tmask s) (hsh x) i" "i < length (table s)"
      "table s ! i = Empty"
    using look_entry_good [OF assms(1-3)] assms(4) by auto
  have "first_at ?empty (tmask s) (hsh x) i"
    by (rule first_at_stronger [OF i(1)]) (use i in \<open>auto simp: stops_def\<close>)
  with j have "i = j" by (rule first_at_unique [rotated])
  with good_fill [OF assms(1,3) i(2,3,1)] clean_loop_first [OF j] show ?thesis
    by (simp add: insert_entry_clean_def)
qed

end
