(* ===== verification/CompatSetOps.thy ===== *)
theory CompatSetOps
  imports CompatSetInv
begin

text \<open>
  The operations of \<open>CompatSet\<close> refine those of mathematical sets: on sets that satisfy the invariant
  each one returns, keeps the invariant, and has the expected effect on the contents.
\<close>

section \<open>Resizing\<close>

lemma new_size_for_power: "\<exists>b\<ge>a. new_size_for (2 ^ a) m = 2 ^ b \<and> m < int (new_size_for (2 ^ a) m)"
proof (induction "nat (m + 1) - 2 ^ a" arbitrary: a rule: less_induct)
  case less
  show ?case
  proof (cases "int (2 ^ a) \<le> m")
    case True
    then have step: "new_size_for (2 ^ a) m = new_size_for (2 ^ Suc a) m"
      by (subst new_size_for.simps) simp
    have "(2 :: nat) ^ a < nat (m + 1)" using True by linarith
    then have "nat (m + 1) - 2 ^ Suc a < nat (m + 1) - 2 ^ a" by (rule diff_less_mono2 [rotated]) simp
    from less [OF this] obtain b where "b \<ge> Suc a" "new_size_for (2 ^ Suc a) m = 2 ^ b" "m < int (new_size_for (2 ^ Suc a) m)"
      by blast
    then show ?thesis unfolding step by (meson Suc_leD)
  next
    case False
    then have "new_size_for (2 ^ a) m = 2 ^ a" by (subst new_size_for.simps) simp
    with False show ?thesis by (intro exI [of _ a]) simp
  qed
qed

lemma new_size_for_min: "\<exists>b\<ge>3. new_size_for MIN_SIZE m = 2 ^ b \<and> m < int (new_size_for MIN_SIZE m)"
  using new_size_for_power [of 3 m] by simp

lemma clean_inserts:
  assumes "good hsh s" "contents s = {}" "fill s = 0"
    and "distinct (map fst es)" "\<And>x h. (x, h) \<in> set es \<Longrightarrow> h = hsh x \<and> 0 \<le> h" "length es \<le> tmask s"
  shows "\<exists>s'. cfold insert_entry_clean s es = ret s' \<and> good hsh s' \<and> tmask s' = tmask s
    \<and> contents s' = fst ` set es \<and> fill s' = int (length es)"
proof (rule cfold_invariant)
  show "good hsh s \<and> tmask s = tmask s \<and> contents s = fst ` set [] \<and> fill s = int (length [])"
    using assms(1-3) by simp
  fix s' e ys zs
  assume inv: "good hsh s' \<and> tmask s' = tmask s \<and> contents s' = fst ` set ys \<and> fill s' = int (length ys)"
    and es: "es = ys @ e # zs"
  obtain x h where e: "e = (x, h)" by force
  with es assms(5) have h: "h = hsh x" "0 \<le> hsh x" by auto
  have "fill s' < int (capacity s')" using inv es assms(6) by (simp add: capacity_def)
  moreover have "x \<notin> contents s'" using inv assms(4) es e by auto
  ultimately have "\<exists>s''. insert_entry_clean s' (x, hsh x) = ret s'' \<and> good hsh s'' \<and> tmask s'' = tmask s'
      \<and> contents s'' = insert x (contents s') \<and> fill s'' = fill s' + 1"
    using inv h by (intro insert_entry_clean_good) auto
  then show "\<exists>s''. insert_entry_clean s' e = ret s'' \<and> good hsh s'' \<and> tmask s'' = tmask s
      \<and> contents s'' = fst ` set (ys @ [e]) \<and> fill s'' = int (length (ys @ [e]))"
    using inv e h by auto
qed

lemma good_blank:
  "b \<ge> 3 \<Longrightarrow> good hsh (s\<lparr>table := replicate (2 ^ b) Empty, fill := 0, tmask := 2 ^ b - Suc 0, used := 0\<rparr>)"
  "contents (s\<lparr>table := replicate (2 ^ b) Empty, fill := 0, tmask := 2 ^ b - Suc 0, used := 0\<rparr>) = {}"
proof -
  have "entries (replicate n Empty) = []" "occupied (replicate n Empty) = 0" for n
    by (induction n) (auto simp: occupied_def)
  then show "b \<ge> 3 \<Longrightarrow> good hsh (s\<lparr>table := replicate (2 ^ b) Empty, fill := 0, tmask := 2 ^ b - Suc 0, used := 0\<rparr>)"
    "contents (s\<lparr>table := replicate (2 ^ b) Empty, fill := 0, tmask := 2 ^ b - Suc 0, used := 0\<rparr>) = {}"
    by (auto simp: good_def placed_def contents_def elems_def)
qed

lemma distinct_good_entries: "good hsh s \<Longrightarrow> distinct (map fst (entries (table s)))"
  by (auto simp: good_def intro: distinct_entries)

lemma contents_entries: "contents s = fst ` set (entries (table s))"
  by (simp add: contents_def elems_def)

lemma length_good_entries: "good hsh s \<Longrightarrow> int (length (entries (table s))) = used s"
  by (simp add: good_def)

lemma resize_good:
  assumes "good hsh s" "used s \<le> m"
  shows "\<exists>s'. resize s m = ret s' \<and> good hsh s' \<and> contents s' = contents s \<and> fill s' = used s \<and> m < int (capacity s')
    \<and> 8 \<le> capacity s'"
proof -
  obtain b where b: "b \<ge> 3" "new_size_for MIN_SIZE m = 2 ^ b" "m < 2 ^ b"
    using new_size_for_min [of m] by auto
  let ?s = "s\<lparr>table := replicate (2 ^ b) Empty, fill := 0, tmask := 2 ^ b - Suc 0, used := 0\<rparr>"
  have "int (length (entries (table s))) < int (2 ^ b)" using length_good_entries [OF assms(1)] assms(2) b(3) by simp
  then have fits: "length (entries (table s)) < 2 ^ b" by (simp only: of_nat_less_iff)
  have "\<exists>s'. cfold insert_entry_clean ?s (entries (table s)) = ret s' \<and> good hsh s' \<and> tmask s' = tmask ?s
      \<and> contents s' = fst ` set (entries (table s)) \<and> fill s' = int (length (entries (table s)))"
  proof (rule clean_inserts [OF good_blank(1) [OF b(1)] good_blank(2)])
    show "distinct (map fst (entries (table s)))" by (rule distinct_good_entries [OF assms(1)])
    show "h = hsh x \<and> 0 \<le> h" if "(x, h) \<in> set (entries (table s))" for x h
      using good_entries [OF assms(1) that] by simp
    show "length (entries (table s)) \<le> tmask ?s" using fits by simp
  qed simp
  moreover have "0 \<le> m" using good_used_fill [OF assms(1)] assms(2) by simp
  moreover have "(8 :: nat) \<le> 2 ^ b" using power_increasing [OF b(1), of "2 :: nat"] by simp
  ultimately show ?thesis
    using b(2,3) length_good_entries [OF assms(1)]
    by (auto simp: resize_def Let_def contents_entries [of s] capacity_def)
qed

lemma grow_ok:
  assumes "good hsh s"
  shows "\<exists>s'. grow s = ret s' \<and> ok hsh s' \<and> contents s' = contents s"
proof -
  define m where "m = (if used s > 50000 then used s * 2 else used s * 4)"
  have "used s \<le> m" "2 * used s \<le> m" using good_used_fill [OF assms] by (auto simp: m_def)
  then obtain s' where s': "resize s m = ret s'" "good hsh s'" "contents s' = contents s" "fill s' = used s"
      "m < int (capacity s')" "8 \<le> capacity s'"
    using resize_good [OF assms] by blast
  moreover have "3 * fill s' < 2 * int (capacity s')"
    using s'(4-6) \<open>2 * used s \<le> m\<close> good_used_fill [OF assms] by linarith
  ultimately show ?thesis by (auto simp: grow_def ok_def m_def [symmetric])
qed

section \<open>Elements\<close>

lemma add_ok:
  assumes "ok hsh s" "0 \<le> hsh x"
  shows "\<exists>s'. add_entry s (x, hsh x) = ret s' \<and> ok hsh s' \<and> contents s' = insert x (contents s)"
proof -
  obtain s' where s': "insert_entry s (x, hsh x) = ret (s', x \<notin> contents s)" "good hsh s'" "tmask s' = tmask s"
      "contents s' = insert x (contents s)" "fill s' = fill s + (if x \<in> contents s then 0 else 1)"
    using insert_entry_good [of hsh s x] ok_room [OF assms(1)] assms by (auto simp: ok_def)
  show ?thesis
  proof (cases "x \<notin> contents s \<and> fill s' * 3 \<ge> (int (tmask s') + 1) * 2")
    case True
    with s' grow_ok [OF s'(2)] show ?thesis by (auto simp: add_entry_def)
  next
    case False
    with s' assms(1) have "ok hsh s'" by (auto simp: ok_def capacity_def)
    with False s' show ?thesis by (auto simp: add_entry_def)
  qed
qed

lemma contains_ok: "ok hsh s \<Longrightarrow> 0 \<le> hsh x \<Longrightarrow> contains_entry s (x, hsh x) = ret (x \<in> contents s)"
  by (rule contains_good) (auto simp: ok_def dest: ok_room)

lemma discard_ok:
  assumes "ok hsh s" "0 \<le> hsh x"
  shows "\<exists>s'. discard hsh s x = ret (s', x \<in> contents s) \<and> ok hsh s' \<and> contents s' = contents s - {x}"
proof -
  have good: "good hsh s" using assms(1) by (simp add: ok_def)
  obtain j where j: "j < length (table s)" "look_entry s (x, hsh x) = ret j"
      "if x \<in> contents s then table s ! j = Used x (hsh x) else table s ! j = Empty"
    using look_entry_good [OF good ok_room [OF assms(1)] assms(2)] by blast
  show ?thesis
  proof (cases "x \<in> contents s")
    case True
    then have sl: "table s ! j = Used x (hsh x)" using j by simp
    have p: "placed hsh (tmask s) (table s)" using good by (simp add: good_def)
    have "ok hsh (s\<lparr>table := (table s)[j := REMOVED], used := used s - 1\<rparr>)"
      using assms(1) length_entries_remove [OF j(1) sl] placed_remove [OF p j(1) sl]
      by (auto simp: ok_def good_def capacity_def)
    moreover have "contents (s\<lparr>table := (table s)[j := REMOVED], used := used s - 1\<rparr>) = contents s - {x}"
      using elems_remove [OF p j(1) sl] by (simp add: contents_def)
    ultimately show ?thesis using True j sl by (simp add: discard_def discard_entry_def from_elem_def)
  next
    case False
    with j assms(1) show ?thesis by (simp add: discard_def discard_entry_def from_elem_def)
  qed
qed

lemma adds_ok:
  assumes "ok hsh s" "\<forall>x\<in>set xs. 0 \<le> hsh x"
  shows "\<exists>s'. cfold (add hsh) s xs = ret s' \<and> ok hsh s' \<and> contents s' = contents s \<union> set xs"
  by (rule cfold_invariant [where P = "\<lambda>s' ys. ok hsh s' \<and> contents s' = contents s \<union> set ys"])
    (use assms add_ok in \<open>fastforce simp: add_def from_elem_def\<close>)+

lemma discards_ok:
  assumes "ok hsh s" "\<forall>x\<in>set xs. 0 \<le> hsh x"
  shows "\<exists>s'. cfold (\<lambda>s x. cbind (discard hsh s x) (\<lambda>r. ret (fst r))) s xs = ret s' \<and> ok hsh s' \<and> contents s' = contents s - set xs"
proof (rule cfold_invariant [where P = "\<lambda>s' ys. ok hsh s' \<and> contents s' = contents s - set ys"])
  fix s' x ys zs assume "ok hsh s' \<and> contents s' = contents s - set ys" "xs = ys @ x # zs"
  with assms(2) discard_ok [of hsh s' x] show "\<exists>s''. cbind (discard hsh s' x) (\<lambda>r. ret (fst r)) = ret s''
      \<and> ok hsh s'' \<and> contents s'' = contents s - set (ys @ [x])" by auto
qed (use assms in simp)

section \<open>Iteration\<close>

lemma drop_at: "j < length t \<Longrightarrow> drop j t = t ! j # drop (Suc j) t"
  by (simp add: Cons_nth_drop_Suc)

lemma next_entry_entries:
  assumes "length (table s) = capacity s"
  shows "case next_entry s pos of
      (pos', None) \<Rightarrow> entries (drop pos (table s)) = []
    | (pos', Some e) \<Rightarrow> entries (drop pos (table s)) = e # entries (drop pos' (table s))"
  using assms
proof (induction s pos rule: next_entry.induct)
  case (1 s pos)
  show ?case
  proof (cases "pos > tmask s")
    case True
    with 1(2) show ?thesis by (subst next_entry.simps) (simp add: capacity_def)
  next
    case False
    then have split: "drop pos (table s) = table s ! pos # drop (Suc pos) (table s)"
      using 1(2) by (intro drop_at) (simp add: capacity_def)
    show ?thesis
    proof (cases "entry_of (table s ! pos)")
      case None
      with 1(1) [OF _ None] 1(2) False split show ?thesis
        by (subst next_entry.simps) (simp split: prod.splits option.splits)
    next
      case (Some e)
      with False split show ?thesis by (subst next_entry.simps) simp
    qed
  qed
qed

lemma iter_from_entries: "length (table s) = capacity s \<Longrightarrow> iter_from s pos = entries (drop pos (table s))"
proof (induction s pos rule: iter_from.induct)
  case (1 s pos)
  show ?case
  proof (cases "next_entry s pos")
    case (Pair pos' e)
    with next_entry_entries [OF 1(2), of pos] 1(1) [OF _ _] 1(2) show ?thesis
      by (subst iter_from.simps) (auto split: option.splits)
  qed
qed

lemma iter_elems_good: "good hsh s \<Longrightarrow> iter_elems s = map fst (entries (table s))"
  by (simp add: iter_elems_def iter_from_entries good_length)

lemma iter_elems_ok: "ok hsh s \<Longrightarrow> set (iter_elems s) = contents s \<and> distinct (iter_elems s)"
  by (auto simp: iter_elems_good [of hsh] ok_def contents_entries distinct_good_entries)

lemma ok_hashes: "ok hsh s \<Longrightarrow> x \<in> contents s \<Longrightarrow> 0 \<le> hsh x"
  by (auto simp: ok_def good_def contents_def dest: elems_hashed)

section \<open>Two sets\<close>

lemma inserts_good:
  assumes "good hsh s" "\<And>x h. (x, h) \<in> set es \<Longrightarrow> h = hsh x \<and> 0 \<le> h" "fill s + int (length es) < int (capacity s)"
  shows "\<exists>s'. cfold (\<lambda>s e. cbind (insert_entry s e) (\<lambda>r. ret (fst r))) s es = ret s' \<and> good hsh s' \<and> tmask s' = tmask s
    \<and> contents s' = contents s \<union> fst ` set es \<and> fill s' \<le> fill s + int (length es)"
proof (rule cfold_invariant)
  show "good hsh s \<and> tmask s = tmask s \<and> contents s = contents s \<union> fst ` set [] \<and> fill s \<le> fill s + int (length [])"
    using assms(1) by simp
  fix s' e ys zs
  assume inv: "good hsh s' \<and> tmask s' = tmask s \<and> contents s' = contents s \<union> fst ` set ys \<and> fill s' \<le> fill s + int (length ys)"
    and es: "es = ys @ e # zs"
  obtain x h where e: "e = (x, h)" by force
  with es assms(2) have h: "h = hsh x" "0 \<le> hsh x" by auto
  have "fill s' < int (capacity s')" using inv es assms(3) by (simp add: capacity_def)
  with insert_entry_good [of hsh s' x] inv h
  obtain s'' where "insert_entry s' (x, hsh x) = ret (s'', x \<notin> contents s')" "good hsh s''" "tmask s'' = tmask s'"
      "contents s'' = insert x (contents s')" "fill s'' = fill s' + (if x \<in> contents s' then 0 else 1)"
    by auto
  then show "\<exists>s''. cbind (insert_entry s' e) (\<lambda>r. ret (fst r)) = ret s'' \<and> good hsh s'' \<and> tmask s'' = tmask s
      \<and> contents s'' = contents s \<union> fst ` set (ys @ [e]) \<and> fill s'' \<le> fill s + int (length (ys @ [e]))"
    using inv e h by (auto split: if_splits)
qed

text \<open>The three ways in which \<open>merge\<close> fills a table with room for the other set.\<close>

lemma fill_0_contents: "good hsh s \<Longrightarrow> fill s = 0 \<Longrightarrow> contents s = {} \<and> used s = 0"
  using good_used_fill [of hsh s] good_used [of hsh s] by (simp add: contents_def)

lemma merge_room:
  assumes "good hsh s" "ok hsh t" "3 * (fill s + used t) < 2 * int (capacity s)"
  shows "\<exists>s'. merge_into s t = ret s' \<and> ok hsh s' \<and> contents s' = contents s \<union> contents t"
proof -
  have t: "good hsh t" using assms(2) by (simp add: ok_def)
  note es = good_entries [OF t]
  have len: "int (length (entries (table t))) = used t" by (rule length_good_entries [OF t])
  have room: "fill s + used t < int (capacity s)"
    using assms(3) good_used_fill [OF assms(1)] good_used_fill [OF t] by simp
  consider (same) "fill s = 0" "tmask s = tmask t" "fill t = used t"
    | (clean) "fill s = 0" "\<not> (tmask s = tmask t \<and> fill t = used t)" | (insert) "fill s \<noteq> 0" by blast
  then show ?thesis
  proof cases
    case same
    then have "ok hsh (s\<lparr>table := table t, fill := fill t, used := used t\<rparr>)"
      using assms(2) by (auto simp: ok_def good_def capacity_def)
    with same fill_0_contents [OF assms(1)] show ?thesis by (simp add: merge_into_def contents_def)
  next
    case clean
    have "length (entries (table t)) \<le> tmask s" using room len clean(1) by (simp add: capacity_def)
    with clean_inserts [of hsh s "entries (table t)"] fill_0_contents [OF assms(1)] es distinct_good_entries [OF t]
      assms(1) clean obtain s' where "cfold insert_entry_clean s (entries (table t)) = ret s'" "good hsh s'"
        "tmask s' = tmask s" "contents s' = contents t" "fill s' = used t"
      by (auto simp: contents_entries len)
    with clean assms(3) fill_0_contents [OF assms(1)] show ?thesis by (auto simp: merge_into_def ok_def capacity_def)
  next
    case insert
    with inserts_good [of hsh s "entries (table t)"] es assms(1) room obtain s' where
      "cfold (\<lambda>s e. cbind (insert_entry s e) (\<lambda>r. ret (fst r))) s (entries (table t)) = ret s'" "good hsh s'"
      "tmask s' = tmask s" "contents s' = contents s \<union> contents t" "fill s' \<le> fill s + used t"
      by (auto simp: contents_entries len)
    with insert assms(3) show ?thesis by (auto simp: merge_into_def ok_def capacity_def)
  qed
qed

lemma merge_ok:
  assumes "ok hsh s" "ok hsh t"
  shows "\<exists>s'. merge s t = ret s' \<and> ok hsh s' \<and> contents s' = contents s \<union> contents t"
proof (cases "used t = 0")
  case True
  with good_used [of hsh t] assms have "contents t = {}" by (simp add: ok_def contents_def)
  with True assms show ?thesis by (simp add: merge_def)
next
  case False
  have good: "good hsh s" "good hsh t" using assms by (auto simp: ok_def)
  show ?thesis
  proof (cases "(fill s + used t) * 3 \<ge> (int (tmask s) + 1) * 2")
    case True
    have "used s \<le> (used s + used t) * 2" using good_used_fill [OF good(1)] good_used_fill [OF good(2)] by simp
    then obtain s1 where s1: "resize s ((used s + used t) * 2) = ret s1" "good hsh s1" "contents s1 = contents s"
        "fill s1 = used s" "(used s + used t) * 2 < int (capacity s1)" "8 \<le> capacity s1"
      using resize_good [OF good(1)] by blast
    then have "3 * (fill s1 + used t) < 2 * int (capacity s1)"
      using good_used_fill [OF good(1)] good_used_fill [OF good(2)] by simp
    from merge_room [OF s1(2) assms(2) this] s1 show ?thesis
      using False True by (simp add: merge_def)
  next
    case False': False
    then have "3 * (fill s + used t) < 2 * int (capacity s)" by (simp add: capacity_def)
    from merge_room [OF good(1) assms(2) this] show ?thesis
      using False False' by (simp add: merge_def)
  qed
qed

lemma copy_ok: "ok hsh s \<Longrightarrow> \<exists>s'. copy s = ret s' \<and> ok hsh s' \<and> contents s' = contents s"
  using merge_ok [of hsh new_inner s] by (simp add: copy_def)

section \<open>Operations with an operand\<close>

fun operand_ok :: "('a \<Rightarrow> int) \<Rightarrow> 'a operand \<Rightarrow> bool" where
  "operand_ok hsh (OtherSet t) = ok hsh t"
| "operand_ok hsh Itself = True"
| "operand_ok hsh (PySet xs) = (\<forall>x\<in>set xs. 0 \<le> hsh x)"
| "operand_ok hsh (Elems xs) = (\<forall>x\<in>set xs. 0 \<le> hsh x)"

fun operand_set :: "'a inner \<Rightarrow> 'a operand \<Rightarrow> 'a set" where
  "operand_set s (OtherSet t) = contents t"
| "operand_set s Itself = contents s"
| "operand_set s (PySet xs) = set xs"
| "operand_set s (Elems xs) = set xs"

lemma operand_elems_set: "ok hsh s \<Longrightarrow> operand_ok hsh p \<Longrightarrow> set (operand_elems s p) = operand_set s p"
  by (cases p) (auto simp: iter_elems_ok [of hsh])

lemma operand_elems_hashes: "ok hsh s \<Longrightarrow> operand_ok hsh p \<Longrightarrow> \<forall>x\<in>set (operand_elems s p). 0 \<le> hsh x"
  by (cases p) (auto simp: iter_elems_ok [of hsh] ok_hashes)

lemma update_ok:
  assumes "ok hsh s" "operand_ok hsh p"
  shows "\<exists>s'. update hsh s p = ret s' \<and> ok hsh s' \<and> contents s' = contents s \<union> operand_set s p"
  using assms by (cases p) (auto simp: merge_ok adds_ok)

lemma difference_update_ok:
  assumes "ok hsh s" "operand_ok hsh p"
  shows "\<exists>s'. difference_update hsh s p = ret s' \<and> ok hsh s' \<and> contents s' = contents s - operand_set s p"
proof (cases "p = Itself")
  case True
  then show ?thesis by (simp add: difference_update_def)
next
  case False
  obtain s1 where s1: "cfold (\<lambda>s x. cbind (discard hsh s x) (\<lambda>r. ret (fst r))) s (operand_elems s p) = ret s1"
      "ok hsh s1" "contents s1 = contents s - operand_set s p"
    using discards_ok [OF assms(1) operand_elems_hashes [OF assms]] operand_elems_set [OF assms] by auto
  show ?thesis
  proof (cases "(fill s1 - used s1) * 5 \<ge> int (tmask s1)")
    case True
    from grow_ok [of hsh s1] s1 obtain s2 where "grow s1 = ret s2" "ok hsh s2" "contents s2 = contents s1"
      by (auto simp: ok_def)
    with True False s1 show ?thesis by (simp add: difference_update_def)
  qed (use False s1 in \<open>simp add: difference_update_def\<close>)
qed

lemma keep_entries_ok:
  assumes "\<And>x h. (x, h) \<in> set es \<Longrightarrow> h = hsh x \<and> 0 \<le> h" "\<And>x. (x, hsh x) \<in> set es \<Longrightarrow> keep (x, hsh x) = ret (K x)"
  shows "\<exists>s'. keep_entries keep es = ret s' \<and> ok hsh s' \<and> contents s' = {x \<in> fst ` set es. K x}"
  unfolding keep_entries_def
proof (rule cfold_invariant [where P = "\<lambda>s ys. ok hsh s \<and> contents s = {x \<in> fst ` set ys. K x}"])
  fix s e ys zs assume inv: "ok hsh s \<and> contents s = {x \<in> fst ` set ys. K x}" and es: "es = ys @ e # zs"
  obtain x h where xh: "e = (x, h)" by force
  have "h = hsh x \<and> 0 \<le> h" by (rule assms(1)) (simp add: es xh)
  with xh have e: "e = (x, hsh x)" "0 \<le> hsh x" by simp_all
  then have keep: "keep e = ret (K x)" using assms(2) es by simp
  show "\<exists>s'. cbind (keep e) (\<lambda>k. if k then add_entry s e else ret s) = ret s'
      \<and> ok hsh s' \<and> contents s' = {x \<in> fst ` set (ys @ [e]). K x}"
  proof (cases "K x")
    case True
    obtain s' where "add_entry s e = ret s'" "ok hsh s'" "contents s' = insert x (contents s)"
      using add_ok [of hsh s x] inv e by auto
    with True keep inv e show ?thesis by auto
  qed (use keep inv e in auto)
qed simp

lemma iter_from_ok:
  assumes "ok hsh s"
  shows "fst ` set (iter_from s 0) = contents s" "\<And>x h. (x, h) \<in> set (iter_from s 0) \<Longrightarrow> h = hsh x \<and> 0 \<le> h"
  using assms by (auto simp: ok_def iter_from_entries good_length contents_entries dest: good_entries)

lemma difference_ok:
  assumes "ok hsh s" "operand_ok hsh p"
  shows "\<exists>s'. difference hsh s p = ret s' \<and> ok hsh s' \<and> contents s' = contents s - operand_set s p"
proof -
  have keep: "\<exists>s'. keep_entries keep (iter_from s 0) = ret s' \<and> ok hsh s' \<and> contents s' = {x \<in> contents s. K x}"
    if "\<And>x. x \<in> contents s \<Longrightarrow> keep (x, hsh x) = ret (K x)" for keep K
    unfolding iter_from_ok(1) [OF assms(1), symmetric]
  proof (rule keep_entries_ok)
    fix x assume "(x, hsh x) \<in> set (iter_from s 0)"
    then have "x \<in> contents s" using iter_from_ok(1) [OF assms(1)] by force
    then show "keep (x, hsh x) = ret (K x)" by (rule that)
  qed (rule iter_from_ok(2) [OF assms(1)])
  have drop: "\<exists>s'. keep_entries (\<lambda>e. cbind (contains_entry t e) (\<lambda>b. ret (\<not> b))) (iter_from s 0) = ret s'
      \<and> ok hsh s' \<and> contents s' = contents s - contents t" if "ok hsh t" for t
    unfolding set_diff_eq by (rule keep) (simp add: contains_ok [OF that] ok_hashes [OF assms(1)])
  have pyset: "\<exists>s'. keep_entries (\<lambda>e. ret (fst e \<notin> set xs)) (iter_from s 0) = ret s'
      \<and> ok hsh s' \<and> contents s' = contents s - set xs" for xs
    unfolding set_diff_eq by (rule keep) simp
  have removal: "\<exists>s'. cbind (copy s) (\<lambda>res. difference_update hsh res q) = ret s' \<and> ok hsh s'
      \<and> contents s' = contents s - operand_set s q" if "operand_ok hsh q" "q \<noteq> Itself" for q
  proof -
    obtain s1 where s1: "copy s = ret s1" "ok hsh s1" "contents s1 = contents s"
      using copy_ok [OF assms(1)] by blast
    with difference_update_ok [OF s1(2) that(1)] that(2) show ?thesis by (cases q) auto
  qed
  show ?thesis
    using assms drop drop [OF assms(1)] pyset removal [of p] removal [of "OtherSet s"]
    by (cases p) (auto simp: difference_def Let_def)
qed

lemma cs_difference_ok:
  assumes "ok hsh s" "\<forall>p\<in>set ps. operand_ok hsh p"
  shows "\<exists>s'. cs_difference hsh s ps = ret s' \<and> ok hsh s' \<and> contents s' = contents s - (\<Union>p\<in>set ps. operand_set s p)"
proof (cases ps)
  case Nil
  then show ?thesis using copy_ok [OF assms(1)] by simp
next
  case (Cons p qs)
  obtain s1 where s1: "difference hsh s p = ret s1" "ok hsh s1" "contents s1 = contents s - operand_set s p"
    using difference_ok [OF assms(1), of p] assms(2) Cons by auto
  let ?f = "\<lambda>r q. difference_update hsh r (case q of Itself \<Rightarrow> OtherSet s | _ \<Rightarrow> q)"
  have "\<exists>s'. cfold ?f s1 qs = ret s' \<and> ok hsh s' \<and> contents s' = contents s1 - (\<Union>q\<in>set qs. operand_set s q)"
  proof (rule cfold_invariant [where P = "\<lambda>r ys. ok hsh r \<and> contents r = contents s1 - (\<Union>q\<in>set ys. operand_set s q)"])
    fix r q ys zs assume inv: "ok hsh r \<and> contents r = contents s1 - (\<Union>q\<in>set ys. operand_set s q)" and qs: "qs = ys @ q # zs"
    let ?q = "case q of Itself \<Rightarrow> OtherSet s | _ \<Rightarrow> q"
    have "operand_ok hsh ?q" "operand_set r ?q = operand_set s q"
      using assms Cons qs by (cases q; auto)+
    with difference_update_ok [of hsh r ?q] inv show "\<exists>s'. ?f r q = ret s' \<and> ok hsh s'
        \<and> contents s' = contents s1 - (\<Union>q\<in>set (ys @ [q]). operand_set s q)" by auto
  qed (use s1 in auto)
  with Cons s1 show ?thesis by auto
qed

lemma cs_update_elems_ok:
  assumes "ok hsh s" "\<forall>x\<in>set xs. 0 \<le> hsh x"
  shows "\<exists>s'. cs_update hsh s [Elems xs] = ret s' \<and> ok hsh s' \<and> contents s' = contents s \<union> set xs"
  using update_ok [OF assms(1), of "Elems xs"] assms(2) by (auto simp: cs_update_def)

lemma CompatSet_ok:
  assumes "\<forall>x\<in>set xs. 0 \<le> hsh x"
  shows "\<exists>s'. CompatSet hsh (Some (Elems xs)) = ret s' \<and> ok hsh s' \<and> contents s' = set xs"
  using adds_ok [OF ok_new_inner(1) assms] by (simp add: CompatSet_def)

end
