(* ===== verification/CompatSetMore.thy ===== *)
theory CompatSetMore
  imports CompatSetOps
begin

text \<open>
  The remaining operations of \<open>CompatSet\<close>: \<open>pop\<close>, symmetric difference and intersection, and the
  inputs on which the code does not behave as a set: negative hashes, intersection with a larger set,
  and comparison.
\<close>

section \<open>pop\<close>

lemma pop_loop_finds:
  assumes "i < capacity s" "entry_of (table s ! ((i + d) mod capacity s)) \<noteq> None"
  shows "\<exists>j x h. pop_loop s i = Some (j, x) \<and> j < capacity s \<and> table s ! j = Used x h"
  using assms
proof (induction d arbitrary: i)
  case 0
  then show ?case by (subst pop_loop.simps) (auto simp: mod_less)
next
  case (Suc d)
  show ?case
  proof (cases "entry_of (table s ! i)")
    case None
    let ?i = "if i + 1 > tmask s then 0 else i + 1"
    have "?i = (i + 1) mod capacity s"
      using Suc.prems(1) by (cases "i = tmask s") (auto simp: capacity_def)
    then have "(?i + d) mod capacity s = (i + Suc d) mod capacity s" by (simp add: mod_add_left_eq)
    with Suc.IH [of ?i] Suc.prems None show ?thesis
      by (subst pop_loop.simps) (auto simp: capacity_def split: if_splits)
  next
    case (Some e)
    with Suc.prems(1) show ?thesis by (subst pop_loop.simps) auto
  qed
qed

lemma pop_ok:
  assumes "ok hsh s" "contents s \<noteq> {}"
  shows "\<exists>s' x. pop s = ret (s', x) \<and> x \<in> contents s \<and> ok hsh s' \<and> contents s' = contents s - {x}"
proof -
  have good: "good hsh s" and p: "placed hsh (tmask s) (table s)" and n: "length (table s) = capacity s"
    using assms(1) good_length [of hsh s] by (auto simp: ok_def good_def)
  define i where "i = masked (tmask s) (int (search s))"
  have i: "i < capacity s"
    using good masked_less by (auto simp: i_def good_def capacity_def)
  obtain x0 j0 h0 where j0: "j0 < capacity s" "table s ! j0 = Used x0 h0"
    using assms(2) n by (auto simp: contents_def elems_iff)
  have "(i + (j0 + capacity s - i)) mod capacity s = j0" using i j0 by simp
  then obtain j x h where j: "pop_loop s i = Some (j, x)" "j < length (table s)" "table s ! j = Used x h"
    using pop_loop_finds [OF i, of "j0 + capacity s - i"] j0 n by auto
  have "used s \<noteq> 0" using good_used [OF good] assms(2) by (simp add: contents_def)
  moreover have "x \<in> contents s" using j by (auto simp: contents_def elems_iff)
  moreover have "ok hsh (s\<lparr>table := (table s)[j := REMOVED], used := used s - 1, search := j + 1\<rparr>)"
    using assms(1) length_entries_remove [OF j(2,3)] placed_remove [OF p j(2,3)]
    by (auto simp: ok_def good_def capacity_def)
  moreover have "contents (s\<lparr>table := (table s)[j := REMOVED], used := used s - 1, search := j + 1\<rparr>) = contents s - {x}"
    using elems_remove [OF p j(2,3)] by (simp add: contents_def)
  ultimately show ?thesis using j(1) by (auto simp: pop_def i_def)
qed

section \<open>Intersection and symmetric difference\<close>

lemma intersection_elems_ok:
  assumes "ok hsh s" "\<forall>x\<in>set xs. 0 \<le> hsh x"
  shows "\<exists>s'. intersection hsh s (Elems xs) = ret s' \<and> ok hsh s' \<and> contents s' = contents s \<inter> set xs"
proof -
  have "\<exists>s'. keep_entries (contains_entry s) (map (from_elem hsh) xs) = ret s' \<and> ok hsh s'
      \<and> contents s' = {x \<in> fst ` set (map (from_elem hsh) xs). x \<in> contents s}"
    by (rule keep_entries_ok) (use assms contains_ok [OF assms(1)] in \<open>auto simp: from_elem_def\<close>)
  moreover have "{x \<in> fst ` set (map (from_elem hsh) xs). x \<in> contents s} = contents s \<inter> set xs"
    by (auto simp: from_elem_def image_iff)
  ultimately show ?thesis by (simp add: intersection_def)
qed

lemma intersection_other_ok:
  assumes "ok hsh s" "ok hsh t" "used t \<le> used s"
  shows "\<exists>s'. intersection hsh s (OtherSet t) = ret s' \<and> ok hsh s' \<and> contents s' = contents s \<inter> contents t"
proof -
  have "\<exists>s'. keep_entries (contains_entry s) (iter_from t 0) = ret s' \<and> ok hsh s'
      \<and> contents s' = {x \<in> fst ` set (iter_from t 0). x \<in> contents s}"
  proof (rule keep_entries_ok)
    fix x assume "(x, hsh x) \<in> set (iter_from t 0)"
    then have "x \<in> contents t" using iter_from_ok(1) [OF assms(2)] by force
    then show "contains_entry s (x, hsh x) = ret (x \<in> contents s)"
      by (intro contains_ok assms ok_hashes [OF assms(2)])
  qed (rule iter_from_ok(2) [OF assms(2)])
  moreover have "{x \<in> contents t. x \<in> contents s} = contents s \<inter> contents t" by blast
  ultimately show ?thesis using assms(3) iter_from_ok(1) [OF assms(2)] by (simp add: intersection_def)
qed

lemma keep_entries_raises: "es \<noteq> [] \<Longrightarrow> keep_entries (\<lambda>e. raise ex) es = raise ex"
  by (cases es) (auto simp: keep_entries_def)

lemma intersection_larger_raises:
  assumes "ok hsh t" "used s < used t" "0 \<le> used s"
  shows "intersection hsh s (OtherSet t) = raise (AttributeError ''contains_entry'')"
proof -
  have "contents t \<noteq> {}"
    using assms good_used [of hsh t] by (auto simp: ok_def)
  then have "iter_from t 0 \<noteq> []" using iter_from_ok(1) [OF assms(1)] by auto
  with assms(2) show ?thesis by (simp add: intersection_def keep_entries_raises)
qed

definition sym_diff :: "'a set \<Rightarrow> 'a set \<Rightarrow> 'a set" where
  "sym_diff A B = (A - B) \<union> (B - A)"

lemma symmetric_difference_update_ok:
  assumes "ok hsh s" "operand_ok hsh p" "distinct (operand_elems s p)"
  shows "\<exists>s'. symmetric_difference_update hsh s p = ret s' \<and> ok hsh s'
    \<and> contents s' = sym_diff (contents s) (operand_set s p)"
proof (cases "p = Itself")
  case True
  then show ?thesis by (simp add: symmetric_difference_update_def sym_diff_def)
next
  case False
  let ?f = "\<lambda>s x. cbind (discard hsh s x) (\<lambda>(s', found). if found then ret s' else add hsh s' x)"
  have "\<exists>s'. cfold ?f s (operand_elems s p) = ret s' \<and> ok hsh s' \<and> contents s' = sym_diff (contents s) (set (operand_elems s p))"
  proof (rule cfold_invariant [where P = "\<lambda>r ys. ok hsh r \<and> contents r = sym_diff (contents s) (set ys)"])
    fix r x ys zs assume inv: "ok hsh r \<and> contents r = sym_diff (contents s) (set ys)" and es: "operand_elems s p = ys @ x # zs"
    have h: "0 \<le> hsh x" using operand_elems_hashes [OF assms(1,2)] es by auto
    have new: "x \<notin> set ys" using assms(3) es by auto
    obtain r1 where r1: "discard hsh r x = ret (r1, x \<in> contents r)" "ok hsh r1" "contents r1 = contents r - {x}"
      using discard_ok [of hsh r x] inv h by auto
    obtain r2 where r2: "add hsh r1 x = ret r2" "ok hsh r2" "contents r2 = insert x (contents r1)"
      using add_ok [of hsh r1 x] r1 h by (auto simp: add_def from_elem_def)
    show "\<exists>s'. ?f r x = ret s' \<and> ok hsh s' \<and> contents s' = sym_diff (contents s) (set (ys @ [x]))"
      using inv r1 r2 new by (cases "x \<in> contents r") (auto simp: sym_diff_def)
  qed (use assms(1) in \<open>simp add: sym_diff_def\<close>)
  with False operand_elems_set [OF assms(1,2)] show ?thesis by (simp add: symmetric_difference_update_def)
qed

section \<open>Comparisons\<close>

lemma call_spec: "(\<And>x. x \<in> set xs \<Longrightarrow> p x = ret (Q x)) \<Longrightarrow> call p xs = ret (\<forall>x\<in>set xs. Q x)"
  by (induction xs) auto

lemma operand_contains_ok:
  "ok hsh s \<Longrightarrow> operand_ok hsh p \<Longrightarrow> 0 \<le> hsh x \<Longrightarrow> operand_contains hsh s p x = ret (x \<in> operand_set s p)"
  by (cases p) (auto simp: contains_def from_elem_def contains_ok)

lemma issubset_ok:
  assumes "ok hsh s" "operand_ok hsh p"
  shows "issubset hsh s p = ret (contents s \<subseteq> operand_set s p)"
proof -
  have "call (operand_contains hsh s p) (iter_elems s) = ret (\<forall>x\<in>set (iter_elems s). x \<in> operand_set s p)"
    by (rule call_spec) (use iter_elems_ok [OF assms(1)] ok_hashes [OF assms(1)] operand_contains_ok [OF assms] in auto)
  with iter_elems_ok [OF assms(1)] show ?thesis by (simp add: issubset_def subset_iff Ball_def)
qed

lemma issuperset_ok:
  assumes "ok hsh s" "operand_ok hsh p"
  shows "issuperset hsh s p = ret (operand_set s p \<subseteq> contents s)"
proof -
  have "call (contains hsh s) (operand_elems s p) = ret (\<forall>x\<in>set (operand_elems s p). x \<in> contents s)"
    by (rule call_spec) (use operand_elems_hashes [OF assms] contains_ok [OF assms(1)] in \<open>auto simp: contains_def from_elem_def\<close>)
  with operand_elems_set [OF assms] show ?thesis by (simp add: issuperset_def subset_iff Ball_def)
qed

lemma isdisjoint_ok:
  assumes "ok hsh s" "operand_ok hsh p"
  shows "isdisjoint hsh s p = ret (contents s \<inter> operand_set s p = {})"
proof (cases "used s > operand_len s p")
  case True
  have "call (\<lambda>x. cbind (operand_contains hsh s p x) (\<lambda>b. ret (\<not> b))) (iter_elems s)
      = ret (\<forall>x\<in>set (iter_elems s). x \<notin> operand_set s p)"
    by (rule call_spec) (use iter_elems_ok [OF assms(1)] ok_hashes [OF assms(1)] operand_contains_ok [OF assms] in auto)
  with True iter_elems_ok [OF assms(1)] show ?thesis by (auto simp: isdisjoint_def)
next
  case False
  have "call (\<lambda>x. cbind (contains hsh s x) (\<lambda>b. ret (\<not> b))) (operand_elems s p)
      = ret (\<forall>x\<in>set (operand_elems s p). x \<notin> contents s)"
    by (rule call_spec) (use operand_elems_hashes [OF assms] contains_ok [OF assms(1)] in \<open>auto simp: contains_def from_elem_def\<close>)
  with False operand_elems_set [OF assms] show ?thesis by (auto simp: isdisjoint_def)
qed

section \<open>Integers\<close>

text \<open>
  Python's \<open>hash\<close> of an integer: the absolute value modulo the Mersenne prime \<open>2 ^ 61 - 1\<close>, with the
  sign, and \<open>-2\<close> in place of \<open>-1\<close>.
\<close>

definition py_hash_int :: "int \<Rightarrow> int" where
  "py_hash_int n = (let h = sgn n * (\<bar>n\<bar> mod (2 ^ 61 - 1)) in if h = -1 then -2 else h)"

lemma py_hash_int_nonneg: "0 \<le> n \<Longrightarrow> 0 \<le> py_hash_int n"
  by (auto simp: py_hash_int_def Let_def sgn_if)

text \<open>A lookup that leaves its index where it is, with nothing left to shift but the sign.\<close>

lemma look_loop_stuck:
  "look_loop t msk e f i p = Some r \<Longrightarrow>
    \<not> (p = -1 \<and> find (stops t e) (window msk i) = None \<and> next_index msk i (-1) = i)"
proof (rule look_loop.raw_induct [of "\<lambda>t msk e f i p r. \<not> (p = -1 \<and> find (stops t e) (window msk i) = None \<and> next_index msk i (-1) = i)"])
  fix rec t msk e f i p y
  assume IH: "\<And>t msk e f i p y. rec t msk e f i p = Some y \<Longrightarrow>
      \<not> (p = -1 \<and> find (stops t e) (window msk i) = None \<and> next_index msk i (-1) = i)"
    and body: "(case look_scan t e f (window msk i) of Inl j \<Rightarrow> Some j
      | Inr f' \<Rightarrow> rec t msk e f' (next_index msk i (drop_bit PERTURB_SHIFT p)) (drop_bit PERTURB_SHIFT p)) = Some y"
  show "\<not> (p = -1 \<and> find (stops t e) (window msk i) = None \<and> next_index msk i (-1) = i)"
  proof
    assume stuck: "p = -1 \<and> find (stops t e) (window msk i) = None \<and> next_index msk i (-1) = i"
    then obtain f' where "look_scan t e f (window msk i) = Inr f'" using look_scan_miss by blast
    with body stuck have "rec t msk e f' i (-1) = Some y" by (simp add: drop_bit_eq_div)
    from IH [OF this] stuck show False by simp
  qed
qed

lemma look_loop_diverges:
  assumes "find (stops t e) (window msk i) = None" "next_index msk i (-1) = i"
  shows "look_loop t msk e f i (-1) = None"
  using look_loop_stuck [of t msk e f i "-1"] assms by fastforce

section \<open>Properties\<close>

lemmas compat_eval = CompatSet_def add_def from_elem_def add_entry_def insert_entry_def look_entry_def new_inner_def
  look_loop.simps window_def masked_def next_index_def py_hash_int_def

lemma add_0: "add py_hash_int new_inner 0 =
    ret (new_inner\<lparr>table := [Used 0 0, Empty, Empty, Empty, Empty, Empty, Empty, Empty], fill := 1, used := 1\<rparr>)"
  by (simp add: compat_eval numeral_eq_Suc ret_def [symmetric])

text \<open>
  C8: The probe sequence of a hash that is not negative visits every slot of a table whose size is a power
  of two, so the lookup loops end whenever the table has an empty slot.
\<close>

theorem probe_visits_every_slot:
  assumes "0 \<le> h" "t < 2 ^ k"
  shows "\<exists>n. probe_index (2 ^ k - Suc 0) h n = t"
  using assms by (rule probe_index_reaches)

theorem probe_visits_every_slot_witness: "\<exists>n. probe_index (2 ^ 3 - Suc 0) 12345 n = 6"
  by (rule probe_visits_every_slot) simp_all

text \<open>
  C7: On a set that satisfies the invariant, adding an element whose hash is not negative returns, keeps the invariant
  and adds exactly that element, whether or not the table has to grow; afterwards the lookup of an element whose
  hash is not negative returns and answers membership. (With negative hashes neither need return.)
\<close>

theorem compat_add_contains:
  assumes "ok hsh s" "0 \<le> hsh x" "0 \<le> hsh y"
  shows "\<exists>s'. add hsh s x = ret s' \<and> ok hsh s' \<and> contents s' = insert x (contents s)
    \<and> contains hsh s' y = ret (y \<in> insert x (contents s))"
proof -
  obtain s' where "add_entry s (x, hsh x) = ret s'" "ok hsh s'" "contents s' = insert x (contents s)"
    using add_ok [of hsh s x] assms by auto
  moreover from this assms(3) have "contains_entry s' (y, hsh y) = ret (y \<in> insert x (contents s))"
    using contains_ok [of hsh s' y] by simp
  ultimately show ?thesis by (auto simp: add_def contains_def from_elem_def)
qed

theorem compat_add_contains_witness:
  "\<exists>s'. add py_hash_int new_inner 5 = ret s' \<and> ok py_hash_int s' \<and> contents s' = {5}
    \<and> contains py_hash_int s' 6 = ret False"
  using compat_add_contains [OF ok_new_inner(1), of py_hash_int 5 6] py_hash_int_nonneg by simp

text \<open>
  \<open>difference\<close> returns the set difference for every kind of operand (another set, the same set, a Python
  set, any iterable), through each of its two algorithms, and its result satisfies the invariant.
\<close>

theorem compat_difference:
  assumes "ok hsh s" "operand_ok hsh p"
  shows "\<exists>s'. difference hsh s p = ret s' \<and> ok hsh s' \<and> contents s' = contents s - operand_set s p"
  using assms by (rule difference_ok)

theorem compat_difference_witness:
  "\<exists>s'. difference py_hash_int new_inner (Elems [3, 4]) = ret s' \<and> ok py_hash_int s' \<and> contents s' = {} - {3, 4}"
  using compat_difference [OF ok_new_inner(1), of py_hash_int "Elems [3, 4]"] py_hash_int_nonneg by simp

text \<open>
  \<open>pop\<close> of a set that is not empty returns one of its elements and removes just that one.
\<close>

theorem compat_pop:
  assumes "ok hsh s" "contents s \<noteq> {}"
  shows "\<exists>s' x. pop s = ret (s', x) \<and> x \<in> contents s \<and> ok hsh s' \<and> contents s' = contents s - {x}"
  using assms by (rule pop_ok)

theorem compat_pop_witness:
  "\<exists>s. add py_hash_int new_inner 0 = ret s
    \<and> (\<exists>s' x. pop s = ret (s', x) \<and> x \<in> contents s \<and> ok py_hash_int s' \<and> contents s' = contents s - {x})"
proof -
  obtain s where "add py_hash_int new_inner 0 = ret s" "ok py_hash_int s" "contents s = {0}"
    using add_ok [OF ok_new_inner(1), of py_hash_int 0] py_hash_int_nonneg [of 0] by (auto simp: add_def from_elem_def)
  with compat_pop [of py_hash_int s] show ?thesis by auto
qed

text \<open>
  Negative elements break the set: building it from \<open>0\<close> and \<open>-8\<close> runs forever, since the arithmetic
  shift leaves the perturbation at \<open>-1\<close> and the probe index never moves.
\<close>

lemma compat_negative_diverges: "CompatSet py_hash_int (Some (Elems [0, -8])) = None"
proof -
  let ?t = "[Used 0 0, Empty, Empty, Empty, Empty, Empty, Empty, Empty] :: int slot list"
  have h: "py_hash_int (-8) = -8" by (simp add: py_hash_int_def)
  have m: "masked 7 (-8) = 0" "next_index 7 0 (-1) = 0" "drop_bit PERTURB_SHIFT (-8 :: int) = -1"
    by (simp_all add: masked_def next_index_def drop_bit_eq_div)
  have w: "window 7 0 = [0]" by (simp add: window_def)
  have "look_loop ?t 7 (-8, -8) None 0 (-1) = None"
    by (rule look_loop_diverges) (simp_all add: w stops_def m)
  then have "look_loop ?t 7 (-8, -8) None (masked 7 (-8)) (-8) = None"
    by (subst look_loop.simps) (simp add: m w)
  then show ?thesis
    by (simp add: CompatSet_def add_0) (simp add: add_def add_entry_def insert_entry_def look_entry_def from_elem_def h new_inner_def)
qed

text \<open>
  \<open>intersection\<close> with a set that has more elements raises an \<open>AttributeError\<close> instead of returning.
\<close>

theorem compat_intersection_larger:
  assumes "ok hsh s" "ok hsh t" "used s < used t"
  shows "intersection hsh s (OtherSet t) = raise (AttributeError ''contains_entry'')"
  using intersection_larger_raises [OF assms(2,3)] assms(1) good_used_fill by (auto simp: ok_def)

theorem compat_intersection_larger_witness:
  "\<exists>s. add py_hash_int new_inner 0 = ret s
    \<and> intersection py_hash_int new_inner (OtherSet s) = raise (AttributeError ''contains_entry'')"
proof -
  obtain s where s: "add py_hash_int new_inner 0 = ret s" "ok py_hash_int s" "contents s = {0}"
    using add_ok [OF ok_new_inner(1), of py_hash_int 0] py_hash_int_nonneg [of 0] by (auto simp: add_def from_elem_def)
  have "used s = 1" using good_used [of py_hash_int s] s by (simp add: ok_def)
  moreover have "used (new_inner :: int inner) = 0" by (simp add: new_inner_def)
  ultimately show ?thesis
    using compat_intersection_larger [OF ok_new_inner(1) s(2)] s(1) by simp
qed

text \<open>
  The comparison of two sets looks only at as many slots as there are elements: the sets \<open>{1}\<close> and
  \<open>{2}\<close> compare equal.
\<close>

theorem compat_eq_wrong:
  "\<exists>s t. CompatSet py_hash_int (Some (Elems [1])) = ret s \<and> CompatSet py_hash_int (Some (Elems [2])) = ret t
    \<and> contents s = {1} \<and> contents t = {2} \<and> cs_eq py_hash_int s (OtherSet t) = ret True"
proof -
  have "CompatSet py_hash_int (Some (Elems [1])) =
      ret (new_inner\<lparr>table := [Empty, Used 1 1, Empty, Empty, Empty, Empty, Empty, Empty], fill := 1, used := 1\<rparr>)"
    "CompatSet py_hash_int (Some (Elems [2])) =
      ret (new_inner\<lparr>table := [Empty, Empty, Used 2 2, Empty, Empty, Empty, Empty, Empty], fill := 1, used := 1\<rparr>)"
    by (simp_all add: compat_eval numeral_eq_Suc ret_def [symmetric])
  then show ?thesis
    by (simp add: contents_def elems_def inner_eq_def new_inner_def)
qed

end
