(* ===== verification/Revocation.thy ===== *)
theory Revocation
  imports StatePaths CompatSetMore
begin

text \<open>
  Revocation strategies (indy_node/server/revocation_strategy.py): validation of a REVOC_REG_ENTRY request
  against the current entry, the entry that is written, and the delta between two entries. A strategy's
  attributes \<open>author_did\<close>, \<open>revoc_reg_def_id\<close> and \<open>req_id\<close> are set at the start of each call from its
  argument, so they are no state here. What \<open>state.set\<close> stores is the result: a list of path and value
  pairs in the order of the calls. Messages quote the index lists only up to their listing.
\<close>

abbreviation VALUE :: string where "VALUE \<equiv> ''value''"
abbreviation ISSUED :: string where "ISSUED \<equiv> ''issued''"
abbreviation REVOKED :: string where "REVOKED \<equiv> ''revoked''"
abbreviation ACCUM :: string where "ACCUM \<equiv> ''accum''"
abbreviation PREV_ACCUM :: string where "PREV_ACCUM \<equiv> ''prevAccum''"
abbreviation ISSUANCE_TYPE :: string where "ISSUANCE_TYPE \<equiv> ''issuanceType''"
abbreviation ISSUANCE_BY_DEFAULT :: string where "ISSUANCE_BY_DEFAULT \<equiv> ''ISSUANCE_BY_DEFAULT''"
abbreviation ISSUANCE_ON_DEMAND :: string where "ISSUANCE_ON_DEMAND \<equiv> ''ISSUANCE_ON_DEMAND''"

text \<open>A list of indices; the message schema admits integers only (types.py, \<open>RevocRegEntryValueField\<close>).\<close>

fun ints_of :: "pyval list \<Rightarrow> int list res" where
  "ints_of [] = Inr []"
| "ints_of (PyInt i # vs) = rbind (ints_of vs) (\<lambda>is. Inr (i # is))"
| "ints_of (v # vs) = Inl (TypeError ''index'')"

fun as_ints :: "pyval \<Rightarrow> int list res" where
  "as_ints (PyList vs) = ints_of vs"
| "as_ints v = Inl (TypeError ''indices'')"

definition indices_val :: "int list \<Rightarrow> pyval" where
  "indices_val is = PyList (map PyInt is)"

text \<open>\<open>value.get(field, [])\<close>\<close>

definition get_indices :: "pyval \<Rightarrow> string \<Rightarrow> int list res" where
  "get_indices value field = rbind (py_get_default value field (PyList [])) as_ints"

section \<open>Validation\<close>

datatype strategy = RevokedStrategy | IssuedStrategy

text \<open>\<open>RevocRegDefHandler.revocation_strategy_map\<close>\<close>

definition get_revocation_strategy :: "pyval \<Rightarrow> strategy option" where
  "get_revocation_strategy typ =
     (if typ = PyStr ISSUANCE_BY_DEFAULT then Some RevokedStrategy
      else if typ = PyStr ISSUANCE_ON_DEMAND then Some IssuedStrategy else None)"

definition reject :: "request \<Rightarrow> string \<Rightarrow> 'a res" where
  "reject req reason = Inl (InvalidClientRequest (req_identifier req) (reqId req) reason)"

definition revoked_specific_validation :: "pyval \<Rightarrow> request \<Rightarrow> unit res" where
  "revoked_specific_validation current_reg_entry req =
     rbind (py_get current_reg_entry VALUE) (\<lambda>value_from_state.
     rbind (py_assert (truthy value_from_state)) (\<lambda>_.
     rbind (get_indices value_from_state REVOKED) (\<lambda>indices.
     let value_from_txn = dict_get (operation req) VALUE in
     rbind (get_indices value_from_txn ISSUED) (\<lambda>issued_from_txn.
     rbind (get_indices value_from_txn REVOKED) (\<lambda>revoked_from_txn.
       if set issued_from_txn - set indices \<noteq> {}
       then reject req ''Issued indices from txn are not present in the current revoked list from state''
       else if set indices \<inter> set revoked_from_txn \<noteq> {}
       then reject req ''Revoked indices from txn are already revoked in current state''
       else Inr ())))))"

definition issued_specific_validation :: "pyval \<Rightarrow> request \<Rightarrow> unit res" where
  "issued_specific_validation current_reg_entry req =
     rbind (py_get current_reg_entry VALUE) (\<lambda>value_from_state.
     rbind (py_assert (truthy value_from_state)) (\<lambda>_.
     rbind (get_indices value_from_state ISSUED) (\<lambda>indices.
     let value_from_txn = dict_get (operation req) VALUE in
     rbind (get_indices value_from_txn ISSUED) (\<lambda>issued_from_txn.
     rbind (get_indices value_from_txn REVOKED) (\<lambda>revoked_from_txn.
       if set revoked_from_txn - set indices \<noteq> {}
       then reject req ''Revoked indices from txn are not present in the current issued list from state''
       else if set indices \<inter> set issued_from_txn \<noteq> {}
       then reject req ''Issued indices from txn are already issued in current state''
       else Inr ())))))"

fun specific_validation :: "strategy \<Rightarrow> pyval \<Rightarrow> request \<Rightarrow> unit res" where
  "specific_validation RevokedStrategy = revoked_specific_validation"
| "specific_validation IssuedStrategy = issued_specific_validation"

definition strategy_validate :: "strategy \<Rightarrow> pyval \<Rightarrow> request \<Rightarrow> unit res" where
  "strategy_validate strat current_entry req =
     rbind (dict_index (operation req) REVOC_REG_DEF_ID) (\<lambda>_.
     let value_from_txn = dict_get (operation req) VALUE in
     rbind (get_indices value_from_txn ISSUED) (\<lambda>issued_from_txn.
     rbind (get_indices value_from_txn REVOKED) (\<lambda>revoked_from_txn.
       if set issued_from_txn \<inter> set revoked_from_txn \<noteq> {}
       then reject req ''Can not have an index in both 'issued' and 'revoked' lists''
       else rbind (py_get value_from_txn PREV_ACCUM) (\<lambda>prev_accum. rbind (py_get value_from_txn ACCUM) (\<lambda>accum.
       if prev_accum \<noteq> PyNone \<and> current_entry = PyNone
       then reject req (''Got 'prevAccum': '' @ py_str prev_accum @ '' but there is no previous REVOC_REG_ENTRY'')
       else if current_entry = PyNone then Inr ()
       else rbind (py_get current_entry VALUE) (\<lambda>value_from_state.
         rbind (py_assert (truthy value_from_state)) (\<lambda>_.
         rbind (py_get value_from_state ACCUM) (\<lambda>current_accum. rbind (py_get value_from_state PREV_ACCUM) (\<lambda>state_prev.
           if current_accum \<noteq> prev_accum
           then reject req (''The current accumulator value: '' @ py_str current_accum
                  @ '' must be equal to the last accumulator value: '' @ py_str state_prev @ '' in transaction'')
           else if issued_from_txn = [] \<and> revoked_from_txn = []
           then reject req ''Got 'prevAccum' and 'accum' but 'issued' and 'revoked' lists are empty''
           else if prev_accum = accum \<and> (issued_from_txn \<noteq> [] \<or> revoked_from_txn \<noteq> [])
           then reject req ''Got equal accum and prev_accum but issued and revoked indices are not empty''
           else specific_validation strat current_entry req)))))))))"

section \<open>Writing\<close>

text \<open>
  The new index list: in legacy mode through a \<open>CompatSet\<close>, in its iteration order, else sorted.
\<close>

definition result_indices :: "bool \<Rightarrow> int list \<Rightarrow> int list \<Rightarrow> int list \<Rightarrow> int list comp" where
  "result_indices sort_legacy indices removed added =
     (if sort_legacy
      then cbind (CompatSet py_hash_int (Some (Elems indices))) (\<lambda>cs0.
           cbind (cs_difference py_hash_int cs0 [Elems removed]) (\<lambda>cs.
           cbind (cs_update py_hash_int cs [Elems added]) (\<lambda>cs'.
             ret (iter_elems cs'))))
      else ret (sorted_list_of_set ((set indices - set removed) \<union> set added)))"

definition set_to_state :: "(pyval \<Rightarrow> 'b) \<Rightarrow> txn \<Rightarrow> (string \<times> 'b) list res" where
  "set_to_state ser t =
     rbind (prepare_revoc_reg_entry_for_state ser t) (\<lambda>entry.
     rbind (dict_index (get_payload_data t) VALUE) (\<lambda>value. rbind (py_index value ACCUM) (\<lambda>accum.
     rbind (prepare_revoc_reg_entry_accum_for_state ser
              (t\<lparr>get_payload_data := dict_set (get_payload_data t) VALUE (PyDict [(ACCUM, accum)])\<rparr>)) (\<lambda>accum_entry.
       Inr [entry, accum_entry]))))"

definition lift_res :: "'a res \<Rightarrow> 'a comp" where
  "lift_res r = Some r"

text \<open>
  \<open>write\<close> of the two classes: the field that the strategy keeps holds the new list, the other one the
  empty list. With no current entry the transaction is stored as it is.
\<close>

definition with_indices :: "txn \<Rightarrow> dict \<Rightarrow> string \<Rightarrow> string \<Rightarrow> int list \<Rightarrow> txn" where
  "with_indices t value_from_txn emptied kept is =
     t\<lparr>get_payload_data := dict_set (get_payload_data t) VALUE
         (PyDict (dict_set (dict_set value_from_txn emptied (PyList [])) kept (indices_val is)))\<rparr>"

definition revoked_write :: "(pyval \<Rightarrow> 'b) \<Rightarrow> bool \<Rightarrow> pyval \<Rightarrow> txn \<Rightarrow> (string \<times> 'b) list comp" where
  "revoked_write ser sort_legacy current_reg_entry t =
     (if current_reg_entry = PyNone then lift_res (set_to_state ser t)
      else cbind (lift_res (rbind (py_get current_reg_entry VALUE) (\<lambda>value_from_state.
                   rbind (py_assert (truthy value_from_state)) (\<lambda>_. get_indices value_from_state REVOKED)))) (\<lambda>indices.
           let value_from_txn = dict_get (get_payload_data t) VALUE in
           cbind (lift_res (get_indices value_from_txn ISSUED)) (\<lambda>issued_from_txn.
           cbind (lift_res (get_indices value_from_txn REVOKED)) (\<lambda>revoked_from_txn.
           cbind (result_indices sort_legacy indices issued_from_txn revoked_from_txn) (\<lambda>is.
           cbind (lift_res (as_dict_value value_from_txn)) (\<lambda>v.
             lift_res (set_to_state ser (with_indices t v ISSUED REVOKED is))))))))"

definition issued_write :: "(pyval \<Rightarrow> 'b) \<Rightarrow> bool \<Rightarrow> pyval \<Rightarrow> txn \<Rightarrow> (string \<times> 'b) list comp" where
  "issued_write ser sort_legacy current_reg_entry t =
     (if current_reg_entry = PyNone then lift_res (set_to_state ser t)
      else cbind (lift_res (rbind (py_get current_reg_entry VALUE) (\<lambda>value_from_state.
                   rbind (py_assert (truthy value_from_state)) (\<lambda>_. get_indices value_from_state ISSUED)))) (\<lambda>indices.
           let value_from_txn = dict_get (get_payload_data t) VALUE in
           cbind (lift_res (get_indices value_from_txn ISSUED)) (\<lambda>issued_from_txn.
           cbind (lift_res (get_indices value_from_txn REVOKED)) (\<lambda>revoked_from_txn.
           cbind (result_indices sort_legacy indices revoked_from_txn issued_from_txn) (\<lambda>is.
           cbind (lift_res (as_dict_value value_from_txn)) (\<lambda>v.
             lift_res (set_to_state ser (with_indices t v REVOKED ISSUED is))))))))"

fun strategy_write :: "strategy \<Rightarrow> (pyval \<Rightarrow> 'b) \<Rightarrow> bool \<Rightarrow> pyval \<Rightarrow> txn \<Rightarrow> (string \<times> 'b) list comp" where
  "strategy_write RevokedStrategy = revoked_write"
| "strategy_write IssuedStrategy = issued_write"

section \<open>Delta\<close>

text \<open>
  \<open>get_delta\<close> on the issued and revoked lists of two entries, as sets; the first component is what was
  issued. Without a first entry the lists of the second are the answer.
\<close>

type_synonym index_lists = "int list \<times> int list"

fun revoked_get_delta :: "index_lists \<Rightarrow> index_lists option \<Rightarrow> int set \<times> int set" where
  "revoked_get_delta to_lists None = (set (fst to_lists), set (snd to_lists))"
| "revoked_get_delta to_lists (Some from_lists) =
     (set (snd from_lists) - set (snd to_lists), set (snd to_lists) - set (snd from_lists))"

fun issued_get_delta :: "index_lists \<Rightarrow> index_lists option \<Rightarrow> int set \<times> int set" where
  "issued_get_delta to_lists None = (set (fst to_lists), set (snd to_lists))"
| "issued_get_delta to_lists (Some from_lists) =
     (set (fst to_lists) - set (fst from_lists), set (fst from_lists) - set (fst to_lists))"

fun strategy_get_delta :: "strategy \<Rightarrow> index_lists \<Rightarrow> index_lists option \<Rightarrow> int set \<times> int set" where
  "strategy_get_delta RevokedStrategy = revoked_get_delta"
| "strategy_get_delta IssuedStrategy = issued_get_delta"

section \<open>Index lists\<close>

lemma ints_of_map [simp]: "ints_of (map PyInt is) = Inr is"
  by (induction "is") auto

lemma as_ints_indices_val [simp]: "as_ints (indices_val is) = Inr is"
  by (simp add: indices_val_def)

text \<open>The contract of both ways to compute the new list: it lists the updated set once.\<close>

locale index_calculus =
  fixes calc :: "int list \<Rightarrow> int list \<Rightarrow> int list \<Rightarrow> int list comp"
    and admissible :: "int \<Rightarrow> bool"
  assumes calc_returns:
    "\<forall>i\<in>set indices \<union> set removed \<union> set added. admissible i \<Longrightarrow>
      \<exists>is. calc indices removed added = ret is \<and> distinct is \<and> set is = (set indices - set removed) \<union> set added"
begin

lemma calc_unique_set:
  assumes "\<forall>i\<in>set indices \<union> set removed \<union> set added. admissible i" "calc indices removed added = ret is"
  shows "distinct is" "set is = (set indices - set removed) \<union> set added"
  using calc_returns [OF assms(1)] assms(2) by auto

end

lemma legacy_indices:
  assumes "\<forall>i\<in>set indices \<union> set removed \<union> set added. 0 \<le> i"
  shows "\<exists>is. result_indices True indices removed added = ret is \<and> distinct is
    \<and> set is = (set indices - set removed) \<union> set added"
proof -
  have h: "\<forall>x\<in>set indices. 0 \<le> py_hash_int x" "\<forall>x\<in>set removed. 0 \<le> py_hash_int x" "\<forall>x\<in>set added. 0 \<le> py_hash_int x"
    using assms py_hash_int_nonneg by auto
  obtain cs0 where cs0: "CompatSet py_hash_int (Some (Elems indices)) = ret cs0" "ok py_hash_int cs0" "contents cs0 = set indices"
    using CompatSet_ok [OF h(1)] by blast
  obtain cs where cs: "cs_difference py_hash_int cs0 [Elems removed] = ret cs" "ok py_hash_int cs"
      "contents cs = set indices - set removed"
    using cs_difference_ok [OF cs0(2), of "[Elems removed]"] h(2) cs0(3) by auto
  obtain cs' where cs': "cs_update py_hash_int cs [Elems added] = ret cs'" "ok py_hash_int cs'"
      "contents cs' = (set indices - set removed) \<union> set added"
    using cs_update_elems_ok [OF cs(2) h(3)] cs(3) by auto
  with cs0 cs iter_elems_ok [OF cs'(2)] show ?thesis by (auto simp: result_indices_def simp del: cs_difference.simps)
qed

interpretation legacy_calc: index_calculus "result_indices True" "\<lambda>i. 0 \<le> i"
  by unfold_locales (rule legacy_indices)

interpretation sorted_calc: index_calculus "result_indices False" "\<lambda>i. True"
  by unfold_locales (auto simp: result_indices_def)

lemma result_indices_spec:
  assumes "sort_legacy \<longrightarrow> (\<forall>i\<in>set indices \<union> set removed \<union> set added. 0 \<le> i)"
  shows "\<exists>is. result_indices sort_legacy indices removed added = ret is \<and> distinct is
    \<and> set is = (set indices - set removed) \<union> set added \<and> (\<not> sort_legacy \<longrightarrow> sorted is)"
  using assms legacy_calc.calc_returns [of indices removed added] by (cases sort_legacy) (auto simp: result_indices_def)

section \<open>Strategies\<close>

text \<open>The issued and revoked lists of an entry or an operation.\<close>

definition entry_indices :: "pyval \<Rightarrow> index_lists res" where
  "entry_indices entry =
     rbind (py_get entry VALUE) (\<lambda>v. rbind (get_indices v ISSUED) (\<lambda>i. rbind (get_indices v REVOKED) (\<lambda>r. Inr (i, r))))"

text \<open>What a strategy admits, and the lists it stores next.\<close>

definition admits :: "strategy \<Rightarrow> index_lists \<Rightarrow> index_lists \<Rightarrow> bool" where
  "admits strat cur tx \<longleftrightarrow>
     (\<exists>entry req. entry_indices entry = Inr cur \<and> entry_indices (PyDict (operation req)) = Inr tx
       \<and> specific_validation strat entry req = Inr ())"

fun stored_lists :: "strategy \<Rightarrow> bool \<Rightarrow> index_lists \<Rightarrow> index_lists \<Rightarrow> index_lists comp" where
  "stored_lists RevokedStrategy legacy cur tx = cbind (result_indices legacy (snd cur) (fst tx) (snd tx)) (\<lambda>is. ret ([], is))"
| "stored_lists IssuedStrategy legacy cur tx = cbind (result_indices legacy (fst cur) (snd tx) (fst tx)) (\<lambda>is. ret (is, []))"

definition index_bound :: "bool \<Rightarrow> index_lists \<Rightarrow> index_lists \<Rightarrow> bool" where
  "index_bound legacy cur tx \<longleftrightarrow>
     (legacy \<longrightarrow> (\<forall>i\<in>set (fst cur) \<union> set (snd cur) \<union> set (fst tx) \<union> set (snd tx). 0 \<le> i))"

text \<open>
  The contract of a strategy: it keeps one set of indices; an admitted transaction takes out indices that
  are there and puts in indices that are not; the delta of two entries is the difference of the kept sets.
\<close>

locale revocation_strategy =
  fixes keep ins outs :: "index_lists \<Rightarrow> int set"
    and admitted :: "index_lists \<Rightarrow> index_lists \<Rightarrow> bool"
    and becomes :: "index_lists \<Rightarrow> index_lists \<Rightarrow> index_lists \<Rightarrow> bool"
    and pack :: "int set \<Rightarrow> int set \<Rightarrow> int set \<times> int set"
    and delta :: "index_lists \<Rightarrow> index_lists option \<Rightarrow> int set \<times> int set"
  assumes admitted_outs: "admitted cur tx \<Longrightarrow> outs tx \<subseteq> keep cur"
    and admitted_ins: "admitted cur tx \<Longrightarrow> ins tx \<inter> keep cur = {}"
    and becomes_keep: "becomes cur tx new \<Longrightarrow> keep new = (keep cur - outs tx) \<union> ins tx"
    and delta_keep: "delta new (Some old) = pack (keep old - keep new) (keep new - keep old)"
    and pack_lists: "pack (outs tx) (ins tx) = (set (fst tx), set (snd tx))"
begin

text \<open>The delta of consecutive entries is what the transaction between them said.\<close>

lemma delta_of_step:
  assumes "admitted cur tx" "becomes cur tx new"
  shows "delta new (Some cur) = (set (fst tx), set (snd tx))"
proof -
  have "keep cur - keep new = outs tx" "keep new - keep cur = ins tx"
    using admitted_outs [OF assms(1)] admitted_ins [OF assms(1)] becomes_keep [OF assms(2)] by auto
  then show ?thesis by (simp add: delta_keep pack_lists)
qed

text \<open>An entry has no delta to itself.\<close>

lemma delta_same: "delta e (Some e) = pack {} {}"
  by (simp add: delta_keep)

end

lemma entry_indices_fields:
  "entry_indices entry = Inr (i, r) \<longleftrightarrow>
    (\<exists>v. py_get entry VALUE = Inr v \<and> get_indices v ISSUED = Inr i \<and> get_indices v REVOKED = Inr r)"
  by (auto simp: entry_indices_def rbind_Inr_iff)

lemma admits_revoked: "admits RevokedStrategy cur tx \<Longrightarrow> set (fst tx) \<subseteq> set (snd cur) \<and> set (snd tx) \<inter> set (snd cur) = {}"
  by (cases cur; cases tx)
    (auto simp: admits_def entry_indices_fields revoked_specific_validation_def rbind_Inr_iff Let_def reject_def split: if_splits)

lemma admits_issued: "admits IssuedStrategy cur tx \<Longrightarrow> set (snd tx) \<subseteq> set (fst cur) \<and> set (fst tx) \<inter> set (fst cur) = {}"
  by (cases cur; cases tx)
    (auto simp: admits_def entry_indices_fields issued_specific_validation_def rbind_Inr_iff Let_def reject_def split: if_splits)

definition steps_to :: "strategy \<Rightarrow> bool \<Rightarrow> index_lists \<Rightarrow> index_lists \<Rightarrow> index_lists \<Rightarrow> bool" where
  "steps_to strat legacy cur tx new \<longleftrightarrow> index_bound legacy cur tx \<and> stored_lists strat legacy cur tx = ret new"

lemma steps_to_revoked:
  assumes "steps_to RevokedStrategy legacy cur tx new"
  shows "set (snd new) = (set (snd cur) - set (fst tx)) \<union> set (snd tx)"
proof -
  obtain "is" where r: "result_indices legacy (snd cur) (fst tx) (snd tx) = ret is" "new = ([], is)"
    using assms by (auto simp: steps_to_def cbind_ret_iff)
  have "legacy \<longrightarrow> (\<forall>i\<in>set (snd cur) \<union> set (fst tx) \<union> set (snd tx). 0 \<le> i)"
    using assms unfolding steps_to_def index_bound_def by blast
  from result_indices_spec [OF this] r show ?thesis by auto
qed

lemma steps_to_issued:
  assumes "steps_to IssuedStrategy legacy cur tx new"
  shows "set (fst new) = (set (fst cur) - set (snd tx)) \<union> set (fst tx)"
proof -
  obtain "is" where r: "result_indices legacy (fst cur) (snd tx) (fst tx) = ret is" "new = (is, [])"
    using assms by (auto simp: steps_to_def cbind_ret_iff)
  have "legacy \<longrightarrow> (\<forall>i\<in>set (fst cur) \<union> set (snd tx) \<union> set (fst tx). 0 \<le> i)"
    using assms unfolding steps_to_def index_bound_def by blast
  from result_indices_spec [OF this] r show ?thesis by auto
qed

interpretation revoked_strategy: revocation_strategy
  "\<lambda>e. set (snd e)" "\<lambda>e. set (snd e)" "\<lambda>e. set (fst e)" "admits RevokedStrategy" "steps_to RevokedStrategy legacy"
  "\<lambda>a b. (a, b)" "strategy_get_delta RevokedStrategy"
  for legacy
  by unfold_locales (auto dest: admits_revoked steps_to_revoked)

interpretation issued_strategy: revocation_strategy
  "\<lambda>e. set (fst e)" "\<lambda>e. set (fst e)" "\<lambda>e. set (snd e)" "admits IssuedStrategy" "steps_to IssuedStrategy legacy"
  "\<lambda>a b. (b, a)" "strategy_get_delta IssuedStrategy"
  for legacy
  by unfold_locales (auto dest: admits_issued steps_to_issued)

lemma delta_of_strategy_step:
  "admits strat cur tx \<Longrightarrow> steps_to strat legacy cur tx new \<Longrightarrow>
    strategy_get_delta strat new (Some cur) = (set (fst tx), set (snd tx))"
  using revoked_strategy.delta_of_step [of cur tx legacy new] issued_strategy.delta_of_step [of cur tx legacy new]
  by (cases strat) simp_all

section \<open>What is written\<close>

text \<open>A transaction with an author, a registry, a sequence number, a time and an accumulator.\<close>

definition complete_entry_txn :: "txn \<Rightarrow> bool" where
  "complete_entry_txn t \<longleftrightarrow>
     truthy (did_val (get_from t)) \<and> truthy (dict_get (get_payload_data t) REVOC_REG_DEF_ID)
     \<and> truthy (opt_int_val (get_seq_no t)) \<and> truthy (opt_int_val (get_txn_time t))
     \<and> (\<exists>v. map_of (get_payload_data t) VALUE = Some (PyDict v) \<and> map_of v ACCUM \<noteq> None)"

lemma set_to_state_complete:
  assumes "complete_entry_txn t"
  shows "\<exists>accum_entry. set_to_state ser t =
    Inr [(make_state_path_for_revoc_reg_entry (dict_get (get_payload_data t) REVOC_REG_DEF_ID),
          encode_state_value ser (numbered_payload t) (opt_int_val (get_seq_no t)) (opt_int_val (get_txn_time t))),
         (make_state_path_for_revoc_reg_entry_accum (dict_get (get_payload_data t) REVOC_REG_DEF_ID), accum_entry)]"
  using assms
  by (auto simp: complete_entry_txn_def set_to_state_def prepare_revoc_reg_entry_for_state_def revoc_reg_entry_path_def
      prepare_revoc_reg_entry_accum_for_state_def assert_numbered_def py_assert_def dict_index_def Let_def)

lemma entry_indices_with_indices:
  shows "entry_indices (numbered_payload (with_indices t v ISSUED REVOKED is)) = Inr ([], is)"
    and "entry_indices (numbered_payload (with_indices t v REVOKED ISSUED is)) = Inr (is, [])"
  by (simp_all add: entry_indices_def numbered_payload_def with_indices_def get_indices_def)

lemma complete_with_indices:
  assumes "complete_entry_txn t" "map_of (get_payload_data t) VALUE = Some (PyDict v)"
  shows "complete_entry_txn (with_indices t v ISSUED REVOKED is)" "complete_entry_txn (with_indices t v REVOKED ISSUED is)"
  using assms by (auto simp: complete_entry_txn_def with_indices_def)

lemma lift_res_simps [simp]: "lift_res (Inr x) = ret x" "lift_res (Inl e) = raise e"
  by (simp_all add: lift_res_def ret_def raise_def)

lemma strategy_write_stores:
  assumes "complete_entry_txn t" "cur \<noteq> PyNone" "truthy (dict_get d VALUE)" "cur = PyDict d"
    and "entry_indices cur = Inr c" "entry_indices (PyDict (get_payload_data t)) = Inr tx"
    and "stored_lists strat legacy c tx = ret new"
  shows "\<exists>entry accum_entry. strategy_write strat ser legacy cur t =
      ret [(make_state_path_for_revoc_reg_entry (dict_get (get_payload_data t) REVOC_REG_DEF_ID),
            encode_state_value ser entry (opt_int_val (get_seq_no t)) (opt_int_val (get_txn_time t))),
           (make_state_path_for_revoc_reg_entry_accum (dict_get (get_payload_data t) REVOC_REG_DEF_ID), accum_entry)]
    \<and> entry_indices entry = Inr new"
proof -
  obtain i r ti tr where pairs: "c = (i, r)" "tx = (ti, tr)" by force
  have state: "get_indices (dict_get d VALUE) ISSUED = Inr i" "get_indices (dict_get d VALUE) REVOKED = Inr r"
    using assms(4,5) pairs by (auto simp: entry_indices_fields)
  have txn: "get_indices (dict_get (get_payload_data t) VALUE) ISSUED = Inr ti"
      "get_indices (dict_get (get_payload_data t) VALUE) REVOKED = Inr tr"
    using assms(6) pairs by (auto simp: entry_indices_fields)
  obtain v where v: "map_of (get_payload_data t) VALUE = Some (PyDict v)"
    using assms(1) by (auto simp: complete_entry_txn_def)
  then have get: "dict_get (get_payload_data t) VALUE = PyDict v" by (simp add: dict_get_def)
  have same: "dict_get (get_payload_data (with_indices t v e k js)) REVOC_REG_DEF_ID = dict_get (get_payload_data t) REVOC_REG_DEF_ID"
      "get_seq_no (with_indices t v e k js) = get_seq_no t" "get_txn_time (with_indices t v e k js) = get_txn_time t" for e k js
    by (simp_all add: with_indices_def)
  note stored = set_to_state_complete [OF complete_with_indices(1) [OF assms(1) v]]
    set_to_state_complete [OF complete_with_indices(2) [OF assms(1) v]]
  show ?thesis
  proof (cases strat)
    case RevokedStrategy
    then obtain js where "result_indices legacy r ti tr = ret js" "new = ([], js)"
      using assms(7) pairs by (auto simp: cbind_ret_iff)
    then show ?thesis
      using RevokedStrategy stored(1) [of ser js] assms(2-4) state txn
      by (auto simp: revoked_write_def Let_def py_assert_def get same entry_indices_with_indices)
  next
    case IssuedStrategy
    then obtain js where "result_indices legacy i tr ti = ret js" "new = (js, [])"
      using assms(7) pairs by (auto simp: cbind_ret_iff)
    then show ?thesis
      using IssuedStrategy stored(2) [of ser js] assms(2-4) state txn
      by (auto simp: issued_write_def Let_def py_assert_def get same entry_indices_with_indices)
  qed
qed

section \<open>Properties\<close>

lemma strategy_validate_update:
  assumes "strategy_validate strat cur req = Inr ()" "cur \<noteq> PyNone" "entry_indices (PyDict (operation req)) = Inr tx"
  shows "\<exists>d v tv. cur = PyDict d \<and> dict_get d VALUE = PyDict v \<and> v \<noteq> [] \<and> dict_get (operation req) VALUE = PyDict tv
    \<and> dict_get tv PREV_ACCUM = dict_get v ACCUM \<and> dict_get tv ACCUM \<noteq> dict_get tv PREV_ACCUM
    \<and> set (fst tx) \<inter> set (snd tx) = {} \<and> (fst tx \<noteq> [] \<or> snd tx \<noteq> [])
    \<and> specific_validation strat cur req = Inr ()"
proof -
  obtain ti tr where tx: "tx = (ti, tr)" by force
  have lists: "get_indices (dict_get (operation req) VALUE) ISSUED = Inr ti" "get_indices (dict_get (operation req) VALUE) REVOKED = Inr tr"
    using assms(3) tx by (auto simp: entry_indices_fields)
  obtain tv where tv: "dict_get (operation req) VALUE = PyDict tv"
    using lists(1) by (cases "dict_get (operation req) VALUE") (auto simp: get_indices_def)
  obtain d where d: "cur = PyDict d"
    using assms(1,2) lists by (cases cur) (auto simp: strategy_validate_def Let_def rbind_Inr_iff reject_def split: if_splits)
  obtain v where v: "dict_get d VALUE = PyDict v"
    using assms(1,2) lists d by (cases "dict_get d VALUE") (auto simp: strategy_validate_def Let_def rbind_Inr_iff reject_def split: if_splits)
  show ?thesis
    using assms(1,2) lists d v tv tx
    by (auto simp: strategy_validate_def Let_def rbind_Inr_iff reject_def split: if_splits)
qed

text \<open>
  C5: A validated update of a revocation registry is recorded exactly: for both strategies, what \<open>write\<close>
  stores at the entry's path is an entry whose delta to the previous one (\<open>get_delta\<close>, the answer to
  GET_REVOC_REG_DELTA) is the issued and revoked indices of the transaction. In the sorted ordering this is for all
  indices; in the legacy ordering the indices of the entry and of the transaction must not be negative (with negative
  ones the legacy ordering may not return, \<open>legacy_negative_indices_hang\<close>).
\<close>

theorem revocation_delta_exact:
  assumes "strategy_validate strat cur req = Inr ()" "cur \<noteq> PyNone"
    and "complete_entry_txn t" "get_payload_data t = operation req"
    and "entry_indices cur = Inr c" "entry_indices (PyDict (operation req)) = Inr tx" "index_bound legacy c tx"
  shows "\<exists>entry accum_entry new. strategy_write strat ser legacy cur t =
      ret [(make_state_path_for_revoc_reg_entry (dict_get (get_payload_data t) REVOC_REG_DEF_ID),
            encode_state_value ser entry (opt_int_val (get_seq_no t)) (opt_int_val (get_txn_time t))),
           (make_state_path_for_revoc_reg_entry_accum (dict_get (get_payload_data t) REVOC_REG_DEF_ID), accum_entry)]
    \<and> entry_indices entry = Inr new \<and> strategy_get_delta strat new (Some c) = (set (fst tx), set (snd tx))"
proof -
  obtain d v where d: "cur = PyDict d" "dict_get d VALUE = PyDict v" "v \<noteq> []" "specific_validation strat cur req = Inr ()"
    using strategy_validate_update [OF assms(1,2,6)] by blast
  then have admitted: "admits strat c tx" unfolding admits_def using assms(5,6) by blast
  have "\<exists>new. stored_lists strat legacy c tx = ret new"
  proof (cases strat)
    case RevokedStrategy
    have "legacy \<longrightarrow> (\<forall>i\<in>set (snd c) \<union> set (fst tx) \<union> set (snd tx). 0 \<le> i)" using assms(7) unfolding index_bound_def by blast
    from result_indices_spec [OF this] RevokedStrategy show ?thesis by auto
  next
    case IssuedStrategy
    have "legacy \<longrightarrow> (\<forall>i\<in>set (fst c) \<union> set (snd tx) \<union> set (fst tx). 0 \<le> i)" using assms(7) unfolding index_bound_def by blast
    from result_indices_spec [OF this] IssuedStrategy show ?thesis by auto
  qed
  then obtain new where new: "stored_lists strat legacy c tx = ret new" by blast
  have "strategy_get_delta strat new (Some c) = (set (fst tx), set (snd tx))"
    by (rule delta_of_strategy_step [OF admitted]) (use new assms(7) in \<open>simp add: steps_to_def\<close>)
  moreover have "truthy (dict_get d VALUE)" using d by simp
  moreover have "entry_indices (PyDict (get_payload_data t)) = Inr tx" using assms(4,6) by simp
  ultimately show ?thesis
    using strategy_write_stores [OF assms(3,2) _ d(1) assms(5) _ new, of ser] by blast
qed

definition ex_entry :: pyval where
  "ex_entry = PyDict [(''revocRegDefId'', PyStr ''reg''),
     (''value'', PyDict [(''accum'', PyStr ''a1''), (''issued'', PyList []), (''revoked'', PyList [PyInt 3, PyInt 5])])]"

definition ex_operation :: dict where
  "ex_operation = [(''type'', PyStr ''114''), (''revocRegDefId'', PyStr ''reg''),
     (''value'', PyDict [(''prevAccum'', PyStr ''a1''), (''accum'', PyStr ''a2''), (''issued'', PyList [PyInt 3]),
       (''revoked'', PyList [PyInt 8])])]"

definition ex_entry_request :: request where
  "ex_entry_request = \<lparr>req_identifier = Some ''D1'', reqId = 1, operation = ex_operation, signature = Some ''sig'',
     signatures = None, endorser = None\<rparr>"

definition ex_entry_txn :: txn where
  "ex_entry_txn = \<lparr>get_type = REVOC_REG_ENTRY, get_payload_data = ex_operation, get_from = Some ''D1'', get_req_id = 1,
     get_seq_no = Some 20, get_txn_time = Some 1500000000\<rparr>"

lemma ex_entry_facts:
  "strategy_validate RevokedStrategy ex_entry ex_entry_request = Inr ()" "complete_entry_txn ex_entry_txn"
  "entry_indices ex_entry = Inr ([], [3, 5])" "entry_indices (PyDict (operation ex_entry_request)) = Inr ([3], [8])"
  by (simp_all add: strategy_validate_def ex_entry_def ex_entry_request_def ex_entry_txn_def ex_operation_def
      complete_entry_txn_def entry_indices_def get_indices_def dict_get_def dict_get_default_def dict_index_def
      revoked_specific_validation_def py_assert_def)

theorem revocation_delta_exact_witness:
  "\<exists>entry accum_entry new. strategy_write RevokedStrategy id True ex_entry ex_entry_txn =
      ret [(''5:reg'', encode_state_value id entry (PyInt 20) (PyInt 1500000000)), (''6:reg'', accum_entry)]
    \<and> entry_indices entry = Inr new \<and> strategy_get_delta RevokedStrategy new (Some ([], [3, 5])) = ({3}, {8})"
proof -
  have "index_bound True ([], [3, 5]) ([3], [8])" by (simp add: index_bound_def)
  from revocation_delta_exact [OF ex_entry_facts(1) _ ex_entry_facts(2) _ ex_entry_facts(3,4) this, of id]
  show ?thesis
    by (simp add: ex_entry_def ex_entry_txn_def ex_entry_request_def ex_operation_def path_defs dict_get_def)
qed

text \<open>
  Both ordering modes store the same set of indices, each index once, and the non-legacy list is sorted.
\<close>

theorem ordering_modes_agree:
  assumes "\<forall>i\<in>set indices \<union> set removed \<union> set added. 0 \<le> i"
  shows "\<exists>is js. result_indices True indices removed added = ret is \<and> result_indices False indices removed added = ret js
    \<and> distinct is \<and> distinct js \<and> set is = set js \<and> sorted js"
  using result_indices_spec [of True indices removed added] result_indices_spec [of False indices removed added] assms by auto

theorem ordering_modes_agree_witness:
  "\<exists>is js. result_indices True [9, 1, 17] [1] [4] = ret is \<and> result_indices False [9, 1, 17] [1] [4] = ret js
    \<and> distinct is \<and> distinct js \<and> set is = set js \<and> sorted js"
  by (rule ordering_modes_agree) simp

text \<open>
  C6: A request that passes validation against an existing entry continues its accumulator: it names the
  current accumulator as the previous one and brings a different one, its lists are disjoint and not both
  empty, and it toggles only indices whose recorded state is the opposite.
\<close>

theorem revocation_accumulator_chain:
  assumes "strategy_validate strat cur req = Inr ()" "cur \<noteq> PyNone"
    and "entry_indices cur = Inr c" "entry_indices (PyDict (operation req)) = Inr tx"
  shows "\<exists>d v tv. cur = PyDict d \<and> dict_get d VALUE = PyDict v \<and> dict_get (operation req) VALUE = PyDict tv
    \<and> dict_get tv PREV_ACCUM = dict_get v ACCUM \<and> dict_get tv ACCUM \<noteq> dict_get v ACCUM
    \<and> set (fst tx) \<inter> set (snd tx) = {} \<and> (fst tx \<noteq> [] \<or> snd tx \<noteq> [])
    \<and> (case strat of
         RevokedStrategy \<Rightarrow> set (fst tx) \<subseteq> set (snd c) \<and> set (snd tx) \<inter> set (snd c) = {}
       | IssuedStrategy \<Rightarrow> set (snd tx) \<subseteq> set (fst c) \<and> set (fst tx) \<inter> set (fst c) = {})"
proof -
  obtain d v tv where *: "cur = PyDict d" "dict_get d VALUE = PyDict v" "dict_get (operation req) VALUE = PyDict tv"
      "dict_get tv PREV_ACCUM = dict_get v ACCUM" "dict_get tv ACCUM \<noteq> dict_get tv PREV_ACCUM"
      "set (fst tx) \<inter> set (snd tx) = {}" "fst tx \<noteq> [] \<or> snd tx \<noteq> []" "specific_validation strat cur req = Inr ()"
    using strategy_validate_update [OF assms(1,2,4)] by blast
  have admitted: "admits strat c tx" unfolding admits_def using assms(3,4) *(8) by blast
  show ?thesis
  proof (intro exI conjI)
    show "case strat of RevokedStrategy \<Rightarrow> set (fst tx) \<subseteq> set (snd c) \<and> set (snd tx) \<inter> set (snd c) = {}
       | IssuedStrategy \<Rightarrow> set (snd tx) \<subseteq> set (fst c) \<and> set (fst tx) \<inter> set (fst c) = {}"
      using admitted admits_revoked [of c tx] admits_issued [of c tx] by (cases strat) auto
  qed (use * in auto)
qed

theorem revocation_accumulator_chain_witness:
  "\<exists>d v tv. ex_entry = PyDict d \<and> dict_get d VALUE = PyDict v \<and> dict_get (operation ex_entry_request) VALUE = PyDict tv
    \<and> dict_get tv PREV_ACCUM = dict_get v ACCUM \<and> dict_get tv ACCUM \<noteq> dict_get v ACCUM"
  using revocation_accumulator_chain [OF ex_entry_facts(1) _ ex_entry_facts(3,4)] by (fastforce simp: ex_entry_def)

text \<open>
  In legacy mode an entry with negative indices, which the message schema admits, makes the next write
  run forever.
\<close>

theorem legacy_negative_indices_hang: "result_indices True [0, -8] removed added = None"
  by (simp add: result_indices_def compat_negative_diverges)

end
