(* ===== verification/DomainHandlers.thy ===== *)
theory DomainHandlers
  imports NymHandler Revocation
begin

text \<open>
  The write handlers of the domain ledger for attributes, schemas, claim definitions and revocation
  registries (indy_node/server/request_handlers/domain_req_handlers). \<open>gfs\<close> is plenum's
  \<open>get_from_state\<close> on uncommitted data: value, sequence number and time at a path. \<open>wrv\<close> is the write
  request validator. A handler's \<open>update_state\<close> yields the writes it makes to the state.
\<close>

section \<open>ATTRIB\<close>

definition validate_attrib_keys :: "dict \<Rightarrow> bool" where
  "validate_attrib_keys opn = (length (filter (\<lambda>k. dict_in k opn) [RAW, ENC, HASH]) = 1)"

text \<open>\<open>len(v)\<close>\<close>

fun py_len :: "pyval \<Rightarrow> nat res" where
  "py_len (PyStr s) = Inr (length s)"
| "py_len (PyList xs) = Inr (length xs)"
| "py_len (PyDict d) = Inr (length d)"
| "py_len v = Inl (TypeError ''len'')"

text \<open>A \<open>JSONDecodeError\<close> is a \<open>ValueError\<close>; \<open>loads\<close> reports it under that name.\<close>

abbreviation JSONDecodeError :: exn where "JSONDecodeError \<equiv> ValueError ''JSONDecodeError''"

definition attr_static_validation :: "(pyval \<Rightarrow> pyval res) \<Rightarrow> request \<Rightarrow> unit res" where
  "attr_static_validation loads req =
     (if \<not> validate_attrib_keys (operation req)
      then refuse req (ATTRIB @ '' should have one and only one of raw, enc, hash'')
      else if \<not> dict_in RAW (operation req) then Inr ()
      else case loads (dict_get (operation req) RAW) of
             Inl e \<Rightarrow> if e = JSONDecodeError
                      then refuse req ''Attribute field must be valid JSON object when adding it as a raw field dest''
                      else Inl e
           | Inr get_key \<Rightarrow> rbind (py_len get_key) (\<lambda>n.
               if n = 0 then refuse req (dquoted RAW @ '' attribute field must contain non-empty JSON object '' @ TARGET_NYM) else Inr ()))"

text \<open>\<open>list(d.keys())[0]\<close>\<close>

fun first_key :: "pyval \<Rightarrow> pyval res" where
  "first_key (PyDict []) = Inl (IndexError ''list index out of range'')"
| "first_key (PyDict ((k, v) # d)) = Inr (PyStr k)"
| "first_key v = Inl (AttributeError ''keys'')"

text \<open>
  \<open>_get_attr\<close>: on a \<open>KeyError\<close> it returns four values where the caller unpacks three. \<open>attr_get\<close> is the
  read of the attribute store.
\<close>

definition get_attr ::
  "(string \<Rightarrow> string) \<Rightarrow> (string \<Rightarrow> (pyval \<times> pyval \<times> pyval) res) \<Rightarrow> (pyval \<Rightarrow> pyval res) \<Rightarrow> pyval \<Rightarrow> pyval \<Rightarrow> string
     \<Rightarrow> (pyval \<times> pyval \<times> pyval) res" where
  "get_attr sha gfs attr_get did key attr_type =
     rbind (py_assert (did \<noteq> PyNone)) (\<lambda>_. rbind (py_assert (key \<noteq> PyNone)) (\<lambda>_.
     rbind (if attr_type = HASH then Inr (py_str key) else encodable key) (\<lambda>name.
       case gfs (make_state_path_for_attr sha did name (attr_type = HASH)) of
         Inl (KeyError k) \<Rightarrow> Inl (ValueError ''too many values to unpack'')
       | Inl e \<Rightarrow> Inl e
       | Inr (hashed_val, lastSeqNo, lastUpdateTime) \<Rightarrow>
           if \<not> truthy hashed_val then Inr (hashed_val, lastSeqNo, lastUpdateTime)
           else rbind (attr_get hashed_val) (\<lambda>value. Inr (value, lastSeqNo, lastUpdateTime)))))"

text \<open>The first of raw, enc and hash that the operation has.\<close>

definition attr_field :: "dict \<Rightarrow> (string \<times> pyval) option" where
  "attr_field opn =
     (case filter (\<lambda>k. dict_in k opn) [RAW, ENC, HASH] of [] \<Rightarrow> None | k # _ \<Rightarrow> Some (k, dict_get opn k))"

definition attr_dynamic_validation ::
  "(string \<Rightarrow> string) \<Rightarrow> (pyval \<Rightarrow> pyval res) \<Rightarrow> (string \<Rightarrow> (pyval \<times> pyval \<times> pyval) res) \<Rightarrow> (pyval \<Rightarrow> pyval res)
     \<Rightarrow> ('s, 'b) kv_ops \<Rightarrow> 'b rlp_ops \<Rightarrow> 's \<Rightarrow> (request \<Rightarrow> auth_action list \<Rightarrow> bool option res) \<Rightarrow> request \<Rightarrow> unit res" where
  "attr_dynamic_validation sha loads gfs attr_get kv rlp s wrv req =
     rbind (if \<not> truthy (dict_get (operation req) TARGET_NYM) then Inr True
            else rbind (nym_key (dict_get (operation req) TARGET_NYM)) (\<lambda>nym. hasNym kv rlp s nym False)) (\<lambda>known.
     if \<not> known then refuse req ''dest should be added before adding attribute for it''
     else rbind (dict_index (operation req) TARGET_NYM) (\<lambda>dest. rbind (nym_key dest) (\<lambda>nym.
       rbind (getOwnerFor kv rlp s nym False) (\<lambda>owner.
       let is_owner = (owner = req_identifier req);
           field = (case attr_field (operation req) of None \<Rightarrow> PyNone | Some (k, v) \<Rightarrow> PyStr k);
           value = (case attr_field (operation req) of None \<Rightarrow> PyNone | Some (k, v) \<Rightarrow> v)
       in rbind (if field = PyStr RAW then rbind (loads value) first_key else Inr value) (\<lambda>key.
          rbind (get_attr sha gfs attr_get dest key (case field of PyStr k \<Rightarrow> k | _ \<Rightarrow> [])) (\<lambda>(old_value, seq_no, _).
          rbind (if seq_no \<noteq> PyNone
                 then wrv req [mk_AuthActionEdit ATTRIB field old_value value is_owner]
                 else wrv req [mk_AuthActionAdd ATTRIB field value is_owner]) (\<lambda>_. Inr ())))))))"

text \<open>\<open>update_state\<close>: the write to the state, and the one to the attribute store.\<close>

definition attr_update_state ::
  "(string \<Rightarrow> string) \<Rightarrow> (pyval \<Rightarrow> string) \<Rightarrow> (pyval \<Rightarrow> 'b) \<Rightarrow> (pyval \<Rightarrow> pyval res) \<Rightarrow> (pyval \<Rightarrow> string) \<Rightarrow> txn
     \<Rightarrow> ((string \<times> 'b) \<times> (string \<times> pyval) option) res" where
  "attr_update_state sha ser_text ser loads dumps t =
     rbind (prepare_attr_for_state sha ser_text ser loads dumps t) (\<lambda>a.
       Inr ((as_path a, as_value_bytes a), if as_type a \<noteq> HASH then Some (as_hashed_value a, as_value a) else None))"

text \<open>What goes into the ledger: the hash in place of raw or encrypted data.\<close>

definition transform_txn_for_ledger ::
  "(string \<Rightarrow> string) \<Rightarrow> (pyval \<Rightarrow> string) \<Rightarrow> (pyval \<Rightarrow> pyval res) \<Rightarrow> (pyval \<Rightarrow> string) \<Rightarrow> txn \<Rightarrow> txn res" where
  "transform_txn_for_ledger sha ser_text loads dumps t =
     rbind (parse_attr_txn loads dumps (get_payload_data t)) (\<lambda>(attr_type, _, value).
       Inr (if attr_type \<in> {RAW, ENC}
            then t\<lparr>get_payload_data := dict_set (get_payload_data t) attr_type
                     (PyStr (if truthy value then hash_of sha ser_text value else []))\<rparr>
            else t))"

section \<open>SCHEMA\<close>

definition schema_dynamic_validation ::
  "(string \<Rightarrow> (pyval \<times> pyval \<times> pyval) res) \<Rightarrow> (request \<Rightarrow> auth_action list \<Rightarrow> bool option res) \<Rightarrow> request \<Rightarrow> unit res" where
  "schema_dynamic_validation gfs wrv req =
     rbind (get_write_schema_name req) (\<lambda>schema_name. rbind (get_write_schema_version req) (\<lambda>schema_version.
     rbind (gfs (make_state_path_for_schema (did_val (req_identifier req)) schema_name schema_version)) (\<lambda>(schema, _, _).
     rbind (if truthy schema
            then wrv req [mk_AuthActionEdit SCHEMA (PyStr ''*'') (PyStr ''*'') (PyStr ''*'') True]
            else wrv req [mk_AuthActionAdd SCHEMA (PyStr ''*'') (PyStr ''*'') True]) (\<lambda>_. Inr ()))))"

definition schema_update_state :: "(pyval \<Rightarrow> 'b) \<Rightarrow> txn \<Rightarrow> (string \<times> 'b) res" where
  "schema_update_state ser t = prepare_schema_for_state ser t"

section \<open>CLAIM_DEF\<close>

text \<open>
  \<open>by_seq_no\<close> is the ledger's \<open>get_by_seq_no_uncommitted\<close>, of which the handler reads the type; a
  \<open>KeyError\<close> for a number that is not there.
\<close>

definition claim_def_dynamic_validation ::
  "(pyval \<Rightarrow> string res) \<Rightarrow> (string \<Rightarrow> (pyval \<times> pyval \<times> pyval) res) \<Rightarrow> (request \<Rightarrow> auth_action list \<Rightarrow> bool option res)
     \<Rightarrow> request \<Rightarrow> unit res" where
  "claim_def_dynamic_validation by_seq_no gfs wrv req =
     rbind (dict_index (operation req) CLAIM_DEF_SCHEMA_REF) (\<lambda>ref.
     case by_seq_no ref of
       Inl (KeyError k) \<Rightarrow> refuse req (''Mentioned seqNo ('' @ py_str ref @ '') doesn'' @ [CHR 0x27] @ ''t exist.'')
     | Inl e \<Rightarrow> Inl e
     | Inr typ \<Rightarrow>
         if typ \<noteq> SCHEMA
         then refuse req (''Mentioned seqNo ('' @ py_str ref @ '') isn'' @ [CHR 0x27] @ ''t seqNo of the schema.'')
         else rbind (get_write_claim_def_schema_ref req) (\<lambda>schema_ref.
              rbind (gfs (make_state_path_for_claim_def (did_val (req_identifier req)) schema_ref
                           (get_write_claim_def_signature_type req) (get_write_claim_def_tag req))) (\<lambda>(claim_def, _, _).
              rbind (if truthy claim_def
                     then wrv req [mk_AuthActionEdit CLAIM_DEF (PyStr ''*'') (PyStr ''*'') (PyStr ''*'') True]
                     else wrv req [mk_AuthActionAdd CLAIM_DEF (PyStr ''*'') (PyStr ''*'') True]) (\<lambda>_. Inr ()))))"

definition claim_def_update_state :: "(pyval \<Rightarrow> 'b) \<Rightarrow> txn \<Rightarrow> (string \<times> 'b) res" where
  "claim_def_update_state ser t = prepare_claim_def_for_state ser t"

section \<open>REVOC_REG_DEF\<close>

definition revoc_def_static_validation :: "request \<Rightarrow> unit res" where
  "revoc_def_static_validation req =
     (case dict_get (operation req) CRED_DEF_ID of
        PyStr cred_def_id \<Rightarrow>
          (let tags = py_split cred_def_id '':''
           in if length tags \<noteq> 4 \<and> length tags \<noteq> 5
              then refuse req (''Format of '' @ CRED_DEF_ID @ '' field is not acceptable. Expected: ''
                     @ squoted ''did:marker:signature_type:schema_ref'' @ '' or '' @ squoted ''did:marker:signature_type:schema_ref:tag'')
              else Inr ())
      | v \<Rightarrow> Inl (AttributeError ''split''))"

definition revoc_def_dynamic_validation ::
  "(string \<Rightarrow> (pyval \<times> pyval \<times> pyval) res) \<Rightarrow> (request \<Rightarrow> auth_action list \<Rightarrow> bool option res) \<Rightarrow> request \<Rightarrow> unit res" where
  "revoc_def_dynamic_validation gfs wrv req =
     (let cred_def_id = dict_get (operation req) CRED_DEF_ID; revoc_def_type = dict_get (operation req) REVOC_TYPE;
          revoc_def_tag = dict_get (operation req) TAG
      in rbind (py_assert (truthy cred_def_id)) (\<lambda>_. rbind (py_assert (truthy revoc_def_tag)) (\<lambda>_.
         rbind (py_assert (truthy revoc_def_type)) (\<lambda>_.
         rbind (gfs (make_state_path_for_revoc_def (did_val (req_identifier req)) cred_def_id revoc_def_type revoc_def_tag))
           (\<lambda>(revoc_def, _, _).
         rbind (if revoc_def = PyNone
                then wrv req [mk_AuthActionAdd REVOC_REG_DEF (PyStr ''*'') (PyStr ''*'') True]
                else wrv req [mk_AuthActionEdit REVOC_REG_DEF (PyStr ''*'') (PyStr ''*'') (PyStr ''*'') True]) (\<lambda>_.
         rbind (gfs (py_str cred_def_id)) (\<lambda>(cred_def, _, _).
           if cred_def = PyNone then refuse req (''There is no any CRED_DEF by path: '' @ py_str cred_def_id)
           else Inr ())))))))"

definition revoc_def_update_state :: "(pyval \<Rightarrow> 'b) \<Rightarrow> txn \<Rightarrow> (string \<times> 'b) res" where
  "revoc_def_update_state ser t = prepare_revoc_def_for_state ser t"

section \<open>REVOC_REG_ENTRY\<close>

text \<open>
  \<open>use_legacy_sort\<close>: the flag's state value at the time of the transaction (argument \<open>flag_value\<close>) can
  only switch the legacy order off.
\<close>

definition use_legacy_sort :: "bool \<Rightarrow> pyval \<Rightarrow> bool" where
  "use_legacy_sort legacy_sort_config flag_value =
     (case flag_value of
        PyStr v \<Rightarrow> if v \<noteq> [] \<and> py_lower v = ''false'' then False else legacy_sort_config
      | _ \<Rightarrow> legacy_sort_config)"

text \<open>\<open>_get_revoc_def_entry\<close>: as in the attribute handler, a \<open>KeyError\<close> ends in a failed unpacking.\<close>

definition get_current_revoc_entry_and_revoc_def ::
  "(string \<Rightarrow> (pyval \<times> pyval \<times> pyval) res) \<Rightarrow> string option \<Rightarrow> pyval \<Rightarrow> int \<Rightarrow> (pyval \<times> pyval) res" where
  "get_current_revoc_entry_and_revoc_def gfs author_did revoc_reg_def_id req_id =
     rbind (py_assert (truthy revoc_reg_def_id)) (\<lambda>_.
     rbind (case gfs (make_state_path_for_revoc_reg_entry revoc_reg_def_id) of
              Inl (KeyError k) \<Rightarrow> Inl (ValueError ''too many values to unpack'')
            | r \<Rightarrow> r) (\<lambda>(current_entry, _, _).
     rbind (gfs (py_str revoc_reg_def_id)) (\<lambda>(revoc_def, _, _).
       if revoc_def = PyNone
       then Inl (InvalidClientRequest author_did req_id (''There is no any REVOC_REG_DEF by path: '' @ py_str revoc_reg_def_id))
       else Inr (current_entry, revoc_def))))"

text \<open>\<open>get_revocation_strategy(revoc_def[VALUE][ISSUANCE_TYPE])\<close>, called on the class or on \<open>None\<close>.\<close>

definition strategy_of :: "pyval \<Rightarrow> strategy res" where
  "strategy_of revoc_def =
     rbind (py_index revoc_def VALUE) (\<lambda>v. rbind (py_index v ISSUANCE_TYPE) (\<lambda>typ.
       case get_revocation_strategy typ of None \<Rightarrow> Inl (TypeError ''not callable'') | Some st \<Rightarrow> Inr st))"

definition revoc_entry_dynamic_validation ::
  "(string \<Rightarrow> (pyval \<times> pyval \<times> pyval) res) \<Rightarrow> (request \<Rightarrow> auth_action list \<Rightarrow> bool option res) \<Rightarrow> request \<Rightarrow> unit res" where
  "revoc_entry_dynamic_validation gfs wrv req =
     rbind (dict_index (operation req) REVOC_REG_DEF_ID) (\<lambda>rev_reg_id.
     rbind (get_current_revoc_entry_and_revoc_def gfs (req_identifier req) rev_reg_id (reqId req)) (\<lambda>(current_entry, revoc_def).
     case rev_reg_id of
       PyStr rev_reg_tags \<Rightarrow>
         (let is_owner = (Some (py_first_field (CHR '':'') rev_reg_tags) = req_identifier req)
          in rbind (if truthy current_entry
                    then wrv req [mk_AuthActionEdit REVOC_REG_ENTRY (PyStr ''*'') (PyStr ''*'') (PyStr ''*'') is_owner]
                    else wrv req [mk_AuthActionAdd REVOC_REG_ENTRY (PyStr ''*'') (PyStr ''*'') is_owner]) (\<lambda>_.
             rbind (strategy_of revoc_def) (\<lambda>strat. strategy_validate strat current_entry req)))
     | _ \<Rightarrow> Inl (AttributeError ''split'')))"

definition revoc_entry_update_state ::
  "(pyval \<Rightarrow> 'b) \<Rightarrow> (string \<Rightarrow> (pyval \<times> pyval \<times> pyval) res) \<Rightarrow> bool \<Rightarrow> pyval \<Rightarrow> txn \<Rightarrow> (string \<times> 'b) list comp" where
  "revoc_entry_update_state ser gfs legacy_sort_config flag_value t =
     cbind (lift_res (rbind (dict_index (get_payload_data t) REVOC_REG_DEF_ID) (\<lambda>rid.
       rbind (get_current_revoc_entry_and_revoc_def gfs (get_from t) rid (get_req_id t)) (\<lambda>(current_entry, revoc_def).
       rbind (strategy_of revoc_def) (\<lambda>strat. Inr (current_entry, strat)))))) (\<lambda>(current_entry, strat).
         strategy_write strat ser (use_legacy_sort legacy_sort_config flag_value) current_entry t)"

end
