(* ===== verification/ConfigHandlers.thy ===== *)
theory ConfigHandlers
  imports DomainHandlers
begin

text \<open>
  The write handlers of the config ledger except pool upgrades (request_handlers/config_req_handlers), with
  the helper for authorization rules, and the pool configuration (server/pool_config.py). \<open>wrv\<close> is the write
  request validator; an \<open>update_state\<close> yields the writes it makes to the config state.
\<close>

abbreviation CONSTRAINT :: string where "CONSTRAINT \<equiv> ''constraint''"
abbreviation OLD_VALUE :: string where "OLD_VALUE \<equiv> ''old_value''"
abbreviation NEW_VALUE :: string where "NEW_VALUE \<equiv> ''new_value''"
abbreviation AUTH_ACTION :: string where "AUTH_ACTION \<equiv> ''auth_action''"
abbreviation AUTH_TYPE :: string where "AUTH_TYPE \<equiv> ''auth_type''"
abbreviation FIELD :: string where "FIELD \<equiv> ''field''"
abbreviation RULES :: string where "RULES \<equiv> ''rules''"
abbreviation ACTION :: string where "ACTION \<equiv> ''action''"
abbreviation FLAG_NAME :: string where "FLAG_NAME \<equiv> ''name''"
abbreviation FLAG_VALUE :: string where "FLAG_VALUE \<equiv> ''value''"
abbreviation MARKER_FLAG :: string where "MARKER_FLAG \<equiv> ''2''"
abbreviation LAST_SEQ_NO :: string where "LAST_SEQ_NO \<equiv> ''lsn''"
abbreviation LAST_UPDATE_TIME :: string where "LAST_UPDATE_TIME \<equiv> ''lut''"
abbreviation WRITES :: string where "WRITES \<equiv> ''writes''"

type_synonym validator = "request \<Rightarrow> auth_action list \<Rightarrow> bool option res"

text \<open>A call of the validator whose result is not used.\<close>

definition authorize_with :: "validator \<Rightarrow> request \<Rightarrow> auth_action \<Rightarrow> unit res" where
  "authorize_with wrv req a = rbind (wrv req [a]) (\<lambda>_. Inr ())"

section \<open>Authorization rules\<close>

text \<open>The id is a join of texts: an \<open>auth_type\<close> that is not a text is a \<open>TypeError\<close>.\<close>

definition get_auth_key :: "dict \<Rightarrow> string res" where
  "get_auth_key opn =
     (let action = dict_get opn AUTH_ACTION; old_value = dict_get opn OLD_VALUE; new_value = dict_get opn NEW_VALUE;
          field = dict_get opn FIELD
      in case dict_get opn AUTH_TYPE of
           PyStr auth_type \<Rightarrow>
             Inr (get_action_id (if action = PyStr EDIT_PREFIX then mk_AuthActionEdit auth_type field old_value new_value True
                                 else mk_AuthActionAdd auth_type field new_value True))
         | _ \<Rightarrow> Inl (TypeError ''join''))"

definition get_auth_constraint :: "dict \<Rightarrow> constraint res" where
  "get_auth_constraint opn = create_constraint (dict_get opn CONSTRAINT)"

definition check_auth_key :: "dict \<Rightarrow> request \<Rightarrow> (string \<times> constraint) list \<Rightarrow> unit res" where
  "check_auth_key opn req amap =
     (let action = dict_get opn AUTH_ACTION
      in if \<not> dict_in OLD_VALUE opn \<and> action = PyStr EDIT_PREFIX
         then refuse req (''Transaction for change authentication rule for '' @ AUTH_ACTION @ ''='' @ EDIT_PREFIX
                @ '' must contain field '' @ OLD_VALUE)
         else if dict_in OLD_VALUE opn \<and> action = PyStr ADD_PREFIX
         then refuse req (''Transaction for change authentication rule for '' @ AUTH_ACTION @ ''='' @ ADD_PREFIX
                @ '' must not contain field '' @ OLD_VALUE)
         else rbind (get_auth_key opn) (\<lambda>auth_key.
                if map_of amap auth_key = None
                then refuse req (''Unknown authorization rule: key '' @ squoted auth_key @ '' is not found in authorization map.'')
                else Inr ()))"

text \<open>\<open>_static_validation_for_rule\<close>: only \<open>ValueError\<close> and \<open>KeyError\<close> become a refusal.\<close>

definition static_validation_for_rule :: "dict \<Rightarrow> request \<Rightarrow> (string \<times> constraint) list \<Rightarrow> unit res" where
  "static_validation_for_rule opn req amap =
     rbind (case create_constraint (dict_get opn CONSTRAINT) of
              Inl (ValueError m) \<Rightarrow> refuse req m
            | Inl (KeyError k) \<Rightarrow> refuse req (repr_str k)
            | Inl e \<Rightarrow> Inl e
            | Inr c \<Rightarrow> Inr ())
       (\<lambda>_. check_auth_key opn req amap)"

definition update_auth_constraint :: "(pyval \<Rightarrow> 'b) \<Rightarrow> string \<Rightarrow> constraint \<Rightarrow> string \<times> 'b" where
  "update_auth_constraint ser auth_key c = (make_state_path_for_auth_rule auth_key, serialize_constraint ser (Some c))"

definition auth_rule_static_validation :: "(string \<times> constraint) list \<Rightarrow> request \<Rightarrow> unit res" where
  "auth_rule_static_validation amap req = static_validation_for_rule (operation req) req amap"

definition auth_rule_dynamic_validation :: "validator \<Rightarrow> request \<Rightarrow> unit res" where
  "auth_rule_dynamic_validation wrv req =
     authorize_with wrv req (mk_AuthActionEdit AUTH_RULE (PyStr ''*'') (PyStr ''*'') (PyStr ''*'') True)"

text \<open>What one rule of a transaction writes.\<close>

definition rule_write :: "(pyval \<Rightarrow> 'b) \<Rightarrow> dict \<Rightarrow> (string \<times> 'b) res" where
  "rule_write ser rule =
     rbind (get_auth_constraint rule) (\<lambda>c. rbind (get_auth_key rule) (\<lambda>auth_key. Inr (update_auth_constraint ser auth_key c)))"

definition auth_rule_update_state :: "(pyval \<Rightarrow> 'b) \<Rightarrow> txn \<Rightarrow> (string \<times> 'b) res" where
  "auth_rule_update_state ser t = rule_write ser (get_payload_data t)"

text \<open>The handler of version 1.9.1, in which a role constraint always has the field \<open>off_ledger_signature\<close>.\<close>

function set_off_ledger :: "pyval \<Rightarrow> pyval res"
  and set_off_ledger_all :: "pyval list \<Rightarrow> pyval list res" where
  "set_off_ledger v =
     rbind (py_index v CONSTRAINT_ID) (\<lambda>cid.
       case v of
         PyDict d \<Rightarrow>
           (let d' = (if cid = PyStr ROLE_CONSTRAINT_ID \<and> \<not> truthy (dict_get_default d OFF_LEDGER_SIGNATURE (PyBool False))
                      then dict_set d OFF_LEDGER_SIGNATURE (PyBool False) else d)
            in case map_of d AUTH_CONSTRAINTS of
                 None \<Rightarrow> Inr (PyDict d')
               | Some (PyList xs) \<Rightarrow> rbind (set_off_ledger_all xs) (\<lambda>ys. Inr (PyDict (dict_set d' AUTH_CONSTRAINTS (PyList ys))))
               | Some u \<Rightarrow> Inl (TypeError ''not iterable''))
       | _ \<Rightarrow> Inl (TypeError CONSTRAINT_ID))"
| "set_off_ledger_all [] = Inr []"
| "set_off_ledger_all (x # xs) = rbind (set_off_ledger x) (\<lambda>y. rbind (set_off_ledger_all xs) (\<lambda>ys. Inr (y # ys)))"
  by pat_completeness auto

termination
  by (relation "measure (\<lambda>x. case x of Inl v \<Rightarrow> 2 * size v | Inr vs \<Rightarrow> Suc (2 * size_list size vs))")
    (auto dest!: size_map_of)

declare set_off_ledger.simps [simp del]

definition auth_rule_191_update_state :: "(pyval \<Rightarrow> 'b) \<Rightarrow> txn \<Rightarrow> (string \<times> 'b) res" where
  "auth_rule_191_update_state ser t =
     rbind (get_auth_constraint (get_payload_data t)) (\<lambda>c. rbind (get_auth_key (get_payload_data t)) (\<lambda>auth_key.
     rbind (set_off_ledger (PyDict (as_dict c))) (\<lambda>v. Inr (make_state_path_for_auth_rule auth_key, ser v))))"

text \<open>AUTH_RULES: a list of rules. By the message schema the value is a list of dictionaries.\<close>

fun each_rule :: "(dict \<Rightarrow> 'a res) \<Rightarrow> pyval list \<Rightarrow> 'a list res" where
  "each_rule f [] = Inr []"
| "each_rule f (PyDict rule # rules) = rbind (f rule) (\<lambda>x. rbind (each_rule f rules) (\<lambda>xs. Inr (x # xs)))"
| "each_rule f (v # rules) = Inl (AttributeError ''get'')"

fun iter_list :: "pyval \<Rightarrow> pyval list res" where
  "iter_list (PyList xs) = Inr xs"
| "iter_list v = Inl (TypeError ''not iterable'')"

definition auth_rules_static_validation :: "(string \<times> constraint) list \<Rightarrow> request \<Rightarrow> unit res" where
  "auth_rules_static_validation amap req =
     rbind (iter_list (dict_get (operation req) RULES)) (\<lambda>rules.
     rbind (each_rule (\<lambda>rule. static_validation_for_rule rule req amap) rules) (\<lambda>_. Inr ()))"

definition auth_rules_dynamic_validation :: "validator \<Rightarrow> request \<Rightarrow> unit res" where
  "auth_rules_dynamic_validation wrv req =
     authorize_with wrv req (mk_AuthActionEdit AUTH_RULES (PyStr ''*'') (PyStr ''*'') (PyStr ''*'') True)"

definition auth_rules_update_state :: "(pyval \<Rightarrow> 'b) \<Rightarrow> txn \<Rightarrow> (string \<times> 'b) list res" where
  "auth_rules_update_state ser t =
     rbind (iter_list (dict_get_default (get_payload_data t) RULES (PyList []))) (each_rule (rule_write ser))"

section \<open>Flags\<close>

definition flag_static_validation :: "request \<Rightarrow> unit res" where
  "flag_static_validation req =
     (let name = dict_get (operation req) FLAG_NAME; v = dict_get (operation req) FLAG_VALUE
      in if \<not> truthy name then refuse req ''Flag name is required''
         else case name of
                PyStr _ \<Rightarrow> (case v of PyStr _ \<Rightarrow> Inr () | PyNone \<Rightarrow> Inr ()
                            | _ \<Rightarrow> refuse req ''Flag value must be of type string or None'')
              | _ \<Rightarrow> refuse req ''Flag name must be of type string'')"

definition flag_dynamic_validation :: "validator \<Rightarrow> request \<Rightarrow> unit res" where
  "flag_dynamic_validation wrv req = authorize_with wrv req (mk_AuthActionEdit FLAG PyNone PyNone PyNone True)"

definition make_state_path_for_flag :: "pyval \<Rightarrow> string" where [path_defs]:
  "make_state_path_for_flag key = MARKER_FLAG @ '':'' @ py_str key"

definition flag_update_state :: "(pyval \<Rightarrow> 'b) \<Rightarrow> txn \<Rightarrow> dict \<times> string \<times> 'b" where
  "flag_update_state ser t =
     (let key = dict_get (get_payload_data t) FLAG_NAME;
          state = [(FLAG_VALUE, dict_get (get_payload_data t) FLAG_VALUE), (LAST_SEQ_NO, opt_int_val (get_seq_no t)),
                   (LAST_UPDATE_TIME, opt_int_val (get_txn_time t))]
      in (state, make_state_path_for_flag key, ser (PyDict state)))"

definition flag_state_value :: "pyval \<Rightarrow> pyval res" where
  "flag_state_value state_raw = (if state_raw = PyNone then Inr PyNone else py_get state_raw FLAG_VALUE)"

section \<open>Pool configuration\<close>

record PoolConfig =
  pc_writes :: pyval

definition new_pool_config :: PoolConfig where
  "new_pool_config = \<lparr>pc_writes = PyBool True\<rparr>"

definition isWritable :: "PoolConfig \<Rightarrow> pyval" where
  "isWritable pc = pc_writes pc"

definition handleConfigTxn :: "PoolConfig \<Rightarrow> txn \<Rightarrow> PoolConfig res" where
  "handleConfigTxn pc t =
     (if get_type t = POOL_CONFIG
      then rbind (dict_index (get_payload_data t) WRITES) (\<lambda>w. Inr (pc\<lparr>pc_writes := w\<rparr>))
      else Inr pc)"

fun processLedger :: "PoolConfig \<Rightarrow> (nat \<times> txn) list \<Rightarrow> PoolConfig res" where
  "processLedger pc [] = Inr pc"
| "processLedger pc ((n, t) # ts) =
     rbind (if get_type t = POOL_CONFIG then handleConfigTxn pc t else Inr pc) (\<lambda>pc'. processLedger pc' ts)"

definition pool_config_dynamic_validation :: "validator \<Rightarrow> request \<Rightarrow> unit res" where
  "pool_config_dynamic_validation wrv req =
     authorize_with wrv req (mk_AuthActionEdit POOL_CONFIG (PyStr ACTION) (PyStr ''*'') (PyStr ''*'') True)"

section \<open>Transaction author agreement, frozen ledgers, node upgrades\<close>

text \<open>The \<open>authorize\<close> hooks of handlers whose other parts are plenum's; \<open>taa_digest_of\<close> reads plenum's record.\<close>

definition taa_authorize :: "(pyval \<Rightarrow> string option) \<Rightarrow> validator \<Rightarrow> request \<Rightarrow> unit res" where
  "taa_authorize taa_digest_of wrv req =
     (if taa_digest_of (dict_get (operation req) ''version'') = None
      then authorize_with wrv req (mk_AuthActionAdd TXN_AUTHOR_AGREEMENT (PyStr ''*'') (PyStr ''*'') True)
      else authorize_with wrv req (mk_AuthActionEdit TXN_AUTHOR_AGREEMENT (PyStr ''*'') (PyStr ''*'') (PyStr ''*'') True))"

definition taa_aml_authorize :: "validator \<Rightarrow> request \<Rightarrow> unit res" where
  "taa_aml_authorize wrv req =
     authorize_with wrv req (mk_AuthActionAdd TXN_AUTHOR_AGREEMENT_AML (PyStr ''*'') (PyStr ''*'') True)"

definition taa_disable_authorize :: "validator \<Rightarrow> request \<Rightarrow> unit res" where
  "taa_disable_authorize wrv req =
     authorize_with wrv req (mk_AuthActionAdd TXN_AUTHOR_AGREEMENT_DISABLE (PyStr ''*'') (PyStr ''*'') True)"

definition ledgers_freeze_authorize :: "validator \<Rightarrow> request \<Rightarrow> unit res" where
  "ledgers_freeze_authorize wrv req =
     authorize_with wrv req (mk_AuthActionEdit LEDGERS_FREEZE (PyStr ''*'') (PyStr ''*'') (PyStr ''*'') True)"

text \<open>Version 1 of the agreement handler: digest, latest and version records, with plenum's path functions.\<close>

record 'b taa_helper =
  taa_digest :: "pyval \<Rightarrow> pyval \<Rightarrow> string"
  state_path_taa_digest :: "string \<Rightarrow> string"
  state_path_taa_latest :: string
  state_path_taa_version :: "pyval \<Rightarrow> string"
  digest_bytes :: "string \<Rightarrow> 'b"

definition taa_v1_update_state :: "'b taa_helper \<Rightarrow> (pyval \<Rightarrow> 'b) \<Rightarrow> txn \<Rightarrow> (string \<times> 'b) list res" where
  "taa_v1_update_state h ser t =
     (let text = dict_get (get_payload_data t) ''text''
      in rbind (dict_index (get_payload_data t) ''version'') (\<lambda>version.
         let digest = taa_digest h text version;
             data = encode_state_value ser (PyDict [(''text'', text), (''version'', version)])
                      (opt_int_val (get_seq_no t)) (opt_int_val (get_txn_time t))
         in Inr [(state_path_taa_digest h digest, data), (state_path_taa_latest h, digest_bytes h digest),
                 (state_path_taa_version h version, digest_bytes h digest)]))"

definition node_upgrade_static_validation :: "request \<Rightarrow> unit res" where
  "node_upgrade_static_validation req = refuse req ''External NODE_UPGRADE requests are not allowed''"

end
