(* ===== verification/RichSchema.thy ===== *)
theory RichSchema
  imports ConfigHandlers
begin

text \<open>
  The handlers of rich schema objects (domain_req_handlers/rich_schema) and the two read handlers for them
  (read_req_handlers/rich_schema). The abstract handler class becomes a datatype of the six concrete handlers
  and a function per overridden method. \<open>loads\<close> is the JSON parser of the serializer, which raises a
  \<open>ValueError\<close> on bad input, \<open>gfs\<close> plenum's \<open>get_from_state\<close> on the key as it is given, \<open>state_get\<close> the plain read of
  the state.
\<close>

abbreviation RS_ID :: string where "RS_ID \<equiv> ''id''"
abbreviation RS_TYPE :: string where "RS_TYPE \<equiv> ''rsType''"
abbreviation RS_NAME :: string where "RS_NAME \<equiv> ''rsName''"
abbreviation RS_VERSION :: string where "RS_VERSION \<equiv> ''rsVersion''"
abbreviation RS_CONTENT :: string where "RS_CONTENT \<equiv> ''content''"
abbreviation JSON_LD_CONTEXT_FIELD :: string where "JSON_LD_CONTEXT_FIELD \<equiv> ''@context''"
abbreviation JSON_LD_ID_FIELD :: string where "JSON_LD_ID_FIELD \<equiv> ''@id''"
abbreviation JSON_LD_TYPE_FIELD :: string where "JSON_LD_TYPE_FIELD \<equiv> ''@type''"
abbreviation RS_SCHEMA_TYPE_VALUE :: string where "RS_SCHEMA_TYPE_VALUE \<equiv> ''sch''"
abbreviation RS_ENCODING_TYPE_VALUE :: string where "RS_ENCODING_TYPE_VALUE \<equiv> ''enc''"
abbreviation RS_MAPPING_TYPE_VALUE :: string where "RS_MAPPING_TYPE_VALUE \<equiv> ''map''"
abbreviation RS_CRED_DEF_SIG_TYPE :: string where "RS_CRED_DEF_SIG_TYPE \<equiv> ''signatureType''"
abbreviation RS_CRED_DEF_MAPPING :: string where "RS_CRED_DEF_MAPPING \<equiv> ''mapping''"
abbreviation RS_CRED_DEF_SCHEMA :: string where "RS_CRED_DEF_SCHEMA \<equiv> ''schema''"
abbreviation RS_CRED_DEF_PUB_KEY :: string where "RS_CRED_DEF_PUB_KEY \<equiv> ''publicKey''"
abbreviation RS_ENC_INPUT :: string where "RS_ENC_INPUT \<equiv> ''input''"
abbreviation RS_ENC_OUTPUT :: string where "RS_ENC_OUTPUT \<equiv> ''output''"
abbreviation RS_ENC_ALGORITHM :: string where "RS_ENC_ALGORITHM \<equiv> ''algorithm''"
abbreviation RS_ENC_TEST_VECS :: string where "RS_ENC_TEST_VECS \<equiv> ''testVectors''"
abbreviation RS_MAPPING_ATTRIBUTES :: string where "RS_MAPPING_ATTRIBUTES \<equiv> ''attributes''"
abbreviation RS_MAPPING_ISSUER :: string where "RS_MAPPING_ISSUER \<equiv> ''issuer''"
abbreviation RS_MAPPING_ISSUANCE_DATE :: string where "RS_MAPPING_ISSUANCE_DATE \<equiv> ''issuanceDate''"
abbreviation RS_MAPPING_SCHEMA :: string where "RS_MAPPING_SCHEMA \<equiv> ''schema''"
abbreviation RS_MAPPING_ENC :: string where "RS_MAPPING_ENC \<equiv> ''enc''"
abbreviation RS_MAPPING_RANK :: string where "RS_MAPPING_RANK \<equiv> ''rank''"

datatype rs_handler =
    JsonLdContextHandler
  | RichSchemaHandler
  | RichSchemaEncodingHandler
  | RichSchemaMappingHandler
  | RichSchemaCredDefHandler
  | RichSchemaPresDefHandler

fun rs_txn_type :: "rs_handler \<Rightarrow> string" where
  "rs_txn_type JsonLdContextHandler = JSON_LD_CONTEXT"
| "rs_txn_type RichSchemaHandler = RICH_SCHEMA"
| "rs_txn_type RichSchemaEncodingHandler = RICH_SCHEMA_ENCODING"
| "rs_txn_type RichSchemaMappingHandler = RICH_SCHEMA_MAPPING"
| "rs_txn_type RichSchemaCredDefHandler = RICH_SCHEMA_CRED_DEF"
| "rs_txn_type RichSchemaPresDefHandler = RICH_SCHEMA_PRES_DEF"

fun is_json_ld_content :: "rs_handler \<Rightarrow> bool" where
  "is_json_ld_content JsonLdContextHandler = False"
| "is_json_ld_content RichSchemaHandler = True"
| "is_json_ld_content RichSchemaEncodingHandler = False"
| "is_json_ld_content RichSchemaMappingHandler = True"
| "is_json_ld_content RichSchemaCredDefHandler = False"
| "is_json_ld_content RichSchemaPresDefHandler = True"

section \<open>Static validation\<close>

text \<open>The fields of a list whose value in a dictionary tests false.\<close>

fun missing_fields :: "pyval \<Rightarrow> string list \<Rightarrow> string list res" where
  "missing_fields content [] = Inr []"
| "missing_fields content (field # fs) =
     rbind (py_get content field) (\<lambda>v. rbind (missing_fields content fs) (\<lambda>ms.
       Inr (if truthy v then ms else squoted field # ms)))"

text \<open>The regular expression \<open>URI_REGEX\<close>: a word, a colon, and an address after two slashes or two words with a colon.\<close>

definition word_char :: "char \<Rightarrow> bool" where
  "word_char c \<longleftrightarrow> (let n = (of_char c :: nat) in
     48 \<le> n \<and> n \<le> 57 \<or> 65 \<le> n \<and> n \<le> 90 \<or> n = 95 \<or> 97 \<le> n \<and> n \<le> 122
     \<or> n \<in> {170, 178, 179, 181, 185, 186, 188, 189, 190} \<or> 192 \<le> n \<and> n \<noteq> 215 \<and> n \<noteq> 247)"

definition after_word :: "string \<Rightarrow> string option" where
  "after_word s = (if s \<noteq> [] \<and> word_char (hd s) then Some (dropWhile word_char s) else None)"

definition uri_address :: "string \<Rightarrow> bool" where
  "uri_address s \<longleftrightarrow> take 2 s = ''//'' \<and> drop 2 s \<noteq> [] \<and> (hd (drop 2 s) = CHR ''.'' \<or> word_char (hd (drop 2 s)))"

definition uri_method_id :: "string \<Rightarrow> bool" where
  "uri_method_id s \<longleftrightarrow> (case after_word s of Some (c # r) \<Rightarrow> c = CHR '':'' \<and> after_word r \<noteq> None | _ \<Rightarrow> False)"

fun bad_uri :: "pyval \<Rightarrow> bool res" where
  "bad_uri (PyStr uri_string) =
     Inr (\<not> (case after_word uri_string of
               Some (c # r) \<Rightarrow> c = CHR '':'' \<and> (uri_address r \<or> uri_method_id r)
             | _ \<Rightarrow> False))"
| "bad_uri v = Inl (TypeError ''expected string or bytes-like object'')"

fun is_dict :: "pyval \<Rightarrow> bool" where
  "is_dict (PyDict d) = True"
| "is_dict v = False"

fun is_list :: "pyval \<Rightarrow> bool" where
  "is_list (PyList xs) = True"
| "is_list v = False"

definition check_uri :: "request \<Rightarrow> pyval \<Rightarrow> unit res" where
  "check_uri req ctx =
     rbind (bad_uri ctx) (\<lambda>bad. if bad then refuse req (''@context URI '' @ py_str ctx @ '' badly formed'') else Inr ())"

fun check_contexts :: "request \<Rightarrow> pyval list \<Rightarrow> unit res" where
  "check_contexts req [] = Inr ()"
| "check_contexts req (ctx # ctxs) =
     rbind (if is_dict ctx then Inr () else check_uri req ctx) (\<lambda>_. check_contexts req ctxs)"

fun validate_context :: "request \<Rightarrow> pyval \<Rightarrow> unit res" where
  "validate_context req (PyList ctxs) = check_contexts req ctxs"
| "validate_context req (PyDict d) = Inr ()"
| "validate_context req (PyStr s) = check_uri req (PyStr s)"
| "validate_context req v = refuse req (squoted ''@context'' @ '' value must be url, array, or object'')"

text \<open>\<open>k in content_as_dict\<close>: on a text it is a test for a part, on a list for an element, on other values it fails.\<close>

fun contains_part :: "string \<Rightarrow> string \<Rightarrow> bool" where
  "contains_part p [] = (p = [])"
| "contains_part p (c # s) = (take (length p) (c # s) = p \<or> contains_part p s)"

fun py_in :: "string \<Rightarrow> pyval \<Rightarrow> bool res" where
  "py_in k (PyDict d) = Inr (dict_in k d)"
| "py_in k (PyList xs) = Inr (PyStr k \<in> set xs)"
| "py_in k (PyStr s) = Inr (contains_part k s)"
| "py_in k v = Inl (TypeError ''not iterable'')"

definition context_static :: "request \<Rightarrow> pyval \<Rightarrow> unit res" where
  "context_static req content =
     rbind (py_in JSON_LD_CONTEXT_FIELD content) (\<lambda>has.
       if \<not> has then refuse req (squoted RS_CONTENT @ '' must contain a '' @ JSON_LD_CONTEXT_FIELD @ '' field'')
       else rbind (py_index content JSON_LD_CONTEXT_FIELD) (validate_context req))"

text \<open>Refusal when fields are missing, with the names joined by \<open>sep\<close>.\<close>

definition refuse_missing :: "request \<Rightarrow> string \<Rightarrow> string \<Rightarrow> string list \<Rightarrow> unit res" where
  "refuse_missing req sep reason ms = (if ms \<noteq> [] then refuse req (py_join sep ms @ reason) else Inr ())"

definition cred_def_static :: "request \<Rightarrow> pyval \<Rightarrow> unit res" where
  "cred_def_static req content =
     rbind (missing_fields content [RS_CRED_DEF_SIG_TYPE, RS_CRED_DEF_MAPPING, RS_CRED_DEF_SCHEMA, RS_CRED_DEF_PUB_KEY])
       (refuse_missing req '', '' ('' must be set in '' @ squoted RS_CONTENT))"

definition encoding_io_static :: "request \<Rightarrow> pyval \<Rightarrow> string \<Rightarrow> unit res" where
  "encoding_io_static req content io_field =
     rbind (py_index content io_field) (\<lambda>io. rbind (missing_fields io [''id'', ''type''])
       (refuse_missing req '' and '' ('' must be set in '' @ squoted io_field)))"

definition encoding_static :: "request \<Rightarrow> pyval \<Rightarrow> unit res" where
  "encoding_static req content =
     rbind (missing_fields content [RS_ENC_INPUT, RS_ENC_OUTPUT, RS_ENC_ALGORITHM, RS_ENC_TEST_VECS]) (\<lambda>ms.
     rbind (refuse_missing req '', '' ('' must be set in '' @ squoted RS_CONTENT) ms) (\<lambda>_.
     rbind (encoding_io_static req content RS_ENC_INPUT) (\<lambda>_.
     rbind (encoding_io_static req content RS_ENC_OUTPUT) (\<lambda>_.
     rbind (py_index content RS_ENC_ALGORITHM) (\<lambda>alg.
     rbind (missing_fields alg [''description'', ''documentation'', ''implementation''])
       (refuse_missing req '', '' ('' must be set in '' @ squoted RS_ENC_ALGORITHM)))))))"

definition mapping_static :: "request \<Rightarrow> pyval \<Rightarrow> unit res" where
  "mapping_static req content =
     rbind (missing_fields content [RS_MAPPING_SCHEMA, RS_MAPPING_ATTRIBUTES]) (\<lambda>ms.
     rbind (refuse_missing req '' and '' ('' must be set in '' @ squoted RS_CONTENT) ms) (\<lambda>_.
     rbind (py_index content RS_MAPPING_ATTRIBUTES) (\<lambda>attributes.
     rbind (missing_fields attributes [RS_MAPPING_ISSUER, RS_MAPPING_ISSUANCE_DATE])
       (refuse_missing req '' and '' ('' must be in '' @ RS_CONTENT @ [CHR 0x27] @ ''s '' @ squoted RS_MAPPING_ATTRIBUTES)))))"

fun static_validation_content :: "rs_handler \<Rightarrow> request \<Rightarrow> pyval \<Rightarrow> unit res" where
  "static_validation_content JsonLdContextHandler req content = context_static req content"
| "static_validation_content RichSchemaHandler req content = Inr ()"
| "static_validation_content RichSchemaEncodingHandler req content = encoding_static req content"
| "static_validation_content RichSchemaMappingHandler req content = mapping_static req content"
| "static_validation_content RichSchemaCredDefHandler req content = cred_def_static req content"
| "static_validation_content RichSchemaPresDefHandler req content = Inr ()"

definition static_validation_json_ld :: "request \<Rightarrow> pyval \<Rightarrow> unit res" where
  "static_validation_json_ld req content =
     rbind (py_get content JSON_LD_ID_FIELD) (\<lambda>i.
     if \<not> truthy i
     then refuse req (squoted ''content'' @ '' must be a valid JSON-LD and have non-empty '' @ squoted JSON_LD_ID_FIELD @ '' field'')
     else rbind (py_get content JSON_LD_TYPE_FIELD) (\<lambda>ty.
     if \<not> truthy ty
     then refuse req (squoted ''content'' @ '' must be a valid JSON-LD and have non-empty '' @ squoted JSON_LD_TYPE_FIELD @ '' field'')
     else rbind (dict_index (operation req) RS_ID) (\<lambda>rs_id.
     if i \<noteq> rs_id then refuse req (''content'' @ [CHR 0x27] @ ''s @id must be equal to id='' @ py_str rs_id) else Inr ())))"

definition rs_static_validation :: "bool \<Rightarrow> (pyval \<Rightarrow> pyval res) \<Rightarrow> rs_handler \<Rightarrow> request \<Rightarrow> unit res" where
  "rs_static_validation enabled loads h req =
     (if \<not> enabled then refuse req ''RichSchema transactions are disabled''
      else rbind (dict_index (operation req) RS_CONTENT) (\<lambda>raw.
           case loads raw of
             Inl (ValueError m) \<Rightarrow> refuse req (squoted RS_CONTENT @ '' must be a JSON serialized string'')
           | Inl e \<Rightarrow> Inl e
           | Inr content \<Rightarrow>
               rbind (if is_json_ld_content h then static_validation_json_ld req content else Inr ()) (\<lambda>_.
                 static_validation_content h req content)))"

section \<open>Dynamic validation\<close>

type_synonym rs_state = "pyval \<Rightarrow> (pyval \<times> pyval \<times> pyval) res"

definition cred_def_dynamic :: "(pyval \<Rightarrow> pyval res) \<Rightarrow> rs_state \<Rightarrow> request \<Rightarrow> unit res" where
  "cred_def_dynamic loads gfs req =
     rbind (dict_index (operation req) RS_CONTENT) (\<lambda>raw. rbind (loads raw) (\<lambda>content.
     rbind (py_index content RS_CRED_DEF_SCHEMA) (\<lambda>schema_id.
     rbind (py_index content RS_CRED_DEF_MAPPING) (\<lambda>mapping_id.
     rbind (gfs schema_id) (\<lambda>(schema, _, _).
     if \<not> truthy schema
     then refuse req (''Can not find a referenced '' @ squoted RS_CRED_DEF_SCHEMA @ '' with id='' @ py_str schema_id
            @ ''; please make sure that it has been added to the ledger'')
     else rbind (gfs mapping_id) (\<lambda>(mapping, _, _).
     if \<not> truthy mapping
     then refuse req (''Can not find a referenced '' @ squoted RS_CRED_DEF_MAPPING @ '' with id='' @ py_str mapping_id
            @ ''; please make sure that it has been added to the ledger'')
     else rbind (py_get schema RS_TYPE) (\<lambda>ty.
     if ty \<noteq> PyStr RS_SCHEMA_TYPE_VALUE
     then refuse req (squoted RS_CRED_DEF_SCHEMA @ '' field must reference a schema with '' @ RS_TYPE @ ''='' @ RS_SCHEMA_TYPE_VALUE)
     else rbind (py_get mapping RS_TYPE) (\<lambda>ty.
     if ty \<noteq> PyStr RS_MAPPING_TYPE_VALUE
     then refuse req (squoted RS_CRED_DEF_MAPPING @ '' field must reference a mapping with '' @ RS_TYPE @ ''='' @ RS_MAPPING_TYPE_VALUE)
     else Inr ()))))))))"

fun is_leaf_dict :: "pyval \<Rightarrow> bool" where
  "is_leaf_dict (PyDict d) = (\<forall>(k, v)\<in>set d. \<not> is_dict v \<and> \<not> is_list v)"
| "is_leaf_dict v = True"

lemma size_dict_value: "(k, v) \<in> set d \<Longrightarrow> size v < size (PyDict d)"
  by (induction d) auto

lemma size_list_item: "v \<in> set xs \<Longrightarrow> size v < size (PyList xs)"
  by (induction xs) auto

text \<open>The leaves in the order in which the generator yields them, each with the attribute it belongs to.\<close>

function find_encoding_desc_dicts :: "pyval \<Rightarrow> pyval \<Rightarrow> (pyval \<times> pyval) list" where
  "find_encoding_desc_dicts content last_attr =
     (if is_leaf_dict content then [(content, last_attr)]
      else case content of
             PyDict d \<Rightarrow>
               concat (map (\<lambda>(k, v). case v of
                   PyList items \<Rightarrow> concat (map (\<lambda>item. find_encoding_desc_dicts item (PyStr k)) items)
                 | _ \<Rightarrow> find_encoding_desc_dicts v (PyStr k)) d)
           | _ \<Rightarrow> [])"
  by pat_completeness auto

termination
  by (relation "measure (\<lambda>(c, a). size c)") (auto dest!: size_dict_value size_list_item)

declare find_encoding_desc_dicts.simps [simp del]

text \<open>A value that is missing: it tests false and is not equal to zero.\<close>

definition mapping_field_missing :: "pyval \<Rightarrow> bool" where
  "mapping_field_missing v \<longleftrightarrow> \<not> truthy v \<and> as_number v \<noteq> Some 0"

fun check_desc_dicts :: "request \<Rightarrow> (pyval \<times> pyval) list \<Rightarrow> unit res" where
  "check_desc_dicts req [] = Inr ()"
| "check_desc_dicts req ((PyDict d, attr) # rest) =
     (let ms = filter (\<lambda>f. mapping_field_missing (dict_get d f)) [RS_MAPPING_ENC, RS_MAPPING_RANK]
      in if ms \<noteq> [] then refuse req (py_join '' and '' ms @ '' must be set for the attribute '' @ squoted (py_str attr))
         else check_desc_dicts req rest)"
| "check_desc_dicts req ((v, attr) # rest) =
     refuse req (RS_MAPPING_ENC @ '' and '' @ RS_MAPPING_RANK @ '' must be set for the attribute '' @ squoted (py_str attr))"

text \<open>
  \<open>sorted\<close> on the ranks: a leaf has numbers and texts only; texts sort among themselves, a mixture fails.
  The comparison with \<open>range(1, n + 1)\<close> is one of numbers.
\<close>

fun is_str :: "pyval \<Rightarrow> bool" where
  "is_str (PyStr s) = True"
| "is_str v = False"

definition ranks_sequential :: "pyval list \<Rightarrow> bool res" where
  "ranks_sequential ranks =
     (if \<forall>r\<in>set ranks. as_number r \<noteq> None
      then Inr (sort (map (\<lambda>r. the (as_number r)) ranks) = map int [1..<length ranks + 1])
      else if \<forall>r\<in>set ranks. is_str r then Inr False
      else Inl (TypeError ''not supported between instances''))"

fun check_encodings :: "rs_state \<Rightarrow> request \<Rightarrow> (pyval \<times> pyval) list \<Rightarrow> unit res" where
  "check_encodings gfs req [] = Inr ()"
| "check_encodings gfs req ((desc_dict, attr) # rest) =
     rbind (py_index desc_dict RS_MAPPING_ENC) (\<lambda>encoding_id. rbind (gfs encoding_id) (\<lambda>(encoding, _, _).
     if \<not> truthy encoding
     then refuse req (''Can not find a referenced '' @ squoted RS_MAPPING_ENC @ '' with id='' @ py_str encoding_id @ '' in the ''
            @ squoted (py_str attr) @ '' attribute; please make sure that it has been added to the ledger'')
     else rbind (py_get encoding RS_TYPE) (\<lambda>ty.
     if ty \<noteq> PyStr RS_ENCODING_TYPE_VALUE
     then refuse req (squoted RS_MAPPING_ENC @ '' field in the '' @ squoted (py_str attr) @ '' attribute must reference an encoding with ''
            @ RS_TYPE @ ''='' @ RS_ENCODING_TYPE_VALUE)
     else check_encodings gfs req rest)))"

definition desc_rank :: "pyval \<times> pyval \<Rightarrow> pyval" where
  "desc_rank da = (case fst da of PyDict d \<Rightarrow> dict_get d RS_MAPPING_RANK | _ \<Rightarrow> PyNone)"

definition mapping_dynamic :: "(pyval \<Rightarrow> pyval res) \<Rightarrow> rs_state \<Rightarrow> request \<Rightarrow> unit res" where
  "mapping_dynamic loads gfs req =
     rbind (dict_index (operation req) RS_CONTENT) (\<lambda>raw. rbind (loads raw) (\<lambda>content.
     rbind (py_index content RS_MAPPING_SCHEMA) (\<lambda>schema_id. rbind (gfs schema_id) (\<lambda>(schema, _, _).
     if \<not> truthy schema
     then refuse req (''Can not find a schema with id='' @ py_str schema_id @ ''; please make sure that it has been added to the ledger'')
     else rbind (py_get schema RS_TYPE) (\<lambda>ty.
     if ty \<noteq> PyStr RS_SCHEMA_TYPE_VALUE
     then refuse req (squoted RS_MAPPING_SCHEMA @ '' field must reference a schema with '' @ RS_TYPE @ ''='' @ RS_SCHEMA_TYPE_VALUE)
     else rbind (py_index content RS_MAPPING_ATTRIBUTES) (\<lambda>attributes.
     let enc_desc_dicts = find_encoding_desc_dicts attributes PyNone
     in rbind (check_desc_dicts req enc_desc_dicts) (\<lambda>_.
        rbind (ranks_sequential (map desc_rank enc_desc_dicts)) (\<lambda>ok.
        if \<not> ok
        then refuse req (''the attribute'' @ [CHR 0x27] @ ''s ranks are not sequential: expected ranks are all values from 1 to ''
               @ int_str (int (length enc_desc_dicts)))
        else check_encodings gfs req enc_desc_dicts))))))))"

fun dynamic_validation_content :: "rs_handler \<Rightarrow> (pyval \<Rightarrow> pyval res) \<Rightarrow> rs_state \<Rightarrow> request \<Rightarrow> unit res" where
  "dynamic_validation_content RichSchemaCredDefHandler loads gfs req = cred_def_dynamic loads gfs req"
| "dynamic_validation_content RichSchemaMappingHandler loads gfs req = mapping_dynamic loads gfs req"
| "dynamic_validation_content h loads gfs req = Inr ()"

definition make_secondary_key :: "pyval \<Rightarrow> pyval \<Rightarrow> pyval \<Rightarrow> string" where [path_defs]:
  "make_secondary_key rs_type rs_name rs_version = py_join '':'' [py_str rs_type, py_str rs_name, py_str rs_version]"

definition rs_dynamic_validation ::
  "(pyval \<Rightarrow> pyval res) \<Rightarrow> rs_state \<Rightarrow> (string \<Rightarrow> 'b option) \<Rightarrow> validator \<Rightarrow> rs_handler \<Rightarrow> request \<Rightarrow> unit res" where
  "rs_dynamic_validation loads gfs state_get wrv h req =
     rbind (dict_index (operation req) RS_ID) (\<lambda>rs_id. rbind (gfs rs_id) (\<lambda>(rs_object, _, _).
     rbind (dict_index (operation req) RS_TYPE) (\<lambda>rs_type. rbind (dict_index (operation req) RS_NAME) (\<lambda>rs_name.
     rbind (dict_index (operation req) RS_VERSION) (\<lambda>rs_version.
     if \<not> truthy rs_object \<and> state_get (make_secondary_key rs_type rs_name rs_version) \<noteq> None
     then refuse req (''An object with '' @ RS_NAME @ ''='' @ dquoted (py_str rs_name) @ '', '' @ RS_VERSION @ ''='' @ dquoted (py_str rs_version)
            @ '' and '' @ RS_TYPE @ ''='' @ dquoted (py_str rs_type) @ '' already exists. Please choose different ''
            @ RS_NAME @ '', '' @ RS_VERSION @ '' or '' @ RS_TYPE)
     else rbind (if truthy rs_object
                 then authorize_with wrv req (mk_AuthActionEdit (rs_txn_type h) (PyStr ''*'') (PyStr ''*'') (PyStr ''*'') True)
                 else authorize_with wrv req (mk_AuthActionAdd (rs_txn_type h) (PyStr ''*'') (PyStr ''*'') True)) (\<lambda>_.
            dynamic_validation_content h loads gfs req))))))"

section \<open>State update and reads\<close>

text \<open>A transaction with the endorser and the payload version, which the stored value has too.\<close>

record rs_txn = txn +
  get_endorser :: "string option"
  get_payload_txn_version :: pyval

definition rs_value :: "rs_txn \<Rightarrow> pyval res" where
  "rs_value t =
     (let d = get_payload_data t
      in rbind (dict_index d RS_ID) (\<lambda>i. rbind (dict_index d RS_TYPE) (\<lambda>ty. rbind (dict_index d RS_NAME) (\<lambda>n.
         rbind (dict_index d RS_VERSION) (\<lambda>v. rbind (dict_index d RS_CONTENT) (\<lambda>c.
           Inr (PyDict [(RS_ID, i), (RS_TYPE, ty), (RS_NAME, n), (RS_VERSION, v), (RS_CONTENT, c),
                        (''from'', did_val (get_from t)), (''endorser'', did_val (get_endorser t)),
                        (''ver'', get_payload_txn_version t)])))))))"

text \<open>The writes at the primary and at the secondary key; \<open>key_bytes\<close> is the primary key as a state value.\<close>

definition rs_update_state :: "(pyval \<Rightarrow> 'b) \<Rightarrow> (string \<Rightarrow> 'b) \<Rightarrow> rs_txn \<Rightarrow> (string \<times> 'b) list res" where
  "rs_update_state ser key_bytes t =
     (let d = get_payload_data t
      in rbind (dict_index d RS_ID) (\<lambda>i. rbind (encodable i) (\<lambda>primary_key.
         rbind (dict_index d RS_TYPE) (\<lambda>ty. rbind (dict_index d RS_NAME) (\<lambda>n. rbind (dict_index d RS_VERSION) (\<lambda>v.
         rbind (rs_value t) (\<lambda>val.
           Inr [(primary_key, encode_state_value ser val (opt_int_val (get_seq_no t)) (opt_int_val (get_txn_time t))),
                (make_secondary_key ty n v, key_bytes primary_key)])))))))"

text \<open>
  A read yields the data, the sequence number and the time of the reply. \<open>lookup\<close> is plenum's lookup of a
  committed record by key, a \<open>KeyError\<close> when there is none; \<open>value_at\<close> the plain committed value at a path.
\<close>

abbreviation no_data :: "pyval \<times> pyval \<times> pyval" where "no_data \<equiv> (PyNone, PyNone, PyNone)"

definition on_KeyError :: "'a \<Rightarrow> 'a res \<Rightarrow> 'a res" where
  "on_KeyError dflt r = (case r of Inl (KeyError k) \<Rightarrow> Inr dflt | _ \<Rightarrow> r)"

definition get_rich_schema_object_by_id :: "bool \<Rightarrow> (pyval \<Rightarrow> (pyval \<times> pyval \<times> pyval) res) \<Rightarrow> request \<Rightarrow> (pyval \<times> pyval \<times> pyval) res" where
  "get_rich_schema_object_by_id enabled lookup req =
     (if \<not> enabled then refuse req ''RichSchema queries are disabled''
      else rbind (dict_index (operation req) RS_ID) (\<lambda>i. on_KeyError no_data (lookup i)))"

definition get_rich_schema_object_by_metadata ::
  "bool \<Rightarrow> (string \<Rightarrow> pyval option res) \<Rightarrow> (pyval \<Rightarrow> (pyval \<times> pyval \<times> pyval) res) \<Rightarrow> request \<Rightarrow> (pyval \<times> pyval \<times> pyval) res" where
  "get_rich_schema_object_by_metadata enabled value_at lookup req =
     (if \<not> enabled then refuse req ''RichSchema queries are disabled''
      else rbind (dict_index (operation req) RS_TYPE) (\<lambda>ty. rbind (dict_index (operation req) RS_NAME) (\<lambda>n.
           rbind (dict_index (operation req) RS_VERSION) (\<lambda>v.
             on_KeyError no_data (rbind (value_at (make_secondary_key ty n v)) (\<lambda>i.
               case i of None \<Rightarrow> Inr no_data | Some i' \<Rightarrow> lookup i'))))))"

end
