(* ===== verification/NymProperties.thy ===== *)
theory NymProperties
  imports NymHandler
begin

text \<open>
  What the NYM handler guarantees, together with the identity cache and the authorization layer: who can
  rotate a key, how a DID is bound to its first key, that the version of a DID is fixed, and what an
  update leaves unchanged. The example cache at the start is the concrete input of the witnesses.
\<close>

section \<open>An example cache\<close>

text \<open>An association list as store, and entries that are their own encoding.\<close>

definition ex_kv :: "((string \<times> string list) list, string list) kv_ops" where
  "ex_kv = \<lparr>kv_get = (\<lambda>s k c. case map_of s k of None \<Rightarrow> Inl (KeyError k) | Some v \<Rightarrow> Inr (Some v)),
            kv_set = (\<lambda>s k v c. AList.update k v s), kv_create_batch_from_current = (\<lambda>s r. s), kv_reject_batch = Inr,
            kv_first_batch_idr = (\<lambda>s. None), kv_commit_batch = Inr\<rparr>"

definition ex_rlp :: "string list rlp_ops" where
  "ex_rlp = \<lparr>rlp_encode = (\<lambda>xs. xs), rlp_decode = (\<lambda>xs. xs)\<rparr>"

definition ex_store :: "(string \<times> string list) list" where
  "ex_store = [(''T1'', [''1'', ''7'', ''T1'', TRUSTEE, ''kT'']), (''O1'', [''2'', ''8'', ''T1'', [], ''kO'']),
               (''E1'', [''3'', ''9'', ''T1'', ENDORSER, ''kE''])]"

definition ex_store_roles :: "string \<Rightarrow> string option" where
  "ex_store_roles d = map_of [(''T1'', TRUSTEE), (''O1'', []), (''E1'', ENDORSER)] d"

abbreviation ex_getRole :: "string \<Rightarrow> string res" where
  "ex_getRole \<equiv> (\<lambda>d. getRole ex_kv ex_rlp ex_store d False)"

lemma ex_ints:
  "py_int ''1'' = Inr 1" "py_int ''2'' = Inr 2" "py_int ''3'' = Inr 3" "py_int ''7'' = Inr 7" "py_int ''8'' = Inr 8" "py_int ''9'' = Inr 9"
  by code_simp+

lemma ex_fields:
  "idr_fields ex_kv ex_rlp ex_store d False =
     (case map_of [(''T1'', \<lparr>iv_seqNo = 1, iv_txnTime = Some 7, iv_ta = ''T1'', iv_role = TRUSTEE, iv_verkey = Some ''kT''\<rparr>),
        (''O1'', \<lparr>iv_seqNo = 2, iv_txnTime = Some 8, iv_ta = ''T1'', iv_role = [], iv_verkey = Some ''kO''\<rparr>),
        (''E1'', \<lparr>iv_seqNo = 3, iv_txnTime = Some 9, iv_ta = ''T1'', iv_role = ENDORSER, iv_verkey = Some ''kE''\<rparr>)] d of
        None \<Rightarrow> Inl (KeyError d) | Some iv \<Rightarrow> Inr iv)"
  by (simp add: idr_fields_def idr_get_def ex_kv_def ex_rlp_def ex_store_def unpackIdrValue_def ex_ints decodeVerkey_def)

lemma ex_store_reads: "reads ex_getRole ex_store_roles"
  by (simp add: reads_def getRole_def ex_fields ex_store_roles_def)

section \<open>Validation\<close>

lemma validate_keys_checks:
  assumes "validate_keys wrv req ni own keys flag = Inr flag'" "key \<in> set keys" "map_of (operation req) key = Some v"
  shows "\<exists>r. wrv req [mk_AuthActionEdit NYM (PyStr key) (nym_field ni key) v own] = Inr r"
  using assms
  by (induction keys arbitrary: flag) (auto simp: dict_in_def dict_index_def rbind_Inr_iff split: if_splits)

lemma mk_edit_verkey:
  "mk_AuthActionEdit NYM (PyStr VERKEY) old new own = AuthActionEdit NYM ''verkey'' (str_or_empty old) (str_or_empty new) own"
  by (simp add: mk_AuthActionEdit_def str_or_empty_def)

text \<open>
  C9: Under the default rules a NYM transaction that sets the verification key of a DID on the ledger passes
  validation only if its author is the owner of the DID in the identity cache: the DID itself, or its
  creator while it has no key of its own.
\<close>

theorem nym_key_change_by_owner:
  assumes "reads (\<lambda>d. getRole kv rlp s d False) ro" "req_identifier req = Some d"
    and "map_of (operation req) TARGET_NYM = Some (PyStr dest)" "getNym kv rlp s dest None False = Inr (Some ni)"
    and "map_of (operation req) VERKEY = Some v" "id_safe (str_or_empty v)" "id_safe (str_or_empty (nym_field ni VERKEY))"
    and "nym_dynamic_validation cd kv rlp s
           (validate fmt default_authorizers (\<lambda>d. getRole kv rlp s d False) (local_get_auth_constraint auth_map)) req = Inr ()"
  shows "getOwnerFor kv rlp s dest False = Inr (Some d)"
proof -
  let ?wrv = "validate fmt default_authorizers (\<lambda>d. getRole kv rlp s d False) (local_get_auth_constraint auth_map)"
  from assms(3,4,8) obtain owner flag where owner: "getOwnerFor kv rlp s dest False = Inr owner"
      "validate_keys ?wrv req ni (req_identifier req = owner) [ROLE, VERKEY] (req_identifier req = owner) = Inr flag"
    by (auto simp: nym_dynamic_validation_def dict_index_def rbind_Inr_iff validate_existing_nym_def Let_def refuse_def
        split: if_splits)
  let ?a = "AuthActionEdit NYM ''verkey'' (str_or_empty (nym_field ni VERKEY)) (str_or_empty v) (req_identifier req = owner)"
  obtain r where accepted: "?wrv req [?a] = Inr r"
    using validate_keys_checks [OF owner(2) _ assms(5)] unfolding mk_edit_verkey by auto
  have "id_safe NYM" "id_safe ''verkey''" by code_simp+
  then have safe: "action_safe ?a" using assms(6,7) by (simp add: action_safe_def)
  obtain c where "default_in_force ?a = Some c" "satisfied ro req ?a c"
    using local_strategy.validate_accepts [OF assms(1,2) safe, of fmt "[]" r] accepted by auto
  then have "req_identifier req = owner"
    by (auto simp: default_key_rotation owner_constraint_def role_satisfied_def)
  with owner(1) assms(2) show ?thesis by simp
qed

definition ex_nym_request :: "string \<Rightarrow> dict \<Rightarrow> request" where
  "ex_nym_request d op = \<lparr>req_identifier = Some d, reqId = 3, operation = op, signature = Some ''sig'', signatures = None,
     endorser = None\<rparr>"

definition ex_rotation :: request where
  "ex_rotation = ex_nym_request ''O1'' [(''type'', PyStr NYM), (''dest'', PyStr ''O1''), (''verkey'', PyStr ''k2'')]"

lemma ex_rotation_accepted:
  "nym_dynamic_validation cd ex_kv ex_rlp ex_store
     (validate (\<lambda>r. []) default_authorizers ex_getRole (local_get_auth_constraint auth_map)) ex_rotation = Inr ()"
proof -
  let ?a = "AuthActionEdit NYM ''verkey'' ''kO'' ''k2'' True"
  have safe: "action_safe ?a" by code_simp
  have "satisfied ex_store_roles ex_rotation ?a owner_constraint"
    by (simp add: owner_constraint_def role_satisfied_def endorsed_def sig_counts_def is_role_accepted_def ex_store_roles_def
        ex_rotation_def ex_nym_request_def has_signature_def sigs_def is_off_ledger_def)
  then have "validate (\<lambda>r. []) default_authorizers ex_getRole (local_get_auth_constraint auth_map) ex_rotation [?a] = Inr (Some True)"
    using local_strategy.validate_accepts [OF ex_store_reads _ safe, of ex_rotation "''O1''" "\<lambda>r. []" "[]" "Some True"]
    by (simp add: default_key_rotation ex_rotation_def ex_nym_request_def del: validate.simps)
  then show ?thesis
    by (simp add: nym_dynamic_validation_def ex_rotation_def ex_nym_request_def dict_index_def dict_in_def getNym_def
        getOwnerFor_def ex_fields text_or_None_def validate_existing_nym_def nym_field_def mk_AuthActionEdit_def
        str_or_empty_def del: validate.simps)
qed

theorem nym_key_change_by_owner_witness: "getOwnerFor ex_kv ex_rlp ex_store ''O1'' False = Inr (Some ''O1'')"
proof (rule nym_key_change_by_owner [OF ex_store_reads, where req = ex_rotation and fmt = "\<lambda>r. []"
      and cd = "\<lparr>b58encode = id, b58decode = (\<lambda>v. Inr []), sha256 = id\<rparr>"])
  show "getNym ex_kv ex_rlp ex_store ''O1'' None False = Inr (Some \<lparr>ni_role = None, ni_verkey = Some ''kO'',
      ni_identifier = Some ''T1'', ni_seqNo = Some 2, ni_txnTime = Some 8\<rparr>)"
    by (simp add: getNym_def ex_fields text_or_None_def)
  show "id_safe (str_or_empty (PyStr ''k2''))" by code_simp
  show "id_safe (str_or_empty (nym_field \<lparr>ni_role = None, ni_verkey = Some ''kO'', ni_identifier = Some ''T1'',
      ni_seqNo = Some 2, ni_txnTime = Some 8\<rparr> VERKEY))" by code_simp
qed (rule ex_rotation_accepted | simp add: ex_rotation_def ex_nym_request_def)+

text \<open>
  The version of a DID is fixed at its creation: a NYM transaction that names a version for a DID on the
  ledger never passes validation, whoever signs it and whatever the rules are.
\<close>

theorem nym_version_fixed:
  assumes "map_of (operation req) TARGET_NYM = Some (PyStr dest)" "getNym kv rlp s dest None False = Inr (Some ni)"
    and "dict_in NYM_VERSION (operation req)"
  shows "\<exists>e. nym_dynamic_validation cd kv rlp s wrv req = Inl e"
  using assms
  by (cases "getOwnerFor kv rlp s dest False")
    (auto simp: nym_dynamic_validation_def dict_index_def validate_existing_nym_def Let_def refuse_def)

theorem nym_version_fixed_witness:
  "\<exists>e. nym_dynamic_validation \<lparr>b58encode = id, b58decode = (\<lambda>v. Inr []), sha256 = id\<rparr> ex_kv ex_rlp ex_store (\<lambda>r as. Inr None)
     (ex_nym_request ''O1'' [(''dest'', PyStr ''O1''), (''version'', PyInt 2)]) = Inl e"
proof (rule nym_version_fixed)
  show "getNym ex_kv ex_rlp ex_store ''O1'' None False = Inr (Some \<lparr>ni_role = None, ni_verkey = Some ''kO'',
      ni_identifier = Some ''T1'', ni_seqNo = Some 2, ni_txnTime = Some 8\<rparr>)"
    by (simp add: getNym_def ex_fields text_or_None_def)
qed (simp_all add: ex_nym_request_def dict_in_def)

text \<open>
  C10: A new DID is bound to its key as its version says: with version 2 a validated creation has a DID that
  is the encoding of the first 16 bytes of the SHA-256 digest of the decoded key, with version 1 the encoding
  of the first 16 bytes of the key itself.
\<close>

theorem nym_bound_to_key:
  assumes "map_of (operation req) TARGET_NYM = Some (PyStr dest)" "getNym kv rlp s dest None False = Inr None"
    and "nym_dynamic_validation cd kv rlp s wrv req = Inr ()"
  shows "(as_number (dict_get (operation req) NYM_VERSION) = Some 2 \<longrightarrow>
      (\<exists>k. b58decode cd (dict_get (operation req) VERKEY) = Inr k \<and> dest = b58encode cd (take 16 (sha256 cd k))))
    \<and> (as_number (dict_get (operation req) NYM_VERSION) = Some 1 \<longrightarrow>
      (\<exists>k. b58decode cd (dict_get (operation req) VERKEY) = Inr k \<and> dest = b58encode cd (take 16 k)))"
proof -
  have "dict_get (operation req) TARGET_NYM = PyStr dest" using assms(1) by (simp add: dict_get_def)
  with assms show ?thesis
    by (auto simp: nym_dynamic_validation_def dict_index_def validate_new_nym_def Let_def refuse_def rbind_Inr_iff
        is_self_certifying_def legacy_convention_validation_def split: if_splits)
qed

definition ex_codecs :: codecs where
  "ex_codecs = \<lparr>b58encode = id, b58decode = (\<lambda>v. case v of PyStr t \<Rightarrow> Inr t | _ \<Rightarrow> Inl (TypeError ''b58decode'')), sha256 = rev\<rparr>"

theorem nym_bound_to_key_witness:
  "\<exists>k. b58decode ex_codecs (PyStr ''cba'') = Inr k \<and> ''abc'' = b58encode ex_codecs (take 16 (sha256 ex_codecs k))"
proof -
  let ?req = "ex_nym_request ''T1'' [(''dest'', PyStr ''abc''), (''verkey'', PyStr ''cba''), (''version'', PyInt 2)]"
  have "nym_dynamic_validation ex_codecs ex_kv ex_rlp ex_store (\<lambda>r as. Inr None) ?req = Inr ()"
    by (simp add: nym_dynamic_validation_def ex_nym_request_def dict_index_def getNym_def ex_fields validate_new_nym_def
        dict_get_def is_self_certifying_def ex_codecs_def)
  from nym_bound_to_key [OF _ _ this, of "''abc''"] show ?thesis
    by (simp add: ex_nym_request_def getNym_def ex_fields dict_get_def)
qed

section \<open>Update\<close>

lemma map_of_copy_key: "map_of (copy_key d k nd) k' = (if k' = k \<and> map_of d k \<noteq> None then map_of d k else map_of nd k')"
  by (auto simp: copy_key_def split: option.splits)

lemma distinct_copy_key: "distinct (map fst nd) \<Longrightarrow> distinct (map fst (copy_key d k nd))"
  by (auto simp: copy_key_def split: option.splits)

text \<open>The fields that a transaction may name, and the record of a new DID before what the transaction names.\<close>

definition named :: "string \<Rightarrow> bool" where
  "named k \<longleftrightarrow> k \<in> {ROLE, VERKEY, DIDDOC_CONTENT, NYM_VERSION}"

definition fresh_nym :: "txn \<Rightarrow> dict \<Rightarrow> dict" where
  "fresh_nym t existing_data = (if existing_data = [] then [(IDENTIFIER, did_val (get_from t)), (ROLE, PyNone), (VERKEY, PyNone)] else [])"

lemma map_of_copy_keys:
  "map_of (copy_key d a (copy_key d b (copy_key d c (copy_key d e nd)))) k
     = (if k \<in> {e, c, b, a} \<and> map_of d k \<noteq> None then map_of d k else map_of nd k)"
  by (cases "map_of d k = None") (auto simp: map_of_copy_key)

lemma map_of_nym_new_data:
  "map_of (nym_new_data t existing_data) k =
     (if k = TXN_TIME then Some (opt_int_val (get_txn_time t))
      else if k = SEQ_NO then Some (opt_int_val (get_seq_no t))
      else if named k \<and> map_of (get_payload_data t) k \<noteq> None then map_of (get_payload_data t) k else map_of (fresh_nym t existing_data) k)"
proof -
  have "map_of (copy_key d NYM_VERSION (copy_key d DIDDOC_CONTENT (copy_key d VERKEY (copy_key d ROLE nd)))) k
      = (if named k \<and> map_of d k \<noteq> None then map_of d k else map_of nd k)" for d nd
    unfolding named_def by (rule map_of_copy_keys)
  then show ?thesis by (simp add: nym_new_data_def Let_def fresh_nym_def)
qed

text \<open>
  C11: A NYM transaction writes what it names: the role, verification key, document content and version that its
  payload has take their new values, and the sequence number and the time are those of the transaction. If the DID has
  a record then every other field keeps its value. If not, the new record has the author of the transaction as its
  identifier, a role and a verification key (\<open>None\<close> unless named), and no other field.
\<close>

theorem nym_update_frame:
  assumes "nym_update_state ser nym_details to_key t = Inr (data, key, bytes)"
    and "dict_get (get_payload_data t) TARGET_NYM = PyStr nym"
  shows "key = to_key nym \<and> bytes = ser (PyDict data)
    \<and> dict_get data SEQ_NO = opt_int_val (get_seq_no t) \<and> dict_get data TXN_TIME = opt_int_val (get_txn_time t)
    \<and> (\<forall>k. k \<notin> {SEQ_NO, TXN_TIME} \<longrightarrow> dict_get data k =
        (if named k \<and> dict_in k (get_payload_data t)
         then dict_get (get_payload_data t) k
         else if nym_details nym = [] \<and> k = IDENTIFIER then did_val (get_from t) else dict_get (nym_details nym) k)
      \<and> (dict_in k data \<longleftrightarrow> named k \<and> dict_in k (get_payload_data t) \<or> dict_in k (nym_details nym)
         \<or> nym_details nym = [] \<and> k \<in> {IDENTIFIER, ROLE, VERKEY}))"
proof -
  let ?d = "get_payload_data t" and ?nd = "nym_new_data t (nym_details nym)"
  have data: "data = dict_update (nym_details nym) ?nd" "key = to_key nym" "bytes = ser (PyDict data)"
    using assms(1,2) by (auto simp: nym_update_state_def Let_def)
  have "distinct (map fst ?nd)"
    by (simp add: nym_new_data_def Let_def distinct_copy_key)
  then have get: "map_of data k = (case map_of ?nd k of None \<Rightarrow> map_of (nym_details nym) k | Some v \<Rightarrow> Some v)" for k
    by (simp add: data(1) map_of_dict_update)
  have nd: "map_of ?nd k = (if k = TXN_TIME then Some (opt_int_val (get_txn_time t))
      else if k = SEQ_NO then Some (opt_int_val (get_seq_no t))
      else if named k \<and> map_of ?d k \<noteq> None then map_of ?d k else map_of (fresh_nym t (nym_details nym)) k)" for k
    by (rule map_of_nym_new_data)
  have getk: "dict_get data k = (if named k \<and> dict_in k ?d then dict_get ?d k
      else if nym_details nym = [] \<and> k = IDENTIFIER then did_val (get_from t) else dict_get (nym_details nym) k)"
    if "k \<notin> {SEQ_NO, TXN_TIME}" for k
    using that by (auto simp: dict_get_def dict_in_def get nd fresh_nym_def split: option.splits)
  have ink: "dict_in k data \<longleftrightarrow> named k \<and> dict_in k ?d \<or> dict_in k (nym_details nym) \<or> nym_details nym = [] \<and> k \<in> {IDENTIFIER, ROLE, VERKEY}"
    if "k \<notin> {SEQ_NO, TXN_TIME}" for k
    using that by (auto simp: dict_in_def get nd fresh_nym_def split: option.splits)
  have meta: "dict_get data SEQ_NO = opt_int_val (get_seq_no t)" "dict_get data TXN_TIME = opt_int_val (get_txn_time t)"
    by (simp_all add: dict_get_def get nd)
  show ?thesis by (intro conjI allI impI) (rule data(2,3) meta | erule getk ink)+
qed

definition ex_nym_txn :: "dict \<Rightarrow> txn" where
  "ex_nym_txn d = \<lparr>get_type = NYM, get_payload_data = d, get_from = Some ''T1'', get_req_id = 3, get_seq_no = Some 30,
     get_txn_time = Some 1600000000\<rparr>"

definition ex_details :: "string \<Rightarrow> dict" where
  "ex_details n = [(''identifier'', PyStr ''T1''), (''role'', PyStr ENDORSER), (''verkey'', PyStr ''kE''),
     (''diddocContent'', PyStr ''old''), (''seqNo'', PyInt 3), (''txnTime'', PyInt 9)]"

theorem nym_update_frame_witness:
  "(\<exists>data. nym_update_state id ex_details id (ex_nym_txn [(''dest'', PyStr ''E1''), (''role'', PyNone)]) = Inr (data, ''E1'', PyDict data)
    \<and> dict_get data ROLE = PyNone \<and> dict_get data VERKEY = PyStr ''kE'')
   \<and> (\<exists>data. nym_update_state id (\<lambda>n. []) id (ex_nym_txn [(''dest'', PyStr ''E1''), (''verkey'', PyStr ''kE'')]) = Inr (data, ''E1'', PyDict data)
    \<and> dict_get data IDENTIFIER = PyStr ''T1'' \<and> dict_in ROLE data \<and> \<not> dict_in DIDDOC_CONTENT data)"
proof -
  let ?t = "ex_nym_txn [(''dest'', PyStr ''E1''), (''role'', PyNone)]"
  obtain data where data: "nym_update_state id ex_details id ?t = Inr (data, ''E1'', PyDict data)"
    by (auto simp: nym_update_state_def ex_nym_txn_def dict_get_def Let_def)
  have "dict_get data k = (if named k \<and> dict_in k (get_payload_data ?t)
      then dict_get (get_payload_data ?t) k else dict_get (ex_details ''E1'') k)" if "k \<notin> {SEQ_NO, TXN_TIME}" for k
    using nym_update_frame [OF data, of "''E1''"] that by (simp add: ex_nym_txn_def dict_get_def ex_details_def)
  from this [of ROLE] this [of VERKEY]
  have 1: "dict_get data ROLE = PyNone \<and> dict_get data VERKEY = PyStr ''kE''"
    by (simp add: ex_nym_txn_def dict_get_def dict_in_def ex_details_def named_def)
  let ?c = "ex_nym_txn [(''dest'', PyStr ''E1''), (''verkey'', PyStr ''kE'')]"
  obtain new where new: "nym_update_state id (\<lambda>n. []) id ?c = Inr (new, ''E1'', PyDict new)"
    by (auto simp: nym_update_state_def ex_nym_txn_def dict_get_def Let_def)
  have "dict_get (get_payload_data ?c) TARGET_NYM = PyStr ''E1''" by (simp add: ex_nym_txn_def dict_get_def)
  from nym_update_frame [OF new this]
  have "dict_get new IDENTIFIER = PyStr ''T1'' \<and> dict_in ROLE new \<and> \<not> dict_in DIDDOC_CONTENT new"
    by (simp add: ex_nym_txn_def dict_in_def named_def)
  with 1 data new show ?thesis by blast
qed

text \<open>
  The content of a DID document is written without a check of its own: a trustee that may change the role
  of an endorser's DID can replace that DID's document content in the same transaction, though it is not the
  owner of the DID.
\<close>

theorem nym_diddoc_by_other:
  "getOwnerFor ex_kv ex_rlp ex_store ''E1'' False = Inr (Some ''E1'')
   \<and> nym_dynamic_validation cd ex_kv ex_rlp ex_store
       (validate fmt default_authorizers ex_getRole (local_get_auth_constraint auth_map))
       (ex_nym_request ''T1'' [(''dest'', PyStr ''E1''), (''role'', PyNone), (''diddocContent'', PyStr ''new'')]) = Inr ()
   \<and> (\<exists>data. nym_update_state ser ex_details to_key
        (ex_nym_txn [(''dest'', PyStr ''E1''), (''role'', PyNone), (''diddocContent'', PyStr ''new'')])
          = Inr (data, to_key ''E1'', ser (PyDict data))
      \<and> dict_get data DIDDOC_CONTENT = PyStr ''new'')"
proof (intro conjI)
  let ?req = "ex_nym_request ''T1'' [(''dest'', PyStr ''E1''), (''role'', PyNone), (''diddocContent'', PyStr ''new'')]"
  let ?a = "mk_AuthActionEdit NYM (PyStr ROLE) (role_val (Some ENDORSER)) (role_val None) False"
  show "getOwnerFor ex_kv ex_rlp ex_store ''E1'' False = Inr (Some ''E1'')"
    by (simp add: getOwnerFor_def getNym_def ex_fields text_or_None_def)
  have safe: "action_safe ?a" by (rule safe_role_edit) (simp_all add: ledger_roles_def)
  have force: "default_in_force ?a = Some one_trustee_constraint" by (simp add: rule_eval)
  have "satisfied ex_store_roles ?req ?a one_trustee_constraint"
    by (simp add: one_trustee_constraint_def role_satisfied_def endorsed_def sig_counts_def is_role_accepted_def
        role_of_text_def ex_store_roles_def ex_nym_request_def has_signature_def sigs_def is_off_ledger_def)
  then have "validate fmt default_authorizers ex_getRole (local_get_auth_constraint auth_map) ?req [?a] = Inr (Some True)"
    using local_strategy.validate_accepts [OF ex_store_reads _ safe, of ?req "''T1''" fmt "[]" "Some True"] force
    by (simp add: ex_nym_request_def del: validate.simps)
  then show "nym_dynamic_validation cd ex_kv ex_rlp ex_store
      (validate fmt default_authorizers ex_getRole (local_get_auth_constraint auth_map)) ?req = Inr ()"
    by (simp add: nym_dynamic_validation_def ex_nym_request_def dict_index_def dict_in_def getNym_def getOwnerFor_def
        ex_fields text_or_None_def validate_existing_nym_def nym_field_def del: validate.simps)
  show "\<exists>data. nym_update_state ser ex_details to_key
        (ex_nym_txn [(''dest'', PyStr ''E1''), (''role'', PyNone), (''diddocContent'', PyStr ''new'')])
          = Inr (data, to_key ''E1'', ser (PyDict data)) \<and> dict_get data DIDDOC_CONTENT = PyStr ''new''"
    by (simp add: nym_update_state_def ex_nym_txn_def dict_get_def Let_def nym_new_data_def ex_details_def copy_key_def
        dict_set_def)
qed

end
