(* ===== verification/DomainProperties.thy ===== *)
theory DomainProperties
  imports DomainHandlers NymProperties
begin

text \<open>
  What the domain handlers guarantee: the paths of the domain state do not collide, schemas are written
  once, claim definitions refer to schemas, attributes are written by their owner, and what goes into the
  ledger and the attribute store for an attribute belongs together.
\<close>

section \<open>State paths\<close>

text \<open>The keys of the domain state by kind, and the path the sources build for each.\<close>

datatype domain_key =
    AttrKey string string
  | SchemaKey string string string
  | ClaimDefKey string string string string
  | RevocDefKey string string string string
  | RevocEntryKey string
  | RevocAccumKey string

fun key_path :: "domain_key \<Rightarrow> string" where
  "key_path (AttrKey did h) = make_state_path_for_attr id (PyStr did) h True"
| "key_path (SchemaKey did name version) = make_state_path_for_schema (PyStr did) (PyStr name) (PyStr version)"
| "key_path (ClaimDefKey did typ ref tag) = make_state_path_for_claim_def (PyStr did) (PyStr ref) (PyStr typ) (PyStr tag)"
| "key_path (RevocDefKey did cred typ tag) = make_state_path_for_revoc_def (PyStr did) (PyStr cred) (PyStr typ) (PyStr tag)"
| "key_path (RevocEntryKey i) = make_state_path_for_revoc_reg_entry (PyStr i)"
| "key_path (RevocAccumKey i) = make_state_path_for_revoc_reg_entry_accum (PyStr i)"

text \<open>
  A DID has more than one character and no colon. Versions, signature types, schema references, registry
  types and registry tags have no colon; names of schemas, claim definition tags and ids may have some.
\<close>

definition did_like :: "string \<Rightarrow> bool" where
  "did_like did \<longleftrightarrow> colon_free did \<and> 1 < length did"

fun key_wf :: "domain_key \<Rightarrow> bool" where
  "key_wf (AttrKey did h) = did_like did"
| "key_wf (SchemaKey did name version) = (did_like did \<and> colon_free version)"
| "key_wf (ClaimDefKey did typ ref tag) = (did_like did \<and> colon_free typ \<and> colon_free ref)"
| "key_wf (RevocDefKey did cred typ tag) = (did_like did \<and> colon_free typ \<and> colon_free tag)"
| "key_wf (RevocEntryKey i) = True"
| "key_wf (RevocAccumKey i) = True"

lemma key_path_eq:
  "key_path (AttrKey did h) = did @ '':'' @ ''1'' @ '':'' @ h"
  "key_path (SchemaKey did name version) = did @ '':'' @ ''2'' @ '':'' @ name @ '':'' @ version"
  "key_path (ClaimDefKey did typ ref tag) = did @ '':'' @ ''3'' @ '':'' @ typ @ '':'' @ ref @ '':'' @ tag"
  "key_path (RevocDefKey did cred typ tag) = did @ '':'' @ ''4'' @ '':'' @ cred @ '':'' @ typ @ '':'' @ tag"
  "key_path (RevocEntryKey i) = ''5'' @ '':'' @ i"
  "key_path (RevocAccumKey i) = ''6'' @ '':'' @ i"
  by (simp_all add: path_defs)

declare key_path.simps [simp del]

text \<open>What stands before the first colon, and what after it.\<close>

definition before_colon :: "string \<Rightarrow> string" where
  "before_colon s = takeWhile (\<lambda>c. c \<noteq> CHR '':'') s"

definition after_colon :: "string \<Rightarrow> string" where
  "after_colon s = drop 1 (dropWhile (\<lambda>c. c \<noteq> CHR '':'') s)"

lemma at_colon [simp]:
  assumes "colon_free a"
  shows "before_colon (a @ CHR '':'' # x) = a" "after_colon (a @ CHR '':'' # x) = x"
  using assms by (induction a) (auto simp: before_colon_def after_colon_def colon_free_def)

lemma colon_inject:
  "colon_free a \<Longrightarrow> colon_free b \<Longrightarrow> a @ CHR '':'' # x = b @ CHR '':'' # y \<longleftrightarrow> a = b \<and> x = y"
  "colon_free a \<Longrightarrow> colon_free b \<Longrightarrow> x @ CHR '':'' # a = y @ CHR '':'' # b \<longleftrightarrow> a = b \<and> x = y"
  "colon_free t \<Longrightarrow> colon_free u \<Longrightarrow> colon_free a \<Longrightarrow> colon_free b \<Longrightarrow>
    x @ CHR '':'' # t @ CHR '':'' # a = y @ CHR '':'' # u @ CHR '':'' # b \<longleftrightarrow> a = b \<and> t = u \<and> x = y"
  using colon_prefix_inject [of a b x y] colon_suffix_inject [of a b x y]
    colon_suffix_inject [of a b "x @ CHR '':'' # t" "y @ CHR '':'' # u"] colon_suffix_inject [of t u x y]
  by auto

lemma key_path_head:
  "key_wf k \<Longrightarrow> before_colon (key_path k) =
    (case k of AttrKey did h \<Rightarrow> did | SchemaKey did n v \<Rightarrow> did | ClaimDefKey did t r g \<Rightarrow> did | RevocDefKey did c t g \<Rightarrow> did
       | RevocEntryKey i \<Rightarrow> ''5'' | RevocAccumKey i \<Rightarrow> ''6'')"
  by (cases k) (simp_all add: key_path_eq did_like_def, simp_all add: before_colon_def)

lemma key_path_tail:
  "key_wf k \<Longrightarrow> after_colon (key_path k) =
    (case k of AttrKey did h \<Rightarrow> ''1:'' @ h | SchemaKey did n v \<Rightarrow> ''2:'' @ n @ '':'' @ v
       | ClaimDefKey did t r g \<Rightarrow> ''3:'' @ t @ '':'' @ r @ '':'' @ g | RevocDefKey did c t g \<Rightarrow> ''4:'' @ c @ '':'' @ t @ '':'' @ g
       | RevocEntryKey i \<Rightarrow> i | RevocAccumKey i \<Rightarrow> i)"
  by (cases k) (simp_all add: key_path_eq did_like_def, simp_all add: after_colon_def)

text \<open>
  C16: No two of the attributes, schemas, claim definitions, revocation registries, registry entries and accumulators
  of the domain state share a path: the paths of different kinds are different, and within one kind the path determines
  the author and every part of the key (of an attribute, the hash of its name). The DIDs have no colon and more than one
  character, and the parts of keys are as \<open>key_wf\<close> says. Records of DIDs, whose paths are digests, and rich schema
  objects, whose ids are free text and may be one of these paths (\<open>rich_object_blocks_schema\<close>), are not among them.
\<close>

theorem domain_paths_injective:
  assumes "key_wf k" "key_wf k'" "key_path k = key_path k'"
  shows "k = k'"
proof -
  have head: "before_colon (key_path k) = before_colon (key_path k')"
    and tail: "after_colon (key_path k) = after_colon (key_path k')"
    using assms(3) by simp_all
  show ?thesis
    using head tail assms(1,2)
    unfolding key_path_head [OF assms(1)] key_path_head [OF assms(2)] key_path_tail [OF assms(1)] key_path_tail [OF assms(2)]
    by (cases k; cases k') (auto simp: did_like_def colon_inject)
qed

theorem domain_paths_injective_witness:
  "key_path (SchemaKey ''V4SG'' ''a:b'' ''1.0'') \<noteq> key_path (SchemaKey ''V4SG'' ''a'' ''2.0'')
   \<and> key_path (SchemaKey ''V4SG'' ''a'' ''1.0'') \<noteq> key_path (ClaimDefKey ''V4SG'' ''CL'' ''12'' ''a'')"
  using domain_paths_injective [of "SchemaKey ''V4SG'' ''a:b'' ''1.0''" "SchemaKey ''V4SG'' ''a'' ''2.0''"]
    domain_paths_injective [of "SchemaKey ''V4SG'' ''a'' ''1.0''" "ClaimDefKey ''V4SG'' ''CL'' ''12'' ''a''"]
  by (auto simp: did_like_def colon_free_def)

section \<open>Stored values\<close>

text \<open>What \<open>get_from_state\<close> finds at a path after a write: the decoded value.\<close>

lemma decode_encode:
  "deser (ser (PyDict [(''lsn'', n), (''lut'', t), (''val'', v)])) = PyDict [(''lsn'', n), (''lut'', t), (''val'', v)] \<Longrightarrow>
    decode_state_value deser (encode_state_value ser v n t) = Inr (v, n, t)"
  by (simp add: decode_state_value_def encode_state_value_def dict_get_def)

text \<open>The validator under the default rules, with the roles of the identity cache.\<close>

abbreviation default_validator ::
  "('s, 'b) kv_ops \<Rightarrow> 'b rlp_ops \<Rightarrow> 's \<Rightarrow> (request \<Rightarrow> string) \<Rightarrow> request \<Rightarrow> auth_action list \<Rightarrow> bool option res" where
  "default_validator kv rlp s fmt \<equiv>
     validate fmt default_authorizers (\<lambda>d. getRole kv rlp s d False) (local_get_auth_constraint auth_map)"

section \<open>Schemas\<close>

lemma schema_edit_refused:
  assumes "reads (\<lambda>d. getRole kv rlp s d False) ro" "req_identifier req = Some d"
    and "get_write_schema_name req = Inr n" "get_write_schema_version req = Inr v"
    and "gfs (make_state_path_for_schema (PyStr d) n v) = Inr (obj, m, u)" "truthy obj"
  shows "\<exists>reason. schema_dynamic_validation gfs (default_validator kv rlp s fmt) req
    = Inl (UnauthorizedClientRequest (Some d) (reqId req) reason)"
proof -
  let ?a = "AuthActionEdit SCHEMA ''*'' ''*'' ''*'' True"
  have safe: "action_safe ?a" by code_simp
  have "default_in_force ?a = Some AuthConstraintForbidden" by (rule default_immutable) simp
  then have force: "(Inr (default_in_force ?a) :: constraint option res) = Inr (Some AuthConstraintForbidden)" by simp
  from local_strategy.validate_first [OF assms(1,2) safe force, of fmt "[]"]
  obtain reason where refused: "default_validator kv rlp s fmt req [?a] = Inl (UnauthorizedClientRequest (Some d) (reqId req) reason)"
    by auto
  have "mk_AuthActionEdit SCHEMA (PyStr ''*'') (PyStr ''*'') (PyStr ''*'') True = ?a"
    by (simp add: mk_AuthActionEdit_def str_or_empty_def)
  with refused assms(3-6) show ?thesis
    by (simp add: schema_dynamic_validation_def assms(2) del: validate.simps)
qed

text \<open>
  C12: A schema is written once. When the state has the record that \<open>update_state\<close> wrote for a schema, every
  further schema request of the same author with the same name and version is refused as unauthorized under
  the default rules, whoever signs it and whatever attribute names it has.
\<close>

theorem schema_written_once:
  assumes "reads (\<lambda>d. getRole kv rlp s d False) ro" "\<And>v. deser (ser v) = v"
    and "schema_update_state ser t = Inr (path, bytes)" "gfs path = decode_state_value deser bytes"
    and "req_identifier req = Some d" "get_from t = Some d"
    and "get_write_schema_name req = get_txn_schema_name t" "get_write_schema_version req = get_txn_schema_version t"
  shows "\<exists>reason. schema_dynamic_validation gfs (default_validator kv rlp s fmt) req
    = Inl (UnauthorizedClientRequest (Some d) (reqId req) reason)"
proof -
  obtain n v attrs where t: "get_txn_schema_name t = Inr n" "get_txn_schema_version t = Inr v"
      "path = make_state_path_for_schema (PyStr d) n v"
      "bytes = encode_state_value ser (PyDict [(SCHEMA_ATTR_NAMES, attrs)]) (opt_int_val (get_seq_no t)) (opt_int_val (get_txn_time t))"
    using assms(3,6)
    by (auto simp: schema_update_state_def prepare_schema_for_state_def schema_path_def rbind_Inr_iff)
  then have "gfs (make_state_path_for_schema (PyStr d) n v)
      = Inr (PyDict [(SCHEMA_ATTR_NAMES, attrs)], opt_int_val (get_seq_no t), opt_int_val (get_txn_time t))"
    using assms(2,4) decode_encode [of deser ser] by simp
  from schema_edit_refused [where gfs = gfs, OF assms(1,5) _ _ this] show ?thesis using assms(7,8) t(1,2) by simp
qed

definition ex_schema_txn :: txn where
  "ex_schema_txn = \<lparr>get_type = SCHEMA,
     get_payload_data = [(''data'', PyDict [(''name'', PyStr ''degree''), (''version'', PyStr ''1.0''), (''attr_names'', PyList [PyStr ''year''])])],
     get_from = Some ''T1'', get_req_id = 5, get_seq_no = Some 31, get_txn_time = Some 1600000001\<rparr>"

definition ex_schema_request :: request where
  "ex_schema_request = ex_nym_request ''T1''
     [(''data'', PyDict [(''name'', PyStr ''degree''), (''version'', PyStr ''1.0''), (''attr_names'', PyList [PyStr ''other''])])]"

definition ex_gfs :: "(string \<times> pyval) list \<Rightarrow> string \<Rightarrow> (pyval \<times> pyval \<times> pyval) res" where
  "ex_gfs st path = (case map_of st path of None \<Rightarrow> Inr (PyNone, PyNone, PyNone) | Some v \<Rightarrow> decode_state_value id v)"

theorem schema_written_once_witness:
  "\<exists>path v reason. schema_update_state id ex_schema_txn = Inr (path, v)
    \<and> schema_dynamic_validation (ex_gfs [(path, v)]) (default_validator ex_kv ex_rlp ex_store (\<lambda>r. [])) ex_schema_request
      = Inl (UnauthorizedClientRequest (Some ''T1'') 3 reason)"
proof -
  have "\<exists>path v. schema_update_state id ex_schema_txn = Inr (path, v)"
    by (simp add: schema_update_state_def prepare_schema_for_state_def schema_path_def ex_schema_txn_def get_txn_schema_name_def
        get_txn_schema_version_def get_txn_schema_attr_names_def dict_index_def)
  then obtain path v where w: "schema_update_state id ex_schema_txn = Inr (path, v)" by blast
  have "\<exists>reason. schema_dynamic_validation (ex_gfs [(path, v)]) (default_validator ex_kv ex_rlp ex_store (\<lambda>r. [])) ex_schema_request
      = Inl (UnauthorizedClientRequest (Some ''T1'') (reqId ex_schema_request) reason)"
    by (rule schema_written_once [OF ex_store_reads, where ser = id and deser = id and t = ex_schema_txn and path = path and bytes = v])
      (rule w | simp add: ex_gfs_def ex_schema_request_def ex_nym_request_def ex_schema_txn_def get_write_schema_name_def
        get_txn_schema_name_def get_write_schema_version_def get_txn_schema_version_def dict_index_def)+
  with w show ?thesis by (auto simp: ex_schema_request_def ex_nym_request_def)
qed

section \<open>Claim definitions and revocation registries\<close>

lemma claim_def_schema_found:
  assumes "claim_def_dynamic_validation by_seq_no gfs wrv req = Inr ()"
  shows "\<exists>ref. dict_index (operation req) CLAIM_DEF_SCHEMA_REF = Inr ref \<and> by_seq_no ref = Inr SCHEMA"
proof -
  from assms obtain ref where ref: "dict_index (operation req) CLAIM_DEF_SCHEMA_REF = Inr ref"
    by (auto simp: claim_def_dynamic_validation_def rbind_Inr_iff)
  show ?thesis
  proof (cases "by_seq_no ref")
    case (Inl e)
    with assms ref show ?thesis by (cases e) (simp_all add: claim_def_dynamic_validation_def refuse_def)
  next
    case (Inr ty)
    with assms ref show ?thesis by (auto simp: claim_def_dynamic_validation_def refuse_def split: if_splits)
  qed
qed

text \<open>
  C15: A validated claim definition refers to a schema on the ledger. Its record is stored at a path made of
  the author, that schema reference, the signature type and the tag, and reading it gives back the public keys.
\<close>

theorem claim_def_refers_to_schema:
  assumes "claim_def_dynamic_validation by_seq_no gfs wrv req = Inr ()" "\<And>v. deser (ser v) = v"
    and "claim_def_update_state ser t = Inr (path, bytes)"
    and "get_payload_data t = operation req" "get_from t = req_identifier req"
  shows "\<exists>ref keys. by_seq_no ref = Inr SCHEMA \<and> dict_index (operation req) CLAIM_DEF_SCHEMA_REF = Inr ref
    \<and> dict_index (operation req) CLAIM_DEF_PUBLIC_KEYS = Inr keys
    \<and> path = make_state_path_for_claim_def (did_val (req_identifier req)) ref
        (get_write_claim_def_signature_type req) (get_write_claim_def_tag req)
    \<and> decode_state_value deser bytes = Inr (keys, opt_int_val (get_seq_no t), opt_int_val (get_txn_time t))"
proof -
  obtain ref where ref: "dict_index (operation req) CLAIM_DEF_SCHEMA_REF = Inr ref" "by_seq_no ref = Inr SCHEMA"
    using claim_def_schema_found [OF assms(1)] by blast
  from assms(3) ref(1) obtain keys where keys: "dict_index (operation req) CLAIM_DEF_PUBLIC_KEYS = Inr keys"
      "path = make_state_path_for_claim_def (did_val (req_identifier req)) ref
        (get_write_claim_def_signature_type req) (get_write_claim_def_tag req)"
      "bytes = encode_state_value ser keys (opt_int_val (get_seq_no t)) (opt_int_val (get_txn_time t))"
    by (auto simp: claim_def_update_state_def prepare_claim_def_for_state_def claim_def_path_def rbind_Inr_iff
        get_txn_claim_def_schema_ref_def get_txn_claim_def_public_keys_def get_txn_claim_def_signature_type_def
        get_txn_claim_def_tag_def get_write_claim_def_signature_type_def get_write_claim_def_tag_def assms(4,5) split: if_splits)
  have "decode_state_value deser bytes = Inr (keys, opt_int_val (get_seq_no t), opt_int_val (get_txn_time t))"
    unfolding keys(3) by (rule decode_encode) (rule assms(2))
  with ref keys(1,2) show ?thesis by blast
qed

definition ex_claim_def :: dict where
  "ex_claim_def = [(''type'', PyStr CLAIM_DEF), (''ref'', PyInt 31), (''data'', PyDict [(''primary'', PyStr ''k'')]), (''tag'', PyStr ''t'')]"

theorem claim_def_refers_to_schema_witness:
  "\<exists>path v. claim_def_update_state id (ex_nym_txn ex_claim_def) = Inr (path, v)
    \<and> decode_state_value id v = Inr (PyDict [(''primary'', PyStr ''k'')], PyInt 30, PyInt 1600000000)"
proof -
  let ?seq = "\<lambda>n. if n = PyInt 31 then Inr SCHEMA else Inl (KeyError [])"
  have "claim_def_dynamic_validation ?seq (ex_gfs []) (\<lambda>r as. Inr None) (ex_nym_request ''T1'' ex_claim_def) = Inr ()"
    by (simp add: claim_def_dynamic_validation_def ex_nym_request_def ex_claim_def_def dict_index_def ex_gfs_def
        get_write_claim_def_schema_ref_def)
  moreover have "\<exists>path v. claim_def_update_state id (ex_nym_txn ex_claim_def) = Inr (path, v)"
    by (simp add: claim_def_update_state_def prepare_claim_def_for_state_def claim_def_path_def dict_index_def ex_nym_txn_def
        get_txn_claim_def_schema_ref_def get_txn_claim_def_public_keys_def ex_claim_def_def)
  then obtain path v where w: "claim_def_update_state id (ex_nym_txn ex_claim_def) = Inr (path, v)" by blast
  ultimately have "\<exists>keys. dict_index ex_claim_def CLAIM_DEF_PUBLIC_KEYS = Inr keys
      \<and> decode_state_value id v = Inr (keys, PyInt 30, PyInt 1600000000)"
    using claim_def_refers_to_schema [of ?seq "ex_gfs []" "\<lambda>r as. Inr None" "ex_nym_request ''T1'' ex_claim_def" id id
        "ex_nym_txn ex_claim_def" path v]
    by (auto simp: ex_nym_request_def ex_nym_txn_def)
  with w show ?thesis by (auto simp: ex_claim_def_def dict_index_def)
qed

section \<open>Attributes\<close>

lemma owner_only:
  assumes "reads gr ro" "req_identifier req = Some d" "action_safe a" "default_in_force a = Some owner_constraint"
    and "validate fmt default_authorizers gr (local_get_auth_constraint auth_map) req [a] = Inr r"
  shows "act_is_owner a"
  using local_strategy.validate_accepts [OF assms(1-3), of fmt "[]" r] assms(4,5)
  by (auto simp: owner_constraint_def role_satisfied_def simp del: validate.simps)

lemma default_attribute:
  "default_in_force (AuthActionAdd ATTRIB f v own) = Some owner_constraint"
  "default_in_force (AuthActionEdit ATTRIB f old v own) = Some owner_constraint"
  by (simp_all add: rule_eval)

text \<open>
  C13: Under the default rules an attribute of a DID is added or changed only by the owner of the DID in the
  identity cache.
\<close>

theorem attribute_by_owner:
  assumes "reads (\<lambda>d. getRole kv rlp s d False) ro" "req_identifier req = Some d"
    and "map_of (operation req) TARGET_NYM = Some (PyStr dest)" "attr_field (operation req) = Some (f, v)"
    and "id_safe (str_or_empty v)"
    and "\<And>key old n t. get_attr sha gfs attr_get (PyStr dest) key f = Inr (old, n, t) \<Longrightarrow> id_safe (str_or_empty old)"
    and "attr_dynamic_validation sha loads gfs attr_get kv rlp s (default_validator kv rlp s fmt) req = Inr ()"
  shows "getOwnerFor kv rlp s dest False = Inr (Some d)"
proof -
  let ?wrv = "default_validator kv rlp s fmt"
  from assms(3,4,7) obtain owner key old n t where owner: "getOwnerFor kv rlp s dest False = Inr owner"
    and old: "get_attr sha gfs attr_get (PyStr dest) key f = Inr (old, n, t)"
    and accepted: "(\<exists>r. ?wrv req [mk_AuthActionEdit ATTRIB (PyStr f) old v (owner = Some d)] = Inr r)
      \<or> (\<exists>r. ?wrv req [mk_AuthActionAdd ATTRIB (PyStr f) v (owner = Some d)] = Inr r)"
    by (auto simp: attr_dynamic_validation_def rbind_Inr_iff dict_index_def Let_def refuse_def assms(2)
        simp del: validate.simps split: if_splits)
  have f: "id_safe f"
  proof -
    have "f \<in> {RAW, ENC, HASH}" using assms(4) by (auto simp: attr_field_def split: if_splits)
    moreover have "\<forall>f\<in>{RAW, ENC, HASH}. id_safe f" by code_simp
    ultimately show ?thesis by blast
  qed
  have attrib: "id_safe ATTRIB" by code_simp
  have str: "str_or_empty (PyStr f) = f" by (simp add: str_or_empty_def)
  note safe = f attrib assms(5) assms(6) [OF old]
  have "owner = Some d"
    using accepted
  proof (elim disjE exE)
    fix r assume "?wrv req [mk_AuthActionEdit ATTRIB (PyStr f) old v (owner = Some d)] = Inr r"
    from owner_only [OF assms(1,2) _ _ this] show ?thesis
      using safe by (simp add: mk_AuthActionEdit_def str action_safe_def default_attribute)
  next
    fix r assume "?wrv req [mk_AuthActionAdd ATTRIB (PyStr f) v (owner = Some d)] = Inr r"
    from owner_only [OF assms(1,2) _ _ this] show ?thesis
      using safe by (simp add: mk_AuthActionAdd_def str action_safe_def default_attribute)
  qed
  with owner show ?thesis by simp
qed

text \<open>
  Of an attribute the ledger gets the hash only, and that hash is the key of the attribute store and the
  value in the state: after \<open>transform_txn_for_ledger\<close> the field of a raw or encrypted attribute holds the
  digest under which \<open>update_state\<close> puts the data into the attribute store and which it writes into the state;
  every other field of the transaction is as before.
\<close>

theorem attribute_hash_on_ledger:
  assumes "attr_update_state sha ser_text ser loads dumps t = Inr ((path, bytes), stored)"
    and "transform_txn_for_ledger sha ser_text loads dumps t = Inr t'" "extract_attr_typed_value (get_payload_data t) = Inr (f, v)"
    and "\<And>w. deser (ser w) = w"
  shows "\<exists>h. decode_state_value deser bytes = Inr (PyStr h, opt_int_val (get_seq_no t), opt_int_val (get_txn_time t))
    \<and> (f \<in> {RAW, ENC} \<longrightarrow> (\<exists>data. stored = Some (h, data) \<and> (truthy data \<longrightarrow> h = hash_of sha ser_text data))
         \<and> dict_get (get_payload_data t') f = PyStr h)
    \<and> (f = HASH \<longrightarrow> stored = None \<and> h = [] \<and> t' = t)
    \<and> (\<forall>k. k \<noteq> f \<longrightarrow> dict_get (get_payload_data t') k = dict_get (get_payload_data t) k)"
proof -
  from assms(1) obtain ty key data where parsed: "parse_attr_txn loads dumps (get_payload_data t) = Inr (ty, key, data)"
    and state: "bytes = encode_state_value ser (PyStr (if truthy data then hash_of sha ser_text data else []))
        (opt_int_val (get_seq_no t)) (opt_int_val (get_txn_time t))"
      "stored = (if ty \<noteq> HASH then Some (if truthy data then hash_of sha ser_text data else [], data) else None)"
    by (auto simp: attr_update_state_def prepare_attr_for_state_def rbind_Inr_iff Let_def)
  have ty: "ty = f" and kind: "f \<in> {RAW, ENC, HASH}" and none: "f = HASH \<Longrightarrow> data = PyNone"
    using parsed assms(3)
    by (auto simp: parse_attr_txn_def extract_attr_typed_value_def ALL_ATR_KEYS_def rbind_Inr_iff dict_index_def
        split: if_splits list.splits)
  have t': "t' = (if f \<in> {RAW, ENC} then t\<lparr>get_payload_data := dict_set (get_payload_data t) f
      (PyStr (if truthy data then hash_of sha ser_text data else []))\<rparr> else t)"
    using assms(2) parsed ty by (simp add: transform_txn_for_ledger_def)
  have "decode_state_value deser bytes = Inr (PyStr (if truthy data then hash_of sha ser_text data else []),
      opt_int_val (get_seq_no t), opt_int_val (get_txn_time t))"
    unfolding state(1) by (rule decode_encode) (rule assms(4))
  with state(2) ty kind none t' show ?thesis by auto
qed

definition ex_loads :: "pyval \<Rightarrow> pyval res" where
  "ex_loads v = (case v of
     PyStr t \<Rightarrow> if t = ''{n:1}'' then Inr (PyDict [(''n'', PyInt 1)])
                else if t = ''{a:1,b:2}'' then Inr (PyDict [(''a'', PyInt 1), (''b'', PyInt 2)])
                else Inl JSONDecodeError
   | _ \<Rightarrow> Inl (TypeError ''loads''))"

definition ex_attr :: "string \<Rightarrow> dict" where
  "ex_attr raw = [(''type'', PyStr ATTRIB), (''dest'', PyStr ''O1''), (''raw'', PyStr raw)]"

definition ex_attr_txn :: "string \<Rightarrow> txn" where
  "ex_attr_txn raw = (ex_nym_txn (ex_attr raw))\<lparr>get_type := ATTRIB\<rparr>"

lemma ex_attr_parts:
  "attr_field (ex_attr raw) = Some (RAW, PyStr raw)" "dict_get (ex_attr raw) TARGET_NYM = PyStr ''O1''"
  "dict_index (ex_attr raw) TARGET_NYM = Inr (PyStr ''O1'')" "map_of (ex_attr raw) TARGET_NYM = Some (PyStr ''O1'')"
  "extract_attr_typed_value (ex_attr raw) = Inr (RAW, PyStr raw)"
  by (simp_all add: attr_field_def ex_attr_def dict_in_def dict_get_def dict_index_def extract_attr_typed_value_def ALL_ATR_KEYS_def)

lemma ex_request_parts: "operation (ex_nym_request d op) = op" "req_identifier (ex_nym_request d op) = Some d"
  by (simp_all add: ex_nym_request_def)

theorem attribute_by_owner_witness: "getOwnerFor ex_kv ex_rlp ex_store ''O1'' False = Inr (Some ''O1'')"
proof (rule attribute_by_owner [OF ex_store_reads, where req = "ex_nym_request ''O1'' (ex_attr ''{n:1}'')" and sha = id
      and gfs = "ex_gfs []" and attr_get = "\<lambda>h. Inr PyNone" and loads = ex_loads and fmt = "\<lambda>r. []" and f = RAW])
  let ?req = "ex_nym_request ''O1'' (ex_attr ''{n:1}'')"
  let ?a = "AuthActionAdd ATTRIB RAW ''{n:1}'' True"
  have safe: "action_safe ?a" by code_simp
  have "satisfied ex_store_roles ?req ?a owner_constraint"
    by (simp add: owner_constraint_def role_satisfied_def endorsed_def sig_counts_def is_role_accepted_def ex_store_roles_def
        ex_nym_request_def has_signature_def sigs_def is_off_ledger_def)
  then have "default_validator ex_kv ex_rlp ex_store (\<lambda>r. []) ?req [?a] = Inr (Some True)"
    using local_strategy.validate_accepts [OF ex_store_reads _ safe, of ?req "''O1''" "\<lambda>r. []" "[]" "Some True"]
    by (simp add: default_attribute ex_nym_request_def del: validate.simps)
  then show "attr_dynamic_validation id ex_loads (ex_gfs []) (\<lambda>h. Inr PyNone) ex_kv ex_rlp ex_store
      (default_validator ex_kv ex_rlp ex_store (\<lambda>r. [])) ?req = Inr ()"
    by (simp add: attr_dynamic_validation_def Let_def ex_request_parts ex_attr_parts hasNym_def hasNymWithRole_def getNym_def
        getOwnerFor_def ex_fields text_or_None_def ex_loads_def get_attr_def ex_gfs_def mk_AuthActionAdd_def str_or_empty_def
        py_assert_def del: validate.simps)
next
  show "id_safe (str_or_empty (PyStr ''{n:1}''))" by code_simp
qed (auto simp: ex_request_parts ex_attr_parts ex_gfs_def get_attr_def str_or_empty_def rbind_Inr_iff)

lemma ex_attr_txn_parts:
  "get_type (ex_attr_txn raw) = ATTRIB" "get_payload_data (ex_attr_txn raw) = ex_attr raw"
  "get_seq_no (ex_attr_txn raw) = Some 30" "get_txn_time (ex_attr_txn raw) = Some 1600000000"
  by (simp_all add: ex_attr_txn_def ex_nym_txn_def)

lemma ex_attr_update:
  "\<exists>path v stored. attr_update_state rev py_str id ex_loads (\<lambda>v. ''dump'') (ex_attr_txn ''{n:1}'') = Inr ((path, v), stored)"
  "\<exists>t'. transform_txn_for_ledger rev py_str ex_loads (\<lambda>v. ''dump'') (ex_attr_txn ''{n:1}'') = Inr t'"
  by (simp_all add: attr_update_state_def prepare_attr_for_state_def transform_txn_for_ledger_def ex_attr_txn_parts ex_attr_parts
      parse_attr_txn_def ex_loads_def Let_def py_assert_def)

theorem attribute_hash_on_ledger_witness:
  "\<exists>path v h data t'. attr_update_state rev py_str id ex_loads (\<lambda>v. ''dump'') (ex_attr_txn ''{n:1}'') = Inr ((path, v), Some (h, data))
    \<and> transform_txn_for_ledger rev py_str ex_loads (\<lambda>v. ''dump'') (ex_attr_txn ''{n:1}'') = Inr t'
    \<and> dict_get (get_payload_data t') RAW = PyStr h"
proof -
  obtain path v stored t' where u: "attr_update_state rev py_str id ex_loads (\<lambda>v. ''dump'') (ex_attr_txn ''{n:1}'') = Inr ((path, v), stored)"
    and l: "transform_txn_for_ledger rev py_str ex_loads (\<lambda>v. ''dump'') (ex_attr_txn ''{n:1}'') = Inr t'"
    using ex_attr_update by blast
  from attribute_hash_on_ledger [OF u l, of RAW "PyStr ''{n:1}''" id] u l show ?thesis
    by (auto simp: ex_attr_txn_parts ex_attr_parts)
qed

lemma extract_attr_field:
  assumes "extract_attr_typed_value opn = Inr z"
  shows "attr_field opn = Some z"
proof -
  let ?ks = "filter (\<lambda>k. dict_in k opn) [RAW, ENC, HASH]"
  show ?thesis
  proof (cases ?ks)
    case (Cons k ks)
    with assms have "ks = []" "dict_index opn k = Inr (snd z)" "fst z = k"
      by (auto simp: extract_attr_typed_value_def ALL_ATR_KEYS_def rbind_Inr_iff simp del: filter.simps split: list.splits)
    with Cons show ?thesis
      by (cases z) (simp add: attr_field_def dict_index_def dict_get_def del: filter.simps split: option.splits)
  qed (use assms in \<open>simp add: extract_attr_typed_value_def ALL_ATR_KEYS_def del: filter.simps\<close>)
qed

lemma encodable_Inr: "encodable v = Inr n \<longleftrightarrow> v = PyStr n"
  by (cases v) simp_all

text \<open>
  Of a raw attribute with several keys the handler checks one path and writes another: validation looks at
  the record of the first key, \<open>update_state\<close> writes the record of the last key. Hence whatever the state holds
  at the written path, validation answers the same. The handlers alone do not exclude such attributes; the
  message type of the operation does.
\<close>

theorem raw_attribute_checks_other_path:
  assumes "attr_update_state sha ser_text ser loads dumps t = Inr ((path, bytes), stored)"
    and "get_payload_data t = operation req" "attr_field (operation req) = Some (RAW, v)" "loads v = Inr (PyDict ((k, x) # d))" "d \<noteq> []"
    and "dict_get (operation req) TARGET_NYM = PyStr dest" "sha k \<noteq> sha (fst (last d))"
  shows "path = make_state_path_for_attr sha (PyStr dest) (fst (last d)) False
    \<and> attr_dynamic_validation sha loads (gfs(path := r)) attr_get kv rlp s wrv req
      = attr_dynamic_validation sha loads gfs attr_get kv rlp s wrv req"
proof -
  have dest: "dict_index (operation req) TARGET_NYM = Inr (PyStr dest)"
    using assms(6) by (auto simp: dict_get_def dict_index_def split: option.splits)
  obtain ty key val n where parsed: "parse_attr_txn loads dumps (operation req) = Inr (ty, key, val)"
    and path: "path = make_state_path_for_attr sha (PyStr dest) n (ty = HASH)"
      "(if ty = HASH then Inr (py_str key) else encodable key) = Inr n"
    using assms(1,2) dest by (auto simp: attr_update_state_def prepare_attr_for_state_def rbind_Inr_iff Let_def)
  have "ty = RAW \<and> key = PyStr (fst (last d))"
    using parsed assms(3,4,5) by (auto simp: parse_attr_txn_def rbind_Inr_iff dest!: extract_attr_field split: if_splits)
  with path have written: "path = make_state_path_for_attr sha (PyStr dest) (fst (last d)) False" by simp
  then have other: "path \<noteq> make_state_path_for_attr sha (PyStr dest) k False"
    using assms(7) by (simp add: make_state_path_for_attr_def)
  then have same: "get_attr sha (gfs(path := r)) attr_get (PyStr dest) (PyStr k) RAW = get_attr sha gfs attr_get (PyStr dest) (PyStr k) RAW"
    by (simp add: get_attr_def)
  have "attr_dynamic_validation sha loads (gfs(path := r)) attr_get kv rlp s wrv req
      = attr_dynamic_validation sha loads gfs attr_get kv rlp s wrv req"
    by (simp add: attr_dynamic_validation_def assms(3,4,6) dest Let_def same cong: if_cong)
  with written show ?thesis by blast
qed

theorem raw_attribute_checks_other_path_witness:
  "\<exists>path v stored. attr_update_state rev py_str id ex_loads (\<lambda>v. ''dump'') (ex_attr_txn ''{a:1,b:2}'') = Inr ((path, v), stored)
    \<and> path = make_state_path_for_attr rev (PyStr ''O1'') ''b'' False
    \<and> attr_dynamic_validation rev ex_loads ((ex_gfs [])(path := Inr (PyStr ''h'', PyInt 1, PyInt 2))) (\<lambda>h. Inr PyNone) ex_kv ex_rlp ex_store
        (\<lambda>r as. Inr None) (ex_nym_request ''O1'' (ex_attr ''{a:1,b:2}''))
      = attr_dynamic_validation rev ex_loads (ex_gfs []) (\<lambda>h. Inr PyNone) ex_kv ex_rlp ex_store
        (\<lambda>r as. Inr None) (ex_nym_request ''O1'' (ex_attr ''{a:1,b:2}''))"
proof -
  have "\<exists>path v stored. attr_update_state rev py_str id ex_loads (\<lambda>v. ''dump'') (ex_attr_txn ''{a:1,b:2}'') = Inr ((path, v), stored)"
    by (simp add: attr_update_state_def prepare_attr_for_state_def ex_attr_txn_parts ex_attr_parts parse_attr_txn_def ex_loads_def
        Let_def py_assert_def)
  then obtain path v stored where u:
    "attr_update_state rev py_str id ex_loads (\<lambda>v. ''dump'') (ex_attr_txn ''{a:1,b:2}'') = Inr ((path, v), stored)" by blast
  have "path = make_state_path_for_attr rev (PyStr ''O1'') (fst (last [(''b'', PyInt 2)])) False
    \<and> attr_dynamic_validation rev ex_loads ((ex_gfs [])(path := Inr (PyStr ''h'', PyInt 1, PyInt 2))) (\<lambda>h. Inr PyNone) ex_kv ex_rlp ex_store
        (\<lambda>r as. Inr None) (ex_nym_request ''O1'' (ex_attr ''{a:1,b:2}''))
      = attr_dynamic_validation rev ex_loads (ex_gfs []) (\<lambda>h. Inr PyNone) ex_kv ex_rlp ex_store
        (\<lambda>r as. Inr None) (ex_nym_request ''O1'' (ex_attr ''{a:1,b:2}''))"
    by (rule raw_attribute_checks_other_path [OF u, where v = "PyStr ''{a:1,b:2}''" and k = "''a''" and x = "PyInt 1"])
      (simp_all add: ex_attr_txn_parts ex_attr_parts ex_request_parts, simp add: ex_loads_def)
  with u show ?thesis by auto
qed

section \<open>Revocation registry entries\<close>

lemma str_or_empty_simps: "str_or_empty (PyStr t) = t"
  by (simp add: str_or_empty_def)

lemma default_revoc_entry:
  "default_in_force (AuthActionAdd REVOC_REG_ENTRY ''*'' ''*'' own) = Some endorser_or_steward_or_trustee_owner_constraint"
  "default_in_force (AuthActionEdit REVOC_REG_ENTRY ''*'' ''*'' ''*'' own) = Some owner_constraint"
  by (simp_all add: rule_eval)

lemma owner_constraints_need_owner:
  "satisfied ro req a owner_constraint \<Longrightarrow> act_is_owner a"
  "satisfied ro req a endorser_or_steward_or_trustee_owner_constraint \<Longrightarrow> act_is_owner a"
  by (auto simp: owner_constraint_def endorser_or_steward_or_trustee_owner_constraint_def role_satisfied_def)

text \<open>
  C14: Under the default rules an entry of a revocation registry is added or changed only by the DID that the
  id of the registry starts with, only for a registry whose definition is in the state, and only if the
  strategy that the definition's issuance type selects accepts the change against the current entry.
\<close>

theorem revoc_entry_by_registry_owner:
  assumes "reads (\<lambda>d. getRole kv rlp s d False) ro" "req_identifier req = Some d"
    and "revoc_entry_dynamic_validation gfs (default_validator kv rlp s fmt) req = Inr ()"
  shows "\<exists>reg entry rdef strat. dict_index (operation req) REVOC_REG_DEF_ID = Inr (PyStr reg)
    \<and> py_first_field (CHR '':'') reg = d \<and> rdef \<noteq> PyNone \<and> (\<exists>n t. gfs reg = Inr (rdef, n, t))
    \<and> (\<exists>n t. gfs (make_state_path_for_revoc_reg_entry (PyStr reg)) = Inr (entry, n, t))
    \<and> strategy_of rdef = Inr strat \<and> strategy_validate strat entry req = Inr ()"
proof -
  let ?wrv = "default_validator kv rlp s fmt"
  from assms(3) obtain rid where rid: "dict_index (operation req) REVOC_REG_DEF_ID = Inr rid"
    by (auto simp: revoc_entry_dynamic_validation_def rbind_Inr_iff)
  with assms(3) obtain reg where "rid = PyStr reg"
    by (cases rid) (auto simp: revoc_entry_dynamic_validation_def rbind_Inr_iff)
  with assms(3) rid obtain entry rdef strat where reg: "dict_index (operation req) REVOC_REG_DEF_ID = Inr (PyStr reg)"
    and cur: "get_current_revoc_entry_and_revoc_def gfs (Some d) (PyStr reg) (reqId req) = Inr (entry, rdef)"
    and auth: "(\<exists>r. ?wrv req [mk_AuthActionEdit REVOC_REG_ENTRY (PyStr ''*'') (PyStr ''*'') (PyStr ''*'') (py_first_field (CHR '':'') reg = d)] = Inr r)
      \<or> (\<exists>r. ?wrv req [mk_AuthActionAdd REVOC_REG_ENTRY (PyStr ''*'') (PyStr ''*'') (py_first_field (CHR '':'') reg = d)] = Inr r)"
    and strat: "strategy_of rdef = Inr strat" "strategy_validate strat entry req = Inr ()"
    by (auto simp: revoc_entry_dynamic_validation_def rbind_Inr_iff Let_def assms(2) simp del: validate.simps split: if_splits)
  have own: "py_first_field (CHR '':'') reg = d"
    if "?wrv req [a] = Inr r" "action_safe a" "act_is_owner a = (py_first_field (CHR '':'') reg = d)"
      "default_in_force a \<in> {Some owner_constraint, Some endorser_or_steward_or_trustee_owner_constraint}" for a r
  proof -
    have "act_is_owner a"
      using local_strategy.validate_accepts [OF assms(1,2) that(2), of fmt "[]" r] that(1,4)
      by (auto simp del: validate.simps intro: owner_constraints_need_owner)
    with that(3) show ?thesis by simp
  qed
  have "id_safe REVOC_REG_ENTRY" by code_simp
  then have safe: "action_safe (AuthActionAdd REVOC_REG_ENTRY ''*'' ''*'' b)" "action_safe (AuthActionEdit REVOC_REG_ENTRY ''*'' ''*'' ''*'' b)" for b
    by (simp_all add: action_safe_def)
  have first: "py_first_field (CHR '':'') reg = d"
    using auth unfolding mk_AuthActionAdd_def mk_AuthActionEdit_def str_or_empty_simps
  proof (elim disjE exE)
    show ?thesis if "?wrv req [AuthActionEdit REVOC_REG_ENTRY ''*'' ''*'' ''*'' (py_first_field (CHR '':'') reg = d)] = Inr r" for r
      by (rule own [OF that]) (simp_all add: safe default_revoc_entry)
    show ?thesis if "?wrv req [AuthActionAdd REVOC_REG_ENTRY ''*'' ''*'' (py_first_field (CHR '':'') reg = d)] = Inr r" for r
      by (rule own [OF that]) (simp_all add: safe default_revoc_entry)
  qed
  have "rdef \<noteq> PyNone \<and> (\<exists>n t. gfs reg = Inr (rdef, n, t)) \<and> (\<exists>n t. gfs (make_state_path_for_revoc_reg_entry (PyStr reg)) = Inr (entry, n, t))"
    using cur by (auto simp: get_current_revoc_entry_and_revoc_def_def rbind_Inr_iff split: if_splits sum.splits exn.splits)
  with reg first strat show ?thesis by blast
qed

definition ex_registry_entry :: dict where
  "ex_registry_entry = [(''revocRegDefId'', PyStr ''O1:4:c''),
     (''value'', PyDict [(''accum'', PyStr ''a1''), (''issued'', PyList []), (''revoked'', PyList [PyInt 3, PyInt 5])])]"

definition ex_registry_update :: dict where
  "ex_registry_update = [(''revocRegDefId'', PyStr ''O1:4:c''),
     (''value'', PyDict [(''prevAccum'', PyStr ''a1''), (''accum'', PyStr ''a2''), (''issued'', PyList [PyInt 3]),
       (''revoked'', PyList [PyInt 8])])]"

definition ex_registry_state :: "string \<Rightarrow> (pyval \<times> pyval \<times> pyval) res" where
  "ex_registry_state p =
     (if p = ''O1:4:c'' then Inr (PyDict [(''value'', PyDict [(''issuanceType'', PyStr ''ISSUANCE_BY_DEFAULT'')])], PyInt 1, PyInt 2)
      else if p = ''5:O1:4:c'' then Inr (PyDict ex_registry_entry, PyInt 3, PyInt 4) else Inr (PyNone, PyNone, PyNone))"

theorem revoc_entry_by_registry_owner_witness:
  "\<exists>strat. strategy_validate strat (PyDict ex_registry_entry) (ex_nym_request ''O1'' ex_registry_update) = Inr ()"
proof -
  let ?req = "ex_nym_request ''O1'' ex_registry_update"
  let ?a = "AuthActionEdit REVOC_REG_ENTRY ''*'' ''*'' ''*'' True"
  have safe: "action_safe ?a" by code_simp
  have "satisfied ex_store_roles ?req ?a owner_constraint"
    by (simp add: owner_constraint_def role_satisfied_def endorsed_def sig_counts_def is_role_accepted_def ex_store_roles_def
        ex_nym_request_def has_signature_def sigs_def is_off_ledger_def)
  then have auth: "default_validator ex_kv ex_rlp ex_store (\<lambda>r. []) ?req [?a] = Inr (Some True)"
    using local_strategy.validate_accepts [OF ex_store_reads _ safe, of ?req "''O1''" "\<lambda>r. []" "[]" "Some True"]
    by (simp add: default_revoc_entry ex_request_parts del: validate.simps)
  have valid: "strategy_validate RevokedStrategy (PyDict ex_registry_entry) ?req = Inr ()"
    by (simp add: strategy_validate_def ex_request_parts ex_registry_entry_def ex_registry_update_def
      get_indices_def dict_get_def dict_get_default_def dict_index_def revoked_specific_validation_def py_assert_def)
  have "dict_index ex_registry_update REVOC_REG_DEF_ID = Inr (PyStr ''O1:4:c'')"
    by (simp add: ex_registry_update_def dict_index_def)
  then have "revoc_entry_dynamic_validation ex_registry_state (default_validator ex_kv ex_rlp ex_store (\<lambda>r. [])) ?req = Inr ()"
    using auth valid
    by (simp add: revoc_entry_dynamic_validation_def ex_request_parts get_current_revoc_entry_and_revoc_def_def ex_registry_state_def
        path_defs py_assert_def py_first_field_def mk_AuthActionEdit_def str_or_empty_def strategy_of_def dict_index_def
        get_revocation_strategy_def del: validate.simps) (simp add: ex_registry_entry_def)
  from revoc_entry_by_registry_owner [OF ex_store_reads _ this, of "''O1''"] show ?thesis
    by (auto simp: ex_request_parts ex_registry_update_def dict_index_def ex_registry_state_def path_defs)
qed

end
