(* ===== verification/RichSchemaProperties.thy ===== *)
theory RichSchemaProperties
  imports RichSchema DomainProperties
begin

text \<open>
  What the rich schema handlers guarantee: the shape of a validated mapping, that a written object is found by
  its id and by its metadata, that its metadata is unique, and how the ids of rich schema objects meet the
  paths of the other objects of the domain state.
\<close>

section \<open>Mappings\<close>

lemma set_int_seq: "set (map int [1..<n + 1]) = {1..int n}"
proof -
  have "set (map int [1..<n + 1]) = int ` {1..n}" by auto
  also have "\<dots> = {1..int n}" using image_int_atLeastAtMost [of 1 n] by simp
  finally show ?thesis .
qed

lemma ranks_sequential_spec:
  assumes "ranks_sequential ranks = Inr True"
  shows "(\<forall>r\<in>set ranks. as_number r \<noteq> None) \<and> distinct (map (\<lambda>r. the (as_number r)) ranks)
    \<and> set (map (\<lambda>r. the (as_number r)) ranks) = {1..int (length ranks)}"
proof -
  let ?ns = "map (\<lambda>r. the (as_number r)) ranks" and ?seq = "map int [1..<length ranks + 1]"
  have *: "\<forall>r\<in>set ranks. as_number r \<noteq> None" "sort ?ns = ?seq"
    using assms by (auto simp: ranks_sequential_def split: if_splits)
  have "distinct ?seq" by (simp add: distinct_map)
  then have "distinct ?ns" using *(2) distinct_sort [of "\<lambda>x. x" ?ns] by metis
  moreover have "set ?ns = {1..int (length ranks)}"
    using arg_cong [OF *(2), of set] set_int_seq [of "length ranks"] by simp
  ultimately show ?thesis using *(1) by blast
qed

lemma check_encodings_spec:
  assumes "check_encodings gfs req ds = Inr ()" "(d, attr) \<in> set ds"
  shows "\<exists>i e n t. py_index d RS_MAPPING_ENC = Inr i \<and> gfs i = Inr (e, n, t) \<and> py_get e RS_TYPE = Inr (PyStr RS_ENCODING_TYPE_VALUE)"
  using assms
  by (induction gfs req ds rule: check_encodings.induct) (auto simp: rbind_Inr_iff refuse_def split: if_splits)

lemma check_desc_dicts_spec:
  assumes "check_desc_dicts req ds = Inr ()" "(d, attr) \<in> set ds"
  shows "\<exists>m. d = PyDict m"
  using assms by (induction req ds rule: check_desc_dicts.induct) (auto simp: Let_def refuse_def split: if_splits)

text \<open>
  C20: A validated mapping is complete: its schema is on the ledger and is a schema; every leaf of its attributes
  is a dictionary whose encoding is on the ledger and is an encoding; and the ranks of the leaves are exactly
  the numbers from 1 to the number of leaves, each once.
\<close>

theorem mapping_ranks_and_encodings:
  assumes "mapping_dynamic loads gfs req = Inr ()" "map_of (operation req) RS_CONTENT = Some raw" "loads raw = Inr (PyDict content)"
  shows "\<exists>leaves. leaves = find_encoding_desc_dicts (dict_get content RS_MAPPING_ATTRIBUTES) PyNone
    \<and> (\<exists>s n t. gfs (dict_get content RS_MAPPING_SCHEMA) = Inr (s, n, t) \<and> py_get s RS_TYPE = Inr (PyStr RS_SCHEMA_TYPE_VALUE))
    \<and> (\<forall>(d, attr)\<in>set leaves. \<exists>m e n t. d = PyDict m \<and> gfs (dict_get m RS_MAPPING_ENC) = Inr (e, n, t)
         \<and> py_get e RS_TYPE = Inr (PyStr RS_ENCODING_TYPE_VALUE))
    \<and> distinct (map (\<lambda>l. the (as_number (desc_rank l))) leaves)
    \<and> set (map (\<lambda>l. the (as_number (desc_rank l))) leaves) = {1..int (length leaves)}"
proof -
  let ?leaves = "find_encoding_desc_dicts (dict_get content RS_MAPPING_ATTRIBUTES) PyNone"
  have index: "dict_index d k = Inr v \<longleftrightarrow> map_of d k = Some v" for d k v
    by (auto simp: dict_index_def split: option.splits)
  from assms obtain s n t where schema: "gfs (dict_get content RS_MAPPING_SCHEMA) = Inr (s, n, t)" "py_get s RS_TYPE = Inr (PyStr RS_SCHEMA_TYPE_VALUE)"
    and leaves: "check_desc_dicts req ?leaves = Inr ()" "ranks_sequential (map desc_rank ?leaves) = Inr True" "check_encodings gfs req ?leaves = Inr ()"
    by (auto simp: mapping_dynamic_def rbind_Inr_iff Let_def refuse_def index dict_get_def split: if_splits)
  have "\<exists>m e n t. d = PyDict m \<and> gfs (dict_get m RS_MAPPING_ENC) = Inr (e, n, t) \<and> py_get e RS_TYPE = Inr (PyStr RS_ENCODING_TYPE_VALUE)"
    if "(d, attr) \<in> set ?leaves" for d attr
    using check_encodings_spec [OF leaves(3) that] check_desc_dicts_spec [OF leaves(1) that]
    by (auto simp: index dict_get_def)
  moreover have "distinct (map (\<lambda>l. the (as_number (desc_rank l))) ?leaves)"
    "set (map (\<lambda>l. the (as_number (desc_rank l))) ?leaves) = {1..int (length ?leaves)}"
    using ranks_sequential_spec [OF leaves(2)] by (simp_all add: comp_def)
  ultimately show ?thesis using schema by blast
qed

definition ex_mapping :: dict where
  "ex_mapping = [(''@id'', PyStr ''m''), (''schema'', PyStr ''s''),
     (''attributes'', PyDict [(''issuer'', PyDict [(''enc'', PyStr ''e''), (''rank'', PyInt 2)]),
        (''issuanceDate'', PyDict [(''enc'', PyStr ''e''), (''rank'', PyInt 1)]),
        (''names'', PyList [PyDict [(''enc'', PyStr ''e''), (''rank'', PyInt 3)]])])]"

definition ex_rs_state :: rs_state where
  "ex_rs_state k = (if k = PyStr ''s'' then Inr (PyDict [(''rsType'', PyStr ''sch'')], PyInt 1, PyInt 2)
     else if k = PyStr ''e'' then Inr (PyDict [(''rsType'', PyStr ''enc'')], PyInt 3, PyInt 4) else Inr (PyNone, PyNone, PyNone))"

definition ex_mapping_loads :: "pyval \<Rightarrow> pyval res" where
  "ex_mapping_loads v = Inr (PyDict ex_mapping)"

lemma find_encoding_leaf: "is_leaf_dict c \<Longrightarrow> find_encoding_desc_dicts c a = [(c, a)]"
  by (simp add: find_encoding_desc_dicts.simps)

lemma find_encoding_node:
  "\<not> is_leaf_dict (PyDict d) \<Longrightarrow> find_encoding_desc_dicts (PyDict d) a =
     concat (map (\<lambda>(k, v). case v of
         PyList items \<Rightarrow> concat (map (\<lambda>item. find_encoding_desc_dicts item (PyStr k)) items)
       | _ \<Rightarrow> find_encoding_desc_dicts v (PyStr k)) d)"
  by (subst find_encoding_desc_dicts.simps) (simp del: is_leaf_dict.simps)

lemma ex_mapping_leaves:
  "find_encoding_desc_dicts (dict_get ex_mapping RS_MAPPING_ATTRIBUTES) PyNone =
     [(PyDict [(''enc'', PyStr ''e''), (''rank'', PyInt 2)], PyStr ''issuer''),
      (PyDict [(''enc'', PyStr ''e''), (''rank'', PyInt 1)], PyStr ''issuanceDate''),
      (PyDict [(''enc'', PyStr ''e''), (''rank'', PyInt 3)], PyStr ''names'')]"
  by (simp add: ex_mapping_def dict_get_def find_encoding_leaf find_encoding_node)

lemma ex_mapping_valid: "mapping_dynamic ex_mapping_loads ex_rs_state (ex_nym_request ''T1'' [(''content'', PyStr ''m'')]) = Inr ()"
  by code_simp

theorem mapping_ranks_and_encodings_witness:
  "distinct [2, 1, 3 :: int] \<and> set (map (\<lambda>l. the (as_number (desc_rank l)))
     (find_encoding_desc_dicts (dict_get ex_mapping RS_MAPPING_ATTRIBUTES) PyNone)) = {1..3}"
proof -
  have "map_of (operation (ex_nym_request ''T1'' [(''content'', PyStr ''m'')])) RS_CONTENT = Some (PyStr ''m'')"
    by (simp add: ex_request_parts)
  from mapping_ranks_and_encodings [OF ex_mapping_valid this, of ex_mapping] show ?thesis
    by (simp add: ex_mapping_loads_def ex_mapping_leaves)
qed

section \<open>Writing and reading\<close>

text \<open>What a state holds after the writes of a transaction, in their order.\<close>

definition after_writes :: "(string \<Rightarrow> 'b option) \<Rightarrow> (string \<times> 'b) list \<Rightarrow> string \<Rightarrow> 'b option" where
  "after_writes st ws = fold (\<lambda>(k, v) s. s(k \<mapsto> v)) ws st"

text \<open>
  Plenum's \<open>lookup\<close> and \<open>_get_value_from_state\<close> on a committed state: the decoded record at a key, and the plain
  value, which for a secondary key is the id.
\<close>

definition state_lookup :: "('b \<Rightarrow> pyval) \<Rightarrow> (string \<Rightarrow> 'b option) \<Rightarrow> pyval \<Rightarrow> (pyval \<times> pyval \<times> pyval) res" where
  "state_lookup deser st k = rbind (encodable k) (\<lambda>p.
     case st p of None \<Rightarrow> Inl (KeyError p) | Some b \<Rightarrow> decode_state_value deser b)"

definition state_value_at :: "('b \<Rightarrow> string) \<Rightarrow> (string \<Rightarrow> 'b option) \<Rightarrow> string \<Rightarrow> pyval option res" where
  "state_value_at text_of st p = Inr (map_option (\<lambda>b. PyStr (text_of b)) (st p))"

text \<open>
  C21: A rich schema object that is written, and whose id is not its own secondary key, is found by its id and by its
  type, name and version, with the same data, sequence number and time; and while it is there, a transaction that would
  create an object under another id (one with no object in the state yet) with the same type, name and version is
  refused. A transaction for an id that has an object is an edit: its type, name and version are not checked.
\<close>

theorem rich_object_found:
  assumes "rs_update_state ser key_bytes t = Inr ws" "\<And>v. deser (ser v) = v" "\<And>k. text_of (key_bytes k) = k"
    and "map_of (get_payload_data t) RS_ID = Some (PyStr i)"
    and "map_of (get_payload_data t) RS_TYPE = Some ty" "map_of (get_payload_data t) RS_NAME = Some n"
    and "map_of (get_payload_data t) RS_VERSION = Some v" "i \<noteq> make_secondary_key ty n v"
    and "operation by_id = [(RS_ID, PyStr i)]" "operation by_meta = [(RS_TYPE, ty), (RS_NAME, n), (RS_VERSION, v)]"
    and "operation req = [(RS_ID, j), (RS_TYPE, ty), (RS_NAME, n), (RS_VERSION, v)]" "gfs j = Inr (PyNone, m, u)"
  shows "\<exists>val reason. rs_value t = Inr val
    \<and> get_rich_schema_object_by_id True (state_lookup deser (after_writes st ws)) by_id
        = Inr (val, opt_int_val (get_seq_no t), opt_int_val (get_txn_time t))
    \<and> get_rich_schema_object_by_metadata True (state_value_at text_of (after_writes st ws)) (state_lookup deser (after_writes st ws)) by_meta
        = Inr (val, opt_int_val (get_seq_no t), opt_int_val (get_txn_time t))
    \<and> rs_dynamic_validation loads gfs (after_writes st ws) wrv h req = Inl (InvalidClientRequest (req_identifier req) (reqId req) reason)"
proof -
  obtain val where val: "rs_value t = Inr val"
    and ws: "ws = [(i, encode_state_value ser val (opt_int_val (get_seq_no t)) (opt_int_val (get_txn_time t))),
        (make_secondary_key ty n v, key_bytes i)]"
    using assms(1,4-7) by (auto simp: rs_update_state_def Let_def rbind_Inr_iff dict_index_def)
  have st: "after_writes st ws i = Some (encode_state_value ser val (opt_int_val (get_seq_no t)) (opt_int_val (get_txn_time t)))"
      "after_writes st ws (make_secondary_key ty n v) = Some (key_bytes i)"
    using assms(8) by (simp_all add: after_writes_def ws)
  have found: "state_lookup deser (after_writes st ws) (PyStr i) = Inr (val, opt_int_val (get_seq_no t), opt_int_val (get_txn_time t))"
    using st(1) assms(2) decode_encode [of deser ser] by (simp add: state_lookup_def)
  have "\<exists>reason. rs_dynamic_validation loads gfs (after_writes st ws) wrv h req
      = Inl (InvalidClientRequest (req_identifier req) (reqId req) reason)"
    using st(2) by (simp add: rs_dynamic_validation_def assms(11,12) dict_index_def refuse_def)
  moreover have "get_rich_schema_object_by_id True (state_lookup deser (after_writes st ws)) by_id
      = Inr (val, opt_int_val (get_seq_no t), opt_int_val (get_txn_time t))"
    by (simp add: get_rich_schema_object_by_id_def assms(9) dict_index_def found on_KeyError_def)
  moreover have "get_rich_schema_object_by_metadata True (state_value_at text_of (after_writes st ws)) (state_lookup deser (after_writes st ws)) by_meta
      = Inr (val, opt_int_val (get_seq_no t), opt_int_val (get_txn_time t))"
    by (simp add: get_rich_schema_object_by_metadata_def assms(3,10) dict_index_def state_value_at_def st(2) found on_KeyError_def)
  ultimately show ?thesis using val by blast
qed

definition ex_rs_txn :: "string \<Rightarrow> rs_txn" where
  "ex_rs_txn i = \<lparr>get_type = JSON_LD_CONTEXT, get_payload_data = [(''id'', PyStr i), (''rsType'', PyStr ''ctx''), (''rsName'', PyStr ''c''),
       (''rsVersion'', PyStr ''1.0''), (''content'', PyStr ''{}'')],
     get_from = Some ''E1'', get_req_id = 3, get_seq_no = Some 30, get_txn_time = Some 1600000000,
     get_endorser = None, get_payload_txn_version = PyStr ''1''\<rparr>"

lemma ex_rs_written: "\<exists>ws. rs_update_state id PyStr (ex_rs_txn i) = Inr ws"
  by (simp add: rs_update_state_def rs_value_def ex_rs_txn_def dict_index_def Let_def)

definition ex_text_of :: "pyval \<Rightarrow> string" where
  "ex_text_of v = (case v of PyStr s \<Rightarrow> s | _ \<Rightarrow> [])"

theorem rich_object_found_witness:
  "\<exists>ws val. rs_update_state id PyStr (ex_rs_txn ''did:x:1'') = Inr ws
    \<and> get_rich_schema_object_by_metadata True (state_value_at ex_text_of (after_writes (\<lambda>k. None) ws))
        (state_lookup id (after_writes (\<lambda>k. None) ws))
        (ex_nym_request ''T1'' [(''rsType'', PyStr ''ctx''), (''rsName'', PyStr ''c''), (''rsVersion'', PyStr ''1.0'')])
      = Inr (val, PyInt 30, PyInt 1600000000)"
proof -
  obtain ws where ws: "rs_update_state id PyStr (ex_rs_txn ''did:x:1'') = Inr ws" using ex_rs_written by blast
  from rich_object_found [OF ws, where deser = id and text_of = ex_text_of and i = "''did:x:1''" and ty = "PyStr ''ctx''" and n = "PyStr ''c''"
      and v = "PyStr ''1.0''" and by_id = "ex_nym_request ''T1'' [(''id'', PyStr ''did:x:1'')]"
      and by_meta = "ex_nym_request ''T1'' [(''rsType'', PyStr ''ctx''), (''rsName'', PyStr ''c''), (''rsVersion'', PyStr ''1.0'')]"
      and req = "ex_nym_request ''T1'' [(''id'', PyStr ''other''), (''rsType'', PyStr ''ctx''), (''rsName'', PyStr ''c''), (''rsVersion'', PyStr ''1.0'')]"
      and j = "PyStr ''other''" and gfs = "\<lambda>k. Inr (PyNone, PyNone, PyNone)" and st = "\<lambda>k. None" and m = PyNone and u = PyNone
      and loads = ex_mapping_loads and wrv = "\<lambda>r as. Inr None" and h = JsonLdContextHandler]
  have "\<exists>val. get_rich_schema_object_by_metadata True (state_value_at ex_text_of (after_writes (\<lambda>k. None) ws))
        (state_lookup id (after_writes (\<lambda>k. None) ws))
        (ex_nym_request ''T1'' [(''rsType'', PyStr ''ctx''), (''rsName'', PyStr ''c''), (''rsVersion'', PyStr ''1.0'')])
      = Inr (val, PyInt 30, PyInt 1600000000)"
    by (auto simp: ex_rs_txn_def ex_text_of_def make_secondary_key_def ex_request_parts)
  with ws show ?thesis by blast
qed

section \<open>Ids and paths\<close>

text \<open>
  The id of a rich schema object is a key of the same state as the other domain objects, and it is free text:
  an object whose id is the path of a schema that does not exist yet keeps the owner of that path from ever
  creating the schema, since under the default rules the request is then an edit and refused.
\<close>

theorem rich_object_blocks_schema:
  assumes "reads (\<lambda>d. getRole kv rlp s d False) ro" "\<And>v. deser (ser v) = v"
    and "rs_update_state ser key_bytes t = Inr [(path, bytes), second]" "gfs path = decode_state_value deser bytes"
    and "path = make_state_path_for_schema (PyStr d) n v" "req_identifier req = Some d"
    and "get_write_schema_name req = Inr n" "get_write_schema_version req = Inr v"
  shows "\<exists>reason. schema_dynamic_validation gfs (default_validator kv rlp s fmt) req
    = Inl (UnauthorizedClientRequest (Some d) (reqId req) reason)"
proof -
  obtain val where val: "rs_value t = Inr val" "truthy val"
    "bytes = encode_state_value ser val (opt_int_val (get_seq_no t)) (opt_int_val (get_txn_time t))"
    using assms(3) by (auto simp: rs_update_state_def rs_value_def Let_def rbind_Inr_iff)
  have "gfs (make_state_path_for_schema (PyStr d) n v) = Inr (val, opt_int_val (get_seq_no t), opt_int_val (get_txn_time t))"
    using assms(2,4,5) val(3) decode_encode [of deser ser] by simp
  from schema_edit_refused [where gfs = gfs, OF assms(1,6,7,8) this val(2)] show ?thesis .
qed

theorem rich_object_blocks_schema_witness:
  "\<exists>path v second reason. rs_update_state id PyStr (ex_rs_txn ''T1:2:degree:1.0'') = Inr [(path, v), second]
    \<and> schema_dynamic_validation (ex_gfs [(path, v)]) (default_validator ex_kv ex_rlp ex_store (\<lambda>r. [])) ex_schema_request
      = Inl (UnauthorizedClientRequest (Some ''T1'') 3 reason)"
proof -
  have "\<exists>path v second. path = ''T1:2:degree:1.0'' \<and> rs_update_state id PyStr (ex_rs_txn ''T1:2:degree:1.0'') = Inr [(path, v), second]"
    by (simp add: rs_update_state_def rs_value_def ex_rs_txn_def dict_index_def Let_def)
  then obtain path v second where path: "path = ''T1:2:degree:1.0''"
    and w: "rs_update_state id PyStr (ex_rs_txn ''T1:2:degree:1.0'') = Inr [(path, v), second]" by blast
  have "\<exists>reason. schema_dynamic_validation (ex_gfs [(path, v)]) (default_validator ex_kv ex_rlp ex_store (\<lambda>r. [])) ex_schema_request
      = Inl (UnauthorizedClientRequest (Some ''T1'') (reqId ex_schema_request) reason)"
    by (rule rich_object_blocks_schema [OF ex_store_reads _ w, where deser = id and n = "PyStr ''degree''" and v = "PyStr ''1.0''"])
      (simp_all add: path path_defs ex_gfs_def ex_schema_request_def ex_nym_request_def get_write_schema_name_def
        get_write_schema_version_def dict_index_def)
  with w show ?thesis by (auto simp: ex_schema_request_def ex_nym_request_def)
qed

end
