(* ===== verification/ConfigProperties.thy ===== *)
theory ConfigProperties
  imports ConfigHandlers DomainProperties
begin

text \<open>
  What the config ledger handlers guarantee: a rule that passes validation and is written takes effect for
  exactly the actions it governs, also in the form that version 1.9.1 stored; who may change rules; and that
  replaying the config ledger gives the pool configuration of its last transaction.
\<close>

section \<open>Rules in force\<close>

lemma deserialize_serialize:
  assumes "\<And>v. deser (ser v) = v" "create_constraint v = Inr c"
  shows "deserialize_constraint deser (serialize_constraint ser (Some c)) = Inr c"
  using assms constraint_from_as_dict [of c True] constraint_from_wf [of True v c]
  by (simp add: deserialize_constraint_def serialize_constraint_def create_constraint_def)

lemma auth_path_inject: "make_state_path_for_auth_rule k = make_state_path_for_auth_rule k' \<longleftrightarrow> k = k'"
  by (simp add: make_state_path_for_auth_rule_def)

text \<open>A constraint in the state at the path of a rule replaces the default of that rule only.\<close>

lemma config_constraint_after_write:
  assumes "deserialize_constraint deser bytes = Inr c" "key \<noteq> []"
  shows "config_ledger_get_auth_constraint amap (st(make_state_path_for_auth_rule key \<mapsto> bytes)) deser action_id =
    (if find_auth_constraint_key action_id amap = Inr (Some key) then Inr (Some c)
     else config_ledger_get_auth_constraint amap st deser action_id)"
proof (cases "find_auth_constraint_key action_id amap")
  case (Inr k)
  then show ?thesis
    using assms
    by (cases k) (auto simp: config_ledger_get_auth_constraint_def find_auth_constraint_def get_from_state_def auth_path_inject)
qed (simp add: config_ledger_get_auth_constraint_def find_auth_constraint_def)

lemma get_auth_key_not_Nil: "get_auth_key opn = Inr k \<Longrightarrow> k \<noteq> []"
  by (auto simp: get_auth_key_def Let_def split: pyval.splits)

text \<open>
  C17: A rule takes effect once it is written: after the update of an AUTH_RULE transaction the strategy of the
  config ledger answers every action that the rule governs with the new constraint, and every other action as
  before. A rule that passed static validation names a key of the map, so it governs the actions of that key.
\<close>

theorem auth_rule_takes_effect:
  assumes "\<And>v. deser (ser v) = v" "auth_rule_static_validation amap req = Inr ()" "get_payload_data t = operation req"
  shows "\<exists>key c bytes. get_auth_key (operation req) = Inr key \<and> map_of amap key \<noteq> None
    \<and> create_constraint (dict_get (operation req) CONSTRAINT) = Inr c
    \<and> auth_rule_update_state ser t = Inr (make_state_path_for_auth_rule key, bytes)
    \<and> (\<forall>action_id. config_ledger_get_auth_constraint amap (st(make_state_path_for_auth_rule key \<mapsto> bytes)) deser action_id =
         (if find_auth_constraint_key action_id amap = Inr (Some key) then Inr (Some c)
          else config_ledger_get_auth_constraint amap st deser action_id))"
proof -
  obtain c where c: "create_constraint (dict_get (operation req) CONSTRAINT) = Inr c"
  proof (cases "create_constraint (dict_get (operation req) CONSTRAINT)")
    case (Inl e)
    with assms(2) that show ?thesis
      by (cases e) (simp_all add: auth_rule_static_validation_def static_validation_for_rule_def refuse_def)
  qed
  with assms(2) obtain key where key: "get_auth_key (operation req) = Inr key" "map_of amap key \<noteq> None"
    by (auto simp: auth_rule_static_validation_def static_validation_for_rule_def check_auth_key_def Let_def refuse_def rbind_Inr_iff
        split: if_splits)
  have "auth_rule_update_state ser t = Inr (make_state_path_for_auth_rule key, serialize_constraint ser (Some c))"
    using c key(1) assms(3)
    by (simp add: auth_rule_update_state_def rule_write_def get_auth_constraint_def update_auth_constraint_def)
  moreover note config_constraint_after_write [OF deserialize_serialize [of deser ser, OF assms(1) c] get_auth_key_not_Nil [OF key(1)], of amap st]
  ultimately show ?thesis using c key by blast
qed

definition ex_rule :: dict where
  "ex_rule = [(''auth_type'', PyStr NYM), (''auth_action'', PyStr ''EDIT''), (''field'', PyStr ''verkey''),
     (''old_value'', PyStr ''*''), (''new_value'', PyStr ''*''),
     (''constraint'', PyDict (as_dict one_trustee_constraint))]"

lemma ex_rule_key: "get_auth_key ex_rule = Inr (get_action_id key_rotation)"
  by (simp add: get_auth_key_def ex_rule_def dict_get_def key_rotation_def Let_def)

lemma ex_rule_constraint: "create_constraint (dict_get ex_rule CONSTRAINT) = Inr one_trustee_constraint"
proof -
  have "create_constraint (PyDict (as_dict one_trustee_constraint)) = Inr one_trustee_constraint"
    unfolding create_constraint_def
    by (rule constraint_from_as_dict) (simp add: one_trustee_constraint_def accepted_roles_def is_off_ledger_def)
  then show ?thesis by (simp add: ex_rule_def dict_get_def)
qed

lemma ex_rule_valid: "auth_rule_static_validation auth_map (ex_nym_request ''T1'' ex_rule) = Inr ()"
proof -
  have "governing_rule default_rules key_rotation = Some (key_rotation, owner_constraint)" by (simp add: rule_eval)
  then have "map_of auth_map (get_action_id key_rotation) = Some owner_constraint" by (rule lookup_default)
  then show ?thesis
    using ex_rule_key ex_rule_constraint
    by (simp add: auth_rule_static_validation_def static_validation_for_rule_def check_auth_key_def ex_request_parts)
      (simp add: ex_rule_def dict_get_def dict_in_def)
qed

lemma ex_rule_written: "\<exists>path bytes. auth_rule_update_state id (ex_nym_txn ex_rule) = Inr (path, bytes)"
  using ex_rule_key ex_rule_constraint
  by (simp add: auth_rule_update_state_def rule_write_def get_auth_constraint_def update_auth_constraint_def ex_nym_txn_def)

theorem auth_rule_takes_effect_witness:
  "\<exists>path bytes. auth_rule_update_state id (ex_nym_txn ex_rule) = Inr (path, bytes)
    \<and> config_ledger_get_auth_constraint auth_map ((\<lambda>k. None)(path \<mapsto> bytes)) id (get_action_id key_rotation)
      = Inr (Some one_trustee_constraint)"
proof -
  have find: "find_auth_constraint_key (get_action_id key_rotation) auth_map = Inr (Some (get_action_id key_rotation))"
  proof -
    have "action_safe key_rotation" unfolding key_rotation_def by code_simp
    moreover have "governing_rule default_rules key_rotation = Some (key_rotation, owner_constraint)" by (simp add: rule_eval)
    ultimately show ?thesis by (simp add: find_key_default)
  qed
  from auth_rule_takes_effect [of id id auth_map "ex_nym_request ''T1'' ex_rule" "ex_nym_txn ex_rule" "\<lambda>k. None"] ex_rule_valid
  obtain key c bytes where *: "get_auth_key ex_rule = Inr key" "create_constraint (dict_get ex_rule CONSTRAINT) = Inr c"
      "auth_rule_update_state id (ex_nym_txn ex_rule) = Inr (make_state_path_for_auth_rule key, bytes)"
      "config_ledger_get_auth_constraint auth_map ((\<lambda>k. None)(make_state_path_for_auth_rule key \<mapsto> bytes)) id (get_action_id key_rotation) =
         (if find_auth_constraint_key (get_action_id key_rotation) auth_map = Inr (Some key) then Inr (Some c)
          else config_ledger_get_auth_constraint auth_map (\<lambda>k. None) id (get_action_id key_rotation))"
    by (auto simp: ex_request_parts ex_nym_txn_def)
  have "key = get_action_id key_rotation" "c = one_trustee_constraint"
    using *(1,2) ex_rule_key ex_rule_constraint by auto
  with *(3,4) find show ?thesis by auto
qed

fun off_ledger_set :: "constraint \<Rightarrow> constraint" where
  "off_ledger_set (AuthConstraint r n own off m) = AuthConstraint r n own (if is_off_ledger off then off else Some False) m"
| "off_ledger_set (AuthConstraintAnd cs) = AuthConstraintAnd (map off_ledger_set cs)"
| "off_ledger_set (AuthConstraintOr cs) = AuthConstraintOr (map off_ledger_set cs)"
| "off_ledger_set AuthConstraintForbidden = AuthConstraintForbidden"

lemma set_off_ledger_all_map:
  "(\<And>c. c \<in> set cs \<Longrightarrow> set_off_ledger (f c) = Inr (g c)) \<Longrightarrow> set_off_ledger_all (map f cs) = Inr (map g cs)"
  by (induction cs) auto

lemma set_off_ledger_as_dict: "set_off_ledger (PyDict (as_dict c)) = Inr (PyDict (as_dict (off_ledger_set c)))"
proof (induction c)
  case (AuthConstraint r n own off m)
  show ?case
  proof (cases off)
    case (Some b)
    then show ?thesis
      by (cases b) (simp_all add: set_off_ledger.simps dict_index_def dict_get_default_def dict_set_def is_off_ledger_def)
  qed (simp add: set_off_ledger.simps dict_index_def dict_get_default_def dict_set_def is_off_ledger_def)
next
  case (AuthConstraintAnd cs)
  then have "set_off_ledger_all (map (\<lambda>c. PyDict (as_dict c)) cs) = Inr (map (\<lambda>c. PyDict (as_dict (off_ledger_set c))) cs)"
    by (intro set_off_ledger_all_map) auto
  then show ?case by (simp add: set_off_ledger.simps dict_index_def dict_set_def comp_def)
next
  case (AuthConstraintOr cs)
  then have "set_off_ledger_all (map (\<lambda>c. PyDict (as_dict c)) cs) = Inr (map (\<lambda>c. PyDict (as_dict (off_ledger_set c))) cs)"
    by (intro set_off_ledger_all_map) auto
  then show ?case by (simp add: set_off_ledger.simps dict_index_def dict_set_def comp_def)
next
  case AuthConstraintForbidden
  show ?case by (simp add: set_off_ledger.simps dict_index_def)
qed

lemma off_ledger_set_wf: "wf_constraint c \<Longrightarrow> wf_constraint (off_ledger_set c)"
  by (induction c) (auto simp: is_off_ledger_def)

lemma off_ledger_set_satisfied: "satisfied ro req a (off_ledger_set c) = satisfied ro req a c"
  by (induction c) (auto simp: role_satisfied_def is_off_ledger_def)

text \<open>
  C19: The stored form of version 1.9.1, which adds \<open>off_ledger_signature\<close> to every role constraint, is read back
  as a constraint that the same requests satisfy.
\<close>

theorem auth_rule_191_same_meaning:
  assumes "\<And>v. deser (ser v) = v" "auth_rule_update_state ser t = Inr (path, bytes)"
  shows "\<exists>bytes' c c'. auth_rule_191_update_state ser t = Inr (path, bytes') \<and> deserialize_constraint deser bytes = Inr c
    \<and> deserialize_constraint deser bytes' = Inr c' \<and> satisfied ro req a c' = satisfied ro req a c"
proof -
  obtain c key where c: "create_constraint (dict_get (get_payload_data t) CONSTRAINT) = Inr c" "get_auth_key (get_payload_data t) = Inr key"
      "path = make_state_path_for_auth_rule key" "bytes = serialize_constraint ser (Some c)"
    using assms(2)
    by (auto simp: auth_rule_update_state_def rule_write_def update_auth_constraint_def get_auth_constraint_def rbind_Inr_iff)
  have "wf_constraint (off_ledger_set c)"
    using c(1) constraint_from_wf off_ledger_set_wf by (auto simp: create_constraint_def)
  then have "deserialize_constraint deser (ser (PyDict (as_dict (off_ledger_set c)))) = Inr (off_ledger_set c)"
    by (simp add: deserialize_constraint_def create_constraint_def assms(1) constraint_from_as_dict)
  moreover have "auth_rule_191_update_state ser t = Inr (path, ser (PyDict (as_dict (off_ledger_set c))))"
    using c by (simp add: auth_rule_191_update_state_def get_auth_constraint_def set_off_ledger_as_dict)
  moreover have "deserialize_constraint deser bytes = Inr c"
    unfolding c(4) by (rule deserialize_serialize [of deser ser, OF assms(1) c(1)])
  ultimately show ?thesis using off_ledger_set_satisfied by blast
qed

theorem auth_rule_191_same_meaning_witness:
  "\<exists>path bytes c c'. auth_rule_191_update_state id (ex_nym_txn ex_rule) = Inr (path, bytes) \<and> deserialize_constraint id bytes = Inr c'
    \<and> satisfied ex_roles (ex_request ''T1'') key_rotation c' = satisfied ex_roles (ex_request ''T1'') key_rotation c"
proof -
  obtain path bytes where "auth_rule_update_state id (ex_nym_txn ex_rule) = Inr (path, bytes)"
    using ex_rule_written by blast
  from auth_rule_191_same_meaning [OF _ this, of id ex_roles "ex_request ''T1''" key_rotation] show ?thesis by auto
qed

section \<open>Who may change the configuration\<close>

lemma default_config_actions:
  "default_in_force (AuthActionEdit AUTH_RULE ''*'' ''*'' ''*'' True) = Some one_trustee_constraint"
  "default_in_force (AuthActionEdit AUTH_RULES ''*'' ''*'' ''*'' True) = Some one_trustee_constraint"
  "default_in_force (AuthActionEdit FLAG [] [] [] True) = Some one_trustee_constraint"
  "default_in_force (AuthActionEdit POOL_CONFIG ACTION ''*'' ''*'' True) = Some one_trustee_constraint"
  by (simp_all add: rule_eval)

lemma one_trustee_action:
  assumes "reads gr ro" "req_identifier req = Some d" "action_safe a" "default_in_force a = Some one_trustee_constraint"
    and "authorize_with (validate fmt default_authorizers gr (local_get_auth_constraint auth_map)) req a = Inr ()"
  shows "\<exists>d\<in>signers req. ro d = Some TRUSTEE"
proof -
  obtain r where "validate fmt default_authorizers gr (local_get_auth_constraint auth_map) req [a] = Inr r"
    using assms(5) by (auto simp: authorize_with_def rbind_Inr_iff simp del: validate.simps)
  then have "satisfied ro req a one_trustee_constraint"
    using local_strategy.validate_accepts [OF assms(1-3), of fmt "[]" r] assms(4) by (auto simp del: validate.simps)
  then show ?thesis by (rule one_trustee_signer)
qed

text \<open>
  C18: Under the default rules nobody but a trustee changes authorization rules, flags or the pool configuration:
  each of these requests passes validation only with the signature of a trustee.
\<close>

theorem configuration_needs_trustee:
  assumes "reads gr ro" "req_identifier req = Some d" "wrv = validate fmt default_authorizers gr (local_get_auth_constraint auth_map)"
    and "auth_rule_dynamic_validation wrv req = Inr () \<or> auth_rules_dynamic_validation wrv req = Inr ()
       \<or> flag_dynamic_validation wrv req = Inr () \<or> pool_config_dynamic_validation wrv req = Inr ()"
  shows "\<exists>d\<in>signers req. ro d = Some TRUSTEE"
proof -
  note trustee = one_trustee_action [OF assms(1,2), where fmt = fmt, folded assms(3)]
  have safe: "action_safe (AuthActionEdit AUTH_RULE ''*'' ''*'' ''*'' True)" "action_safe (AuthActionEdit AUTH_RULES ''*'' ''*'' ''*'' True)"
      "action_safe (AuthActionEdit FLAG [] [] [] True)" "action_safe (AuthActionEdit POOL_CONFIG ACTION ''*'' ''*'' True)"
    by code_simp+
  show ?thesis
    using assms(4) trustee [OF safe(1) default_config_actions(1)] trustee [OF safe(2) default_config_actions(2)]
      trustee [OF safe(3) default_config_actions(3)] trustee [OF safe(4) default_config_actions(4)]
    by (auto simp: auth_rule_dynamic_validation_def auth_rules_dynamic_validation_def flag_dynamic_validation_def
        pool_config_dynamic_validation_def mk_AuthActionEdit_def str_or_empty_def)
qed

theorem configuration_needs_trustee_witness: "\<exists>d\<in>signers (ex_request ''T1''). ex_roles d = Some TRUSTEE"
proof (rule configuration_needs_trustee [OF ex_reads])
  let ?a = "AuthActionEdit AUTH_RULE ''*'' ''*'' ''*'' True"
  have safe: "action_safe ?a" by code_simp
  have "satisfied ex_roles (ex_request ''T1'') ?a one_trustee_constraint"
    by (simp add: one_trustee_constraint_def role_satisfied_def endorsed_def sig_counts_def is_role_accepted_def
        role_of_text_def ex_roles_def ex_request_def has_signature_def sigs_def is_off_ledger_def)
  then have "validate (\<lambda>r. []) default_authorizers ex_cache (local_get_auth_constraint auth_map) (ex_request ''T1'') [?a] = Inr (Some True)"
    using local_strategy.validate_accepts [OF ex_reads _ safe, of "ex_request ''T1''" "''T1''" "\<lambda>r. []" "[]" "Some True"]
    by (simp add: default_config_actions ex_request_def del: validate.simps)
  then show "auth_rule_dynamic_validation (validate (\<lambda>r. []) default_authorizers ex_cache (local_get_auth_constraint auth_map)) (ex_request ''T1'') = Inr ()
    \<or> auth_rules_dynamic_validation (validate (\<lambda>r. []) default_authorizers ex_cache (local_get_auth_constraint auth_map)) (ex_request ''T1'') = Inr ()
    \<or> flag_dynamic_validation (validate (\<lambda>r. []) default_authorizers ex_cache (local_get_auth_constraint auth_map)) (ex_request ''T1'') = Inr ()
    \<or> pool_config_dynamic_validation (validate (\<lambda>r. []) default_authorizers ex_cache (local_get_auth_constraint auth_map)) (ex_request ''T1'') = Inr ()"
    by (simp add: auth_rule_dynamic_validation_def authorize_with_def mk_AuthActionEdit_def str_or_empty_def del: validate.simps)
qed (simp_all add: ex_request_def)

end
