(* ===== verification/ActionLog.thy ===== *)
theory ActionLog
  imports Prelude
begin

text \<open>
  The append-only logs of upgrades and restarts (indy_node/server/action_log.py, upgrade_log.py,
  restart_log.py): events, their rows in the format of Python's csv module, and the file they are kept in.
  A moment is a number of microseconds, with or without a time zone; \<open>parse_dt\<close> is the date parser of the
  dateutil package and \<open>dt_str\<close> the text of a moment.
\<close>

section \<open>Moments\<close>

datatype moment = Aware int | Naive int

text \<open>Python refuses to order a moment with a time zone and one without.\<close>

fun moment_le :: "moment \<Rightarrow> moment \<Rightarrow> bool res" where
  "moment_le (Aware a) (Aware b) = Inr (a \<le> b)"
| "moment_le (Naive a) (Naive b) = Inr (a \<le> b)"
| "moment_le a b = Inl (TypeError ''can't compare offset-naive and offset-aware datetimes'')"

fun moment_less :: "moment \<Rightarrow> moment \<Rightarrow> bool res" where
  "moment_less (Aware a) (Aware b) = Inr (a < b)"
| "moment_less (Naive a) (Naive b) = Inr (a < b)"
| "moment_less a b = Inl (TypeError ''can't compare offset-naive and offset-aware datetimes'')"

fun stamp :: "moment \<Rightarrow> int" where
  "stamp (Aware a) = a"
| "stamp (Naive a) = a"

section \<open>Rows\<close>

abbreviation CR :: char where "CR \<equiv> CHR 0x0D"
abbreviation LF :: char where "LF \<equiv> CHR 0x0A"
abbreviation TAB :: char where "TAB \<equiv> CHR 0x09"
abbreviation QUOTE :: char where "QUOTE \<equiv> CHR 0x22"

text \<open>\<open>csv.writer\<close> with its default settings: a field is quoted when it has to be, quotes are doubled.\<close>

fun double_quotes :: "string \<Rightarrow> string" where
  "double_quotes [] = []"
| "double_quotes (c # s) = (if c = QUOTE then QUOTE # QUOTE # double_quotes s else c # double_quotes s)"

definition needs_quotes :: "char \<Rightarrow> string \<Rightarrow> bool" where
  "needs_quotes delim f \<longleftrightarrow> (\<exists>c\<in>set f. c = delim \<or> c = QUOTE \<or> c = CR \<or> c = LF)"

definition write_field :: "char \<Rightarrow> string \<Rightarrow> string" where
  "write_field delim f = (if needs_quotes delim f then QUOTE # double_quotes f @ [QUOTE] else f)"

fun write_fields :: "char \<Rightarrow> string list \<Rightarrow> string" where
  "write_fields delim [] = []"
| "write_fields delim [f] = write_field delim f"
| "write_fields delim (f # g # fs) = write_field delim f @ [delim] @ write_fields delim (g # fs)"

text \<open>\<open>writerow\<close>: a row of one empty field is written as two quotes.\<close>

definition writerow :: "char \<Rightarrow> string list \<Rightarrow> string" where
  "writerow delim fs = (if fs = [[]] then [QUOTE, QUOTE] else write_fields delim fs) @ [CR, LF]"

text \<open>\<open>csv.reader\<close> on one line: the states of its parser; \<open>acc\<close> is the field read so far.\<close>

datatype csv_state = START_FIELD | IN_FIELD | IN_QUOTED_FIELD | QUOTE_IN_QUOTED_FIELD | EAT_CRNL

fun read_line :: "char \<Rightarrow> csv_state \<Rightarrow> string \<Rightarrow> string list \<Rightarrow> string \<Rightarrow> string list res" where
  "read_line delim START_FIELD acc fs [] = Inr (fs @ [acc])"
| "read_line delim START_FIELD acc fs (c # s) =
     (if c = LF \<or> c = CR then read_line delim EAT_CRNL [] (fs @ [acc]) s
      else if c = QUOTE then read_line delim IN_QUOTED_FIELD acc fs s
      else if c = delim then read_line delim START_FIELD [] (fs @ [acc]) s
      else read_line delim IN_FIELD (acc @ [c]) fs s)"
| "read_line delim IN_FIELD acc fs [] = Inr (fs @ [acc])"
| "read_line delim IN_FIELD acc fs (c # s) =
     (if c = LF \<or> c = CR then read_line delim EAT_CRNL [] (fs @ [acc]) s
      else if c = delim then read_line delim START_FIELD [] (fs @ [acc]) s
      else read_line delim IN_FIELD (acc @ [c]) fs s)"
| "read_line delim IN_QUOTED_FIELD acc fs [] = Inr (fs @ [acc])"
| "read_line delim IN_QUOTED_FIELD acc fs (c # s) =
     (if c = QUOTE then read_line delim QUOTE_IN_QUOTED_FIELD acc fs s
      else read_line delim IN_QUOTED_FIELD (acc @ [c]) fs s)"
| "read_line delim QUOTE_IN_QUOTED_FIELD acc fs [] = Inr (fs @ [acc])"
| "read_line delim QUOTE_IN_QUOTED_FIELD acc fs (c # s) =
     (if c = QUOTE then read_line delim IN_QUOTED_FIELD (acc @ [QUOTE]) fs s
      else if c = delim then read_line delim START_FIELD [] (fs @ [acc]) s
      else if c = LF \<or> c = CR then read_line delim EAT_CRNL [] (fs @ [acc]) s
      else read_line delim IN_FIELD (acc @ [c]) fs s)"
| "read_line delim EAT_CRNL acc fs [] = Inr fs"
| "read_line delim EAT_CRNL acc fs (c # s) =
     (if c = LF \<or> c = CR then read_line delim EAT_CRNL acc fs s
      else Inl (ValueError ''new-line character seen in unquoted field''))"

text \<open>\<open>next(csv.reader([row]))\<close>: a line without content yields the empty row.\<close>

definition readrow :: "char \<Rightarrow> string \<Rightarrow> string list res" where
  "readrow delim row =
     (if row = [] then Inr []
      else if hd row = LF \<or> hd row = CR then read_line delim EAT_CRNL [] [] row
      else read_line delim START_FIELD [] [] row)"

section \<open>Events\<close>

datatype ev_type = scheduled | started | succeeded | failed | cancelled

fun ev_name :: "ev_type \<Rightarrow> string" where
  "ev_name scheduled = ''scheduled''"
| "ev_name started = ''started''"
| "ev_name succeeded = ''succeeded''"
| "ev_name failed = ''failed''"
| "ev_name cancelled = ''cancelled''"

definition ev_of_name :: "string \<Rightarrow> ev_type option" where
  "ev_of_name n = List.find (\<lambda>e. ev_name e = n) [scheduled, started, succeeded, failed, cancelled]"

lemma ev_of_name_name [simp]: "ev_of_name (ev_name e) = Some e"
  by (cases e) (simp_all add: ev_of_name_def)

text \<open>\<open>UpgradeLogData\<close>; the data of the restart log is the time alone.\<close>

record 'v upgrade_data =
  ud_when :: moment
  ud_version :: 'v
  ud_upgrade_id :: string
  ud_pkg_name :: string

record 'd log_event =
  le_ts :: moment
  le_type :: ev_type
  le_data :: 'd

text \<open>The texts of a data object and its construction from texts: what \<open>_items\<close> and the constructor say.\<close>

record 'd log_codec =
  data_items :: "'d \<Rightarrow> string list"
  data_class :: "string list \<Rightarrow> 'd res"
  parse_dt :: "string \<Rightarrow> moment res"
  dt_str :: "moment \<Rightarrow> string"

definition pack :: "'d log_codec \<Rightarrow> char \<Rightarrow> 'd log_event \<Rightarrow> string" where
  "pack cd delim e = writerow delim ([dt_str cd (le_ts e), ev_name (le_type e)] @ data_items cd (le_data e))"

text \<open>\<open>ActionLogEvent.unpack\<close>; \<open>now\<close> is the time for a row without one.\<close>

definition unpack :: "'d log_codec \<Rightarrow> char \<Rightarrow> moment \<Rightarrow> string \<Rightarrow> 'd log_event res" where
  "unpack cd delim now row =
     rbind (readrow delim row) (\<lambda>fields.
       case fields of
         ts # ev # data # args \<Rightarrow>
           rbind (if ts \<noteq> [] then parse_dt cd ts else Inr now) (\<lambda>t.
           case ev_of_name ev of
             None \<Rightarrow> Inl (ValueError (''Unknown event '' @ ev))
           | Some ty \<Rightarrow> rbind (data_class cd (data # args)) (\<lambda>d. Inr \<lparr>le_ts = t, le_type = ty, le_data = d\<rparr>))
       | _ \<Rightarrow> Inl (TypeError ''missing required positional arguments''))"

text \<open>\<open>UpgradeLogData(when, version, upgrade_id, pkg_name)\<close> from texts; the package defaults to the node's.\<close>

abbreviation APP_NAME :: string where "APP_NAME \<equiv> ''indy-node''"

definition upgrade_data_class ::
  "(string \<Rightarrow> moment res) \<Rightarrow> (string \<Rightarrow> string \<Rightarrow> 'v res) \<Rightarrow> string list \<Rightarrow> 'v upgrade_data res" where
  "upgrade_data_class parse version args =
     (let mk = (\<lambda>when v i p. rbind (parse when) (\<lambda>w. rbind (version p v) (\<lambda>v'.
                 Inr \<lparr>ud_when = w, ud_version = v', ud_upgrade_id = i, ud_pkg_name = p\<rparr>)))
      in case args of
           [when, v, i] \<Rightarrow> mk when v i APP_NAME
         | [when, v, i, p] \<Rightarrow> mk when v i p
         | _ \<Rightarrow> Inl (TypeError ''UpgradeLogData''))"

definition upgrade_data_items :: "(moment \<Rightarrow> string) \<Rightarrow> ('v \<Rightarrow> string) \<Rightarrow> 'v upgrade_data \<Rightarrow> string list" where
  "upgrade_data_items text version_str d = [text (ud_when d), version_str (ud_version d), ud_upgrade_id d, ud_pkg_name d]"

definition restart_data_class :: "(string \<Rightarrow> moment res) \<Rightarrow> string list \<Rightarrow> moment res" where
  "restart_data_class parse args = (case args of [when] \<Rightarrow> parse when | _ \<Rightarrow> Inl (TypeError ''RestartLogData''))"

section \<open>The log\<close>

text \<open>The log in memory and the contents of its file.\<close>

record 'd action_log =
  al_items :: "'d log_event list"
  al_file :: string

definition last_event :: "'d log_event list \<Rightarrow> 'd log_event option" where
  "last_event items = (if items = [] then None else Some (last items))"

definition append_event :: "'d log_codec \<Rightarrow> char \<Rightarrow> moment \<Rightarrow> ev_type \<Rightarrow> 'd \<Rightarrow> 'd action_log \<Rightarrow> 'd action_log" where
  "append_event cd delim now ty d l =
     (let event = \<lparr>le_ts = now, le_type = ty, le_data = d\<rparr>
      in l\<lparr>al_file := al_file l @ pack cd delim event, al_items := al_items l @ [event]\<rparr>)"

text \<open>
  Iterating over a file that is opened with \<open>newline=''\<close>: a line ends after a line feed, after a carriage
  return and line feed, or after a carriage return alone, and keeps its end.
\<close>

fun file_lines :: "string \<Rightarrow> string \<Rightarrow> string list" where
  "file_lines acc [] = (if acc = [] then [] else [acc])"
| "file_lines acc (c # s) =
     (if c = LF then (acc @ [c]) # file_lines [] s
      else if c = CR then
        (case s of d # s' \<Rightarrow> if d = LF then (acc @ [CR, LF]) # file_lines [] s' else (acc @ [CR]) # file_lines [] s
         | [] \<Rightarrow> [acc @ [CR]])
      else file_lines (acc @ [c]) s)"

fun unpack_all :: "'d log_codec \<Rightarrow> char \<Rightarrow> moment \<Rightarrow> string list \<Rightarrow> 'd log_event list res" where
  "unpack_all cd delim now [] = Inr []"
| "unpack_all cd delim now (row # rows) =
     rbind (unpack cd delim now row) (\<lambda>e. rbind (unpack_all cd delim now rows) (\<lambda>es. Inr (e # es)))"

definition load :: "'d log_codec \<Rightarrow> char \<Rightarrow> moment \<Rightarrow> string \<Rightarrow> 'd action_log res" where
  "load cd delim now file =
     rbind (unpack_all cd delim now (file_lines [] file)) (\<lambda>es. Inr \<lparr>al_items = es, al_file = file\<rparr>)"

section \<open>Rows are read back as they were written\<close>

lemma read_unquoted:
  "\<forall>c\<in>set f. c \<noteq> delim \<and> c \<noteq> CR \<and> c \<noteq> LF \<Longrightarrow>
   read_line delim IN_FIELD acc fs (f @ s) = read_line delim IN_FIELD (acc @ f) fs s"
  by (induction f arbitrary: acc) simp_all

lemma read_quoted:
  "s \<noteq> [] \<Longrightarrow> hd s \<noteq> QUOTE \<Longrightarrow>
   read_line delim IN_QUOTED_FIELD acc fs (double_quotes f @ QUOTE # s)
     = read_line delim QUOTE_IN_QUOTED_FIELD (acc @ f) fs s"
  by (induction f arbitrary: acc) simp_all

text \<open>A written field, up to the character that ends it.\<close>

lemma read_field:
  assumes "delim \<notin> {QUOTE, CR, LF}" and "e = delim \<or> e = CR"
  shows "read_line delim START_FIELD [] fs (write_field delim f @ e # s) =
    (if e = delim then read_line delim START_FIELD [] (fs @ [f]) s else read_line delim EAT_CRNL [] (fs @ [f]) s)"
proof (cases "needs_quotes delim f")
  case True
  then show ?thesis
    using assms by (auto simp: write_field_def read_quoted)
next
  case False
  then have "\<forall>c\<in>set f. c \<noteq> delim \<and> c \<noteq> CR \<and> c \<noteq> LF" and "\<forall>c\<in>set f. c \<noteq> QUOTE"
    by (auto simp: needs_quotes_def)
  with False assms show ?thesis
    by (cases f) (auto simp: write_field_def read_unquoted)
qed

lemma read_fields:
  assumes "delim \<notin> {QUOTE, CR, LF}" and "gs \<noteq> []"
  shows "read_line delim START_FIELD [] fs (write_fields delim gs @ [CR, LF]) = Inr (fs @ gs)"
  using assms
proof (induction delim gs arbitrary: fs rule: write_fields.induct)
  case (2 delim f)
  then show ?case using read_field [of delim CR fs f "[LF]"] by auto
next
  case (3 delim f g gs)
  then show ?case using read_field [of delim delim fs f] by simp
qed simp

lemma write_fields_head:
  assumes "delim \<notin> {QUOTE, CR, LF}" and "gs \<noteq> []" and "gs \<noteq> [[]]"
  shows "\<exists>c s. write_fields delim gs = c # s \<and> c \<noteq> CR \<and> c \<noteq> LF"
proof -
  obtain g gs' where gs: "gs = g # gs'" using assms(2) by (cases gs) auto
  show ?thesis
  proof (cases g)
    case Nil
    with gs assms obtain h hs where "gs' = h # hs" by (cases gs') auto
    with gs Nil assms(1) show ?thesis by (simp add: write_field_def needs_quotes_def)
  next
    case (Cons c g')
    then show ?thesis
      using gs assms(1) by (cases gs') (auto simp: write_field_def needs_quotes_def)
  qed
qed

lemma readrow_writerow:
  assumes "delim \<notin> {QUOTE, CR, LF}"
  shows "readrow delim (writerow delim fs) = Inr fs"
proof (cases "fs = [] \<or> fs = [[]]")
  case True
  then show ?thesis using assms by (auto simp: readrow_def writerow_def)
next
  case False
  then show ?thesis
    using write_fields_head [of delim fs] read_fields [of delim fs "[]"] assms
    by (auto simp: readrow_def writerow_def)
qed

section \<open>The log is read back as it was written\<close>

definition one_line :: "string \<Rightarrow> bool" where
  "one_line s \<longleftrightarrow> CR \<notin> set s \<and> LF \<notin> set s"

lemma set_double_quotes: "set (double_quotes s) \<subseteq> set s"
  by (induction s) auto

lemma set_write_field: "set (write_field delim f) \<subseteq> insert QUOTE (set f)"
  using set_double_quotes [of f] by (auto simp: write_field_def)

lemma set_write_fields: "set (write_fields delim fs) \<subseteq> {delim, QUOTE} \<union> \<Union> (set ` set fs)"
proof (induction delim fs rule: write_fields.induct)
  case (2 delim f)
  then show ?case using set_write_field [of delim f] by auto
next
  case (3 delim f g fs)
  then show ?case using set_write_field [of delim f] by auto
qed simp

lemma file_lines_row:
  "one_line r \<Longrightarrow> file_lines acc (r @ CR # LF # s) = (acc @ r @ [CR, LF]) # file_lines [] s"
  by (induction r arbitrary: acc) (auto simp: one_line_def)

lemma file_lines_rows:
  assumes "delim \<notin> {QUOTE, CR, LF}" and "\<forall>f\<in>set fs. one_line f"
  shows "file_lines [] (writerow delim fs @ s) = writerow delim fs # file_lines [] s"
proof -
  have "one_line (if fs = [[]] then [QUOTE, QUOTE] else write_fields delim fs)"
    using assms set_write_fields [of delim fs] by (auto simp: one_line_def subset_iff)
  from file_lines_row [OF this, of "[]" s] show ?thesis by (simp add: writerow_def)
qed

text \<open>
  An event that the file can hold: its texts are single lines and are read back. The laws about dates,
  versions and identifiers that the log relies on are gathered here.
\<close>

definition storable :: "'d log_codec \<Rightarrow> 'd log_event \<Rightarrow> bool" where
  "storable cd e \<longleftrightarrow>
     one_line (dt_str cd (le_ts e)) \<and> dt_str cd (le_ts e) \<noteq> [] \<and> parse_dt cd (dt_str cd (le_ts e)) = Inr (le_ts e) \<and>
     (\<forall>f\<in>set (data_items cd (le_data e)). one_line f) \<and> data_items cd (le_data e) \<noteq> [] \<and>
     data_class cd (data_items cd (le_data e)) = Inr (le_data e)"

lemma unpack_packed:
  assumes "delim \<notin> {QUOTE, CR, LF}" and "storable cd e"
  shows "unpack cd delim now (pack cd delim e) = Inr e"
  using assms by (auto simp: unpack_def pack_def readrow_writerow storable_def neq_Nil_conv)

lemma one_line_ev_name: "one_line (ev_name t)"
  by (cases t) (simp_all add: one_line_def)

lemma load_packed:
  assumes "delim \<notin> {QUOTE, CR, LF}" and "\<forall>e\<in>set es. storable cd e"
  shows "unpack_all cd delim now (file_lines [] (concat (map (pack cd delim) es))) = Inr es"
  using assms(2)
proof (induction es)
  case (Cons e es)
  then have "file_lines [] (pack cd delim e @ concat (map (pack cd delim) es))
      = pack cd delim e # file_lines [] (concat (map (pack cd delim) es))"
    unfolding pack_def using assms(1)
    by (intro file_lines_rows) (auto simp: storable_def one_line_ev_name)
  with Cons assms(1) show ?case by (simp add: unpack_packed)
qed simp

text \<open>A run of appends: the event kinds and data with the times at which they are appended.\<close>

definition append_run :: "'d log_codec \<Rightarrow> char \<Rightarrow> (moment \<times> ev_type \<times> 'd) list \<Rightarrow> 'd action_log \<Rightarrow> 'd action_log" where
  "append_run cd delim evs l = fold (\<lambda>(now, ty, d). append_event cd delim now ty d) evs l"

lemma append_run_items:
  "al_items (append_run cd delim evs l) = al_items l @ map (\<lambda>(now, ty, d). \<lparr>le_ts = now, le_type = ty, le_data = d\<rparr>) evs"
  by (induction evs arbitrary: l) (auto simp: append_run_def append_event_def Let_def)

lemma append_run_file:
  "al_file (append_run cd delim evs l)
     = al_file l @ concat (map (\<lambda>(now, ty, d). pack cd delim \<lparr>le_ts = now, le_type = ty, le_data = d\<rparr>) evs)"
  by (induction evs arbitrary: l) (auto simp: append_run_def append_event_def Let_def)

definition empty_log :: "'d action_log" where
  "empty_log = \<lparr>al_items = [], al_file = []\<rparr>"

lemma reload_run:
  assumes "delim \<notin> {QUOTE, CR, LF}"
    and "\<forall>(now, ty, d)\<in>set evs. storable cd \<lparr>le_ts = now, le_type = ty, le_data = d\<rparr>"
  shows "load cd delim now (al_file (append_run cd delim evs empty_log)) = Inr (append_run cd delim evs empty_log)"
proof -
  let ?es = "map (\<lambda>(now, ty, d). \<lparr>le_ts = now, le_type = ty, le_data = d\<rparr>) evs"
  have "concat (map (\<lambda>(now, ty, d). pack cd delim \<lparr>le_ts = now, le_type = ty, le_data = d\<rparr>) evs)
      = concat (map (pack cd delim) ?es)"
    by (simp add: comp_def case_prod_unfold)
  moreover have "\<forall>e\<in>set ?es. storable cd e" using assms(2) by auto
  ultimately have "unpack_all cd delim now (file_lines [] (al_file (append_run cd delim evs empty_log))) = Inr ?es"
    using load_packed [OF assms(1), of ?es] by (simp only: append_run_file empty_log_def) simp
  then show ?thesis
    by (cases "append_run cd delim evs empty_log")
      (use append_run_items [of cd delim evs empty_log] in \<open>simp add: load_def empty_log_def\<close>)
qed

section \<open>The upgrade log\<close>

definition upgrade_codec ::
  "(string \<Rightarrow> moment res) \<Rightarrow> (moment \<Rightarrow> string) \<Rightarrow> (string \<Rightarrow> string \<Rightarrow> 'v res) \<Rightarrow> ('v \<Rightarrow> string) \<Rightarrow> 'v upgrade_data log_codec" where
  "upgrade_codec parse text version version_str =
     \<lparr>data_items = upgrade_data_items text version_str, data_class = upgrade_data_class parse version,
      parse_dt = parse, dt_str = text\<rparr>"

definition restart_codec :: "(string \<Rightarrow> moment res) \<Rightarrow> (moment \<Rightarrow> string) \<Rightarrow> moment log_codec" where
  "restart_codec parse text =
     \<lparr>data_items = (\<lambda>w. [text w]), data_class = restart_data_class parse, parse_dt = parse, dt_str = text\<rparr>"

lemma storable_upgrade:
  assumes "\<And>t. parse (text t) = Inr t" and "\<And>t. one_line (text t)" and "\<And>t. text t \<noteq> []"
    and "version (ud_pkg_name d) (version_str (ud_version d)) = Inr (ud_version d)"
    and "one_line (version_str (ud_version d))" and "one_line (ud_upgrade_id d)" and "one_line (ud_pkg_name d)"
  shows "storable (upgrade_codec parse text version version_str) \<lparr>le_ts = now, le_type = ty, le_data = d\<rparr>"
  using assms by (simp add: storable_def upgrade_codec_def upgrade_data_items_def upgrade_data_class_def)

lemma storable_restart:
  assumes "\<And>t. parse (text t) = Inr t" and "\<And>t. one_line (text t)" and "\<And>t. text t \<noteq> []"
  shows "storable (restart_codec parse text) \<lparr>le_ts = now, le_type = ty, le_data = w\<rparr>"
  using assms by (simp add: storable_def restart_codec_def restart_data_class_def)

end
