(* ===== verification/NodeControl.thy ===== *)
theory NodeControl
  imports ActionLog PyText
begin

text \<open>
  Versions and packages as the node sees them through the package manager
  (indy_node/utils/node_control_utils.py, \<open>compose_cmd\<close> of indy_common/util.py, indy_common/version.py). What
  the operating system answers is a parameter \<open>sys\<close>: a function of the operations carried out so far and of
  the next one. The operations are recorded, so that the theorems can speak about the commands that run.
  The version classes come from another package: their constructors and their order are the fields of
  \<open>versions\<close>; an invalid version is \<open>None\<close>. Strings hold Latin-1 characters.
\<close>

section \<open>Text operations\<close>

definition is_line_break :: "char \<Rightarrow> bool" where
  "is_line_break c \<longleftrightarrow> (let n = of_char c :: nat in 10 \<le> n \<and> n \<le> 13 \<or> 28 \<le> n \<and> n \<le> 30 \<or> n = 133)"

text \<open>\<open>s.splitlines()[0]\<close>\<close>

definition first_line :: "string \<Rightarrow> string res" where
  "first_line s = (if s = [] then Inl (IndexError ''list index out of range'') else Inr (takeWhile (\<lambda>c. \<not> is_line_break c) s))"

definition strip_chars :: "string \<Rightarrow> string \<Rightarrow> string" where
  "strip_chars cs s = rev (dropWhile (\<lambda>c. c \<in> set cs) (rev (dropWhile (\<lambda>c. c \<in> set cs) s)))"

text \<open>\<open>s.split(c, maxsplit=1)\<close> for a single character, and \<open>s.split()\<close>.\<close>

definition split_once :: "char \<Rightarrow> string \<Rightarrow> string list" where
  "split_once c s = (let a = takeWhile (\<lambda>x. x \<noteq> c) s; b = dropWhile (\<lambda>x. x \<noteq> c) s
     in if b = [] then [a] else [a, tl b])"

fun words_from :: "string \<Rightarrow> string \<Rightarrow> string list" where
  "words_from w [] = (if w = [] then [] else [w])"
| "words_from w (c # s) =
     (if is_space c then (if w = [] then words_from [] s else w # words_from [] s) else words_from (w @ [c]) s)"

definition py_words :: "string \<Rightarrow> string list" where
  "py_words s = words_from [] s"

definition starts_with :: "string \<Rightarrow> string \<Rightarrow> bool" where
  "starts_with s p \<longleftrightarrow> take (length p) s = p"

definition contains_text :: "string \<Rightarrow> string \<Rightarrow> bool" where
  "contains_text s p \<longleftrightarrow> (\<exists>i\<in>set [0..<Suc (length s)]. take (length p) (drop i s) = p)"

definition replace_char :: "char \<Rightarrow> string \<Rightarrow> string \<Rightarrow> string" where
  "replace_char c r s = concat (map (\<lambda>x. if x = c then r else [x]) s)"

text \<open>The text before the first match of \<open>\s+|;|&&|\|\<close>.\<close>

fun before_separator :: "string \<Rightarrow> string" where
  "before_separator [] = []"
| "before_separator (c # s) =
     (if is_space c \<or> c = CHR '';'' \<or> c = CHR ''|'' \<or> c = CHR ''&'' \<and> s \<noteq> [] \<and> hd s = CHR ''&'' then []
      else c # before_separator s)"

definition single_package :: "string \<Rightarrow> string res" where
  "single_package package = rbind (first_line package) (\<lambda>l. Inr (rstrip (before_separator l)))"

text \<open>The text before the first match of \<open>;|&&\<close>; outside Windows the arguments are joined to one line.\<close>

fun before_sequel :: "string \<Rightarrow> string" where
  "before_sequel [] = []"
| "before_sequel (c # s) =
     (if c = CHR '';'' \<or> c = CHR ''&'' \<and> s \<noteq> [] \<and> hd s = CHR ''&'' then [] else c # before_sequel s)"

definition compose_cmd :: "string list \<Rightarrow> string res" where
  "compose_cmd cmd = rbind (first_line (py_join '' '' cmd)) (\<lambda>l. Inr (rstrip (before_sequel l)))"

section \<open>Versions\<close>

record 'v versions =
  node_version :: "string \<Rightarrow> 'v option"
  top_version :: "string \<Rightarrow> 'v option"
  is_node_version :: "'v \<Rightarrow> bool"
  is_top_version :: "'v \<Rightarrow> bool"
  v_full :: "'v \<Rightarrow> string"
  v_release :: "'v \<Rightarrow> string"
  v_cmp :: "'v \<Rightarrow> 'v \<Rightarrow> int"

definition src_version_cls :: "'v versions \<Rightarrow> string \<Rightarrow> string \<Rightarrow> 'v option" where
  "src_version_cls V pkg_name = (if pkg_name = APP_NAME then node_version V else top_version V)"

definition is_instance :: "'v versions \<Rightarrow> string \<Rightarrow> 'v \<Rightarrow> bool" where
  "is_instance V pkg_name = (if pkg_name = APP_NAME then is_node_version V else is_top_version V)"

text \<open>Texts that the pattern of Debian versions without an epoch accepts.\<close>

definition is_digit :: "char \<Rightarrow> bool" where
  "is_digit c \<longleftrightarrow> char_digit c \<noteq> None"

definition version_char :: "char \<Rightarrow> bool" where
  "version_char c \<longleftrightarrow> is_digit c \<or> (let n = of_char c :: nat in 65 \<le> n \<and> n \<le> 90 \<or> 97 \<le> n \<and> n \<le> 122) \<or> c \<in> set ''.+-~''"

definition version_body :: "string \<Rightarrow> bool" where
  "version_body s \<longleftrightarrow> s \<noteq> [] \<and> is_digit (hd s) \<and> (\<forall>c\<in>set s. version_char c)"

text \<open>\<open>re.fullmatch\<close>: the epoch and the rest.\<close>

definition match_version :: "string \<Rightarrow> (string option \<times> string) option" where
  "match_version s =
     (if version_body s then Some (None, s)
      else case s of
             d # c # b \<Rightarrow> if is_digit d \<and> c = CHR '':'' \<and> version_body b then Some (Some [d], b) else None
           | _ \<Rightarrow> None)"

record 'v debian_version =
  dv_full :: string
  dv_epoch :: "string option"
  dv_upstream :: 'v
  dv_revision :: "string option"

definition split_revision :: "string \<Rightarrow> string \<times> string option" where
  "split_revision upstream =
     (let parts = py_split upstream ''-''
      in if 1 < length parts then (py_join ''-'' (butlast parts), Some (last parts)) else (upstream, None))"

definition DebianVersion :: "(string \<Rightarrow> 'v option) \<Rightarrow> bool \<Rightarrow> string \<Rightarrow> 'v debian_version option" where
  "DebianVersion upstream_cls keep_tilde version =
     (case match_version version of
        None \<Rightarrow> None
      | Some (epoch, body) \<Rightarrow>
          (let (upstream, revision) = split_revision (if keep_tilde then body else replace_char (CHR ''~'') ''.'' body)
           in if upstream = [] then None
              else case upstream_cls upstream of
                     None \<Rightarrow> None
                   | Some u \<Rightarrow> Some \<lparr>dv_full = version, dv_epoch = epoch, dv_upstream = u, dv_revision = revision\<rparr>))"

section \<open>Operations of the system\<close>

datatype sys_op =
    Shell string
  | MakeArchive string
  | CopyFile string string
  | UnpackArchive string
  | RemoveTree string
  | RemoveFile string

text \<open>A shell command ends with status 0, ends with another status, or cannot be run to its end.\<close>

datatype outcome = Completed string | Failed string string | Broken string

text \<open>The operations so far and the cache of version comparisons.\<close>

record sys_state =
  sys_ops :: "sys_op list"
  cmp_cache :: "((string \<times> string) \<times> int) list"

type_synonym sys = "sys_op list \<Rightarrow> sys_op \<Rightarrow> outcome"
type_synonym 'a ctl = "(sys_state, 'a) sres"

definition perform :: "sys \<Rightarrow> sys_op \<Rightarrow> outcome ctl" where
  "perform sys op s = (s\<lparr>sys_ops := sys_ops s @ [op]\<rparr>, Inr (sys (sys_ops s) op))"

definition run_shell_command :: "sys \<Rightarrow> string \<Rightarrow> string ctl" where
  "run_shell_command sys command =
     sbind (perform sys (Shell command)) (\<lambda>r. case r of
       Completed out \<Rightarrow> sret (py_strip out)
     | Failed out err \<Rightarrow> sret (py_strip out)
     | Broken m \<Rightarrow> sraise (OtherException (''command '' @ command @ '' failed with '' @ m)))"

text \<open>
  A \<open>CalledProcessError\<close> is represented by its subclass \<open>ShellError\<close>; anything else that \<open>subprocess.run\<close>
  raises is an \<open>OtherException\<close>.
\<close>

definition run_shell_script :: "sys \<Rightarrow> string \<Rightarrow> unit ctl" where
  "run_shell_script sys command =
     sbind (perform sys (Shell command)) (\<lambda>r. case r of
       Completed out \<Rightarrow> sret ()
     | Failed out err \<Rightarrow> sraise (ShellError err)
     | Broken m \<Rightarrow> sraise (OtherException m))"

definition run_shell_script_extended :: "sys \<Rightarrow> string \<Rightarrow> string ctl" where
  "run_shell_script_extended sys command =
     sbind (perform sys (Shell command)) (\<lambda>r. case r of
       Completed out \<Rightarrow> sret (py_strip out)
     | Failed out err \<Rightarrow> sraise (ShellError err)
     | Broken m \<Rightarrow> sraise (OtherException m))"

text \<open>\<open>DebianVersion._cmp\<close>, and \<open>cmp\<close> with the cache of the class.\<close>

definition dpkg_cmp :: "sys \<Rightarrow> string \<Rightarrow> string \<Rightarrow> int ctl" where
  "dpkg_cmp sys v1 v2 =
     (if v1 = v2 then sret 0
      else sbind (slift (compose_cmd [''dpkg'', ''--compare-versions'', v1, ''gt'', v2])) (\<lambda>cmd.
           scatch (sbind (run_shell_script_extended sys cmd) (\<lambda>_. sret 1))
             (\<lambda>e. case e of ShellError err \<Rightarrow> if err \<noteq> [] then sraise e else sret (- 1) | _ \<Rightarrow> sraise e)))"

definition debian_cmp :: "sys \<Rightarrow> 'v debian_version \<Rightarrow> 'v debian_version \<Rightarrow> int ctl" where
  "debian_cmp sys v1 v2 s =
     (let key = (dv_full v1, dv_full v2)
      in case map_of (cmp_cache s) key of
           Some c \<Rightarrow> (s, Inr c)
         | None \<Rightarrow>
             sbind (dpkg_cmp sys (dv_full v1) (dv_full v2)) (\<lambda>c.
             sbind (smodify (cmp_cache_update (\<lambda>d. AList.update (dv_full v2, dv_full v1) (- c) (AList.update key c d))))
               (\<lambda>_. sret c)) s)"

text \<open>\<open>debian_cmp\<close> reads the entry it has just written: for equal texts the second update writes 0 as well.\<close>

text \<open>\<open>sorted(versions)\<close>: stable, the comparisons going through \<open>cmp\<close>.\<close>

fun debian_insert :: "sys \<Rightarrow> 'v debian_version \<Rightarrow> 'v debian_version list \<Rightarrow> 'v debian_version list ctl" where
  "debian_insert sys v [] = sret [v]"
| "debian_insert sys v (w # ws) =
     sbind (debian_cmp sys v w) (\<lambda>c.
       if c < 0 then sret (v # w # ws) else sbind (debian_insert sys v ws) (\<lambda>us. sret (w # us)))"

fun debian_sort :: "sys \<Rightarrow> 'v debian_version list \<Rightarrow> 'v debian_version list \<Rightarrow> 'v debian_version list ctl" where
  "debian_sort sys acc [] = sret acc"
| "debian_sort sys acc (v # vs) = sbind (debian_insert sys v acc) (\<lambda>acc'. debian_sort sys acc' vs)"

section \<open>Installed packages\<close>

definition package_exists :: "sys \<Rightarrow> string \<Rightarrow> bool ctl" where
  "package_exists sys package =
     sbind (slift (compose_cmd [''dpkg'', ''--get-selections'', ''|'', ''grep'', ''-v'', ''deinstall'', ''|'', ''cut'', ''-f1'']))
       (\<lambda>cmd. sbind (run_shell_command sys cmd) (\<lambda>installed. sret (package \<in> set (py_split installed [LF]))))"

definition get_curr_info :: "sys \<Rightarrow> string \<Rightarrow> string ctl" where
  "get_curr_info sys pkg =
     sbind (slift (single_package pkg)) (\<lambda>package.
     sbind (package_exists sys package) (\<lambda>found.
       if \<not> found then sret []
       else sbind (slift (compose_cmd [''dpkg'', ''-s'', package])) (\<lambda>cmd. run_shell_command sys cmd)))"

definition parse_dep :: "string \<Rightarrow> string" where
  "parse_dep pkg =
     (let name_ver = split_once (CHR '' '') (strip_chars '' '' pkg); name = strip_chars ('' '' @ [LF]) (hd name_ver)
      in if length name_ver = 1 then name
         else name @ ''='' @ strip_chars (''()<>= '' @ [LF]) (name_ver ! 1))"

definition parse_deps :: "string \<Rightarrow> string list" where
  "parse_deps deps =
     map parse_dep (filter (\<lambda>pkg. pkg \<noteq> [])
       (py_split (replace_char (CHR '')'') [] (replace_char (CHR ''('') [] (replace_char (CHR ''|'') '','' deps))) '',''))"

fun pkgs_dedup_from :: "string set \<Rightarrow> string list \<Rightarrow> string list" where
  "pkgs_dedup_from processed [] = []"
| "pkgs_dedup_from processed (d # ds) =
     (let name = hd (split_once (CHR ''='') d)
      in if name \<in> processed then pkgs_dedup_from (insert name processed) ds
         else d # pkgs_dedup_from (insert name processed) ds)"

definition pkgs_dedup :: "string list \<Rightarrow> string list" where
  "pkgs_dedup deps = pkgs_dedup_from {} deps"

text \<open>The loop over the lines: the version text, the dependencies and the number of versions seen.\<close>

definition parse_line :: "string \<Rightarrow> string option \<times> string list \<times> nat \<Rightarrow> string option \<times> string list \<times> nat" where
  "parse_line ln st =
     (let (ver, ext_deps, num_pkgs) = st; act_line = strip_chars ('' '' @ [LF]) ln;
          rest = strip_chars ('' '' @ [LF]) (split_once (CHR '':'') act_line ! 1);
          (ver, num_pkgs) =
            (if starts_with act_line ''Version:''
             then (if 1 < num_pkgs + 1 then None else Some rest, num_pkgs + 1) else (ver, num_pkgs));
          ext_deps = (if starts_with act_line ''Depends:'' then ext_deps @ parse_deps rest else ext_deps)
      in (ver, ext_deps, num_pkgs))"

definition parse_version_deps ::
  "(string \<Rightarrow> 'v option) option \<Rightarrow> string \<Rightarrow> 'v debian_version option \<times> string list" where
  "parse_version_deps upstream_cls output =
     (let (ver, ext_deps, num_pkgs) = fold parse_line (py_split output [LF]) (None, [], 0)
      in case (ver, upstream_cls) of
           (Some v, Some cls) \<Rightarrow>
             if v = [] then (None, pkgs_dedup ext_deps)
             else (case DebianVersion cls False v of
                     None \<Rightarrow> (None, pkgs_dedup [])
                   | Some dv \<Rightarrow> (Some dv, pkgs_dedup ext_deps))
         | _ \<Rightarrow> (None, pkgs_dedup ext_deps))"

definition curr_pkg_info :: "sys \<Rightarrow> 'v versions \<Rightarrow> string \<Rightarrow> ('v debian_version option \<times> string list) ctl" where
  "curr_pkg_info sys V pkg_name =
     sbind (get_curr_info sys pkg_name) (\<lambda>info. sret (parse_version_deps (Some (src_version_cls V pkg_name)) info))"

section \<open>Available packages\<close>

definition update_repo_keys :: "sys \<Rightarrow> unit ctl" where
  "update_repo_keys sys =
     sbind (slift (compose_cmd [''apt-key'', ''adv'', ''--keyserver'', ''keyserver.ubuntu.com'', ''--recv-keys'', ''CE7709D068DB5E88'']))
       (run_shell_script sys)"

definition update_apt_update_dependencies :: "sys \<Rightarrow> unit ctl" where
  "update_apt_update_dependencies sys =
     sbind (slift (compose_cmd [''apt'', ''list'', ''--upgradable''])) (\<lambda>cmd.
     sbind (run_shell_command sys cmd) (\<lambda>out.
       if (\<exists>x\<in>set (py_split out [LF]). contains_text x ''libgnutls30'')
       then sbind (slift (compose_cmd [''apt'', ''--only-upgrade'', ''install'', ''-y'', ''libgnutls30''])) (run_shell_script sys)
       else sret ()))"

definition update_package_cache :: "sys \<Rightarrow> unit ctl" where
  "update_package_cache sys =
     sbind (slift (compose_cmd [''apt'', ''update''])) (\<lambda>cmd.
       scatch (run_shell_script sys cmd) (\<lambda>e.
         sbind (update_repo_keys sys) (\<lambda>_.
         sbind (update_apt_update_dependencies sys) (\<lambda>_.
           run_shell_script sys cmd))))"

text \<open>The versions of the output lines that are valid and, if an upstream version is asked for, match it.\<close>

fun listed_versions :: "(string \<Rightarrow> 'v option) \<Rightarrow> 'v option \<Rightarrow> string list \<Rightarrow> 'v debian_version list res" where
  "listed_versions cls upstream [] = Inr []"
| "listed_versions cls upstream (l # ls) =
     (case py_words l of
        _ # v # _ \<Rightarrow>
          rbind (listed_versions cls upstream ls) (\<lambda>vs.
            case DebianVersion cls False v of
              None \<Rightarrow> Inr vs
            | Some dv \<Rightarrow> Inr (if upstream = None \<or> upstream = Some (dv_upstream dv) then dv # vs else vs))
      | _ \<Rightarrow> Inl (IndexError ''list index out of range''))"

text \<open>\<open>sorted(versions)[-1]\<close>, with \<open>None\<close> for an empty list and for a comparison that fails in the shell.\<close>

definition newest :: "sys \<Rightarrow> 'v debian_version list \<Rightarrow> 'v debian_version option ctl" where
  "newest sys vs =
     scatch (sbind (debian_sort sys [] vs) (\<lambda>ws. sret (if ws = [] then None else Some (last ws))))
       (\<lambda>e. case e of ShellError err \<Rightarrow> sret None | _ \<Rightarrow> sraise e)"

definition get_latest_pkg_version ::
  "sys \<Rightarrow> 'v versions \<Rightarrow> string \<Rightarrow> 'v option \<Rightarrow> bool \<Rightarrow> 'v debian_version option ctl" where
  "get_latest_pkg_version sys V pkg_name upstream update_cache =
     (if (case upstream of Some u \<Rightarrow> \<not> is_instance V pkg_name u | None \<Rightarrow> False)
      then sraise (TypeError ''upstream should be an instance of the version class of the package'')
      else sbind (if update_cache then update_package_cache sys else sret ()) (\<lambda>_.
        sbind (scatch
                 (sbind (slift (compose_cmd [''apt-cache'', ''show'', pkg_name, ''|'', ''grep'', ''-E'', squoted ''^Version: '']))
                    (\<lambda>cmd. sbind (run_shell_script_extended sys cmd) (\<lambda>out. sret (py_strip out))))
                 (\<lambda>e. case e of ShellError err \<Rightarrow> sret [] | _ \<Rightarrow> sraise e))
          (\<lambda>output.
             if output = [] then sret None
             else sbind (slift (listed_versions (src_version_cls V pkg_name) upstream (py_split output [LF]))) (newest sys))))"

definition get_info_from_package_manager :: "sys \<Rightarrow> string list \<Rightarrow> string ctl" where
  "get_info_from_package_manager sys package =
     sbind (slift (compose_cmd [''apt-cache'', ''show'', py_join '' '' package])) (run_shell_command sys)"

section \<open>Dependencies\<close>

text \<open>
  \<open>as_set\<close> is \<open>list(set(xs))\<close>: the elements once each, in the order in which the interpreter iterates over
  the set. The recursion is over the levels that are left, \<open>MAX_DEPS_DEPTH - depth\<close>.
\<close>

abbreviation MAX_DEPS_DEPTH :: nat where "MAX_DEPS_DEPTH \<equiv> 6"

datatype dep_tree = Dep string | Deps "dep_tree list"

fun get_deps_tree :: "sys \<Rightarrow> (string list \<Rightarrow> string list) \<Rightarrow> nat \<Rightarrow> string list \<Rightarrow> dep_tree ctl" where
  "get_deps_tree sys as_set 0 package = sret (Deps (map Dep (as_set package)))"
| "get_deps_tree sys as_set (Suc left) package =
     (let ret = as_set package
      in sbind (get_info_from_package_manager sys ret) (\<lambda>info.
           let deps = snd (parse_version_deps (None :: (string \<Rightarrow> unit option) option) info)
           in sbind (get_deps_tree sys as_set left (as_set (filter (\<lambda>d. d \<notin> set ret) deps)))
                (\<lambda>sub. sret (Deps (map Dep ret @ [Deps [sub]])))))"

text \<open>One round of the loop that records the packages on hold.\<close>

fun filter_deps :: "string list \<Rightarrow> string list \<Rightarrow> (string \<times> string) list \<Rightarrow> (string \<times> string) list res" where
  "filter_deps hold_list [] deps_map = Inr deps_map"
| "filter_deps hold_list (d # ds) deps_map =
     rbind (if CHR ''='' \<in> set d
            then (case py_split d ''='' of [p, v] \<Rightarrow> Inr (p, v) | _ \<Rightarrow> Inl (ValueError ''too many values to unpack''))
            else Inr (d, []))
       (\<lambda>(p, v). filter_deps hold_list ds
          (if p \<in> set hold_list \<and> (map_of deps_map p = None \<or> map_of deps_map p = Some [])
           then AList.update p v deps_map else deps_map))"

fun deps_tree_filtered ::
  "sys \<Rightarrow> (string list \<Rightarrow> string list) \<Rightarrow> string list \<Rightarrow> nat \<Rightarrow> string list \<Rightarrow> (string \<times> string) list
    \<Rightarrow> (string \<times> string) list ctl" where
  "deps_tree_filtered sys as_set hold_list 0 package deps_map = sret deps_map"
| "deps_tree_filtered sys as_set hold_list (Suc left) package deps_map =
     (let ret = as_set package
      in sbind (get_info_from_package_manager sys ret) (\<lambda>info.
           let deps = as_set (snd (parse_version_deps (None :: (string \<Rightarrow> unit option) option) info) @ ret)
           in sbind (slift (filter_deps hold_list deps deps_map)) (\<lambda>deps_map'.
                deps_tree_filtered sys as_set hold_list left deps deps_map')))"

definition get_deps_tree_filtered ::
  "sys \<Rightarrow> (string list \<Rightarrow> string list) \<Rightarrow> string list \<Rightarrow> nat \<Rightarrow> string list \<Rightarrow> (string \<times> string) list \<Rightarrow> string list ctl" where
  "get_deps_tree_filtered sys as_set hold_list depth package deps_map =
     sbind (deps_tree_filtered sys as_set hold_list (MAX_DEPS_DEPTH - depth) package deps_map) (\<lambda>m.
       sret (map (\<lambda>(p, v). if v \<noteq> [] then p @ ''='' @ v else p) m))"

function dep_tree_traverse :: "dep_tree \<Rightarrow> string list \<Rightarrow> string list" where
  "dep_tree_traverse (Dep d) deps_so_far = (if d \<in> set deps_so_far then deps_so_far else deps_so_far @ [d])"
| "dep_tree_traverse (Deps ds) deps_so_far = fold dep_tree_traverse (rev ds) deps_so_far"
  by pat_completeness auto
termination
  by (relation "measure (size \<circ> fst)") (auto simp: less_Suc_eq_le size_list_estimation')

definition get_sys_holds :: "sys \<Rightarrow> bool \<Rightarrow> string list ctl" where
  "get_sys_holds sys has_apt_mark =
     (if has_apt_mark
      then sbind (slift (compose_cmd [''apt-mark'', ''showhold''])) (\<lambda>cmd.
           sbind (run_shell_command sys cmd) (\<lambda>ret.
             sret (filter (\<lambda>h. h \<noteq> []) (py_split (py_strip ret) [LF]))))
      else sret [])"

definition hold_packages :: "sys \<Rightarrow> bool \<Rightarrow> string list \<Rightarrow> unit ctl" where
  "hold_packages sys has_apt_mark packages =
     (if has_apt_mark
      then sbind (slift (compose_cmd [''apt-mark'', ''hold'', py_join '' '' packages])) (run_shell_script sys)
      else sret ())"

end
