(* ===== verification/Maintainer.thy ===== *)
theory Maintainer
  imports NodeControl
begin

text \<open>
  What upgrades and restarts share (indy_node/server/node_maintainer.py): the action log, the action that is
  scheduled, the queue of delayed calls and the requests to the control tool that are under way. The queue is
  plenum's \<open>HasActionQueue\<close>: \<open>stashed d\<close> tells whether a call with a delay of \<open>d\<close> microseconds is kept in the
  part of the queue that \<open>_unscheduleAction\<close> throws away.
\<close>

section \<open>State\<close>

datatype 'd call = CallAgent 'd pyval | TimesUp 'd

record 'd maintainer =
  actionLog :: "'d action_log"
  scheduledAction :: "'d option"
  actions :: "('d call \<times> int) list"
  sending :: "('d \<times> pyval) list"

abbreviation defaultActionTimeout :: int where "defaultActionTimeout \<equiv> 10"
abbreviation retry_limit :: nat where "retry_limit \<equiv> 3"

definition lastActionEventInfo :: "('d, 'z) maintainer_scheme \<Rightarrow> 'd log_event option" where
  "lastActionEventInfo m = last_event (al_items (actionLog m))"

text \<open>\<open>timedelta(minutes=timeout).seconds\<close>: the seconds within the last day.\<close>

fun get_timeout :: "pyval \<Rightarrow> int res" where
  "get_timeout (PyInt n) =
     (if 999999999 < \<bar>n * 60 div 86400\<bar> then Inl (OverflowError ''days; must have magnitude <= 999999999'')
      else Inr (n * 60 mod 86400))"
| "get_timeout (PyBool b) = Inr (if b then 60 else 0)"
| "get_timeout v = Inl (TypeError ''unsupported type for timedelta minutes component'')"

section \<open>Operations\<close>

definition schedule :: "'d call \<Rightarrow> int \<Rightarrow> (('d, 'z) maintainer_scheme, unit) sres" where
  "schedule action delay = smodify (actions_update (\<lambda>q. q @ [(action, delay)]))"

definition unscheduleAction :: "(int \<Rightarrow> bool) \<Rightarrow> (('d, 'z) maintainer_scheme, unit) sres" where
  "unscheduleAction stashed =
     smodify (\<lambda>m. m\<lparr>actions := filter (\<lambda>(c, d). \<not> stashed d) (actions m), scheduledAction := None\<rparr>)"

text \<open>The log of upgrades and the log of restarts are separated by tabulators.\<close>

definition append_log :: "'d log_codec \<Rightarrow> moment \<Rightarrow> ev_type \<Rightarrow> 'd \<Rightarrow> (('d, 'z) maintainer_scheme, unit) sres" where
  "append_log cd now ty d = smodify (actionLog_update (append_event cd TAB now ty d))"

text \<open>The last event is a start.\<close>

definition is_action_started :: "('d, 'z) maintainer_scheme \<Rightarrow> bool" where
  "is_action_started m =
     (case lastActionEventInfo m of None \<Rightarrow> False | Some e \<Rightarrow> le_type e = started)"

definition process_action_log_for_first_run ::
  "(('d, 'z) maintainer_scheme, unit) sres \<Rightarrow> (('d, 'z) maintainer_scheme, unit) sres" where
  "process_action_log_for_first_run update_action_log m =
     (if is_action_started m then update_action_log m else (m, Inr ()))"

text \<open>
  The loop that sends a request: \<open>connects\<close> lists whether the first, second, ... attempt succeeds; the value
  is the number of attempts that are left when the loop ends.
\<close>

fun send_loop :: "nat \<Rightarrow> bool list \<Rightarrow> nat" where
  "send_loop 0 connects = 0"
| "send_loop (Suc n) [] = send_loop n []"
| "send_loop (Suc n) (c # connects) = (if c then Suc n else send_loop n connects)"

section \<open>Lemmas\<close>

lemma last_event_append [simp]:
  "last_event (al_items (append_event cd delim now ty d l)) = Some \<lparr>le_ts = now, le_type = ty, le_data = d\<rparr>"
  by (simp add: last_event_def append_event_def Let_def)

lemma send_loop_le: "send_loop n connects \<le> n"
  by (induction n connects rule: send_loop.induct) auto

text \<open>The request is given up exactly when none of the attempts that the limit allows succeeds.\<close>

lemma send_loop_0: "send_loop n connects = 0 \<longleftrightarrow> True \<notin> set (take n connects)"
  by (induction n connects rule: send_loop.induct) auto

lemma get_timeout_bounds: "get_timeout v = Inr n \<Longrightarrow> 0 \<le> n \<and> n < 86400"
  by (cases v) (auto split: if_splits)

text \<open>
  The contract between a maintainer and its log: a state in which an action is scheduled has the record of
  that scheduling as its last event and a pending call for it.
\<close>

definition agent_pending :: "('d, 'z) maintainer_scheme \<Rightarrow> 'd \<Rightarrow> bool" where
  "agent_pending m d \<longleftrightarrow> (\<exists>t delay. (CallAgent d t, delay) \<in> set (actions m))"

definition consistent :: "('d, 'z) maintainer_scheme \<Rightarrow> bool" where
  "consistent m \<longleftrightarrow>
     (\<forall>d. scheduledAction m = Some d \<longrightarrow>
        (\<exists>ts. lastActionEventInfo m = Some \<lparr>le_ts = ts, le_type = scheduled, le_data = d\<rparr>) \<and> agent_pending m d)"

lemma consistent_None: "scheduledAction m = None \<Longrightarrow> consistent m"
  by (simp add: consistent_def)

lemma consistent_unschedule: "consistent (fst (unscheduleAction stashed m))"
  by (simp add: unscheduleAction_def consistent_def)

section \<open>The contract of a maintainer\<close>

text \<open>
  A maintainer whose steps keep the contract: what every reachable state promises. The laws are discharged for
  the upgrader and for the restarter where these are modelled.
\<close>

locale maintained =
  fixes step :: "('d, 'z) maintainer_scheme \<Rightarrow> ('d, 'z) maintainer_scheme \<Rightarrow> bool"
  assumes step_consistent: "consistent m \<Longrightarrow> step m m' \<Longrightarrow> consistent m'"

sublocale maintained \<subseteq> steps: step_invariant step consistent
  by unfold_locales (rule step_consistent)

context maintained
begin

lemma reachable_scheduled:
  assumes "step\<^sup>*\<^sup>* m m'" and "scheduledAction m = None" and "scheduledAction m' = Some d"
  shows "(\<exists>ts. lastActionEventInfo m' = Some \<lparr>le_ts = ts, le_type = scheduled, le_data = d\<rparr>) \<and> agent_pending m' d"
  using steps.inv_reachable [OF assms(1) consistent_None [OF assms(2)]] assms(3) by (simp add: consistent_def)

lemma reachable_idle:
  assumes "step\<^sup>*\<^sup>* m m'" and "scheduledAction m = None"
    and "case lastActionEventInfo m' of None \<Rightarrow> True | Some e \<Rightarrow> le_type e \<noteq> scheduled"
  shows "scheduledAction m' = None"
  using reachable_scheduled [OF assms(1,2)] assms(3) by (cases "scheduledAction m'") auto

end

end
