(* ===== verification/Upgrader.thy ===== *)
theory Upgrader
  imports Maintainer ConfigHandlers
begin

text \<open>
  Scheduling of upgrades (indy_node/server/upgrader.py), the node's part in it (the upgrade notifications of
  indy_node/server/node.py), and the order in which the node reads the config ledger. The clock is a number of
  microseconds: the code compares times with the aware current time and stamps log records with the naive one.
  Messages to the notifier are recorded with the upgrade they are about.
\<close>

abbreviation START :: string where "START \<equiv> ''start''"
abbreviation CANCEL :: string where "CANCEL \<equiv> ''cancel''"
abbreviation SCHEDULE :: string where "SCHEDULE \<equiv> ''schedule''"
abbreviation TIMEOUT :: string where "TIMEOUT \<equiv> ''timeout''"
abbreviation PACKAGE :: string where "PACKAGE \<equiv> ''package''"
abbreviation VERSION :: string where "VERSION \<equiv> ''version''"
abbreviation COMPLETE :: string where "COMPLETE \<equiv> ''complete''"
abbreviation IN_PROGRESS :: string where "IN_PROGRESS \<equiv> ''in_progress''"
abbreviation FAIL :: string where "FAIL \<equiv> ''fail''"

section \<open>State and environment\<close>

datatype notice = UpgradeScheduled | UpgradeComplete | UpgradeFail | UpgradeCancel

text \<open>\<open>node_upgrades\<close> are the NODE_UPGRADE requests that the node has sent: action and version.\<close>

record 'v upgrader = "'v upgrade_data maintainer" +
  should_notify :: bool
  sysst :: sys_state
  notices :: "(notice \<times> 'v upgrade_data) list"
  node_upgrades :: "(string \<times> string) list"

text \<open>
  The environment: the id of the node and its configuration, the version classes, the operating system, the
  parser of dates and the texts of dates and of seconds, plenum's \<open>is_forced\<close> and the stash of its queue.
\<close>

record 'v upgrader_env =
  nodeId :: "string option"
  UPGRADE_ENTRY :: string
  MinSepBetweenNodeUpgrades :: int
  metadata_version :: string
  vers :: "'v versions"
  os :: sys
  parse_time :: "string \<Rightarrow> moment res"
  time_text :: "moment \<Rightarrow> string"
  seconds_text :: "int \<Rightarrow> string"
  is_forced :: "txn \<Rightarrow> bool"
  stashed :: "int \<Rightarrow> bool"

definition version_object :: "'v versions \<Rightarrow> string \<Rightarrow> string \<Rightarrow> 'v res" where
  "version_object V pkg_name v =
     (case src_version_cls V pkg_name v of None \<Rightarrow> Inl (ValueError ''invalid version'') | Some x \<Rightarrow> Inr x)"

definition upgrade_log_codec :: "'v upgrader_env \<Rightarrow> 'v upgrade_data log_codec" where
  "upgrade_log_codec E = upgrade_codec (parse_time E) (time_text E) (version_object (vers E)) (v_full (vers E))"

definition with_sys :: "'a ctl \<Rightarrow> ('v upgrader, 'a) sres" where
  "with_sys c s = (case c (sysst s) of (t, r) \<Rightarrow> (s\<lparr>sysst := t\<rparr>, r))"

definition notify :: "notice \<Rightarrow> 'v upgrade_data \<Rightarrow> ('v upgrader, unit) sres" where
  "notify n d = smodify (notices_update (\<lambda>ns. ns @ [(n, d)]))"

section \<open>Versions\<close>

definition get_src_version :: "sys \<Rightarrow> 'v versions \<Rightarrow> string \<Rightarrow> string \<Rightarrow> bool \<Rightarrow> 'v option ctl" where
  "get_src_version sys V metadata pkg_name nocache =
     (if pkg_name = APP_NAME \<and> \<not> nocache
      then slift (rbind (version_object V APP_NAME metadata) (\<lambda>v. Inr (Some v)))
      else sbind (curr_pkg_info sys V pkg_name) (\<lambda>(ver, deps). sret (map_option dv_upstream ver)))"

definition is_version_upgradable :: "'v versions \<Rightarrow> 'v \<Rightarrow> 'v \<Rightarrow> bool \<Rightarrow> bool" where
  "is_version_upgradable V old new reinstall \<longleftrightarrow> v_cmp V new old > 0 \<or> v_cmp V new old = 0 \<and> reinstall"

definition compareVersions :: "'v versions \<Rightarrow> string \<Rightarrow> string \<Rightarrow> int res" where
  "compareVersions V verA verB =
     rbind (version_object V APP_NAME verA) (\<lambda>a. rbind (version_object V APP_NAME verB) (\<lambda>b. Inr (v_cmp V a b)))"

definition upgrade_action_id :: "'v upgrader_env \<Rightarrow> txn \<Rightarrow> string" where
  "upgrade_action_id E txn =
     (let seq_no = (case get_seq_no txn of None \<Rightarrow> [] | Some n \<Rightarrow> if n = 0 then [] else int_str n)
      in int_str (get_req_id txn) @ (if is_forced E txn then [] else seq_no))"

text \<open>\<open>check_upgrade_possible\<close>: the reason against the upgrade, if there is one.\<close>

definition check_upgrade_possible :: "sys \<Rightarrow> 'v versions \<Rightarrow> string \<Rightarrow> string \<Rightarrow> bool \<Rightarrow> string option ctl" where
  "check_upgrade_possible sys V pkg_name target reinstall =
     (case src_version_cls V pkg_name target of
        None \<Rightarrow> sret (Some (''invalid target version '' @ target))
      | Some target_ver \<Rightarrow>
          sbind (curr_pkg_info sys V pkg_name) (\<lambda>(curr, cur_deps).
            case curr of
              None \<Rightarrow> sret (Some (''package '' @ pkg_name @ '' is not installed and cannot be upgraded''))
            | Some curr_pkg_ver \<Rightarrow>
                if \<not> contains_text pkg_name APP_NAME \<and> (\<forall>d\<in>set cur_deps. \<not> contains_text d APP_NAME)
                then sret (Some (''Package '' @ pkg_name @ '' doesn't belong to pool''))
                else if \<not> is_version_upgradable V (dv_upstream curr_pkg_ver) target_ver reinstall
                then sret (Some (''Version '' @ v_full V target_ver @ '' is not upgradable''))
                else sret None))"

section \<open>The log at the first run\<close>

definition didLastExecutedUpgradeSucceeded :: "'v upgrader_env \<Rightarrow> ('v upgrader, bool) sres" where
  "didLastExecutedUpgradeSucceeded E s =
     (case lastActionEventInfo s of
        None \<Rightarrow> (s, Inr False)
      | Some e \<Rightarrow>
          sbind (with_sys (curr_pkg_info (os E) (vers E) (ud_pkg_name (le_data e)))) (\<lambda>(ver, deps).
            sret (case ver of None \<Rightarrow> False | Some dv \<Rightarrow> dv_upstream dv = ud_version (le_data e))) s)"

definition update_upgrade_log :: "'v upgrader_env \<Rightarrow> int \<Rightarrow> ('v upgrader, unit) sres" where
  "update_upgrade_log E t s =
     (case lastActionEventInfo s of
        None \<Rightarrow> (s, Inl (AttributeError ''data''))
      | Some e \<Rightarrow>
          sbind (smodify (should_notify_update (\<lambda>_. True))) (\<lambda>_.
          sbind (didLastExecutedUpgradeSucceeded E) (\<lambda>ok.
            if \<not> ok
            then sbind (append_log (upgrade_log_codec E) (Naive t) failed (le_data e)) (\<lambda>_. notify UpgradeFail (le_data e))
            else sbind (append_log (upgrade_log_codec E) (Naive t) succeeded (le_data e)) (\<lambda>_. notify UpgradeComplete (le_data e)))) s)"

text \<open>\<open>Upgrader.__init__\<close> on the log file: nothing is scheduled after a start of the node.\<close>

definition new_upgrader :: "'v upgrade_data action_log \<Rightarrow> sys_state \<Rightarrow> 'v upgrader" where
  "new_upgrader l t =
     \<lparr>actionLog = l, scheduledAction = None, actions = [], sending = [], should_notify = False, sysst = t,
      notices = [], node_upgrades = []\<rparr>"

definition init_upgrader :: "'v upgrader_env \<Rightarrow> int \<Rightarrow> string \<Rightarrow> sys_state \<Rightarrow> 'v upgrader res" where
  "init_upgrader E t file st =
     rbind (load (upgrade_log_codec E) TAB (Naive t) file) (\<lambda>l.
       case process_action_log_for_first_run (update_upgrade_log E t) (new_upgrader l st) of
         (s, Inl e) \<Rightarrow> Inl e
       | (s, Inr _) \<Rightarrow> Inr s)"

section \<open>Scheduling\<close>

definition scheduleUpgrade :: "'v upgrader_env \<Rightarrow> int \<Rightarrow> 'v upgrade_data \<Rightarrow> pyval \<Rightarrow> ('v upgrader, unit) sres" where
  "scheduleUpgrade E t ev_data failTimeout =
     sbind (notify UpgradeScheduled ev_data) (\<lambda>_.
     sbind (append_log (upgrade_log_codec E) (Naive t) scheduled ev_data) (\<lambda>_.
     sbind (slift (moment_less (Aware t) (ud_when ev_data))) (\<lambda>later.
     sbind (smodify (scheduledAction_update (\<lambda>_. Some ev_data))) (\<lambda>_.
       schedule (CallAgent ev_data failTimeout) (if later then stamp (ud_when ev_data) - t else 0)))))"

definition cancelScheduledUpgrade :: "'v upgrader_env \<Rightarrow> int \<Rightarrow> ('v upgrader, unit) sres" where
  "cancelScheduledUpgrade E t s =
     (case scheduledAction s of
        None \<Rightarrow> (s, Inr ())
      | Some ev_data \<Rightarrow>
          sbind (unscheduleAction (stashed E)) (\<lambda>_.
          sbind (append_log (upgrade_log_codec E) (Naive t) cancelled ev_data) (\<lambda>_.
            notify UpgradeCancel ev_data)) s)"

text \<open>Versions, packages and times are texts, as the message schema demands; anything else is a \<open>TypeError\<close>.\<close>

fun text_of :: "pyval \<Rightarrow> string res" where
  "text_of (PyStr s) = Inr s"
| "text_of v = Inl (TypeError ''str expected'')"

fun schedule_of :: "pyval \<Rightarrow> dict res" where
  "schedule_of (PyDict d) = Inr d"
| "schedule_of v = Inl (TypeError ''dict expected'')"

definition already_performed :: "'v log_event option \<Rightarrow> ('v \<Rightarrow> string) \<Rightarrow> string \<Rightarrow> bool" where
  "already_performed last_ev uid upgrade_id =
     (case last_ev of None \<Rightarrow> False | Some e \<Rightarrow> uid (le_data e) = upgrade_id \<and> le_type e \<in> {succeeded, failed})"

definition handle_start ::
  "'v upgrader_env \<Rightarrow> int \<Rightarrow> dict \<Rightarrow> 'v \<Rightarrow> string \<Rightarrow> string \<Rightarrow> ('v upgrader, unit) sres" where
  "handle_start E t data version upgrade_id pkg_name =
     sbind (slift (rbind (dict_index data SCHEDULE) schedule_of)) (\<lambda>sched.
       case (case nodeId E of None \<Rightarrow> None | Some i \<Rightarrow> map_of sched i) of
         None \<Rightarrow> sret ()
       | Some when \<Rightarrow> (\<lambda>s.
           if already_performed (lastActionEventInfo s) ud_upgrade_id upgrade_id then (s, Inr ())
           else
             sbind (slift (rbind (text_of when) (parse_time E))) (\<lambda>when'.
               let new_ev_data = \<lparr>ud_when = when', ud_version = version, ud_upgrade_id = upgrade_id, ud_pkg_name = pkg_name\<rparr>;
                   failTimeout = dict_get_default data TIMEOUT (PyInt defaultActionTimeout)
               in if scheduledAction s = Some new_ev_data then sret ()
                  else sbind (cancelScheduledUpgrade E t) (\<lambda>_. scheduleUpgrade E t new_ev_data failTimeout)) s))"

definition handleUpgradeTxn :: "'v upgrader_env \<Rightarrow> int \<Rightarrow> txn \<Rightarrow> ('v upgrader, unit) sres" where
  "handleUpgradeTxn E t txn =
     (if get_type txn \<noteq> POOL_UPGRADE then sret ()
      else let data = get_payload_data txn in
        sbind (slift (dict_index data ACTION)) (\<lambda>action.
        sbind (slift (rbind (dict_index data VERSION) text_of)) (\<lambda>version.
        sbind (slift (text_of (dict_get_default data PACKAGE (PyStr (UPGRADE_ENTRY E))))) (\<lambda>pkg_name.
          case src_version_cls (vers E) pkg_name version of
            None \<Rightarrow> sret ()
          | Some ver \<Rightarrow>
              if action = PyStr START then handle_start E t data ver (upgrade_action_id E txn) pkg_name
              else if action = PyStr CANCEL
              then (\<lambda>s. case scheduledAction s of
                      Some ev \<Rightarrow> if ud_version ev = ver then cancelScheduledUpgrade E t s else (s, Inr ())
                    | None \<Rightarrow> (s, Inr ()))
              else sret ()))))"

section \<open>Execution\<close>

definition callUpgradeAgent ::
  "'v upgrader_env \<Rightarrow> ('v upgrader, unit) sres \<Rightarrow> int \<Rightarrow> 'v upgrade_data \<Rightarrow> pyval \<Rightarrow> ('v upgrader, unit) sres" where
  "callUpgradeAgent E action_start_callback t ev_data failTimeout =
     sbind (append_log (upgrade_log_codec E) (Naive t) started ev_data) (\<lambda>_.
     sbind action_start_callback (\<lambda>_.
       smodify (\<lambda>s. s\<lparr>scheduledAction := None, sending := sending s @ [(ev_data, failTimeout)]\<rparr>)))"

definition sendUpgradeRequest ::
  "'v upgrader_env \<Rightarrow> bool list \<Rightarrow> 'v upgrade_data \<Rightarrow> pyval \<Rightarrow> ('v upgrader, unit) sres" where
  "sendUpgradeRequest E connects ev_data failTimeout =
     (if send_loop retry_limit connects = 0
      then sbind (notify UpgradeFail ev_data) (\<lambda>_. unscheduleAction (stashed E))
      else sbind (slift (get_timeout failTimeout)) (\<lambda>secs. schedule (TimesUp ev_data) (secs * 1000000)))"

definition declareTimeoutExceeded ::
  "'v upgrader_env \<Rightarrow> ('v upgrader, unit) sres \<Rightarrow> 'v upgrade_data \<Rightarrow> ('v upgrader, unit) sres" where
  "declareTimeoutExceeded E actionFailedCallback ev_data s =
     (if (case lastActionEventInfo s of None \<Rightarrow> False | Some e \<Rightarrow> le_type e = failed \<and> le_data e = ev_data)
      then (s, Inr ())
      else sbind (notify UpgradeFail ev_data) (\<lambda>_.
           sbind (unscheduleAction (stashed E)) (\<lambda>_. actionFailedCallback)) s)"

section \<open>The ledger\<close>

text \<open>\<open>getBySeqNo\<close> of the ledger with the transactions \<open>l\<close>, numbered from 1.\<close>

definition getBySeqNo :: "txn list \<Rightarrow> int \<Rightarrow> txn res" where
  "getBySeqNo l n = (if 1 \<le> n \<and> n \<le> int (length l) then Inr (l ! nat (n - 1)) else Inl (KeyError (int_str n)))"

function traverse :: "txn list \<Rightarrow> (txn \<Rightarrow> bool res) \<Rightarrow> bool \<Rightarrow> int \<Rightarrow> txn option res" where
  "traverse l predicate reverse seq_no =
     (if (if reverse then seq_no > 0 else seq_no \<le> int (length l))
      then rbind (getBySeqNo l seq_no) (\<lambda>txn.
           rbind (predicate txn) (\<lambda>hit.
             if hit then Inr (Some txn) else traverse l predicate reverse (if reverse then seq_no - 1 else seq_no + 1)))
      else Inr None)"
  by pat_completeness auto
termination
  by (relation "measure (\<lambda>(l, p, reverse, n). if reverse then nat n else nat (int (length l) + 1 - n))") auto

declare traverse.simps [simp del]

definition get_upgrade_txn :: "txn list \<Rightarrow> (txn \<Rightarrow> bool res) \<Rightarrow> int option \<Rightarrow> bool \<Rightarrow> txn option res" where
  "get_upgrade_txn l predicate start_no reverse =
     traverse l predicate reverse (case start_no of Some n \<Rightarrow> n | None \<Rightarrow> if reverse then int (length l) else 1)"

definition get_last_node_upgrade_txn :: "'v upgrader_env \<Rightarrow> txn list \<Rightarrow> int option \<Rightarrow> txn option res" where
  "get_last_node_upgrade_txn E l start_no =
     get_upgrade_txn l (\<lambda>txn. Inr (get_type txn = NODE_UPGRADE \<and> get_from txn = nodeId E)) start_no True"

definition is_upgrade_start :: "txn \<Rightarrow> bool res" where
  "is_upgrade_start txn =
     (if get_type txn \<noteq> POOL_UPGRADE then Inr False
      else rbind (dict_index (get_payload_data txn) ACTION) (\<lambda>a. Inr (a = PyStr START)))"

definition is_cancel_of :: "txn \<Rightarrow> txn \<Rightarrow> bool res" where
  "is_cancel_of start txn =
     (if get_type txn \<noteq> POOL_UPGRADE then Inr False
      else rbind (dict_index (get_payload_data txn) ACTION) (\<lambda>a.
             if a \<noteq> PyStr CANCEL then Inr False
             else rbind (dict_index (get_payload_data txn) VERSION) (\<lambda>v.
                  rbind (dict_index (get_payload_data start) VERSION) (\<lambda>w. Inr (v = w)))))"

definition upgrader_processLedger :: "'v upgrader_env \<Rightarrow> txn list \<Rightarrow> int \<Rightarrow> ('v upgrader, unit) sres" where
  "upgrader_processLedger E l t =
     sbind (slift (get_upgrade_txn l is_upgrade_start None True)) (\<lambda>found.
       case found of
         None \<Rightarrow> sret ()
       | Some start \<Rightarrow>
           sbind (slift (case get_seq_no start of
                           None \<Rightarrow> Inl (TypeError ''unsupported operand type(s) for +'')
                         | Some n \<Rightarrow> get_upgrade_txn l (is_cancel_of start) (Some (n + 1)) False)) (\<lambda>cancel.
             if cancel \<noteq> None then sret () else handleUpgradeTxn E t start))"

section \<open>The node\<close>

definition notify_upgrade_start :: "'v versions \<Rightarrow> ('v upgrader, unit) sres" where
  "notify_upgrade_start V s =
     (case scheduledAction s of
        None \<Rightarrow> (s, Inl (AttributeError ''version''))
      | Some ev \<Rightarrow> (s\<lparr>node_upgrades := node_upgrades s @ [(IN_PROGRESS, v_full V (ud_version ev))]\<rparr>, Inr ()))"

definition acknowledge_upgrade :: "'v upgrader_env \<Rightarrow> ('v upgrader, unit) sres" where
  "acknowledge_upgrade E s =
     (if \<not> should_notify s then (s, Inr ())
      else case lastActionEventInfo s of
             None \<Rightarrow> (s, Inl (AttributeError ''data''))
           | Some e \<Rightarrow>
               sbind (didLastExecutedUpgradeSucceeded E) (\<lambda>ok.
                 smodify (\<lambda>s. s\<lparr>node_upgrades := node_upgrades s @ [(if ok then COMPLETE else FAIL, v_full (vers E) (ud_version (le_data e)))],
                              should_notify := False\<rparr>)) s)"

text \<open>
  \<open>postConfigLedgerCaughtUp\<close>, which is also what an upgrade that fails calls. The pool configuration, which it
  reads as well, is modelled in the theory of the config handlers.
\<close>

definition postConfigLedgerCaughtUp :: "'v upgrader_env \<Rightarrow> txn list \<Rightarrow> int \<Rightarrow> ('v upgrader, unit) sres" where
  "postConfigLedgerCaughtUp E l t = sbind (upgrader_processLedger E l t) (\<lambda>_. acknowledge_upgrade E)"

section \<open>Schedules\<close>

text \<open>The loop over the times of a schedule: the times, or the reason against one of them.\<close>

fun schedule_times :: "'v upgrader_env \<Rightarrow> int \<Rightarrow> bool \<Rightarrow> pyval list \<Rightarrow> (string + moment list) res" where
  "schedule_times E now force [] = Inr (Inr [])"
| "schedule_times E now force (dateStr # ds) =
     (case rbind (rbind (text_of dateStr) (parse_time E)) (\<lambda>when. rbind (moment_le when (Aware now)) (\<lambda>past. Inr (when, past))) of
        Inl (ValueError m) \<Rightarrow> Inr (Inl (py_str dateStr @ '' cannot be parsed to a time''))
      | Inl e \<Rightarrow> Inl e
      | Inr (when, past) \<Rightarrow>
          if past \<and> \<not> force then Inr (Inl (time_text E when @ '' is less than current time''))
          else rbind (schedule_times E now force ds) (\<lambda>r. Inr (case r of Inl m \<Rightarrow> Inl m | Inr ts \<Rightarrow> Inr (when # ts))))"

text \<open>The loop over neighbours in the sorted list, in microseconds: the first gap that is too small.\<close>

fun small_gap :: "int \<Rightarrow> int list \<Rightarrow> int option" where
  "small_gap sep (a # b # ts) = (if b - a < sep * 1000000 then Some (b - a) else small_gap sep (b # ts))"
| "small_gap sep _ = None"

definition isScheduleValid ::
  "'v upgrader_env \<Rightarrow> int \<Rightarrow> dict \<Rightarrow> (string \<times> string list) list \<Rightarrow> bool \<Rightarrow> (bool \<times> string) res" where
  "isScheduleValid E now sched node_srvs force =
     (let non_demoted_nodes = set (map fst (filter (\<lambda>(k, v). v \<noteq> []) node_srvs))
      in if \<not> force \<and> set (map fst sched) \<noteq> non_demoted_nodes then Inr (False, ''Schedule should contain id of all nodes'')
         else rbind (schedule_times E now force (map snd sched)) (\<lambda>r.
           case r of
             Inl m \<Rightarrow> Inr (False, m)
           | Inr moments \<Rightarrow>
               if force then Inr (True, [])
               else case small_gap (MinSepBetweenNodeUpgrades E) (sort (map stamp moments)) of
                      Some diff \<Rightarrow> Inr (False, ''time span between upgrades is '' @ seconds_text E diff
                                       @ '' seconds which is less than specified in the config'')
                    | None \<Rightarrow> Inr (True, [])))"

end
