(* ===== verification/PoolUpgrade.thy ===== *)
theory PoolUpgrade
  imports Upgrader
begin

text \<open>
  The POOL_UPGRADE handler (request_handlers/config_req_handlers/pool_upgrade_handler.py) and the handler of
  config ledger batches (request_handlers/config_batch_handler.py), which hand transactions to the upgrader and
  to the pool configuration.
\<close>

abbreviation FORCE :: string where "FORCE \<equiv> ''force''"
abbreviation REINSTALL :: string where "REINSTALL \<equiv> ''reinstall''"
abbreviation UPGRADE_NAME :: string where "UPGRADE_NAME \<equiv> ''name''"

section \<open>Validation\<close>

definition pool_upgrade_static_validation ::
  "'v upgrader_env \<Rightarrow> int \<Rightarrow> (string \<times> string list) list \<Rightarrow> request \<Rightarrow> unit res" where
  "pool_upgrade_static_validation E now node_srvs req =
     (let action = dict_get (operation req) ACTION
      in if action \<notin> {PyStr START, PyStr CANCEL} then refuse req (py_str action @ '' not a valid action'')
         else if action = PyStr START
         then (let sched = dict_get_default (operation req) SCHEDULE (PyDict []);
                   force = (py_str (dict_get (operation req) FORCE) = ''True'')
               in case sched of
                    PyDict d \<Rightarrow>
                      rbind (isScheduleValid E now d node_srvs force) (\<lambda>(isValid, msg).
                        if \<not> isValid then refuse req (py_str sched @ '' not a valid schedule since '' @ msg) else Inr ())
                  | _ \<Rightarrow> Inl (AttributeError ''keys''))
         else Inr ())"

text \<open>The most recent transaction of the config ledger with the name and the version of the request.\<close>

definition same_upgrade :: "request \<Rightarrow> txn \<Rightarrow> bool res" where
  "same_upgrade req txn =
     Inr (dict_get (get_payload_data txn) UPGRADE_NAME = dict_get (operation req) UPGRADE_NAME \<and>
          dict_get (get_payload_data txn) VERSION = dict_get (operation req) VERSION)"

definition upgrade_status :: "txn list \<Rightarrow> request \<Rightarrow> pyval res" where
  "upgrade_status ledger req =
     rbind (get_upgrade_txn ledger (same_upgrade req) None True) (\<lambda>found.
       Inr (case found of None \<Rightarrow> PyStr ''*'' | Some txn \<Rightarrow> dict_get_default (get_payload_data txn) ACTION (PyStr ''*'')))"

definition upgrade_auth_action :: "pyval \<Rightarrow> pyval \<Rightarrow> auth_action" where
  "upgrade_auth_action status action =
     (if status = PyStr ''*'' then mk_AuthActionAdd POOL_UPGRADE (PyStr ACTION) action True
      else mk_AuthActionEdit POOL_UPGRADE (PyStr ACTION) status action True)"

text \<open>\<open>str(exc)\<close>\<close>

fun exn_text :: "exn \<Rightarrow> string" where
  "exn_text (InvalidClientRequest i r m) = m"
| "exn_text (UnauthorizedClientRequest i r m) = m"
| "exn_text (AuthValidationError m) = m"
| "exn_text (InvalidDIDDocException m) = m"
| "exn_text (KeyError k) = repr_str k"
| "exn_text (IndexError m) = m"
| "exn_text (ValueError m) = m"
| "exn_text (TypeError m) = m"
| "exn_text (AttributeError m) = m"
| "exn_text AssertionError = []"
| "exn_text (OverflowError m) = m"
| "exn_text (ShellError m) = m"
| "exn_text (OtherException m) = m"

text \<open>Only the first package of the text is looked at.\<close>

definition check_package :: "'v upgrader_env \<Rightarrow> request \<Rightarrow> unit ctl" where
  "check_package E req =
     (let pkg_to_upgrade = dict_get_default (operation req) PACKAGE (PyStr (UPGRADE_ENTRY E))
      in if \<not> truthy pkg_to_upgrade then slift (refuse req ''Upgrade package name is empty'')
         else sbind (slift (rbind (text_of pkg_to_upgrade) single_package)) (\<lambda>pkg.
              sbind (slift (rbind (dict_index (operation req) VERSION) text_of)) (\<lambda>targetVersion.
                let reinstall = truthy (dict_get_default (operation req) REINSTALL (PyBool False))
                in sbind (scatch (check_upgrade_possible (os E) (vers E) pkg targetVersion reinstall)
                            (\<lambda>e. sret (Some (exn_text e)))) (\<lambda>res.
                     case res of
                       Some m \<Rightarrow> if m \<noteq> [] then slift (refuse req m) else sret ()
                     | None \<Rightarrow> sret ()))))"

definition pool_upgrade_dynamic_validation ::
  "'v upgrader_env \<Rightarrow> txn list \<Rightarrow> validator \<Rightarrow> request \<Rightarrow> unit ctl" where
  "pool_upgrade_dynamic_validation E ledger wrv req =
     (let action = dict_get (operation req) ACTION
      in sbind (slift (upgrade_status ledger req)) (\<lambda>status.
           if status = PyStr START \<and> action = PyStr START
           then slift (refuse req (''Upgrade '' @ squoted (py_str (dict_get (operation req) UPGRADE_NAME)) @ '' is already scheduled''))
           else sbind (slift (authorize_with wrv req (upgrade_auth_action status action))) (\<lambda>_. check_package E req)))"

section \<open>Forced requests and batches\<close>

text \<open>\<open>to_txn\<close> is plenum's conversion of a request; what plenum does for a forced request itself is left out.\<close>

definition pool_upgrade_apply_forced ::
  "'v upgrader_env \<Rightarrow> (request \<Rightarrow> txn) \<Rightarrow> int \<Rightarrow> request \<Rightarrow> ('v upgrader, unit) sres" where
  "pool_upgrade_apply_forced E to_txn t req = handleUpgradeTxn E t (to_txn req)"

definition with_upgrader :: "('v upgrader, unit) sres \<Rightarrow> ('v upgrader \<times> PoolConfig, unit) sres" where
  "with_upgrader m = (\<lambda>(u, c). case m u of (u', r) \<Rightarrow> ((u', c), r))"

definition config_txn :: "txn \<Rightarrow> ('v upgrader \<times> PoolConfig, unit) sres" where
  "config_txn txn = (\<lambda>(u, c). case handleConfigTxn c txn of Inl e \<Rightarrow> ((u, c), Inl e) | Inr c' \<Rightarrow> ((u, c'), Inr ()))"

text \<open>\<open>commit_batch\<close> on the transactions that plenum has committed.\<close>

fun config_commit_batch :: "'v upgrader_env \<Rightarrow> int \<Rightarrow> txn list \<Rightarrow> ('v upgrader \<times> PoolConfig, unit) sres" where
  "config_commit_batch E t [] = sret ()"
| "config_commit_batch E t (txn # txns) =
     sbind (if is_forced E txn then sret () else sbind (with_upgrader (handleUpgradeTxn E t txn)) (\<lambda>_. config_txn txn))
       (\<lambda>_. config_commit_batch E t txns)"

section \<open>Lemmas\<close>

lemma before_separator_stop:
  assumes "\<forall>c\<in>set p. \<not> is_space c \<and> c \<noteq> CHR '';'' \<and> c \<noteq> CHR ''|'' \<and> c \<noteq> CHR ''&''" and "is_space b"
  shows "before_separator (p @ b # x) = p"
  using assms by (induction p) auto

lemma rstrip_id: "\<forall>c\<in>set p. \<not> is_space c \<Longrightarrow> rstrip p = p"
  by (cases p rule: rev_cases) (auto simp: rstrip_def)

lemma line_break_space: "is_line_break c \<Longrightarrow> is_space c"
  by (auto simp: is_line_break_def is_space_def Let_def)

lemma first_line_id: "s \<noteq> [] \<Longrightarrow> \<forall>c\<in>set s. \<not> is_line_break c \<Longrightarrow> first_line s = Inr s"
  by (simp add: first_line_def takeWhile_eq_all_conv [THEN iffD2])

text \<open>What follows the first blank of a package text plays no part in its validation.\<close>

lemma single_package_cut:
  assumes "\<forall>c\<in>set p. \<not> is_space c \<and> c \<noteq> CHR '';'' \<and> c \<noteq> CHR ''|'' \<and> c \<noteq> CHR ''&''"
    and "\<forall>c\<in>set x. \<not> is_line_break c"
  shows "single_package (p @ CHR '' '' # x) = Inr p"
proof -
  have "first_line (p @ CHR '' '' # x) = Inr (p @ CHR '' '' # x)"
    using assms line_break_space by (intro first_line_id) (auto simp: is_line_break_def)
  moreover have "before_separator (p @ CHR '' '' # x) = p"
    by (rule before_separator_stop [OF assms(1)]) (simp add: is_space_def)
  ultimately show ?thesis using assms(1) by (simp add: single_package_def rstrip_id)
qed

lemma single_package_id:
  assumes "\<forall>c\<in>set p. \<not> is_space c \<and> c \<noteq> CHR '';'' \<and> c \<noteq> CHR ''|'' \<and> c \<noteq> CHR ''&''" and "p \<noteq> []"
  shows "single_package p = Inr p"
proof -
  have "before_separator p = p" using assms(1) by (induction p) auto
  moreover have "first_line p = Inr p" using assms line_break_space by (intro first_line_id) auto
  ultimately show ?thesis using assms by (simp add: single_package_def rstrip_id)
qed

end
