(* ===== verification/ControlTool.thy ===== *)
theory ControlTool
  imports PoolUpgrade
begin

text \<open>
  The node control tool (indy_node/utils/node_control_tool.py) and the choice of migration scripts
  (indy_node/utils/migration_tool.py): what the tool does with the requests that the node sends it. The socket
  loop that receives them is in ControlLoop.
\<close>

section \<open>Migrations\<close>

definition get_migration_versions :: "string \<Rightarrow> (string \<times> string) option" where
  "get_migration_versions migration =
     (let migration_split = py_split migration ''_''
      in if length migration_split \<noteq> 7 then None
         else Some (py_join ''.'' (take 3 migration_split), py_join ''.'' (drop 4 migration_split)))"

definition compare_migration_scripts :: "'v versions \<Rightarrow> string \<Rightarrow> string \<Rightarrow> int res" where
  "compare_migration_scripts V m1 m2 =
     (case (get_migration_versions m1, get_migration_versions m2) of
        (Some (o1, n1), Some (o2, n2)) \<Rightarrow>
          rbind (compareVersions V o1 o2) (\<lambda>c. if c = 0 then compareVersions V n1 n2 else compareVersions V o1 o2)
      | _ \<Rightarrow> Inl (TypeError ''expected string''))"

text \<open>\<open>sorted(xs, key=cmp_to_key(cmp))\<close>: stable.\<close>

fun insert_by :: "('a \<Rightarrow> 'a \<Rightarrow> int res) \<Rightarrow> 'a \<Rightarrow> 'a list \<Rightarrow> 'a list res" where
  "insert_by cmp x [] = Inr [x]"
| "insert_by cmp x (y # ys) =
     rbind (cmp x y) (\<lambda>c. if c < 0 then Inr (x # y # ys) else rbind (insert_by cmp x ys) (\<lambda>zs. Inr (y # zs)))"

fun sorted_by :: "('a \<Rightarrow> 'a \<Rightarrow> int res) \<Rightarrow> 'a list \<Rightarrow> 'a list \<Rightarrow> 'a list res" where
  "sorted_by cmp acc [] = Inr acc"
| "sorted_by cmp acc (x # xs) = rbind (insert_by cmp x acc) (\<lambda>acc'. sorted_by cmp acc' xs)"

text \<open>
  The conditions on one script, for upgrades and for downgrades; \<open>None\<close> is the \<open>continue\<close> for a script of the
  other direction. (The texts of the versions, joined from three parts, are never empty.)
\<close>

definition is_relevant :: "'v versions \<Rightarrow> string \<Rightarrow> string \<Rightarrow> string \<Rightarrow> string \<Rightarrow> bool option res" where
  "is_relevant V current_version new_version orig new =
     rbind (compareVersions V new_version current_version) (\<lambda>dir.
       if dir \<ge> 0
       then rbind (compareVersions V orig new) (\<lambda>c.
              if c > 0 then Inr None
              else rbind (compareVersions V current_version orig) (\<lambda>a.
                   if a \<le> 0 then rbind (compareVersions V new_version new) (\<lambda>b. Inr (Some (b \<ge> 0))) else Inr (Some False)))
       else rbind (compareVersions V new orig) (\<lambda>c.
              if c > 0 then Inr None
              else rbind (compareVersions V current_version orig) (\<lambda>a.
                   if a \<ge> 0 then rbind (compareVersions V new_version new) (\<lambda>b. Inr (Some (b \<le> 0))) else Inr (Some False))))"

fun relevant_loop :: "'v versions \<Rightarrow> string \<Rightarrow> string \<Rightarrow> string list \<Rightarrow> string list \<Rightarrow> string list res" where
  "relevant_loop V current_version new_version relevant [] = Inr relevant"
| "relevant_loop V current_version new_version relevant (migration # ms) =
     (case get_migration_versions migration of
        None \<Rightarrow> relevant_loop V current_version new_version relevant ms
      | Some (orig, new) \<Rightarrow>
          rbind (is_relevant V current_version new_version orig new) (\<lambda>r.
            case r of
              None \<Rightarrow> relevant_loop V current_version new_version relevant ms
            | Some hit \<Rightarrow>
                rbind (sorted_by (compare_migration_scripts V) [] (if hit then relevant @ [migration] else relevant)) (\<lambda>relevant'.
                  relevant_loop V current_version new_version relevant' ms)))"

definition get_relevant_migrations :: "'v versions \<Rightarrow> string list \<Rightarrow> string \<Rightarrow> string \<Rightarrow> string list res" where
  "get_relevant_migrations V migration_scripts current_version new_version =
     relevant_loop V current_version new_version [] migration_scripts"

text \<open>The environment of the tool and of the migrations.\<close>

record 'v tool_env =
  t_sys :: sys
  t_vers :: "'v versions"
  t_as_set :: "string list \<Rightarrow> string list"
  t_apt_mark :: bool
  t_metadata :: string
  t_backups :: "sys_op list \<Rightarrow> (string \<times> bool \<times> int) list"
  t_distro :: string
  t_scripts :: "string list"
  t_script_path :: "string \<Rightarrow> string"

definition get_current_platform :: "'v tool_env \<Rightarrow> string res" where
  "get_current_platform T =
     (if contains_text (t_distro T) ''Ubuntu'' \<or> contains_text (t_distro T) ''ubuntu'' then Inr ''Ubuntu''
      else Inl (OtherException ''Platform is not supported''))"

text \<open>The path of a script depends on the platform, of which there is one.\<close>

definition call_migration_script :: "'v tool_env \<Rightarrow> string \<Rightarrow> unit ctl" where
  "call_migration_script T migration_script =
     sbind (slift (compose_cmd [''python3 '' @ t_script_path T migration_script])) (\<lambda>cmd.
     sbind (perform (t_sys T) (Shell cmd)) (\<lambda>r. case r of
       Completed out \<Rightarrow> sret ()
     | Failed out err \<Rightarrow> sraise (OtherException ''Migration failed'')
     | Broken m \<Rightarrow> sraise (OtherException m)))"

fun each_script :: "('a \<Rightarrow> unit ctl) \<Rightarrow> 'a list \<Rightarrow> unit ctl" where
  "each_script f [] = sret ()"
| "each_script f (x # xs) = sbind (f x) (\<lambda>_. each_script f xs)"

definition migrate :: "'v tool_env \<Rightarrow> string \<Rightarrow> string \<Rightarrow> nat ctl" where
  "migrate T current_version new_version =
     sbind (slift (get_current_platform T)) (\<lambda>platform.
     sbind (slift (get_relevant_migrations (t_vers T) (t_scripts T) current_version new_version)) (\<lambda>scripts.
       if scripts = [] then sret 0
       else sbind (each_script (call_migration_script T) scripts) (\<lambda>_. sret (length scripts))))"

section \<open>Upgrades\<close>

record tool =
  test_mode :: bool
  hold_ext :: "string list"
  PACKAGES_TO_HOLD :: "string list"
  backup_dir :: string
  backup_target :: string
  backup_format :: string
  backup_name_prefix :: string
  backup_num :: nat
  tmp_dir :: string
  files_to_preserve :: "string list"

text \<open>\<open>os.path.join\<close>\<close>

definition path_join :: "string \<Rightarrow> string \<Rightarrow> string" where
  "path_join a b =
     (if b \<noteq> [] \<and> hd b = CHR ''/'' then b
      else if a = [] \<or> last a = CHR ''/'' then a @ b else a @ ''/'' @ b)"

definition get_deps_list :: "'v tool_env \<Rightarrow> tool \<Rightarrow> string \<Rightarrow> string ctl" where
  "get_deps_list T c package =
     sbind (update_package_cache (t_sys T)) (\<lambda>_.
     sbind (get_sys_holds (t_sys T) (t_apt_mark T)) (\<lambda>holded.
       if holded = [] then sret package
       else let app_holded = t_as_set T (PACKAGES_TO_HOLD c @ hold_ext c @ holded)
            in sbind (get_deps_tree_filtered (t_sys T) (t_as_set T) app_holded 0 [package] []) (\<lambda>deps_list.
                 sret (py_join '' '' (if package \<in> set deps_list then deps_list else deps_list @ [package])))))"

definition call_upgrade_script :: "'v tool_env \<Rightarrow> tool \<Rightarrow> string \<Rightarrow> 'v debian_version \<Rightarrow> unit ctl" where
  "call_upgrade_script T c pkg_name pkg_ver =
     sbind (get_deps_list T c (pkg_name @ ''='' @ dv_full pkg_ver)) (\<lambda>deps.
     sbind (slift (compose_cmd [if test_mode c then ''upgrade_indy_node_test'' else ''upgrade_indy_node'', dquoted deps]))
       (run_shell_script (t_sys T)))"

definition call_restart_node_script :: "'v tool_env \<Rightarrow> unit ctl" where
  "call_restart_node_script T = sbind (slift (compose_cmd [''restart_indy_node''])) (run_shell_script (t_sys T))"

definition backup_name :: "tool \<Rightarrow> string \<Rightarrow> string" where
  "backup_name c src_ver = path_join (backup_dir c) (backup_name_prefix c @ src_ver)"

definition backup_name_ext :: "tool \<Rightarrow> string \<Rightarrow> string" where
  "backup_name_ext c src_ver = backup_name c src_ver @ ''.'' @ backup_format c"

text \<open>An operation on files that raises when it fails.\<close>

definition file_op :: "'v tool_env \<Rightarrow> sys_op \<Rightarrow> unit ctl" where
  "file_op T op = sbind (perform (t_sys T) op) (\<lambda>r. case r of Completed _ \<Rightarrow> sret () | Failed _ m \<Rightarrow> sraise (OtherException m) | Broken m \<Rightarrow> sraise (OtherException m))"

text \<open>A copy whose \<open>IOError\<close> (an outcome \<open>Failed\<close>) is only logged.\<close>

definition try_copy :: "'v tool_env \<Rightarrow> string \<Rightarrow> string \<Rightarrow> unit ctl" where
  "try_copy T src dst =
     sbind (perform (t_sys T) (CopyFile src dst)) (\<lambda>r. case r of Broken m \<Rightarrow> sraise (OtherException m) | _ \<Rightarrow> sret ())"

definition create_backup :: "'v tool_env \<Rightarrow> tool \<Rightarrow> string \<Rightarrow> unit ctl" where
  "create_backup T c src_ver = file_op T (MakeArchive (backup_name c src_ver))"

definition restore_from_backup :: "'v tool_env \<Rightarrow> tool \<Rightarrow> string \<Rightarrow> unit ctl" where
  "restore_from_backup T c src_ver =
     sbind (each_script (\<lambda>f. try_copy T (path_join (backup_target c) f) (path_join (tmp_dir c) f)) (files_to_preserve c)) (\<lambda>_.
     sbind (file_op T (UnpackArchive (backup_name_ext c src_ver))) (\<lambda>_.
     sbind (each_script (\<lambda>f. try_copy T (path_join (tmp_dir c) f) (path_join (backup_target c) f)) (files_to_preserve c)) (\<lambda>_.
     sbind (perform (t_sys T) (RemoveTree (tmp_dir c))) (\<lambda>_. sret ()))))"

text \<open>The backups, the youngest first: \<open>t_backups\<close> lists the directory with the kinds and times of its entries.\<close>

definition get_backups :: "'v tool_env \<Rightarrow> tool \<Rightarrow> sys_op list \<Rightarrow> string list" where
  "get_backups T c ops =
     map fst (sort_key (\<lambda>(f, isfile, mtime). - mtime)
       (filter (\<lambda>(f, isfile, mtime). isfile \<and> contains_text f (backup_name_prefix c))
         (map (\<lambda>(f, isfile, mtime). (path_join (backup_dir c) f, isfile, mtime)) (t_backups T ops))))"

definition remove_old_backups :: "'v tool_env \<Rightarrow> tool \<Rightarrow> unit ctl" where
  "remove_old_backups T c s =
     each_script (\<lambda>f. file_op T (RemoveFile f)) (drop (backup_num c) (get_backups T c (sys_ops s))) s"

definition tool_migrate :: "'v tool_env \<Rightarrow> tool \<Rightarrow> string \<Rightarrow> string \<Rightarrow> unit ctl" where
  "tool_migrate T c curr_src_ver new_src_ver =
     sbind (scatch (sbind (create_backup T c curr_src_ver) (\<lambda>_. sbind (migrate T curr_src_ver new_src_ver) (\<lambda>_. sret ())))
              (\<lambda>e. sbind (restore_from_backup T c curr_src_ver) (\<lambda>_. sraise e)))
       (\<lambda>_. remove_old_backups T c)"

text \<open>
  The body of the \<open>try\<close> in \<open>_do_upgrade\<close>. Its condition \<open>if migrate\<close> tests the imported function, not a
  parameter, and always holds.
\<close>

definition upgrade_attempt :: "'v tool_env \<Rightarrow> tool \<Rightarrow> 'v \<Rightarrow> string \<Rightarrow> 'v debian_version \<Rightarrow> unit ctl" where
  "upgrade_attempt T c cur_node_src_ver pkg_name new_pkg_ver =
     sbind (call_upgrade_script T c pkg_name new_pkg_ver) (\<lambda>_.
     sbind (get_src_version (t_sys T) (t_vers T) (t_metadata T) APP_NAME True) (\<lambda>new_node_src_ver.
       case new_node_src_ver of
         None \<Rightarrow> sraise (AttributeError ''release'')
       | Some v \<Rightarrow>
           sbind (tool_migrate T c (v_release (t_vers T) cur_node_src_ver) (v_release (t_vers T) v)) (\<lambda>_.
             call_restart_node_script T)))"

function do_upgrade ::
  "'v tool_env \<Rightarrow> tool \<Rightarrow> string \<Rightarrow> 'v debian_version \<Rightarrow> 'v debian_version \<Rightarrow> bool \<Rightarrow> unit ctl" where
  "do_upgrade T c pkg_name curr_pkg_ver new_pkg_ver rollback =
     sbind (get_src_version (t_sys T) (t_vers T) (t_metadata T) APP_NAME False) (\<lambda>cur.
       case cur of
         None \<Rightarrow> sret ()
       | Some cur_node_src_ver \<Rightarrow>
           scatch (upgrade_attempt T c cur_node_src_ver pkg_name new_pkg_ver)
             (\<lambda>e. if rollback then do_upgrade T c pkg_name new_pkg_ver curr_pkg_ver False else sret ()))"
  by pat_completeness auto
termination
  by (relation "measure (\<lambda>(T, c, p, cur, new, rollback). if rollback then 1 else 0)") auto

declare do_upgrade.simps [simp del]

definition tool_upgrade :: "'v tool_env \<Rightarrow> tool \<Rightarrow> 'v \<Rightarrow> string \<Rightarrow> unit ctl" where
  "tool_upgrade T c new_src_ver pkg_name =
     sbind (curr_pkg_info (t_sys T) (t_vers T) pkg_name) (\<lambda>(curr, deps).
       case curr of
         None \<Rightarrow> sret ()
       | Some curr_pkg_ver \<Rightarrow>
           sbind (get_latest_pkg_version (t_sys T) (t_vers T) pkg_name (Some new_src_ver) True) (\<lambda>new.
             case new of
               None \<Rightarrow> sret ()
             | Some new_pkg_ver \<Rightarrow> do_upgrade T c pkg_name curr_pkg_ver new_pkg_ver True))"

text \<open>The handler of a failed restart concatenates a text with the status of the command: a \<open>TypeError\<close>.\<close>

definition tool_restart :: "'v tool_env \<Rightarrow> unit ctl" where
  "tool_restart T =
     scatch (call_restart_node_script T)
       (\<lambda>e. case e of ShellError err \<Rightarrow> sraise (TypeError ''must be str, not int'') | _ \<Rightarrow> sret ())"

text \<open>\<open>_process_data\<close>: \<open>loads\<close> decodes the data; every exception ends in the log of the tool.\<close>

definition process_data :: "'v tool_env \<Rightarrow> tool \<Rightarrow> (string \<Rightarrow> pyval res) \<Rightarrow> string \<Rightarrow> unit ctl" where
  "process_data T c loads data =
     scatch
       (sbind (slift (loads data)) (\<lambda>command.
        sbind (slift (py_index command ''message_type'')) (\<lambda>ty.
          if ty = PyStr ''upgrade''
          then sbind (slift (rbind (py_index command ''pkg_name'') text_of)) (\<lambda>pkg_name.
               sbind (slift (rbind (py_index command ''version'') text_of)) (\<lambda>version.
                 case src_version_cls (t_vers T) pkg_name version of
                   None \<Rightarrow> sret ()
                 | Some new_src_ver \<Rightarrow> tool_upgrade T c new_src_ver pkg_name))
          else if ty = PyStr ''restart'' then tool_restart T
          else sret ())))
       (\<lambda>e. sret ())"

text \<open>What the node sends: \<open>UpgradeMessage(...).toJson()\<close> with \<open>dumps\<close> for the encoding.\<close>

definition upgrade_message_dict :: "'v versions \<Rightarrow> 'v upgrade_data \<Rightarrow> pyval" where
  "upgrade_message_dict V ev_data =
     PyDict [(''message_type'', PyStr ''upgrade''), (''version'', PyStr (v_full V (ud_version ev_data))),
             (''pkg_name'', PyStr (ud_pkg_name ev_data))]"

definition upgrade_message :: "'v versions \<Rightarrow> (pyval \<Rightarrow> string) \<Rightarrow> 'v upgrade_data \<Rightarrow> string" where
  "upgrade_message V dumps ev_data = dumps (upgrade_message_dict V ev_data)"

definition restart_message :: "(pyval \<Rightarrow> string) \<Rightarrow> string" where
  "restart_message dumps = dumps (PyDict [(''message_type'', PyStr ''restart'')])"

end
