(* ===== verification/UpgraderProperties.thy ===== *)
theory UpgraderProperties
  imports Upgrader
begin

text \<open>
  The life of an upgrade: the steps of the upgrader in any order (transactions, due calls, requests to the
  control tool, reading the ledger, restarts of the node), the invariant that ties the schedule to the log and
  to the queue, and what restarts and timeouts do.
\<close>

section \<open>Steps\<close>

inductive upgrader_step :: "'v upgrader_env \<Rightarrow> 'v upgrader \<Rightarrow> 'v upgrader \<Rightarrow> bool" for E where
  handle: "upgrader_step E s (fst (handleUpgradeTxn E t txn s))"
| ledger: "upgrader_step E s (fst (postConfigLedgerCaughtUp E l t s))"
| agent: "actions s = q @ (CallAgent ev timeout, d) # q' \<Longrightarrow>
    upgrader_step E s (fst (callUpgradeAgent E (notify_upgrade_start (vers E)) t ev timeout (s\<lparr>actions := q @ q'\<rparr>)))"
| times_up: "actions s = q @ (TimesUp ev, d) # q' \<Longrightarrow>
    upgrader_step E s (fst (declareTimeoutExceeded E (postConfigLedgerCaughtUp E l t) ev (s\<lparr>actions := q @ q'\<rparr>)))"
| send: "sending s = q @ (ev, timeout) # q' \<Longrightarrow>
    upgrader_step E s (fst (sendUpgradeRequest E connects ev timeout (s\<lparr>sending := q @ q'\<rparr>)))"
| restart: "init_upgrader E t (al_file (actionLog s)) st = Inr s' \<Longrightarrow> upgrader_step E s s'"

section \<open>Every operation keeps the contract\<close>

lemma consistent_frame:
  "consistent (fst (notify n d s)) = consistent s"
  "consistent (s\<lparr>sysst := x\<rparr>) = consistent s"
  "consistent (s\<lparr>should_notify := b\<rparr>) = consistent s"
  "consistent (s\<lparr>notices := ns\<rparr>) = consistent s"
  "consistent (s\<lparr>node_upgrades := us\<rparr>) = consistent s"
  "consistent (s\<lparr>sending := ss\<rparr>) = consistent s"
  by (simp_all add: consistent_def notify_def lastActionEventInfo_def agent_pending_def)

lemma with_sys_frame:
  "with_sys c s = (s', r) \<Longrightarrow> \<exists>x. s' = s\<lparr>sysst := x\<rparr>"
  by (auto simp: with_sys_def split: prod.splits)

lemma did_succeed_frame: "didLastExecutedUpgradeSucceeded E s = (s', r) \<Longrightarrow> \<exists>x. s' = s\<lparr>sysst := x\<rparr>"
proof -
  assume *: "didLastExecutedUpgradeSucceeded E s = (s', r)"
  show ?thesis
  proof (cases "lastActionEventInfo s")
    case None
    with * show ?thesis by (intro exI [of _ "sysst s"]) (simp add: didLastExecutedUpgradeSucceeded_def)
  next
    case (Some e)
    obtain s1 r1 where "with_sys (curr_pkg_info (os E) (vers E) (ud_pkg_name (le_data e))) s = (s1, r1)"
      by (cases "with_sys (curr_pkg_info (os E) (vers E) (ud_pkg_name (le_data e))) s")
    with * Some show ?thesis
      by (auto simp: didLastExecutedUpgradeSucceeded_def sbind_def dest!: with_sys_frame split: sum.splits prod.splits)
  qed
qed

lemma schedule_consistent:
  assumes "scheduledAction s = None"
  shows "consistent (fst (scheduleUpgrade E t ev timeout s))"
proof (cases "moment_less (Aware t) (ud_when ev)")
  case (Inl e)
  with assms show ?thesis
    by (simp add: scheduleUpgrade_def notify_def append_log_def sbind_def consistent_None)
next
  case (Inr b)
  then show ?thesis
    by (simp add: scheduleUpgrade_def notify_def append_log_def schedule_def sbind_def consistent_def
        lastActionEventInfo_def agent_pending_def) blast
qed

lemma cancel_result:
  "snd (cancelScheduledUpgrade E t s) = Inr () \<and> scheduledAction (fst (cancelScheduledUpgrade E t s)) = None"
  by (auto simp: cancelScheduledUpgrade_def unscheduleAction_def append_log_def notify_def sbind_def split: option.splits)

lemma cancel_consistent: "consistent (fst (cancelScheduledUpgrade E t s))"
  using cancel_result by (intro consistent_None) blast

lemma reschedule_consistent:
  "consistent (fst (sbind (cancelScheduledUpgrade E t) (\<lambda>_. scheduleUpgrade E t ev timeout) s))"
proof -
  obtain s1 where "cancelScheduledUpgrade E t s = (s1, Inr ())" "scheduledAction s1 = None"
    using cancel_result [of E t s] by (cases "cancelScheduledUpgrade E t s") auto
  then show ?thesis by (simp add: schedule_consistent)
qed

lemma keeps_handle_start: "keeps consistent (handle_start E t data ver i p)"
proof -
  have "consistent (fst (sbind (slift r) (\<lambda>when'. let ev = f when'; timeout = d in
      if sch = Some ev then sret () else sbind (cancelScheduledUpgrade E t) (\<lambda>_. scheduleUpgrade E t ev timeout)) s))"
    if "consistent s" for r f d sch s
    using that by (cases r) (simp_all add: sbind_def [where m = "slift _"] Let_def reschedule_consistent)
  then show ?thesis
    unfolding handle_start_def
    by (intro keeps_sbind keeps_basic keeps_case_option) (auto intro!: keepsI)
qed

lemma keeps_handle: "keeps consistent (handleUpgradeTxn E t txn)"
  unfolding handleUpgradeTxn_def
  by (intro keeps_rules keeps_handle_start) (auto intro!: keepsI cancel_consistent split: option.splits)

lemma keeps_process_ledger: "keeps consistent (upgrader_processLedger E l t)"
  unfolding upgrader_processLedger_def by (intro keeps_rules keeps_handle)

lemma keeps_did_succeed: "keeps consistent (didLastExecutedUpgradeSucceeded E)"
  by (rule keepsI) (metis consistent_frame(2) did_succeed_frame prod.collapse)

lemma keeps_acknowledge: "keeps consistent (acknowledge_upgrade E)"
proof (rule keepsI)
  fix s :: "'a upgrader"
  assume s: "consistent s"
  have "keeps consistent (sbind (didLastExecutedUpgradeSucceeded E) (\<lambda>ok. smodify (\<lambda>s. s\<lparr>node_upgrades := f ok s, should_notify := False\<rparr>)))" for f
    by (intro keeps_sbind keeps_did_succeed keeps_smodify) (simp add: consistent_frame)
  from keepsD [OF this s] s show "consistent (fst (acknowledge_upgrade E s))"
    by (auto simp: acknowledge_upgrade_def split: option.splits)
qed

lemma keeps_ledger: "keeps consistent (postConfigLedgerCaughtUp E l t)"
  unfolding postConfigLedgerCaughtUp_def by (intro keeps_sbind keeps_process_ledger keeps_acknowledge)

lemma agent_result:
  "scheduledAction (fst (callUpgradeAgent E (notify_upgrade_start V) t ev timeout s)) = None"
  by (cases "scheduledAction s") (simp_all add: callUpgradeAgent_def append_log_def notify_upgrade_start_def sbind_def)

lemma keeps_notify: "keeps consistent (notify n d)"
  by (rule keepsI) (simp add: consistent_frame)

lemma keeps_unschedule: "keeps consistent (unscheduleAction st)"
  by (rule keepsI) (rule consistent_unschedule)

lemma keeps_times_up: "keeps consistent (declareTimeoutExceeded E (postConfigLedgerCaughtUp E l t) ev)"
proof (rule keepsI)
  fix s :: "'a upgrader"
  assume s: "consistent s"
  have "keeps consistent (sbind (notify UpgradeFail ev) (\<lambda>_. sbind (unscheduleAction (stashed E)) (\<lambda>_. postConfigLedgerCaughtUp E l t)))"
    by (intro keeps_sbind keeps_notify keeps_unschedule keeps_ledger)
  from keepsD [OF this s] s show "consistent (fst (declareTimeoutExceeded E (postConfigLedgerCaughtUp E l t) ev s))"
    by (simp add: declareTimeoutExceeded_def)
qed

lemma keeps_send: "keeps consistent (sendUpgradeRequest E connects ev timeout)"
  unfolding sendUpgradeRequest_def schedule_def
  by (intro keeps_rules keeps_notify keeps_unschedule keeps_smodify)
    (fastforce simp: consistent_def lastActionEventInfo_def agent_pending_def)

lemma times_up_removed:
  assumes "consistent s" and "actions s = q @ (TimesUp ev, d) # q'"
  shows "consistent (s\<lparr>actions := q @ q'\<rparr>)"
  using assms by (fastforce simp: consistent_def lastActionEventInfo_def agent_pending_def)

lemma init_upgrader_iff:
  "init_upgrader E t file st = Inr s \<longleftrightarrow>
   (\<exists>l. load (upgrade_log_codec E) TAB (Naive t) file = Inr l \<and>
        process_action_log_for_first_run (update_upgrade_log E t) (new_upgrader l st) = (s, Inr ()))"
proof (cases "load (upgrade_log_codec E) TAB (Naive t) file")
  case (Inr l)
  obtain s1 r1 where "process_action_log_for_first_run (update_upgrade_log E t) (new_upgrader l st) = (s1, r1)"
    by (rule prod.exhaust)
  with Inr show ?thesis by (cases r1) (auto simp: init_upgrader_def)
qed (simp add: init_upgrader_def)

text \<open>The first run after a start of the node records the result and schedules nothing.\<close>

lemma first_run_unscheduled:
  assumes "init_upgrader E t file st = Inr s"
  shows "scheduledAction s = None"
proof -
  let ?P = "\<lambda>s. scheduledAction s = None"
  have "keeps ?P (didLastExecutedUpgradeSucceeded E)" for E :: "'a upgrader_env"
  proof (rule keepsI)
    fix s :: "'a upgrader" assume "?P s"
    moreover obtain x where "fst (didLastExecutedUpgradeSucceeded E s) = s\<lparr>sysst := x\<rparr>"
      using did_succeed_frame by (metis prod.collapse)
    ultimately show "?P (fst (didLastExecutedUpgradeSucceeded E s))" by simp
  qed
  then have "keeps ?P (sbind (smodify (should_notify_update (\<lambda>_. True))) (\<lambda>_.
      sbind (didLastExecutedUpgradeSucceeded E) (\<lambda>ok.
        if \<not> ok then sbind (append_log cd n failed d) (\<lambda>_. notify UpgradeFail d)
        else sbind (append_log cd n succeeded d) (\<lambda>_. notify UpgradeComplete d))))" for cd n d
    unfolding append_log_def notify_def by (intro keeps_rules keeps_smodify) simp_all
  then have "keeps ?P (update_upgrade_log E t)"
    unfolding update_upgrade_log_def keeps_def by (auto split: option.splits)
  then have *: "?P (fst (process_action_log_for_first_run (update_upgrade_log E t) (new_upgrader l st)))" for l
    by (auto simp: process_action_log_for_first_run_def new_upgrader_def keeps_def)
  obtain l where "process_action_log_for_first_run (update_upgrade_log E t) (new_upgrader l st) = (s, Inr ())"
    using assms by (auto simp: init_upgrader_iff)
  with * [of l] show ?thesis by simp
qed

interpretation upgrade: maintained "upgrader_step E" for E :: "'v upgrader_env"
proof
  fix s s' :: "'v upgrader"
  assume s: "consistent s" and "upgrader_step E s s'"
  from this(2) show "consistent s'"
  proof cases
    case (handle t txn)
    with s keepsD [OF keeps_handle] show ?thesis by blast
  next
    case (ledger l t)
    with s keepsD [OF keeps_ledger] show ?thesis by blast
  next
    case (agent q ev timeout d q' t)
    then show ?thesis by (simp add: consistent_None agent_result)
  next
    case (times_up q ev d q' l t)
    with s keepsD [OF keeps_times_up times_up_removed] show ?thesis by blast
  next
    case (send q ev timeout q' connects)
    from s have "consistent (s\<lparr>sending := q @ q'\<rparr>)" by (simp only: consistent_frame)
    with send keepsD [OF keeps_send] show ?thesis by blast
  next
    case (restart t st)
    then show ?thesis by (intro consistent_None first_run_unscheduled)
  qed
qed

section \<open>Restarts and timeouts\<close>

lemma did_succeed_keeps_log:
  assumes "didLastExecutedUpgradeSucceeded E s = (s', r)"
  shows "lastActionEventInfo s' = lastActionEventInfo s" "should_notify s' = should_notify s"
    "scheduledAction s' = scheduledAction s" "actions s' = actions s"
proof -
  obtain x where "s' = s\<lparr>sysst := x\<rparr>" using did_succeed_frame [OF assms] by blast
  then show "lastActionEventInfo s' = lastActionEventInfo s" "should_notify s' = should_notify s"
    "scheduledAction s' = scheduledAction s" "actions s' = actions s"
    by (simp_all add: lastActionEventInfo_def)
qed

lemma update_upgrade_log_result:
  assumes "lastActionEventInfo s = Some e" and "update_upgrade_log E t s = (s', Inr ())"
  shows "\<exists>ty\<in>{succeeded, failed}. lastActionEventInfo s' = Some \<lparr>le_ts = Naive t, le_type = ty, le_data = le_data e\<rparr>"
    and "should_notify s'" and "actions s' = actions s"
proof -
  let ?s = "s\<lparr>should_notify := True\<rparr>"
  obtain s1 r where d: "didLastExecutedUpgradeSucceeded E ?s = (s1, r)" by (rule prod.exhaust)
  from assms d obtain ok where r: "r = Inr ok"
    by (cases r) (simp_all add: update_upgrade_log_def sbind_def)
  note run = assms d r did_succeed_keeps_log [OF d]
  from run show "\<exists>ty\<in>{succeeded, failed}. lastActionEventInfo s' = Some \<lparr>le_ts = Naive t, le_type = ty, le_data = le_data e\<rparr>"
    by (cases ok) (auto simp: update_upgrade_log_def sbind_def append_log_def notify_def lastActionEventInfo_def)
  from run show "should_notify s'" "actions s' = actions s"
    by (cases ok; auto simp: update_upgrade_log_def sbind_def append_log_def notify_def)+
qed

lemma first_run_result:
  assumes "init_upgrader E t file st = Inr s" and "load (upgrade_log_codec E) TAB (Naive t) file = Inr l"
    and "last_event (al_items l) = Some e" and "le_type e = started"
  shows "\<exists>ty\<in>{succeeded, failed}. lastActionEventInfo s = Some \<lparr>le_ts = Naive t, le_type = ty, le_data = le_data e\<rparr>"
    and "should_notify s" and "actions s = []"
proof -
  have last: "lastActionEventInfo (new_upgrader l st) = Some e"
    using assms(3) by (simp add: lastActionEventInfo_def new_upgrader_def)
  then have "update_upgrade_log E t (new_upgrader l st) = (s, Inr ())"
    using assms(1,2,4) by (simp add: init_upgrader_iff process_action_log_for_first_run_def is_action_started_def)
  from update_upgrade_log_result [OF last this]
  show "\<exists>ty\<in>{succeeded, failed}. lastActionEventInfo s = Some \<lparr>le_ts = Naive t, le_type = ty, le_data = le_data e\<rparr>"
    "should_notify s" "actions s = []"
    by (simp_all add: new_upgrader_def)
qed

text \<open>A transaction whose upgrade has been performed changes nothing.\<close>

lemma slift_frame: "fst (sbind (slift r) f s) = (case r of Inl e \<Rightarrow> s | Inr x \<Rightarrow> fst (f x s))"
  by (cases r) (simp_all add: sbind_def)

lemma performed_ignored:
  assumes "already_performed (lastActionEventInfo s) ud_upgrade_id (upgrade_action_id E txn)"
    and "scheduledAction s = None"
  shows "fst (handleUpgradeTxn E t txn s) = s"
  using assms
  by (auto simp: handleUpgradeTxn_def handle_start_def slift_frame Let_def split: sum.splits option.splits)

text \<open>What is on the ledger: the most recent start and no cancellation after it.\<close>

definition current_start :: "txn list \<Rightarrow> txn \<Rightarrow> bool" where
  "current_start l start \<longleftrightarrow>
     get_upgrade_txn l is_upgrade_start None True = Inr (Some start) \<and>
     (\<exists>n. get_seq_no start = Some n \<and> get_upgrade_txn l (is_cancel_of start) (Some (n + 1)) False = Inr None)"

text \<open>What a start asks of this node.\<close>

definition asks :: "'v upgrader_env \<Rightarrow> txn \<Rightarrow> 'v upgrade_data \<Rightarrow> pyval \<Rightarrow> bool" where
  "asks E start d timeout \<longleftrightarrow>
     get_type start = POOL_UPGRADE \<and> dict_index (get_payload_data start) ACTION = Inr (PyStr START) \<and>
     (\<exists>v. dict_index (get_payload_data start) VERSION = Inr (PyStr v) \<and>
          src_version_cls (vers E) (ud_pkg_name d) v = Some (ud_version d)) \<and>
     dict_get_default (get_payload_data start) PACKAGE (PyStr (UPGRADE_ENTRY E)) = PyStr (ud_pkg_name d) \<and>
     ud_upgrade_id d = upgrade_action_id E start \<and>
     (\<exists>sched i w. dict_index (get_payload_data start) SCHEDULE = Inr (PyDict sched) \<and> nodeId E = Some i \<and>
          map_of sched i = Some (PyStr w) \<and> parse_time E w = Inr (ud_when d)) \<and>
     timeout = dict_get_default (get_payload_data start) TIMEOUT (PyInt defaultActionTimeout)"

lemma handle_asked:
  assumes "asks E start d timeout" and "scheduledAction s = None"
    and "\<not> already_performed (lastActionEventInfo s) ud_upgrade_id (ud_upgrade_id d)"
  shows "handleUpgradeTxn E t start s = scheduleUpgrade E t d timeout s"
proof -
  have "cancelScheduledUpgrade E t s = (s, Inr ())"
    using assms(2) by (simp add: cancelScheduledUpgrade_def)
  with assms show ?thesis
    by (cases d) (auto simp: asks_def handleUpgradeTxn_def handle_start_def sbind_def [where m = "slift _"])
qed

lemma schedule_due:
  assumes "ud_when d = Aware w"
  shows "\<exists>s'. scheduleUpgrade E t d timeout s = (s', Inr ()) \<and> scheduledAction s' = Some d \<and>
    (CallAgent d timeout, max 0 (w - t)) \<in> set (actions s') \<and> should_notify s' = should_notify s"
  using assms by (auto simp: scheduleUpgrade_def sbind_def notify_def append_log_def schedule_def)

lemma current_start_handled:
  assumes "current_start l start" and "asks E start d timeout" and "ud_when d = Aware w"
    and "scheduledAction s = None" and "\<not> should_notify s"
    and "\<not> already_performed (lastActionEventInfo s) ud_upgrade_id (ud_upgrade_id d)"
  shows "\<exists>s'. postConfigLedgerCaughtUp E l t s = (s', Inr ()) \<and> scheduledAction s' = Some d \<and>
    (CallAgent d timeout, max 0 (w - t)) \<in> set (actions s')"
proof -
  obtain s' where s': "scheduleUpgrade E t d timeout s = (s', Inr ())" "scheduledAction s' = Some d"
    "(CallAgent d timeout, max 0 (w - t)) \<in> set (actions s')" "should_notify s' = should_notify s"
    using schedule_due [OF assms(3)] by blast
  have "upgrader_processLedger E l t s = (s', Inr ())"
    using assms(1) s'(1) handle_asked [OF assms(2,4,6), of t]
    by (auto simp: upgrader_processLedger_def current_start_def sbind_def)
  with s' assms(5) show ?thesis
    by (auto simp: postConfigLedgerCaughtUp_def sbind_def acknowledge_upgrade_def)
qed

section \<open>Schedules\<close>

text \<open>A text that names a moment after the present.\<close>

definition names_future :: "'v upgrader_env \<Rightarrow> int \<Rightarrow> pyval \<Rightarrow> moment \<Rightarrow> bool" where
  "names_future E now d m \<longleftrightarrow> (\<exists>s w. d = PyStr s \<and> m = Aware w \<and> parse_time E s = Inr m \<and> now < w)"

lemma names_future_simps:
  "names_future E now (PyStr s) m \<longleftrightarrow> (\<exists>w. m = Aware w \<and> parse_time E s = Inr m \<and> now < w)"
  "\<not> names_future E now PyNone m" "\<not> names_future E now (PyBool b) m" "\<not> names_future E now (PyInt i) m"
  "\<not> names_future E now (PyList xs) m" "\<not> names_future E now (PyDict kvs) m"
  by (auto simp: names_future_def)

lemma schedule_times_iff:
  "schedule_times E now False ds = Inr (Inr ms) \<longleftrightarrow> list_all2 (names_future E now) ds ms"
proof (induction ds arbitrary: ms)
  case (Cons d ds)
  show ?case
  proof (cases d)
    case (PyStr s)
    show ?thesis
    proof (cases "parse_time E s")
      case (Inl e)
      with PyStr show ?thesis by (cases e) (auto simp: list_all2_Cons1 names_future_simps)
    next
      case (Inr m)
      with PyStr show ?thesis
        by (cases m; cases "schedule_times E now False ds")
          (auto simp: list_all2_Cons1 names_future_simps Cons.IH [symmetric] split: sum.splits)
    qed
  qed (auto simp: list_all2_Cons1 names_future_simps)
qed auto

lemma small_gap_None: "small_gap sep xs = None \<longleftrightarrow> successively (\<lambda>a b. sep * 1000000 \<le> b - a) xs"
  by (induction sep xs rule: small_gap.induct) auto

text \<open>All times keep a distance from each other.\<close>

definition separated :: "int \<Rightarrow> int list \<Rightarrow> bool" where
  "separated g ts \<longleftrightarrow> (\<forall>i j. i < j \<longrightarrow> j < length ts \<longrightarrow> g \<le> \<bar>ts ! i - ts ! j\<bar>)"

lemma separated_set:
  assumes "0 < g"
  shows "separated g ts \<longleftrightarrow> distinct ts \<and> (\<forall>a\<in>set ts. \<forall>b\<in>set ts. a \<noteq> b \<longrightarrow> g \<le> \<bar>a - b\<bar>)"
proof
  assume sep: "separated g ts"
  have far: "g \<le> \<bar>ts ! i - ts ! j\<bar>" if "i \<noteq> j" "i < length ts" "j < length ts" for i j
    using sep [unfolded separated_def, rule_format, of i j] sep [unfolded separated_def, rule_format, of j i] that
    by (cases i j rule: linorder_cases) (simp_all add: abs_minus_commute)
  have "distinct ts" using far assms by (fastforce simp: distinct_conv_nth)
  moreover have "\<forall>a\<in>set ts. \<forall>b\<in>set ts. a \<noteq> b \<longrightarrow> g \<le> \<bar>a - b\<bar>"
    using far by (metis in_set_conv_nth)
  ultimately show "distinct ts \<and> (\<forall>a\<in>set ts. \<forall>b\<in>set ts. a \<noteq> b \<longrightarrow> g \<le> \<bar>a - b\<bar>)" by simp
next
  assume "distinct ts \<and> (\<forall>a\<in>set ts. \<forall>b\<in>set ts. a \<noteq> b \<longrightarrow> g \<le> \<bar>a - b\<bar>)"
  then show "separated g ts" by (auto simp: separated_def nth_eq_iff_index_eq)
qed

lemma separated_sorted:
  assumes "sorted ts"
  shows "separated g ts \<longleftrightarrow> successively (\<lambda>a b. g \<le> b - a) ts"
proof
  assume "separated g ts"
  with assms show "successively (\<lambda>a b. g \<le> b - a) ts"
    by (fastforce simp: successively_conv_nth separated_def sorted_iff_nth_mono)
next
  assume succ: "successively (\<lambda>a b. g \<le> b - a) ts"
  show "separated g ts"
    unfolding separated_def
  proof (intro allI impI)
    fix i j assume "i < j" "j < length ts"
    then have "g \<le> ts ! Suc i - ts ! i" "ts ! Suc i \<le> ts ! j"
      using succ assms by (auto simp: successively_conv_nth sorted_iff_nth_mono)
    then show "g \<le> \<bar>ts ! i - ts ! j\<bar>" by linarith
  qed
qed

lemma separated_sort: "separated g (sort ts) \<longleftrightarrow> separated g ts"
proof (cases "0 < g")
  case True
  then show ?thesis by (simp add: separated_set)
next
  case False
  then show ?thesis by (fastforce simp: separated_def)
qed

section \<open>Properties\<close>

text \<open>An example: versions are texts, dates are numbers marked by a letter, one package is installed.\<close>

definition ex_versions :: "string versions" where
  "ex_versions =
     \<lparr>node_version = (\<lambda>s. if s = [] then None else Some s), top_version = (\<lambda>s. if s = [] then None else Some s),
      is_node_version = (\<lambda>v. True), is_top_version = (\<lambda>v. True), v_full = (\<lambda>v. v), v_release = (\<lambda>v. v),
      v_cmp = (\<lambda>v w. if v = w then 0 else 1)\<rparr>"

definition ex_sys :: sys where
  "ex_sys past op = (case op of Shell c \<Rightarrow> Completed (if c ! 5 = CHR ''s'' \<or> c ! 6 = CHR ''s'' then ''Version: 1.2.3'' else ''indy-node'') | _ \<Rightarrow> Completed [])"

fun ex_time_text :: "moment \<Rightarrow> string" where
  "ex_time_text (Aware n) = CHR ''A'' # int_str n"
| "ex_time_text (Naive n) = CHR ''N'' # int_str n"

fun ex_parse_time :: "string \<Rightarrow> moment res" where
  "ex_parse_time [] = Inl (ValueError [])"
| "ex_parse_time (c # s) = rbind (py_int s) (\<lambda>n. Inr (if c = CHR ''A'' then Aware n else Naive n))"

declare ex_parse_time.simps [simp del]

definition ex_upgrader_env :: "string upgrader_env" where
  "ex_upgrader_env =
     \<lparr>nodeId = Some ''N1'', UPGRADE_ENTRY = ''indy-node'', MinSepBetweenNodeUpgrades = 300, metadata_version = ''1.2.2'',
      vers = ex_versions, os = ex_sys, parse_time = ex_parse_time, time_text = ex_time_text, seconds_text = int_str,
      is_forced = (\<lambda>txn. False), stashed = (\<lambda>d. 0 < d)\<rparr>"

definition ex_start :: txn where
  "ex_start =
     \<lparr>get_type = POOL_UPGRADE,
      get_payload_data = [(ACTION, PyStr START), (VERSION, PyStr ''1.2.3''), (SCHEDULE, PyDict [(''N1'', PyStr ''A50'')])],
      get_from = Some ''T'', get_req_id = 7, get_seq_no = Some 1, get_txn_time = Some 5\<rparr>"

definition ex_upgrade :: "string upgrade_data" where
  "ex_upgrade = \<lparr>ud_when = Aware 50, ud_version = ''1.2.3'', ud_upgrade_id = ''71'', ud_pkg_name = ''indy-node''\<rparr>"

lemma ex_time_roundtrip: "ex_parse_time (ex_time_text m) = Inr m"
  by (cases m) (simp_all add: ex_parse_time.simps)

lemma ex_numbers: "int_str 50 = ''50''" "int_str 7 = ''7''" "int_str 1 = ''1''" "int_str 9 = ''9''" "int_str 90 = ''90''"
  by (simp_all add: int_str_def nat_str.simps digit_char_def)

lemma ex_parse_50: "ex_parse_time ''A50'' = Inr (Aware 50)"
proof -
  have "ex_time_text (Aware 50) = ''A50''" by (simp add: ex_numbers)
  with ex_time_roundtrip [of "Aware 50"] show ?thesis by (simp only:)
qed

lemma ex_asks: "asks ex_upgrader_env ex_start ex_upgrade (PyInt 10)"
  by (simp add: asks_def ex_start_def ex_upgrade_def ex_upgrader_env_def dict_index_def dict_get_default_def
      src_version_cls_def ex_versions_def upgrade_action_id_def ex_numbers ex_parse_50)

lemma ex_current: "current_start [ex_start] ex_start"
  by (simp add: current_start_def get_upgrade_txn_def traverse.simps getBySeqNo_def is_upgrade_start_def ex_start_def dict_index_def)

lemma ex_init: "init_upgrader ex_upgrader_env 0 [] st = Inr (new_upgrader \<lparr>al_items = [], al_file = []\<rparr> st)"
  by (simp add: init_upgrader_def load_def process_action_log_for_first_run_def is_action_started_def
      new_upgrader_def lastActionEventInfo_def last_event_def)

lemma one_line_int_str: "one_line (int_str n)"
proof -
  have "one_line (nat_str k)" for k
    using set_nat_str [of CR k] set_nat_str [of LF k]
    by (auto simp: one_line_def digit_char_def dest!: less_10_cases)
  then show ?thesis by (simp add: int_str_def one_line_def)
qed

lemma ex_time_line: "one_line (ex_time_text m)" "ex_time_text m \<noteq> []"
  using one_line_int_str by (cases m; simp add: one_line_def)+

abbreviation ex_sys_state :: sys_state where "ex_sys_state \<equiv> \<lparr>sys_ops = [], cmp_cache = []\<rparr>"

lemma ex_pkg_info:
  "snd (curr_pkg_info ex_sys ex_versions ''indy-node'' ex_sys_state)
     = Inr (Some \<lparr>dv_full = ''1.2.3'', dv_epoch = None, dv_upstream = ''1.2.3'', dv_revision = None\<rparr>, [])"
  by code_simp

definition ex_started_log :: "string upgrade_data action_log" where
  "ex_started_log =
     append_run (upgrade_log_codec ex_upgrader_env) TAB [(Naive 5, scheduled, ex_upgrade), (Naive 60, started, ex_upgrade)] empty_log"

lemma ex_storable: "storable (upgrade_log_codec ex_upgrader_env) \<lparr>le_ts = now, le_type = ty, le_data = ex_upgrade\<rparr>"
  unfolding upgrade_log_codec_def
  by (rule storable_upgrade)
    (simp_all add: ex_upgrader_env_def ex_time_roundtrip ex_time_line [unfolded one_line_def] ex_upgrade_def version_object_def src_version_cls_def
      ex_versions_def one_line_def)

lemma ex_started_last:
  "last_event (al_items ex_started_log) = Some \<lparr>le_ts = Naive 60, le_type = started, le_data = ex_upgrade\<rparr>"
  by (simp add: ex_started_log_def append_run_items empty_log_def last_event_def)

lemma ex_started_reload:
  "load (upgrade_log_codec ex_upgrader_env) TAB now (al_file ex_started_log) = Inr ex_started_log"
  unfolding ex_started_log_def by (rule reload_run) (simp_all add: ex_storable)

text \<open>
  C28: The schedule, the log and the queue agree. However transactions, ledger catch-ups, due calls, requests
  to the control tool and restarts of the node follow each other after a start of the node, whenever an upgrade
  is scheduled, the last record of the log is its scheduling and the call that starts it is in the queue.
\<close>

theorem upgrade_schedule_logged:
  assumes "init_upgrader E t file st = Inr s0" and "(upgrader_step E)\<^sup>*\<^sup>* s0 s" and "scheduledAction s = Some d"
  shows "(\<exists>ts. lastActionEventInfo s = Some \<lparr>le_ts = ts, le_type = scheduled, le_data = d\<rparr>) \<and> agent_pending s d"
  using upgrade.reachable_scheduled [OF assms(2) first_run_unscheduled [OF assms(1)] assms(3)] .

theorem upgrade_schedule_logged_witness:
  "\<exists>s. scheduledAction s = Some ex_upgrade \<and> agent_pending s ex_upgrade \<and>
     (upgrader_step ex_upgrader_env)\<^sup>*\<^sup>* (new_upgrader \<lparr>al_items = [], al_file = []\<rparr> \<lparr>sys_ops = [], cmp_cache = []\<rparr>) s"
proof -
  let ?start = "new_upgrader \<lparr>al_items = [], al_file = []\<rparr> \<lparr>sys_ops = [], cmp_cache = []\<rparr> :: string upgrader"
  let ?s = "fst (handleUpgradeTxn ex_upgrader_env 20 ex_start ?start)"
  have run: "(upgrader_step ex_upgrader_env)\<^sup>*\<^sup>* ?start ?s" by (rule r_into_rtranclp, rule upgrader_step.handle)
  have "handleUpgradeTxn ex_upgrader_env 20 ex_start ?start = scheduleUpgrade ex_upgrader_env 20 ex_upgrade (PyInt 10) ?start"
    by (rule handle_asked [OF ex_asks])
      (simp_all add: new_upgrader_def already_performed_def lastActionEventInfo_def last_event_def)
  moreover obtain s' where "scheduleUpgrade ex_upgrader_env 20 ex_upgrade (PyInt 10) ?start = (s', Inr ())"
    "scheduledAction s' = Some ex_upgrade"
    using schedule_due [of ex_upgrade 50 ex_upgrader_env 20 "PyInt 10" ?start] by (auto simp: ex_upgrade_def)
  ultimately have "scheduledAction ?s = Some ex_upgrade" by simp
  with upgrade_schedule_logged [OF ex_init run this] run show ?thesis by blast
qed

text \<open>
  C29: No upgrade loop. A node that starts with a log whose last record is the start of an upgrade records the
  result, will report it, and reading a config ledger whose most recent start has the id of that upgrade
  changes nothing: the upgrade is not scheduled again, whether it succeeded or failed.
\<close>

theorem no_upgrade_loop:
  assumes "init_upgrader E t file st = Inr s" and "load (upgrade_log_codec E) TAB (Naive t) file = Inr l"
    and "last_event (al_items l) = Some e" and "le_type e = started"
    and "get_upgrade_txn ledger is_upgrade_start None True = Inr (Some start)"
    and "upgrade_action_id E start = ud_upgrade_id (le_data e)"
  shows "fst (upgrader_processLedger E ledger t' s) = s \<and> scheduledAction s = None \<and> actions s = [] \<and> should_notify s \<and>
    (\<exists>ty\<in>{succeeded, failed}. lastActionEventInfo s = Some \<lparr>le_ts = Naive t, le_type = ty, le_data = le_data e\<rparr>)"
proof -
  note first = first_run_result [OF assms(1-4)] and none = first_run_unscheduled [OF assms(1)]
  have "already_performed (lastActionEventInfo s) ud_upgrade_id (upgrade_action_id E start)"
    using first(1) assms(6) by (auto simp: already_performed_def)
  from performed_ignored [OF this none] have "fst (upgrader_processLedger E ledger t' s) = s"
    using assms(5) by (auto simp: upgrader_processLedger_def slift_frame split: sum.splits option.splits)
  with first none show ?thesis by blast
qed

theorem no_upgrade_loop_witness:
  "\<exists>s. init_upgrader ex_upgrader_env 90 (al_file ex_started_log) ex_sys_state = Inr s \<and>
     fst (upgrader_processLedger ex_upgrader_env [ex_start] 95 s) = s \<and> scheduledAction s = None \<and> should_notify s"
proof -
  let ?new = "new_upgrader ex_started_log ex_sys_state"
  have last: "lastActionEventInfo ?new = Some \<lparr>le_ts = Naive 60, le_type = started, le_data = ex_upgrade\<rparr>"
    using ex_started_last by (simp add: lastActionEventInfo_def new_upgrader_def)
  have "\<exists>s. update_upgrade_log ex_upgrader_env 90 ?new = (s, Inr ())"
    using last ex_pkg_info
    by (cases "curr_pkg_info ex_sys ex_versions ''indy-node'' ex_sys_state")
      (simp add: update_upgrade_log_def didLastExecutedUpgradeSucceeded_def with_sys_def sbind_def ex_upgrade_def
        ex_upgrader_env_def new_upgrader_def lastActionEventInfo_def append_log_def notify_def)
  then obtain s where s: "init_upgrader ex_upgrader_env 90 (al_file ex_started_log) ex_sys_state = Inr s"
    using last ex_started_reload
    by (auto simp: init_upgrader_iff process_action_log_for_first_run_def is_action_started_def)
  moreover have "upgrade_action_id ex_upgrader_env ex_start = ''71''"
    by (simp add: upgrade_action_id_def ex_start_def ex_upgrader_env_def ex_numbers)
  ultimately show ?thesis
    using no_upgrade_loop [OF s ex_started_reload ex_started_last, of "[ex_start]" ex_start 95] ex_current
    by (auto simp: current_start_def ex_upgrade_def)
qed

text \<open>
  C30: Schedules are spread out. A schedule that is not forced is valid exactly if it names the nodes that
  take part in the pool, each with a time after the present, and any two of the times are at least the
  configured number of seconds apart.
\<close>

theorem schedule_spread:
  "isScheduleValid E now sched node_srvs False = Inr (True, []) \<longleftrightarrow>
     set (map fst sched) = {k. \<exists>v. (k, v) \<in> set node_srvs \<and> v \<noteq> []} \<and>
     (\<exists>ms. list_all2 (names_future E now) (map snd sched) ms \<and>
           separated (MinSepBetweenNodeUpgrades E * 1000000) (map stamp ms))"
proof -
  have nodes: "set (map fst (filter (\<lambda>(k, v). v \<noteq> []) node_srvs)) = {k. \<exists>v. (k, v) \<in> set node_srvs \<and> v \<noteq> []}"
    by force
  have gap: "small_gap (MinSepBetweenNodeUpgrades E) (sort ts) = None \<longleftrightarrow> separated (MinSepBetweenNodeUpgrades E * 1000000) ts" for ts
    by (simp add: small_gap_None separated_sorted [symmetric] separated_sort)
  have "isScheduleValid E now sched node_srvs False = Inr (True, []) \<longleftrightarrow>
      set (map fst sched) = {k. \<exists>v. (k, v) \<in> set node_srvs \<and> v \<noteq> []} \<and>
      (\<exists>ms. schedule_times E now False (map snd sched) = Inr (Inr ms) \<and>
            small_gap (MinSepBetweenNodeUpgrades E) (sort (map stamp ms)) = None)"
    unfolding isScheduleValid_def Let_def nodes
    by (cases "schedule_times E now False (map snd sched)") (auto split: sum.splits option.splits)
  then show ?thesis by (simp only: schedule_times_iff gap)
qed

text \<open>
  C31: The upgrade log survives restarts. What a sequence of appends has written to the file is read back as
  the same events, if the texts of dates and versions are read back as what they stand for and no text of an
  event contains a line break.
\<close>

theorem upgrade_log_reload:
  assumes "\<And>m. parse_time E (time_text E m) = Inr m" and "\<And>m. one_line (time_text E m)" and "\<And>m. time_text E m \<noteq> []"
    and "\<And>t ty d. (t, ty, d) \<in> set evs \<Longrightarrow>
      version_object (vers E) (ud_pkg_name d) (v_full (vers E) (ud_version d)) = Inr (ud_version d) \<and>
      one_line (v_full (vers E) (ud_version d)) \<and> one_line (ud_upgrade_id d) \<and> one_line (ud_pkg_name d)"
  shows "load (upgrade_log_codec E) TAB now (al_file (append_run (upgrade_log_codec E) TAB evs empty_log))
    = Inr (append_run (upgrade_log_codec E) TAB evs empty_log)"
proof (rule reload_run)
  show "\<forall>(t, ty, d)\<in>set evs. storable (upgrade_log_codec E) \<lparr>le_ts = t, le_type = ty, le_data = d\<rparr>"
    unfolding upgrade_log_codec_def using assms by (auto intro!: storable_upgrade)
qed simp

theorem upgrade_log_reload_witness:
  "load (upgrade_log_codec ex_upgrader_env) TAB (Naive 0)
     (al_file (append_run (upgrade_log_codec ex_upgrader_env) TAB [(Naive 5, scheduled, ex_upgrade), (Naive 60, started, ex_upgrade)] empty_log))
   = Inr (append_run (upgrade_log_codec ex_upgrader_env) TAB [(Naive 5, scheduled, ex_upgrade), (Naive 60, started, ex_upgrade)] empty_log)"
  by (rule upgrade_log_reload)
    (auto simp: ex_upgrader_env_def ex_time_roundtrip ex_time_line [unfolded one_line_def] ex_upgrade_def version_object_def src_version_cls_def
      ex_versions_def one_line_def)

text \<open>
  An upgrade that runs into its timeout is scheduled again. The timeout is not recorded in the log, and
  the node, told about the failure, reads the config ledger: if the start of the upgrade is the most recent one
  and not cancelled, it is scheduled anew, without delay when its time has passed.
\<close>

theorem timed_out_upgrade_repeats:
  assumes "current_start l start" and "asks E start d timeout" and "ud_when d = Aware w" and "w \<le> t"
    and "lastActionEventInfo s = Some \<lparr>le_ts = ts, le_type = started, le_data = d\<rparr>" and "\<not> should_notify s"
  shows "\<exists>s'. declareTimeoutExceeded E (postConfigLedgerCaughtUp E l t) d s = (s', Inr ()) \<and>
    scheduledAction s' = Some d \<and> (CallAgent d timeout, 0) \<in> set (actions s')"
proof -
  let ?s = "(notices_update (\<lambda>ns. ns @ [(UpgradeFail, d)]) s)\<lparr>actions := filter (\<lambda>(c, x). \<not> stashed E x) (actions s), scheduledAction := None\<rparr>"
  have "declareTimeoutExceeded E (postConfigLedgerCaughtUp E l t) d s = postConfigLedgerCaughtUp E l t ?s"
    using assms(5) by (simp add: declareTimeoutExceeded_def notify_def unscheduleAction_def sbind_def)
  moreover have "\<not> already_performed (lastActionEventInfo ?s) ud_upgrade_id (ud_upgrade_id d)"
    using assms(5) by (simp add: already_performed_def lastActionEventInfo_def)
  ultimately show ?thesis
    using current_start_handled [OF assms(1-3), of ?s t] assms(4,6) by simp
qed

theorem timed_out_upgrade_repeats_witness:
  "\<exists>s'. declareTimeoutExceeded ex_upgrader_env (postConfigLedgerCaughtUp ex_upgrader_env [ex_start] 700) ex_upgrade
      (new_upgrader ex_started_log ex_sys_state) = (s', Inr ()) \<and> scheduledAction s' = Some ex_upgrade"
proof -
  have "lastActionEventInfo (new_upgrader ex_started_log ex_sys_state) = Some \<lparr>le_ts = Naive 60, le_type = started, le_data = ex_upgrade\<rparr>"
    using ex_started_last by (simp add: lastActionEventInfo_def new_upgrader_def)
  then show ?thesis
    using timed_out_upgrade_repeats [OF ex_current ex_asks, of 50 700 "new_upgrader ex_started_log ex_sys_state" "Naive 60"]
    by (auto simp: new_upgrader_def ex_upgrade_def)
qed

end
