(* ===== verification/ControlToolProperties.thy ===== *)
theory ControlToolProperties
  imports ControlTool UpgraderProperties "HOL-Library.Multiset"
begin

text \<open>
  What the control tool does with a request of the node: which commands reach the shell, which migrations run
  and in which order, and what happens when an upgrade or a migration fails.
\<close>

section \<open>Recorded operations stay recorded\<close>

abbreviation recorded :: "sys_op \<Rightarrow> sys_state \<Rightarrow> bool" where
  "recorded op s \<equiv> op \<in> set (sys_ops s)"

lemma records_perform [keeps_rules]: "keeps (recorded op) (perform sys op')"
  by (simp add: keeps_def perform_def)

lemma keeps_case_outcome [keeps_rules]:
  "(\<And>o1. keeps P (f o1)) \<Longrightarrow> (\<And>o1 e. keeps P (g o1 e)) \<Longrightarrow> (\<And>m. keeps P (h m)) \<Longrightarrow>
   keeps P (case r of Completed o1 \<Rightarrow> f o1 | Failed o1 e \<Rightarrow> g o1 e | Broken m \<Rightarrow> h m)"
  by (cases r) simp_all

lemma keeps_case_shell_error:
  "(\<And>m. keeps P (f m)) \<Longrightarrow> keeps P g \<Longrightarrow> keeps P (case e of ShellError m \<Rightarrow> f m | _ \<Rightarrow> g)"
  by (cases e) simp_all

lemma records_shell [keeps_rules]:
  "keeps (recorded op) (run_shell_command sys c)" "keeps (recorded op) (run_shell_script sys c)"
  "keeps (recorded op) (run_shell_script_extended sys c)"
  unfolding run_shell_command_def run_shell_script_def run_shell_script_extended_def by (intro keeps_rules)+

lemma records_cache [keeps_rules]: "keeps (recorded op) (update_package_cache sys)"
  unfolding update_package_cache_def update_repo_keys_def update_apt_update_dependencies_def by (intro keeps_rules)

lemma sys_ops_cache [simp]: "sys_ops (cmp_cache_update g s) = sys_ops s"
  by (cases s) simp

lemma records_debian_cmp [keeps_rules]: "keeps (recorded op) (debian_cmp sys v w)"
proof -
  have "keeps (recorded op) (dpkg_cmp sys a b)" for a b
    unfolding dpkg_cmp_def by (intro keeps_rules keeps_case_shell_error)
  then have "keeps (recorded op) (sbind (dpkg_cmp sys (dv_full v) (dv_full w)) (\<lambda>c.
      sbind (smodify (cmp_cache_update (f c))) (\<lambda>_. sret c)))" for f
    by (intro keeps_rules keeps_smodify) simp_all
  then show ?thesis unfolding keeps_def debian_cmp_def by (auto simp: Let_def split: option.splits)
qed

lemma records_insert [keeps_rules]: "keeps (recorded op) (debian_insert sys v ws)"
  by (induction ws) (simp_all only: debian_insert.simps, (intro keeps_rules | assumption)+)

lemma records_sort [keeps_rules]: "keeps (recorded op) (debian_sort sys acc vs)"
  by (induction vs arbitrary: acc) (simp_all only: debian_sort.simps, (intro keeps_rules | assumption)+)

lemma records_newest [keeps_rules]: "keeps (recorded op) (newest sys vs)"
  unfolding newest_def by (intro keeps_rules keeps_case_shell_error)

lemma records_package [keeps_rules]:
  "keeps (recorded op) (curr_pkg_info sys V p)" "keeps (recorded op) (get_latest_pkg_version sys V p u b)"
  unfolding curr_pkg_info_def get_curr_info_def package_exists_def get_latest_pkg_version_def
  by (intro keeps_rules keeps_case_shell_error)+

lemma records_deps [keeps_rules]: "keeps (recorded op) (get_deps_list T c p)"
proof -
  have "keeps (recorded op) (deps_tree_filtered sys as_set holds left pkgs m)" for sys as_set holds left pkgs m
    by (induction left arbitrary: pkgs m) (auto simp: get_info_from_package_manager_def Let_def intro!: keeps_rules)
  then show ?thesis
    unfolding get_deps_list_def get_sys_holds_def get_deps_tree_filtered_def by (intro keeps_rules)
qed

lemma records_each [keeps_rules]: "(\<And>x. keeps P (f x)) \<Longrightarrow> keeps P (each_script f xs)"
  by (induction xs) (auto intro!: keeps_rules)

lemma records_files [keeps_rules]: "keeps (recorded op) (file_op T o')" "keeps (recorded op) (try_copy T a b)"
  unfolding file_op_def try_copy_def by (intro keeps_rules)+

lemma records_remove [keeps_rules]: "keeps (recorded op) (remove_old_backups T c)"
proof -
  have "keeps (recorded op) (each_script (\<lambda>f. file_op T (RemoveFile f)) fs)" for fs by (intro keeps_rules)
  then show ?thesis by (simp add: keeps_def remove_old_backups_def)
qed

lemma records_migrate [keeps_rules]: "keeps (recorded op) (tool_migrate T c a b)"
  unfolding tool_migrate_def create_backup_def restore_from_backup_def migrate_def call_migration_script_def
  by (intro keeps_rules)

lemma records_attempt [keeps_rules]: "keeps (recorded op) (upgrade_attempt T c v p n)"
  unfolding upgrade_attempt_def call_upgrade_script_def get_src_version_def call_restart_node_script_def
  by (intro keeps_rules)

lemma records_do_upgrade [keeps_rules]: "keeps (recorded op) (do_upgrade T c p cur new rollback)"
proof (induction T c p cur new rollback rule: do_upgrade.induct)
  case (1 T c p cur new rollback)
  then show ?case
    by (subst do_upgrade.simps) (intro keeps_rules; auto simp: get_src_version_def intro!: keeps_rules)
qed

section \<open>Commands\<close>

text \<open>A command without line breaks and sequels is composed as it is.\<close>

lemma before_sequel_id: "\<forall>c\<in>set s. c \<noteq> CHR '';'' \<and> c \<noteq> CHR ''&'' \<Longrightarrow> before_sequel s = s"
  by (induction s) auto

lemma compose_cmd_id:
  assumes "py_join '' '' cmd = s @ [e]" and "\<not> is_space e"
    and "\<forall>c\<in>set (s @ [e]). \<not> is_line_break c \<and> c \<noteq> CHR '';'' \<and> c \<noteq> CHR ''&''"
  shows "compose_cmd cmd = Inr (s @ [e])"
proof -
  have "first_line (s @ [e]) = Inr (s @ [e])" using assms(3) by (intro first_line_id) auto
  moreover have "before_sequel (s @ [e]) = s @ [e]" using assms(3) by (intro before_sequel_id) auto
  ultimately show ?thesis using assms(1,2) by (simp add: compose_cmd_def rstrip_def)
qed

text \<open>The query for the versions of a package, as it is handed to the shell.\<close>

definition version_query :: "string \<Rightarrow> string" where
  "version_query pkg = ''apt-cache show '' @ pkg @ '' | grep -E '' @ squoted ''^Version: ''"

lemma version_query_composed:
  assumes "\<forall>c\<in>set pkg. \<not> is_line_break c \<and> c \<noteq> CHR '';'' \<and> c \<noteq> CHR ''&''"
  shows "compose_cmd [''apt-cache'', ''show'', pkg, ''|'', ''grep'', ''-E'', squoted ''^Version: ''] = Inr (version_query pkg)"
proof -
  let ?s = "''apt-cache show '' @ pkg @ '' | grep -E '' @ [CHR 0x27] @ ''^Version: ''"
  have "compose_cmd [''apt-cache'', ''show'', pkg, ''|'', ''grep'', ''-E'', squoted ''^Version: ''] = Inr (?s @ [CHR 0x27])"
    using assms by (intro compose_cmd_id) (auto simp: squoted_def is_space_def is_line_break_def Let_def)
  then show ?thesis by (simp add: version_query_def squoted_def)
qed

lemma sbind_slift: "sbind (slift (Inr x)) f = f x"
  by (rule ext) simp

lemma query_recorded:
  assumes "is_instance V pkg u" and "\<forall>c\<in>set pkg. \<not> is_line_break c \<and> c \<noteq> CHR '';'' \<and> c \<noteq> CHR ''&''"
    and "\<And>ops. sys ops (Shell ''apt update'') = Completed []"
  shows "recorded (Shell (version_query pkg)) (fst (get_latest_pkg_version sys V pkg (Some u) True s))"
proof -
  have apt: "compose_cmd [''apt'', ''update''] = Inr ''apt update''" by code_simp
  have update: "\<exists>s1. update_package_cache sys s = (s1, Inr ())"
    by (auto simp: update_package_cache_def apt scatch_def run_shell_script_def perform_def sbind_def assms(3))
  let ?run = "sbind (run_shell_script_extended sys (version_query pkg)) (\<lambda>out. sret (py_strip out))"
  have "recorded (Shell (version_query pkg)) (fst (?run s1))" for s1
    by (auto simp: run_shell_script_extended_def perform_def sbind_def split: outcome.splits)
  then have run: "recorded (Shell (version_query pkg)) (fst (scatch ?run h s1))"
    if "\<And>e. keeps (recorded (Shell (version_query pkg))) (h e)" for h s1
    using that by (auto simp: scatch_def keeps_def split: prod.splits sum.splits) (metis fst_conv)+
  have "recorded (Shell (version_query pkg)) (fst (sbind (scatch ?run (\<lambda>e. case e of ShellError err \<Rightarrow> sret [] | _ \<Rightarrow> sraise e)) k s1))"
    if "\<And>x. keeps (recorded (Shell (version_query pkg))) (k x)" for k :: "string \<Rightarrow> 'a debian_version option ctl" and s1
    by (rule sbind_establish [where Q = "\<lambda>_. True"]) (auto intro!: run that keeps_rules keeps_case_shell_error)
  moreover have "keeps (recorded (Shell (version_query pkg))) (if out = [] then sret None
      else sbind (slift (listed_versions (src_version_cls V pkg) (Some u) (py_split out [LF]))) (newest sys))" for out
    by (intro keeps_rules)
  ultimately show ?thesis
    using update assms(1) version_query_composed [OF assms(2)]
    by (auto simp: get_latest_pkg_version_def sbind_slift)
qed

lemma records_chosen: "keeps (recorded op) (case new of None \<Rightarrow> sret () | Some v \<Rightarrow> do_upgrade T c pkg installed v True)"
  by (intro keeps_rules)

lemma tool_query_recorded:
  assumes "is_instance (t_vers T) pkg u" and "\<forall>c\<in>set pkg. \<not> is_line_break c \<and> c \<noteq> CHR '';'' \<and> c \<noteq> CHR ''&''"
    and "\<And>ops. t_sys T ops (Shell ''apt update'') = Completed []"
    and "snd (curr_pkg_info (t_sys T) (t_vers T) pkg s) = Inr (Some installed, deps)"
  shows "recorded (Shell (version_query pkg)) (fst (tool_upgrade T c u pkg s))"
proof -
  obtain s1 where info: "curr_pkg_info (t_sys T) (t_vers T) pkg s = (s1, Inr (Some installed, deps))"
    using assms(4) by (cases "curr_pkg_info (t_sys T) (t_vers T) pkg s") simp
  have "recorded (Shell (version_query pkg)) (fst (sbind (get_latest_pkg_version (t_sys T) (t_vers T) pkg (Some u) True)
      (\<lambda>new. case new of None \<Rightarrow> sret () | Some v \<Rightarrow> do_upgrade T c pkg installed v True) s1))"
    by (rule sbind_establish [where Q = "\<lambda>_. True"], rule TrueI,
        rule query_recorded [where sys = "t_sys T", OF assms(1-3)], rule records_chosen)
  then show ?thesis by (simp add: tool_upgrade_def info)
qed

lemma process_data_upgrade:
  assumes "loads data = Inr (upgrade_message_dict (t_vers T) ev)"
    and "src_version_cls (t_vers T) (ud_pkg_name ev) (v_full (t_vers T) (ud_version ev)) = Some u"
  shows "fst (process_data T c loads data s) = fst (tool_upgrade T c u (ud_pkg_name ev) s)"
proof -
  obtain s1 r where run: "tool_upgrade T c u (ud_pkg_name ev) s = (s1, r)" by (rule prod.exhaust)
  with assms show ?thesis
    by (cases r) (simp_all add: process_data_def upgrade_message_dict_def sbind_slift dict_index_def scatch_def)
qed

section \<open>Migrations\<close>

text \<open>A number for each version text that agrees with the order of the version class.\<close>

definition ranked :: "'v versions \<Rightarrow> (string \<Rightarrow> int) \<Rightarrow> string set \<Rightarrow> bool" where
  "ranked V num A \<longleftrightarrow>
     (\<forall>a\<in>A. \<forall>b\<in>A. \<exists>c. compareVersions V a b = Inr c \<and> (c < 0 \<longleftrightarrow> num a < num b) \<and> (c = 0 \<longleftrightarrow> num a = num b))"

lemma rankedD:
  "ranked V num A \<Longrightarrow> a \<in> A \<Longrightarrow> b \<in> A \<Longrightarrow>
   \<exists>c. compareVersions V a b = Inr c \<and> (c < 0 \<longleftrightarrow> num a < num b) \<and> (c = 0 \<longleftrightarrow> num a = num b) \<and>
       (c \<le> 0 \<longleftrightarrow> num a \<le> num b) \<and> (c > 0 \<longleftrightarrow> num a > num b) \<and> (c \<ge> 0 \<longleftrightarrow> num a \<ge> num b)"
  unfolding ranked_def by (smt (verit))

text \<open>A script for a stretch between the two versions, in the direction of the change.\<close>

definition between :: "(string \<Rightarrow> int) \<Rightarrow> string \<Rightarrow> string \<Rightarrow> string \<Rightarrow> bool" where
  "between num cur new m =
     (case get_migration_versions m of
        None \<Rightarrow> False
      | Some (a, b) \<Rightarrow>
          if num cur \<le> num new then num cur \<le> num a \<and> num a \<le> num b \<and> num b \<le> num new
          else num new \<le> num b \<and> num b \<le> num a \<and> num a \<le> num cur)"

definition script_le :: "(string \<Rightarrow> int) \<Rightarrow> string \<Rightarrow> string \<Rightarrow> bool" where
  "script_le num m1 m2 =
     (case (get_migration_versions m1, get_migration_versions m2) of
        (Some (a1, b1), Some (a2, b2)) \<Rightarrow> num a1 < num a2 \<or> num a1 = num a2 \<and> num b1 \<le> num b2
      | _ \<Rightarrow> False)"

text \<open>A comparison that decides a total preorder on the elements of \<open>A\<close>.\<close>

definition decides :: "('a \<Rightarrow> 'a \<Rightarrow> int res) \<Rightarrow> ('a \<Rightarrow> 'a \<Rightarrow> bool) \<Rightarrow> 'a set \<Rightarrow> bool" where
  "decides cmp le A \<longleftrightarrow>
     (\<forall>x\<in>A. \<forall>y\<in>A. (\<exists>c. cmp x y = Inr c \<and> (c < 0 \<longleftrightarrow> \<not> le y x)) \<and> (le x y \<or> le y x)) \<and>
     (\<forall>x\<in>A. \<forall>y\<in>A. \<forall>z\<in>A. le x y \<longrightarrow> le y z \<longrightarrow> le x z)"

lemma decides_cmp: "decides cmp le A \<Longrightarrow> x \<in> A \<Longrightarrow> y \<in> A \<Longrightarrow> \<exists>c. cmp x y = Inr c \<and> (c < 0 \<longleftrightarrow> \<not> le y x)"
  unfolding decides_def by blast

lemma decides_total: "decides cmp le A \<Longrightarrow> x \<in> A \<Longrightarrow> y \<in> A \<Longrightarrow> le x y \<or> le y x"
  unfolding decides_def by blast

lemma decides_trans: "decides cmp le A \<Longrightarrow> x \<in> A \<Longrightarrow> y \<in> A \<Longrightarrow> z \<in> A \<Longrightarrow> le x y \<Longrightarrow> le y z \<Longrightarrow> le x z"
  unfolding decides_def by blast

lemma decides_subset: "decides cmp le A \<Longrightarrow> B \<subseteq> A \<Longrightarrow> decides cmp le B"
  unfolding decides_def by blast

lemma insert_by_sorts:
  assumes "decides cmp le (insert x (set ys))" and "sorted_wrt le ys"
  shows "\<exists>zs. insert_by cmp x ys = Inr zs \<and> sorted_wrt le zs \<and> mset zs = add_mset x (mset ys)"
  using assms
proof (induction ys)
  case (Cons y ys)
  note dec = Cons.prems(1)
  obtain c where c: "cmp x y = Inr c" "c < 0 \<longleftrightarrow> \<not> le y x"
    using decides_cmp [OF dec, of x y] by auto
  show ?case
  proof (cases "c < 0")
    case True
    then have "le x y" using c decides_total [OF dec, of x y] by auto
    then have "\<forall>z\<in>set ys. le x z"
      using Cons.prems(2) decides_trans [OF dec, of x y] by simp
    with \<open>le x y\<close> Cons.prems(2) True c show ?thesis by simp
  next
    case False
    have "decides cmp le (insert x (set ys))" by (rule decides_subset [OF dec]) auto
    then obtain zs where zs: "insert_by cmp x ys = Inr zs" "sorted_wrt le zs" "mset zs = add_mset x (mset ys)"
      using Cons.IH Cons.prems(2) by auto
    then have "set zs = insert x (set ys)" by (metis set_mset_add_mset_insert set_mset_mset)
    with zs False c Cons.prems(2) show ?thesis by auto
  qed
qed simp

lemma sorted_by_sorts:
  assumes "decides cmp le (set acc \<union> set xs)" and "sorted_wrt le acc"
  shows "\<exists>zs. sorted_by cmp acc xs = Inr zs \<and> sorted_wrt le zs \<and> mset zs = mset acc + mset xs"
  using assms
proof (induction xs arbitrary: acc)
  case (Cons x xs)
  have "decides cmp le (insert x (set acc))" by (rule decides_subset [OF Cons.prems(1)]) auto
  from insert_by_sorts [OF this Cons.prems(2)] obtain acc' where acc':
    "insert_by cmp x acc = Inr acc'" "sorted_wrt le acc'" "mset acc' = add_mset x (mset acc)" by blast
  then have "set acc' = insert x (set acc)" by (metis set_mset_add_mset_insert set_mset_mset)
  then have "decides cmp le (set acc' \<union> set xs)" using Cons.prems(1) by simp
  from Cons.IH [OF this acc'(2)] acc' show ?case by auto
qed simp

text \<open>All version texts that the scripts mention.\<close>

definition script_versions :: "string list \<Rightarrow> string set" where
  "script_versions ms = {v. \<exists>m\<in>set ms. \<exists>a b. get_migration_versions m = Some (a, b) \<and> (v = a \<or> v = b)}"

lemma script_versions_Cons: "script_versions ms \<subseteq> script_versions (m # ms)"
  unfolding script_versions_def by (rule Collect_mono) (metis list.set_intros(2))

lemma script_versionsI:
  "m \<in> set ms \<Longrightarrow> get_migration_versions m = Some (a, b) \<Longrightarrow> a \<in> script_versions ms \<and> b \<in> script_versions ms"
  unfolding script_versions_def by blast

lemma scripts_decided:
  assumes "ranked V num A" and "\<forall>m\<in>M. \<exists>a b. get_migration_versions m = Some (a, b) \<and> a \<in> A \<and> b \<in> A"
  shows "decides (compare_migration_scripts V) (script_le num) M"
proof -
  have "\<exists>c. compare_migration_scripts V x y = Inr c \<and> (c < 0 \<longleftrightarrow> \<not> script_le num y x)" if xy: "x \<in> M" "y \<in> M" for x y
  proof -
    obtain a b a' b' where v: "get_migration_versions x = Some (a, b)" "get_migration_versions y = Some (a', b')"
      "a \<in> A" "b \<in> A" "a' \<in> A" "b' \<in> A"
      using bspec [OF assms(2) xy(1)] bspec [OF assms(2) xy(2)] by blast
    from rankedD [OF assms(1) v(3,5)] obtain c where "compareVersions V a a' = Inr c"
      "c < 0 \<longleftrightarrow> num a < num a'" "c = 0 \<longleftrightarrow> num a = num a'" by blast
    moreover from rankedD [OF assms(1) v(4,6)] obtain d where "compareVersions V b b' = Inr d" "d < 0 \<longleftrightarrow> num b < num b'" by blast
    ultimately show ?thesis
      using v(1,2) by (cases "c = 0") (auto simp: compare_migration_scripts_def script_le_def)
  qed
  moreover have "script_le num x y \<or> script_le num y x" if xy: "x \<in> M" "y \<in> M" for x y
    using bspec [OF assms(2) xy(1)] bspec [OF assms(2) xy(2)] by (auto simp: script_le_def)
  moreover have "script_le num x z" if "script_le num x y" "script_le num y z" for x y z
    using that by (auto simp: script_le_def split: option.splits)
  ultimately show ?thesis unfolding decides_def by (intro conjI ballI impI) metis+
qed

lemma is_relevant_between:
  assumes "ranked V num A" and "cur \<in> A" "new \<in> A" "a \<in> A" "b \<in> A" and "get_migration_versions m = Some (a, b)"
  shows "\<exists>r. is_relevant V cur new a b = Inr r \<and> (r = Some True \<longleftrightarrow> between num cur new m)"
proof -
  obtain c1 where c1: "compareVersions V new cur = Inr c1" "0 \<le> c1 \<longleftrightarrow> num cur \<le> num new"
    using rankedD [OF assms(1,3,2)] by blast
  obtain c2 where c2: "compareVersions V a b = Inr c2" "0 < c2 \<longleftrightarrow> num b < num a"
    using rankedD [OF assms(1,4,5)] by blast
  obtain c3 where c3: "compareVersions V b a = Inr c3" "0 < c3 \<longleftrightarrow> num a < num b"
    using rankedD [OF assms(1,5,4)] by blast
  obtain c4 where c4: "compareVersions V cur a = Inr c4" "c4 \<le> 0 \<longleftrightarrow> num cur \<le> num a" "0 \<le> c4 \<longleftrightarrow> num a \<le> num cur"
    using rankedD [OF assms(1,2,4)] by blast
  obtain c5 where c5: "compareVersions V new b = Inr c5" "0 \<le> c5 \<longleftrightarrow> num b \<le> num new" "c5 \<le> 0 \<longleftrightarrow> num new \<le> num b"
    using rankedD [OF assms(1,3,5)] by blast
  note c = c1 c2 c3 c4 c5
  show ?thesis
    using assms(6) by (simp add: is_relevant_def between_def c not_less)
qed

lemma relevant_loop_result:
  assumes "ranked V num A" and "cur \<in> A" "new \<in> A" and "script_versions ms \<subseteq> A"
    and "sorted_wrt (script_le num) rel" and "\<forall>m\<in>set rel. \<exists>a b. get_migration_versions m = Some (a, b) \<and> a \<in> A \<and> b \<in> A"
  shows "\<exists>rs. relevant_loop V cur new rel ms = Inr rs \<and> sorted_wrt (script_le num) rs \<and>
    mset rs = mset rel + mset (filter (between num cur new) ms)"
  using assms(4-)
proof (induction ms arbitrary: rel)
  case (Cons m ms)
  have ms: "script_versions ms \<subseteq> A" using Cons.prems(1) script_versions_Cons [of ms m] by (rule order_trans [rotated])
  show ?case
  proof (cases "get_migration_versions m")
    case None
    with Cons.IH [OF ms Cons.prems(2,3)] show ?thesis by (simp add: between_def)
  next
    case (Some ab)
    obtain a b where v: "get_migration_versions m = Some (a, b)" "a \<in> A" "b \<in> A"
      using Some Cons.prems(1) script_versionsI [of m "m # ms"] by (cases ab) (simp add: subset_iff)
    obtain r where r: "is_relevant V cur new a b = Inr r" "r = Some True \<longleftrightarrow> between num cur new m"
      using is_relevant_between [OF assms(1-3) v(2,3,1)] by blast
    show ?thesis
    proof (cases r)
      case None
      with r v Cons.IH [OF ms Cons.prems(2,3)] show ?thesis by simp
    next
      case (Some hit)
      let ?rel = "if hit then rel @ [m] else rel"
      have known: "\<forall>m\<in>set ?rel. \<exists>a b. get_migration_versions m = Some (a, b) \<and> a \<in> A \<and> b \<in> A"
        using Cons.prems(3) v by auto
      from sorted_by_sorts [of "compare_migration_scripts V" "script_le num" "[]" ?rel] scripts_decided [OF assms(1) known]
      obtain rel' where rel': "sorted_by (compare_migration_scripts V) [] ?rel = Inr rel'"
        "sorted_wrt (script_le num) rel'" "mset rel' = mset ?rel" by auto
      then have "set rel' = set ?rel" by (metis set_mset_mset)
      with Cons.IH [OF ms rel'(2)] known obtain rs where "relevant_loop V cur new rel' ms = Inr rs"
        "sorted_wrt (script_le num) rs" "mset rs = mset rel' + mset (filter (between num cur new) ms)" by auto
      with rel' r v Some show ?thesis by auto
    qed
  qed
qed simp

section \<open>Failures\<close>

text \<open>A migration that fails leaves the backup unpacked, or the exception of the attempt to do so.\<close>

lemma failed_migration_restores:
  assumes "create_backup T c cur s = (s1, Inr ())" and "migrate T cur new s1 = (s2, Inl e)"
  shows "tool_migrate T c cur new s
    = (case restore_from_backup T c cur s2 of (s3, Inl e') \<Rightarrow> (s3, Inl e') | (s3, Inr _) \<Rightarrow> (s3, Inl e))"
  using assms by (simp add: tool_migrate_def sbind_def scatch_def split: prod.splits sum.splits)

text \<open>An upgrade always returns: after a failure it is undone, and a failure of that is only logged.\<close>

lemma do_upgrade_returns:
  assumes "version_object (t_vers T) APP_NAME (t_metadata T) = Inr v"
  shows "\<exists>s'. do_upgrade T c p cur new rollback s = (s', Inr ())"
proof -
  have src: "get_src_version (t_sys T) (t_vers T) (t_metadata T) APP_NAME False s = (s, Inr (Some v))" for s
    using assms by (simp add: get_src_version_def)
  have once: "\<exists>s'. do_upgrade T c p cur new False s = (s', Inr ())" for cur new s
    by (subst do_upgrade.simps) (auto simp: src scatch_def split: prod.splits sum.splits)
  show ?thesis
  proof (cases rollback)
    case True
    show ?thesis
      by (subst do_upgrade.simps)
        (use once True in \<open>auto simp: src scatch_def split: prod.splits sum.splits\<close>)
  qed (use once in simp)
qed

lemma process_data_returns: "\<exists>s'. process_data T c loads data s = (s', Inr ())"
  by (auto simp: process_data_def scatch_def split: prod.splits sum.splits)

section \<open>Properties\<close>

text \<open>
  C32: Migrations. The scripts that run on the way from one version to another are exactly those whose
  versions lie between the two, in the direction of the change, each as often as it is listed, in the order of
  their original and then of their new versions, for upgrades and for downgrades.
\<close>

theorem migrations_between:
  assumes "ranked V num A" and "cur \<in> A" and "new \<in> A" and "script_versions scripts \<subseteq> A"
  shows "\<exists>rs. get_relevant_migrations V scripts cur new = Inr rs \<and> sorted_wrt (script_le num) rs \<and>
    mset rs = mset (filter (between num cur new) scripts)"
  using relevant_loop_result [OF assms(1-4), of "[]"] by (simp add: get_relevant_migrations_def)

text \<open>An example: two scripts, listed in the wrong order; versions are ranked by their texts.\<close>

definition ex_rank_versions :: "string versions" where
  "ex_rank_versions = ex_versions\<lparr>v_cmp := (\<lambda>v w. int (length v) - int (length w))\<rparr>"

definition ex_scripts :: "string list" where
  "ex_scripts = [''1_0_23_to_1_0_234'', ''1_0_2_to_1_0_23'', ''helper'']"

lemma ex_script_versions:
  "get_migration_versions ''1_0_23_to_1_0_234'' = Some (''1.0.23'', ''1.0.234'')"
  "get_migration_versions ''1_0_2_to_1_0_23'' = Some (''1.0.2'', ''1.0.23'')"
  "get_migration_versions ''helper'' = None"
  by code_simp+

theorem migrations_between_witness:
  "\<exists>rs. get_relevant_migrations ex_rank_versions ex_scripts ''1.0.2'' ''1.0.234'' = Inr rs \<and>
     mset rs = {#''1_0_23_to_1_0_234'', ''1_0_2_to_1_0_23''#}"
proof -
  let ?A = "{''1.0.2'', ''1.0.23'', ''1.0.234''}"
  have ranked: "ranked ex_rank_versions (\<lambda>v. int (length v)) ?A"
    unfolding ranked_def
    by (simp add: compareVersions_def version_object_def src_version_cls_def ex_rank_versions_def ex_versions_def)
  have versions: "script_versions ex_scripts \<subseteq> ?A"
    by (auto simp: script_versions_def ex_scripts_def ex_script_versions)
  have "filter (between (\<lambda>v. int (length v)) ''1.0.2'' ''1.0.234'') ex_scripts = [''1_0_23_to_1_0_234'', ''1_0_2_to_1_0_23'']"
    by (simp add: ex_scripts_def between_def ex_script_versions)
  then show ?thesis
    using migrations_between [OF ranked _ _ versions, of "''1.0.2''" "''1.0.234''"] by auto
qed

text \<open>A tool on a system with one package.\<close>

definition ex_tool_env :: "string tool_env" where
  "ex_tool_env =
     \<lparr>t_sys = (\<lambda>past op. if op = Shell ''apt update'' then Completed [] else ex_sys past op), t_vers = ex_versions, t_as_set = remdups,
      t_apt_mark = False, t_metadata = ''1.2.2'', t_backups = (\<lambda>ops. []), t_distro = ''Ubuntu'', t_scripts = [],
      t_script_path = (\<lambda>m. m)\<rparr>"

definition ex_tool :: tool where
  "ex_tool = \<lparr>test_mode = False, hold_ext = [], PACKAGES_TO_HOLD = [], backup_dir = ''/b'', backup_target = ''/t'',
     backup_format = ''zip'', backup_name_prefix = ''n'', backup_num = 10, tmp_dir = ''/tmp'', files_to_preserve = []\<rparr>"

lemma ex_tool_info:
  "snd (curr_pkg_info (t_sys ex_tool_env) (t_vers ex_tool_env) ''indy-node $(reboot)'' ex_sys_state)
     = Inr (Some \<lparr>dv_full = ''1.2.3'', dv_epoch = None, dv_upstream = ''1.2.3'', dv_revision = None\<rparr>, [])"
  by code_simp

text \<open>
  The text after the first blank of a package name reaches the shell. Validation of a POOL_UPGRADE looks
  only at the part before the blank, but the request that the node sends to the control tool carries the whole
  text, and the tool passes it to the shell in its query for the versions of the package.
\<close>

theorem package_text_reaches_shell:
  assumes "\<forall>c\<in>set p. \<not> is_space c \<and> c \<noteq> CHR '';'' \<and> c \<noteq> CHR ''|'' \<and> c \<noteq> CHR ''&''" and "p \<noteq> []"
    and "\<forall>c\<in>set x. \<not> is_line_break c \<and> c \<noteq> CHR '';'' \<and> c \<noteq> CHR ''&''"
    and "ev = \<lparr>ud_when = w, ud_version = u, ud_upgrade_id = i, ud_pkg_name = p @ '' '' @ x\<rparr>"
    and "loads (upgrade_message (t_vers T) dumps ev) = Inr (upgrade_message_dict (t_vers T) ev)"
    and "src_version_cls (t_vers T) (p @ '' '' @ x) (v_full (t_vers T) u) = Some u" and "is_instance (t_vers T) (p @ '' '' @ x) u"
    and "\<And>ops. t_sys T ops (Shell ''apt update'') = Completed []"
    and "snd (curr_pkg_info (t_sys T) (t_vers T) (p @ '' '' @ x) s) = Inr (Some installed, deps)"
  shows "check_package E (req\<lparr>operation := dict_set opn PACKAGE (PyStr (p @ '' '' @ x))\<rparr>)
      = check_package E (req\<lparr>operation := dict_set opn PACKAGE (PyStr p)\<rparr>) \<and>
    Shell (version_query (p @ '' '' @ x)) \<in> set (sys_ops (fst (process_data T c loads (upgrade_message (t_vers T) dumps ev) s)))"
proof
  have cut: "single_package (p @ '' '' @ x) = Inr p"
    using single_package_cut [OF assms(1), of x] assms(3) by simp
  have reply: "(refuse (req\<lparr>operation := a\<rparr>) :: string \<Rightarrow> unit res) = refuse req" for a
    by (rule ext) (simp add: refuse_def)
  show "check_package E (req\<lparr>operation := dict_set opn PACKAGE (PyStr (p @ '' '' @ x))\<rparr>)
      = check_package E (req\<lparr>operation := dict_set opn PACKAGE (PyStr p)\<rparr>)"
    using cut single_package_id [OF assms(1,2)] assms(2)
    by (simp add: check_package_def reply dict_index_def cong: if_cong option.case_cong)
next
  let ?pkg = "p @ '' '' @ x"
  have blank: "\<not> is_line_break (CHR '' '')" by (simp add: is_line_break_def)
  have clean: "\<forall>c\<in>set ?pkg. \<not> is_line_break c \<and> c \<noteq> CHR '';'' \<and> c \<noteq> CHR ''&''"
    using assms(1,3) blank by (auto dest: line_break_space)
  have "recorded (Shell (version_query ?pkg)) (fst (tool_upgrade T c u ?pkg s))"
    by (rule tool_query_recorded [OF assms(7) clean _ assms(9)]) (rule assms(8))
  then show "Shell (version_query ?pkg) \<in> set (sys_ops (fst (process_data T c loads (upgrade_message (t_vers T) dumps ev) s)))"
    using process_data_upgrade [where loads = loads, OF assms(5), of u c s] assms(4,6) by simp
qed

theorem package_text_reaches_shell_witness:
  "\<exists>msg. Shell (version_query ''indy-node $(reboot)'') \<in>
     set (sys_ops (fst (process_data ex_tool_env ex_tool (\<lambda>s. Inr msg) [] ex_sys_state)))"
proof -
  let ?ev = "\<lparr>ud_when = Aware 0, ud_version = ''1.2.4'', ud_upgrade_id = [], ud_pkg_name = ''indy-node'' @ '' '' @ ''$(reboot)''\<rparr>"
  have "Shell (version_query (''indy-node'' @ '' '' @ ''$(reboot)'')) \<in> set (sys_ops (fst (process_data ex_tool_env ex_tool
      (\<lambda>s. Inr (upgrade_message_dict (t_vers ex_tool_env) ?ev)) (upgrade_message (t_vers ex_tool_env) (\<lambda>v. []) ?ev) ex_sys_state)))"
  proof (rule package_text_reaches_shell [THEN conjunct2])
    show "snd (curr_pkg_info (t_sys ex_tool_env) (t_vers ex_tool_env) (''indy-node'' @ '' '' @ ''$(reboot)'') ex_sys_state)
        = Inr (Some \<lparr>dv_full = ''1.2.3'', dv_epoch = None, dv_upstream = ''1.2.3'', dv_revision = None\<rparr>, [])"
      using ex_tool_info by simp
  qed (auto simp: is_space_def is_line_break_def Let_def ex_tool_env_def src_version_cls_def is_instance_def ex_versions_def)
  then show ?thesis by (auto simp: upgrade_message_def)
qed

end
