(* ===== verification/Reads.thy ===== *)
theory Reads
  imports RichSchema
begin

text \<open>
  The read handlers (indy_node/server/request_handlers/read_req_handlers) except those for rich schema
  objects. What a handler asks of plenum's storage is a record of functions: the state root at or before a
  time, the value at a path under a root (the head without one) with its proof, the committed record at a
  path, the transaction with a sequence number, and the attribute store. An absent value is \<open>None\<close>, and no
  stored value is empty. A reply is what the handler passes to plenum's \<open>make_result\<close> and the fields it sets
  on the result afterwards.
\<close>

abbreviation VERSION_ID :: string where "VERSION_ID \<equiv> ''seqNo''"
abbreviation VERSION_TIME :: string where "VERSION_TIME \<equiv> ''timestamp''"
abbreviation TIMESTAMP :: string where "TIMESTAMP \<equiv> ''timestamp''"
abbreviation FROM :: string where "FROM \<equiv> ''from''"
abbreviation TO :: string where "TO \<equiv> ''to''"
abbreviation ID :: string where "ID \<equiv> ''id''"
abbreviation ACCUM_FROM :: string where "ACCUM_FROM \<equiv> ''accum_from''"
abbreviation ACCUM_TO :: string where "ACCUM_TO \<equiv> ''accum_to''"
abbreviation STATE_PROOF_FROM :: string where "STATE_PROOF_FROM \<equiv> ''stateProofFrom''"

record ('r, 'b) storage =
  get_equal_or_prev :: "pyval \<Rightarrow> 'r option"
  value_from_state :: "string \<Rightarrow> 'r option \<Rightarrow> bool \<Rightarrow> 'b option \<times> pyval"
  get_for_root_hash :: "'r option \<Rightarrow> pyval \<Rightarrow> 'b option"
  lookup :: "string \<Rightarrow> (pyval \<times> pyval \<times> pyval \<times> pyval) res"
  getReplyFromLedger :: "pyval \<Rightarrow> txn option"
  attribute_store_get :: "pyval \<Rightarrow> pyval res"

record reply =
  r_data :: pyval
  r_seq_no :: pyval
  r_time :: pyval
  r_proof :: pyval
  r_fields :: dict

definition make_result :: "pyval \<Rightarrow> pyval \<Rightarrow> pyval \<Rightarrow> pyval \<Rightarrow> dict \<Rightarrow> reply" where
  "make_result data last_seq_no update_time proof extra =
     \<lparr>r_data = data, r_seq_no = last_seq_no, r_time = update_time, r_proof = proof, r_fields = extra\<rparr>"

abbreviation no_record :: "pyval \<times> pyval \<times> pyval \<times> pyval" where "no_record \<equiv> (PyNone, PyNone, PyNone, PyNone)"

section \<open>Past versions\<close>

definition timestamp_from_seq_no :: "('r, 'b) storage \<Rightarrow> pyval \<Rightarrow> pyval" where
  "timestamp_from_seq_no db seq_no =
     (case getReplyFromLedger db seq_no of None \<Rightarrow> PyNone | Some t \<Rightarrow> opt_int_val (get_txn_time t))"

definition lookup_version ::
  "('r, 'b) storage \<Rightarrow> string \<Rightarrow> pyval \<Rightarrow> pyval \<Rightarrow> bool \<Rightarrow> ('b option \<times> pyval) res" where
  "lookup_version db path seq_no timestamp with_proof =
     (if seq_no \<noteq> PyNone \<and> timestamp \<noteq> PyNone then Inl (ValueError ''seq_no and timestamp are mutually exclusive'')
      else let timestamp' = (if truthy seq_no then timestamp_from_seq_no db seq_no else timestamp)
           in if truthy seq_no \<and> \<not> truthy timestamp' then Inr (None, PyNone)
              else if truthy timestamp'
              then (case get_equal_or_prev db timestamp' of
                      Some past_root \<Rightarrow> Inr (value_from_state db path (Some past_root) with_proof)
                    | None \<Rightarrow> Inr (None, PyNone))
              else Inr (value_from_state db path None with_proof))"

text \<open>The check of a request that three handlers share.\<close>

definition one_version :: "request \<Rightarrow> unit res" where
  "one_version req =
     (if truthy (dict_get (operation req) VERSION_TIME) \<and> truthy (dict_get (operation req) VERSION_ID)
      then refuse req (VERSION_ID @ '' and '' @ VERSION_TIME @ '' are mutually exclusive; only one should be specified'')
      else Inr ())"

definition get_nym_result ::
  "(string \<Rightarrow> string) \<Rightarrow> ('b \<Rightarrow> pyval) \<Rightarrow> (pyval \<Rightarrow> string) \<Rightarrow> ('r, 'b) storage \<Rightarrow> request \<Rightarrow> reply res" where
  "get_nym_result sha_raw deser ser_text db req =
     rbind (dict_index (operation req) TARGET_NYM) (\<lambda>nym. rbind (nym_key nym) (\<lambda>did.
     let path = make_state_path_for_nym sha_raw did;
         timestamp = dict_get (operation req) VERSION_TIME; seq_no = dict_get (operation req) VERSION_ID
     in rbind (one_version req) (\<lambda>_.
        rbind (lookup_version db path seq_no timestamp True) (\<lambda>(nym_data, proof).
        case nym_data of
          None \<Rightarrow> Inr (make_result PyNone PyNone PyNone proof (operation req))
        | Some b \<Rightarrow> rbind (as_dict_value (deser b)) (\<lambda>d.
            let d' = dict_set d TARGET_NYM nym
            in rbind (dict_index d' SEQ_NO) (\<lambda>last_seq_no. rbind (dict_index d' TXN_TIME) (\<lambda>update_time.
                 Inr (make_result (PyStr (ser_text (PyDict d'))) last_seq_no update_time proof (operation req)))))))))"

definition get_attr_type :: "dict \<Rightarrow> string" where
  "get_attr_type opn = (if dict_in RAW opn then RAW else if dict_in ENC opn then ENC else HASH)"

definition get_value_from_attribute_store :: "('r, 'b) storage \<Rightarrow> pyval \<Rightarrow> pyval res" where
  "get_value_from_attribute_store db key = on_KeyError PyNone (attribute_store_get db key)"

definition get_attribute_result :: "(string \<Rightarrow> string) \<Rightarrow> ('b \<Rightarrow> pyval) \<Rightarrow> ('r, 'b) storage \<Rightarrow> request \<Rightarrow> reply res" where
  "get_attribute_result sha deser db req =
     (let opn = operation req; timestamp = dict_get opn VERSION_TIME; seq_no = dict_get opn VERSION_ID
      in rbind (one_version req) (\<lambda>_.
         if \<not> validate_attrib_keys opn then refuse req (ATTRIB @ '' should have one and only one of raw, enc, hash'')
         else
           let attr_type = get_attr_type opn
           in rbind (dict_index opn TARGET_NYM) (\<lambda>nym. rbind (dict_index opn attr_type) (\<lambda>attr.
              rbind (if attr_type = HASH then Inr (py_str attr) else encodable attr) (\<lambda>name.
              rbind (lookup_version db (make_state_path_for_attr sha nym name (attr_type = HASH)) seq_no timestamp True)
                (\<lambda>(encoded, proof).
                 case encoded of
                   None \<Rightarrow> Inr (make_result PyNone PyNone PyNone proof [])
                 | Some b \<Rightarrow> rbind (decode_state_value deser b) (\<lambda>(store_key, last_seq_no, last_update_time).
                     if attr_type = HASH then Inr (make_result attr last_seq_no last_update_time proof [])
                     else rbind (get_value_from_attribute_store db store_key) (\<lambda>store_value.
                       Inr (make_result store_value last_seq_no last_update_time proof [])))))))))"

definition flag_deserialize :: "('b \<Rightarrow> pyval) \<Rightarrow> 'b option \<times> pyval \<Rightarrow> pyval \<times> pyval" where
  "flag_deserialize deser inp = (case inp of (None, proof) \<Rightarrow> (PyNone, proof) | (Some b, proof) \<Rightarrow> (deser b, proof))"

definition get_flag_result :: "('b \<Rightarrow> pyval) \<Rightarrow> ('r, 'b) storage \<Rightarrow> request \<Rightarrow> reply res" where
  "get_flag_result deser db req =
     (let key = dict_get (operation req) FLAG_NAME
      in if key = PyNone then refuse req ''Flag name must be provided in get request for config flags''
         else rbind (one_version req) (\<lambda>_.
              rbind (lookup_version db (make_state_path_for_flag key) (dict_get (operation req) VERSION_ID)
                       (dict_get (operation req) VERSION_TIME) True) (\<lambda>found.
              let (flag_data, proof) = flag_deserialize deser found
              in if truthy flag_data
                 then rbind (py_index flag_data LAST_SEQ_NO) (\<lambda>last_seq_no.
                      rbind (py_index flag_data LAST_UPDATE_TIME) (\<lambda>update_time.
                        Inr (make_result flag_data last_seq_no update_time proof [])))
                 else Inr (make_result flag_data PyNone PyNone proof []))))"

definition lookup_key :: "('b \<Rightarrow> pyval) \<Rightarrow> ('r, 'b) storage \<Rightarrow> pyval \<Rightarrow> pyval \<Rightarrow> pyval \<Rightarrow> pyval res" where
  "lookup_key deser db flag seq_no timestamp =
     rbind (lookup_version db (make_state_path_for_flag flag) seq_no timestamp False)
       (\<lambda>found. Inr (fst (flag_deserialize deser found)))"

section \<open>Schemas, claim definitions, revocation registry definitions\<close>

definition get_read_schema_name :: "request \<Rightarrow> pyval res" where
  "get_read_schema_name req = rbind (dict_index (operation req) DATA) (\<lambda>d. py_index d SCHEMA_NAME)"

definition get_read_schema_version :: "request \<Rightarrow> pyval res" where
  "get_read_schema_version req = rbind (dict_index (operation req) DATA) (\<lambda>d. py_index d SCHEMA_VERSION)"

definition get_schema ::
  "('r, 'b) storage \<Rightarrow> pyval \<Rightarrow> pyval \<Rightarrow> pyval \<Rightarrow> (pyval \<times> pyval \<times> pyval \<times> pyval) res" where
  "get_schema db author schema_name schema_version =
     rbind (py_assert (author \<noteq> PyNone)) (\<lambda>_. rbind (py_assert (schema_name \<noteq> PyNone)) (\<lambda>_.
     rbind (py_assert (schema_version \<noteq> PyNone)) (\<lambda>_.
       on_KeyError no_record (lookup db (make_state_path_for_schema author schema_name schema_version)))))"

definition get_schema_result :: "('r, 'b) storage \<Rightarrow> request \<Rightarrow> reply res" where
  "get_schema_result db req =
     rbind (get_read_schema_from req) (\<lambda>author_did. rbind (get_read_schema_name req) (\<lambda>schema_name.
     rbind (get_read_schema_version req) (\<lambda>schema_version.
     rbind (get_schema db author_did schema_name schema_version) (\<lambda>(schema, last_seq_no, last_update_time, proof).
     rbind (as_dict_value (if schema = PyNone then PyDict [] else schema)) (\<lambda>d.
       Inr (make_result (PyDict (dict_set (dict_set d SCHEMA_NAME schema_name) SCHEMA_VERSION schema_version))
              last_seq_no last_update_time proof []))))))"

definition get_read_claim_def_signature_type :: "request \<Rightarrow> pyval" where
  "get_read_claim_def_signature_type req = dict_get_default (operation req) CLAIM_DEF_SIGNATURE_TYPE (PyStr CLAIM_DEF_CL)"

definition get_read_claim_def_schema_ref :: "request \<Rightarrow> pyval res" where
  "get_read_claim_def_schema_ref req = dict_index (operation req) CLAIM_DEF_SCHEMA_REF"

definition get_read_claim_def_tag :: "request \<Rightarrow> pyval" where
  "get_read_claim_def_tag req = dict_get_default (operation req) CLAIM_DEF_TAG (PyStr CLAIM_DEF_TAG_DEFAULT)"

definition get_read_claim_def_from :: "request \<Rightarrow> pyval res" where
  "get_read_claim_def_from req = dict_index (operation req) CLAIM_DEF_FROM"

definition get_claim_def ::
  "('r, 'b) storage \<Rightarrow> pyval \<Rightarrow> pyval \<Rightarrow> pyval \<Rightarrow> pyval \<Rightarrow> (pyval \<times> pyval \<times> pyval \<times> pyval) res" where
  "get_claim_def db author schema_seq_no signature_type tag =
     rbind (py_assert (author \<noteq> PyNone)) (\<lambda>_. rbind (py_assert (schema_seq_no \<noteq> PyNone)) (\<lambda>_.
       on_KeyError no_record (lookup db (make_state_path_for_claim_def author schema_seq_no signature_type tag))))"

definition get_claim_def_result :: "('r, 'b) storage \<Rightarrow> request \<Rightarrow> reply res" where
  "get_claim_def_result db req =
     rbind (get_read_claim_def_from req) (\<lambda>frm. rbind (get_read_claim_def_schema_ref req) (\<lambda>schema_ref.
     let signature_type = get_read_claim_def_signature_type req
     in rbind (get_claim_def db frm schema_ref signature_type (get_read_claim_def_tag req))
          (\<lambda>(keys, last_seq_no, last_update_time, proof).
             Inr (make_result keys last_seq_no last_update_time proof [(CLAIM_DEF_SIGNATURE_TYPE, signature_type)]))))"

definition get_revoc_reg_def_result :: "('r, 'b) storage \<Rightarrow> request \<Rightarrow> reply res" where
  "get_revoc_reg_def_result db req =
     (let state_path = dict_get (operation req) ID
      in rbind (py_assert (truthy state_path)) (\<lambda>_. rbind (encodable state_path) (\<lambda>path.
         rbind (on_KeyError no_record (lookup db path)) (\<lambda>(keys, last_seq_no, last_update_time, proof).
           Inr (make_result keys last_seq_no last_update_time proof [])))))"

section \<open>Revocation registry entries\<close>

record 'r StateValue =
  sv_root_hash :: "'r option"
  sv_value :: pyval
  sv_seq_no :: pyval
  sv_update_time :: pyval
  sv_proof :: pyval

definition new_StateValue :: "'r StateValue" where
  "new_StateValue = \<lparr>sv_root_hash = None, sv_value = PyNone, sv_seq_no = PyNone, sv_update_time = PyNone, sv_proof = PyNone\<rparr>"

definition get_revoc_reg_result :: "('b \<Rightarrow> pyval) \<Rightarrow> ('r, 'b) storage \<Rightarrow> request \<Rightarrow> reply res" where
  "get_revoc_reg_result deser db req =
     (let path = make_state_path_for_revoc_reg_entry_accum (dict_get (operation req) REVOC_REG_DEF_ID)
      in case get_equal_or_prev db (dict_get (operation req) TIMESTAMP) of
           None \<Rightarrow> Inr (make_result PyNone PyNone PyNone PyNone [])
         | Some past_root \<Rightarrow>
             (case value_from_state db path (Some past_root) True of
                (None, proof) \<Rightarrow> Inr (make_result PyNone PyNone PyNone proof [])
              | (Some encoded_entry, proof) \<Rightarrow>
                  rbind (decode_state_value deser encoded_entry) (\<lambda>(accum, seq_no, last_update_time).
                    Inr (make_result accum seq_no last_update_time proof []))))"

definition get_revoc_def_entry :: "('r, 'b) storage \<Rightarrow> pyval \<Rightarrow> (pyval \<times> pyval \<times> pyval \<times> pyval) res" where
  "get_revoc_def_entry db revoc_reg_def_id =
     rbind (py_assert (truthy revoc_reg_def_id)) (\<lambda>_.
       on_KeyError no_record (lookup db (make_state_path_for_revoc_reg_entry revoc_reg_def_id)))"

text \<open>\<open>static_validation\<close>: only numbers are compared, other values raise.\<close>

definition delta_static_validation :: "request \<Rightarrow> unit res" where
  "delta_static_validation req =
     (let req_ts_to = dict_get (operation req) TO; req_ts_from = dict_get (operation req) FROM
      in rbind (py_assert (truthy req_ts_to)) (\<lambda>_.
         if \<not> truthy req_ts_from then Inr ()
         else case (as_number req_ts_from, as_number req_ts_to) of
                (Some f, Some t) \<Rightarrow>
                  if f > t then refuse req (''Timestamp FROM more then TO: '' @ py_str req_ts_from @ '' > '' @ py_str req_ts_to)
                  else Inr ()
              | _ \<Rightarrow> Inl (TypeError ''>'')))"

text \<open>\<open>_get_reg_entry_by_timestamp\<close> and \<open>_get_reg_entry_accum_by_timestamp\<close> differ in the path only.\<close>

definition get_reg_entry_by_timestamp ::
  "('b \<Rightarrow> pyval) \<Rightarrow> ('r, 'b) storage \<Rightarrow> pyval \<Rightarrow> string \<Rightarrow> 'r StateValue res" where
  "get_reg_entry_by_timestamp deser db timestamp path =
     (case get_equal_or_prev db timestamp of
        None \<Rightarrow> Inr new_StateValue
      | Some past_root \<Rightarrow>
          (case value_from_state db path (Some past_root) True of
             (None, proof) \<Rightarrow> Inr (new_StateValue\<lparr>sv_root_hash := Some past_root, sv_proof := proof\<rparr>)
           | (Some encoded_entry, proof) \<Rightarrow>
               rbind (decode_state_value deser encoded_entry) (\<lambda>(reg_entry, seq_no, last_update_time).
                 Inr \<lparr>sv_root_hash = Some past_root, sv_value = reg_entry, sv_seq_no = seq_no,
                      sv_update_time = last_update_time, sv_proof = proof\<rparr>)))"

definition get_reg_entry_accum_by_timestamp ::
  "('b \<Rightarrow> pyval) \<Rightarrow> ('r, 'b) storage \<Rightarrow> pyval \<Rightarrow> string \<Rightarrow> 'r StateValue res" where
  "get_reg_entry_accum_by_timestamp deser db timestamp path = get_reg_entry_by_timestamp deser db timestamp path"

text \<open>
  The issued and revoked indices of the reply: the lists of the second entry, or the delta, a pair of sets
  that a reply lists in the order \<open>listing\<close> gives.
\<close>

definition delta_lists :: "(int set \<Rightarrow> int list) \<Rightarrow> strategy \<Rightarrow> index_lists \<Rightarrow> index_lists option \<Rightarrow> index_lists" where
  "delta_lists listing strat to_lists from_lists =
     (if from_lists = None then to_lists
      else map_prod listing listing (strategy_get_delta strat to_lists from_lists))"

text \<open>\<open>value[VALUE].get(ISSUED, [])\<close> and \<open>value[VALUE].get(REVOKED, [])\<close>\<close>

definition lists_of :: "pyval \<Rightarrow> index_lists res" where
  "lists_of value =
     rbind (py_index value VALUE) (\<lambda>v. rbind (get_indices v ISSUED) (\<lambda>i. rbind (get_indices v REVOKED) (\<lambda>r. Inr (i, r))))"

text \<open>
  The reply that is built when the second entry, its accumulator and the registry definition are there. The
  entries for the first time are returned too, as the caller uses them.
\<close>

definition delta_reply ::
  "('b \<Rightarrow> pyval) \<Rightarrow> (int set \<Rightarrow> int list) \<Rightarrow> ('r, 'b) storage \<Rightarrow> request \<Rightarrow> 'r StateValue \<Rightarrow> 'r StateValue \<Rightarrow> 'b
     \<Rightarrow> (dict \<times> 'r StateValue) res" where
  "delta_reply deser listing db req entry_to accum_to encoded_revoc_reg_def =
     (let req_ts_from = dict_get (operation req) FROM; revoc_reg_def_id = dict_get (operation req) REVOC_REG_DEF_ID
      in rbind (decode_state_value deser encoded_revoc_reg_def) (\<lambda>(revoc_reg_def, _, _).
         rbind (py_index revoc_reg_def VALUE) (\<lambda>v. rbind (py_index v ISSUANCE_TYPE) (\<lambda>typ.
         rbind (lists_of (sv_value entry_to)) (\<lambda>to_lists.
         rbind (if truthy req_ts_from
                then rbind (get_reg_entry_by_timestamp deser db req_ts_from (make_state_path_for_revoc_reg_entry revoc_reg_def_id)) (\<lambda>e.
                     rbind (get_reg_entry_accum_by_timestamp deser db req_ts_from
                              (make_state_path_for_revoc_reg_entry_accum revoc_reg_def_id)) (\<lambda>a. Inr (e, a)))
                else Inr (new_StateValue, new_StateValue)) (\<lambda>(entry_from, accum_from).
         rbind (if truthy req_ts_from \<and> truthy (sv_value entry_from) \<and> truthy (sv_value accum_from)
                then rbind (lists_of (sv_value entry_from)) (\<lambda>l. Inr (Some l)) else Inr None) (\<lambda>from_lists.
         rbind (case get_revocation_strategy typ of
                  None \<Rightarrow> Inl (AttributeError ''get_delta'')
                | Some strat \<Rightarrow> Inr (delta_lists listing strat to_lists from_lists)) (\<lambda>(result_issued, result_revoked).
         rbind (py_get revoc_reg_def REVOC_TYPE) (\<lambda>revoc_type.
           let val = [(ACCUM_TO, if truthy (sv_value entry_from) then sv_value accum_to else sv_value entry_to),
                      (ISSUED, indices_val result_issued), (REVOKED, indices_val result_revoked)];
               reply = [(REVOC_REG_DEF_ID, revoc_reg_def_id), (REVOC_TYPE, revoc_type)]
           in Inr (if truthy req_ts_from
                   then reply @ [(VALUE, PyDict (val @ [(ACCUM_FROM, sv_value accum_from)])),
                                 (STATE_PROOF_FROM, sv_proof accum_from)]
                   else reply @ [(VALUE, PyDict val)], entry_from))))))))))"

text \<open>\<open>get_result\<close>; the condition \<open>accum_to and entry_to\<close> of the code tests objects and always holds.\<close>

definition get_revoc_reg_delta_result ::
  "('b \<Rightarrow> pyval) \<Rightarrow> (int set \<Rightarrow> int list) \<Rightarrow> ('r, 'b) storage \<Rightarrow> request \<Rightarrow> reply res" where
  "get_revoc_reg_delta_result deser listing db req =
     (let req_ts_from = dict_get (operation req) FROM; req_ts_to = dict_get (operation req) TO;
          revoc_reg_def_id = dict_get (operation req) REVOC_REG_DEF_ID;
          path_to_reg_entry_accum = make_state_path_for_revoc_reg_entry_accum revoc_reg_def_id
      in rbind (get_reg_entry_by_timestamp deser db req_ts_to (make_state_path_for_revoc_reg_entry revoc_reg_def_id)) (\<lambda>entry_to.
         rbind (get_reg_entry_accum_by_timestamp deser db req_ts_to path_to_reg_entry_accum) (\<lambda>accum_to.
         rbind (if truthy (sv_value accum_to) \<and> truthy (sv_value entry_to)
                then case get_for_root_hash db (sv_root_hash entry_to) revoc_reg_def_id of
                       None \<Rightarrow> Inr (None, new_StateValue)
                     | Some b \<Rightarrow> rbind (delta_reply deser listing db req entry_to accum_to b) (\<lambda>(d, e). Inr (Some d, e))
                else Inr (None, new_StateValue)) (\<lambda>(reply, entry_from).
         let chosen = (if truthy (sv_value entry_from) then accum_to else entry_to)
         in rbind (case reply of
                     Some d \<Rightarrow> Inr (PyDict d)
                   | None \<Rightarrow>
                       if req_ts_from = PyNone then Inr PyNone
                       else rbind (get_reg_entry_accum_by_timestamp deser db req_ts_from path_to_reg_entry_accum) (\<lambda>accum_from.
                              Inr (PyDict [(STATE_PROOF_FROM, sv_proof accum_from),
                                           (VALUE, PyDict [(ACCUM_TO, PyNone), (ACCUM_FROM, sv_value accum_from)])])))
              (\<lambda>data. Inr (make_result data (sv_seq_no chosen) (sv_update_time chosen) (sv_proof chosen) []))))))"

section \<open>Authorization rules\<close>

text \<open>The fields of the operation's message schema; all but \<open>old_value\<close> must be there if any beside the type is.\<close>

definition get_auth_rule_fields :: "string list" where
  "get_auth_rule_fields = [TXN_TYPE, AUTH_ACTION, AUTH_TYPE, FIELD, OLD_VALUE, NEW_VALUE]"

definition get_auth_rule_static_validation :: "(string \<times> constraint) list \<Rightarrow> request \<Rightarrow> unit res" where
  "get_auth_rule_static_validation amap req =
     (if length (operation req) > 1
      then if \<not> set (remove1 OLD_VALUE get_auth_rule_fields) \<subseteq> set (map fst (operation req))
           then refuse req ''Not enough fields to build an auth key.''
           else check_auth_key (operation req) req amap
      else Inr ())"

definition make_auth_rule_data :: "constraint option \<Rightarrow> ActionDef \<Rightarrow> dict" where
  "make_auth_rule_data c action_obj =
     [(CONSTRAINT, PyDict (case c of None \<Rightarrow> [] | Some c' \<Rightarrow> as_dict c')), (AUTH_TYPE, PyStr (ad_txn_type action_obj)),
      (AUTH_ACTION, PyStr (ad_prefix action_obj)), (FIELD, PyStr (ad_field action_obj)),
      (NEW_VALUE, PyStr (ad_new_value action_obj))]
     @ (if ad_prefix action_obj = EDIT_PREFIX then [(OLD_VALUE, PyStr (ad_old_value action_obj))] else [])"

text \<open>The constraint of a rule: from the state, or else from the map (\<open>None\<close> is \<open>KeyError\<close>).\<close>

definition rule_constraint ::
  "(string \<times> constraint) list \<Rightarrow> ('b \<Rightarrow> pyval) \<Rightarrow> string \<Rightarrow> 'b option \<Rightarrow> constraint res" where
  "rule_constraint amap deser key map_data =
     (case map_data of
        Some b \<Rightarrow> deserialize_constraint deser b
      | None \<Rightarrow> (case map_of amap key of None \<Rightarrow> Inl (KeyError key) | Some c \<Rightarrow> Inr c))"

definition get_auth_rule ::
  "(string \<times> constraint) list \<Rightarrow> ('b \<Rightarrow> pyval) \<Rightarrow> ('r, 'b) storage \<Rightarrow> string \<Rightarrow> (dict list \<times> pyval) res" where
  "get_auth_rule amap deser db key =
     (let (map_data, proof) = value_from_state db (make_state_path_for_auth_rule key) None True
      in rbind (rule_constraint amap deser key map_data) (\<lambda>c.
         rbind (split_action_id key) (\<lambda>action_obj. Inr ([make_auth_rule_data (Some c) action_obj], proof))))"

fun all_auth_rules ::
  "(string \<times> constraint) list \<Rightarrow> ('b \<Rightarrow> pyval) \<Rightarrow> ('r, 'b) storage \<Rightarrow> string list \<Rightarrow> dict list res" where
  "all_auth_rules amap deser db [] = Inr []"
| "all_auth_rules amap deser db (key # keys) =
     rbind (rule_constraint amap deser key (fst (value_from_state db (make_state_path_for_auth_rule key) None False))) (\<lambda>c.
     rbind (split_action_id key) (\<lambda>action_obj.
     rbind (all_auth_rules amap deser db keys) (\<lambda>rest. Inr (make_auth_rule_data (Some c) action_obj # rest))))"

definition get_all_auth_rules :: "(string \<times> constraint) list \<Rightarrow> ('b \<Rightarrow> pyval) \<Rightarrow> ('r, 'b) storage \<Rightarrow> dict list res" where
  "get_all_auth_rules amap deser db = all_auth_rules amap deser db (map fst amap)"

definition get_auth_rule_result ::
  "(string \<times> constraint) list \<Rightarrow> ('b \<Rightarrow> pyval) \<Rightarrow> ('r, 'b) storage \<Rightarrow> request \<Rightarrow> reply res" where
  "get_auth_rule_result amap deser db req =
     rbind (if length (operation req) \<ge> length get_auth_rule_fields - 1
            then rbind (get_auth_key (operation req)) (get_auth_rule amap deser db)
            else rbind (get_all_auth_rules amap deser db) (\<lambda>data. Inr (data, PyNone)))
       (\<lambda>(data, proof). Inr (make_result (PyList (map PyDict data)) PyNone PyNone proof (operation req)))"

end
