(* ===== verification/Restarter.thy ===== *)
theory Restarter
  imports Upgrader
begin

text \<open>
  Scheduling of restarts (indy_node/server/restarter.py), the requests that ask for them
  (request_handlers/action_req_handlers) and the node's own request when its consensus state is inconsistent
  (\<open>on_inconsistent_3pc_state\<close> of indy_node/server/node.py). The restarter is the second maintainer: its steps
  keep the contract of the maintainers. The node creates its restarter without callbacks.
\<close>

abbreviation DATETIME :: string where "DATETIME \<equiv> ''datetime''"

section \<open>State\<close>

text \<open>\<open>immediate\<close> counts the restarts that were requested at once, \<open>failures\<close> the calls of the failure callback.\<close>

record restarter = "moment maintainer" +
  immediate :: nat
  failures :: nat

record restarter_env =
  restart_log_codec :: "moment log_codec"
  rs_parse_time :: "string \<Rightarrow> moment res"
  rs_stashed :: "int \<Rightarrow> bool"

section \<open>The log at the first run\<close>

definition update_restart_log :: "restarter_env \<Rightarrow> int \<Rightarrow> (restarter, unit) sres" where
  "update_restart_log R t s =
     (case lastActionEventInfo s of
        None \<Rightarrow> (s, Inl (AttributeError ''data''))
      | Some e \<Rightarrow> append_log (restart_log_codec R) (Naive t) succeeded (le_data e) s)"

definition new_restarter :: "moment action_log \<Rightarrow> restarter" where
  "new_restarter l =
     \<lparr>actionLog = l, scheduledAction = None, actions = [], sending = [], immediate = 0, failures = 0\<rparr>"

definition init_restarter :: "restarter_env \<Rightarrow> int \<Rightarrow> string \<Rightarrow> restarter res" where
  "init_restarter R t file =
     rbind (load (restart_log_codec R) TAB (Naive t) file) (\<lambda>l.
       case process_action_log_for_first_run (update_restart_log R t) (new_restarter l) of
         (s, Inl e) \<Rightarrow> Inl e
       | (s, Inr _) \<Rightarrow> Inr s)"

section \<open>Scheduling\<close>

definition scheduleRestart :: "restarter_env \<Rightarrow> int \<Rightarrow> moment \<Rightarrow> pyval \<Rightarrow> (restarter, unit) sres" where
  "scheduleRestart R t when failTimeout =
     sbind (append_log (restart_log_codec R) (Naive t) scheduled when) (\<lambda>_.
     sbind (slift (moment_less (Aware t) when)) (\<lambda>later.
     sbind (smodify (scheduledAction_update (\<lambda>_. Some when))) (\<lambda>_.
       schedule (CallAgent when failTimeout) (if later then stamp when - t else 0))))"

definition cancelScheduledRestart :: "restarter_env \<Rightarrow> int \<Rightarrow> (restarter, unit) sres" where
  "cancelScheduledRestart R t s =
     (case scheduledAction s of
        None \<Rightarrow> (s, Inr ())
      | Some d \<Rightarrow>
          sbind (unscheduleAction (rs_stashed R)) (\<lambda>_. append_log (restart_log_codec R) (Naive t) cancelled d) s)"

definition requestRestart :: "restarter_env \<Rightarrow> int \<Rightarrow> moment option \<Rightarrow> pyval \<Rightarrow> (restarter, unit) sres" where
  "requestRestart R t when fail_timeout s =
     (if scheduledAction s \<noteq> None \<and> scheduledAction s = when then (s, Inr ())
      else sbind (cancelScheduledRestart R t) (\<lambda>_.
             case when of
               None \<Rightarrow> smodify (immediate_update Suc)
             | Some w \<Rightarrow>
                 sbind (slift (moment_le w (Aware t))) (\<lambda>past.
                   if past then smodify (immediate_update Suc)
                   else scheduleRestart R t w (if fail_timeout = PyNone then PyInt defaultActionTimeout else fail_timeout))) s)"

text \<open>The time of a request: none if the field is missing or one of the values that stand for none.\<close>

definition restart_time :: "restarter_env \<Rightarrow> dict \<Rightarrow> moment option res" where
  "restart_time R opn =
     (case map_of opn DATETIME of
        None \<Rightarrow> Inr None
      | Some v \<Rightarrow> if v \<in> {PyStr ''0'', PyStr [], PyNone} then Inr None
                  else rbind (rbind (text_of v) (rs_parse_time R)) (\<lambda>w. Inr (Some w)))"

definition handleRestartRequest :: "restarter_env \<Rightarrow> int \<Rightarrow> request \<Rightarrow> (restarter, unit) sres" where
  "handleRestartRequest R t req =
     (let opn = operation req in
      sbind (slift (dict_index opn TXN_TYPE)) (\<lambda>ty.
        if ty \<noteq> PyStr POOL_RESTART then sret ()
        else sbind (slift (dict_index opn ACTION)) (\<lambda>action.
          if action = PyStr START
          then sbind (slift (restart_time R opn)) (\<lambda>when.
                 requestRestart R t when (dict_get_default opn TIMEOUT (PyInt defaultActionTimeout)))
          else if action = PyStr CANCEL then cancelScheduledRestart R t
          else sret ())))"

definition on_inconsistent_3pc_state :: "restarter_env \<Rightarrow> int \<Rightarrow> int \<Rightarrow> (restarter, unit) sres" where
  "on_inconsistent_3pc_state R t secs = requestRestart R t (Some (Aware (t + secs * 1000000))) PyNone"

section \<open>Execution\<close>

text \<open>
  \<open>_action_failed\<close> takes keyword arguments only: a call with positional arguments, or without the event, is a
  \<open>TypeError\<close>.
\<close>

definition restart_action_failed :: "moment list \<Rightarrow> moment option \<Rightarrow> (restarter, unit) sres" where
  "restart_action_failed positional ev_data =
     (if positional \<noteq> [] then sraise (TypeError ''_action_failed() takes 1 positional argument'')
      else case ev_data of
             None \<Rightarrow> sraise (TypeError ''_action_failed() missing 1 required keyword-only argument'')
           | Some d \<Rightarrow> sret ())"

definition callRestartAgent :: "restarter_env \<Rightarrow> int \<Rightarrow> moment \<Rightarrow> pyval \<Rightarrow> (restarter, unit) sres" where
  "callRestartAgent R t ev_data failTimeout =
     sbind (append_log (restart_log_codec R) (Naive t) started ev_data) (\<lambda>_.
       smodify (\<lambda>s. s\<lparr>scheduledAction := None, sending := sending s @ [(ev_data, failTimeout)]\<rparr>))"

definition sendRestartRequest :: "restarter_env \<Rightarrow> bool list \<Rightarrow> moment \<Rightarrow> pyval \<Rightarrow> (restarter, unit) sres" where
  "sendRestartRequest R connects ev_data failTimeout =
     (if send_loop retry_limit connects = 0
      then sbind (restart_action_failed [ev_data] None) (\<lambda>_.
           sbind (unscheduleAction (rs_stashed R)) (\<lambda>_. smodify (failures_update Suc)))
      else sbind (slift (get_timeout failTimeout)) (\<lambda>secs. schedule (TimesUp ev_data) (secs * 1000000)))"

definition restart_timeout_exceeded :: "restarter_env \<Rightarrow> moment \<Rightarrow> (restarter, unit) sres" where
  "restart_timeout_exceeded R ev_data s =
     (if (case lastActionEventInfo s of None \<Rightarrow> False | Some e \<Rightarrow> le_type e = failed \<and> le_data e = ev_data)
      then (s, Inr ())
      else sbind (restart_action_failed [ev_data] None) (\<lambda>_.
           sbind (unscheduleAction (rs_stashed R)) (\<lambda>_. smodify (failures_update Suc))) s)"

section \<open>Action requests\<close>

text \<open>\<open>{**request.operation, 'identifier': ..., 'reqId': ...}\<close>\<close>

definition generate_action_result :: "request \<Rightarrow> dict" where
  "generate_action_result req =
     dict_update (operation req) [(IDENTIFIER, did_val (req_identifier req)), (''reqId'', PyInt (reqId req))]"

definition pool_restart_dynamic_validation :: "validator \<Rightarrow> request \<Rightarrow> unit res" where
  "pool_restart_dynamic_validation wrv req =
     authorize_with wrv req (mk_AuthActionAdd POOL_RESTART (PyStr ACTION) (dict_get (operation req) ACTION) True)"

definition pool_restart_process_action :: "restarter_env \<Rightarrow> int \<Rightarrow> request \<Rightarrow> (restarter, dict) sres" where
  "pool_restart_process_action R t req =
     sbind (handleRestartRequest R t req) (\<lambda>_. sret (generate_action_result req))"

definition validator_info_dynamic_validation :: "validator \<Rightarrow> request \<Rightarrow> unit res" where
  "validator_info_dynamic_validation wrv req =
     authorize_with wrv req (mk_AuthActionAdd VALIDATOR_INFO (PyStr ''*'') (PyStr ''*'') True)"

text \<open>The tool that collects the information is plenum's: its parts are arguments.\<close>

definition validator_info_process_action :: "dict \<Rightarrow> dict \<Rightarrow> dict \<Rightarrow> dict \<Rightarrow> request \<Rightarrow> dict" where
  "validator_info_process_action info software extractions disk req =
     dict_set (generate_action_result req) DATA
       (PyDict (dict_update (dict_update (dict_update (dict_set info ''Memory_profiler'' (PyList [])) software) extractions) disk))"

section \<open>Every operation keeps the contract\<close>

lemma restart_frame:
  "consistent (s\<lparr>sending := ss\<rparr>) = consistent s"
  "consistent (immediate_update f s) = consistent s"
  "consistent (failures_update f s) = consistent s"
  for s :: restarter
  by (simp_all add: consistent_def lastActionEventInfo_def agent_pending_def)

lemma restart_schedule_consistent:
  assumes "scheduledAction s = None"
  shows "consistent (fst (scheduleRestart R t w timeout s))"
  using assms
  by (cases "moment_less (Aware t) w")
    (auto simp: scheduleRestart_def append_log_def schedule_def sbind_def consistent_def
      lastActionEventInfo_def agent_pending_def)

lemma restart_cancel_result:
  "snd (cancelScheduledRestart R t s) = Inr () \<and> scheduledAction (fst (cancelScheduledRestart R t s)) = None"
  by (auto simp: cancelScheduledRestart_def unscheduleAction_def append_log_def sbind_def split: option.splits)

lemma keeps_restart_cancel: "keeps consistent (cancelScheduledRestart R t)"
  using restart_cancel_result by (intro keepsI consistent_None) blast

lemma keeps_request: "keeps consistent (requestRestart R t w0 timeout)"
proof (rule keepsI)
  fix s :: restarter
  assume s: "consistent s"
  obtain s1 where s1: "cancelScheduledRestart R t s = (s1, Inr ())" "scheduledAction s1 = None"
    using restart_cancel_result [of R t s] by (cases "cancelScheduledRestart R t s") auto
  have none: "consistent s1" using s1(2) by (rule consistent_None)
  show "consistent (fst (requestRestart R t w0 timeout s))"
  proof (cases w0)
    case None
    with s s1 none show ?thesis by (auto simp: requestRestart_def restart_frame)
  next
    case (Some w)
    with s s1 none show ?thesis
      by (cases "moment_le w (Aware t)")
        (auto simp: requestRestart_def restart_frame sbind_def [where m = "slift _"] restart_schedule_consistent)
  qed
qed

lemma keeps_restart_handle: "keeps consistent (handleRestartRequest R t req)"
  unfolding handleRestartRequest_def by (intro keeps_rules keeps_restart_cancel keeps_request)

lemma restart_agent_result: "scheduledAction (fst (callRestartAgent R t w timeout s)) = None"
  by (simp add: callRestartAgent_def append_log_def sbind_def)

lemma keeps_action_failed: "keeps consistent (restart_action_failed ps d)"
  unfolding restart_action_failed_def by (intro keeps_rules)

lemma keeps_restart_unschedule: "keeps consistent (sbind (unscheduleAction st) (\<lambda>_. smodify (failures_update Suc)) :: (restarter, unit) sres)"
  by (intro keeps_sbind keeps_smodify) (simp_all add: keeps_def consistent_unschedule restart_frame)

lemma keeps_restart_send: "keeps consistent (sendRestartRequest R connects w timeout)"
  unfolding sendRestartRequest_def schedule_def
  by (intro keeps_rules keeps_action_failed keeps_restart_unschedule keeps_smodify)
    (fastforce simp: consistent_def lastActionEventInfo_def agent_pending_def)

lemma keeps_restart_timeout: "keeps consistent (restart_timeout_exceeded R w)"
proof (rule keepsI)
  fix s :: restarter
  assume s: "consistent s"
  have "keeps consistent (sbind (restart_action_failed [w] None) (\<lambda>_.
      sbind (unscheduleAction (rs_stashed R)) (\<lambda>_. smodify (failures_update Suc))))"
    by (intro keeps_sbind [OF keeps_action_failed] keeps_restart_unschedule)
  from keepsD [OF this s] s show "consistent (fst (restart_timeout_exceeded R w s))"
    by (simp add: restart_timeout_exceeded_def)
qed

lemma restart_init_iff:
  "init_restarter R t file = Inr s \<longleftrightarrow>
   (\<exists>l. load (restart_log_codec R) TAB (Naive t) file = Inr l \<and>
        process_action_log_for_first_run (update_restart_log R t) (new_restarter l) = (s, Inr ()))"
proof (cases "load (restart_log_codec R) TAB (Naive t) file")
  case (Inr l)
  obtain s1 r1 where "process_action_log_for_first_run (update_restart_log R t) (new_restarter l) = (s1, r1)"
    by (rule prod.exhaust)
  with Inr show ?thesis by (cases r1) (auto simp: init_restarter_def)
qed (simp add: init_restarter_def)

lemma restart_init_unscheduled: "init_restarter R t file = Inr s \<Longrightarrow> scheduledAction s = None"
  by (auto simp: restart_init_iff process_action_log_for_first_run_def update_restart_log_def new_restarter_def
      append_log_def split: if_splits option.splits)

section \<open>Steps\<close>

inductive restarter_step :: "restarter_env \<Rightarrow> restarter \<Rightarrow> restarter \<Rightarrow> bool" for R where
  handle: "restarter_step R s (fst (handleRestartRequest R t req s))"
| inconsistent: "restarter_step R s (fst (on_inconsistent_3pc_state R t secs s))"
| agent: "actions s = q @ (CallAgent w timeout, d) # q' \<Longrightarrow>
    restarter_step R s (fst (callRestartAgent R t w timeout (s\<lparr>actions := q @ q'\<rparr>)))"
| times_up: "actions s = q @ (TimesUp w, d) # q' \<Longrightarrow>
    restarter_step R s (fst (restart_timeout_exceeded R w (s\<lparr>actions := q @ q'\<rparr>)))"
| send: "sending s = q @ (w, timeout) # q' \<Longrightarrow>
    restarter_step R s (fst (sendRestartRequest R connects w timeout (s\<lparr>sending := q @ q'\<rparr>)))"
| restart: "init_restarter R t (al_file (actionLog s)) = Inr s' \<Longrightarrow> restarter_step R s s'"

interpretation restart: maintained "restarter_step R" for R
proof
  fix s s' :: restarter
  assume s: "consistent s" and "restarter_step R s s'"
  from this(2) show "consistent s'"
  proof cases
    case (handle t req)
    with s keepsD [OF keeps_restart_handle] show ?thesis by blast
  next
    case (inconsistent t secs)
    with s keepsD [OF keeps_request] show ?thesis by (simp add: on_inconsistent_3pc_state_def)
  next
    case (agent q w timeout d q' t)
    then show ?thesis by (simp add: consistent_None restart_agent_result)
  next
    case (times_up q w d q')
    have "consistent (s\<lparr>actions := q @ q'\<rparr>)"
      using s times_up(2) by (fastforce simp: consistent_def lastActionEventInfo_def agent_pending_def)
    with times_up keepsD [OF keeps_restart_timeout] show ?thesis by blast
  next
    case (send q w timeout q' connects)
    from s have "consistent (s\<lparr>sending := q @ q'\<rparr>)" by (simp only: restart_frame)
    with send keepsD [OF keeps_restart_send] show ?thesis by blast
  next
    case (restart t)
    then show ?thesis by (intro consistent_None restart_init_unscheduled)
  qed
qed

text \<open>A restart that fails is never reported: the call that should report it raises before anything is done.\<close>

lemma restart_failure_raises:
  assumes "\<not> (case lastActionEventInfo s of None \<Rightarrow> False | Some e \<Rightarrow> le_type e = failed \<and> le_data e = w)"
  shows "restart_timeout_exceeded R w s = (s, Inl (TypeError ''_action_failed() takes 1 positional argument''))"
    and "True \<notin> set (take retry_limit connects) \<Longrightarrow>
      sendRestartRequest R connects w timeout s = (s, Inl (TypeError ''_action_failed() takes 1 positional argument''))"
  using assms by (simp_all add: restart_timeout_exceeded_def sendRestartRequest_def restart_action_failed_def sbind_def send_loop_0)

end
