(* ===== verification/MessageTypes.thy ===== *)
theory MessageTypes
  imports Reads PoolUpgrade Restarter
begin

text \<open>
  The message types of client operations (indy_common/types.py): the schemas as data, the checks that the
  classes add to plenum's schema validation, and the payload that is signed. Plenum's field classes are the
  constructors of a datatype, and its limits are names. Plenum's validation of a dictionary against a schema
  is a parameter, \<open>eng\<close>; the \<open>_raise\<close> methods of its base class raise a \<open>TypeError\<close>.
\<close>

datatype limit = NAME_FIELD_LIMIT | DATA_FIELD_LIMIT | NONCE_FIELD_LIMIT | ALIAS_FIELD_LIMIT | ENC_FIELD_LIMIT
  | RAW_FIELD_LIMIT | SIGNATURE_TYPE_FIELD_LIMIT | JSON_FIELD_LIMIT | DefaultLimit | At nat

text \<open>A field of a schema has a name, a class, and the arguments \<open>optional\<close> and \<open>nullable\<close>.\<close>

datatype field_class =
    ConstantField string
  | IdentifierField | VerkeyField | DestNymField | RoleField | IntegerField | TxnSeqNoField | NonNegativeNumberField
  | BooleanField | Sha256HexField | NonEmptyStringField | AnyField | AnyMapField
  | LimitedLengthStringField limit
  | AuthRuleValueField
  | JsonField limit
  | VersionField string
  | ChooseField "string list"
  | DatetimeStringField "string list"
  | IterableField field_class (min_length: "nat option") (max_length: "nat option")
  | MapField field_class field_class
  | ConstraintField
  | MessageField "(string \<times> field_class \<times> bool \<times> bool) list"

type_synonym field = "string \<times> field_class \<times> bool \<times> bool"

definition needed :: "string \<Rightarrow> field_class \<Rightarrow> field" where
  "needed n c = (n, c, False, False)"

definition optional :: "string \<Rightarrow> field_class \<Rightarrow> field" where
  "optional n c = (n, c, True, False)"

definition opt_nullable :: "string \<Rightarrow> field_class \<Rightarrow> field" where
  "opt_nullable n c = (n, c, True, True)"

lemmas field_defs = needed_def optional_def opt_nullable_def

named_theorems schema_defs \<open>the schemas of operations\<close>

section \<open>Domain ledger\<close>

definition ClientGetNymOperation :: "field list" where [schema_defs]:
  "ClientGetNymOperation =
     [needed TXN_TYPE (ConstantField ''105''), needed TARGET_NYM IdentifierField, optional TIMESTAMP IntegerField,
      optional SEQ_NO TxnSeqNoField]"

definition ClientNYMOperation :: "field list" where [schema_defs]:
  "ClientNYMOperation =
     [needed TXN_TYPE (ConstantField NYM), optional ''alias'' (LimitedLengthStringField ALIAS_FIELD_LIMIT),
      opt_nullable VERKEY VerkeyField, needed TARGET_NYM DestNymField, optional ROLE RoleField,
      optional DIDDOC_CONTENT (JsonField (At (10 * 1024))), optional NYM_VERSION IntegerField]"

definition ClientDiscloOperation :: "field list" where [schema_defs]:
  "ClientDiscloOperation =
     [needed TXN_TYPE (ConstantField ''103''), needed DATA (LimitedLengthStringField DATA_FIELD_LIMIT),
      needed ''nonce'' (LimitedLengthStringField NONCE_FIELD_LIMIT), optional TARGET_NYM IdentifierField]"

definition GetSchemaField :: "field list" where [schema_defs]:
  "GetSchemaField =
     [needed SCHEMA_NAME (LimitedLengthStringField NAME_FIELD_LIMIT), needed SCHEMA_VERSION (VersionField ''SchemaVersion''),
      optional ''origin'' IdentifierField]"

definition SchemaField :: "field list" where [schema_defs]:
  "SchemaField =
     [needed SCHEMA_NAME (LimitedLengthStringField NAME_FIELD_LIMIT), needed SCHEMA_VERSION (VersionField ''SchemaVersion''),
      needed SCHEMA_ATTR_NAMES (IterableField (LimitedLengthStringField NAME_FIELD_LIMIT) (Some 1) (Some 125))]"

definition ClaimDefField :: "field list" where [schema_defs]:
  "ClaimDefField = [needed ''primary'' AnyMapField, optional ''revocation'' AnyMapField]"

definition RevocDefValueField :: "field list" where [schema_defs]:
  "RevocDefValueField =
     [needed ISSUANCE_TYPE (ChooseField [ISSUANCE_BY_DEFAULT, ISSUANCE_ON_DEMAND]), needed ''maxCredNum'' IntegerField,
      needed ''publicKeys'' AnyMapField, needed ''tailsHash'' NonEmptyStringField, needed ''tailsLocation'' NonEmptyStringField]"

definition ClientRevocDefSubmitField :: "field list" where [schema_defs]:
  "ClientRevocDefSubmitField =
     [needed TXN_TYPE (ConstantField REVOC_REG_DEF), needed ID NonEmptyStringField,
      needed REVOC_TYPE (LimitedLengthStringField DefaultLimit), needed TAG (LimitedLengthStringField (At 256)),
      needed CRED_DEF_ID NonEmptyStringField, needed VALUE (MessageField RevocDefValueField)]"

definition RevocRegEntryValueField :: "field list" where [schema_defs]:
  "RevocRegEntryValueField =
     [optional PREV_ACCUM NonEmptyStringField, needed ACCUM NonEmptyStringField,
      optional ISSUED (IterableField IntegerField None None), optional REVOKED (IterableField IntegerField None None)]"

definition ClientRevocRegEntrySubmitField :: "field list" where [schema_defs]:
  "ClientRevocRegEntrySubmitField =
     [needed TXN_TYPE (ConstantField REVOC_REG_ENTRY), needed REVOC_REG_DEF_ID NonEmptyStringField,
      needed REVOC_TYPE (LimitedLengthStringField DefaultLimit), needed VALUE (MessageField RevocRegEntryValueField)]"

definition ClientSchemaOperation :: "field list" where [schema_defs]:
  "ClientSchemaOperation = [needed TXN_TYPE (ConstantField SCHEMA), needed DATA (MessageField SchemaField)]"

definition ClientGetSchemaOperation :: "field list" where [schema_defs]:
  "ClientGetSchemaOperation =
     [needed TXN_TYPE (ConstantField ''107''), needed SCHEMA_FROM IdentifierField, needed DATA (MessageField GetSchemaField)]"

definition ClientAttribOperation :: "field list" where [schema_defs]:
  "ClientAttribOperation =
     [needed TXN_TYPE (ConstantField ATTRIB), needed TARGET_NYM IdentifierField, optional RAW (JsonField JSON_FIELD_LIMIT),
      optional ENC (LimitedLengthStringField ENC_FIELD_LIMIT), optional HASH Sha256HexField]"

definition ClientGetAttribOperation :: "field list" where [schema_defs]:
  "ClientGetAttribOperation =
     [needed TXN_TYPE (ConstantField GET_ATTR), optional TARGET_NYM IdentifierField,
      optional RAW (LimitedLengthStringField RAW_FIELD_LIMIT), optional ENC (LimitedLengthStringField ENC_FIELD_LIMIT),
      optional HASH Sha256HexField, optional TIMESTAMP IntegerField, optional SEQ_NO TxnSeqNoField]"

definition ClientClaimDefSubmitOperation :: "field list" where [schema_defs]:
  "ClientClaimDefSubmitOperation =
     [needed TXN_TYPE (ConstantField CLAIM_DEF), needed CLAIM_DEF_SCHEMA_REF TxnSeqNoField,
      needed CLAIM_DEF_PUBLIC_KEYS (MessageField ClaimDefField),
      needed CLAIM_DEF_SIGNATURE_TYPE (LimitedLengthStringField SIGNATURE_TYPE_FIELD_LIMIT),
      needed CLAIM_DEF_TAG (LimitedLengthStringField (At 256))]"

definition ClientClaimDefGetOperation :: "field list" where [schema_defs]:
  "ClientClaimDefGetOperation =
     [needed TXN_TYPE (ConstantField ''108''), needed CLAIM_DEF_SCHEMA_REF TxnSeqNoField, needed CLAIM_DEF_FROM IdentifierField,
      needed CLAIM_DEF_SIGNATURE_TYPE (LimitedLengthStringField SIGNATURE_TYPE_FIELD_LIMIT),
      optional CLAIM_DEF_TAG (LimitedLengthStringField (At 256))]"

definition ClientGetRevocRegDefField :: "field list" where [schema_defs]:
  "ClientGetRevocRegDefField = [needed ID NonEmptyStringField, needed TXN_TYPE (ConstantField ''115'')]"

definition ClientGetRevocRegField :: "field list" where [schema_defs]:
  "ClientGetRevocRegField =
     [needed REVOC_REG_DEF_ID NonEmptyStringField, needed TIMESTAMP IntegerField, needed TXN_TYPE (ConstantField ''116'')]"

definition ClientGetRevocRegDeltaField :: "field list" where [schema_defs]:
  "ClientGetRevocRegDeltaField =
     [needed TXN_TYPE (ConstantField ''117''), needed REVOC_REG_DEF_ID NonEmptyStringField, optional FROM IntegerField,
      needed TO IntegerField]"

section \<open>Config ledger and actions\<close>

definition ClientPoolUpgradeOperation :: "field list" where [schema_defs]:
  "ClientPoolUpgradeOperation =
     [needed TXN_TYPE (ConstantField POOL_UPGRADE), needed ACTION (ChooseField [START, CANCEL]),
      needed VERSION (VersionField ''GenericVersion''), optional SCHEDULE (MapField IdentifierField NonEmptyStringField),
      needed ''sha256'' Sha256HexField, optional TIMEOUT NonNegativeNumberField,
      opt_nullable ''justification'' (LimitedLengthStringField (At 1000)),
      needed UPGRADE_NAME (LimitedLengthStringField NAME_FIELD_LIMIT), optional FORCE BooleanField,
      optional REINSTALL BooleanField, optional PACKAGE (LimitedLengthStringField NAME_FIELD_LIMIT)]"

definition ClientPoolRestartOperation :: "field list" where [schema_defs]:
  "ClientPoolRestartOperation =
     [needed TXN_TYPE (ConstantField POOL_RESTART), needed ACTION (ChooseField [START, CANCEL]),
      optional DATETIME (DatetimeStringField [''0'', []])]"

definition ClientValidatorInfoOperation :: "field list" where [schema_defs]:
  "ClientValidatorInfoOperation = [needed TXN_TYPE (ConstantField VALIDATOR_INFO)]"

definition ClientPoolConfigOperation :: "field list" where [schema_defs]:
  "ClientPoolConfigOperation =
     [needed TXN_TYPE (ConstantField POOL_CONFIG), needed WRITES BooleanField, optional FORCE BooleanField]"

definition constraint_ids :: "string list" where
  "constraint_ids = [ROLE_CONSTRAINT_ID, AND_CONSTRAINT_ID, OR_CONSTRAINT_ID, FORBIDDEN_CONSTRAINT_ID]"

definition ConstraintEntityField :: "field list" where [schema_defs]:
  "ConstraintEntityField =
     [needed CONSTRAINT_ID (ChooseField constraint_ids), needed ROLE RoleField, needed SIG_COUNT NonNegativeNumberField,
      optional NEED_TO_BE_OWNER BooleanField, optional OFF_LEDGER_SIGNATURE BooleanField, optional METADATA AnyMapField]"

definition ConstraintListField :: "field list" where [schema_defs]:
  "ConstraintListField =
     [needed CONSTRAINT_ID (ChooseField constraint_ids), needed AUTH_CONSTRAINTS (IterableField AnyField None None)]"

definition AuthRuleField :: "field list" where [schema_defs]:
  "AuthRuleField =
     [needed CONSTRAINT ConstraintField, needed AUTH_ACTION (ChooseField [ADD_PREFIX, EDIT_PREFIX]),
      needed AUTH_TYPE (LimitedLengthStringField NAME_FIELD_LIMIT), needed FIELD (LimitedLengthStringField NAME_FIELD_LIMIT),
      optional OLD_VALUE AuthRuleValueField, needed NEW_VALUE AuthRuleValueField]"

definition ClientAuthRuleOperation :: "field list" where [schema_defs]:
  "ClientAuthRuleOperation = needed TXN_TYPE (ConstantField AUTH_RULE) # AuthRuleField"

definition ClientAuthRulesOperation :: "field list" where [schema_defs]:
  "ClientAuthRulesOperation =
     [needed TXN_TYPE (ConstantField AUTH_RULES), needed RULES (IterableField (MessageField AuthRuleField) (Some 1) None)]"

definition ClientGetAuthRuleOperation :: "field list" where [schema_defs]:
  "ClientGetAuthRuleOperation =
     [needed TXN_TYPE (ConstantField ''121''), optional AUTH_ACTION (ChooseField [ADD_PREFIX, EDIT_PREFIX]),
      optional AUTH_TYPE (LimitedLengthStringField NAME_FIELD_LIMIT), optional FIELD (LimitedLengthStringField NAME_FIELD_LIMIT),
      optional OLD_VALUE AuthRuleValueField, optional NEW_VALUE AuthRuleValueField]"

section \<open>Rich schema objects\<close>

definition rich_schema_objects_schema :: "string \<Rightarrow> string \<Rightarrow> field list" where [schema_defs]:
  "rich_schema_objects_schema txn_type rs_type =
     [needed TXN_TYPE (ConstantField txn_type), needed RS_ID NonEmptyStringField, needed RS_TYPE (ConstantField rs_type),
      needed RS_NAME (LimitedLengthStringField NAME_FIELD_LIMIT), needed RS_VERSION (VersionField ''SchemaVersion''),
      needed RS_CONTENT NonEmptyStringField, optional ''ver'' (LimitedLengthStringField DefaultLimit)]"

definition ClientGetRichSchemaObjectByIdOperation :: "field list" where [schema_defs]:
  "ClientGetRichSchemaObjectByIdOperation = [needed TXN_TYPE (ConstantField ''300''), needed RS_ID NonEmptyStringField]"

definition ClientGetRichSchemaObjectByMetadataOperation :: "field list" where [schema_defs]:
  "ClientGetRichSchemaObjectByMetadataOperation =
     [needed TXN_TYPE (ConstantField ''301''), needed RS_TYPE NonEmptyStringField,
      needed RS_NAME (LimitedLengthStringField NAME_FIELD_LIMIT), needed RS_VERSION (VersionField ''SchemaVersion'')]"

text \<open>The schema of each type of operation that the package adds to plenum's.\<close>

definition specific_operations :: "(string \<times> field list) list" where
  "specific_operations =
     [(NYM, ClientNYMOperation), (SCHEMA, ClientSchemaOperation), (ATTRIB, ClientAttribOperation),
      (GET_ATTR, ClientGetAttribOperation), (CLAIM_DEF, ClientClaimDefSubmitOperation), (''108'', ClientClaimDefGetOperation),
      (''103'', ClientDiscloOperation), (''105'', ClientGetNymOperation), (''107'', ClientGetSchemaOperation),
      (POOL_UPGRADE, ClientPoolUpgradeOperation), (POOL_CONFIG, ClientPoolConfigOperation),
      (AUTH_RULE, ClientAuthRuleOperation), (AUTH_RULES, ClientAuthRulesOperation), (''121'', ClientGetAuthRuleOperation),
      (POOL_RESTART, ClientPoolRestartOperation), (VALIDATOR_INFO, ClientValidatorInfoOperation),
      (REVOC_REG_DEF, ClientRevocDefSubmitField), (REVOC_REG_ENTRY, ClientRevocRegEntrySubmitField),
      (''115'', ClientGetRevocRegDefField), (''116'', ClientGetRevocRegField), (''117'', ClientGetRevocRegDeltaField),
      (JSON_LD_CONTEXT, rich_schema_objects_schema JSON_LD_CONTEXT ''ctx''),
      (RICH_SCHEMA, rich_schema_objects_schema RICH_SCHEMA RS_SCHEMA_TYPE_VALUE),
      (RICH_SCHEMA_ENCODING, rich_schema_objects_schema RICH_SCHEMA_ENCODING RS_ENCODING_TYPE_VALUE),
      (RICH_SCHEMA_MAPPING, rich_schema_objects_schema RICH_SCHEMA_MAPPING RS_MAPPING_TYPE_VALUE),
      (RICH_SCHEMA_CRED_DEF, rich_schema_objects_schema RICH_SCHEMA_CRED_DEF ''cdf''),
      (RICH_SCHEMA_PRES_DEF, rich_schema_objects_schema RICH_SCHEMA_PRES_DEF ''pdf''),
      (''300'', ClientGetRichSchemaObjectByIdOperation), (''301'', ClientGetRichSchemaObjectByMetadataOperation)]"

section \<open>Checks beyond the schema\<close>

definition validate_field_set :: "dict \<Rightarrow> unit res" where
  "validate_field_set msg =
     (let fields_n = length (filter (\<lambda>f. dict_in f msg) [RAW, ENC, HASH])
      in if fields_n = 0 then Inl (TypeError ''missed fields - raw, enc, hash'')
         else if fields_n > 1 then Inl (TypeError ''only one field from raw, enc, hash is expected'')
         else Inr ())"

text \<open>\<open>':' in ha\<close> and \<open>ha.split(':')\<close> into two names; both raise for a value that is not a text.\<close>

definition validate_ha :: "(string \<Rightarrow> bool) \<Rightarrow> (string \<Rightarrow> bool) \<Rightarrow> string \<Rightarrow> unit res" where
  "validate_ha ip_valid port_valid ha =
     (if CHR '':'' \<notin> set ha then Inl (TypeError ''invalid endpoint format ip_address:port'')
      else case py_split ha '':'' of
             [ip, port] \<Rightarrow>
               if \<not> ip_valid ip then Inl (TypeError ''invalid endpoint address'')
               else if \<not> port_valid port then Inl (TypeError ''invalid endpoint port'')
               else Inr ()
           | _ \<Rightarrow> Inl (ValueError ''too many values to unpack''))"

fun validate_endpoint_ha_field :: "(string \<Rightarrow> bool) \<Rightarrow> (string \<Rightarrow> bool) \<Rightarrow> pyval \<Rightarrow> unit res" where
  "validate_endpoint_ha_field ip_valid port_valid PyNone = Inr ()"
| "validate_endpoint_ha_field ip_valid port_valid (PyDict endpoint) =
     (case dict_get endpoint ''ha'' of
        PyNone \<Rightarrow> Inr ()
      | PyStr ha \<Rightarrow> validate_ha ip_valid port_valid ha
      | PyList xs \<Rightarrow>
          if PyStr '':'' \<notin> set xs then Inl (TypeError ''invalid endpoint format ip_address:port'')
          else Inl (AttributeError ''split'')
      | PyDict d \<Rightarrow>
          if \<not> dict_in '':'' d then Inl (TypeError ''invalid endpoint format ip_address:port'')
          else Inl (AttributeError ''split'')
      | _ \<Rightarrow> Inl (TypeError ''not iterable''))"
| "validate_endpoint_ha_field ip_valid port_valid v = Inl (TypeError ''should be a dict'')"

definition validate_raw_field :: "(pyval \<Rightarrow> pyval res) \<Rightarrow> (string \<Rightarrow> bool) \<Rightarrow> (string \<Rightarrow> bool) \<Rightarrow> pyval \<Rightarrow> unit res" where
  "validate_raw_field loads ip_valid port_valid raw_field =
     rbind (loads raw_field) (\<lambda>raw.
       case raw of
         PyDict d \<Rightarrow>
           if length d \<noteq> 1 then Inl (TypeError ''should contain one attribute'')
           else (case map_of d ''endpoint'' of
                   None \<Rightarrow> Inr ()
                 | Some endpoint \<Rightarrow> validate_endpoint_ha_field ip_valid port_valid endpoint)
       | _ \<Rightarrow> Inl (TypeError ''should be a dict''))"

definition attrib_validate_message ::
  "(pyval \<Rightarrow> pyval res) \<Rightarrow> (string \<Rightarrow> bool) \<Rightarrow> (string \<Rightarrow> bool) \<Rightarrow> dict \<Rightarrow> unit res" where
  "attrib_validate_message loads ip_valid port_valid msg =
     rbind (validate_field_set msg) (\<lambda>_.
       case map_of msg RAW of
         None \<Rightarrow> Inr ()
       | Some raw \<Rightarrow> validate_raw_field loads ip_valid port_valid raw)"

definition get_attrib_validate_message :: "dict \<Rightarrow> unit res" where
  "get_attrib_validate_message msg = validate_field_set msg"

text \<open>\<open>k in v\<close> for a text \<open>k\<close>\<close>

fun py_in :: "string \<Rightarrow> pyval \<Rightarrow> bool res" where
  "py_in k (PyDict d) = Inr (dict_in k d)"
| "py_in k (PyList xs) = Inr (PyStr k \<in> set xs)"
| "py_in k (PyStr s) = Inr (contains_text s k)"
| "py_in k v = Inl (TypeError ''not iterable'')"

text \<open>
  The field class for constraints returns an error text or nothing; the list class raises. They call each
  other along the nesting of the value. The elements of an object or a text are texts, which raise in any case.
\<close>

definition iterate :: "pyval \<Rightarrow> pyval list res" where
  "iterate v =
     (case v of
        PyList xs \<Rightarrow> Inr xs
      | PyDict d \<Rightarrow> Inr (map (\<lambda>(k, _). PyStr k) d)
      | PyStr s \<Rightarrow> Inr (map (\<lambda>c. PyStr [c]) s)
      | _ \<Rightarrow> Inl (TypeError ''not iterable''))"

function (sequential) constraint_validation :: "(field list \<Rightarrow> pyval \<Rightarrow> unit res) \<Rightarrow> pyval \<Rightarrow> string option res"
  and constraint_list_validation :: "(field list \<Rightarrow> pyval \<Rightarrow> unit res) \<Rightarrow> pyval list \<Rightarrow> unit res" where
  "constraint_validation eng val =
     (if \<not> truthy val
      then Inr (Some (''Fields '' @ AUTH_CONSTRAINTS @ '' and '' @ CONSTRAINT @ '' are required and should not be an empty list.''))
      else rbind (py_in CONSTRAINT_ID val) (\<lambda>present.
        if \<not> present then Inr (Some (''Field '' @ CONSTRAINT_ID @ '' is required''))
        else rbind (py_index val CONSTRAINT_ID) (\<lambda>cid.
          if cid = PyStr FORBIDDEN_CONSTRAINT_ID then Inr None
          else if cid = PyStr ROLE_CONSTRAINT_ID then rbind (eng ConstraintEntityField val) (\<lambda>_. Inr None)
          else rbind (eng ConstraintListField val) (\<lambda>_.
            case val of
              PyDict d \<Rightarrow>
                (let constraints = dict_get d AUTH_CONSTRAINTS
                 in if \<not> truthy constraints
                    then Inl (TypeError (''Fields '' @ AUTH_CONSTRAINTS @ '' should not be an empty list.''))
                    else case map_of d AUTH_CONSTRAINTS of
                           Some (PyList xs) \<Rightarrow> rbind (constraint_list_validation eng xs) (\<lambda>_. Inr None)
                         | _ \<Rightarrow> rbind (iterate constraints) (\<lambda>xs.
                             if xs = [] then Inr None else Inl (TypeError ''string indices'')))
            | _ \<Rightarrow> Inl (AttributeError ''get'')))))"
| "constraint_list_validation eng [] = Inr ()"
| "constraint_list_validation eng (c # cs) =
     rbind (constraint_validation eng c) (\<lambda>error_msg.
       case error_msg of
         Some msg \<Rightarrow> if msg \<noteq> [] then Inl (TypeError msg) else constraint_list_validation eng cs
       | None \<Rightarrow> constraint_list_validation eng cs)"
  by pat_completeness auto
termination
  by (relation "measure (\<lambda>x. case x of Inl (e, v) \<Rightarrow> 2 * size v | Inr (e, vs) \<Rightarrow> Suc (2 * size_list size vs))")
    (auto dest!: size_map_of)

declare constraint_validation.simps [simp del]

section \<open>What is signed\<close>

text \<open>
  For an attribute the payload has the hash in place of the data. \<open>pick\<close> is the choice (\<open>pop\<close>) of an element of a
  set; \<open>payload\<close> is plenum's signing state.
\<close>

definition signingPayloadState ::
  "(string \<Rightarrow> string) \<Rightarrow> (string list \<Rightarrow> string) \<Rightarrow> request \<Rightarrow> dict \<Rightarrow> dict res" where
  "signingPayloadState sha pick req payload =
     (if dict_get (operation req) TXN_TYPE = PyStr ATTRIB
      then rbind (dict_index payload ''operation'') (\<lambda>v. rbind (as_dict_value v) (\<lambda>op.
           case filter (\<lambda>k. dict_in k op) [RAW, ENC, HASH] of
             [] \<Rightarrow> Inl (KeyError ''pop from an empty set'')
           | k # ks \<Rightarrow>
               let keyName = pick (k # ks)
               in rbind (dict_index op keyName) (\<lambda>val. rbind (encodable val) (\<lambda>text.
                    Inr (dict_set payload ''operation'' (PyDict (dict_set op keyName (PyStr (sha text)))))))))
      else Inr payload)"

end
