(* ===== verification/ReadsProperties.thy ===== *)
theory ReadsProperties
  imports Reads ConfigProperties
begin

text \<open>
  Properties of the read handlers: an attribute is read back as it was written, the delta of a revocation
  registry leads from the first entry to the second, the rules that are reported are the ones in force, and
  a read of a past version sees the state of that version only.
\<close>

section \<open>Past versions\<close>

text \<open>The state root that a request reads: none if the version is unknown, the head without a version.\<close>

definition version_root :: "('r, 'b) storage \<Rightarrow> pyval \<Rightarrow> pyval \<Rightarrow> 'r option option" where
  "version_root db seq_no timestamp =
     (if truthy seq_no
      then (case timestamp_from_seq_no db seq_no of
              PyInt t \<Rightarrow> if t = 0 then None else map_option Some (get_equal_or_prev db (PyInt t))
            | _ \<Rightarrow> None)
      else if truthy timestamp then map_option Some (get_equal_or_prev db timestamp)
      else Some None)"

lemma opt_int_val_cases: "opt_int_val n = PyNone \<or> (\<exists>i. opt_int_val n = PyInt i)"
  by (cases n) simp_all

lemma lookup_version_root:
  assumes "seq_no = PyNone \<or> timestamp = PyNone"
  shows "lookup_version db path seq_no timestamp with_proof =
    Inr (case version_root db seq_no timestamp of
           None \<Rightarrow> (None, PyNone) | Some root \<Rightarrow> value_from_state db path root with_proof)"
proof -
  have "timestamp_from_seq_no db seq_no = PyNone \<or> (\<exists>t. timestamp_from_seq_no db seq_no = PyInt t)"
    using opt_int_val_cases by (auto simp: timestamp_from_seq_no_def split: option.splits)
  then show ?thesis
    using assms by (auto simp: lookup_version_def version_root_def Let_def split: option.splits if_splits)
qed

section \<open>Attributes\<close>

lemma validate_attrib_keys_type:
  assumes "validate_attrib_keys opn" "ty \<in> {RAW, ENC, HASH}" "dict_in ty opn"
  shows "get_attr_type opn = ty"
  using assms by (auto simp: validate_attrib_keys_def get_attr_type_def)

text \<open>
  C22: An attribute is read back as it was written. Once the writes of an ATTRIB transaction are in the
  state and in the attribute store, a GET_ATTR request without a version for the same DID that names the
  attribute by its key (the name of a raw attribute, the encrypted text, or the hash) is answered with the
  attribute, and with the sequence number and the time of the transaction.
\<close>

theorem attribute_read_back:
  assumes deser: "\<And>v. deser (ser v) = v"
    and written: "attr_update_state sha ser_text ser loads dumps t = Inr ((path, b), store_write)"
    and in_state: "value_from_state db path None True = (Some b, proof)"
    and in_store: "\<And>k v. store_write = Some (k, v) \<Longrightarrow> attribute_store_get db (PyStr k) = Inr v"
    and parsed: "parse_attr_txn loads dumps (get_payload_data t) = Inr (ty, key, val)"
    and req: "validate_attrib_keys (operation req)" "dict_index (operation req) ty = Inr key"
      "dict_index (operation req) TARGET_NYM = dict_index (get_payload_data t) TARGET_NYM"
      "dict_get (operation req) VERSION_ID = PyNone" "dict_get (operation req) VERSION_TIME = PyNone"
  shows "get_attribute_result sha deser db req =
    Inr (make_result (if ty = HASH then key else val) (opt_int_val (get_seq_no t)) (opt_int_val (get_txn_time t)) proof [])"
proof -
  have ty: "ty \<in> {RAW, ENC, HASH}"
    using parsed by (auto simp: parse_attr_txn_def extract_attr_typed_value_def ALL_ATR_KEYS_def rbind_Inr_iff
        split: list.splits if_splits)
  from req(2) have "dict_in ty (operation req)" by (auto simp: dict_index_def dict_in_def split: option.splits)
  then have type: "get_attr_type (operation req) = ty" by (rule validate_attrib_keys_type [OF req(1) ty])
  obtain nym name where w: "dict_index (get_payload_data t) TARGET_NYM = Inr nym"
      "(if ty = HASH then Inr (py_str key) else encodable key) = Inr name"
      "path = make_state_path_for_attr sha nym name (ty = HASH)"
      "b = encode_state_value ser (PyStr (if truthy val then hash_of sha ser_text val else []))
             (opt_int_val (get_seq_no t)) (opt_int_val (get_txn_time t))"
      "store_write = (if ty \<noteq> HASH then Some (if truthy val then hash_of sha ser_text val else [], val) else None)"
    using written parsed by (auto simp: attr_update_state_def prepare_attr_for_state_def rbind_Inr_iff Let_def split: if_splits)
  have found: "lookup_version db path PyNone PyNone True = Inr (Some b, proof)"
    using in_state by (simp add: lookup_version_root version_root_def)
  show ?thesis
    using w found req in_store
    by (auto simp: get_attribute_result_def one_version_def type decode_state_value_def encode_state_value_def deser
        dict_get_def get_value_from_attribute_store_def on_KeyError_def Let_def)
qed


text \<open>A storage whose states have times for roots, with the time of the head and the states as functions.\<close>

definition ex_storage :: "int \<Rightarrow> (int \<Rightarrow> string \<Rightarrow> pyval option) \<Rightarrow> (pyval \<Rightarrow> pyval res) \<Rightarrow> (int, pyval) storage" where
  "ex_storage now st store =
     \<lparr>get_equal_or_prev = (\<lambda>t. case t of PyInt i \<Rightarrow> Some i | _ \<Rightarrow> None),
      value_from_state = (\<lambda>path root with_proof. (st (case root of None \<Rightarrow> now | Some r \<Rightarrow> r) path, PyNone)),
      get_for_root_hash = (\<lambda>root key. case (root, key) of (Some r, PyStr k) \<Rightarrow> st r k | _ \<Rightarrow> None),
      lookup = (\<lambda>path. Inl (KeyError path)), getReplyFromLedger = (\<lambda>n. None), attribute_store_get = store\<rparr>"

definition ex_get_attr :: dict where
  "ex_get_attr = [(TXN_TYPE, PyStr GET_ATTR), (TARGET_NYM, PyStr ''O1''), (RAW, PyStr ''n'')]"

theorem attribute_read_back_witness:
  "\<exists>path b k v. attr_update_state rev py_str id ex_loads (\<lambda>v. ''dump'') (ex_attr_txn ''{n:1}'') = Inr ((path, b), Some (k, v))
    \<and> get_attribute_result rev id (ex_storage 5 (\<lambda>r. [path \<mapsto> b]) (\<lambda>h. Inr v)) (ex_nym_request ''T1'' ex_get_attr)
      = Inr (make_result (PyStr ''dump'') (PyInt 30) (PyInt 1600000000) PyNone [])"
proof -
  have parsed: "parse_attr_txn ex_loads (\<lambda>v. ''dump'') (get_payload_data (ex_attr_txn ''{n:1}'')) = Inr (RAW, PyStr ''n'', PyStr ''dump'')"
    by (simp add: ex_attr_txn_parts ex_attr_parts parse_attr_txn_def ex_loads_def)
  obtain path b where u: "attr_update_state rev py_str id ex_loads (\<lambda>v. ''dump'') (ex_attr_txn ''{n:1}'')
      = Inr ((path, b), Some (rev ''dump'', PyStr ''dump''))"
    using parsed by (simp add: attr_update_state_def prepare_attr_for_state_def ex_attr_txn_parts ex_attr_parts Let_def py_assert_def)
  let ?db = "ex_storage 5 (\<lambda>r. [path \<mapsto> b]) (\<lambda>h. Inr (PyStr ''dump''))"
  have "get_attribute_result rev id ?db (ex_nym_request ''T1'' ex_get_attr) =
      Inr (make_result (if RAW = HASH then PyStr ''n'' else PyStr ''dump'') (opt_int_val (get_seq_no (ex_attr_txn ''{n:1}'')))
        (opt_int_val (get_txn_time (ex_attr_txn ''{n:1}''))) PyNone [])"
    by (rule attribute_read_back [OF _ u _ _ parsed])
      (auto simp: ex_storage_def ex_get_attr_def ex_request_parts validate_attrib_keys_def dict_in_def dict_index_def dict_get_def
        ex_attr_txn_parts ex_attr_def)
  with u show ?thesis by (auto simp: ex_attr_txn_parts)
qed

section \<open>Revocation registry deltas\<close>

lemma lists_of_reply:
  "lists_of (PyDict (pre @ [(VALUE, PyDict ((ACCUM_TO, a) # (ISSUED, indices_val is) # (REVOKED, indices_val rs) # m))] @ post))
     = Inr (is, rs)"
  if "VALUE \<notin> set (map fst pre)"
  using that map_of_eq_None_iff [of pre VALUE]
  by (auto simp: lists_of_def dict_index_def get_indices_def dict_get_default_def map_add_def split: option.splits)

lemma delta_lists_exact:
  assumes "\<And>S. finite S \<Longrightarrow> set (listing S) = S" "delta_lists listing strat to_lists (Some from_lists) = (is, rs)"
  shows "set is \<inter> set rs = {}"
    "(case strat of
        RevokedStrategy \<Rightarrow> set (snd to_lists) = (set (snd from_lists) - set is) \<union> set rs
      | IssuedStrategy \<Rightarrow> set (fst to_lists) = (set (fst from_lists) - set rs) \<union> set is)"
proof -
  have "set is = fst (strategy_get_delta strat to_lists (Some from_lists))" "set rs = snd (strategy_get_delta strat to_lists (Some from_lists))"
    using assms(1) [of "fst (strategy_get_delta strat to_lists (Some from_lists))"]
      assms(1) [of "snd (strategy_get_delta strat to_lists (Some from_lists))"] assms(2)
    by (cases strat; simp add: delta_lists_def)+
  then show "set is \<inter> set rs = {}"
    "(case strat of
        RevokedStrategy \<Rightarrow> set (snd to_lists) = (set (snd from_lists) - set is) \<union> set rs
      | IssuedStrategy \<Rightarrow> set (fst to_lists) = (set (fst from_lists) - set rs) \<union> set is)"
    by (cases strat; auto)+
qed

text \<open>
  C23: The reply to a GET_REVOC_REG_DELTA request with both times leads from the one entry to the other. If
  the registry has an entry and an accumulator at the state of each time, the request is answered, no index
  is both issued and revoked in the reply, and applying the reply to the indices that the strategy keeps in
  the first entry gives exactly the ones it keeps in the second.
\<close>

theorem revocation_delta_reply:
  assumes listing: "\<And>S. finite S \<Longrightarrow> set (listing S) = S"
    and ts_from: "truthy (dict_get (operation req) FROM)"
    and entry_to: "get_reg_entry_by_timestamp deser db (dict_get (operation req) TO)
        (make_state_path_for_revoc_reg_entry rid) = Inr e_to" "lists_of (sv_value e_to) = Inr to_lists"
    and accum_to: "get_reg_entry_accum_by_timestamp deser db (dict_get (operation req) TO)
        (make_state_path_for_revoc_reg_entry_accum rid) = Inr a_to" "truthy (sv_value a_to)"
    and entry_from: "get_reg_entry_by_timestamp deser db (dict_get (operation req) FROM)
        (make_state_path_for_revoc_reg_entry rid) = Inr e_from" "lists_of (sv_value e_from) = Inr from_lists"
    and accum_from: "get_reg_entry_accum_by_timestamp deser db (dict_get (operation req) FROM)
        (make_state_path_for_revoc_reg_entry_accum rid) = Inr a_from" "truthy (sv_value a_from)"
    and def_at: "get_for_root_hash db (sv_root_hash e_to) rid = Some b" "decode_state_value deser b = Inr (PyDict rdef, n, u)"
      "strategy_of (PyDict rdef) = Inr strat"
    and rid: "dict_get (operation req) REVOC_REG_DEF_ID = rid"
  shows "\<exists>r is rs. get_revoc_reg_delta_result deser listing db req = Inr r \<and> lists_of (r_data r) = Inr (is, rs)
    \<and> set is \<inter> set rs = {}
    \<and> (case strat of
         RevokedStrategy \<Rightarrow> set (snd to_lists) = (set (snd from_lists) - set is) \<union> set rs
       | IssuedStrategy \<Rightarrow> set (fst to_lists) = (set (fst from_lists) - set rs) \<union> set is)"
proof -
  obtain v ity where v: "py_index (PyDict rdef) VALUE = Inr v" "py_index v ISSUANCE_TYPE = Inr ity" "get_revocation_strategy ity = Some strat"
    using def_at(3) by (auto simp: strategy_of_def rbind_Inr_iff split: option.splits)
  have truthy: "truthy (sv_value e_to)" "truthy (sv_value e_from)"
    using entry_to(2) entry_from(2) by (auto simp: lists_of_def rbind_Inr_iff dict_index_def elim!: py_index.elims)
  obtain "is" rs where d: "delta_lists listing strat to_lists (Some from_lists) = (is, rs)" by force
  obtain reply where reply: "delta_reply deser listing db req e_to a_to b = Inr (reply, e_from)" "lists_of (PyDict reply) = Inr (is, rs)"
  proof -
    let ?reply = "[(REVOC_REG_DEF_ID, rid), (REVOC_TYPE, dict_get rdef REVOC_TYPE)]
      @ [(VALUE, PyDict ((ACCUM_TO, sv_value a_to) # (ISSUED, indices_val is) # (REVOKED, indices_val rs) # [(ACCUM_FROM, sv_value a_from)]))]
      @ [(STATE_PROOF_FROM, sv_proof a_from)]"
    have "delta_reply deser listing db req e_to a_to b = Inr (?reply, e_from)"
      using v truthy d by (simp add: delta_reply_def Let_def rid def_at entry_to(2) ts_from entry_from accum_from)
    moreover have "lists_of (PyDict ?reply) = Inr (is, rs)" by (rule lists_of_reply) simp
    ultimately show ?thesis by (rule that)
  qed
  then have "get_revoc_reg_delta_result deser listing db req =
      Inr (make_result (PyDict reply) (sv_seq_no a_to) (sv_update_time a_to) (sv_proof a_to) [])"
    using truthy by (simp add: get_revoc_reg_delta_result_def Let_def rid entry_to accum_to def_at)
  with reply(2) delta_lists_exact [OF listing d] show ?thesis by (fastforce simp: make_result_def)
qed

definition ex_registry :: "int \<Rightarrow> string \<Rightarrow> pyval option" where
  "ex_registry time =
     [make_state_path_for_revoc_reg_entry (PyStr ''R'') \<mapsto> encode_state_value id
        (PyDict [(VALUE, PyDict [(ACCUM, PyStr ''a''), (REVOKED, indices_val (if time \<le> 10 then [1, 2] else [2, 5, 7]))])]) (PyInt time) (PyInt time),
      make_state_path_for_revoc_reg_entry_accum (PyStr ''R'') \<mapsto> encode_state_value id
        (PyDict [(VALUE, PyDict [(ACCUM, PyStr ''a'')])]) (PyInt time) (PyInt time),
      ''R'' \<mapsto> encode_state_value id (PyDict [(VALUE, PyDict [(ISSUANCE_TYPE, PyStr ISSUANCE_BY_DEFAULT)])]) (PyInt 1) (PyInt 1)]"

definition ex_entry_at :: "int \<Rightarrow> int StateValue" where
  "ex_entry_at time = \<lparr>sv_root_hash = Some time,
     sv_value = PyDict [(VALUE, PyDict [(ACCUM, PyStr ''a''), (REVOKED, indices_val (if time \<le> 10 then [1, 2] else [2, 5, 7]))])],
     sv_seq_no = PyInt time, sv_update_time = PyInt time, sv_proof = PyNone\<rparr>"

definition ex_accum_at :: "int \<Rightarrow> int StateValue" where
  "ex_accum_at time = \<lparr>sv_root_hash = Some time, sv_value = PyDict [(VALUE, PyDict [(ACCUM, PyStr ''a'')])],
     sv_seq_no = PyInt time, sv_update_time = PyInt time, sv_proof = PyNone\<rparr>"

definition ex_delta_request :: request where
  "ex_delta_request = ex_nym_request ''T1'' [(REVOC_REG_DEF_ID, PyStr ''R''), (FROM, PyInt 10), (TO, PyInt 20)]"

lemma ex_delta_operation:
  "dict_get (operation ex_delta_request) FROM = PyInt 10" "dict_get (operation ex_delta_request) TO = PyInt 20"
  "dict_get (operation ex_delta_request) REVOC_REG_DEF_ID = PyStr ''R''"
  by (simp_all add: ex_delta_request_def ex_request_parts dict_get_def)

abbreviation ex_registry_db :: "(int, pyval) storage" where
  "ex_registry_db \<equiv> ex_storage 20 ex_registry (\<lambda>k. Inl (KeyError []))"

lemma ex_registry_entries:
  "get_reg_entry_by_timestamp id ex_registry_db (PyInt time) (make_state_path_for_revoc_reg_entry (PyStr ''R'')) =
     Inr (ex_entry_at time)"
  "get_reg_entry_accum_by_timestamp id ex_registry_db (PyInt time) (make_state_path_for_revoc_reg_entry_accum (PyStr ''R'')) =
     Inr (ex_accum_at time)"
  by (simp_all add: get_reg_entry_accum_by_timestamp_def get_reg_entry_by_timestamp_def ex_storage_def ex_registry_def
      make_state_path_for_revoc_reg_entry_def make_state_path_for_revoc_reg_entry_accum_def encode_state_value_def
      decode_state_value_def dict_get_def ex_entry_at_def ex_accum_at_def)

theorem revocation_delta_reply_witness:
  "\<exists>r is rs. get_revoc_reg_delta_result id sorted_list_of_set ex_registry_db ex_delta_request = Inr r
    \<and> lists_of (r_data r) = Inr (is, rs) \<and> set is \<inter> set rs = {} \<and> set [2, 5, 7] = (set [1, 2] - set is) \<union> set rs"
proof -
  let ?rdef = "[(VALUE, PyDict [(ISSUANCE_TYPE, PyStr ISSUANCE_BY_DEFAULT)])]"
  have lists: "lists_of (PyDict [(VALUE, PyDict [(ACCUM, PyStr ''a''), (REVOKED, indices_val is)])]) = Inr ([], is)" for "is"
    by (simp add: lists_of_def dict_index_def get_indices_def dict_get_default_def)
  have rdef: "get_for_root_hash ex_registry_db (Some r) (PyStr ''R'') = Some (encode_state_value id (PyDict ?rdef) (PyInt 1) (PyInt 1))" for r
    by (simp add: ex_storage_def ex_registry_def make_state_path_for_revoc_reg_entry_def make_state_path_for_revoc_reg_entry_accum_def)
  have decoded: "decode_state_value id (encode_state_value id (PyDict ?rdef) (PyInt 1) (PyInt 1)) = Inr (PyDict ?rdef, PyInt 1, PyInt 1)"
    by (simp add: decode_state_value_def encode_state_value_def dict_get_def)
  have "\<exists>r is rs. get_revoc_reg_delta_result id sorted_list_of_set ex_registry_db ex_delta_request = Inr r
      \<and> lists_of (r_data r) = Inr (is, rs) \<and> set is \<inter> set rs = {}
      \<and> (case RevokedStrategy of
           RevokedStrategy \<Rightarrow> set (snd ([] :: int list, [2, 5, 7])) = (set (snd ([] :: int list, [1, 2])) - set is) \<union> set rs
         | IssuedStrategy \<Rightarrow> set (fst ([], [2, 5, 7] :: int list)) = (set (fst ([], [1, 2] :: int list)) - set rs) \<union> set is)"
    by (rule revocation_delta_reply [where rid = "PyStr ''R''" and b = "encode_state_value id (PyDict ?rdef) (PyInt 1) (PyInt 1)" and rdef = ?rdef
          and e_to = "ex_entry_at 20" and e_from = "ex_entry_at 10" and a_to = "ex_accum_at 20" and a_from = "ex_accum_at 10"
          and n = "PyInt 1" and u = "PyInt 1"])
      (simp_all add: ex_delta_operation ex_registry_entries lists rdef strategy_of_def dict_index_def get_revocation_strategy_def
        decoded ex_entry_at_def ex_accum_at_def)
  then show ?thesis by simp
qed

section \<open>Authorization rules\<close>

lemma all_auth_rules_each:
  assumes "all_auth_rules amap deser db keys = Inr ds" "key \<in> set keys"
  shows "\<exists>c action_obj. rule_constraint amap deser key (fst (value_from_state db (make_state_path_for_auth_rule key) None False)) = Inr c
    \<and> split_action_id key = Inr action_obj \<and> make_auth_rule_data (Some c) action_obj \<in> set ds"
  using assms by (induction keys arbitrary: ds) (auto simp: rbind_Inr_iff)

text \<open>
  C24: GET_AUTH_RULE reports the rules as they are enforced. If the request for all rules is answered, then for
  every action that has a governing rule the reply has an entry with the parts of that rule, and its constraint
  is the one that the strategy of the config ledger applies to the action on the same state.
\<close>

theorem reported_rules_enforced:
  assumes "get_all_auth_rules auth_map deser db = Inr ds" "action_safe a" "governing_rule default_rules a = Some (rule, c\<^sub>0)"
  shows "\<exists>c action_obj. make_auth_rule_data (Some c) action_obj \<in> set ds \<and> split_action_id (get_action_id rule) = Inr action_obj
    \<and> config_ledger_get_auth_constraint auth_map (\<lambda>path. fst (value_from_state db path None False)) deser (get_action_id a) = Inr (Some c)"
proof -
  have key: "map_of auth_map (get_action_id rule) = Some c\<^sub>0" by (rule lookup_default [OF assms(3)])
  then have "get_action_id rule \<in> set (map fst auth_map)" by (metis map_of_eq_None_iff option.distinct(1) set_map)
  from all_auth_rules_each [OF assms(1) [unfolded get_all_auth_rules_def] this] obtain c action_obj where
    r: "rule_constraint auth_map deser (get_action_id rule)
          (fst (value_from_state db (make_state_path_for_auth_rule (get_action_id rule)) None False)) = Inr c"
      "split_action_id (get_action_id rule) = Inr action_obj" "make_auth_rule_data (Some c) action_obj \<in> set ds" by blast
  then have "config_in_force (\<lambda>path. fst (value_from_state db path None False)) deser a = Inr (Some c)"
    using key assms(3) by (auto simp: config_in_force_def rule_constraint_def split: option.splits)
  with r show ?thesis by (auto simp: config_strategy.strategy_in_force [OF assms(2)])
qed

lemma all_auth_rules_defaults:
  assumes "\<And>key. key \<in> set keys \<Longrightarrow> map_of amap key \<noteq> None \<and> (\<exists>p. split_action_id key = Inr p)"
    "\<And>path. value_from_state db path None False = (None, PyNone)"
  shows "\<exists>ds. all_auth_rules amap deser db keys = Inr ds"
  using assms
proof (induction keys)
  case (Cons key keys)
  then obtain ds c p where "all_auth_rules amap deser db keys = Inr ds" "map_of amap key = Some c" "split_action_id key = Inr p" by force
  then show ?case by (simp add: rule_constraint_def Cons.prems(2))
qed simp

theorem reported_rules_enforced_witness:
  "\<exists>ds c action_obj. get_all_auth_rules auth_map id (ex_storage 5 (\<lambda>r p. None) Inr) = Inr ds
    \<and> make_auth_rule_data (Some c) action_obj \<in> set ds \<and> split_action_id (get_action_id key_rotation) = Inr action_obj
    \<and> config_ledger_get_auth_constraint auth_map (\<lambda>path. None) id (get_action_id key_rotation) = Inr (Some c)"
proof -
  let ?db = "ex_storage 5 (\<lambda>r p. None) Inr"
  have empty: "value_from_state ?db path None False = (None, PyNone)" for path by (simp add: ex_storage_def)
  have "\<exists>p. split_action_id key = Inr p" if "key \<in> set (map fst auth_map)" for key
    using that default_rules_safe split_get_action_id unfolding auth_map_eq rule_ids_def by fastforce
  then obtain ds where ds: "get_all_auth_rules auth_map id ?db = Inr ds"
    using all_auth_rules_defaults [of "map fst auth_map" auth_map ?db id] empty
    by (auto simp: get_all_auth_rules_def map_of_eq_None_iff)
  have safe: "action_safe key_rotation" unfolding key_rotation_def by code_simp
  have "governing_rule default_rules key_rotation = Some (key_rotation, owner_constraint)" by (simp add: rule_eval)
  from reported_rules_enforced [OF ds safe this] ds show ?thesis by (auto simp: empty)
qed

end
