(* ===== verification/MessageProperties.thy ===== *)
theory MessageProperties
  imports MessageTypes ReadsProperties
begin

text \<open>
  What the message types guarantee to the handlers. The laws of plenum's schema validation that the proofs
  use are a predicate on the parameters: an accepted value is a dictionary that has the needed fields, each
  field is accepted by its class, and the classes for texts, integers and lists accept only such values.
\<close>

definition accepted_fields :: "(field_class \<Rightarrow> pyval \<Rightarrow> bool) \<Rightarrow> field list \<Rightarrow> dict \<Rightarrow> bool" where
  "accepted_fields accepts sch d \<longleftrightarrow>
     list_all (\<lambda>(n, c, opt, nul). case map_of d n of None \<Rightarrow> opt | Some x \<Rightarrow> (nul \<and> x = PyNone) \<or> accepts c x) sch"

definition field_laws :: "(field list \<Rightarrow> pyval \<Rightarrow> unit res) \<Rightarrow> (field_class \<Rightarrow> pyval \<Rightarrow> bool) \<Rightarrow> bool" where
  "field_laws eng accepts \<longleftrightarrow>
     (\<forall>sch v. eng sch v = Inr () \<longrightarrow> (\<exists>d. v = PyDict d \<and> accepted_fields accepts sch d))
     \<and> (\<forall>sch v. accepts (MessageField sch) v \<longrightarrow> eng sch v = Inr ())
     \<and> (\<forall>v. accepts NonEmptyStringField v \<longrightarrow> (\<exists>s. s \<noteq> [] \<and> v = PyStr s))
     \<and> (\<forall>v. accepts IntegerField v \<longrightarrow> (\<exists>i. v = PyInt i))
     \<and> (\<forall>c lo hi v. accepts (IterableField c lo hi) v \<longrightarrow> (\<exists>xs. v = PyList xs \<and> list_all (accepts c) xs))"

lemma field_lawsD:
  assumes "field_laws eng accepts"
  shows "eng sch v = Inr () \<Longrightarrow> \<exists>d. v = PyDict d \<and> accepted_fields accepts sch d"
    and "accepts (MessageField sch) v \<Longrightarrow> eng sch v = Inr ()"
    and "accepts IntegerField v \<Longrightarrow> \<exists>i. v = PyInt i"
    and "accepts (IterableField c lo hi) v \<Longrightarrow> \<exists>xs. v = PyList xs \<and> list_all (accepts c) xs"
  using assms unfolding field_laws_def by blast+

lemma dict_set_not_Nil [simp]: "dict_set d k v \<noteq> []"
  by (simp add: dict_set_def update_nonempty)

section \<open>Attributes\<close>

lemma validate_field_set_iff: "validate_field_set msg = Inr () \<longleftrightarrow> validate_attrib_keys msg"
  by (auto simp: validate_field_set_def validate_attrib_keys_def Let_def)

lemma validate_raw_single:
  assumes "validate_raw_field loads ip_valid port_valid raw = Inr ()"
  shows "\<exists>k v. loads raw = Inr (PyDict [(k, v)])"
proof -
  obtain v where v: "loads raw = Inr v" using assms by (auto simp: validate_raw_field_def rbind_Inr_iff)
  with assms obtain d where "v = PyDict d" "length d = 1"
    by (cases v) (auto simp: validate_raw_field_def split: if_splits)
  with v show ?thesis by (auto simp: length_Suc_conv)
qed

lemma attr_field_of_parsed:
  assumes "validate_attrib_keys opn" "dict_in ty opn" "ty \<in> {RAW, ENC, HASH}"
  shows "attr_field opn = Some (ty, dict_get opn ty)" "extract_attr_typed_value opn = Inr (ty, dict_get opn ty)"
proof -
  have "\<exists>k. filter (\<lambda>k. dict_in k opn) [RAW, ENC, HASH] = [k]"
    using assms(1) by (simp only: validate_attrib_keys_def length_Suc_conv One_nat_def) auto
  moreover have "ty \<in> set (filter (\<lambda>k. dict_in k opn) [RAW, ENC, HASH])" using assms(2,3) by auto
  ultimately have f: "filter (\<lambda>k. dict_in k opn) [RAW, ENC, HASH] = [ty]" by fastforce
  then show "attr_field opn = Some (ty, dict_get opn ty)" unfolding attr_field_def by (simp only: list.case)
  from f assms(2) show "extract_attr_typed_value opn = Inr (ty, dict_get opn ty)"
    unfolding extract_attr_typed_value_def ALL_ATR_KEYS_def
    by (simp only: list.case) (auto simp: dict_index_def dict_in_def dict_get_def)
qed

text \<open>The record that validation reads is the one that the update writes.\<close>

lemma get_attr_local:
  assumes "gfs (make_state_path_for_attr sha did name (ty = HASH)) = gfs' (make_state_path_for_attr sha did name (ty = HASH))"
    "(if ty = HASH then Inr (py_str key) else encodable key) = Inr name"
  shows "get_attr sha gfs attr_get did key ty = get_attr sha gfs' attr_get did key ty"
  using assms by (simp add: get_attr_def)

lemma accepted_attribute_key:
  assumes "attrib_validate_message loads ip_valid port_valid opn = Inr ()" "attr_field opn = Some (ty, v)"
    "parse_attr_txn loads dumps opn = Inr (ty', key, value)"
  shows "ty' = ty \<and> (if ty = RAW then rbind (loads v) first_key else Inr v) = Inr key"
proof -
  have keys: "validate_attrib_keys opn"
    using assms(1) by (auto simp: attrib_validate_message_def rbind_Inr_iff validate_field_set_iff)
  have ty: "ty \<in> {RAW, ENC, HASH}" "dict_in ty opn" "v = dict_get opn ty"
    using assms(2) by (auto simp: attr_field_def split: list.splits if_splits)
  note x = attr_field_of_parsed(2) [OF keys ty(2,1)]
  show ?thesis
  proof (cases "ty = RAW")
    case True
    then have "validate_raw_field loads ip_valid port_valid v = Inr ()"
      using assms(1) ty by (auto simp: attrib_validate_message_def rbind_Inr_iff dict_in_def dict_get_def)
    then obtain k a where "loads v = Inr (PyDict [(k, a)])" using validate_raw_single by blast
    with True assms(3) x ty(3) show ?thesis by (auto simp: parse_attr_txn_def)
  qed (use assms(3) x ty(3) in \<open>auto simp: parse_attr_txn_def rbind_Inr_iff split: if_splits\<close>)
qed

text \<open>
  An ATTRIB operation that passes its message type is validated against the record it writes. It has one
  of the three fields, and a raw attribute is an object with one key, so that static validation passes; and
  the verdict of dynamic validation depends on the state only at the path that the update writes.
\<close>

theorem attribute_checked_at_own_record:
  assumes accepted: "attrib_validate_message loads ip_valid port_valid (operation req) = Inr ()"
    and payload: "get_payload_data t = operation req"
    and written: "attr_update_state sha ser_text ser loads dumps t = Inr ((path, b), store_write)"
    and same: "gfs path = gfs' path"
  shows "attr_static_validation loads req = Inr ()
    \<and> attr_dynamic_validation sha loads gfs attr_get kv rlp s wrv req = attr_dynamic_validation sha loads gfs' attr_get kv rlp s wrv req"
proof -
  have keys: "validate_attrib_keys (operation req)"
    using accepted by (auto simp: attrib_validate_message_def rbind_Inr_iff validate_field_set_iff)
  have static: "attr_static_validation loads req = Inr ()"
  proof (cases "dict_in RAW (operation req)")
    case True
    then have "validate_raw_field loads ip_valid port_valid (dict_get (operation req) RAW) = Inr ()"
      using accepted by (auto simp: attrib_validate_message_def rbind_Inr_iff dict_in_def dict_get_def)
    from validate_raw_single [OF this] keys show ?thesis by (auto simp: attr_static_validation_def)
  qed (use keys in \<open>simp add: attr_static_validation_def\<close>)
  obtain nym ty key val name where w: "dict_index (operation req) TARGET_NYM = Inr nym"
      "parse_attr_txn loads dumps (operation req) = Inr (ty, key, val)"
      "(if ty = HASH then Inr (py_str key) else encodable key) = Inr name" "path = make_state_path_for_attr sha nym name (ty = HASH)"
    using written payload by (clarsimp simp: attr_update_state_def prepare_attr_for_state_def rbind_Inr_iff Let_def)
  obtain v where f: "attr_field (operation req) = Some (ty, v)"
    using w(2) extract_attr_field by (auto simp: parse_attr_txn_def rbind_Inr_iff split: if_splits)
  have key: "(if ty = RAW then rbind (loads v) first_key else Inr v) = Inr key"
    using accepted_attribute_key [OF accepted f w(2)] by simp
  have "get_attr sha gfs attr_get nym key ty = get_attr sha gfs' attr_get nym key ty"
    by (rule get_attr_local [OF _ w(3)]) (use same w(4) in simp)
  then show ?thesis using static key w(1) f by (simp add: attr_dynamic_validation_def cong: if_cong)
qed

theorem attribute_checked_at_own_record_witness:
  "attr_static_validation ex_loads (ex_nym_request ''O1'' (ex_attr ''{n:1}'')) = Inr ()
    \<and> (\<exists>path b w. attr_update_state rev py_str id ex_loads (\<lambda>v. ''dump'') (ex_attr_txn ''{n:1}'') = Inr ((path, b), w)
       \<and> attr_dynamic_validation rev ex_loads (ex_gfs []) (\<lambda>h. Inr PyNone) ex_kv ex_rlp ex_store (\<lambda>r as. Inr None)
           (ex_nym_request ''O1'' (ex_attr ''{n:1}''))
         = attr_dynamic_validation rev ex_loads (\<lambda>p. if p = path then ex_gfs [] p else Inl (KeyError p)) (\<lambda>h. Inr PyNone)
             ex_kv ex_rlp ex_store (\<lambda>r as. Inr None) (ex_nym_request ''O1'' (ex_attr ''{n:1}'')))"
proof -
  let ?req = "ex_nym_request ''O1'' (ex_attr ''{n:1}'')"
  obtain path b w where u: "attr_update_state rev py_str id ex_loads (\<lambda>v. ''dump'') (ex_attr_txn ''{n:1}'') = Inr ((path, b), w)"
    using ex_attr_update(1) by blast
  have "attrib_validate_message ex_loads (\<lambda>s. True) (\<lambda>s. True) (operation ?req) = Inr ()"
    by (simp add: attrib_validate_message_def validate_field_set_def validate_raw_field_def ex_request_parts ex_attr_def ex_loads_def
        dict_in_def Let_def)
  from attribute_checked_at_own_record [OF this _ u, of "ex_gfs []" "\<lambda>p. if p = path then ex_gfs [] p else Inl (KeyError p)"
      "\<lambda>h. Inr PyNone" ex_kv ex_rlp ex_store "\<lambda>r as. Inr None"] u
  show ?thesis by (auto simp: ex_request_parts ex_attr_txn_parts)
qed

section \<open>Revocation registry entries\<close>

definition typed_entry :: "pyval \<Rightarrow> bool" where
  "typed_entry e \<longleftrightarrow> (\<exists>d v. e = PyDict d \<and> dict_get d VALUE = PyDict v \<and> v \<noteq> []) \<and> (\<exists>c. entry_indices e = Inr c)"

lemma ints_of_accepted: "list_all (\<lambda>v. \<exists>i. v = PyInt i) xs \<Longrightarrow> \<exists>is. ints_of xs = Inr is"
  by (induction xs) auto

lemma accepted_indices:
  assumes "field_laws eng accepts" "accepted_fields accepts RevocRegEntryValueField v" "k \<in> {ISSUED, REVOKED}"
  shows "\<exists>is. get_indices (PyDict v) k = Inr is"
proof (cases "map_of v k")
  case (Some x)
  with assms(2,3) have "accepts (IterableField IntegerField None None) x"
    by (auto simp: accepted_fields_def RevocRegEntryValueField_def field_defs)
  then obtain xs where "x = PyList xs" "list_all (accepts IntegerField) xs" using field_lawsD(4) [OF assms(1)] by blast
  moreover have "list_all (\<lambda>v. \<exists>i. v = PyInt i) xs"
    by (rule list.pred_mono_strong [OF calculation(2)]) (rule field_lawsD(3) [OF assms(1)])
  ultimately show ?thesis using Some ints_of_accepted by (simp add: get_indices_def dict_get_default_def)
qed (simp add: get_indices_def dict_get_default_def)

lemma accepted_entry_operation:
  assumes "field_laws eng accepts" "eng ClientRevocRegEntrySubmitField (PyDict opn) = Inr ()"
  shows "typed_entry (PyDict opn)" "\<exists>rid. dict_index opn REVOC_REG_DEF_ID = Inr rid"
proof -
  have f: "accepted_fields accepts ClientRevocRegEntrySubmitField opn" using field_lawsD(1) [OF assms] by simp
  then show "\<exists>rid. dict_index opn REVOC_REG_DEF_ID = Inr rid"
    by (auto simp: accepted_fields_def ClientRevocRegEntrySubmitField_def field_defs dict_index_def split: option.splits)
  from f obtain x where x: "map_of opn VALUE = Some x" "accepts (MessageField RevocRegEntryValueField) x"
    by (auto simp: accepted_fields_def ClientRevocRegEntrySubmitField_def field_defs split: option.splits)
  then obtain v where v: "x = PyDict v" "accepted_fields accepts RevocRegEntryValueField v"
    using field_lawsD(1) [OF assms(1) field_lawsD(2) [OF assms(1)]] by blast
  then have "v \<noteq> []" by (auto simp: accepted_fields_def RevocRegEntryValueField_def field_defs)
  moreover obtain "is" rs where "get_indices (PyDict v) ISSUED = Inr is" "get_indices (PyDict v) REVOKED = Inr rs"
    using accepted_indices [OF assms(1) v(2)] by fastforce
  ultimately show "typed_entry (PyDict opn)" using x v by (auto simp: typed_entry_def entry_indices_def dict_get_def)
qed

text \<open>Validation of typed values raises nothing but refusals.\<close>

lemma refusal_only_specific:
  assumes "typed_entry cur" "entry_indices (PyDict (operation req)) = Inr tx"
  shows "specific_validation strat cur req = Inr () \<or> (\<exists>reason. specific_validation strat cur req = reject req reason)"
proof -
  obtain d v i r where c: "cur = PyDict d" "dict_get d VALUE = PyDict v" "v \<noteq> []" "entry_indices cur = Inr (i, r)"
    using assms(1) by (auto simp: typed_entry_def)
  then have "get_indices (PyDict v) ISSUED = Inr i" "get_indices (PyDict v) REVOKED = Inr r" by (auto simp: entry_indices_fields)
  moreover obtain ti tr where "get_indices (dict_get (operation req) VALUE) ISSUED = Inr ti"
      "get_indices (dict_get (operation req) VALUE) REVOKED = Inr tr"
    using assms(2) by (cases tx) (auto simp: entry_indices_fields)
  ultimately show ?thesis
    using c by (cases strat) (auto simp: revoked_specific_validation_def issued_specific_validation_def py_assert_def Let_def)
qed

lemma typed_validate:
  assumes "typed_entry (PyDict (operation req))" "\<exists>rid. dict_index (operation req) REVOC_REG_DEF_ID = Inr rid" "cur = PyNone \<or> typed_entry cur"
  shows "strategy_validate strat cur req = Inr () \<or> (\<exists>reason. strategy_validate strat cur req = reject req reason)"
proof -
  obtain ti tr tv where lists: "entry_indices (PyDict (operation req)) = Inr (ti, tr)" "dict_get (operation req) VALUE = PyDict tv"
    using assms(1) by (auto simp: typed_entry_def)
  then have l: "get_indices (PyDict tv) ISSUED = Inr ti" "get_indices (PyDict tv) REVOKED = Inr tr" by (auto simp: entry_indices_fields)
  show ?thesis
  proof (cases "cur = PyNone")
    case True
    with assms(2) lists l show ?thesis by (auto simp: strategy_validate_def Let_def)
  next
    case False
    with assms(3) have t: "typed_entry cur" by simp
    then obtain d v where d: "cur = PyDict d" "dict_get d VALUE = PyDict v" "v \<noteq> []" by (auto simp: typed_entry_def)
    with assms(2) lists l refusal_only_specific [OF t lists(1), of strat] show ?thesis
      by (auto simp: strategy_validate_def Let_def py_assert_def)
  qed
qed

lemma lift_res_ret: "lift_res r = ret x \<longleftrightarrow> r = Inr x"
  by (simp add: lift_res_def ret_def)

lemma set_to_state_typed:
  assumes "set_to_state ser t = Inr ws" "typed_entry (PyDict (get_payload_data t))"
  shows "\<exists>p entry a b rest. ws = (p, encode_state_value ser entry a b) # rest \<and> typed_entry entry"
proof -
  obtain p rest where "ws = (p, encode_state_value ser (numbered_payload t) (opt_int_val (get_seq_no t)) (opt_int_val (get_txn_time t))) # rest"
    using assms(1) by (auto simp: set_to_state_def prepare_revoc_reg_entry_for_state_def rbind_Inr_iff Let_def)
  moreover have "typed_entry (numbered_payload t)"
    using assms(2) by (auto simp: typed_entry_def numbered_payload_def entry_indices_def)
  ultimately show ?thesis by blast
qed

lemma strategy_write_typed:
  assumes "strategy_write strat ser legacy cur t = ret ws" "typed_entry (PyDict (get_payload_data t))"
  shows "\<exists>p entry a b rest. ws = (p, encode_state_value ser entry a b) # rest \<and> typed_entry entry"
proof -
  have typed: "typed_entry (PyDict (get_payload_data (with_indices t v e k js)))" if "(e, k) \<in> {(ISSUED, REVOKED), (REVOKED, ISSUED)}" for v e k js
    using that by (auto simp: typed_entry_def with_indices_def entry_indices_def get_indices_def)
  consider "set_to_state ser t = Inr ws"
    | v js where "set_to_state ser (with_indices t v ISSUED REVOKED js) = Inr ws"
    | v js where "set_to_state ser (with_indices t v REVOKED ISSUED js) = Inr ws"
    using assms(1)
    by (cases strat) (auto simp: revoked_write_def issued_write_def cbind_ret_iff lift_res_ret Let_def split: if_splits)
  then show ?thesis
    by cases (use assms(2) typed set_to_state_typed in blast)+
qed

text \<open>
  C25: REVOC_REG_ENTRY operations that the message type accepts are well-typed for the handler. If the current
  entry is absent or well-typed, validation by the strategy of the registry accepts or refuses the request but
  raises no other exception, and whatever the strategy then writes is a well-typed entry again.
\<close>

theorem accepted_entry_well_typed:
  assumes "field_laws eng accepts" "eng ClientRevocRegEntrySubmitField (PyDict (operation req)) = Inr ()"
    and "cur = PyNone \<or> typed_entry cur"
  shows "(strategy_validate strat cur req = Inr ()
      \<or> (\<exists>reason. strategy_validate strat cur req = Inl (InvalidClientRequest (req_identifier req) (reqId req) reason)))
    \<and> (get_payload_data t = operation req \<and> strategy_write strat ser legacy cur t = ret ws
       \<longrightarrow> (\<exists>p entry a b rest. ws = (p, encode_state_value ser entry a b) # rest \<and> typed_entry entry))"
  using typed_validate [OF accepted_entry_operation [OF assms(1,2)] assms(3), of strat] accepted_entry_operation(1) [OF assms(1,2)]
    strategy_write_typed [of strat ser legacy cur t ws]
  by (auto simp: reject_def)

text \<open>A validation with these laws.\<close>

fun ex_accepts :: "field_class \<Rightarrow> pyval \<Rightarrow> bool" where
  "ex_accepts (ConstantField c) v = (v = PyStr c)"
| "ex_accepts IntegerField v = (case v of PyInt i \<Rightarrow> True | _ \<Rightarrow> False)"
| "ex_accepts NonEmptyStringField v = (case v of PyStr s \<Rightarrow> s \<noteq> [] | _ \<Rightarrow> False)"
| "ex_accepts (LimitedLengthStringField l) v = (case v of PyStr s \<Rightarrow> s \<noteq> [] | _ \<Rightarrow> False)"
| "ex_accepts (IterableField c lo hi) v = (case v of PyList xs \<Rightarrow> list_all (ex_accepts c) xs | _ \<Rightarrow> False)"
| "ex_accepts (MessageField sch) v =
     (case v of
        PyDict d \<Rightarrow> list_all (\<lambda>(n, c, opt, nul). case map_of d n of None \<Rightarrow> opt | Some x \<Rightarrow> (nul \<and> x = PyNone) \<or> ex_accepts c x) sch
      | _ \<Rightarrow> False)"
| "ex_accepts c v = False"

definition ex_eng :: "field list \<Rightarrow> pyval \<Rightarrow> unit res" where
  "ex_eng sch v = (if ex_accepts (MessageField sch) v then Inr () else Inl (TypeError []))"

lemma ex_field_laws: "field_laws ex_eng ex_accepts"
  by (auto simp: field_laws_def ex_eng_def accepted_fields_def split: pyval.splits if_splits)

definition ex_typed_request :: request where
  "ex_typed_request = ex_entry_request\<lparr>operation := ex_operation @ [(REVOC_TYPE, PyStr ''CL_ACCUM'')]\<rparr>"

theorem accepted_entry_well_typed_witness:
  "ex_eng ClientRevocRegEntrySubmitField (PyDict (operation ex_typed_request)) = Inr () \<and> typed_entry ex_entry
    \<and> (strategy_validate RevokedStrategy ex_entry ex_typed_request = Inr ()
       \<or> (\<exists>reason. strategy_validate RevokedStrategy ex_entry ex_typed_request = Inl (InvalidClientRequest (Some ''D1'') 1 reason)))"
proof -
  have acc: "ex_eng ClientRevocRegEntrySubmitField (PyDict (operation ex_typed_request)) = Inr ()"
    by (simp add: ex_eng_def ex_typed_request_def ex_operation_def ClientRevocRegEntrySubmitField_def RevocRegEntryValueField_def field_defs)
  have typed: "typed_entry ex_entry" using ex_entry_facts(3) by (simp add: typed_entry_def) (simp add: ex_entry_def dict_get_def)
  from accepted_entry_well_typed [OF ex_field_laws acc, of ex_entry RevokedStrategy] typed acc show ?thesis
    by (auto simp: ex_typed_request_def ex_entry_request_def)
qed

text \<open>
  The time of a version may be 0 and still stand beside a sequence number: the handlers then pass both on,
  and the lookup raises an error of Python's own in place of a refusal.
\<close>

lemma version_time_zero_raises:
  assumes "dict_index (operation req) TARGET_NYM = Inr (PyStr did)"
    "dict_get (operation req) VERSION_TIME = PyInt 0" "dict_get (operation req) VERSION_ID = PyInt n"
  shows "get_nym_result sha_raw deser ser_text db req = Inl (ValueError ''seq_no and timestamp are mutually exclusive'')"
  using assms by (simp add: get_nym_result_def one_version_def lookup_version_def)

end
