(* ===== verification/NodeOps.thy ===== *)
theory NodeOps
  imports DomainHandlers Upgrader "HOL-Library.Char_ord" "HOL-Library.List_Lexorder"
begin

text \<open>
  The node itself: validation of NODE transactions (request_handlers/pool_req_handlers/node_handler.py), the
  controller of the pool's version (server/txn_version_controller.py), the authenticators that find the key of
  a sender (server/client_authn.py, server/node_authn.py), and the hooks of server/node.py that decide about
  single messages. What plenum's classes contribute is a record of functions or an argument.
\<close>

section \<open>NODE transactions\<close>

abbreviation SERVICES :: string where "SERVICES \<equiv> ''services''"
abbreviation VALIDATOR :: string where "VALIDATOR \<equiv> ''VALIDATOR''"
abbreviation ALIAS :: string where "ALIAS \<equiv> ''alias''"
abbreviation BLS_KEY_PROOF :: string where "BLS_KEY_PROOF \<equiv> ''blskey_pop''"

text \<open>The methods of plenum's handler; an error is a text.\<close>

record pool_ops =
  data_error_while_validating :: "pyval \<Rightarrow> string option"
  steward_has_node :: "string option \<Rightarrow> bool"
  is_node_data_conflicting :: "pyval \<Rightarrow> string option"
  super_error_while_updating :: "request \<Rightarrow> string option"
  data_error_on_update :: "pyval \<Rightarrow> pyval \<Rightarrow> string option"
  is_steward_of_node :: "string option \<Rightarrow> pyval \<Rightarrow> bool"
  node_info_from_state :: "pyval \<Rightarrow> dict"

definition is_steward :: "('s, 'b) kv_ops \<Rightarrow> 'b rlp_ops \<Rightarrow> 's \<Rightarrow> string \<Rightarrow> bool \<Rightarrow> bool res" where
  "is_steward kv rlp s nym is_committed = hasSteward kv rlp s nym is_committed"

definition get_node_data :: "(string \<Rightarrow> 'b option) \<Rightarrow> ('b \<Rightarrow> pyval) \<Rightarrow> string \<Rightarrow> pyval" where
  "get_node_data st deser nym = (case st nym of None \<Rightarrow> PyDict [] | Some data \<Rightarrow> deser data)"

definition auth_error_while_adding_node ::
  "pool_ops \<Rightarrow> (request \<Rightarrow> auth_action list \<Rightarrow> bool option res) \<Rightarrow> request \<Rightarrow> string option res" where
  "auth_error_while_adding_node po wrv req =
     (let data = dict_get_default (operation req) DATA (PyDict [])
      in case data_error_while_validating po data of
           Some e \<Rightarrow> Inr (Some e)
         | None \<Rightarrow>
             if steward_has_node po (req_identifier req)
             then Inr (Some (py_str (did_val (req_identifier req)) @ '' already has a node''))
             else case is_node_data_conflicting po data of
                    Some e \<Rightarrow> Inr (Some (''existing data has conflicts with request data ''
                                 @ py_str (dict_get (operation req) DATA) @ ''. Error: '' @ e))
                  | None \<Rightarrow>
                      rbind (py_get_default data SERVICES (PyList [PyStr VALIDATOR])) (\<lambda>services.
                      rbind (wrv req [mk_AuthActionAdd NODE (PyStr SERVICES) services True]) (\<lambda>_. Inr None)))"

text \<open>An absent list of services counts as empty.\<close>

definition node_value :: "string \<Rightarrow> pyval \<Rightarrow> pyval" where
  "node_value k v = (if k = SERVICES \<and> \<not> truthy v then PyList [] else v)"

fun authorize_changes ::
  "(request \<Rightarrow> auth_action list \<Rightarrow> bool option res) \<Rightarrow> request \<Rightarrow> bool \<Rightarrow> dict \<Rightarrow> dict \<Rightarrow> unit res" where
  "authorize_changes wrv req is_owner node_info [] = Inr ()"
| "authorize_changes wrv req is_owner node_info ((k, v) # data) =
     (if k = BLS_KEY_PROOF then authorize_changes wrv req is_owner node_info data
      else
        let old_val = node_value k (dict_get node_info k); new_val = node_value k v
        in if old_val \<noteq> new_val
           then rbind (wrv req [mk_AuthActionEdit NODE (PyStr k) old_val new_val is_owner]) (\<lambda>_.
                  authorize_changes wrv req is_owner node_info data)
           else authorize_changes wrv req is_owner node_info data)"

definition auth_error_while_updating_node ::
  "pool_ops \<Rightarrow> ('s, 'b) kv_ops \<Rightarrow> 'b rlp_ops \<Rightarrow> 's \<Rightarrow> (request \<Rightarrow> auth_action list \<Rightarrow> bool option res) \<Rightarrow> request
     \<Rightarrow> string option res" where
  "auth_error_while_updating_node po kv rlp s wrv req =
     rbind (nym_key (did_val (req_identifier req))) (\<lambda>origin.
     rbind (hasTrustee kv rlp s origin False) (\<lambda>is_trustee.
     case (if is_trustee then None else super_error_while_updating po req) of
       Some e \<Rightarrow> Inr (Some e)
     | None \<Rightarrow>
         (let node_nym = dict_get (operation req) TARGET_NYM; data = dict_get_default (operation req) DATA (PyDict [])
          in case data_error_on_update po data node_nym of
               Some e \<Rightarrow> Inr (Some e)
             | None \<Rightarrow>
                 rbind (as_dict_value data) (\<lambda>d.
                 rbind (authorize_changes wrv req (is_steward_of_node po (req_identifier req) node_nym)
                          (node_info_from_state po node_nym) (AList.delete ALIAS d)) (\<lambda>_. Inr None)))))"

section \<open>The version of the pool\<close>

text \<open>A \<open>SortedDict\<close> is a list of its items in the order of the keys.\<close>

fun sd_set :: "'k::linorder \<Rightarrow> 'v \<Rightarrow> ('k \<times> 'v) list \<Rightarrow> ('k \<times> 'v) list" where
  "sd_set k v [] = [(k, v)]"
| "sd_set k v ((k', v') # m) =
     (if k < k' then (k, v) # (k', v') # m else if k = k' then (k, v) # m else (k', v') # sd_set k v m)"

text \<open>
  The versions by the time of the transaction that completed them. \<open>None\<close> is no time: it can only be the single key of the
  dictionary (a key is compared with those that are there), and its version is \<open>vc_untimed\<close>.
\<close>

record version_controller =
  vc_versions :: "(int \<times> string) list"
  vc_untimed :: "string option"
  vc_f :: int
  vc_votes :: "(string \<times> string option set) list"

definition new_version_controller :: version_controller where
  "new_version_controller = \<lparr>vc_versions = [], vc_untimed = None, vc_f = 0, vc_votes = []\<rparr>"

definition vc_version :: "version_controller \<Rightarrow> string option" where
  "vc_version c =
     (case vc_untimed c of
        Some v \<Rightarrow> Some v
      | None \<Rightarrow> if vc_versions c = [] then None else Some (snd (last (vc_versions c))))"

fun version_at :: "int \<Rightarrow> (int \<times> string) list \<Rightarrow> string option \<Rightarrow> string option" where
  "version_at timestamp [] last_version = last_version"
| "version_at timestamp ((upgrade_tm, version) # items) last_version =
     (if timestamp < upgrade_tm then last_version else version_at timestamp items (Some version))"

definition get_pool_version :: "version_controller \<Rightarrow> int option \<Rightarrow> string option res" where
  "get_pool_version c timestamp =
     (case timestamp of
        None \<Rightarrow> Inr (vc_version c)
      | Some t \<Rightarrow> if vc_untimed c = None then Inr (version_at t (vc_versions c) None) else Inl (TypeError ''<''))"

text \<open>\<open>self._versions[time] = version\<close>\<close>

definition set_version_at :: "version_controller \<Rightarrow> int option \<Rightarrow> string \<Rightarrow> version_controller res" where
  "set_version_at c time version =
     (case time of
        None \<Rightarrow> if vc_versions c = [] then Inr (c\<lparr>vc_untimed := Some version\<rparr>) else Inl (TypeError ''<'')
      | Some tm \<Rightarrow>
          if vc_untimed c = None then Inr (c\<lparr>vc_versions := sd_set tm version (vc_versions c)\<rparr>) else Inl (TypeError ''<''))"

text \<open>\<open>(N - 1) // 3\<close> rounds down.\<close>

definition max_faulty :: "nat \<Rightarrow> int" where
  "max_faulty n = (int n - 1) div 3"

definition votes_for :: "version_controller \<Rightarrow> string \<Rightarrow> string option set" where
  "votes_for c version = (case map_of (vc_votes c) version of None \<Rightarrow> {} | Some senders \<Rightarrow> senders)"

definition add_vote :: "version_controller \<Rightarrow> string \<Rightarrow> string option \<Rightarrow> int option \<Rightarrow> version_controller res" where
  "add_vote c version sender time =
     (let senders = insert sender (votes_for c version);
          votes = sd_set version senders (vc_votes c)
      in if int (card senders) > vc_f c
         then rbind (set_version_at c time version) (\<lambda>c. Inr (c\<lparr>vc_votes := filter (\<lambda>(v, _). v > version) votes\<rparr>))
         else Inr (c\<lparr>vc_votes := votes\<rparr>))"

definition update_version :: "version_controller \<Rightarrow> txn \<Rightarrow> version_controller res" where
  "update_version c t =
     (if get_type t = POOL_UPGRADE \<and> dict_get (get_payload_data t) ACTION = PyStr START
      then rbind (py_len (dict_get_default (get_payload_data t) SCHEDULE (PyDict []))) (\<lambda>n. Inr (c\<lparr>vc_f := max_faulty n\<rparr>))
      else if get_type t = NODE_UPGRADE
      then rbind (dict_index (get_payload_data t) DATA) (\<lambda>d. rbind (py_index d ACTION) (\<lambda>a.
             if a = PyStr COMPLETE
             then rbind (py_index d VERSION) (\<lambda>v. rbind (text_of v) (\<lambda>version.
                    add_vote c version (get_from t) (get_txn_time t)))
             else Inr c))
      else Inr c)"

fun update_versions :: "version_controller \<Rightarrow> txn list \<Rightarrow> version_controller res" where
  "update_versions c [] = Inr c"
| "update_versions c (t # ts) = rbind (update_version c t) (\<lambda>c'. update_versions c' ts)"

section \<open>Keys of senders\<close>

text \<open>
  \<open>ident_is_dest\<close> and \<open>target_verkey\<close> are plenum's \<open>nym_ident_is_dest\<close> and \<open>get_target_verkey\<close>.
\<close>

definition nym_specific_auth :: "(request \<Rightarrow> bool) \<Rightarrow> (request \<Rightarrow> string option) \<Rightarrow> request \<Rightarrow> string option" where
  "nym_specific_auth ident_is_dest target_verkey req = (if ident_is_dest req then target_verkey req else None)"

definition get_verkey_specific :: "(request \<Rightarrow> bool) \<Rightarrow> (request \<Rightarrow> string option) \<Rightarrow> request \<Rightarrow> string option" where
  "get_verkey_specific ident_is_dest target_verkey req =
     (if dict_get (operation req) TXN_TYPE = PyStr NYM then nym_specific_auth ident_is_dest target_verkey req else None)"

definition client_getVerkey ::
  "(request \<Rightarrow> bool) \<Rightarrow> (request \<Rightarrow> string option) \<Rightarrow> ('s, 'b) kv_ops \<Rightarrow> 'b rlp_ops \<Rightarrow> 's \<Rightarrow> string \<Rightarrow> request
     \<Rightarrow> string option res" where
  "client_getVerkey ident_is_dest target_verkey kv rlp s ident req =
     (case getVerkey kv rlp s ident False of
        Inl (KeyError k) \<Rightarrow>
          (case get_verkey_specific ident_is_dest target_verkey req of
             None \<Rightarrow> Inr None
           | Some verkey \<Rightarrow> Inr (if verkey = [] then None else Some verkey))
      | r \<Rightarrow> r)"

text \<open>The key of a node is the last one that a transaction of the pool ledger gives it, or its identifier.\<close>

fun node_verkey_loop :: "string \<Rightarrow> txn list \<Rightarrow> pyval \<Rightarrow> bool \<Rightarrow> (pyval \<times> bool) res" where
  "node_verkey_loop ident [] verkey found = Inr (verkey, found)"
| "node_verkey_loop ident (t # ts) verkey found =
     rbind (dict_index (get_payload_data t) TARGET_NYM) (\<lambda>dest.
       if dest = PyStr ident
       then node_verkey_loop ident ts
              (if truthy (dict_get (get_payload_data t) VERKEY) then dict_get (get_payload_data t) VERKEY else verkey) True
       else node_verkey_loop ident ts verkey found)"

definition node_getVerkey :: "txn list \<Rightarrow> string \<Rightarrow> pyval res" where
  "node_getVerkey ledger ident =
     rbind (node_verkey_loop ident ledger PyNone False) (\<lambda>(verkey, found).
       if \<not> found then Inl (OtherException (''UnknownIdentifier '' @ ident))
       else Inr (if truthy verkey then verkey else PyStr ident))"

section \<open>Hooks of the node\<close>

definition can_write_txn :: "pyval \<Rightarrow> string \<Rightarrow> bool" where
  "can_write_txn writable txn_type \<longleftrightarrow> truthy writable \<or> txn_type \<in> {POOL_UPGRADE, POOL_CONFIG, AUTH_RULE, AUTH_RULES}"

text \<open>The ledger holds the hash of a raw or encrypted attribute; the data is fetched from the attribute store.\<close>

definition update_txn_with_extra_data :: "(pyval \<Rightarrow> pyval res) \<Rightarrow> txn \<Rightarrow> txn res" where
  "update_txn_with_extra_data store t =
     (if get_type t = ATTRIB
      then
        let d = get_payload_data t;
            key = (if dict_get d RAW \<noteq> PyNone then Some RAW else if dict_get d ENC \<noteq> PyNone then Some ENC else None)
        in case key of
             None \<Rightarrow> Inr t
           | Some k \<Rightarrow> rbind (store (dict_get d k)) (\<lambda>v. Inr (t\<lparr>get_payload_data := dict_set d k v\<rparr>))
      else Inr t)"

text \<open>\<open>base\<close> is plenum's answer; a message without a type needs no quorum.\<close>

definition is_request_need_quorum :: "bool \<Rightarrow> dict \<Rightarrow> bool res" where
  "is_request_need_quorum base msg_dict =
     (case map_of msg_dict ''operation'' of
        None \<Rightarrow> Inr False
      | Some opn \<Rightarrow>
          rbind (py_get opn TXN_TYPE) (\<lambda>txn_type. rbind (py_get_default opn ''force'' (PyBool False)) (\<lambda>is_force.
            Inr (truthy txn_type \<and> \<not> (py_str is_force = ''True'' \<and> txn_type = PyStr POOL_UPGRADE) \<and> base))))"

text \<open>Which authenticator checks a request: the one for nodes or plenum's choice.\<close>

datatype 'a authenticator = NodeAuthenticator | Authenticator 'a

definition authNr :: "'a \<Rightarrow> dict \<Rightarrow> 'a authenticator res" where
  "authNr base req =
     rbind (py_get (dict_get_default req ''operation'' (PyDict [])) TXN_TYPE) (\<lambda>txn_type.
       Inr (if txn_type = PyStr NODE_UPGRADE then NodeAuthenticator else Authenticator base))"

text \<open>Whether a message of a node is taken as a request of a client.\<close>

definition is_node_upgrade_message :: "dict \<Rightarrow> bool res" where
  "is_node_upgrade_message msg =
     (if (\<forall>attr\<in>{''operation'', IDENTIFIER, ''reqId''}. dict_in attr msg)
      then rbind (py_get (dict_get msg ''operation'') TXN_TYPE) (\<lambda>ty. Inr (ty = PyStr NODE_UPGRADE))
      else Inr False)"

text \<open>
  \<open>processNodeRequest\<close>: whether the request is propagated. \<open>authenticate\<close> is the node authenticator's check
  of the data, the identifier and the signature.
\<close>

definition processNodeRequest :: "(pyval \<Rightarrow> string option \<Rightarrow> pyval \<Rightarrow> unit res) \<Rightarrow> request \<Rightarrow> bool res" where
  "processNodeRequest authenticate req =
     rbind (dict_index (operation req) TXN_TYPE) (\<lambda>ty.
       if ty = PyStr NODE_UPGRADE
       then Inr (case rbind (dict_index (operation req) DATA) (\<lambda>data. rbind (dict_index (operation req) ''signature'') (\<lambda>sig.
                        authenticate data (req_identifier req) sig)) of
                   Inl e \<Rightarrow> False | Inr _ \<Rightarrow> True)
       else Inr True)"

text \<open>The identity cache must have no uncommitted batch around a catch-up.\<close>

definition preLedgerCatchUp :: "('a \<times> 'c) list \<Rightarrow> unit res" where
  "preLedgerCatchUp un_committed =
     (if un_committed \<noteq> [] then Inl (OtherException ''idr cache has uncommitted txns before catching up ledger'') else Inr ())"

definition postLedgerCatchUp :: "('a \<times> 'c) list \<Rightarrow> unit res" where
  "postLedgerCatchUp un_committed =
     (if un_committed \<noteq> [] then Inl (OtherException ''idr cache has uncommitted txns after catching up ledger'') else Inr ())"

text \<open>Default rules that are not yet in the state are written to it, under the id of the rule.\<close>

fun add_auth_rules_to_config_state ::
  "(pyval \<Rightarrow> 'b) \<Rightarrow> (string \<Rightarrow> 'b option) \<Rightarrow> (string \<times> constraint) list \<Rightarrow> (string \<Rightarrow> 'b option)" where
  "add_auth_rules_to_config_state ser st [] = st"
| "add_auth_rules_to_config_state ser st ((rule_id, c) # rules) =
     add_auth_rules_to_config_state ser
       (case st rule_id of None \<Rightarrow> st(rule_id \<mapsto> serialize_constraint ser (Some c)) | Some b \<Rightarrow> st) rules"

end
