(* ===== verification/NodeProperties.thy ===== *)
theory NodeProperties
  imports NodeOps ConfigProperties
begin

text \<open>
  Properties of the node: who may change the record of a validator, how many nodes it takes to move the version
  of the pool and which version holds at a time, and that the attributes of the ledger are restored from the
  attribute store.
\<close>

section \<open>Sorted dictionaries\<close>

lemma set_sd_set: "set (sd_set k v m) \<subseteq> insert (k, v) (set m)"
  by (induction k v m rule: sd_set.induct) auto

lemma keys_sd_set: "fst ` set (sd_set k v m) = insert k (fst ` set m)"
  by (induction k v m rule: sd_set.induct) (auto simp: image_iff)

lemma sorted_sd_set: "sorted_wrt (<) (map fst m) \<Longrightarrow> sorted_wrt (<) (map fst (sd_set k v m))"
proof (induction k v m rule: sd_set.induct)
  case (2 k v k' v' m)
  then have "sorted_wrt (<) (map fst (sd_set k v m))" if "\<not> k < k'" "k \<noteq> k'" using that by simp
  moreover have "\<forall>x\<in>fst ` set (sd_set k v m). k' < x" if "\<not> k < k'" "k \<noteq> k'"
    using 2(2) that unfolding keys_sd_set by auto
  ultimately show ?case using 2(2) by auto
qed simp

lemma map_of_sd_set: "sorted_wrt (<) (map fst m) \<Longrightarrow> map_of (sd_set k v m) = (map_of m)(k \<mapsto> v)"
  by (induction k v m rule: sd_set.induct) (auto simp: fun_eq_iff)

interpretation sorted_dict: dict_like map_of sd_set "\<lambda>m. sorted_wrt (<) (map fst m)"
  by unfold_locales (simp_all add: map_of_sd_set sorted_sd_set)

section \<open>The version of the pool\<close>

lemma version_at_latest:
  assumes "sorted_wrt (<) (map fst items)"
  shows "version_at t items l =
    (if \<forall>(tm, v)\<in>set items. t < tm then l else Some (snd (last (filter (\<lambda>(tm, v). tm \<le> t) items))))"
  using assms
proof (induction t items l rule: version_at.induct)
  case (2 t tm v items l)
  have none: "filter (\<lambda>(tm', v'). tm' \<le> t) items = []" if "t < tm"
    using that 2(2) by (auto simp: filter_empty_conv)
  show ?case
  proof (cases "t < tm")
    case True
    with 2(2) show ?thesis by auto
  next
    case False
    have "filter (\<lambda>(tm', v'). tm' \<le> t) items = [] \<longleftrightarrow> (\<forall>(tm', v')\<in>set items. t < tm')"
      by (auto simp: filter_empty_conv)
    with False 2 show ?thesis by auto
  qed
qed simp

text \<open>The version that a transaction reports as installed, and who has reported it.\<close>

definition completed_version :: "txn \<Rightarrow> string option" where
  "completed_version t =
     (if get_type t = NODE_UPGRADE
      then (case dict_get (get_payload_data t) DATA of
              PyDict d \<Rightarrow> if dict_get d ACTION = PyStr COMPLETE
                          then (case dict_get d VERSION of PyStr v \<Rightarrow> Some v | _ \<Rightarrow> None) else None
            | _ \<Rightarrow> None)
      else None)"

definition reporters :: "txn list \<Rightarrow> string \<Rightarrow> string option set" where
  "reporters ts v = get_from ` {t \<in> set ts. completed_version t = Some v}"

lemma finite_reporters [simp]: "finite (reporters ts v)"
  by (simp add: reporters_def)

lemma reporters_snoc:
  "reporters (ts @ [t]) v = (if completed_version t = Some v then insert (get_from t) (reporters ts v) else reporters ts v)"
  by (auto simp: reporters_def)

lemma update_versions_snoc: "update_versions c (ts @ [t]) = rbind (update_versions c ts) (\<lambda>c'. update_version c' t)"
  by (induction ts arbitrary: c) (simp_all add: rbind_def split: sum.splits)

text \<open>One step: a vote, or a new bound, or nothing.\<close>

lemma update_version_cases:
  assumes "update_version c t = Inr c'"
  obtains (vote) v where "completed_version t = Some v" "add_vote c v (get_from t) (get_txn_time t) = Inr c'"
  | (other) n where "completed_version t = None" "c' = c \<or> c' = c\<lparr>vc_f := max_faulty n\<rparr>"
proof (cases "get_type t = POOL_UPGRADE \<and> dict_get (get_payload_data t) ACTION = PyStr START")
  case True
  with assms obtain n where "c' = c\<lparr>vc_f := max_faulty n\<rparr>" by (auto simp: update_version_def rbind_Inr_iff)
  with True show ?thesis by (intro other [of n]) (auto simp: completed_version_def)
next
  case False
  show ?thesis
  proof (cases "get_type t = NODE_UPGRADE")
    case True
    with assms False obtain x a where x: "dict_index (get_payload_data t) DATA = Inr x" "py_index x ACTION = Inr a"
        "(if a = PyStr COMPLETE then rbind (py_index x VERSION) (\<lambda>v. rbind (text_of v) (\<lambda>version.
            add_vote c version (get_from t) (get_txn_time t))) else Inr c) = Inr c'"
      by (auto simp: update_version_def rbind_Inr_iff)
    then obtain d where d: "x = PyDict d" "dict_index d ACTION = Inr a" by (cases x) auto
    have data: "dict_get (get_payload_data t) DATA = PyDict d" "dict_get d ACTION = a"
      using x(1) d by (auto simp: dict_index_def dict_get_def split: option.splits)
    show ?thesis
    proof (cases "a = PyStr COMPLETE")
      case True
      with x(3) d obtain w v where v: "dict_index d VERSION = Inr w" "text_of w = Inr v"
          "add_vote c v (get_from t) (get_txn_time t) = Inr c'"
        by (auto simp: rbind_Inr_iff)
      then have "dict_get d VERSION = PyStr v"
        by (cases w) (auto simp: dict_index_def dict_get_def split: option.splits)
      with True data \<open>get_type t = NODE_UPGRADE\<close> v(3) show ?thesis by (intro vote [of v]) (simp_all add: completed_version_def)
    next
      case False
      with x(3) data show ?thesis by (intro other [of 0]) (simp_all add: completed_version_def)
    qed
  next
    case False': False
    with assms False have "c' = c" by (auto simp: update_version_def split: if_splits)
    with False' show ?thesis by (intro other [of 0]) (simp_all add: completed_version_def)
  qed
qed

text \<open>What a controller knows after a ledger: its votes are reports, and its tables are sorted.\<close>

definition counts :: "version_controller \<Rightarrow> txn list \<Rightarrow> bool" where
  "counts c ts \<longleftrightarrow> (\<forall>v. votes_for c v \<subseteq> reporters ts v) \<and> sorted_wrt (<) (map fst (vc_votes c)) \<and> sorted_wrt (<) (map fst (vc_versions c))"

lemma sorted_map_filter: "sorted_wrt P (map f xs) \<Longrightarrow> sorted_wrt P (map f (filter Q xs))"
  by (induction xs) auto

lemma counts_step:
  assumes "counts c ts" "update_version c t = Inr c'"
  shows "counts c' (ts @ [t])"
  using assms(2)
proof (cases rule: update_version_cases)
  case (vote v)
  let ?votes = "sd_set v (insert (get_from t) (votes_for c v)) (vc_votes c)"
  have sorted: "sorted_wrt (<) (map fst ?votes)" using assms(1) by (simp add: counts_def sorted_dict.wf_upd)
  have lookup: "map_of ?votes = (map_of (vc_votes c))(v \<mapsto> insert (get_from t) (votes_for c v))"
    using assms(1) by (simp add: counts_def sorted_dict.look_upd)
  have c': "vc_votes c' = ?votes \<or> vc_votes c' = filter (\<lambda>(w, _). w > v) ?votes"
    "sorted_wrt (<) (map fst (vc_versions c'))"
    using vote(2) assms(1)
    by (auto simp: add_vote_def set_version_at_def Let_def counts_def rbind_Inr_iff intro: sorted_dict.wf_upd split: if_splits option.splits)
  have "votes_for c' w \<subseteq> (case map_of ?votes w of None \<Rightarrow> {} | Some s \<Rightarrow> s)" for w
  proof (cases "vc_votes c' = ?votes")
    case False
    then have f: "vc_votes c' = filter (\<lambda>(w, _). w > v) ?votes" using c'(1) by simp
    have "map_of (filter (\<lambda>(w, _). w > v) ?votes) w = Some s \<Longrightarrow> map_of ?votes w = Some s" for s
      using sorted strict_sorted_iff [of "map fst ?votes"] by (auto dest!: map_of_SomeD intro!: map_of_is_SomeI)
    then show ?thesis by (auto simp: votes_for_def f split: option.splits)
  qed (simp add: votes_for_def)
  moreover have "(case map_of ?votes w of None \<Rightarrow> {} | Some s \<Rightarrow> s) \<subseteq> reporters (ts @ [t]) w" for w
  proof -
    have "(case map_of ?votes w of None \<Rightarrow> {} | Some s \<Rightarrow> s) = (if w = v then insert (get_from t) (votes_for c v) else votes_for c w)"
      by (simp only: lookup) (simp add: votes_for_def)
    then show ?thesis using assms(1) vote(1) by (auto simp: reporters_snoc counts_def)
  qed
  ultimately have "\<forall>w. votes_for c' w \<subseteq> reporters (ts @ [t]) w" by blast
  moreover have "sorted_wrt (<) (map fst (vc_votes c'))" using c'(1) sorted sorted_map_filter by metis
  ultimately show ?thesis using c'(2) by (simp add: counts_def)
next
  case (other n)
  then have "votes_for c' = votes_for c" "vc_votes c' = vc_votes c" "vc_versions c' = vc_versions c" by (auto simp: votes_for_def fun_eq_iff)
  with assms(1) other(1) show ?thesis by (simp add: counts_def reporters_snoc)
qed

lemma counts_run: "update_versions new_version_controller ts = Inr c \<Longrightarrow> counts c ts"
proof (induction ts arbitrary: c rule: rev_induct)
  case Nil
  then show ?case by (auto simp: counts_def new_version_controller_def votes_for_def)
next
  case (snoc t ts)
  then show ?case by (auto simp: update_versions_snoc rbind_Inr_iff intro: counts_step)
qed

text \<open>A controller holds a version for a time.\<close>

definition held :: "version_controller \<Rightarrow> int option \<Rightarrow> string \<Rightarrow> bool" where
  "held c time v \<longleftrightarrow> (case time of None \<Rightarrow> vc_untimed c = Some v | Some tm \<Rightarrow> (tm, v) \<in> set (vc_versions c))"

lemma held_set_version:
  "set_version_at c time v = Inr c' \<Longrightarrow> held c' tm w \<Longrightarrow> held c tm w \<or> tm = time \<and> w = v"
  using set_sd_set [of _ v "vc_versions c"]
  by (fastforce simp: set_version_at_def held_def split: option.splits if_splits)

lemma held_add_vote:
  assumes "add_vote c v sender time = Inr c'" "held c' tm w" "\<not> held c tm w"
  shows "vc_f c < int (card (insert sender (votes_for c v))) \<and> tm = time \<and> w = v"
proof (cases "vc_f c < int (card (insert sender (votes_for c v)))")
  case True
  with assms(1) obtain c1 where "set_version_at c time v = Inr c1" "vc_versions c' = vc_versions c1" "vc_untimed c' = vc_untimed c1"
    by (auto simp: add_vote_def Let_def rbind_Inr_iff)
  with assms(2,3) True held_set_version [of c time v c1 tm w] show ?thesis by (auto simp: held_def split: option.splits)
next
  case False
  with assms show ?thesis by (auto simp: add_vote_def Let_def held_def split: option.splits)
qed

lemma pool_version_reported:
  assumes "update_versions new_version_controller ts = Inr c" "held c tm v"
  shows "\<exists>i c'. i < length ts \<and> update_versions new_version_controller (take i ts) = Inr c'
    \<and> completed_version (ts ! i) = Some v \<and> get_txn_time (ts ! i) = tm
    \<and> vc_f c' < int (card (reporters (take (Suc i) ts) v))"
  using assms
proof (induction ts arbitrary: c rule: rev_induct)
  case Nil
  then show ?case by (auto simp: new_version_controller_def held_def split: option.splits)
next
  case (snoc t ts)
  then obtain c0 where c0: "update_versions new_version_controller ts = Inr c0" "update_version c0 t = Inr c"
    by (auto simp: update_versions_snoc rbind_Inr_iff)
  show ?case
  proof (cases "held c0 tm v")
    case True
    from snoc.IH [OF c0(1) this] obtain i c' where "i < length ts" "update_versions new_version_controller (take i ts) = Inr c'"
        "completed_version (ts ! i) = Some v" "get_txn_time (ts ! i) = tm" "vc_f c' < int (card (reporters (take (Suc i) ts) v))"
      by blast
    then show ?thesis by (intro exI [of _ i] exI [of _ c']) (simp add: nth_append)
  next
    case new: False
    from c0(2) have "completed_version t = Some v \<and> get_txn_time t = tm \<and> vc_f c0 < int (card (reporters (ts @ [t]) v))"
    proof (cases rule: update_version_cases)
      case (vote w)
      have w: "vc_f c0 < int (card (insert (get_from t) (votes_for c0 w)))" "get_txn_time t = tm" "w = v"
        using held_add_vote [OF vote(2) snoc.prems(2) new] by simp_all
      have "insert (get_from t) (votes_for c0 v) \<subseteq> reporters (ts @ [t]) v"
        using counts_run [OF c0(1)] vote(1) w(3) by (auto simp: counts_def reporters_snoc)
      then have "card (insert (get_from t) (votes_for c0 v)) \<le> card (reporters (ts @ [t]) v)" by (intro card_mono) simp_all
      with w vote(1) show ?thesis by simp
    qed (use new snoc.prems(2) in \<open>auto simp: held_def split: option.splits\<close>)
    with c0(1) show ?thesis by (intro exI [of _ "length ts"] exI [of _ c0]) simp
  qed
qed

text \<open>
  C27: The version of the pool moves only with a quorum. Whatever transactions a controller has processed, each
  version it holds was added by a report of that version at that time, when the number of different nodes that
  had reported the version exceeded the bound for faulty nodes that the last scheduled upgrade had set; and the
  version it gives for a time is the one added last before or at that time. (If the one version it holds came with a
  report without a time, then it raises when it is asked for a time.)
\<close>

theorem pool_version_quorum:
  assumes "update_versions new_version_controller ts = Inr c"
  shows "(\<forall>tm v. held c tm v \<longrightarrow>
      (\<exists>i c'. i < length ts \<and> update_versions new_version_controller (take i ts) = Inr c'
        \<and> completed_version (ts ! i) = Some v \<and> get_txn_time (ts ! i) = tm
        \<and> vc_f c' < int (card (reporters (take (Suc i) ts) v))))
    \<and> get_pool_version c (Some time) =
      (if vc_untimed c \<noteq> None then Inl (TypeError ''<'')
       else if \<forall>(tm, v)\<in>set (vc_versions c). time < tm then Inr None
       else Inr (Some (snd (last (filter (\<lambda>(tm, v). tm \<le> time) (vc_versions c))))))"
  using pool_version_reported [OF assms] counts_run [OF assms] by (simp add: get_pool_version_def counts_def version_at_latest)

definition ex_upgrade_txn :: txn where
  "ex_upgrade_txn = \<lparr>get_type = POOL_UPGRADE,
     get_payload_data = [(ACTION, PyStr START), (SCHEDULE, PyDict (map (\<lambda>n. (n, PyStr ''t'')) [''a'', ''b'', ''c'', ''d'']))],
     get_from = Some ''T'', get_req_id = 1, get_seq_no = Some 1, get_txn_time = Some 10\<rparr>"

definition ex_report :: "string \<Rightarrow> string \<Rightarrow> int \<Rightarrow> txn" where
  "ex_report node version time = \<lparr>get_type = NODE_UPGRADE,
     get_payload_data = [(DATA, PyDict [(ACTION, PyStr COMPLETE), (VERSION, PyStr version)])],
     get_from = Some node, get_req_id = 1, get_seq_no = Some 1, get_txn_time = Some time\<rparr>"

lemma update_version_report:
  "update_version c (ex_report node v time) = add_vote c v (Some node) (Some time)"
  by (simp add: update_version_def ex_report_def dict_index_def)

lemma update_version_upgrade: "update_version c ex_upgrade_txn = Inr (c\<lparr>vc_f := 1\<rparr>)"
  by (simp add: update_version_def ex_upgrade_txn_def dict_get_def dict_get_default_def max_faulty_def)

lemma ex_versions:
  "update_versions new_version_controller [ex_upgrade_txn, ex_report ''a'' ''1.9'' 20, ex_report ''b'' ''1.9'' 30] =
     Inr \<lparr>vc_versions = [(30, ''1.9'')], vc_untimed = None, vc_f = 1, vc_votes = []\<rparr>"
  by (simp add: update_version_upgrade update_version_report add_vote_def set_version_at_def new_version_controller_def votes_for_def Let_def)

theorem pool_version_quorum_witness:
  "\<exists>c. update_versions new_version_controller [ex_upgrade_txn, ex_report ''a'' ''1.9'' 20, ex_report ''b'' ''1.9'' 30] = Inr c
    \<and> (30, ''1.9'') \<in> set (vc_versions c) \<and> get_pool_version c (Some 25) = Inr None \<and> get_pool_version c (Some 35) = Inr (Some ''1.9'')"
  using pool_version_quorum [OF ex_versions, of 25] pool_version_quorum [OF ex_versions, of 35] ex_versions by auto

text \<open>
  When a version is adopted, the votes for the versions that are not greater as texts are dropped: two of four
  nodes report 1.10, but between their reports 1.9 is adopted, and the first of the two votes is lost.
\<close>

lemma votes_for_newer_version_lost:
  "update_versions new_version_controller
     [ex_upgrade_txn, ex_report ''a'' ''1.10'' 20, ex_report ''b'' ''1.9'' 30, ex_report ''c'' ''1.9'' 40, ex_report ''d'' ''1.10'' 50] =
     Inr \<lparr>vc_versions = [(40, ''1.9'')], vc_untimed = None, vc_f = 1, vc_votes = [(''1.10'', {Some ''d''})]\<rparr>"
proof -
  have "(''1.10''::string) < ''1.9''" by code_simp
  moreover from this have "\<not> (''1.9''::string) < ''1.10''" by simp
  ultimately show ?thesis
    by (simp add: update_version_upgrade update_version_report add_vote_def set_version_at_def new_version_controller_def votes_for_def Let_def)
qed

section \<open>Records of validators\<close>

definition node_address_fields :: "string set" where
  "node_address_fields = {''node_ip'', ''node_port'', ''client_ip'', ''client_port'', ''blskey''}"

lemma default_node_edit:
  assumes "default_in_force (AuthActionEdit NODE k old new own) = Some c"
  shows "k \<in> node_address_fields \<and> c = steward_owner_constraint \<or> k = SERVICES \<and> c = trustee_or_owner_steward"
  using assms by (simp add: rule_eval node_address_fields_def split: if_splits)

lemma satisfied_steward_owner:
  assumes "satisfied ro req a steward_owner_constraint"
  shows "act_is_owner a \<and> (\<exists>d\<in>signers req. ro d = Some STEWARD)"
proof -
  have "\<exists>d\<in>signers req. ro d = Some STEWARD"
    by (rule sig_counts_signer) (use assms in \<open>auto simp: steward_owner_constraint_def role_satisfied_def is_off_ledger_def\<close>)
  with assms show ?thesis by (simp add: steward_owner_constraint_def role_satisfied_def)
qed

lemma satisfied_trustee_or_owner_steward:
  "satisfied ro req a trustee_or_owner_steward \<longleftrightarrow> satisfied ro req a one_trustee_constraint \<or> satisfied ro req a steward_owner_constraint"
  by (simp add: trustee_or_owner_steward_def one_trustee_constraint_def steward_owner_constraint_def)

lemma authorize_changes_each:
  assumes "authorize_changes wrv req own info data = Inr ()" "(k, v) \<in> set data" "k \<noteq> BLS_KEY_PROOF"
    "node_value k (dict_get info k) \<noteq> node_value k v"
  shows "\<exists>r. wrv req [mk_AuthActionEdit NODE (PyStr k) (node_value k (dict_get info k)) (node_value k v) own] = Inr r"
  using assms(1,2)
proof (induction data)
  case (Cons kv data)
  obtain k' v' where kv: "kv = (k', v')" by force
  show ?case
  proof (cases "(k, v) = kv")
    case True
    with Cons.prems(1) kv assms(3,4) show ?thesis by (auto simp: Let_def rbind_Inr_iff)
  next
    case False
    with Cons.prems have "(k, v) \<in> set data" by auto
    moreover have "authorize_changes wrv req own info data = Inr ()"
      using Cons.prems(1) kv by (auto simp: Let_def rbind_Inr_iff split: if_splits)
    ultimately show ?thesis by (rule Cons.IH [rotated])
  qed
qed simp

text \<open>
  C26: Under the default rules the record of a validator changes only in known fields and by the right people. If
  an update passes validation and changes a field other than the alias and the proof of the BLS key, then either
  the field is an address, a port or the BLS key, the author is the steward of that node and a steward has
  signed; or the field is the list of services, and a trustee has signed or the author is the node's steward and
  a steward has signed.
\<close>

theorem node_changed_by_steward:
  assumes reads: "reads gr ro" and author: "req_identifier req = Some d"
    and wrv: "wrv = validate fmt default_authorizers gr (local_get_auth_constraint auth_map)"
    and passed: "auth_error_while_updating_node po kv rlp s wrv req = Inr None"
    and data: "dict_get_default (operation req) DATA (PyDict []) = PyDict data" "(k, v) \<in> set data" "k \<notin> {ALIAS, BLS_KEY_PROOF}"
    and node: "node_nym = dict_get (operation req) TARGET_NYM" "old = node_value k (dict_get (node_info_from_state po node_nym) k)"
    and changed: "old \<noteq> node_value k v"
    and safe: "id_safe k" "id_safe (str_or_empty old)" "id_safe (str_or_empty (node_value k v))"
  shows "k \<in> node_address_fields \<and> is_steward_of_node po (Some d) node_nym \<and> (\<exists>e\<in>signers req. ro e = Some STEWARD)
    \<or> k = SERVICES \<and> ((\<exists>e\<in>signers req. ro e = Some TRUSTEE)
        \<or> is_steward_of_node po (Some d) node_nym \<and> (\<exists>e\<in>signers req. ro e = Some STEWARD))"
proof -
  let ?a = "AuthActionEdit NODE k (str_or_empty old) (str_or_empty (node_value k v)) (is_steward_of_node po (Some d) node_nym)"
  have "authorize_changes wrv req (is_steward_of_node po (Some d) node_nym) (node_info_from_state po node_nym) (AList.delete ALIAS data) = Inr ()"
    using passed author node(1)
    by (auto simp: auth_error_while_updating_node_def rbind_Inr_iff Let_def data(1) split: option.splits if_splits)
  moreover have "(k, v) \<in> set (AList.delete ALIAS data)" using data(2,3) by (auto simp: AList.delete_eq)
  ultimately obtain r where "wrv req [?a] = Inr r"
    using authorize_changes_each [of wrv req _ "node_info_from_state po node_nym" _ k v] data(3) changed node(2)
    by (fastforce simp: mk_AuthActionEdit_def str_or_empty_def)
  moreover have "id_safe NODE" by code_simp
  then have "action_safe ?a" using safe by (simp add: action_safe_def)
  ultimately obtain c where c: "default_in_force ?a = Some c" "satisfied ro req ?a c"
    using local_strategy.validate_accepts [OF reads author, of ?a fmt "[]" r] wrv by (auto simp del: validate.simps)
  from default_node_edit [OF c(1)] c(2) satisfied_steward_owner [of ro req ?a] one_trustee_signer [of ro req ?a] show ?thesis
    by (auto simp: satisfied_trustee_or_owner_steward)
qed

definition ex_pool_ops :: pool_ops where
  "ex_pool_ops = \<lparr>data_error_while_validating = (\<lambda>d. None), steward_has_node = (\<lambda>d. False), is_node_data_conflicting = (\<lambda>d. None),
     super_error_while_updating = (\<lambda>r. None), data_error_on_update = (\<lambda>d n. None), is_steward_of_node = (\<lambda>d n. False),
     node_info_from_state = (\<lambda>n. [(ALIAS, PyStr ''Alpha''), (SERVICES, PyList [PyStr VALIDATOR])])\<rparr>"

definition ex_demotion :: dict where
  "ex_demotion = [(TXN_TYPE, PyStr NODE), (TARGET_NYM, PyStr ''N1''), (DATA, PyDict [(ALIAS, PyStr ''Alpha''), (SERVICES, PyList [])])]"

lemma ex_demotion_passes:
  "auth_error_while_updating_node ex_pool_ops ex_kv ex_rlp ex_store (default_validator ex_kv ex_rlp ex_store (\<lambda>r. []))
     (ex_nym_request ''T1'' ex_demotion) = Inr None"
proof -
  let ?req = "ex_nym_request ''T1'' ex_demotion"
  let ?a = "mk_AuthActionEdit NODE (PyStr SERVICES) (PyList [PyStr VALIDATOR]) (PyList []) False"
  have safe: "action_safe ?a" by code_simp
  have rule: "default_in_force ?a = Some trustee_or_owner_steward"
    by (simp add: mk_AuthActionEdit_def str_or_empty_def rule_eval)
  have "satisfied ex_store_roles ?req ?a trustee_or_owner_steward"
    by (simp add: trustee_or_owner_steward_def role_satisfied_def endorsed_def sig_counts_def is_role_accepted_def ex_store_roles_def
        ex_nym_request_def has_signature_def sigs_def is_off_ledger_def role_of_text_def)
  then have "default_validator ex_kv ex_rlp ex_store (\<lambda>r. []) ?req [?a] = Inr (Some True)"
    using local_strategy.validate_accepts [OF ex_store_reads _ safe, of ?req "''T1''" "\<lambda>r. []" "[]" "Some True"] rule
    by (simp add: ex_nym_request_def del: validate.simps)
  then show ?thesis
    by (simp add: auth_error_while_updating_node_def ex_request_parts ex_demotion_def ex_pool_ops_def hasTrustee_def hasNymWithRole_def
        getNym_def ex_fields text_or_None_def dict_get_def dict_get_default_def node_value_def Let_def del: validate.simps)
qed

theorem node_changed_by_steward_witness: "\<exists>e\<in>signers (ex_nym_request ''T1'' ex_demotion). ex_store_roles e = Some TRUSTEE"
proof -
  have "id_safe SERVICES" "id_safe (str_or_empty (PyList [PyStr VALIDATOR]))" "id_safe (str_or_empty (PyList []))" by code_simp+
  then have "SERVICES \<in> node_address_fields \<and> is_steward_of_node ex_pool_ops (Some ''T1'') (PyStr ''N1'')
        \<and> (\<exists>e\<in>signers (ex_nym_request ''T1'' ex_demotion). ex_store_roles e = Some STEWARD)
      \<or> SERVICES = SERVICES \<and> ((\<exists>e\<in>signers (ex_nym_request ''T1'' ex_demotion). ex_store_roles e = Some TRUSTEE)
        \<or> is_steward_of_node ex_pool_ops (Some ''T1'') (PyStr ''N1'') \<and> (\<exists>e\<in>signers (ex_nym_request ''T1'' ex_demotion). ex_store_roles e = Some STEWARD))"
    by (intro node_changed_by_steward [OF ex_store_reads _ refl ex_demotion_passes, where v = "PyList []" and
          old = "PyList [PyStr VALIDATOR]" and data = "[(ALIAS, PyStr ''Alpha''), (SERVICES, PyList [])]"])
      (simp_all add: ex_request_parts ex_demotion_def ex_pool_ops_def dict_get_default_def dict_get_def node_value_def)
  then show ?thesis by (simp add: node_address_fields_def ex_pool_ops_def)
qed

section \<open>Attributes of the ledger\<close>

lemma dict_set_again: "dict_set (dict_set d k v) k w = dict_set d k w"
  by (simp add: dict_set_def)

lemma dict_set_same: "map_of d k = Some v \<Longrightarrow> dict_set d k v = d"
  unfolding dict_set_def by (induction d) auto

lemma extract_attr_single:
  assumes "extract_attr_typed_value d = Inr (ty, a)"
  shows "filter (\<lambda>key. dict_in key d) [RAW, ENC, HASH] = [ty] \<and> map_of d ty = Some a"
proof -
  define ks where "ks = filter (\<lambda>key. dict_in key d) [RAW, ENC, HASH]"
  have x: "(case ks of [] \<Rightarrow> Inl (ValueError e) | [k] \<Rightarrow> rbind (dict_index d k) (\<lambda>v. Inr (k, v)) | _ \<Rightarrow> Inl (ValueError e')) = Inr (ty, a)"
    if "e = ''ATTR should have one of the following fields: '' @ py_str (PyList (map PyStr ALL_ATR_KEYS))"
      "e' = ''ATTR should have only one of the following fields: '' @ py_str (PyList (map PyStr ALL_ATR_KEYS))" for e e'
    using assms unfolding extract_attr_typed_value_def ks_def that by (simp only: ALL_ATR_KEYS_def)
  then have "ks = [ty] \<and> dict_index d ty = Inr a"
    using x [OF refl refl] by (cases ks; cases "tl ks") (auto simp: rbind_Inr_iff)
  then show ?thesis unfolding ks_def by (auto simp: dict_index_def simp del: filter.simps split: option.splits)
qed

text \<open>
  A transaction that is read from the ledger gets its attribute back. The ledger keeps the hash of a raw or
  encrypted attribute; once the attribute store has what the transaction's update wrote to it, completing the
  transaction from the ledger gives the transaction as it was sent, a raw attribute in its normal form.
\<close>

theorem ledger_attribute_restored:
  assumes ledger: "transform_txn_for_ledger sha ser_text loads dumps t = Inr t'"
    and written: "attr_update_state sha ser_text ser loads dumps t = Inr (w, store_write)"
    and in_store: "\<And>k v. store_write = Some (k, v) \<Longrightarrow> store (PyStr k) = Inr v"
    and parsed: "parse_attr_txn loads dumps (get_payload_data t) = Inr (ty, key, val)"
  shows "update_txn_with_extra_data store t' =
    Inr (if ty = RAW then t\<lparr>get_payload_data := dict_set (get_payload_data t) RAW val\<rparr> else t)"
proof -
  let ?d = "get_payload_data t"
  let ?h = "if truthy val then hash_of sha ser_text val else []"
  obtain a where x: "extract_attr_typed_value ?d = Inr (ty, a)"
    using parsed by (auto simp: parse_attr_txn_def rbind_Inr_iff split: if_splits)
  have attr: "filter (\<lambda>key. dict_in key ?d) [RAW, ENC, HASH] = [ty]" "map_of ?d ty = Some a"
    using extract_attr_single [OF x] by blast+
  then have ty: "ty \<in> {RAW, ENC, HASH}" "k \<in> {RAW, ENC, HASH} \<Longrightarrow> k \<noteq> ty \<Longrightarrow> map_of ?d k = None" for k
  proof -
    have s: "{k \<in> {RAW, ENC, HASH}. dict_in k ?d} = {ty}"
      using arg_cong [OF attr(1), of set] by (simp only: set_filter list.set)
    then show "ty \<in> {RAW, ENC, HASH}" by blast
    show "map_of ?d k = None" if "k \<in> {RAW, ENC, HASH}" "k \<noteq> ty" using s that unfolding dict_in_def by blast
  qed
  have type: "get_type t = ATTRIB" using written by (auto simp: attr_update_state_def prepare_attr_for_state_def rbind_Inr_iff)
  have t': "t' = (if ty \<in> {RAW, ENC} then t\<lparr>get_payload_data := dict_set ?d ty (PyStr ?h)\<rparr> else t)"
    using ledger parsed by (auto simp: transform_txn_for_ledger_def)
  have sw: "store_write = (if ty \<noteq> HASH then Some (?h, val) else None)"
    using written parsed by (clarsimp simp: attr_update_state_def prepare_attr_for_state_def rbind_Inr_iff Let_def)
  consider "ty = RAW" | "ty = ENC" | "ty = HASH" using ty(1) by blast
  then show ?thesis
  proof cases
    case 1
    with in_store sw have "store (PyStr ?h) = Inr val" by simp
    with 1 t' type show ?thesis by (simp add: update_txn_with_extra_data_def dict_set_again)
  next
    case 2
    with in_store sw have "store (PyStr ?h) = Inr val" by simp
    moreover have "val = a" using 2 parsed x by (auto simp: parse_attr_txn_def)
    moreover have "dict_set (dict_set ?d ENC (PyStr ?h)) ENC a = ?d"
      using attr(2) 2 dict_set_same [of ?d ENC a] by (simp add: dict_set_again)
    moreover have "dict_get ?d RAW = PyNone" using ty(2) [of RAW] 2 by (simp add: dict_get_def)
    ultimately show ?thesis using 2 t' type by (simp add: update_txn_with_extra_data_def)
  next
    case 3
    then have "dict_get ?d RAW = PyNone" "dict_get ?d ENC = PyNone" using ty(2) [of RAW] ty(2) [of ENC] by (simp_all add: dict_get_def)
    with 3 t' type show ?thesis by (simp add: update_txn_with_extra_data_def)
  qed
qed

theorem ledger_attribute_restored_witness:
  "\<exists>t' k v. transform_txn_for_ledger rev py_str ex_loads (\<lambda>v. ''dump'') (ex_attr_txn ''{n:1}'') = Inr t'
    \<and> update_txn_with_extra_data (\<lambda>h. if h = PyStr k then Inr v else Inl (KeyError [])) t' =
      Inr ((ex_attr_txn ''{n:1}'')\<lparr>get_payload_data := dict_set (ex_attr ''{n:1}'') RAW (PyStr ''dump'')\<rparr>)"
proof -
  have parsed: "parse_attr_txn ex_loads (\<lambda>v. ''dump'') (get_payload_data (ex_attr_txn ''{n:1}'')) = Inr (RAW, PyStr ''n'', PyStr ''dump'')"
    by (simp add: ex_attr_txn_parts ex_attr_parts parse_attr_txn_def ex_loads_def)
  obtain w where u: "attr_update_state rev py_str id ex_loads (\<lambda>v. ''dump'') (ex_attr_txn ''{n:1}'') = Inr (w, Some (rev ''dump'', PyStr ''dump''))"
    using parsed by (simp add: attr_update_state_def prepare_attr_for_state_def ex_attr_txn_parts ex_attr_parts Let_def py_assert_def)
  obtain t' where l: "transform_txn_for_ledger rev py_str ex_loads (\<lambda>v. ''dump'') (ex_attr_txn ''{n:1}'') = Inr t'"
    using ex_attr_update(2) by blast
  let ?store = "\<lambda>h. if h = PyStr (rev ''dump'') then Inr (PyStr ''dump'') else Inl (KeyError [])"
  have "update_txn_with_extra_data ?store t' = Inr (if RAW = RAW
      then (ex_attr_txn ''{n:1}'')\<lparr>get_payload_data := dict_set (get_payload_data (ex_attr_txn ''{n:1}'')) RAW (PyStr ''dump'')\<rparr>
      else ex_attr_txn ''{n:1}'')"
    by (rule ledger_attribute_restored [OF l u _ parsed]) auto
  with l show ?thesis by (auto simp: ex_attr_txn_parts)
qed

section \<open>Authentication and quorum\<close>

text \<open>
  A sender that the identity cache does not know is authenticated only for a NYM request about itself, with the
  key in the request; for a known one the key of the cache is used, whatever the request says.
\<close>

lemma client_key_of_known_sender:
  "getVerkey kv rlp s ident False = Inr vk \<Longrightarrow> client_getVerkey ident_is_dest target_verkey kv rlp s ident req = Inr vk"
  by (simp add: client_getVerkey_def)

lemma client_key_of_unknown_sender:
  assumes "getVerkey kv rlp s ident False = Inl (KeyError e)"
    "client_getVerkey ident_is_dest target_verkey kv rlp s ident req = Inr (Some vk)"
  shows "dict_get (operation req) TXN_TYPE = PyStr NYM \<and> ident_is_dest req \<and> target_verkey req = Some vk"
  using assms
  by (auto simp: client_getVerkey_def get_verkey_specific_def nym_specific_auth_def split: option.splits if_splits)

text \<open>Only forced upgrades and messages without a type escape the quorum that plenum asks for.\<close>

lemma quorum_waived:
  assumes "is_request_need_quorum True msg_dict = Inr False" "map_of msg_dict ''operation'' = Some (PyDict opn)"
  shows "\<not> truthy (dict_get opn TXN_TYPE)
    \<or> dict_get opn TXN_TYPE = PyStr POOL_UPGRADE \<and> py_str (dict_get_default opn ''force'' (PyBool False)) = ''True''"
  using assms by (auto simp: is_request_need_quorum_def)

text \<open>A pool that is closed for writing can still be opened again.\<close>

lemma closed_pool_can_be_opened: "can_write_txn (PyBool False) t \<longleftrightarrow> t \<in> {POOL_UPGRADE, POOL_CONFIG, AUTH_RULE, AUTH_RULES}"
  by (simp add: can_write_txn_def)

text \<open>The key of a node is the last one on the pool ledger.\<close>

lemma node_verkey_loop_snoc:
  "node_verkey_loop ident (ts @ [t]) vk found = rbind (node_verkey_loop ident ts vk found) (\<lambda>(vk', found'). node_verkey_loop ident [t] vk' found')"
  by (induction ident ts vk found rule: node_verkey_loop.induct) (auto simp: rbind_def split: sum.splits)

lemma node_key_rotated:
  assumes "node_getVerkey ts ident = Inr old" "dict_index (get_payload_data t) TARGET_NYM = Inr (PyStr ident)"
    "dict_get (get_payload_data t) VERKEY = PyStr vk" "vk \<noteq> []"
  shows "node_getVerkey (ts @ [t]) ident = Inr (PyStr vk)"
  using assms by (auto simp: node_getVerkey_def node_verkey_loop_snoc rbind_Inr_iff)

text \<open>Writing the default rules to the state keeps the ones that are there.\<close>

lemma default_rules_keep_existing:
  "st rule_id = Some b \<Longrightarrow> add_auth_rules_to_config_state ser st rules rule_id = Some b"
proof (induction ser st rules rule: add_auth_rules_to_config_state.induct)
  case (2 ser st rule c rules)
  then have "(case st rule of None \<Rightarrow> st(rule \<mapsto> serialize_constraint ser (Some c)) | Some b \<Rightarrow> st) rule_id = Some b"
    by (auto split: option.splits)
  with 2(1) show ?case by simp
qed simp

end
