(* ===== verification/NodeVersion.thy ===== *)
theory NodeVersion
  imports NodeControl
begin

text \<open>
  The version of the node: the class that stands in when the version classes of plenum cannot be imported
  (indy_common/node_version_fallback.py), the restrictions that indy_common/node_version.py puts on a version
  of the packaging library, and the version and manifest files (indy_node/__metadata__.py). JSON is a
  parameter, and so is the parser of the packaging library.
\<close>

section \<open>The fallback class\<close>

text \<open>The groups of a match; the phase and its number are both there or both absent.\<close>

record fallback_version =
  fv_major :: nat
  fv_minor :: nat
  fv_patch :: nat
  fv_phase :: "string option"
  fv_serial :: "nat option"

text \<open>\<open>[0-9]+\<close>, a dot, an optional dot, and \<open>dev|rc\<close>, each with the text that follows.\<close>

definition match_number :: "string \<Rightarrow> (nat \<times> string) option" where
  "match_number s =
     (let ds = takeWhile is_digit s
      in if ds = [] then None
         else case str_nat_from 0 ds of None \<Rightarrow> None | Some n \<Rightarrow> Some (n, dropWhile is_digit s))"

fun match_dot :: "string \<Rightarrow> string option" where
  "match_dot [] = None"
| "match_dot (c # s) = (if c = CHR ''.'' then Some s else None)"

definition skip_dot :: "string \<Rightarrow> string" where
  "skip_dot s = (case match_dot s of None \<Rightarrow> s | Some r \<Rightarrow> r)"

definition match_phase :: "string \<Rightarrow> (string \<times> string) option" where
  "match_phase s =
     (if starts_with s ''dev'' then Some (''dev'', drop 3 s)
      else if starts_with s ''rc'' then Some (''rc'', drop 2 s) else None)"

definition match_suffix :: "string \<Rightarrow> (string option \<times> nat option) option" where
  "match_suffix s =
     (if s = [] then Some (None, None)
      else Option.bind (match_phase (skip_dot s)) (\<lambda>(phase, s).
           Option.bind (match_number (skip_dot s)) (\<lambda>(n, s).
             if s = [] then Some (Some phase, Some n) else None)))"

text \<open>\<open>re_pep440.fullmatch(version)\<close>\<close>

definition match_pep440 :: "string \<Rightarrow> fallback_version option" where
  "match_pep440 s =
     Option.bind (match_number s) (\<lambda>(a, s).
     Option.bind (match_dot s) (\<lambda>s.
     Option.bind (match_number s) (\<lambda>(b, s).
     Option.bind (match_dot s) (\<lambda>s.
     Option.bind (match_number s) (\<lambda>(c, s).
     Option.bind (match_suffix s) (\<lambda>(phase, n).
       Some \<lparr>fv_major = a, fv_minor = b, fv_patch = c, fv_phase = phase, fv_serial = n\<rparr>))))))"

definition InvalidVersionError :: "string \<Rightarrow> exn" where
  "InvalidVersionError m = ValueError m"

definition NodeVersionFallback :: "pyval \<Rightarrow> fallback_version res" where
  "NodeVersionFallback version =
     (case version of
        PyStr s \<Rightarrow>
          (case match_pep440 s of
             None \<Rightarrow> Inl (InvalidVersionError (''version '' @ squoted s @ '' is invalid, expected N.N.N[[.]{dev|rc}[.]N]''))
           | Some v \<Rightarrow> Inr v)
      | _ \<Rightarrow> Inl (InvalidVersionError (py_str version)))"

definition release_parts :: "fallback_version \<Rightarrow> nat list" where
  "release_parts v = [fv_major v, fv_minor v, fv_patch v]"

definition release_text :: "fallback_version \<Rightarrow> string" where
  "release_text v = py_join ''.'' (map nat_str (release_parts v))"

text \<open>\<open>public\<close> and \<open>full\<close>\<close>

definition public_text :: "fallback_version \<Rightarrow> string" where
  "public_text v =
     release_text v @
     (case fv_phase v of
        None \<Rightarrow> []
      | Some phase \<Rightarrow> (if phase = ''dev'' then ''.'' else []) @ phase @ (case fv_serial v of None \<Rightarrow> ''None'' | Some n \<Rightarrow> nat_str n))"

definition fallback_parts :: "fallback_version \<Rightarrow> pyval list" where
  "fallback_parts v =
     map (PyInt \<circ> int) (release_parts v) @
     [case fv_phase v of None \<Rightarrow> PyNone | Some p \<Rightarrow> PyStr p, case fv_serial v of None \<Rightarrow> PyNone | Some n \<Rightarrow> PyInt (int n)]"

section \<open>Restrictions on versions of the packaging library\<close>

record pep440 =
  pre :: "(string \<times> nat) option"
  post :: "nat option"
  epoch :: nat
  local_part :: "string option"
  release :: "nat list"

text \<open>\<open>NodeVersion.__init__\<close> after the constructors of the base classes.\<close>

definition check_node_version :: "pep440 \<Rightarrow> unit res" where
  "check_node_version v =
     rbind (case pre v of
              Some (phase, n) \<Rightarrow>
                if phase \<noteq> ''rc'' then Inl (InvalidVersionError (''pre-release phase '' @ squoted phase @ '' is unexpected'')) else Inr ()
            | None \<Rightarrow> Inr ()) (\<lambda>_.
       if post v \<noteq> None \<and> post v \<noteq> Some 0 then Inl (InvalidVersionError ''post-release is unexpected'')
       else if epoch v \<noteq> 0 then Inl (InvalidVersionError ''epoch is unexpected'')
       else if local_part v \<noteq> None \<and> local_part v \<noteq> Some [] then Inl (InvalidVersionError ''local version part is unexpected'')
       else if length (release v) \<notin> {2, 3} then Inl (InvalidVersionError ''release part should contain only 2 or 3 parts'')
       else Inr ())"

section \<open>The version file\<close>

text \<open>What iterating over a value yields: the items of a list, the characters of a text, the keys of a dictionary.\<close>

fun py_iter :: "pyval \<Rightarrow> pyval list option" where
  "py_iter (PyList vs) = Some vs"
| "py_iter (PyStr s) = Some (map (\<lambda>c. PyStr [c]) s)"
| "py_iter (PyDict d) = Some (map (PyStr \<circ> fst) d)"
| "py_iter _ = None"

definition load_version :: "(string \<Rightarrow> pyval res) \<Rightarrow> (pyval \<Rightarrow> 'v res) \<Rightarrow> string \<Rightarrow> string \<Rightarrow> 'v res" where
  "load_version loads NodeVersion version_file content =
     rbind (loads content) (\<lambda>version.
       case py_iter version of
         None \<Rightarrow> Inl (InvalidVersionError (''Failed to load from '' @ version_file @ '': data '' @ squoted (py_str version) @ '' is not iterable''))
       | Some vs \<Rightarrow> NodeVersion (PyStr (py_join ''.'' (filter (\<lambda>s. s \<noteq> []) (map py_str vs)))))"

text \<open>
  The text that \<open>set_version\<close> leaves in the file, where an absent part is an empty text. An invalid version
  raises before the file is opened.
\<close>

definition set_version :: "(pyval \<Rightarrow> string) \<Rightarrow> (pyval \<Rightarrow> 'v res) \<Rightarrow> ('v \<Rightarrow> pyval list) \<Rightarrow> string \<Rightarrow> string res" where
  "set_version dumps NodeVersion parts version =
     rbind (NodeVersion (PyStr version)) (\<lambda>v.
       Inr (dumps (PyList (map (\<lambda>i. if i = PyNone then PyStr [] else i) (parts v))) @ [LF]))"

text \<open>The manifest, or \<open>None\<close> if the file cannot be read; and the text that \<open>set_manifest\<close> leaves, with the keys sorted.\<close>

definition load_manifest :: "(string \<Rightarrow> pyval res) \<Rightarrow> string option \<Rightarrow> pyval res" where
  "load_manifest loads content = (case content of None \<Rightarrow> Inr PyNone | Some c \<Rightarrow> loads c)"

definition set_manifest :: "(pyval \<Rightarrow> string) \<Rightarrow> pyval \<Rightarrow> string" where
  "set_manifest dumps_sorted manifest = dumps_sorted manifest @ [LF]"

section \<open>Printing and parsing\<close>

definition written_parts :: "fallback_version \<Rightarrow> pyval list" where
  "written_parts v = map (\<lambda>i. if i = PyNone then PyStr [] else i) (fallback_parts v)"

lemma takeWhile_append_stop:
  "\<forall>x\<in>set xs. P x \<Longrightarrow> ys = [] \<or> \<not> P (hd ys) \<Longrightarrow> takeWhile P (xs @ ys) = xs \<and> dropWhile P (xs @ ys) = ys"
  by (cases ys) auto

lemma nat_str_digits: "\<forall>c\<in>set (nat_str n). is_digit c"
  by (auto simp: is_digit_def dest!: set_nat_str)

text \<open>A printed number is read back, whatever text without a leading digit follows.\<close>

lemma match_number_nat_str [simp]:
  "s = [] \<or> \<not> is_digit (hd s) \<Longrightarrow> match_number (nat_str n @ s) = Some (n, s)"
  using takeWhile_append_stop [OF nat_str_digits, of s n] by (simp add: match_number_def Let_def)

lemma not_digit [simp]: "\<not> is_digit (CHR ''.'')" "\<not> is_digit (CHR ''d'')" "\<not> is_digit (CHR ''r'')"
  by (simp_all add: is_digit_def char_digit_def)

text \<open>What the pattern can match.\<close>

definition well_formed :: "fallback_version \<Rightarrow> bool" where
  "well_formed v \<longleftrightarrow> (fv_phase v = None \<and> fv_serial v = None \<or> fv_phase v \<in> {Some ''dev'', Some ''rc''} \<and> fv_serial v \<noteq> None)"

lemma match_suffix_well_formed: "match_suffix s = Some (p, n) \<Longrightarrow> p = None \<and> n = None \<or> p \<in> {Some ''dev'', Some ''rc''} \<and> n \<noteq> None"
  by (auto simp: match_suffix_def match_phase_def bind_eq_Some_conv split: if_splits)

lemma match_pep440_well_formed: "match_pep440 s = Some v \<Longrightarrow> well_formed v"
  by (auto simp: match_pep440_def well_formed_def bind_eq_Some_conv dest!: match_suffix_well_formed)

text \<open>A suffix with or without its dots.\<close>

lemma match_suffix_text:
  assumes "p = ''dev'' \<or> p = ''rc''"
  shows "match_suffix ((if d then ''.'' else []) @ p @ (if e then ''.'' else []) @ nat_str n) = Some (Some p, Some n)"
proof -
  have dot: "match_dot (nat_str n) = None"
    using nat_str_digits [of n] nat_str_not_Nil [of n] by (cases "nat_str n") auto
  then have "match_number (skip_dot ((if e then ''.'' else []) @ nat_str n)) = Some (n, [])"
    using match_number_nat_str [of "[]" n] by (simp add: skip_dot_def)
  moreover have "match_phase (skip_dot ((if d then ''.'' else []) @ p @ r)) = Some (p, r)" for r
    using assms by (auto simp: match_phase_def skip_dot_def starts_with_def)
  moreover have "(if d then ''.'' else []) @ p @ r \<noteq> []" for r using assms by auto
  ultimately show ?thesis by (simp add: match_suffix_def)
qed

lemma match_pep440_text:
  assumes "s = [] \<or> \<not> is_digit (hd s)"
  shows "match_pep440 (py_join ''.'' (map nat_str [a, b, c]) @ s) =
    map_option (\<lambda>(p, n). \<lparr>fv_major = a, fv_minor = b, fv_patch = c, fv_phase = p, fv_serial = n\<rparr>) (match_suffix s)"
proof -
  have "match_number (nat_str a @ ''.'' @ nat_str b @ ''.'' @ nat_str c @ s) = Some (a, ''.'' @ nat_str b @ ''.'' @ nat_str c @ s)"
    "match_number (nat_str b @ ''.'' @ nat_str c @ s) = Some (b, ''.'' @ nat_str c @ s)"
    by (rule match_number_nat_str; simp)+
  with match_number_nat_str [OF assms] show ?thesis
    by (cases "match_suffix s") (auto simp: match_pep440_def)
qed

text \<open>The text of a version, and the text that joining the parts of the file gives.\<close>

lemma parse_public_text:
  assumes "well_formed v"
  shows "match_pep440 (public_text v) = Some v"
proof (cases "fv_phase v")
  case None
  with assms show ?thesis
    using match_pep440_text [of "[]" "fv_major v" "fv_minor v" "fv_patch v"]
    by (simp add: public_text_def release_text_def release_parts_def well_formed_def match_suffix_def)
next
  case (Some p)
  with assms obtain n where n: "fv_serial v = Some n" and p: "p = ''dev'' \<or> p = ''rc''" by (auto simp: well_formed_def)
  let ?s = "(if p = ''dev'' then ''.'' else []) @ p @ nat_str n"
  have "match_suffix ?s = Some (Some p, Some n)"
    using match_suffix_text [OF p, of "p = ''dev''" False n] by simp
  moreover have "?s = [] \<or> \<not> is_digit (hd ?s)" using p by auto
  ultimately show ?thesis
    using Some n match_pep440_text [of ?s "fv_major v" "fv_minor v" "fv_patch v"]
    by (simp add: public_text_def release_text_def release_parts_def)
qed

lemma parse_joined_parts:
  assumes "well_formed v"
  shows "match_pep440 (py_join ''.'' (filter (\<lambda>s. s \<noteq> []) (map (\<lambda>i. py_str (if i = PyNone then PyStr [] else i)) (fallback_parts v)))) = Some v"
proof (cases "fv_phase v")
  case None
  with assms show ?thesis
    using match_pep440_text [of "[]" "fv_major v" "fv_minor v" "fv_patch v"]
    by (simp add: fallback_parts_def release_parts_def well_formed_def match_suffix_def int_str_def)
next
  case (Some p)
  with assms obtain n where n: "fv_serial v = Some n" and p: "p = ''dev'' \<or> p = ''rc''" by (auto simp: well_formed_def)
  let ?s = "''.'' @ p @ ''.'' @ nat_str n"
  have "match_suffix ?s = Some (Some p, Some n)"
    using match_suffix_text [OF p, of True True n] by simp
  with Some n p show ?thesis
    using match_pep440_text [of ?s "fv_major v" "fv_minor v" "fv_patch v"]
    by (auto simp: fallback_parts_def release_parts_def int_str_def)
qed

text \<open>
  With the fallback class a version that was set is loaded: what \<open>set_version\<close> writes for an accepted text is read by
  \<open>load_version\<close> as the same version, and the text that the version prints for itself is read as the same
  version too. JSON gives back the list that was written.
\<close>

theorem version_file_roundtrip:
  assumes "NodeVersionFallback (PyStr t) = Inr v"
    and json: "loads (dumps (PyList (written_parts v)) @ [LF]) = Inr (PyList (written_parts v))"
  shows "rbind (set_version dumps NodeVersionFallback fallback_parts t) (load_version loads NodeVersionFallback file) = Inr v \<and>
    NodeVersionFallback (PyStr (public_text v)) = Inr v"
proof
  have "match_pep440 t = Some v" using assms(1) by (simp add: NodeVersionFallback_def split: option.splits)
  then have v: "well_formed v" by (rule match_pep440_well_formed)
  then show "NodeVersionFallback (PyStr (public_text v)) = Inr v"
    by (simp add: NodeVersionFallback_def parse_public_text)
  show "rbind (set_version dumps NodeVersionFallback fallback_parts t) (load_version loads NodeVersionFallback file) = Inr v"
    using assms(1) parse_joined_parts [OF v]
    by (simp add: set_version_def load_version_def json [unfolded written_parts_def] comp_def) (simp add: NodeVersionFallback_def)
qed

theorem version_file_roundtrip_witness:
  "\<exists>v loads dumps. fv_phase v = Some ''dev'' \<and> fv_serial v = Some 4 \<and>
     rbind (set_version dumps NodeVersionFallback fallback_parts ''1.12.3.dev4'') (load_version loads NodeVersionFallback ''version'') = Inr v \<and>
     NodeVersionFallback (PyStr (public_text v)) = Inr v"
proof -
  let ?v = "\<lparr>fv_major = 1, fv_minor = 12, fv_patch = 3, fv_phase = Some ''dev'', fv_serial = Some 4\<rparr>"
  have "NodeVersionFallback (PyStr ''1.12.3.dev4'') = Inr ?v" by code_simp
  from version_file_roundtrip [OF this, of "\<lambda>_. Inr (PyList (written_parts ?v))" py_str "''version''"]
  show ?thesis by (intro exI [of _ ?v] exI [of _ "\<lambda>_. Inr (PyList (written_parts ?v))"] exI [of _ py_str]) simp
qed

end
