(* ===== verification/LedgerMigration.thy ===== *)
theory LedgerMigration
  imports StatePaths "HOL-Library.Sublist"
begin

text \<open>
  The script that rewrites the ledgers of a node to the format of version 1.3.429
  (data/migrations/deb/1_3_428_to_1_3_429.py): every transaction gets its new format, registry definitions
  and entries get the new identifiers, the store of sequence numbers is built anew, and what can be computed again
  is removed. The directory of the ledgers is a list of named stores; which of the operations of the file system
  and of the stores fail is a parameter. So are plenum's transformation of a transaction, the serializers, the
  hash functions and the attribute store.
\<close>

section \<open>The directory of the ledgers\<close>

type_synonym 'b store = "(string \<times> 'b) list"
type_synonym 'b ledger_dir = "(string \<times> 'b store) list"

datatype fs_op = OpenStore string | CloseStore string | Put string string | Rmtree string | MoveTo string string | SetOwnPerm string

text \<open>\<open>sys.exit(1)\<close> raises an exception that \<open>except Exception\<close> does not catch.\<close>

definition system_exit :: exn where
  "system_exit = OtherException ''SystemExit: 1''"

definition os_error :: exn where
  "os_error = OtherException ''OSError''"

text \<open>Which operations fail, and what is left of a store whose removal failed half way.\<close>

record 'b faults =
  flt_fails :: "fs_op \<Rightarrow> bool"
  flt_rest :: "string \<Rightarrow> 'b store \<Rightarrow> 'b store option"

definition fs_check :: "'b faults \<Rightarrow> fs_op \<Rightarrow> ('s, unit) sres" where
  "fs_check fails oper = slift (if flt_fails fails oper then Inl os_error else Inr ())"

text \<open>A store that is opened for writing is created when it does not exist; one that is opened for reading must exist.\<close>

definition open_store :: "'b faults \<Rightarrow> string \<Rightarrow> ('b ledger_dir, unit) sres" where
  "open_store fails name =
     sbind (fs_check fails (OpenStore name)) (\<lambda>_.
       smodify (\<lambda>fs. if map_of fs name = None then AList.update name [] fs else fs))"

definition read_store :: "'b faults \<Rightarrow> string \<Rightarrow> ('b ledger_dir, 'b store) sres" where
  "read_store fails name =
     sbind (fs_check fails (OpenStore name)) (\<lambda>_ fs.
       (fs, case map_of fs name of None \<Rightarrow> Inl os_error | Some st \<Rightarrow> Inr st))"

definition put_store :: "'b faults \<Rightarrow> string \<Rightarrow> string \<Rightarrow> 'b \<Rightarrow> ('b ledger_dir, unit) sres" where
  "put_store fails name key val =
     sbind (fs_check fails (Put name key)) (\<lambda>_.
       smodify (\<lambda>fs. AList.update name (AList.update key val (case map_of fs name of None \<Rightarrow> [] | Some st \<Rightarrow> st)) fs))"

definition rmtree :: "'b faults \<Rightarrow> string \<Rightarrow> ('b ledger_dir, unit) sres" where
  "rmtree fails name fs =
     (case map_of fs name of
        None \<Rightarrow> (fs, Inl os_error)
      | Some st \<Rightarrow>
          if flt_fails fails (Rmtree name)
          then (case flt_rest fails name st of None \<Rightarrow> AList.delete name fs | Some rest \<Rightarrow> AList.update name rest fs, Inl os_error)
          else (AList.delete name fs, Inr ()))"

definition move_store :: "'b faults \<Rightarrow> string \<Rightarrow> string \<Rightarrow> ('b ledger_dir, unit) sres" where
  "move_store fails src dst =
     sbind (fs_check fails (MoveTo src dst)) (\<lambda>_ fs.
       case map_of fs src of
         None \<Rightarrow> (fs, Inl os_error)
       | Some st \<Rightarrow> (AList.update dst st (AList.delete src fs), Inr ()))"

text \<open>\<open>if os.path.exists(db): shutil.rmtree(db)\<close>\<close>

definition rmtree_if_exists :: "'b faults \<Rightarrow> string \<Rightarrow> ('b ledger_dir, unit) sres" where
  "rmtree_if_exists fails name fs = (if map_of fs name = None then (fs, Inr ()) else rmtree fails name fs)"

text \<open>\<open>try: m except Exception: return False\<close>, and what follows.\<close>

definition guarded :: "('s, unit) sres \<Rightarrow> ('s, bool) sres \<Rightarrow> ('s, bool) sres" where
  "guarded m rest s =
     (case m s of
        (s', Inl e) \<Rightarrow> if e = system_exit then (s', Inl e) else (s', Inr False)
      | (s', Inr u) \<Rightarrow> rest s')"

text \<open>The same where what follows uses the result.\<close>

definition guarded_with :: "('s, 'a) sres \<Rightarrow> ('a \<Rightarrow> ('s, bool) sres) \<Rightarrow> ('s, bool) sres" where
  "guarded_with m rest s =
     (case m s of
        (s', Inl e) \<Rightarrow> if e = system_exit then (s', Inl e) else (s', Inr False)
      | (s', Inr x) \<Rightarrow> rest x s')"

fun close_each :: "'b faults \<Rightarrow> string list \<Rightarrow> ('b ledger_dir, unit) sres" where
  "close_each fails [] = sret ()"
| "close_each fails (name # names) = sbind (fs_check fails (CloseStore name)) (\<lambda>_. close_each fails names)"

section \<open>Identifiers of registries\<close>

abbreviation ID :: string where "ID \<equiv> ''id''"

definition str_split :: "pyval \<Rightarrow> string \<Rightarrow> string list res" where
  "str_split v sep = (case v of PyStr s \<Rightarrow> Inr (py_split s sep) | _ \<Rightarrow> Inl (AttributeError ''split''))"

text \<open>\<open>None\<close> is the result \<open>False\<close> of the functions.\<close>

definition add_tag_into_cred_def_id :: "dict \<Rightarrow> dict option res" where
  "add_tag_into_cred_def_id val =
     (let old_cred_def_id = dict_get val CRED_DEF_ID
      in if \<not> truthy old_cred_def_id then Inr None
         else rbind (str_split old_cred_def_id '':'') (\<lambda>path_elems.
           case path_elems of
             [did, marker, sig_type, schema_seq_no] \<Rightarrow>
               let new_cred_def_id = make_state_path_for_claim_def (PyStr did) (PyStr schema_seq_no) (PyStr sig_type) (PyStr CLAIM_DEF_TAG_DEFAULT);
                   new_val = dict_set val CRED_DEF_ID (PyStr new_cred_def_id);
                   rev_type = dict_get new_val REVOC_TYPE; rev_tag = dict_get new_val TAG
               in if \<not> (truthy rev_type \<and> truthy rev_tag) then Inr None
                  else Inr (Some (dict_set new_val ID
                         (PyStr (make_state_path_for_revoc_def (PyStr did) (PyStr new_cred_def_id) rev_type rev_tag))))
           | _ \<Rightarrow> Inr None))"

definition add_cred_def_id_into_entry :: "dict \<Rightarrow> dict option res" where
  "add_cred_def_id_into_entry val =
     (let old_revoc_reg_def_id = dict_get val REVOC_REG_DEF_ID
      in if \<not> truthy old_revoc_reg_def_id then Inr None
         else rbind (str_split old_revoc_reg_def_id '':'') (\<lambda>path_elems.
           let n = length path_elems; cred_def_id = py_join '':'' (drop 2 (take (n - 2) path_elems))
           in if n < 2 then Inl (IndexError ''list index out of range'')
              else Inr (Some (dict_set val REVOC_REG_DEF_ID
                (PyStr (make_state_path_for_revoc_def (PyStr (path_elems ! 0)) (PyStr (cred_def_id @ '':'' @ CLAIM_DEF_TAG_DEFAULT))
                  (PyStr (path_elems ! (n - 2))) (PyStr (path_elems ! (n - 1)))))))))"

section \<open>One transaction\<close>

text \<open>
  A transaction in the new format: what the accessors give, its request id and protocol version if it has them, and
  the digest and the transaction id of its metadata.
\<close>

record ledger_txn =
  lt_txn :: txn
  lt_req_id :: "int option"
  lt_protocol_version :: "int option"
  lt_digest :: "string option"
  lt_txn_id :: "string option"

record 'b ledger_env =
  le_deserialize :: "'b \<Rightarrow> dict res"
  le_serialize :: "ledger_txn \<Rightarrow> 'b"
  le_transform :: "dict \<Rightarrow> int \<Rightarrow> ledger_txn res"
  le_digest :: "dict \<Rightarrow> string"
  le_text :: "string \<Rightarrow> 'b"
  le_pool_types :: "string list"
  le_domain_types :: "string list"
  le_config_types :: "string list"
  le_domain_write_types :: "string list"
  le_nym_path :: "string \<Rightarrow> string"
  le_sha :: "string \<Rightarrow> string"
  le_loads :: "pyval \<Rightarrow> pyval res"
  le_dumps :: "pyval \<Rightarrow> string"
  le_attr_store :: "pyval \<Rightarrow> pyval res"
  le_attr_db :: string
  le_delimiter :: string
  le_seq_no_db :: string
  le_ts_db :: string
  le_signature_db :: string
  le_fails :: "'b faults"

definition get_ledger_id_by_txn_type :: "'b ledger_env \<Rightarrow> string \<Rightarrow> int res" where
  "get_ledger_id_by_txn_type env txn_type =
     (if txn_type \<in> set (le_pool_types env) then Inr 0
      else if txn_type \<in> set (le_domain_types env) then Inr 1
      else if txn_type \<in> set (le_config_types env) then Inr 2
      else Inl system_exit)"

text \<open>
  \<open>gen_txn_path\<close>; \<open>le_nym_path\<close> is the digest of a DID in hexadecimal digits. Of the result of
  \<open>prepare_attr_for_state\<close> only the path is used, so that its serializers do not matter.
\<close>

definition attr_path :: "'b ledger_env \<Rightarrow> txn \<Rightarrow> string res" where
  "attr_path env t =
     rbind (prepare_attr_for_state (le_sha env) (\<lambda>_. []) (\<lambda>_. ()) (le_loads env) (le_dumps env) t) (\<lambda>r. Inr (as_path r))"

definition gen_txn_path :: "'b ledger_env \<Rightarrow> txn \<Rightarrow> string option res" where
  "gen_txn_path env t =
     (let ty = get_type t; data = get_payload_data t
      in if ty \<notin> set (le_domain_write_types env) then Inr None
         else if ty = NYM then rbind (encodable (dict_get data TARGET_NYM)) (\<lambda>nym. Inr (Some (le_nym_path env nym)))
         else if ty = ATTRIB then
           (if dict_in RAW data \<or> dict_in ENC data
            then let attr_type = (if dict_in RAW data then RAW else ENC)
                 in rbind (le_attr_store env (dict_get data attr_type)) (\<lambda>attr.
                    rbind (attr_path env (t\<lparr>get_payload_data := dict_set data attr_type attr\<rparr>)) (\<lambda>path. Inr (Some path)))
            else if dict_in HASH data then rbind (attr_path env t) (\<lambda>path. Inr (Some path))
            else Inr None)
         else if ty = SCHEMA then rbind (schema_path t) (\<lambda>path. Inr (Some path))
         else if ty = CLAIM_DEF then rbind (claim_def_path t) (\<lambda>path. Inr (Some path))
         else if ty = REVOC_REG_DEF then rbind (revoc_def_path t) (\<lambda>path. Inr (Some path))
         else if ty = REVOC_REG_ENTRY then rbind (revoc_reg_entry_path t) (\<lambda>path. Inr (Some path))
         else Inr None)"

text \<open>The message whose digest is the key of a transaction in the store of sequence numbers.\<close>

definition seq_no_message :: "ledger_txn \<Rightarrow> int \<Rightarrow> dict" where
  "seq_no_message new_val req_id =
     [(''identifier'', did_val (get_from (lt_txn new_val))), (''reqId'', PyInt req_id),
      (''operation'', PyDict (dict_set (get_payload_data (lt_txn new_val)) TXN_TYPE (PyStr (get_type (lt_txn new_val)))))]
     @ (case lt_protocol_version new_val of None \<Rightarrow> [] | Some v \<Rightarrow> [(''protocolVersion'', PyInt v)])"

text \<open>The record that \<open>put_into_seq_no_db\<close> writes: none for a genesis transaction.\<close>

definition seq_no_record :: "'b ledger_env \<Rightarrow> ledger_txn \<Rightarrow> (string \<times> string) option res" where
  "seq_no_record env new_val =
     (case lt_req_id new_val of
        None \<Rightarrow> Inr None
      | Some req_id \<Rightarrow>
          rbind (get_ledger_id_by_txn_type env (get_type (lt_txn new_val))) (\<lambda>ledger_id.
            Inr (Some (le_digest env (seq_no_message new_val req_id),
              py_str (PyInt ledger_id) @ le_delimiter env @ py_str (opt_int_val (get_seq_no (lt_txn new_val)))))))"

definition add_metadata :: "'b ledger_env \<Rightarrow> ledger_txn \<Rightarrow> string option \<Rightarrow> ledger_txn res" where
  "add_metadata env new_val digest =
     (case lt_req_id new_val of
        None \<Rightarrow> Inr new_val
      | Some req_id \<Rightarrow>
          if req_id = 0 then Inr new_val
          else let new_val = new_val\<lparr>lt_digest := digest\<rparr>
               in rbind (gen_txn_path env (lt_txn new_val)) (\<lambda>txn_id.
                 Inr (if txn_id \<noteq> None \<and> txn_id \<noteq> Some [] then new_val\<lparr>lt_txn_id := txn_id\<rparr> else new_val)))"

text \<open>The old transaction with its new identifiers; \<open>None\<close> if the script gives up.\<close>

definition new_identifiers :: "dict \<Rightarrow> dict option res" where
  "new_identifiers val =
     rbind (if dict_get val TXN_TYPE = PyStr REVOC_REG_DEF then add_tag_into_cred_def_id val else Inr (Some val)) (\<lambda>r.
       case r of
         None \<Rightarrow> Inr None
       | Some val \<Rightarrow> if dict_get val TXN_TYPE = PyStr REVOC_REG_ENTRY then add_cred_def_id_into_entry val else Inr (Some val))"

section \<open>The ledgers\<close>

definition ledger_types :: "string list" where
  "ledger_types = [''pool'', ''domain'', ''config'']"

definition txn_log :: "string \<Rightarrow> string" where
  "txn_log ledger_type = ledger_type @ ''_transactions''"

definition new_name :: "string \<Rightarrow> string" where
  "new_name db_name = db_name @ ''_new''"

text \<open>What the script makes of a transaction: the record of the store of sequence numbers and the new transaction.\<close>

definition migrated :: "'b ledger_env \<Rightarrow> string \<Rightarrow> 'b \<Rightarrow> ((string \<times> string) option \<times> ledger_txn) option res" where
  "migrated env key raw =
     rbind (le_deserialize env raw) (\<lambda>val.
     rbind (new_identifiers val) (\<lambda>r.
       case r of
         None \<Rightarrow> Inr None
       | Some val \<Rightarrow>
           rbind (py_int key) (\<lambda>seq_no.
           rbind (le_transform env val seq_no) (\<lambda>new_val.
           rbind (seq_no_record env new_val) (\<lambda>rec. Inr (Some (rec, new_val)))))))"

text \<open>One round of the loop, and the loop; \<open>False\<close> is the early return.\<close>

definition migrate_txn :: "'b ledger_env \<Rightarrow> string \<Rightarrow> string \<Rightarrow> 'b \<Rightarrow> ('b ledger_dir, bool) sres" where
  "migrate_txn env db_name key raw =
     sbind (slift (migrated env key raw)) (\<lambda>r.
       case r of
         None \<Rightarrow> sret False
       | Some (rec, new_val) \<Rightarrow>
           sbind (case rec of
                    None \<Rightarrow> sret ()
                  | Some (digest, line) \<Rightarrow> put_store (le_fails env) (new_name (le_seq_no_db env)) digest (le_text env line)) (\<lambda>_.
           sbind (slift (add_metadata env new_val (map_option fst rec))) (\<lambda>new_val.
           sbind (put_store (le_fails env) (new_name db_name) key (le_serialize env new_val)) (\<lambda>_. sret True))))"

fun copy_txns :: "'b ledger_env \<Rightarrow> string \<Rightarrow> 'b store \<Rightarrow> ('b ledger_dir, bool) sres" where
  "copy_txns env db_name [] = sret True"
| "copy_txns env db_name ((key, raw) # st) =
     sbind (migrate_txn env db_name key raw) (\<lambda>ok. if ok then copy_txns env db_name st else sret False)"

text \<open>\<open>try: ... except Exception: return False\<close> around a part that may return \<open>False\<close> itself.\<close>

definition guarded_bool :: "('s, bool) sres \<Rightarrow> ('s, bool) sres \<Rightarrow> ('s, bool) sres" where
  "guarded_bool m rest s =
     (case m s of
        (s', Inl e) \<Rightarrow> if e = system_exit then (s', Inl e) else (s', Inr False)
      | (s', Inr ok) \<Rightarrow> if ok then rest s' else (s', Inr False))"

definition swap_ledgers :: "'b ledger_env \<Rightarrow> string \<Rightarrow> ('b ledger_dir, bool) sres" where
  "swap_ledgers env db_name =
     guarded (rmtree (le_fails env) db_name)
       (guarded (move_store (le_fails env) (new_name db_name) db_name) (sret True))"

text \<open>
  The attribute store is opened outside of every \<open>try\<close>, and so are the stores closed after the copy: what fails
  there is raised. A failure of \<open>set_own_perm\<close> at the end is ignored.
\<close>

definition migrate_txn_log :: "'b ledger_env \<Rightarrow> string \<Rightarrow> ('b ledger_dir, bool) sres" where
  "migrate_txn_log env db_name =
     sbind (open_store (le_fails env) (le_attr_db env)) (\<lambda>_.
       guarded (open_store (le_fails env) (new_name (le_seq_no_db env)))
         (guarded_with (read_store (le_fails env) db_name) (\<lambda>src.
           guarded (open_store (le_fails env) (new_name db_name))
             (guarded_bool (copy_txns env db_name src)
               (sbind (close_each (le_fails env) [db_name, new_name db_name, new_name (le_seq_no_db env), le_attr_db env])
                 (\<lambda>_. swap_ledgers env db_name))))))"

fun migrate_txn_logs_from :: "'b ledger_env \<Rightarrow> string list \<Rightarrow> ('b ledger_dir, bool) sres" where
  "migrate_txn_logs_from env [] = sret True"
| "migrate_txn_logs_from env (ledger_type # types) =
     sbind (migrate_txn_log env (txn_log ledger_type)) (\<lambda>ok. if ok then migrate_txn_logs_from env types else sret False)"

definition migrate_txn_logs :: "'b ledger_env \<Rightarrow> ('b ledger_dir, bool) sres" where
  "migrate_txn_logs env = migrate_txn_logs_from env ledger_types"

text \<open>\<open>rename_seq_no_db\<close>: its result is not used by the caller; only \<open>set_own_perm\<close> may raise. It is \<open>None\<close>
  in the code where the model has \<open>True\<close>.\<close>

definition rename_seq_no_db :: "'b ledger_env \<Rightarrow> ('b ledger_dir, bool) sres" where
  "rename_seq_no_db env =
     guarded (rmtree (le_fails env) (le_seq_no_db env))
       (guarded (move_store (le_fails env) (new_name (le_seq_no_db env)) (le_seq_no_db env))
         (sbind (fs_check (le_fails env) (SetOwnPerm (le_seq_no_db env))) (\<lambda>_. sret True)))"

fun remove_each :: "'b faults \<Rightarrow> string list \<Rightarrow> ('b ledger_dir, unit) sres" where
  "remove_each fails [] = sret ()"
| "remove_each fails (name # names) = sbind (rmtree_if_exists fails name) (\<lambda>_. remove_each fails names)"

definition hash_stores :: "string list" where
  "hash_stores = concat (map (\<lambda>ledger_type. [ledger_type @ ''_merkleLeaves'', ledger_type @ ''_merkleNodes'']) ledger_types)"

definition state_stores :: "string list" where
  "state_stores = map (\<lambda>ledger_type. ledger_type @ ''_state'') ledger_types"

definition migrate_hash_stores :: "'b ledger_env \<Rightarrow> ('b ledger_dir, unit) sres" where
  "migrate_hash_stores env = remove_each (le_fails env) hash_stores"

definition migrate_states :: "'b ledger_env \<Rightarrow> ('b ledger_dir, unit) sres" where
  "migrate_states env = remove_each (le_fails env) state_stores"

definition migrate_ts_store :: "'b ledger_env \<Rightarrow> ('b ledger_dir, unit) sres" where
  "migrate_ts_store env = remove_each (le_fails env) (map (\<lambda>_. le_ts_db env) ledger_types)"

definition migrate_bls_signature_store :: "'b ledger_env \<Rightarrow> ('b ledger_dir, unit) sres" where
  "migrate_bls_signature_store env = remove_each (le_fails env) (map (\<lambda>_. le_signature_db env) ledger_types)"

text \<open>\<open>get_node_name\<close>, on the lines of the environment file (\<open>None\<close> if there is no such file).\<close>

fun node_name_of :: "string list \<Rightarrow> string option res" where
  "node_name_of [] = Inr None"
| "node_name_of (line # lines) =
     (if sublist ''NODE_NAME'' line
      then (case py_split line ''='' of _ # v # _ \<Rightarrow> Inr (Some (py_strip v)) | _ \<Rightarrow> Inl (IndexError ''list index out of range''))
      else node_name_of lines)"

definition get_node_name :: "string list option \<Rightarrow> string option res" where
  "get_node_name env_file = (case env_file of None \<Rightarrow> Inr None | Some lines \<Rightarrow> node_name_of lines)"

text \<open>\<open>migrate_all\<close>. The archive of the old ledger changes nothing in its directory, and its failure is ignored.\<close>

definition migrate_all :: "'b ledger_env \<Rightarrow> string list option \<Rightarrow> ('b ledger_dir, bool) sres" where
  "migrate_all env env_file =
     sbind (slift (get_node_name env_file)) (\<lambda>node_name.
       if node_name = None then sret False
       else sbind (migrate_txn_logs env) (\<lambda>ok.
         if \<not> ok then sret False
         else sbind (rename_seq_no_db env) (\<lambda>_.
              sbind (migrate_hash_stores env) (\<lambda>_.
              sbind (migrate_states env) (\<lambda>_.
              sbind (migrate_ts_store env) (\<lambda>_.
              sbind (migrate_bls_signature_store env) (\<lambda>_. sret True)))))))"

end
