(* ===== verification/LedgerMigrationProperties.thy ===== *)
theory LedgerMigrationProperties
  imports LedgerMigration
begin

text \<open>
  What the migration of the ledgers promises: whatever fails on the way, no ledger is lost; if it succeeds, each
  ledger holds every transaction in its new format, the hash stores, states, time stamps and signatures of the old
  ledgers are gone, and the store of sequence numbers is the new one unless its removal or its renaming failed; and
  the entries of a revocation registry still refer to its definition.
\<close>

section \<open>Frames\<close>

text \<open>Operations change the stores they name and no others.\<close>

lemma keeps_guarded [keeps_rules]: "keeps P m \<Longrightarrow> keeps P rest \<Longrightarrow> keeps P (guarded m rest)"
  by (fastforce simp: keeps_def guarded_def split: prod.splits sum.splits)

lemma keeps_guarded_bool [keeps_rules]: "keeps P m \<Longrightarrow> keeps P rest \<Longrightarrow> keeps P (guarded_bool m rest)"
  by (fastforce simp: keeps_def guarded_bool_def split: prod.splits sum.splits)

lemma keeps_guarded_with [keeps_rules]: "keeps P m \<Longrightarrow> (\<And>x. keeps P (rest x)) \<Longrightarrow> keeps P (guarded_with m rest)"
  by (fastforce simp: keeps_def guarded_with_def split: prod.splits sum.splits)

lemma keeps_fs_check [keeps_rules]: "keeps P (fs_check fails oper)"
  by (simp add: fs_check_def keeps_rules)

definition frame :: "string \<Rightarrow> ('b ledger_dir, 'a) sres \<Rightarrow> bool" where
  "frame name m \<longleftrightarrow> (\<forall>X. keeps (\<lambda>fs. map_of fs name = X) m)"

lemma frameD: "frame name m \<Longrightarrow> map_of (fst (m fs)) name = map_of fs name"
  by (simp add: frame_def keeps_def)

lemma frame_run: "m fs = (fs', r) \<Longrightarrow> frame name m \<Longrightarrow> map_of fs' name = map_of fs name"
  using frameD [of name m fs] by simp

lemma frame_same: "frame name m \<Longrightarrow> m fs = (fs', r) \<Longrightarrow> map_of fs' name = map_of fs name"
  by (rule frame_run)

lemma frameI: "(\<And>fs. map_of (fst (m fs)) name = map_of fs name) \<Longrightarrow> frame name m"
  by (simp add: frame_def keeps_def)

named_theorems frame_rules \<open>which stores computations leave alone\<close>

lemma frame_basic [frame_rules]: "frame n (sret x)" "frame n (slift r)" "frame n (fs_check fails oper)"
  by (simp_all add: frame_def keeps_rules)

lemma frame_sbind [frame_rules]: "frame n m \<Longrightarrow> (\<And>x. frame n (f x)) \<Longrightarrow> frame n (sbind m f)"
  by (simp add: frame_def keeps_sbind)

lemma frame_guarded [frame_rules]: "frame n m \<Longrightarrow> frame n rest \<Longrightarrow> frame n (guarded m rest)"
  by (simp add: frame_def keeps_guarded)

lemma frame_guarded_bool [frame_rules]: "frame n m \<Longrightarrow> frame n rest \<Longrightarrow> frame n (guarded_bool m rest)"
  by (simp add: frame_def keeps_guarded_bool)

lemma frame_guarded_with [frame_rules]: "frame n m \<Longrightarrow> (\<And>x. frame n (rest x)) \<Longrightarrow> frame n (guarded_with m rest)"
  by (simp add: frame_def keeps_guarded_with)

lemma frame_close_each [frame_rules]: "frame n (close_each fails names)"
  by (induction names) (simp_all only: close_each.simps frame_rules)

lemma frame_if [frame_rules]: "frame n m \<Longrightarrow> frame n m' \<Longrightarrow> frame n (if b then m else m')"
  by simp

lemma frame_case_option [frame_rules]:
  "frame n m \<Longrightarrow> (\<And>y. frame n (f y)) \<Longrightarrow> frame n (case x of None \<Rightarrow> m | Some y \<Rightarrow> f y)"
  by (cases x) simp_all

lemma frame_case_prod [frame_rules]: "(\<And>a b. frame n (f a b)) \<Longrightarrow> frame n (case x of (a, b) \<Rightarrow> f a b)"
  by (cases x) simp

lemma frame_stores [frame_rules]:
  "n \<noteq> a \<Longrightarrow> frame n (open_store fails a)"
  "frame n (read_store fails a)"
  "n \<noteq> a \<Longrightarrow> frame n (put_store fails a k v)"
  "n \<noteq> a \<Longrightarrow> frame n (rmtree fails a)"
  "n \<noteq> a \<Longrightarrow> n \<noteq> b \<Longrightarrow> frame n (move_store fails a b)"
  "n \<noteq> a \<Longrightarrow> frame n (rmtree_if_exists fails a)"
  by (auto intro!: frameI split: option.splits
      simp: open_store_def read_store_def put_store_def rmtree_def move_store_def rmtree_if_exists_def fs_check_def
        sbind_def update_conv' delete_conv')

lemma frame_migrate_txn [frame_rules]:
  "n \<noteq> new_name (le_seq_no_db env) \<Longrightarrow> n \<noteq> new_name db \<Longrightarrow> frame n (migrate_txn env db key raw)"
  unfolding migrate_txn_def by (intro frame_rules) auto

lemma frame_copy_txns [frame_rules]:
  "n \<noteq> new_name (le_seq_no_db env) \<Longrightarrow> n \<noteq> new_name db \<Longrightarrow> frame n (copy_txns env db st)"
  by (induction env db st rule: copy_txns.induct) (simp_all add: frame_rules)

lemma frame_swap [frame_rules]: "n \<noteq> db \<Longrightarrow> n \<noteq> new_name db \<Longrightarrow> frame n (swap_ledgers env db)"
  unfolding swap_ledgers_def by (intro frame_rules) auto

lemma frame_migrate_txn_log [frame_rules]:
  "n \<noteq> le_attr_db env \<Longrightarrow> n \<noteq> new_name (le_seq_no_db env) \<Longrightarrow> n \<noteq> db \<Longrightarrow> n \<noteq> new_name db \<Longrightarrow> frame n (migrate_txn_log env db)"
  unfolding migrate_txn_log_def by (intro frame_rules) auto

lemma frame_remove_each [frame_rules]: "n \<notin> set names \<Longrightarrow> frame n (remove_each fails names)"
  by (induction names) (simp_all add: frame_rules)

lemma frame_rename_seq_no_db [frame_rules]:
  "n \<noteq> le_seq_no_db env \<Longrightarrow> n \<noteq> new_name (le_seq_no_db env) \<Longrightarrow> frame n (rename_seq_no_db env)"
  unfolding rename_seq_no_db_def by (intro frame_rules) auto

section \<open>No ledger is lost\<close>

text \<open>The new form of a transaction, and a store that holds the new form of every transaction of a ledger.\<close>

definition new_form :: "'b ledger_env \<Rightarrow> string \<Rightarrow> 'b \<Rightarrow> 'b option" where
  "new_form env key raw =
     (case migrated env key raw of
        Inr (Some (rec, new_val)) \<Rightarrow>
          (case add_metadata env new_val (map_option fst rec) of Inr v \<Rightarrow> Some (le_serialize env v) | Inl e \<Rightarrow> None)
      | _ \<Rightarrow> None)"

definition complete :: "'b ledger_env \<Rightarrow> 'b store \<Rightarrow> 'b store \<Rightarrow> bool" where
  "complete env old st \<longleftrightarrow> (\<forall>(key, raw) \<in> set old. \<exists>v. new_form env key raw = Some v \<and> map_of st key = Some v)"

definition has_new :: "'b ledger_env \<Rightarrow> 'b store \<Rightarrow> string \<Rightarrow> 'b ledger_dir \<Rightarrow> bool" where
  "has_new env old name fs \<longleftrightarrow> (\<exists>st. map_of fs name = Some st \<and> complete env old st)"

text \<open>A ledger survives: it is there as it was, or all of it in the new format, under its name or still under the temporary one.\<close>

definition survives :: "'b ledger_env \<Rightarrow> 'b store \<Rightarrow> string \<Rightarrow> 'b ledger_dir \<Rightarrow> bool" where
  "survives env old db fs \<longleftrightarrow> map_of fs db = Some old \<or> has_new env old db fs \<or> has_new env old (new_name db) fs"

lemma keeps_survives: "frame db m \<Longrightarrow> frame (new_name db) m \<Longrightarrow> survives env old db fs \<Longrightarrow> survives env old db (fst (m fs))"
  by (simp add: survives_def has_new_def frameD)

lemma keeps_has_new: "frame name m \<Longrightarrow> has_new env old name fs \<Longrightarrow> has_new env old name (fst (m fs))"
  by (simp add: has_new_def frameD)

lemma put_store_lookup:
  "put_store fails a k v fs = (fs', Inr u) \<Longrightarrow> \<exists>st. map_of fs' a = Some st \<and> map_of st k = Some v
     \<and> (\<forall>k'. k' \<noteq> k \<longrightarrow> map_of st k' = (case map_of fs a of None \<Rightarrow> None | Some st0 \<Rightarrow> map_of st0 k'))"
  by (auto simp: put_store_def fs_check_def sbind_def update_conv' split: if_splits option.splits)

definition holds_at :: "string \<Rightarrow> string \<Rightarrow> 'b \<Rightarrow> 'b ledger_dir \<Rightarrow> bool" where
  "holds_at name key v fs \<longleftrightarrow> (\<exists>st. map_of fs name = Some st \<and> map_of st key = Some v)"

lemma migrate_txn_true:
  assumes "migrate_txn env db key raw fs = (fs', Inr True)" "new_name db \<noteq> new_name (le_seq_no_db env)"
  shows "\<exists>v. new_form env key raw = Some v \<and> holds_at (new_name db) key v fs'"
    and "holds_at (new_name db) k v fs \<Longrightarrow> k \<noteq> key \<Longrightarrow> holds_at (new_name db) k v fs'"
proof -
  obtain rec new_val where m: "migrated env key raw = Inr (Some (rec, new_val))"
    using assms(1) by (auto simp: migrate_txn_def sbind_Inr_iff split: option.splits)
  define first where "first = (case rec of None \<Rightarrow> sret () | Some (digest, line) \<Rightarrow>
      put_store (le_fails env) (new_name (le_seq_no_db env)) digest (le_text env line))"
  have "migrate_txn env db key raw fs = sbind first (\<lambda>_. sbind (slift (add_metadata env new_val (map_option fst rec))) (\<lambda>new_val.
      sbind (put_store (le_fails env) (new_name db) key (le_serialize env new_val)) (\<lambda>_. sret True))) fs"
    using m by (simp add: migrate_txn_def first_def)
  with assms(1) obtain fs1 nv where f: "first fs = (fs1, Inr ())" "add_metadata env new_val (map_option fst rec) = Inr nv"
      "put_store (le_fails env) (new_name db) key (le_serialize env nv) fs1 = (fs', Inr ())"
    by (auto simp: sbind_Inr_iff)
  have "frame (new_name db) first" unfolding first_def using assms(2) by (intro frame_rules) auto
  with f(1) have same: "map_of fs1 (new_name db) = map_of fs (new_name db)" by (rule frame_run)
  note put = put_store_lookup [OF f(3)]
  show "\<exists>v. new_form env key raw = Some v \<and> holds_at (new_name db) key v fs'"
    using put m f(2) by (auto simp: new_form_def holds_at_def)
  show "holds_at (new_name db) k v fs \<Longrightarrow> k \<noteq> key \<Longrightarrow> holds_at (new_name db) k v fs'"
    using put same by (auto simp: holds_at_def)
qed

lemma copy_txns_step:
  "copy_txns env db ((key, raw) # st) fs = (fs', Inr True) \<longleftrightarrow>
     (\<exists>fs1. migrate_txn env db key raw fs = (fs1, Inr True) \<and> copy_txns env db st fs1 = (fs', Inr True))"
  by (auto simp: sbind_Inr_iff split: if_splits)

lemma copy_txns_keeps:
  assumes "copy_txns env db st fs = (fs', Inr True)" "new_name db \<noteq> new_name (le_seq_no_db env)"
    "holds_at (new_name db) k v fs" "k \<notin> fst ` set st"
  shows "holds_at (new_name db) k v fs'"
  using assms(1,3,4)
proof (induction st arbitrary: fs)
  case (Cons e st)
  obtain key raw where e: "e = (key, raw)" by fastforce
  with Cons(2) obtain fs1 where s: "migrate_txn env db key raw fs = (fs1, Inr True)" "copy_txns env db st fs1 = (fs', Inr True)"
    using copy_txns_step by metis
  show ?case using Cons(1) [OF s(2)] migrate_txn_true(2) [OF s(1) assms(2) Cons(3)] Cons(4) e by simp
qed simp

lemma copy_txns_complete:
  assumes "copy_txns env db src fs = (fs', Inr True)" "new_name db \<noteq> new_name (le_seq_no_db env)"
    "distinct (map fst src)" "map_of fs (new_name db) \<noteq> None"
  shows "has_new env src (new_name db) fs'"
proof -
  have "(\<forall>(key, raw) \<in> set src. \<exists>v. new_form env key raw = Some v \<and> holds_at (new_name db) key v fs') \<and> map_of fs' (new_name db) \<noteq> None"
    using assms(1,3,4)
  proof (induction src arbitrary: fs)
    case (Cons e st)
    obtain key raw where e: "e = (key, raw)" by fastforce
    with Cons(2) obtain fs1 where s: "migrate_txn env db key raw fs = (fs1, Inr True)" "copy_txns env db st fs1 = (fs', Inr True)"
      using copy_txns_step by metis
    obtain v where v: "new_form env key raw = Some v" "holds_at (new_name db) key v fs1" using migrate_txn_true(1) [OF s(1) assms(2)] by blast
    have "map_of fs1 (new_name db) \<noteq> None" using v(2) by (auto simp: holds_at_def)
    then show ?case using Cons(1) [OF s(2)] Cons(3) e v copy_txns_keeps [OF s(2) assms(2) v(2)] by auto
  qed simp
  then show ?thesis by (fastforce simp: has_new_def complete_def holds_at_def)
qed

lemma swap_ledgers_survives:
  assumes "map_of fs db = Some old" "has_new env old (new_name db) fs" "swap_ledgers env db fs = (fs', r)"
  shows "survives env old db fs' \<and> (r = Inr True \<longrightarrow> has_new env old db fs')"
proof -
  have ne: "db \<noteq> new_name db" by (simp add: new_name_def)
  obtain st where st: "map_of fs (new_name db) = Some st" "complete env old st" using assms(2) by (auto simp: has_new_def)
  show ?thesis using assms st ne
    by (auto simp: swap_ledgers_def guarded_def rmtree_def move_store_def fs_check_def sbind_def survives_def has_new_def
        update_conv' delete_conv' split: if_splits option.splits)
qed

text \<open>A part before the last: if it is not the end then the rest runs in the state it leaves.\<close>

lemma guarded_cases:
  assumes "guarded m rest fs = (fs', r)"
  obtains (stop) e where "m fs = (fs', Inl e)" "r \<noteq> Inr True" | (go) fs1 where "m fs = (fs1, Inr ())" "rest fs1 = (fs', r)"
  using assms by (auto simp: guarded_def split: prod.splits sum.splits if_splits)

lemma guarded_bool_cases:
  assumes "guarded_bool m rest fs = (fs', r)"
  obtains (stop) r' where "m fs = (fs', r')" "r \<noteq> Inr True" | (go) fs1 where "m fs = (fs1, Inr True)" "rest fs1 = (fs', r)"
  using assms by (auto simp: guarded_bool_def split: prod.splits sum.splits if_splits)

lemma survives_old: "map_of fs db = Some old \<Longrightarrow> survives env old db fs"
  by (simp add: survives_def)

lemma guarded_with_cases:
  assumes "guarded_with m rest fs = (fs', r)"
  obtains (stop) e where "m fs = (fs', Inl e)" "r \<noteq> Inr True" | (go) fs1 x where "m fs = (fs1, Inr x)" "rest x fs1 = (fs', r)"
  using assms by (auto simp: guarded_with_def split: prod.splits sum.splits if_splits)

lemma sbind_cases:
  assumes "sbind m f fs = (fs', r)"
  obtains (stop) e where "m fs = (fs', Inl e)" "r = Inl e" | (go) fs1 x where "m fs = (fs1, Inr x)" "f x fs1 = (fs', r)"
  using assms by (auto simp: sbind_def split: prod.splits sum.splits)

lemma close_and_swap_survives:
  assumes old: "map_of fs db = Some old" "has_new env old (new_name db) fs"
    and run: "sbind (close_each fails names) (\<lambda>_. swap_ledgers env db) fs = (fs', r)"
  shows "survives env old db fs' \<and> (r = Inr True \<longrightarrow> has_new env old db fs')"
  using run
proof (cases rule: sbind_cases)
  case (stop e)
  then show ?thesis using frame_run [OF stop(1) frame_close_each] old by (simp add: survives_old)
next
  case (go fs1 x)
  have "map_of fs1 db = Some old" "has_new env old (new_name db) fs1"
    using frame_run [OF go(1) frame_close_each] old by (simp_all add: has_new_def)
  then show ?thesis using swap_ledgers_survives go(2) by blast
qed

lemma copy_and_swap_survives:
  assumes old: "map_of fs db = Some old" and d: "distinct (map fst old)"
    and names: "new_name db \<noteq> new_name (le_seq_no_db env)" "db \<noteq> new_name (le_seq_no_db env)"
    and run: "guarded (open_store (le_fails env) (new_name db)) (guarded_bool (copy_txns env db old)
      (sbind (close_each (le_fails env) opened) (\<lambda>_. swap_ledgers env db))) fs = (fs', r)"
  shows "survives env old db fs' \<and> (r = Inr True \<longrightarrow> has_new env old db fs')"
proof -
  have ne: "db \<noteq> new_name db" by (simp add: new_name_def)
  from run show ?thesis
  proof (cases rule: guarded_cases)
    case (stop e)
    then show ?thesis using frame_run [OF stop(1) frame_stores(1) [OF ne]] old by (simp add: survives_old)
  next
    case (go fs1)
    have o1: "map_of fs1 db = Some old" using frame_run [OF go(1) frame_stores(1) [OF ne]] old by simp
    have n1: "map_of fs1 (new_name db) \<noteq> None" using go(1)
      by (auto simp: open_store_def fs_check_def sbind_def update_conv' split: if_splits)
    from go(2) show ?thesis
    proof (cases rule: guarded_bool_cases)
      case (stop r')
      then show ?thesis using frame_run [OF stop(1) frame_copy_txns [OF names(2) ne]] o1 by (simp add: survives_old)
    next
      case (go fs2)
      have "map_of fs2 db = Some old" using frame_run [OF go(1) frame_copy_txns [OF names(2) ne]] o1 by simp
      moreover have "has_new env old (new_name db) fs2" using copy_txns_complete [OF go(1) names(1) d n1] .
      ultimately show ?thesis using close_and_swap_survives go(2) by blast
    qed
  qed
qed

lemma read_store_cases:
  "map_of fs name = Some st \<Longrightarrow> read_store fails name fs = (fs', r) \<Longrightarrow> fs' = fs \<and> (r = Inr st \<or> (\<exists>e. r = Inl e))"
  by (auto simp: read_store_def fs_check_def sbind_def split: if_splits)

lemma migrate_txn_log_survives:
  assumes old: "map_of fs db = Some old" and d: "distinct (map fst old)"
    and names: "new_name db \<noteq> new_name (le_seq_no_db env)" "db \<noteq> new_name (le_seq_no_db env)" "db \<noteq> le_attr_db env"
    and run: "migrate_txn_log env db fs = (fs', r)"
  shows "survives env old db fs' \<and> (r = Inr True \<longrightarrow> has_new env old db fs')"
  using run unfolding migrate_txn_log_def
proof (cases rule: sbind_cases)
  case (stop e)
  then show ?thesis using frame_run [OF stop(1) frame_stores(1) [OF names(3)]] old by (simp add: survives_old)
next
  case (go fs0 x)
  have o0: "map_of fs0 db = Some old" using frame_run [OF go(1) frame_stores(1) [OF names(3)]] old by simp
  from go(2) show ?thesis
  proof (cases rule: guarded_cases)
    case (stop e)
    then show ?thesis using frame_run [OF stop(1) frame_stores(1) [OF names(2)]] o0 by (simp add: survives_old)
  next
    case (go fs1)
    have o1: "map_of fs1 db = Some old" using frame_run [OF go(1) frame_stores(1) [OF names(2)]] o0 by simp
    from go(2) show ?thesis
    proof (cases rule: guarded_with_cases)
      case (stop e)
      then show ?thesis using read_store_cases [OF o1 stop(1)] o1 by (simp add: survives_old)
    next
      case (go fs2 src)
      have same: "fs2 = fs1" "src = old" using read_store_cases [OF o1 go(1)] by auto
      show ?thesis using copy_and_swap_survives [OF o1 d names(1,2)] go(2) unfolding same .
    qed
  qed
qed

text \<open>The names of the other stores are not those of ledgers.\<close>

definition names_apart :: "'b ledger_env \<Rightarrow> bool" where
  "names_apart env \<longleftrightarrow> le_seq_no_db env \<notin> {le_ts_db env, le_signature_db env, le_attr_db env}
     \<and> le_seq_no_db env \<notin> set (hash_stores @ state_stores) \<and> (\<forall>t \<in> set ledger_types. \<forall>n \<in> {le_seq_no_db env, new_name (le_seq_no_db env), le_ts_db env, le_signature_db env, le_attr_db env}.
     txn_log t \<noteq> n \<and> new_name (txn_log t) \<noteq> n)"

lemma log_names:
  "txn_log t = txn_log t' \<longleftrightarrow> t = t'" "new_name (txn_log t) = new_name (txn_log t') \<longleftrightarrow> t = t'" "txn_log t \<noteq> new_name (txn_log t')"
  by (auto simp: txn_log_def new_name_def dest: arg_cong [of _ _ last])

lemma frame_migrate_txn_logs_from [frame_rules]:
  "n \<noteq> le_attr_db env \<Longrightarrow> n \<noteq> new_name (le_seq_no_db env) \<Longrightarrow> n \<notin> txn_log ` set types \<Longrightarrow> n \<notin> (\<lambda>t. new_name (txn_log t)) ` set types
     \<Longrightarrow> frame n (migrate_txn_logs_from env types)"
  by (induction types) (auto intro!: frame_rules)

lemma migrate_txn_logs_survive:
  assumes apart: "names_apart env" and d: "distinct (map fst old)" and "t \<in> set types" "set types \<subseteq> set ledger_types" "distinct types"
    "map_of fs (txn_log t) = Some old" "migrate_txn_logs_from env types fs = (fs', r)"
  shows "survives env old (txn_log t) fs' \<and> (r = Inr True \<longrightarrow> has_new env old (txn_log t) fs')"
  using assms(3-)
proof (induction types arbitrary: fs)
  case (Cons a as)
  have n: "txn_log t \<noteq> new_name (le_seq_no_db env)" "new_name (txn_log t) \<noteq> new_name (le_seq_no_db env)"
      "txn_log t \<noteq> le_attr_db env" "new_name (txn_log t) \<noteq> le_attr_db env"
    using apart Cons(2,3) by (auto simp: names_apart_def)
  obtain fs1 r1 where a: "migrate_txn_log env (txn_log a) fs = (fs1, r1)" by fastforce
  have rest: "r1 = Inr True \<and> migrate_txn_logs_from env as fs1 = (fs', r) \<or> fs' = fs1 \<and> r \<noteq> Inr True"
    using Cons(6) a by (auto simp: sbind_def split: sum.splits if_splits)
  show ?case
  proof (cases "t = a")
    case True
    have one: "survives env old (txn_log t) fs1 \<and> (r1 = Inr True \<longrightarrow> has_new env old (txn_log t) fs1)"
      using migrate_txn_log_survives [OF Cons(5) d n(2,1,3)] a True by simp
    have f: "frame (txn_log t) (migrate_txn_logs_from env as)" "frame (new_name (txn_log t)) (migrate_txn_logs_from env as)"
      using Cons(4) True n by (auto intro!: frame_rules simp: log_names dest: sym)
    show ?thesis using rest one keeps_survives [OF f, of env old fs1] keeps_has_new [OF f(1), of env old fs1] by auto
  next
    case False
    then have "map_of fs1 (txn_log t) = Some old"
      using frame_run [OF a frame_migrate_txn_log [of "txn_log t"]] n Cons(5) by (simp add: log_names)
    then show ?thesis using rest Cons(1) [of fs1] Cons(2-4) False survives_old by auto
  qed
qed simp

section \<open>The store of sequence numbers\<close>

text \<open>A store has a record under a key; what is written there later does not remove it.\<close>

definition recorded_in :: "string \<Rightarrow> string \<Rightarrow> 'b ledger_dir \<Rightarrow> bool" where
  "recorded_in name key fs \<longleftrightarrow> (\<exists>st. map_of fs name = Some st \<and> map_of st key \<noteq> None)"

lemma frame_keeps_recorded: "frame name m \<Longrightarrow> keeps (recorded_in name key) m"
  by (simp add: recorded_in_def keeps_def frameD)

lemma keeps_recorded_stores:
  "keeps (recorded_in name key) (open_store fails a)" "keeps (recorded_in name key) (put_store fails a k v)"
  by (auto simp: keeps_def recorded_in_def open_store_def put_store_def fs_check_def sbind_def update_conv' split: option.splits)

lemma keeps_recorded_migrate_txn: "keeps (recorded_in name key) (migrate_txn env db k raw)"
  unfolding migrate_txn_def by (auto intro!: keeps_rules keeps_recorded_stores split: option.splits)

lemma keeps_recorded_copy: "keeps (recorded_in name key) (copy_txns env db st)"
  by (induction env db st rule: copy_txns.induct) (simp_all only: copy_txns.simps keeps_rules keeps_recorded_migrate_txn split: if_split)

lemma keeps_recorded_log:
  assumes "name \<noteq> db" "name \<noteq> new_name db"
  shows "keeps (recorded_in name key) (migrate_txn_log env db)"
proof -
  have "keeps (recorded_in name key) (close_each fails names)" "keeps (recorded_in name key) (swap_ledgers env db)" for fails names
    using assms by (intro frame_keeps_recorded frame_rules; simp)+
  then show ?thesis unfolding migrate_txn_log_def
    by (intro keeps_rules keeps_recorded_stores keeps_recorded_copy frame_keeps_recorded [OF frame_stores(2)])
qed

lemma keeps_recorded_logs:
  "\<forall>t \<in> set types. name \<noteq> txn_log t \<and> name \<noteq> new_name (txn_log t) \<Longrightarrow> keeps (recorded_in name key) (migrate_txn_logs_from env types)"
  by (induction types) (auto intro!: keeps_rules keeps_recorded_log)

lemma migrate_txn_records:
  assumes "migrate_txn env db key raw fs = (fs', Inr True)" "migrated env key raw = Inr (Some (Some (digest, line), v))"
  shows "recorded_in (new_name (le_seq_no_db env)) digest fs'"
proof -
  obtain fs1 nv where f: "put_store (le_fails env) (new_name (le_seq_no_db env)) digest (le_text env line) fs = (fs1, Inr ())"
      "put_store (le_fails env) (new_name db) key (le_serialize env nv) fs1 = (fs', Inr ())"
    using assms by (auto simp: migrate_txn_def sbind_Inr_iff)
  have "recorded_in (new_name (le_seq_no_db env)) digest fs1" using put_store_lookup [OF f(1)] by (auto simp: recorded_in_def)
  then show ?thesis using keeps_recorded_stores(2) f(2) unfolding keeps_def by (metis fst_conv)
qed

lemma keeps_run: "keeps P m \<Longrightarrow> P fs \<Longrightarrow> m fs = (fs', r) \<Longrightarrow> P fs'"
  unfolding keeps_def by (metis fst_conv)

lemma copy_txns_records:
  assumes "copy_txns env db src fs = (fs', Inr True)" "(key, raw) \<in> set src" "migrated env key raw = Inr (Some (Some (digest, line), v))"
  shows "recorded_in (new_name (le_seq_no_db env)) digest fs'"
  using assms(1,2)
proof (induction src arbitrary: fs)
  case (Cons e st)
  obtain k r where e: "e = (k, r)" by fastforce
  with Cons(2) obtain fs1 where s: "migrate_txn env db k r fs = (fs1, Inr True)" "copy_txns env db st fs1 = (fs', Inr True)"
    using copy_txns_step by metis
  show ?case
  proof (cases "e = (key, raw)")
    case True
    then have "recorded_in (new_name (le_seq_no_db env)) digest fs1" using migrate_txn_records [OF s(1)] e assms(3) by simp
    then show ?thesis using keeps_run [OF keeps_recorded_copy _ s(2)] by blast
  qed (use Cons s(2) in auto)
qed simp

lemma migrate_txn_log_records:
  assumes old: "map_of fs db = Some old" "(key, raw) \<in> set old" and m: "migrated env key raw = Inr (Some (Some (digest, line), v))"
    and names: "new_name (le_seq_no_db env) \<noteq> db" "new_name (le_seq_no_db env) \<noteq> new_name db" "db \<noteq> le_attr_db env"
    and run: "migrate_txn_log env db fs = (fs', Inr True)"
  shows "recorded_in (new_name (le_seq_no_db env)) digest fs'"
proof -
  let ?rest = "sbind (close_each (le_fails env) [db, new_name db, new_name (le_seq_no_db env), le_attr_db env]) (\<lambda>_. swap_ledgers env db)"
  obtain fs0 fs1 fs2 fs3 fs4 src where s: "open_store (le_fails env) (le_attr_db env) fs = (fs0, Inr ())"
      "open_store (le_fails env) (new_name (le_seq_no_db env)) fs0 = (fs1, Inr ())" "read_store (le_fails env) db fs1 = (fs2, Inr src)"
      "open_store (le_fails env) (new_name db) fs2 = (fs3, Inr ())" "copy_txns env db src fs3 = (fs4, Inr True)" "?rest fs4 = (fs', Inr True)"
    using run unfolding migrate_txn_log_def
    by (elim sbind_cases guarded_cases guarded_with_cases guarded_bool_cases) simp_all
  have "map_of fs1 db = Some old"
    using frame_run [OF s(1) frame_stores(1) [OF names(3)]] frame_run [OF s(2) frame_stores(1)] names old(1) by auto
  then have "src = old" using read_store_cases s(3) by blast
  then have "recorded_in (new_name (le_seq_no_db env)) digest fs4" using copy_txns_records [OF s(5) _ m] old(2) by simp
  moreover have f: "frame (new_name (le_seq_no_db env)) ?rest" using names by (intro frame_rules) auto
  ultimately show ?thesis using frame_same [OF f s(6)] by (simp add: recorded_in_def)
qed

lemma migrate_txn_logs_record:
  assumes apart: "names_apart env" and m: "migrated env key raw = Inr (Some (Some (digest, line), v))" "(key, raw) \<in> set old"
    and "t \<in> set types" "set types \<subseteq> set ledger_types" "distinct types"
    "map_of fs (txn_log t) = Some old" "migrate_txn_logs_from env types fs = (fs', Inr True)"
  shows "recorded_in (new_name (le_seq_no_db env)) digest fs'"
  using assms(4-)
proof (induction types arbitrary: fs)
  case (Cons a as)
  let ?s = "new_name (le_seq_no_db env)"
  have n: "\<forall>u \<in> set (a # as). ?s \<noteq> txn_log u \<and> ?s \<noteq> new_name (txn_log u) \<and> txn_log u \<noteq> le_attr_db env"
    using apart Cons(3) by (fastforce simp: names_apart_def)
  obtain fs1 where s: "migrate_txn_log env (txn_log a) fs = (fs1, Inr True)" "migrate_txn_logs_from env as fs1 = (fs', Inr True)"
    using Cons(6) by (auto simp: sbind_Inr_iff split: if_splits)
  show ?case
  proof (cases "t = a")
    case True
    then have r: "recorded_in ?s digest fs1" using migrate_txn_log_records [OF Cons(5) m(2,1)] s(1) n by auto
    have "keeps (recorded_in ?s digest) (migrate_txn_logs_from env as)" using n by (intro keeps_recorded_logs) auto
    from keeps_run [OF this r s(2)] show ?thesis .
  next
    case False
    have "txn_log t \<noteq> ?s" "txn_log t \<noteq> le_attr_db env" "txn_log t \<noteq> txn_log a" "txn_log t \<noteq> new_name (txn_log a)"
      using n Cons(2) False by (auto simp add: log_names)
    then have "frame (txn_log t) (migrate_txn_log env (txn_log a))" by (intro frame_migrate_txn_log) blast+
    from frame_same [OF this s(1)] have "map_of fs1 (txn_log t) = Some old" using Cons(5) by simp
    then show ?thesis using Cons(1) [of fs1] s(2) Cons(2-4) False by auto
  qed
qed simp

section \<open>What is removed\<close>

lemma remove_each_keeps_absent: "map_of fs n = None \<Longrightarrow> map_of (fst (remove_each fails names fs)) n = None"
proof (induction names arbitrary: fs)
  case (Cons a names)
  obtain fs1 r where r: "rmtree_if_exists fails a fs = (fs1, r)" by fastforce
  have "map_of fs1 n = None" using r Cons(2)
    by (auto simp: rmtree_if_exists_def rmtree_def fs_check_def sbind_def delete_conv' update_conv' split: if_splits option.splits)
  then show ?case using r Cons(1) by (cases r) (simp_all add: sbind_def)
qed simp

lemma remove_each_absent: "remove_each fails names fs = (fs', Inr u) \<Longrightarrow> n \<in> set names \<Longrightarrow> map_of fs' n = None"
proof (induction names arbitrary: fs)
  case (Cons a names)
  then obtain fs1 where r: "rmtree_if_exists fails a fs = (fs1, Inr ())" "remove_each fails names fs1 = (fs', Inr u)"
    by (auto simp: sbind_Inr_iff)
  have "map_of fs1 a = None" using r(1)
    by (auto simp: rmtree_if_exists_def rmtree_def fs_check_def sbind_def delete_conv' update_conv' split: if_splits option.splits)
  then show ?case using Cons(1) [OF r(2)] Cons(3) remove_each_keeps_absent [of fs1 a fails names] r(2) by auto
qed simp

lemma remove_each_gone:
  "remove_each fails names fs = (fs', Inr u) \<Longrightarrow> map_of fs n = None \<or> n \<in> set names \<Longrightarrow> map_of fs' n = None"
  using remove_each_absent remove_each_keeps_absent by (metis fst_conv)

text \<open>The last part of the script, after the ledgers were migrated.\<close>

definition clean_up :: "'b ledger_env \<Rightarrow> ('b ledger_dir, bool) sres" where
  "clean_up env =
     sbind (rename_seq_no_db env) (\<lambda>_.
     sbind (migrate_hash_stores env) (\<lambda>_.
     sbind (migrate_states env) (\<lambda>_.
     sbind (migrate_ts_store env) (\<lambda>_.
     sbind (migrate_bls_signature_store env) (\<lambda>_. sret True)))))"

lemmas remove_defs = migrate_hash_stores_def migrate_states_def migrate_ts_store_def migrate_bls_signature_store_def

definition computed_stores :: "'b ledger_env \<Rightarrow> string list" where
  "computed_stores env = hash_stores @ state_stores @ [le_ts_db env, le_signature_db env]"

lemma clean_up_absent:
  assumes "clean_up env fs = (fs', Inr True)" "n \<in> set (computed_stores env)"
  shows "map_of fs' n = None"
proof -
  obtain fs1 fs2 fs3 fs4 b where r: "rename_seq_no_db env fs = (fs1, Inr b)" "migrate_hash_stores env fs1 = (fs2, Inr ())"
      "migrate_states env fs2 = (fs3, Inr ())" "migrate_ts_store env fs3 = (fs4, Inr ())" "migrate_bls_signature_store env fs4 = (fs', Inr ())"
    using assms(1) by (auto simp: clean_up_def sbind_Inr_iff)
  note gone = remove_each_gone [where n = n]
  have a2: "n \<in> set hash_stores \<Longrightarrow> map_of fs2 n = None" using gone [OF r(2) [unfolded remove_defs]] by simp
  have a3: "n \<in> set (hash_stores @ state_stores) \<Longrightarrow> map_of fs3 n = None"
    using a2 gone [OF r(3) [unfolded remove_defs]] by auto
  have a4: "n \<in> set (hash_stores @ state_stores @ [le_ts_db env]) \<Longrightarrow> map_of fs4 n = None"
    using a3 gone [OF r(4) [unfolded remove_defs]] by (auto simp: ledger_types_def)
  show ?thesis using assms(2) a4 gone [OF r(5) [unfolded remove_defs]] by (auto simp: computed_stores_def ledger_types_def)
qed

lemma clean_up_seq_no_db:
  assumes "clean_up env fs = (fs', Inr True)" "recorded_in (new_name (le_seq_no_db env)) digest fs" "map_of fs (le_seq_no_db env) \<noteq> None"
    "\<not> flt_fails (le_fails env) (Rmtree (le_seq_no_db env))"
    "\<not> flt_fails (le_fails env) (MoveTo (new_name (le_seq_no_db env)) (le_seq_no_db env))" "le_seq_no_db env \<notin> set (computed_stores env)"
  shows "recorded_in (le_seq_no_db env) digest fs'"
proof -
  let ?rest = "sbind (migrate_hash_stores env) (\<lambda>_. sbind (migrate_states env) (\<lambda>_. sbind (migrate_ts_store env) (\<lambda>_.
     sbind (migrate_bls_signature_store env) (\<lambda>_. sret True))))"
  obtain fs1 b where r: "rename_seq_no_db env fs = (fs1, Inr b)" "?rest fs1 = (fs', Inr True)"
    using assms(1) unfolding clean_up_def by (elim sbind_cases) simp_all
  have "le_seq_no_db env \<noteq> new_name (le_seq_no_db env)" by (simp add: new_name_def)
  then have "recorded_in (le_seq_no_db env) digest fs1" using r(1) assms(2-5)
    by (auto simp: rename_seq_no_db_def guarded_def rmtree_def move_store_def fs_check_def sbind_def recorded_in_def
        delete_conv' update_conv' split: if_splits option.splits)
  moreover have f: "frame (le_seq_no_db env) ?rest" unfolding remove_defs
    using assms(6) by (intro frame_rules) (auto simp: computed_stores_def)
  ultimately show ?thesis using frame_same [OF f r(2)] by (simp add: recorded_in_def)
qed

lemma frame_clean_up:
  "n \<notin> {le_seq_no_db env, new_name (le_seq_no_db env)} \<Longrightarrow> n \<notin> set (computed_stores env) \<Longrightarrow> frame n (clean_up env)"
  unfolding clean_up_def remove_defs by (intro frame_rules) (auto simp: computed_stores_def)

lemma migrate_all_eq:
  "migrate_all env f =
     sbind (slift (get_node_name f)) (\<lambda>node_name.
       if node_name = None then sret False
       else sbind (migrate_txn_logs env) (\<lambda>ok. if \<not> ok then sret False else clean_up env))"
  unfolding migrate_all_def clean_up_def by (rule refl)

lemma log_not_computed:
  "names_apart env \<Longrightarrow> t \<in> set ledger_types \<Longrightarrow> txn_log t \<notin> set (computed_stores env) \<and> new_name (txn_log t) \<notin> set (computed_stores env)"
  by (auto simp: names_apart_def computed_stores_def hash_stores_def state_stores_def ledger_types_def txn_log_def new_name_def)

lemma seq_no_db_untouched:
  "names_apart env \<Longrightarrow> frame (le_seq_no_db env) (migrate_txn_logs env)"
  unfolding migrate_txn_logs_def
  by (rule frame_migrate_txn_logs_from) (auto simp: names_apart_def new_name_def)

lemma seq_no_db_not_computed: "names_apart env \<Longrightarrow> le_seq_no_db env \<notin> set (computed_stores env)"
  by (auto simp: names_apart_def computed_stores_def)

text \<open>The operations that put the new store of sequence numbers in the place of the old one succeed.\<close>

definition seq_no_db_replaced :: "'b ledger_env \<Rightarrow> 'b ledger_dir \<Rightarrow> bool" where
  "seq_no_db_replaced env fs \<longleftrightarrow> map_of fs (le_seq_no_db env) \<noteq> None \<and> \<not> flt_fails (le_fails env) (Rmtree (le_seq_no_db env))
     \<and> \<not> flt_fails (le_fails env) (MoveTo (new_name (le_seq_no_db env)) (le_seq_no_db env))"

text \<open>C33: Whatever operation of the file system or of a store fails during the migration, and whatever transaction
  it cannot migrate, no ledger is lost: each is there as it was, or completely in the new format, under its name or
  under the temporary one. If the migration reports success then each ledger has the new format under its name,
  and the hash stores, the states, the time stamps and the signatures of the old one are gone. The store of sequence
  numbers is the exception, because a failure to replace it is not reported: only if there was one, and its removal and
  the renaming of the new one do not fail, does it have a record for every migrated transaction that was a request. The configured names of stores are no names of
  ledgers or of one another (\<open>names_apart\<close>), and a ledger has each key once.\<close>

theorem ledgers_survive_migration:
  assumes apart: "names_apart env" and t: "t \<in> set ledger_types"
    and old: "map_of fs (txn_log t) = Some old" "distinct (map fst old)"
    and run: "migrate_all env f fs = (fs', r)"
  shows "survives env old (txn_log t) fs'
    \<and> (r = Inr True \<longrightarrow> has_new env old (txn_log t) fs' \<and> (\<forall>n \<in> set (computed_stores env). map_of fs' n = None)
        \<and> (seq_no_db_replaced env fs \<longrightarrow> (\<forall>(key, raw) \<in> set old. \<forall>digest line v.
             migrated env key raw = Inr (Some (Some (digest, line), v)) \<longrightarrow> recorded_in (le_seq_no_db env) digest fs')))"
proof (cases "get_node_name f")
  case (Inr name)
  obtain fs1 r1 where l: "migrate_txn_logs env fs = (fs1, r1)" by fastforce
  note l' = l [unfolded migrate_txn_logs_def]
  have one: "survives env old (txn_log t) fs1 \<and> (r1 = Inr True \<longrightarrow> has_new env old (txn_log t) fs1)"
    using migrate_txn_logs_survive [OF apart old(2) t _ _ old(1) l'] by (simp add: ledger_types_def)
  have f: "frame (txn_log t) (clean_up env)" "frame (new_name (txn_log t)) (clean_up env)"
    using log_not_computed [OF apart t] apart t by (auto intro!: frame_clean_up simp: names_apart_def)
  have seq: "recorded_in (le_seq_no_db env) digest fs'"
    if "r1 = Inr True" "clean_up env fs1 = (fs', Inr True)" "seq_no_db_replaced env fs" "(key, raw) \<in> set old"
      "migrated env key raw = Inr (Some (Some (digest, line), v))" for key raw digest line v
  proof -
    have "recorded_in (new_name (le_seq_no_db env)) digest fs1"
      using migrate_txn_logs_record [OF apart that(5,4) t _ _ old(1)] l' that(1) by (simp add: ledger_types_def)
    moreover have "map_of fs1 (le_seq_no_db env) = map_of fs (le_seq_no_db env)" using frame_run [OF l seq_no_db_untouched [OF apart]] .
    ultimately show ?thesis
      using clean_up_seq_no_db [OF that(2) _ _ _ _ seq_no_db_not_computed [OF apart]] that(3) by (simp add: seq_no_db_replaced_def)
  qed
  have "name = None \<and> fs' = fs \<and> r \<noteq> Inr True \<or> fs' = fs1 \<and> r \<noteq> Inr True \<or> r1 = Inr True \<and> clean_up env fs1 = (fs', r)"
    using run Inr l by (auto simp: migrate_all_eq sbind_def split: sum.splits if_splits)
  then consider "fs' = fs" "r \<noteq> Inr True" | "fs' = fs1" "r \<noteq> Inr True" | "r1 = Inr True" "clean_up env fs1 = (fs', r)" by blast
  then show ?thesis
  proof cases
    case 3
    have "survives env old (txn_log t) fs'" "has_new env old (txn_log t) fs'"
      using 3 one keeps_survives [OF f, of env old fs1] keeps_has_new [OF f(1), of env old fs1] by simp_all
    then show ?thesis using 3 clean_up_absent seq by blast
  qed (use one old(1) survives_old in auto)
qed (use run old in \<open>auto simp: migrate_all_eq survives_old\<close>)

text \<open>A node with one transaction in its domain ledger, and an operation of the file system that fails.\<close>

definition ex_env :: "(fs_op \<Rightarrow> bool) \<Rightarrow> string ledger_env" where
  "ex_env fails = \<lparr>le_deserialize = (\<lambda>raw. Inr [(TXN_TYPE, PyStr NYM)]), le_serialize = (\<lambda>v. ''new''),
     le_transform = (\<lambda>val n. Inr \<lparr>lt_txn = \<lparr>get_type = NYM, get_payload_data = [(TARGET_NYM, PyStr ''V4'')], get_from = Some ''V4'',
       get_req_id = 5, get_seq_no = Some n, get_txn_time = None\<rparr>, lt_req_id = Some 5, lt_protocol_version = None, lt_digest = None, lt_txn_id = None\<rparr>),
     le_digest = (\<lambda>msg. ''digest''), le_text = id, le_pool_types = [], le_domain_types = [NYM], le_config_types = [],
     le_domain_write_types = [NYM], le_nym_path = id, le_sha = id, le_loads = Inr, le_dumps = (\<lambda>v. []), le_attr_store = Inr, le_attr_db = ''attr_db'',
     le_delimiter = ''~'', le_seq_no_db = ''seq_no_db'', le_ts_db = ''state_ts_db'', le_signature_db = ''state_signature'', le_fails = \<lparr>flt_fails = fails, flt_rest = (\<lambda>name st. Some [])\<rparr>\<rparr>"

definition ex_dir :: "string ledger_dir" where
  "ex_dir = [(''pool_transactions'', []), (''domain_transactions'', [(''1'', ''old'')]), (''config_transactions'', []),
     (''seq_no_db'', []), (''domain_state'', [])]"

lemma ex_names_apart: "names_apart (ex_env fails)"
  by (simp add: names_apart_def ex_env_def ledger_types_def txn_log_def new_name_def hash_stores_def state_stores_def)

lemma ex_runs:
  "snd (migrate_all (ex_env (\<lambda>oper. False)) (Some [''NODE_NAME=Node1'']) ex_dir) = Inr True"
  "snd (migrate_all (ex_env (\<lambda>oper. oper = MoveTo ''domain_transactions_new'' ''domain_transactions'')) (Some [''NODE_NAME=Node1'']) ex_dir) = Inr False"
  "map_of (fst (migrate_all (ex_env (\<lambda>oper. oper = MoveTo ''domain_transactions_new'' ''domain_transactions'')) (Some [''NODE_NAME=Node1'']) ex_dir))
     ''domain_transactions'' = None"
  by code_simp+

theorem ledgers_survive_migration_witness:
  "(let env = ex_env (\<lambda>oper. False); r = migrate_all env (Some [''NODE_NAME=Node1'']) ex_dir
    in snd r = Inr True \<and> has_new env [(''1'', ''old'')] ''domain_transactions'' (fst r) \<and> map_of (fst r) ''domain_state'' = None)
   \<and> (let env = ex_env (\<lambda>oper. oper = MoveTo ''domain_transactions_new'' ''domain_transactions'');
          r = migrate_all env (Some [''NODE_NAME=Node1'']) ex_dir
      in snd r = Inr False \<and> has_new env [(''1'', ''old'')] ''domain_transactions_new'' (fst r))"
proof -
  have d: "txn_log ''domain'' = ''domain_transactions''" "new_name ''domain_transactions'' = ''domain_transactions_new''"
    "''domain'' \<in> set ledger_types" by (simp_all add: txn_log_def new_name_def ledger_types_def)
  have o: "map_of ex_dir (txn_log ''domain'') = Some [(''1'', ''old'')]" by (simp add: ex_dir_def d)
  note s = ledgers_survive_migration [OF ex_names_apart d(3) o, OF _ surjective_pairing]
  have "''domain_state'' \<in> set (computed_stores (ex_env (\<lambda>oper. False)))"
    by (simp add: computed_stores_def state_stores_def ledger_types_def)
  then have 1: "has_new (ex_env (\<lambda>oper. False)) [(''1'', ''old'')] ''domain_transactions''
        (fst (migrate_all (ex_env (\<lambda>oper. False)) (Some [''NODE_NAME=Node1'']) ex_dir))
      \<and> map_of (fst (migrate_all (ex_env (\<lambda>oper. False)) (Some [''NODE_NAME=Node1'']) ex_dir)) ''domain_state'' = None"
    using s [of "\<lambda>oper. False" "Some [''NODE_NAME=Node1'']"] ex_runs(1) by (simp add: d)
  let ?e = "ex_env (\<lambda>oper. oper = MoveTo ''domain_transactions_new'' ''domain_transactions'')"
  have 2: "has_new ?e [(''1'', ''old'')] ''domain_transactions_new'' (fst (migrate_all ?e (Some [''NODE_NAME=Node1'']) ex_dir))"
    using s [of "\<lambda>oper. oper = MoveTo ''domain_transactions_new'' ''domain_transactions''" "Some [''NODE_NAME=Node1'']"] ex_runs(3)
    by (simp add: d survives_def) (simp add: has_new_def)
  show ?thesis unfolding Let_def using 1 2 ex_runs(1,2) by blast
qed

text \<open>
  The result of \<open>rename_seq_no_db\<close> is not used: when the new store cannot be renamed the old one is already gone,
  and the script still reports success.
\<close>

theorem rename_failure_ignored:
  "\<exists>(env :: string ledger_env) f fs fs'. map_of fs (le_seq_no_db env) \<noteq> None \<and> migrate_all env f fs = (fs', Inr True) \<and> map_of fs' (le_seq_no_db env) = None"
proof -
  let ?e = "ex_env (\<lambda>oper. oper = MoveTo ''seq_no_db_new'' ''seq_no_db'')"
  have r: "snd (migrate_all ?e (Some [''NODE_NAME=Node1'']) ex_dir) = Inr True"
    "map_of (fst (migrate_all ?e (Some [''NODE_NAME=Node1'']) ex_dir)) (le_seq_no_db ?e) = None" by code_simp+
  have "migrate_all ?e (Some [''NODE_NAME=Node1'']) ex_dir = (fst (migrate_all ?e (Some [''NODE_NAME=Node1'']) ex_dir), Inr True)"
    using r(1) by (simp add: prod_eq_iff)
  moreover have "map_of ex_dir (le_seq_no_db ?e) \<noteq> None" by (simp add: ex_env_def ex_dir_def)
  ultimately show ?thesis using r(2) by blast
qed

text \<open>When the old store cannot be removed it stays, with the numbers of the old ledger, and the script reports success.\<close>

theorem old_seq_no_db_left:
  "\<exists>(env :: string ledger_env) f fs fs' st. map_of fs (le_seq_no_db env) = Some st \<and> st \<noteq> [] \<and> migrate_all env f fs = (fs', Inr True)
     \<and> map_of fs' (le_seq_no_db env) = Some st"
proof -
  let ?e = "(ex_env (\<lambda>oper. False))\<lparr>le_fails := \<lparr>flt_fails = (\<lambda>oper. oper = Rmtree ''seq_no_db''), flt_rest = (\<lambda>name st. Some st)\<rparr>\<rparr>"
  let ?st = "[(''old digest'', ''1~1'')]"
  let ?fs = "AList.update ''seq_no_db'' ?st ex_dir"
  have r: "snd (migrate_all ?e (Some [''NODE_NAME=Node1'']) ?fs) = Inr True"
    "map_of (fst (migrate_all ?e (Some [''NODE_NAME=Node1'']) ?fs)) (le_seq_no_db ?e) = Some ?st" by code_simp+
  have "migrate_all ?e (Some [''NODE_NAME=Node1'']) ?fs = (fst (migrate_all ?e (Some [''NODE_NAME=Node1'']) ?fs), Inr True)"
    using r(1) by (simp add: prod_eq_iff)
  moreover have "map_of ?fs (le_seq_no_db ?e) = Some ?st" by (simp add: ex_env_def update_conv')
  ultimately show ?thesis using r(2) by blast
qed

section \<open>References between registries\<close>

lemma colon_free_split_safe: "colon_free p \<Longrightarrow> split_safe '':'' p"
  by (auto simp: split_safe_def colon_free_def take_Suc hd_drop_conv_nth nth_append dest: nth_mem)

lemma split_colons: "ps \<noteq> [] \<Longrightarrow> \<forall>p \<in> set ps. colon_free p \<Longrightarrow> py_split (py_join '':'' ps) '':'' = ps"
  by (rule py_split_join) (simp_all add: colon_free_split_safe)

text \<open>The identifiers before the migration: of a claim definition, and of a registry definition of an author.\<close>

definition old_cred_def_id :: "string \<Rightarrow> string \<Rightarrow> string \<Rightarrow> string" where
  "old_cred_def_id did sig_type schema_seq_no = py_join '':'' [did, MARKER_CLAIM_DEF, sig_type, schema_seq_no]"

definition old_registry_id :: "string \<Rightarrow> string \<Rightarrow> string \<Rightarrow> string \<Rightarrow> string \<Rightarrow> string \<Rightarrow> string" where
  "old_registry_id author did sig_type schema_seq_no rev_type rev_tag =
     make_state_path_for_revoc_def (PyStr author) (PyStr (old_cred_def_id did sig_type schema_seq_no)) (PyStr rev_type) (PyStr rev_tag)"

lemma colon_free_markers: "colon_free MARKER_CLAIM_DEF" "colon_free MARKER_REVOC_DEF"
  by (simp_all add: colon_free_def)

lemma old_registry_id_split:
  assumes "\<forall>p \<in> {author, did, sig, seq, ty, tag}. colon_free p"
  shows "py_split (old_registry_id author did sig seq ty tag) '':'' = [author, MARKER_REVOC_DEF, did, MARKER_CLAIM_DEF, sig, seq, ty, tag]"
proof -
  have "old_registry_id author did sig seq ty tag = py_join '':'' [author, MARKER_REVOC_DEF, did, MARKER_CLAIM_DEF, sig, seq, ty, tag]"
    by (simp add: old_registry_id_def old_cred_def_id_def make_state_path_for_revoc_def_def)
  then show ?thesis using assms colon_free_markers by (simp only:) (rule split_colons; auto)
qed

definition new_cred_def_id :: "string \<Rightarrow> string \<Rightarrow> string \<Rightarrow> string" where
  "new_cred_def_id did sig_type schema_seq_no =
     make_state_path_for_claim_def (PyStr did) (PyStr schema_seq_no) (PyStr sig_type) (PyStr CLAIM_DEF_TAG_DEFAULT)"

definition new_registry_id :: "string \<Rightarrow> string \<Rightarrow> string \<Rightarrow> string \<Rightarrow> string \<Rightarrow> string \<Rightarrow> string" where
  "new_registry_id author did sig_type schema_seq_no rev_type rev_tag =
     make_state_path_for_revoc_def (PyStr author) (PyStr (new_cred_def_id did sig_type schema_seq_no)) (PyStr rev_type) (PyStr rev_tag)"

lemma add_tag_eq:
  assumes "\<forall>p \<in> {did, sig, seq}. colon_free p" "dict_get val CRED_DEF_ID = PyStr (old_cred_def_id did sig seq)"
    "dict_get val REVOC_TYPE = PyStr ty" "dict_get val TAG = PyStr tag" "ty \<noteq> []" "tag \<noteq> []"
  shows "add_tag_into_cred_def_id val = Inr (Some (dict_set (dict_set val CRED_DEF_ID (PyStr (new_cred_def_id did sig seq))) ID
    (PyStr (new_registry_id did did sig seq ty tag))))"
proof -
  have "py_split (old_cred_def_id did sig seq) '':'' = [did, MARKER_CLAIM_DEF, sig, seq]"
    unfolding old_cred_def_id_def using assms(1) colon_free_markers by (intro split_colons) auto
  moreover have "old_cred_def_id did sig seq \<noteq> []" by (simp add: old_cred_def_id_def)
  ultimately show ?thesis using assms(2-)
    by (simp add: add_tag_into_cred_def_id_def str_split_def Let_def new_cred_def_id_def new_registry_id_def)
qed

lemma add_entry_eq:
  assumes "\<forall>p \<in> {author, did, sig, seq, ty, tag}. colon_free p"
    "dict_get val REVOC_REG_DEF_ID = PyStr (old_registry_id author did sig seq ty tag)"
  shows "add_cred_def_id_into_entry val = Inr (Some (dict_set val REVOC_REG_DEF_ID (PyStr (new_registry_id author did sig seq ty tag))))"
proof -
  have "old_registry_id author did sig seq ty tag \<noteq> []" by (simp add: old_registry_id_def make_state_path_for_revoc_def_def)
  moreover have "py_join '':'' [did, MARKER_CLAIM_DEF, sig, seq] @ '':'' @ CLAIM_DEF_TAG_DEFAULT = new_cred_def_id did sig seq"
    by (simp add: new_cred_def_id_def make_state_path_for_claim_def_def)
  ultimately show ?thesis using assms(2) old_registry_id_split [OF assms(1)]
    by (simp add: add_cred_def_id_into_entry_def str_split_def Let_def new_registry_id_def)
qed

text \<open>C38: After the migration the entries of a revocation registry refer to its definition as before: the script
  gives the definition the identifier that it puts into the entries, which is the path of the definition with the
  claim definition's new identifier, and changes no other field of either. This is for a registry and a claim
  definition of one author, and parts of identifiers without colons.\<close>

theorem registry_references_migrated:
  assumes parts: "\<forall>p \<in> {did, sig, seq, ty, tag}. colon_free p" "ty \<noteq> []" "tag \<noteq> []"
    and defn: "dict_get val CRED_DEF_ID = PyStr (old_cred_def_id did sig seq)" "dict_get val REVOC_TYPE = PyStr ty" "dict_get val TAG = PyStr tag"
    and entry: "dict_get e REVOC_REG_DEF_ID = PyStr (old_registry_id did did sig seq ty tag)"
  shows "\<exists>val' e'. add_tag_into_cred_def_id val = Inr (Some val') \<and> add_cred_def_id_into_entry e = Inr (Some e')
    \<and> dict_get e' REVOC_REG_DEF_ID = dict_get val' ID
    \<and> dict_get val' ID = PyStr (make_state_path_for_revoc_def (PyStr did) (dict_get val' CRED_DEF_ID) (PyStr ty) (PyStr tag))
    \<and> dict_get val' CRED_DEF_ID = PyStr (make_state_path_for_claim_def (PyStr did) (PyStr seq) (PyStr sig) (PyStr CLAIM_DEF_TAG_DEFAULT))
    \<and> (\<forall>k. k \<noteq> CRED_DEF_ID \<and> k \<noteq> ID \<longrightarrow> dict_get val' k = dict_get val k) \<and> (\<forall>k. k \<noteq> REVOC_REG_DEF_ID \<longrightarrow> dict_get e' k = dict_get e k)"
  using add_tag_eq [of did sig seq val ty tag] add_entry_eq [of did did sig seq ty tag e] assms
  by (simp add: new_registry_id_def new_cred_def_id_def)

theorem registry_references_migrated_witness:
  "\<exists>val' e'. add_tag_into_cred_def_id [(CRED_DEF_ID, PyStr ''V4:3:CL:12''), (REVOC_TYPE, PyStr ''CL_ACCUM''), (TAG, PyStr ''t'')] = Inr (Some val')
    \<and> add_cred_def_id_into_entry [(REVOC_REG_DEF_ID, PyStr ''V4:4:V4:3:CL:12:CL_ACCUM:t'')] = Inr (Some e')
    \<and> dict_get e' REVOC_REG_DEF_ID = dict_get val' ID"
  using registry_references_migrated [of "''V4''" "''CL''" "''12''" "''CL_ACCUM''" "''t''"
      "[(CRED_DEF_ID, PyStr ''V4:3:CL:12''), (REVOC_TYPE, PyStr ''CL_ACCUM''), (TAG, PyStr ''t'')]"
      "[(REVOC_REG_DEF_ID, PyStr ''V4:4:V4:3:CL:12:CL_ACCUM:t'')]"]
  by (auto simp: colon_free_def dict_get_def old_cred_def_id_def old_registry_id_def make_state_path_for_revoc_def_def)

text \<open>
  The definition's new identifier starts with the author of the claim definition, the entries' with the author
  of the registry: if they differ then the entries refer to nothing.
\<close>

theorem registry_of_other_author:
  "\<exists>val val' e e'. dict_get e REVOC_REG_DEF_ID = PyStr (old_registry_id ''A2'' ''V4'' ''CL'' ''12'' ''CL_ACCUM'' ''t'')
    \<and> dict_get val CRED_DEF_ID = PyStr (old_cred_def_id ''V4'' ''CL'' ''12'')
    \<and> add_tag_into_cred_def_id val = Inr (Some val') \<and> add_cred_def_id_into_entry e = Inr (Some e')
    \<and> dict_get e' REVOC_REG_DEF_ID \<noteq> dict_get val' ID"
proof -
  let ?val = "[(CRED_DEF_ID, PyStr (old_cred_def_id ''V4'' ''CL'' ''12'')), (REVOC_TYPE, PyStr ''CL_ACCUM''), (TAG, PyStr ''t'')]"
  let ?e = "[(REVOC_REG_DEF_ID, PyStr (old_registry_id ''A2'' ''V4'' ''CL'' ''12'' ''CL_ACCUM'' ''t''))]"
  have "new_registry_id ''A2'' ''V4'' ''CL'' ''12'' ''CL_ACCUM'' ''t'' \<noteq> new_registry_id ''V4'' ''V4'' ''CL'' ''12'' ''CL_ACCUM'' ''t''"
    by (simp add: new_registry_id_def make_state_path_for_revoc_def_def)
  then show ?thesis
    using add_tag_eq [of "''V4''" "''CL''" "''12''" ?val "''CL_ACCUM''" "''t''"]
      add_entry_eq [of "''A2''" "''V4''" "''CL''" "''12''" "''CL_ACCUM''" "''t''" ?e]
    by (intro exI [of _ ?val] exI [of _ ?e] exI conjI) (auto simp: colon_free_def dict_get_def dict_set_def)
qed

end
