(* ===== verification/FileMigrations.thy ===== *)
theory FileMigrations
  imports LedgerMigration NodeControl
begin

text \<open>
  The migrations that change configuration files and move stores: the environment file
  (indy_common/migration/helper.py and the scripts of versions 1.2.274, 1.3.434, 1.4.501 and 1.6.704), the general
  configuration (1.2.189 and 1.2.234), the change from LevelDB to RocksDB (1.3.397) and the removal of the
  config state (1.9.2).
\<close>

section \<open>The environment file\<close>

text \<open>\<open>readlines\<close>: the lines of a text with their line ends; the last one may have none.\<close>

fun readlines_from :: "string \<Rightarrow> string \<Rightarrow> string list" where
  "readlines_from acc [] = (if acc = [] then [] else [rev acc])"
| "readlines_from acc (c # cs) = (if c = CHR 0x0A then rev (c # acc) # readlines_from [] cs else readlines_from (c # acc) cs)"

definition readlines :: "string \<Rightarrow> string list" where
  "readlines text = readlines_from [] text"

abbreviation newline :: string where "newline \<equiv> [CHR 0x0A]"

text \<open>\<open>line.split('=')[0].strip()\<close>\<close>

definition line_key :: "string \<Rightarrow> string" where
  "line_key line = py_strip (hd (py_split line ''=''))"

text \<open>
  \<open>update_indy_env\<close>: the temporary copy of the file takes its place if the key was found, and is removed
  otherwise.
\<close>

definition update_indy_env :: "string \<Rightarrow> string \<Rightarrow> string \<Rightarrow> string" where
  "update_indy_env key val env_file =
     (let new_line = key @ ''='' @ val @ newline; lines = readlines env_file
      in if \<exists>line \<in> set lines. line_key line = key
         then concat (map (\<lambda>line. if line_key line = key then new_line else line) lines)
         else env_file @ newline @ new_line)"

definition CLIENT_CONNECTIONS_LIMIT :: string where "CLIENT_CONNECTIONS_LIMIT = ''CLIENT_CONNECTIONS_LIMIT''"

text \<open>1.2.273 to 1.2.274\<close>

definition migrate_env :: "string \<Rightarrow> string" where
  "migrate_env env_file = env_file @ newline @ CLIENT_CONNECTIONS_LIMIT @ ''='' @ ''15360''"

text \<open>1.4.500 to 1.4.501, and 1.6.703 to 1.6.704\<close>

definition limit_1_4_501 :: "string \<Rightarrow> string" where
  "limit_1_4_501 env_file = update_indy_env CLIENT_CONNECTIONS_LIMIT (py_str (PyInt 10000)) env_file"

definition limit_1_6_704 :: "string \<Rightarrow> string" where
  "limit_1_6_704 env_file = update_indy_env CLIENT_CONNECTIONS_LIMIT (py_str (PyInt 500)) env_file"

text \<open>1.3.433 to 1.3.434: the addresses that nodes and clients connect to. \<open>writable\<close> says whether the file can be opened for appending.\<close>

definition node_ip_key :: string where "node_ip_key = ''NODE_IP''"
definition client_ip_key :: string where "client_ip_key = ''NODE_CLIENT_IP''"

definition are_ips_present_in_env :: "string \<Rightarrow> bool \<times> bool" where
  "are_ips_present_in_env env_file =
     (let ks = map line_key (readlines env_file) in (node_ip_key \<in> set ks, client_ip_key \<in> set ks))"

definition append_ips_to_env :: "string option \<Rightarrow> string option \<Rightarrow> string \<Rightarrow> string" where
  "append_ips_to_env node_ip client_ip env_file =
     (if node_ip = None \<and> client_ip = None then env_file
      else env_file @ newline
        @ (case node_ip of None \<Rightarrow> [] | Some ip \<Rightarrow> node_ip_key @ ''='' @ ip @ newline)
        @ (case client_ip of None \<Rightarrow> [] | Some ip \<Rightarrow> client_ip_key @ ''='' @ ip @ newline))"

definition migrate_ips :: "bool \<Rightarrow> string \<Rightarrow> string \<times> bool" where
  "migrate_ips writable env_file =
     (case are_ips_present_in_env env_file of (node_ip_present, client_ip_present) \<Rightarrow>
        let node_ip = (if \<not> node_ip_present then Some ''0.0.0.0'' else None);
            client_ip = (if \<not> client_ip_present then Some ''0.0.0.0'' else None)
        in if node_ip \<noteq> None \<or> client_ip \<noteq> None
           then (if writable then (append_ips_to_env node_ip client_ip env_file, True) else (env_file, False))
           else (env_file, True))"

section \<open>The general configuration\<close>

text \<open>1.2.188 to 1.2.189: the network of a node from the names in its old configuration, and the new configuration file.\<close>

record old_config =
  oc_pool_file :: "string option"
  oc_domain_file :: "string option"
  oc_current_env :: "string option"

definition get_network_from_txn_file_name :: "string \<Rightarrow> string" where
  "get_network_from_txn_file_name file_name =
     (let name_split = py_split file_name ''_''
      in if name_split \<noteq> [] \<and> last name_split \<in> {''live'', ''local'', ''sandbox''} then last name_split else ''sandbox'')"

definition get_network_name :: "old_config \<Rightarrow> string" where
  "get_network_name old_cfg =
     (case oc_pool_file old_cfg of
        Some name \<Rightarrow> get_network_from_txn_file_name name
      | None \<Rightarrow> (case oc_domain_file old_cfg of
          Some name \<Rightarrow> get_network_from_txn_file_name name
        | None \<Rightarrow> (case oc_current_env old_cfg of
            Some env \<Rightarrow> if env \<noteq> ''test'' then env else ''sandbox''
          | None \<Rightarrow> ''sandbox'')))"

definition migrate_general_config :: "string \<Rightarrow> string \<Rightarrow> string \<Rightarrow> string" where
  "migrate_general_config old_general_config new_general_config network_name =
     new_general_config @ newline
     @ concat (filter (\<lambda>line. \<not> starts_with line ''current_env'' \<and> \<not> starts_with line ''poolTransactionsFile''
                             \<and> \<not> starts_with line ''domainTransactionsFile'') (readlines old_general_config))
     @ ''NETWORK_NAME = '' @ squoted network_name @ newline"

text \<open>\<open>remove_network_from_dir_name\<close>, on the names of the stores of a node: what is renamed, and what is removed then.\<close>

fun replace_text_from :: "string \<Rightarrow> nat \<Rightarrow> string \<Rightarrow> string" where
  "replace_text_from old skip [] = []"
| "replace_text_from old (Suc skip) (c # cs) = replace_text_from old skip cs"
| "replace_text_from old 0 (c # cs) =
     (if old \<noteq> [] \<and> starts_with (c # cs) old then replace_text_from old (length old - 1) cs else c # replace_text_from old 0 cs)"

definition remove_text :: "string \<Rightarrow> string \<Rightarrow> string" where
  "remove_text old s = replace_text_from old 0 s"

definition without_network :: "string \<Rightarrow> string" where
  "without_network dname = remove_text ''_local'' (remove_text ''_live'' (remove_text ''_sandbox'' dname))"

definition recomputed_dirs :: "string list" where
  "recomputed_dirs = [''pool_state'', ''domain_state'', ''config_state'', ''idr_cache_db'']"

text \<open>\<open>os.rename\<close> of a directory: the target may be an empty directory, but no other one.\<close>

definition rename_dir :: "string \<Rightarrow> string \<Rightarrow> 'b ledger_dir \<Rightarrow> 'b ledger_dir res" where
  "rename_dir src dst fs =
     (case map_of fs src of
        None \<Rightarrow> Inl os_error
      | Some st \<Rightarrow>
          if map_of fs dst = None \<or> map_of fs dst = Some [] then Inr (AList.update dst st (AList.delete src fs)) else Inl os_error)"

fun remove_network_from_dir_name :: "string list \<Rightarrow> 'b ledger_dir \<Rightarrow> 'b ledger_dir res" where
  "remove_network_from_dir_name [] fs = Inr fs"
| "remove_network_from_dir_name (dname # visit_dirs) fs =
     (let name = without_network dname
      in rbind (if name \<noteq> dname then rename_dir dname name fs else Inr fs) (\<lambda>fs.
           remove_network_from_dir_name visit_dirs (if name \<in> set recomputed_dirs then AList.delete name fs else fs)))"

text \<open>1.2.233 to 1.2.234: the paths of the packaged configuration are appended to the general one, if there is one.\<close>

datatype path_kind = Missing | RegularFile | OtherKind

definition migrate_config :: "path_kind \<Rightarrow> string \<Rightarrow> string \<Rightarrow> string" where
  "migrate_config kind indy_config general_config =
     (if kind = RegularFile
      then general_config @ newline
        @ concat (filter (\<lambda>line. \<not> starts_with line ''NETWORK_NAME'' \<and> line \<noteq> ''# Current network'' @ newline) (readlines indy_config))
      else general_config)"

text \<open>\<open>migrate_nodes_data\<close>: the directories of nodes move one level up; one that exists there already stays as it is.\<close>

fun copy_node_dirs :: "(string \<times> 'd) list \<Rightarrow> (string \<times> 'd) list \<Rightarrow> (string \<times> 'd) list" where
  "copy_node_dirs [] target = target"
| "copy_node_dirs ((node_name, d) # dirs) target =
     copy_node_dirs dirs (if map_of target node_name = None then AList.update node_name d target else target)"

section \<open>From LevelDB to RocksDB\<close>

text \<open>
  1.3.396 to 1.3.397. The directory of the ledgers, the temporary directory beside it, and the archive under /tmp;
  which operations fail is a parameter.
\<close>

datatype conv_op = OpenLeveldb string | OpenRocksdb string | PutRocksdb string string | CloseLeveldb string | CloseRocksdb string
  | Mkdir | Tar | RmLedger | RmTemporary | MoveTemporary | OwnPerm

record 'b conversion =
  cv_ledger :: "'b ledger_dir option"
  cv_temporary :: "'b ledger_dir option"
  cv_archive :: "'b ledger_dir option"

definition conv_check :: "(conv_op \<Rightarrow> bool) \<Rightarrow> conv_op \<Rightarrow> ('s, unit) sres" where
  "conv_check fails oper = slift (if fails oper then Inl os_error else Inr ())"

definition stored :: "'b ledger_dir option \<Rightarrow> string \<Rightarrow> 'b store option" where
  "stored dir db_name = (case dir of None \<Rightarrow> None | Some fs \<Rightarrow> map_of fs db_name)"

fun copy_pairs :: "(conv_op \<Rightarrow> bool) \<Rightarrow> string \<Rightarrow> 'b store \<Rightarrow> ('b conversion, unit) sres" where
  "copy_pairs fails db_name [] = sret ()"
| "copy_pairs fails db_name ((key, val) # st) =
     sbind (conv_check fails (PutRocksdb db_name key)) (\<lambda>_.
     sbind (smodify (\<lambda>s. s\<lparr>cv_temporary := map_option (\<lambda>fs.
       AList.update db_name (AList.update key val (case map_of fs db_name of None \<Rightarrow> [] | Some st \<Rightarrow> st)) fs) (cv_temporary s)\<rparr>)) (\<lambda>_.
     copy_pairs fails db_name st))"

definition open_rocksdb :: "(conv_op \<Rightarrow> bool) \<Rightarrow> string \<Rightarrow> ('b conversion, unit) sres" where
  "open_rocksdb fails db_name =
     sbind (conv_check fails (OpenRocksdb db_name)) (\<lambda>_.
       smodify (\<lambda>s. s\<lparr>cv_temporary := map_option (\<lambda>fs. if map_of fs db_name = None then AList.update db_name [] fs else fs) (cv_temporary s)\<rparr>))"

text \<open>The stores are closed outside of every \<open>try\<close>: a failure there is raised.\<close>

definition migrate_storage :: "(conv_op \<Rightarrow> bool) \<Rightarrow> string \<Rightarrow> ('b conversion, bool) sres" where
  "migrate_storage fails db_name s =
     (case stored (cv_ledger s) db_name of
        None \<Rightarrow> (s, Inr False)
      | Some st \<Rightarrow>
          guarded (conv_check fails (OpenLeveldb db_name))
            (guarded (open_rocksdb fails db_name) (guarded (copy_pairs fails db_name st)
              (sbind (conv_check fails (CloseLeveldb db_name)) (\<lambda>_. sbind (conv_check fails (CloseRocksdb db_name)) (\<lambda>_. sret True))))) s)"

definition storage_names :: "string list" where
  "storage_names = map txn_log ledger_types @ [''attr_db'', ''idr_cache_db'', ''seq_no_db'', ''state_signature'']"

fun migrate_storages_from :: "(conv_op \<Rightarrow> bool) \<Rightarrow> string list \<Rightarrow> ('b conversion, bool) sres" where
  "migrate_storages_from fails [] = sret True"
| "migrate_storages_from fails (db_name # names) =
     sbind (migrate_storage fails db_name) (\<lambda>ok. if ok then migrate_storages_from fails names else sret False)"

definition migrate_storages :: "(conv_op \<Rightarrow> bool) \<Rightarrow> ('b conversion, bool) sres" where
  "migrate_storages fails = migrate_storages_from fails storage_names"

definition rm_temporary :: "(conv_op \<Rightarrow> bool) \<Rightarrow> ('b conversion, bool) sres" where
  "rm_temporary fails =
     sbind (conv_check fails RmTemporary) (\<lambda>_. sbind (smodify (\<lambda>s. s\<lparr>cv_temporary := None\<rparr>)) (\<lambda>_. sret False))"

text \<open>The part after the copy; a failed removal of the old ledger may have removed anything of it (\<open>rest\<close>).\<close>

definition replace_ledger :: "(conv_op \<Rightarrow> bool) \<Rightarrow> ('b ledger_dir \<Rightarrow> 'b ledger_dir option) \<Rightarrow> ('b conversion, bool) sres" where
  "replace_ledger fails rest s =
     (let s = (if fails Tar then s else s\<lparr>cv_archive := cv_ledger s\<rparr>)
      in if fails RmLedger then rm_temporary fails (s\<lparr>cv_ledger := Option.bind (cv_ledger s) rest\<rparr>)
         else let s = s\<lparr>cv_ledger := None\<rparr>
         in if fails MoveTemporary then rm_temporary fails s
            else sbind (conv_check fails OwnPerm) (\<lambda>_. sret True) (s\<lparr>cv_ledger := cv_temporary s, cv_temporary := None\<rparr>))"

definition migrate_to_rocksdb :: "(conv_op \<Rightarrow> bool) \<Rightarrow> ('b ledger_dir \<Rightarrow> 'b ledger_dir option) \<Rightarrow> string option \<Rightarrow> ('b conversion, bool) sres" where
  "migrate_to_rocksdb fails rest node_name s =
     (if node_name = None then (s, Inr False)
      else if cv_temporary s \<noteq> None then (s, Inr False)
      else if fails Mkdir then (s, Inr False)
      else sbind (migrate_storages fails) (\<lambda>ok. if ok then replace_ledger fails rest else rm_temporary fails) (s\<lparr>cv_temporary := Some []\<rparr>))"

section \<open>The config state\<close>

text \<open>1.9.1 to 1.9.2: only for the builder network; both stores must exist. An \<open>OSError\<close> is not a \<open>shutil.Error\<close> and ends the script.\<close>

definition remove_config_state :: "'b faults \<Rightarrow> string option \<Rightarrow> string \<Rightarrow> string \<Rightarrow> string \<Rightarrow> ('b ledger_dir, bool) sres" where
  "remove_config_state fails node_name network state_db ts_db fs =
     (if node_name = None then (fs, Inr False)
      else if network \<noteq> ''net3'' then (fs, Inr False)
      else if map_of fs ts_db = None then (fs, Inr False)
      else if map_of fs state_db = None then (fs, Inr False)
      else sbind (rmtree fails ts_db) (\<lambda>_. sbind (rmtree fails state_db) (\<lambda>_. sret True)) fs)"

end
