(* ===== verification/FileMigrationsProperties.thy ===== *)
theory FileMigrationsProperties
  imports FileMigrations
begin

text \<open>
  What the migrations of files promise: an update of the environment file sets its key and keeps all other settings,
  the scripts compose, addresses are added only where they are missing, and the change to RocksDB keeps
  every store, except where the code gives up after the old ledger was removed.
\<close>

section \<open>Lines\<close>

definition is_line :: "string \<Rightarrow> bool" where
  "is_line l \<longleftrightarrow> (\<exists>b. l = b @ newline \<and> CHR 0x0A \<notin> set b)"

definition last_line :: "string \<Rightarrow> string list" where
  "last_line rest = (if rest = [] then [] else [rest])"

lemma readlines_from_rest: "CHR 0x0A \<notin> set rest \<Longrightarrow> readlines_from acc rest = last_line (rev acc @ rest)"
  by (induction rest arbitrary: acc) (auto simp: last_line_def)

lemma readlines_from_line: "CHR 0x0A \<notin> set b \<Longrightarrow> readlines_from acc (b @ newline @ rest) = (rev acc @ b @ newline) # readlines_from [] rest"
  by (induction b arbitrary: acc) auto

lemma readlines_line: "is_line l \<Longrightarrow> readlines (l @ rest) = l # readlines rest"
  using readlines_from_line [of _ "[]"] by (auto simp: is_line_def readlines_def)

lemma readlines_concat:
  "\<forall>l \<in> set ls. is_line l \<Longrightarrow> CHR 0x0A \<notin> set rest \<Longrightarrow> readlines (concat ls @ rest) = ls @ last_line rest"
proof (induction ls)
  case Nil
  then show ?case using readlines_from_rest [of rest "[]"] by (simp add: readlines_def)
qed (simp add: readlines_line)

lemma text_lines:
  obtains ls rest where "t = concat ls @ rest" "\<forall>l \<in> set ls. is_line l" "CHR 0x0A \<notin> set rest"
proof -
  have "\<exists>ls rest. t = concat ls @ rest \<and> (\<forall>l \<in> set ls. is_line l) \<and> CHR 0x0A \<notin> set rest"
  proof (induction "length t" arbitrary: t rule: less_induct)
    case less
    show ?case
    proof (cases "CHR 0x0A \<in> set t")
      case True
      then obtain b u where e: "t = b @ CHR 0x0A # u" "CHR 0x0A \<notin> set b" by (metis split_list_first)
      with less [of u] e(1) obtain ls rest where "u = concat ls @ rest" "\<forall>l \<in> set ls. is_line l" "CHR 0x0A \<notin> set rest" by auto
      with e show ?thesis by (intro exI [of _ "(b @ newline) # ls"] exI [of _ rest]) (auto simp: is_line_def)
    qed (intro exI [of _ "[]"] exI [of _ t], simp)
  qed
  then show ?thesis using that by blast
qed

section \<open>Keys\<close>

lemma hd_py_split_from: "hd (py_split_from [c] acc s) = rev acc @ takeWhile (\<lambda>x. x \<noteq> c) s"
proof (induction s arbitrary: acc)
  case (Cons a s)
  then show ?case by (auto simp: py_split_from.simps)
qed (simp add: py_split_from.simps)

lemma line_key_eq: "line_key line = py_strip (takeWhile (\<lambda>x. x \<noteq> CHR ''='') line)"
  by (simp add: line_key_def py_split_def hd_py_split_from)

lemma dropWhile_snoc_space: "is_space c \<Longrightarrow> py_strip (s @ [c]) = py_strip s"
  by (cases "\<forall>x \<in> set s. is_space x") (auto simp: py_strip_def dropWhile_append dropWhile_eq_Nil_conv [THEN iffD2])

lemma py_strip_Nil [simp]: "py_strip [] = []"
  by (simp add: py_strip_def)

lemma newline_space: "is_space (CHR 0x0A)"
  by (simp add: is_space_def)

lemma line_key_newline: "line_key (s @ newline) = line_key s"
proof (cases "CHR ''='' \<in> set s")
  case True
  then show ?thesis by (metis (mono_tags, lifting) line_key_eq takeWhile_append1)
next
  case False
  then have "takeWhile (\<lambda>x. x \<noteq> CHR ''='') (s @ newline) = s @ newline" "takeWhile (\<lambda>x. x \<noteq> CHR ''='') s = s"
    by (auto simp: takeWhile_eq_all_conv)
  then show ?thesis by (simp only: line_key_eq dropWhile_snoc_space [OF newline_space])
qed

text \<open>A key of the environment file, and the line that sets it.\<close>

definition env_key :: "string \<Rightarrow> bool" where
  "env_key key \<longleftrightarrow> key \<noteq> [] \<and> py_strip key = key \<and> CHR ''='' \<notin> set key \<and> CHR 0x0A \<notin> set key"

definition setting :: "string \<Rightarrow> string \<Rightarrow> string" where
  "setting key val = key @ ''='' @ val @ newline"

lemma line_key_setting: "env_key key \<Longrightarrow> line_key (setting key val) = key"
  by (simp add: env_key_def setting_def line_key_eq takeWhile_append takeWhile_eq_all_conv [THEN iffD2])

lemma is_line_setting: "env_key key \<Longrightarrow> CHR 0x0A \<notin> set val \<Longrightarrow> is_line (setting key val)"
  unfolding is_line_def setting_def by (rule exI [of _ "key @ ''='' @ val"]) (simp add: env_key_def)

lemma line_key_blank: "env_key key \<Longrightarrow> line_key newline \<noteq> key"
  by (auto simp: line_key_eq env_key_def py_strip_def newline_space)

section \<open>Updates of the environment file\<close>

text \<open>The settings of other keys, in order, without blank lines and the space around them.\<close>

definition other_settings :: "string \<Rightarrow> string \<Rightarrow> string list" where
  "other_settings key s = filter (\<lambda>l. l \<noteq> []) (map py_strip (filter (\<lambda>l. line_key l \<noteq> key) (readlines s)))"

definition settings_of :: "string \<Rightarrow> string \<Rightarrow> string list" where
  "settings_of key s = filter (\<lambda>l. line_key l = key) (readlines s)"

lemma readlines_append:
  assumes "\<forall>l \<in> set new. is_line l" "CHR 0x0A \<notin> set u"
  shows "\<exists>ls rest. readlines s = ls @ last_line rest \<and> readlines (s @ newline @ concat new @ u) = ls @ (rest @ newline) # new @ last_line u"
proof -
  obtain ls rest where t: "s = concat ls @ rest" "\<forall>l \<in> set ls. is_line l" "CHR 0x0A \<notin> set rest" by (rule text_lines)
  have "\<forall>x \<in> set (ls @ (rest @ newline) # new). is_line x" using t(2,3) assms by (auto simp: is_line_def)
  from readlines_concat [OF this assms(2)] have "readlines (s @ newline @ concat new @ u) = ls @ (rest @ newline) # new @ last_line u"
    by (simp add: t(1))
  moreover have "readlines s = ls @ last_line rest" using readlines_concat [OF t(2,3)] by (simp add: t(1))
  ultimately show ?thesis by blast
qed

text \<open>Lines that are appended after a line end add their settings and change no other.\<close>

lemma append_lines:
  assumes "\<forall>l \<in> set new. is_line l" "CHR 0x0A \<notin> set u" "env_key key"
  shows "map line_key (settings_of key (s @ newline @ concat new @ u)) = map line_key (settings_of key s) @ filter (\<lambda>k. k = key) (map line_key (new @ last_line u))"
    and "other_settings key (s @ newline @ concat new @ u)
      = other_settings key s @ filter (\<lambda>l. l \<noteq> []) (map py_strip (filter (\<lambda>l. line_key l \<noteq> key) (new @ last_line u)))"
proof -
  obtain ls rest where r: "readlines s = ls @ last_line rest"
    "readlines (s @ newline @ concat new @ u) = ls @ (rest @ newline) # new @ last_line u" using readlines_append [OF assms(1,2)] by blast
  have b: "line_key (rest @ newline) = (if rest = [] then line_key newline else line_key rest)" "line_key newline \<noteq> key"
    using line_key_newline [of rest] line_key_blank [OF assms(3)] by auto
  show "map line_key (settings_of key (s @ newline @ concat new @ u)) = map line_key (settings_of key s) @ filter (\<lambda>k. k = key) (map line_key (new @ last_line u))"
    using b unfolding settings_of_def r by (auto simp: last_line_def filter_map comp_def)
  show "other_settings key (s @ newline @ concat new @ u)
      = other_settings key s @ filter (\<lambda>l. l \<noteq> []) (map py_strip (filter (\<lambda>l. line_key l \<noteq> key) (new @ last_line u)))"
    using b unfolding other_settings_def r
    by (auto simp: last_line_def dropWhile_snoc_space newline_space)
qed

lemma replace_lines:
  assumes "is_line new_line"
  shows "readlines (concat (map (\<lambda>l. if P l then new_line else l) (readlines s))) = map (\<lambda>l. if P l then new_line else l) (readlines s)"
proof -
  obtain ls rest where t: "s = concat ls @ rest" "\<forall>l \<in> set ls. is_line l" "CHR 0x0A \<notin> set rest" by (rule text_lines)
  let ?f = "\<lambda>l. if P l then new_line else l"
  have r: "readlines s = ls @ last_line rest" using readlines_concat [OF t(2,3)] by (simp add: t(1))
  have f: "\<forall>l \<in> set (map ?f ls). is_line l" using t(2) assms by auto
  show ?thesis
  proof (cases "rest = [] \<or> \<not> P rest")
    case True
    then show ?thesis using readlines_concat [OF f t(3)] r by (auto simp: last_line_def)
  next
    case False
    have "\<forall>l \<in> set (map ?f ls @ [new_line]). is_line l" using f assms by auto
    from readlines_concat [OF this, of "[]"] show ?thesis using False r by (auto simp: last_line_def)
  qed
qed

lemma update_indy_env_eq:
  "update_indy_env key val s =
     (if \<exists>line \<in> set (readlines s). line_key line = key
      then concat (map (\<lambda>l. if line_key l = key then setting key val else l) (readlines s))
      else s @ newline @ setting key val)"
  unfolding update_indy_env_def Let_def setting_def by (rule refl)

text \<open>An update sets its key, however often and in whatever form it was set before, and keeps the other settings.\<close>

lemma env_updated:
  assumes key: "env_key key" and val: "CHR 0x0A \<notin> set val"
  shows "set (settings_of key (update_indy_env key val s)) = {setting key val}"
    and "other_settings key (update_indy_env key val s) = other_settings key s"
proof -
  let ?f = "\<lambda>l. if line_key l = key then setting key val else l"
  note line = is_line_setting [OF key val] and k = line_key_setting [OF key, of val]
  show "set (settings_of key (update_indy_env key val s)) = {setting key val}"
  proof (cases "\<exists>line \<in> set (readlines s). line_key line = key")
    case True
    then show ?thesis using replace_lines [OF line, of "\<lambda>l. line_key l = key" s] k by (auto simp: update_indy_env_eq settings_of_def)
  next
    case False
    then have "map line_key (settings_of key (s @ newline @ concat [setting key val] @ [])) = [key]"
      using append_lines(1) [of "[setting key val]" "[]" key s] line key k by (auto simp: settings_of_def last_line_def filter_empty_conv)
    moreover have "setting key val \<in> set (settings_of key (s @ newline @ concat [setting key val] @ []))"
      using readlines_append [of "[setting key val]" "[]" s] line k by (auto simp: settings_of_def)
    ultimately have "settings_of key (s @ newline @ setting key val) = [setting key val]" by (auto simp: map_eq_Cons_conv)
    then show ?thesis using False by (simp add: update_indy_env_eq)
  qed
  show "other_settings key (update_indy_env key val s) = other_settings key s"
  proof (cases "\<exists>line \<in> set (readlines s). line_key line = key")
    case True
    have "filter (\<lambda>l. line_key l \<noteq> key) (map ?f ls) = filter (\<lambda>l. line_key l \<noteq> key) ls" for ls using k by (induction ls) auto
    then show ?thesis using True replace_lines [OF line, of "\<lambda>l. line_key l = key" s]
      by (simp only: update_indy_env_eq other_settings_def if_True)
  next
    case False
    then show ?thesis using append_lines(2) [of "[setting key val]" "[]" key s] line key k
      by (simp add: update_indy_env_eq last_line_def)
  qed
qed

lemma limit_key: "env_key CLIENT_CONNECTIONS_LIMIT"
  by (simp add: env_key_def CLIENT_CONNECTIONS_LIMIT_def py_strip_def is_space_def)

text \<open>The three migrations of the limit of client connections compose: whatever the environment file held, after
  them the limit is set to 500 on every line that sets it and there is such a line, and all other settings of the
  file are as they were.\<close>

theorem connection_limit_migrated:
  "set (settings_of CLIENT_CONNECTIONS_LIMIT (limit_1_6_704 (limit_1_4_501 (migrate_env s)))) = {setting CLIENT_CONNECTIONS_LIMIT ''500''}
   \<and> other_settings CLIENT_CONNECTIONS_LIMIT (limit_1_6_704 (limit_1_4_501 (migrate_env s))) = other_settings CLIENT_CONNECTIONS_LIMIT s"
proof -
  have vals: "py_str (PyInt 10000) = ''10000''" "py_str (PyInt 500) = ''500''" by (simp_all add: int_str_def digit_char_def nat_str.simps)
  let ?u = "CLIENT_CONNECTIONS_LIMIT @ ''='' @ ''15360''"
  have u: "CHR 0x0A \<notin> set ?u" "?u \<noteq> []" by (simp_all add: CLIENT_CONNECTIONS_LIMIT_def)
  have k: "line_key ?u = CLIENT_CONNECTIONS_LIMIT"
    using line_key_setting [OF limit_key, of "''15360''"] line_key_newline [of ?u] by (simp add: setting_def)
  have "other_settings CLIENT_CONNECTIONS_LIMIT (migrate_env s) = other_settings CLIENT_CONNECTIONS_LIMIT s"
    using append_lines(2) [of "[]" ?u, OF _ u(1) limit_key, of s] k by (simp add: migrate_env_def last_line_def)
  then show ?thesis unfolding limit_1_4_501_def limit_1_6_704_def vals
    using env_updated [OF limit_key, of "''10000''" "migrate_env s"] env_updated [OF limit_key, of "''500''"] by simp
qed

text \<open>The script that adds addresses adds those that are missing, and a second run changes nothing.\<close>

lemma keys_append:
  "\<forall>l \<in> set new. is_line l \<Longrightarrow> set (map line_key (readlines (s @ newline @ concat new)))
     \<supseteq> set (map line_key (readlines s)) - {[]} \<union> set (map line_key new)"
  using readlines_append [of new "[]" s] line_key_newline by (force simp: last_line_def split: if_splits)

lemma ip_keys: "env_key node_ip_key" "env_key client_ip_key"
  by (simp_all add: env_key_def node_ip_key_def client_ip_key_def py_strip_def is_space_def)

theorem ips_added:
  "snd (migrate_ips True s) \<and> are_ips_present_in_env (fst (migrate_ips True s)) = (True, True)
   \<and> migrate_ips w (fst (migrate_ips True s)) = (fst (migrate_ips True s), True)"
proof -
  let ?new = "(if node_ip_key \<notin> set (map line_key (readlines s)) then [setting node_ip_key ''0.0.0.0''] else [])
    @ (if client_ip_key \<notin> set (map line_key (readlines s)) then [setting client_ip_key ''0.0.0.0''] else [])"
  have line: "\<forall>l \<in> set ?new. is_line l" using is_line_setting [OF ip_keys(1)] is_line_setting [OF ip_keys(2)] by auto
  have k: "line_key (setting node_ip_key v) = node_ip_key" "line_key (setting client_ip_key v) = client_ip_key" for v
    using line_key_setting ip_keys by simp_all
  have ne: "node_ip_key \<noteq> []" "client_ip_key \<noteq> []" by (simp_all add: node_ip_key_def client_ip_key_def)
  have run: "migrate_ips True s = (if ?new = [] then s else s @ newline @ concat ?new, True)"
    by (simp add: migrate_ips_def are_ips_present_in_env_def append_ips_to_env_def setting_def Let_def)
  have "are_ips_present_in_env (fst (migrate_ips True s)) = (True, True)"
    unfolding run using keys_append [OF line, of s] k ne
    by (auto simp: are_ips_present_in_env_def Let_def split: if_splits)
  moreover have "migrate_ips w x = (x, True)" if "are_ips_present_in_env x = (True, True)" for x
    using that by (simp add: migrate_ips_def)
  moreover have "snd (migrate_ips True s)" unfolding run by simp
  ultimately show ?thesis by blast
qed

section \<open>From LevelDB to RocksDB\<close>

text \<open>The stores of the temporary directory that are complete copies.\<close>

definition same_store :: "'b store \<Rightarrow> 'b store option \<Rightarrow> bool" where
  "same_store st copy \<longleftrightarrow> (\<exists>c. copy = Some c \<and> (\<forall>k. map_of c k = map_of st k))"

lemma conv_check_simps [simp]: "sbind (conv_check fails oper) f s = (if fails oper then (s, Inl os_error) else f () s)"
  by (simp add: conv_check_def sbind_def)

lemma conv_check_run: "conv_check fails oper s = (s, if fails oper then Inl os_error else Inr ())"
  by (simp add: conv_check_def)

definition put_temporary :: "string \<Rightarrow> string \<Rightarrow> 'b \<Rightarrow> 'b conversion \<Rightarrow> 'b conversion" where
  "put_temporary db k v s = s\<lparr>cv_temporary := map_option (\<lambda>fs.
     AList.update db (AList.update k v (case map_of fs db of None \<Rightarrow> [] | Some st \<Rightarrow> st)) fs) (cv_temporary s)\<rparr>"

lemma copy_pairs_Cons:
  "copy_pairs fails db ((k, v) # st) s =
     (if fails (PutRocksdb db k) then (s, Inl os_error) else copy_pairs fails db st (put_temporary db k v s))"
  by (simp add: put_temporary_def sbind_def conv_check_run)

lemma put_temporary_simps:
  "cv_ledger (put_temporary db k v s) = cv_ledger s" "cv_archive (put_temporary db k v s) = cv_archive s"
  "cv_temporary (put_temporary db k v s) = None \<longleftrightarrow> cv_temporary s = None"
  "n \<noteq> db \<Longrightarrow> stored (cv_temporary (put_temporary db k v s)) n = stored (cv_temporary s) n"
  "stored (cv_temporary s) db = Some c \<Longrightarrow> stored (cv_temporary (put_temporary db k v s)) db = Some (AList.update k v c)"
  by (auto simp: put_temporary_def stored_def update_conv' split: option.splits)

lemma copy_pairs_frame:
  "copy_pairs fails db st s = (s', r) \<Longrightarrow> cv_ledger s' = cv_ledger s \<and> cv_archive s' = cv_archive s
     \<and> (cv_temporary s = None \<longleftrightarrow> cv_temporary s' = None) \<and> (n \<noteq> db \<longrightarrow> stored (cv_temporary s') n = stored (cv_temporary s) n)"
proof (induction st arbitrary: s)
  case (Cons e st)
  obtain k v where "e = (k, v)" by fastforce
  then show ?case using Cons(2) Cons(1) [of "put_temporary db k v s"]
    by (auto simp: copy_pairs_Cons put_temporary_simps simp del: copy_pairs.simps split: if_splits)
qed simp

lemma copy_pairs_copy:
  assumes "copy_pairs fails db st s = (s', Inr ())" "distinct (map fst st)" "stored (cv_temporary s) db = Some c"
  shows "\<exists>c'. stored (cv_temporary s') db = Some c' \<and> (\<forall>k. map_of c' k = (case map_of st k of None \<Rightarrow> map_of c k | Some v \<Rightarrow> Some v))"
  using assms
proof (induction st arbitrary: s c)
  case (Cons e st)
  obtain k v where e: "e = (k, v)" by fastforce
  have run: "copy_pairs fails db st (put_temporary db k v s) = (s', Inr ())"
    using Cons(2) by (simp add: e copy_pairs_Cons del: copy_pairs.simps split: if_splits)
  have d: "distinct (map fst st)" "map_of st k = None" using Cons(3) e by (auto simp: map_of_eq_None_iff)
  obtain c' where "stored (cv_temporary s') db = Some c'"
      "\<forall>x. map_of c' x = (case map_of st x of None \<Rightarrow> map_of (AList.update k v c) x | Some v \<Rightarrow> Some v)"
    using Cons(1) [OF run d(1) put_temporary_simps(5) [OF Cons(4)]] by blast
  then show ?case using e d(2) by (auto simp: update_conv' split: option.splits)
qed simp

lemma open_rocksdb_cases:
  "open_rocksdb fails db s = (s', r) \<Longrightarrow> cv_ledger s' = cv_ledger s \<and> cv_archive s' = cv_archive s
     \<and> (cv_temporary s = None \<longleftrightarrow> cv_temporary s' = None) \<and> (n \<noteq> db \<longrightarrow> stored (cv_temporary s') n = stored (cv_temporary s) n)
     \<and> (r = Inr () \<and> cv_temporary s \<noteq> None \<and> stored (cv_temporary s) db = None \<longrightarrow> stored (cv_temporary s') db = Some [])"
  by (auto simp: open_rocksdb_def stored_def update_conv' split: if_splits option.splits)

lemma migrate_storage_frame:
  assumes "migrate_storage fails db s = (s', r)"
  shows "cv_ledger s' = cv_ledger s \<and> cv_archive s' = cv_archive s \<and> (cv_temporary s = None \<longleftrightarrow> cv_temporary s' = None)
    \<and> (n \<noteq> db \<longrightarrow> stored (cv_temporary s') n = stored (cv_temporary s) n)"
proof (cases "stored (cv_ledger s) db")
  case (Some st)
  obtain s1 r1 where o: "open_rocksdb fails db s = (s1, r1)" by fastforce
  obtain s2 r2 where c: "copy_pairs fails db st s1 = (s2, r2)" by fastforce
  have "s' = s \<or> s' = s1 \<or> s' = s2"
    using assms Some o c by (auto simp: migrate_storage_def guarded_def conv_check_run sbind_def split: if_splits sum.splits)
  then show ?thesis using open_rocksdb_cases [OF o] copy_pairs_frame [OF c] by metis
qed (use assms in \<open>simp add: migrate_storage_def\<close>)

lemma migrate_storage_true:
  assumes "migrate_storage fails db s = (s', Inr True)" "cv_temporary s \<noteq> None" "stored (cv_temporary s) db = None"
    "\<forall>st. stored (cv_ledger s) db = Some st \<longrightarrow> distinct (map fst st)"
  shows "\<exists>st. stored (cv_ledger s) db = Some st \<and> same_store st (stored (cv_temporary s') db)"
proof -
  obtain st where st: "stored (cv_ledger s) db = Some st" using assms(1) by (auto simp: migrate_storage_def split: option.splits)
  obtain s1 where o: "open_rocksdb fails db s = (s1, Inr ())" and c: "copy_pairs fails db st s1 = (s', Inr ())"
    using assms(1) st by (auto simp: migrate_storage_def guarded_def conv_check_run sbind_def split: if_splits sum.splits prod.splits)
  have "stored (cv_temporary s1) db = Some []" using open_rocksdb_cases [OF o] assms(2,3) by simp
  from copy_pairs_copy [OF c _ this] st assms(4) obtain c' where "stored (cv_temporary s') db = Some c'"
    "\<forall>k. map_of c' k = (case map_of st k of None \<Rightarrow> map_of [] k | Some v \<Rightarrow> Some v)" by blast
  moreover have "(case map_of st k of None \<Rightarrow> map_of [] k | Some v \<Rightarrow> Some v) = map_of st k" for k by (cases "map_of st k") simp_all
  ultimately show ?thesis using st by (simp add: same_store_def)
qed

lemma migrate_storages_from_run:
  assumes "migrate_storages_from fails names s = (s', r)" "cv_temporary s \<noteq> None" "distinct names"
    "\<forall>db \<in> set names. stored (cv_temporary s) db = None" "\<forall>db st. stored (cv_ledger s) db = Some st \<longrightarrow> distinct (map fst st)"
  shows "cv_ledger s' = cv_ledger s \<and> cv_archive s' = cv_archive s \<and> cv_temporary s' \<noteq> None
    \<and> (\<forall>n. n \<notin> set names \<longrightarrow> stored (cv_temporary s') n = stored (cv_temporary s) n)
    \<and> (r = Inr True \<longrightarrow> (\<forall>db \<in> set names. \<exists>st. stored (cv_ledger s) db = Some st \<and> same_store st (stored (cv_temporary s') db)))"
  using assms
proof (induction names arbitrary: s)
  case (Cons a names)
  obtain s1 r1 where m: "migrate_storage fails a s = (s1, r1)" by fastforce
  have f: "cv_ledger s1 = cv_ledger s" "cv_archive s1 = cv_archive s" "cv_temporary s = None \<longleftrightarrow> cv_temporary s1 = None"
    "\<And>n. n \<noteq> a \<Longrightarrow> stored (cv_temporary s1) n = stored (cv_temporary s) n" using migrate_storage_frame [OF m] by blast+
  show ?case
  proof (cases "r1 = Inr True")
    case True
    then have rest: "migrate_storages_from fails names s1 = (s', r)" using Cons(2) m by (simp add: sbind_def)
    have one: "\<exists>st. stored (cv_ledger s) a = Some st \<and> same_store st (stored (cv_temporary s1) a)"
      using migrate_storage_true [of fails a s s1] m True Cons(3,5,6) by simp
    have "\<forall>db \<in> set names. stored (cv_temporary s1) db = None" using f(4) Cons(4,5) by (metis distinct.simps(2) list.set_intros(2))
    moreover have "stored (cv_temporary s') a = stored (cv_temporary s1) a" if "cv_temporary s1 \<noteq> None \<and> distinct names
        \<and> (\<forall>db \<in> set names. stored (cv_temporary s1) db = None) \<and> (\<forall>db st. stored (cv_ledger s1) db = Some st \<longrightarrow> distinct (map fst st))"
      using Cons(1) [OF rest] that Cons(4) by (metis distinct.simps(2))
    ultimately show ?thesis using Cons(1) [OF rest] f Cons(3,4,6) one by auto
  next
    case False
    then have "s' = s1" "r \<noteq> Inr True" using Cons(2) m by (auto simp: sbind_def split: sum.splits if_splits)
    then show ?thesis using f Cons(3) by auto
  qed
qed simp

lemma replace_ledger_run:
  assumes "replace_ledger fails rest s = (s', r)"
  shows "(r = Inr True \<longrightarrow> cv_ledger s' = cv_temporary s \<and> cv_temporary s' = None)
    \<and> (\<not> fails RmLedger \<and> \<not> fails MoveTemporary \<longrightarrow> cv_ledger s' = cv_temporary s)
    \<and> (\<not> fails Tar \<longrightarrow> cv_archive s' = cv_ledger s)"
  using assms by (auto simp: replace_ledger_def rm_temporary_def Let_def sbind_def conv_check_run split: if_splits)

lemma rm_temporary_run:
  "rm_temporary fails s = (s', r) \<Longrightarrow> cv_ledger s' = cv_ledger s \<and> cv_archive s' = cv_archive s \<and> r \<noteq> Inr True"
  by (auto simp: rm_temporary_def split: if_splits)

text \<open>The stores that the new directory has: three ledgers, the attributes, the cache of identities, the sequence numbers and the signatures.\<close>

definition converted_stores :: "string list" where
  "converted_stores = [''pool_transactions'', ''domain_transactions'', ''config_transactions'', ''attr_db'', ''idr_cache_db'', ''seq_no_db'',
     ''state_signature'']"

lemma storage_names_eq: "storage_names = converted_stores"
  by (simp add: storage_names_def converted_stores_def ledger_types_def txn_log_def)

text \<open>A directory has the contents of these stores of the old one, and no other store.\<close>

definition converted :: "'b ledger_dir \<Rightarrow> 'b ledger_dir option \<Rightarrow> bool" where
  "converted fs dir \<longleftrightarrow> (\<forall>db \<in> set converted_stores. \<exists>st. map_of fs db = Some st \<and> same_store st (stored dir db))
     \<and> (\<forall>db. db \<notin> set converted_stores \<longrightarrow> stored dir db = None)"

text \<open>C39: The change from LevelDB to RocksDB keeps seven stores: if it reports success then the ledger directory has the
  pool, domain and config transactions, the attributes, the cache of identities, the sequence numbers and the signatures
  with the contents they had, every other store of the old directory (the states, the hash stores) is gone, and the temporary
  directory is gone. If not, and neither the removal of the old directory nor the move into its place failed, then the
  directory is as before or holds exactly these copies. A store of the old directory has each key once.\<close>

theorem conversion_keeps_stores:
  assumes fs: "cv_ledger s = Some fs" and keys: "\<forall>db st. map_of fs db = Some st \<longrightarrow> distinct (map fst st)"
    and run: "migrate_to_rocksdb fails rest node_name s = (s', r)"
  shows "(r = Inr True \<longrightarrow> converted fs (cv_ledger s') \<and> cv_temporary s' = None)
    \<and> (\<not> fails RmLedger \<and> \<not> fails MoveTemporary \<longrightarrow> cv_ledger s' = Some fs \<or> converted fs (cv_ledger s'))"
proof (cases "node_name = None \<or> cv_temporary s \<noteq> None \<or> fails Mkdir")
  case True
  then show ?thesis using run fs by (auto simp: migrate_to_rocksdb_def split: if_splits)
next
  case False
  let ?s = "s\<lparr>cv_temporary := Some []\<rparr>"
  obtain s1 r1 where m: "migrate_storages fails ?s = (s1, r1)" by fastforce
  have names: "distinct storage_names" by (simp add: storage_names_eq converted_stores_def)
  note c = migrate_storages_from_run [OF m [unfolded migrate_storages_def]]
  have all: "cv_ledger s1 = Some fs"
    "r1 = Inr True \<longrightarrow> converted fs (cv_temporary s1)"
    using c names fs keys by (simp_all add: stored_def converted_def storage_names_eq)
  have rest: "r1 = Inr True \<and> replace_ledger fails rest s1 = (s', r) \<or> cv_ledger s' = cv_ledger s1 \<and> r \<noteq> Inr True"
    using run False m rm_temporary_run [of fails s1 s' r]
    by (auto simp: migrate_to_rocksdb_def sbind_def split: if_splits sum.splits)
  then show ?thesis using all replace_ledger_run [of fails rest s1 s' r] by auto
qed

text \<open>A ledger directory with these stores and a state.\<close>

definition ex_stores :: "string ledger_dir" where
  "ex_stores = map (\<lambda>name. (name, [(''1'', name)])) (converted_stores @ [''domain_state''])"

definition ex_conversion :: "string conversion" where
  "ex_conversion = \<lparr>cv_ledger = Some ex_stores, cv_temporary = None, cv_archive = None\<rparr>"

lemma ex_stores_distinct: "map_of ex_stores db = Some st \<Longrightarrow> distinct (map fst st)"
  by (auto simp: ex_stores_def split: if_splits dest!: map_of_SomeD)

lemma ex_conversion_runs:
  "snd (migrate_to_rocksdb (\<lambda>oper. False) (\<lambda>fs. None) (Some ''Node1'') ex_conversion) = Inr True"
  by code_simp

theorem conversion_keeps_stores_witness:
  "\<exists>s'. migrate_to_rocksdb (\<lambda>oper. False) (\<lambda>fs. None) (Some ''Node1'') ex_conversion = (s', Inr True) \<and> cv_temporary s' = None
    \<and> same_store [(''1'', ''attr_db'')] (stored (cv_ledger s') ''attr_db'')
    \<and> map_of ex_stores ''domain_state'' \<noteq> None \<and> stored (cv_ledger s') ''domain_state'' = None"
proof -
  obtain s' where s: "migrate_to_rocksdb (\<lambda>oper. False) (\<lambda>fs. None) (Some ''Node1'') ex_conversion = (s', Inr True)"
    using ex_conversion_runs by (metis prod.collapse)
  have fs: "cv_ledger ex_conversion = Some ex_stores" by (simp add: ex_conversion_def)
  have a: "''attr_db'' \<in> set converted_stores" "map_of ex_stores ''attr_db'' = Some [(''1'', ''attr_db'')]"
      "map_of ex_stores ''domain_state'' = Some [(''1'', ''domain_state'')]" "''domain_state'' \<notin> set converted_stores"
    by (simp_all add: ex_stores_def converted_stores_def)
  have "converted ex_stores (cv_ledger s') \<and> cv_temporary s' = None"
    using conversion_keeps_stores [OF fs _ s] ex_stores_distinct by blast
  with a s show ?thesis unfolding converted_def by fastforce
qed

text \<open>
  When the move into the place of the old directory fails, the temporary directory is removed although the old one is
  gone already: nothing is left but the archive, and nothing at all if that could not be written.
\<close>

theorem conversion_can_lose_ledger:
  "\<exists>fails s'. migrate_to_rocksdb fails (\<lambda>fs. None) (Some ''Node1'') ex_conversion = (s', Inr False)
    \<and> cv_ledger s' = None \<and> cv_temporary s' = None \<and> cv_archive s' = None"
proof -
  let ?f = "\<lambda>oper. oper = MoveTemporary \<or> oper = Tar"
  have "snd (migrate_to_rocksdb ?f (\<lambda>fs. None) (Some ''Node1'') ex_conversion) = Inr False"
    "cv_ledger (fst (migrate_to_rocksdb ?f (\<lambda>fs. None) (Some ''Node1'') ex_conversion)) = None"
    "cv_temporary (fst (migrate_to_rocksdb ?f (\<lambda>fs. None) (Some ''Node1'') ex_conversion)) = None"
    "cv_archive (fst (migrate_to_rocksdb ?f (\<lambda>fs. None) (Some ''Node1'') ex_conversion)) = None"
    by code_simp+
  then show ?thesis by (intro exI [of _ ?f] exI [of _ "fst (migrate_to_rocksdb ?f (\<lambda>fs. None) (Some ''Node1'') ex_conversion)"] conjI)
      (simp_all add: prod_eq_iff)
qed

section \<open>Configuration files\<close>

text \<open>The network name of the old configuration is what the new configuration ends with, and no line of the old one names it in another way.\<close>

lemma general_config_lines:
  assumes "is_line (''NETWORK_NAME = '' @ squoted network @ newline)" "\<forall>l \<in> set (readlines old). is_line l"
  shows "\<exists>kept. readlines (migrate_general_config old new network) = kept @ filter (\<lambda>line. \<not> starts_with line ''current_env''
      \<and> \<not> starts_with line ''poolTransactionsFile'' \<and> \<not> starts_with line ''domainTransactionsFile'') (readlines old)
      @ [''NETWORK_NAME = '' @ squoted network @ newline]"
proof -
  let ?old = "filter (\<lambda>line. \<not> starts_with line ''current_env'' \<and> \<not> starts_with line ''poolTransactionsFile''
      \<and> \<not> starts_with line ''domainTransactionsFile'') (readlines old)"
  have "\<forall>l \<in> set (?old @ [''NETWORK_NAME = '' @ squoted network @ newline]). is_line l" using assms by auto
  from readlines_append [OF this, of "[]" new] obtain ls rest where
    "readlines (migrate_general_config old new network) = (ls @ [rest @ newline]) @ ?old @ [''NETWORK_NAME = '' @ squoted network @ newline]"
    by (auto simp: migrate_general_config_def last_line_def)
  then show ?thesis by blast
qed

lemma network_known:
  "oc_pool_file cfg \<noteq> None \<or> oc_domain_file cfg \<noteq> None \<Longrightarrow> get_network_name cfg \<in> {''live'', ''local'', ''sandbox''}"
  by (auto simp: get_network_name_def get_network_from_txn_file_name_def Let_def split: option.splits)

text \<open>Node directories that move up: those that were there stay, the others have what was below.\<close>

lemma copy_node_dirs_lookup:
  "distinct (map fst dirs) \<Longrightarrow> map_of (copy_node_dirs dirs target) n =
     (case map_of target n of Some d \<Rightarrow> Some d | None \<Rightarrow> map_of dirs n)"
proof (induction dirs target rule: copy_node_dirs.induct)
  case (2 node_name d dirs target)
  have "map_of dirs node_name = None" using 2(2) by (simp add: map_of_eq_None_iff)
  then show ?case using 2 by (auto simp: update_conv' split: option.splits)
qed (simp split: option.splits)

end
