(* ===== verification/StatefulSet.thy ===== *)
theory StatefulSet
  imports NodeControl "HOL-Library.Multiset" "HOL-Library.Char_ord" "HOL-Library.List_Lexorder"
begin

text \<open>
  The set of cloud instances of a test pool (pool_automation/roles/aws_manage/library/stateful_set.py): which
  instance numbers belong to which region, what is found, kept, terminated and launched, and the tags that a
  new instance gets. The cloud is a parameter: a record of the calls of the EC2 interface, which read or change
  a state of the cloud and may raise.
\<close>

section \<open>The interface of the cloud\<close>

text \<open>
  An object for an instance loads its attributes when they are first read and drops them when one of its actions is called
  (\<open>create_tags\<close>, \<open>terminate\<close>) or it is reloaded. The program reads the attributes of an instance when it has just found it, and
  at the end after the new ones were reloaded and tagged, so that reading from the cloud gives what the objects give.
\<close>

type_synonym tags = "(string \<times> string) list"

record ('c, 'i) ec2 =
  e_images :: "'c \<Rightarrow> string \<Rightarrow> (string \<times> string) list"
  e_filter :: "'c \<Rightarrow> string \<Rightarrow> (string \<times> string list) list \<Rightarrow> 'i list"
  e_state :: "'c \<Rightarrow> 'i \<Rightarrow> string"
  e_tags :: "'c \<Rightarrow> 'i \<Rightarrow> tags"
  e_public_ip :: "'c \<Rightarrow> 'i \<Rightarrow> string option"
  e_zone :: "'c \<Rightarrow> 'i \<Rightarrow> string"
  e_spot_request :: "'c \<Rightarrow> 'i \<Rightarrow> string option"
  e_create :: "string \<Rightarrow> dict \<Rightarrow> ('c, 'i list) sres"
  e_terminate :: "'i \<Rightarrow> ('c, unit) sres"
  e_cancel_spot :: "string \<Rightarrow> string \<Rightarrow> ('c, unit) sres"
  e_wait :: "string \<Rightarrow> string \<Rightarrow> 'i list \<Rightarrow> ('c, unit) sres"
  e_reload :: "'i \<Rightarrow> ('c, unit) sres"
  e_create_tags :: "'i \<Rightarrow> tags \<Rightarrow> ('c, unit) sres"

record host_info =
  h_tag_id :: "string option"
  h_public_ip :: "string option"
  h_user :: string

record instance_params =
  p_project :: string
  p_namespace :: string
  p_group :: string
  p_add_tags :: tags
  p_key_name :: string
  p_security_group :: string
  p_type_name :: string
  p_market_spot :: bool
  p_spot_max_price :: "string option"
  p_ebs_volume_size :: "int option"
  p_ebs_volume_type :: "string option"

text \<open>The codes of the regions, in the order of the table.\<close>

definition AWS_REGIONS :: "string list" where
  "AWS_REGIONS =
     [''us-east-1'', ''us-east-2'', ''us-west-1'', ''us-west-2'', ''ca-central-1'', ''eu-central-1'', ''eu-west-1'',
      ''eu-west-2'', ''eu-west-3'', ''ap-northeast-1'', ''ap-northeast-2'', ''ap-southeast-1'', ''ap-southeast-2'',
      ''ap-south-1'', ''sa-east-1'']"

section \<open>Reading\<close>

text \<open>The youngest image; \<open>e_images\<close> answers the query for Ubuntu images with dates and ids.\<close>

definition find_ubuntu_ami :: "('c, 'i) ec2 \<Rightarrow> 'c \<Rightarrow> string \<Rightarrow> string option" where
  "find_ubuntu_ami E c region =
     (let images = sort_key fst (e_images E c region) in if 0 < length images then Some (snd (last images)) else None)"

definition find_instances :: "('c, 'i) ec2 \<Rightarrow> 'c \<Rightarrow> string \<Rightarrow> string \<Rightarrow> string \<Rightarrow> string option \<Rightarrow> 'i list" where
  "find_instances E c region project namespace grp =
     filter (\<lambda>inst. e_state E c inst \<notin> {''terminated'', ''shutting-down''})
       (e_filter E c region
         ([(''tag:Project'', [project]), (''tag:Namespace'', [namespace])] @
          (case grp of None \<Rightarrow> [] | Some g \<Rightarrow> [(''tag:Group'', [g])])))"

text \<open>\<open>itertools.cycle\<close> of a list that is not empty, and the dictionary with empty lists as defaults.\<close>

definition cycle_nth :: "'a list \<Rightarrow> nat \<Rightarrow> 'a" where
  "cycle_nth xs i = xs ! (i mod length xs)"

fun assign_ids :: "string list \<Rightarrow> nat list \<Rightarrow> (string \<Rightarrow> string list) \<Rightarrow> (string \<Rightarrow> string list)" where
  "assign_ids regions [] result = result"
| "assign_ids regions (i # is) result =
     (let region = cycle_nth regions i
      in assign_ids regions is (result(region := result region @ [nat_str (i + 1)])))"

definition valid_instances :: "string list \<Rightarrow> int \<Rightarrow> string \<Rightarrow> string list" where
  "valid_instances regions cnt = (if regions = [] then (\<lambda>_. []) else assign_ids regions [0..<nat cnt] (\<lambda>_. []))"

fun get_tag :: "tags \<Rightarrow> string \<Rightarrow> string option" where
  "get_tag [] name = None"
| "get_tag ((k, v) # tags) name = (if k = name then Some v else get_tag tags name)"

section \<open>Waiting, terminating, launching\<close>

text \<open>The local variables of \<open>manage_instances\<close>, the instances its two helpers wait for, and the cloud.\<close>

record ('c, 'i) manage =
  cloud :: 'c
  launching :: "(string \<times> 'i list) list"
  terminating :: "(string \<times> 'i list) list"
  hosts :: "'i list"
  terminated :: "host_info list"
  tag_ids :: "('i \<times> string) list"
  changed :: bool

definition api :: "('c, 'a) sres \<Rightarrow> (('c, 'i) manage, 'a) sres" where
  "api f s = (case f (cloud s) of (c, r) \<Rightarrow> (s\<lparr>cloud := c\<rparr>, r))"

definition instance_region :: "('c, 'i) ec2 \<Rightarrow> 'c \<Rightarrow> 'i \<Rightarrow> string" where
  "instance_region E c inst = butlast (e_zone E c inst)"

definition add_instance :: "('c, 'i) ec2 \<Rightarrow> 'c \<Rightarrow> 'i \<Rightarrow> string \<Rightarrow> (string \<times> 'i list) list \<Rightarrow> (string \<times> 'i list) list" where
  "add_instance E c inst region awaited =
     (let region = (if region = [] then instance_region E c inst else region)
      in AList.update region ((case map_of awaited region of None \<Rightarrow> [] | Some is \<Rightarrow> is) @ [inst]) awaited)"

fun reload_all :: "('c, 'i) ec2 \<Rightarrow> 'i list \<Rightarrow> (('c, 'i) manage, unit) sres" where
  "reload_all E [] = sret ()"
| "reload_all E (inst # insts) = sbind (api (e_reload E inst)) (\<lambda>_. reload_all E insts)"

text \<open>\<open>wait()\<close> goes through a copy of the dictionary; \<open>forget\<close> deletes a region from the dictionary itself.\<close>

fun wait_all ::
  "('c, 'i) ec2 \<Rightarrow> string \<Rightarrow> bool \<Rightarrow> (string \<Rightarrow> ('c, 'i) manage \<Rightarrow> ('c, 'i) manage) \<Rightarrow> (string \<times> 'i list) list \<Rightarrow> (('c, 'i) manage, unit) sres" where
  "wait_all E event update forget [] = sret ()"
| "wait_all E event update forget ((region, insts) # awaited) =
     sbind (api (e_wait E event region insts)) (\<lambda>_.
     sbind (if update then reload_all E insts else sret ()) (\<lambda>_.
     sbind (smodify (forget region)) (\<lambda>_. wait_all E event update forget awaited)))"

definition launcher_wait :: "('c, 'i) ec2 \<Rightarrow> (('c, 'i) manage, unit) sres" where
  "launcher_wait E s =
     wait_all E ''instance_running'' True (\<lambda>region s. s\<lparr>launching := AList.delete region (launching s)\<rparr>) (launching s) s"

definition terminator_wait :: "('c, 'i) ec2 \<Rightarrow> (('c, 'i) manage, unit) sres" where
  "terminator_wait E s =
     wait_all E ''instance_terminated'' True (\<lambda>region s. s\<lparr>terminating := AList.delete region (terminating s)\<rparr>) (terminating s) s"

definition terminate :: "('c, 'i) ec2 \<Rightarrow> 'i \<Rightarrow> string \<Rightarrow> (('c, 'i) manage, unit) sres" where
  "terminate E inst region =
     sbind (api (e_terminate E inst)) (\<lambda>_.
     sbind (smodify (\<lambda>s. s\<lparr>terminating := add_instance E (cloud s) inst region (terminating s)\<rparr>)) (\<lambda>_ s.
       (case e_spot_request E (cloud s) inst of
          None \<Rightarrow> sret ()
        | Some r \<Rightarrow> if r = [] then sret ()
                    else api (e_cancel_spot E (if region \<noteq> [] then region else instance_region E (cloud s) inst) r)) s))"

text \<open>\<open>_camel_to_snake_re1.sub\<close> and \<open>_camel_to_snake_re2.sub\<close>: the matches from the left, each put as \<open>\1_\2\<close>.\<close>

definition is_upper :: "char \<Rightarrow> bool" where
  "is_upper c \<longleftrightarrow> (let n = of_char c :: nat in 65 \<le> n \<and> n \<le> 90)"

definition is_lower :: "char \<Rightarrow> bool" where
  "is_lower c \<longleftrightarrow> (let n = of_char c :: nat in 97 \<le> n \<and> n \<le> 122)"

function snake_re1 :: "string \<Rightarrow> string" where
  "snake_re1 (c # u # s) =
     (if c \<noteq> LF \<and> is_upper u \<and> takeWhile is_lower s \<noteq> []
      then c # CHR ''_'' # u # takeWhile is_lower s @ snake_re1 (dropWhile is_lower s)
      else c # snake_re1 (u # s))"
| "snake_re1 [c] = [c]"
| "snake_re1 [] = []"
  by pat_completeness auto
termination
  by (relation "measure length") (auto simp: length_dropWhile_le le_imp_less_Suc le_SucI)

fun snake_re2 :: "string \<Rightarrow> string" where
  "snake_re2 (c # u # s) =
     (if (is_lower c \<or> is_digit c) \<and> is_upper u then c # CHR ''_'' # u # snake_re2 s else c # snake_re2 (u # s))"
| "snake_re2 s = s"

definition camel_to_snake :: "string \<Rightarrow> string" where
  "camel_to_snake camel_one = py_lower (snake_re2 (snake_re1 camel_one))"

text \<open>\<open>getattr(params, name)\<close> for the optional parameters, and the options that are set.\<close>

definition param_option :: "instance_params \<Rightarrow> string \<Rightarrow> pyval res" where
  "param_option P name =
     (case map_of
        [(''spot_max_price'', case p_spot_max_price P of None \<Rightarrow> PyNone | Some v \<Rightarrow> PyStr v),
         (''ebs_volume_size'', case p_ebs_volume_size P of None \<Rightarrow> PyNone | Some v \<Rightarrow> PyInt v),
         (''ebs_volume_type'', case p_ebs_volume_type P of None \<Rightarrow> PyNone | Some v \<Rightarrow> PyStr v)] name of
        None \<Rightarrow> Inl (AttributeError name)
      | Some v \<Rightarrow> Inr v)"

fun get_options :: "instance_params \<Rightarrow> string \<Rightarrow> string list \<Rightarrow> dict res" where
  "get_options P prefix [] = Inr []"
| "get_options P prefix (opt # opts) =
     rbind (param_option P (prefix @ camel_to_snake opt)) (\<lambda>v.
     rbind (get_options P prefix opts) (\<lambda>res. Inr (if v \<noteq> PyNone then (opt, v) # res else res)))"

definition tag_dict :: "string \<times> string \<Rightarrow> pyval" where
  "tag_dict = (\<lambda>(k, v). PyDict [(''Key'', PyStr k), (''Value'', PyStr v)])"

definition launch_spec :: "instance_params \<Rightarrow> string option \<Rightarrow> nat \<Rightarrow> dict res" where
  "launch_spec P ami cnt =
     (let tags = PyList (map tag_dict ([(''Project'', p_project P), (''Namespace'', p_namespace P), (''Group'', p_group P)] @ p_add_tags P));
          base =
            [(''ImageId'', case ami of None \<Rightarrow> PyNone | Some i \<Rightarrow> PyStr i), (''KeyName'', PyStr (p_key_name P)),
             (''SecurityGroups'', PyList [PyStr (p_security_group P)]), (''InstanceType'', PyStr (p_type_name P)),
             (''MinCount'', PyInt (int cnt)), (''MaxCount'', PyInt (int cnt)),
             (''TagSpecifications'', PyList (map (\<lambda>rc_type. PyDict [(''ResourceType'', PyStr rc_type), (''Tags'', tags)]) [''instance'', ''volume'']))]
      in rbind (get_options P ''ebs_'' [''VolumeSize'', ''VolumeType'']) (\<lambda>ebs_options.
         let with_ebs = (if ebs_options \<noteq> []
               then dict_set base ''BlockDeviceMappings'' (PyList [PyDict [(''DeviceName'', PyStr ''/dev/sda1''), (''Ebs'', PyDict ebs_options)]])
               else base)
         in if p_market_spot P
            then rbind (get_options P ''spot_'' [''MaxPrice'']) (\<lambda>spot.
                   Inr (dict_set with_ebs ''InstanceMarketOptions'' (PyDict [(''MarketType'', PyStr ''spot''), (''SpotOptions'', PyDict spot)])))
            else Inr with_ebs))"

fun add_launched :: "('c, 'i) ec2 \<Rightarrow> string \<Rightarrow> 'i list \<Rightarrow> (('c, 'i) manage, unit) sres" where
  "add_launched E region [] = sret ()"
| "add_launched E region (inst # insts) =
     sbind (smodify (\<lambda>s. s\<lparr>launching := add_instance E (cloud s) inst region (launching s)\<rparr>)) (\<lambda>_. add_launched E region insts)"

definition launch :: "('c, 'i) ec2 \<Rightarrow> instance_params \<Rightarrow> nat \<Rightarrow> string \<Rightarrow> (('c, 'i) manage, 'i list) sres" where
  "launch E P cnt region s =
     sbind (slift (launch_spec P (find_ubuntu_ami E (cloud s) region) cnt)) (\<lambda>spec.
     sbind (api (e_create E region spec)) (\<lambda>instances.
     sbind (add_launched E region instances) (\<lambda>_. sret instances))) s"

section \<open>Managing the set\<close>

definition host_info_of :: "('c, 'i) ec2 \<Rightarrow> 'c \<Rightarrow> 'i \<Rightarrow> host_info" where
  "host_info_of E c inst = \<lparr>h_tag_id = get_tag (e_tags E c inst) ''ID'', h_public_ip = e_public_ip E c inst, h_user = ''ubuntu''\<rparr>"

definition drop_instance :: "('c, 'i) ec2 \<Rightarrow> string \<Rightarrow> 'i \<Rightarrow> (('c, 'i) manage, unit) sres" where
  "drop_instance E region inst =
     sbind (smodify (\<lambda>s. s\<lparr>terminated := terminated s @ [host_info_of E (cloud s) inst]\<rparr>)) (\<lambda>_.
     sbind (terminate E inst region) (\<lambda>_. smodify (\<lambda>s. s\<lparr>changed := True\<rparr>)))"

text \<open>The instances found in a region: kept if their number is still free, terminated otherwise.\<close>

fun sort_instances :: "('c, 'i) ec2 \<Rightarrow> string \<Rightarrow> 'i list \<Rightarrow> string list \<Rightarrow> (('c, 'i) manage, string list) sres" where
  "sort_instances E region [] valid_ids s = sret valid_ids s"
| "sort_instances E region (inst # insts) valid_ids s =
     (case get_tag (e_tags E (cloud s) inst) ''ID'' of
        Some tag_id \<Rightarrow>
          if tag_id \<in> set valid_ids
          then sbind (smodify (\<lambda>s. s\<lparr>hosts := hosts s @ [inst], launching := add_instance E (cloud s) inst region (launching s)\<rparr>)) (\<lambda>_.
                 sort_instances E region insts (remove1 tag_id valid_ids)) s
          else sbind (drop_instance E region inst) (\<lambda>_. sort_instances E region insts valid_ids) s
      | None \<Rightarrow> sbind (drop_instance E region inst) (\<lambda>_. sort_instances E region insts valid_ids) s)"

definition launch_missing :: "('c, 'i) ec2 \<Rightarrow> instance_params \<Rightarrow> string \<Rightarrow> string list \<Rightarrow> (('c, 'i) manage, unit) sres" where
  "launch_missing E P region valid_ids =
     (if valid_ids \<noteq> []
      then sbind (launch E P (length valid_ids) region) (\<lambda>instances.
             smodify (\<lambda>s. s\<lparr>tag_ids := tag_ids s @ zip instances valid_ids,
               hosts := hosts s @ take (length valid_ids) instances,
               changed := (changed s \<or> zip instances valid_ids \<noteq> [])\<rparr>))
      else sret ())"

fun manage_regions :: "('c, 'i) ec2 \<Rightarrow> instance_params \<Rightarrow> (string \<Rightarrow> string list) \<Rightarrow> string list \<Rightarrow> (('c, 'i) manage, unit) sres" where
  "manage_regions E P valid_region_ids [] s = sret () s"
| "manage_regions E P valid_region_ids (region # regions) s =
     sbind (sort_instances E region (find_instances E (cloud s) region (p_project P) (p_namespace P) (Some (p_group P)))
              (valid_region_ids region)) (\<lambda>valid_ids.
     sbind (launch_missing E P region valid_ids) (\<lambda>_.
       manage_regions E P valid_region_ids regions)) s"

text \<open>\<open>s.zfill(3)\<close> of a text without a sign.\<close>

definition zfill3 :: "string \<Rightarrow> string" where
  "zfill3 s = replicate (3 - length s) (CHR ''0'') @ s"

definition instance_tags :: "instance_params \<Rightarrow> string \<Rightarrow> tags" where
  "instance_tags P tag_id =
     [(''Name'', py_lower (py_join ''-'' [p_project P, p_namespace P, p_group P, zfill3 tag_id])), (''ID'', tag_id)]"

fun tag_all :: "('c, 'i) ec2 \<Rightarrow> instance_params \<Rightarrow> ('i \<times> string) list \<Rightarrow> (('c, 'i) manage, unit) sres" where
  "tag_all E P [] = sret ()"
| "tag_all E P ((inst, tag_id) # rest) = sbind (api (e_create_tags E inst (instance_tags P tag_id))) (\<lambda>_. tag_all E P rest)"

record manage_results =
  r_changed :: bool
  r_active :: "host_info list"
  r_terminated :: "host_info list"

definition new_manage :: "'c \<Rightarrow> ('c, 'i) manage" where
  "new_manage c = \<lparr>cloud = c, launching = [], terminating = [], hosts = [], terminated = [], tag_ids = [], changed = False\<rparr>"

definition manage_body :: "('c, 'i) ec2 \<Rightarrow> string list \<Rightarrow> instance_params \<Rightarrow> int \<Rightarrow> (('c, 'i) manage, unit) sres" where
  "manage_body E regions P cnt =
     sbind (manage_regions E P (valid_instances regions cnt) AWS_REGIONS) (\<lambda>_.
     sbind (launcher_wait E) (\<lambda>_.
     sbind (\<lambda>s. tag_all E P (tag_ids s) s) (\<lambda>_.
       terminator_wait E)))"

definition manage_instances :: "('c, 'i) ec2 \<Rightarrow> string list \<Rightarrow> instance_params \<Rightarrow> int \<Rightarrow> ('c, manage_results) sres" where
  "manage_instances E regions P cnt c =
     (case manage_body E regions P cnt (new_manage c) of
        (s, Inl e) \<Rightarrow> (cloud s, Inl e)
      | (s, Inr _) \<Rightarrow> (cloud s, Inr \<lparr>r_changed = changed s, r_active = map (host_info_of E (cloud s)) (hosts s), r_terminated = terminated s\<rparr>))"

end
