(* ===== verification/StatefulSetProperties.thy ===== *)
theory StatefulSetProperties
  imports StatefulSet
begin

text \<open>
  Managing the set of instances converges: whatever a project has running, one run leaves exactly the instances
  that the regions and the count ask for, and a further run changes nothing.
\<close>

section \<open>The documented behaviour of the cloud\<close>

text \<open>
  What the EC2 interface promises for its own calls, in its own terms: the instances of a region, their states and
  tags. An instance is live unless it is terminated or shutting down.
\<close>

definition live :: "('c, 'i) ec2 \<Rightarrow> 'c \<Rightarrow> string \<Rightarrow> 'i list" where
  "live E c region = filter (\<lambda>i. e_state E c i \<noteq> ''terminated'' \<and> e_state E c i \<noteq> ''shutting-down'') (e_filter E c region [])"

definition tag_value :: "('c, 'i) ec2 \<Rightarrow> 'c \<Rightarrow> 'i \<Rightarrow> string \<Rightarrow> string option" where
  "tag_value E c i key = map_of (e_tags E c i) key"

text \<open>A filter \<open>tag:key\<close> accepts the instances whose tag has one of the values; values with wildcards are not considered.\<close>

definition plain :: "string \<Rightarrow> bool" where
  "plain v \<longleftrightarrow> CHR ''*'' \<notin> set v \<and> CHR ''?'' \<notin> set v"

definition accepts :: "('c, 'i) ec2 \<Rightarrow> 'c \<Rightarrow> string \<times> string list \<Rightarrow> 'i \<Rightarrow> bool" where
  "accepts E c = (\<lambda>(name, values) i. take 4 name = ''tag:'' \<and> (case tag_value E c i (drop 4 name) of None \<Rightarrow> False | Some v \<Rightarrow> v \<in> set values))"

definition tag_filters :: "(string \<times> string list) list \<Rightarrow> bool" where
  "tag_filters fs \<longleftrightarrow> list_all (\<lambda>(name, values). take 4 name = ''tag:'' \<and> list_all plain values) fs"

text \<open>The parts of a request for new instances: the bounds of their number, the image, and the tags of a kind of resource.\<close>

definition spec_count :: "dict \<Rightarrow> string \<Rightarrow> int option" where
  "spec_count spec name = (case map_of spec name of Some (PyInt n) \<Rightarrow> Some n | _ \<Rightarrow> None)"

definition spec_image :: "dict \<Rightarrow> string option" where
  "spec_image spec = (case map_of spec ''ImageId'' of Some (PyStr i) \<Rightarrow> Some i | _ \<Rightarrow> None)"

fun val_tag :: "pyval \<Rightarrow> tags" where
  "val_tag (PyDict d) = (case (map_of d ''Key'', map_of d ''Value'') of (Some (PyStr k), Some (PyStr v)) \<Rightarrow> [(k, v)] | _ \<Rightarrow> [])"
| "val_tag v = []"

fun val_tags :: "string \<Rightarrow> pyval \<Rightarrow> tags" where
  "val_tags resource (PyDict d) =
     (if map_of d ''ResourceType'' = Some (PyStr resource)
      then (case map_of d ''Tags'' of Some (PyList ts) \<Rightarrow> concat (map val_tag ts) | _ \<Rightarrow> []) else [])"
| "val_tags resource v = []"

definition spec_tags :: "dict \<Rightarrow> string \<Rightarrow> tags" where
  "spec_tags spec resource =
     (case map_of spec ''TagSpecifications'' of Some (PyList specs) \<Rightarrow> concat (map (val_tags resource) specs) | _ \<Rightarrow> [])"

text \<open>A call that succeeds and changes neither which instances are live nor their tags.\<close>

definition undisturbing :: "('c, 'i) ec2 \<Rightarrow> ('c, unit) sres \<Rightarrow> bool" where
  "undisturbing E f \<longleftrightarrow> (\<forall>c. \<exists>c'. f c = (c', Inr ()) \<and> live E c' = live E c \<and> e_tags E c' = e_tags E c)"

text \<open>
  Reading: an instance is listed once, in one region, and filters restrict the list. New instances: their number is
  within the bounds, they are live in the region, they have the tags that were asked for, and everything else is as
  before; the image must be one of the region, and a key must not be given twice. A terminated instance is not live.
  New tags replace those with the same keys.
\<close>

definition ec2_reads :: "('c, 'i) ec2 \<Rightarrow> bool" where
  "ec2_reads E \<longleftrightarrow>
     (\<forall>c r. distinct (e_filter E c r [])) \<and>
     (\<forall>c r r'. r \<noteq> r' \<longrightarrow> set (e_filter E c r []) \<inter> set (e_filter E c r' []) = {}) \<and>
     (\<forall>c r fs. tag_filters fs \<longrightarrow> e_filter E c r fs = filter (\<lambda>i. list_all (\<lambda>f. accepts E c f i) fs) (e_filter E c r []))"

definition ec2_creates :: "('c, 'i) ec2 \<Rightarrow> bool" where
  "ec2_creates E \<longleftrightarrow>
     (\<forall>c r spec lo hi image. spec_count spec ''MinCount'' = Some lo \<and> spec_count spec ''MaxCount'' = Some hi \<and> 1 \<le> lo \<and> lo \<le> hi \<and>
        spec_image spec = Some image \<and> image \<in> snd ` set (e_images E c r) \<and> distinct (map fst (spec_tags spec ''instance'')) \<longrightarrow>
        (\<exists>c' new. e_create E r spec c = (c', Inr new) \<and> lo \<le> int (length new) \<and> int (length new) \<le> hi \<and> distinct new \<and>
           (\<forall>r'. set new \<inter> set (e_filter E c r' []) = {}) \<and> mset (live E c' r) = mset (live E c r) + mset new \<and>
           (\<forall>r'. r' \<noteq> r \<longrightarrow> live E c' r' = live E c r') \<and>
           (\<forall>i. e_tags E c' i = (if i \<in> set new then spec_tags spec ''instance'' else e_tags E c i))))"

definition ec2_changes :: "('c, 'i) ec2 \<Rightarrow> bool" where
  "ec2_changes E \<longleftrightarrow>
     (\<forall>i c. \<exists>c'. e_terminate E i c = (c', Inr ()) \<and> (\<forall>r. live E c' r = filter (\<lambda>j. j \<noteq> i) (live E c r)) \<and> e_tags E c' = e_tags E c) \<and>
     (\<forall>i new c. distinct (map fst new) \<longrightarrow>
        (\<exists>c'. e_create_tags E i new c = (c', Inr ()) \<and> live E c' = live E c \<and>
           tag_value E c' = (tag_value E c)(i := tag_value E c i ++ map_of new))) \<and>
     (\<forall>r q. undisturbing E (e_cancel_spot E r q)) \<and> (\<forall>ev r is. undisturbing E (e_wait E ev r is)) \<and> (\<forall>i. undisturbing E (e_reload E i))"

definition ec2_documented :: "('c, 'i) ec2 \<Rightarrow> bool" where
  "ec2_documented E \<longleftrightarrow> ec2_reads E \<and> ec2_creates E \<and> ec2_changes E"

text \<open>The instances of a set: the live ones with its three tags; and their numbers.\<close>

definition member_of :: "('c, 'i) ec2 \<Rightarrow> instance_params \<Rightarrow> 'c \<Rightarrow> 'i \<Rightarrow> bool" where
  "member_of E P c i \<longleftrightarrow> tag_value E c i ''Project'' = Some (p_project P) \<and> tag_value E c i ''Namespace'' = Some (p_namespace P) \<and>
     tag_value E c i ''Group'' = Some (p_group P)"

definition members :: "('c, 'i) ec2 \<Rightarrow> instance_params \<Rightarrow> 'c \<Rightarrow> string \<Rightarrow> 'i list" where
  "members E P c r = filter (member_of E P c) (live E c r)"

definition number_of :: "('c, 'i) ec2 \<Rightarrow> 'c \<Rightarrow> 'i \<Rightarrow> string option" where
  "number_of E c i = tag_value E c i ''ID''"

text \<open>The names of a set have no wildcards, and additional tags do not repeat keys.\<close>

definition params_ok :: "instance_params \<Rightarrow> bool" where
  "params_ok P \<longleftrightarrow> plain (p_project P) \<and> plain (p_namespace P) \<and> plain (p_group P) \<and>
     distinct ([''Project'', ''Namespace'', ''Group''] @ map fst (p_add_tags P))"

section \<open>What the module sees of it\<close>

definition found :: "('c, 'i) ec2 \<Rightarrow> instance_params \<Rightarrow> 'c \<Rightarrow> string \<Rightarrow> 'i list" where
  "found E P c region = find_instances E c region (p_project P) (p_namespace P) (Some (p_group P))"

definition id_tag :: "('c, 'i) ec2 \<Rightarrow> 'c \<Rightarrow> 'i \<Rightarrow> string option" where
  "id_tag E c inst = get_tag (e_tags E c inst) ''ID''"

lemma get_tag_map_of: "get_tag tags name = map_of tags name"
  by (induction tags) auto

lemma id_tag_number: "id_tag E c = number_of E c"
  by (rule ext) (simp add: id_tag_def number_of_def tag_value_def get_tag_map_of)

lemma found_members:
  assumes "ec2_reads E" "params_ok P"
  shows "found E P c r = members E P c r"
proof -
  let ?fs = "[(''tag:Project'', [p_project P]), (''tag:Namespace'', [p_namespace P]), (''tag:Group'', [p_group P])]"
  have "tag_filters ?fs" using assms(2) by (simp add: tag_filters_def params_ok_def)
  with assms(1) have "e_filter E c r ?fs = filter (\<lambda>i. list_all (\<lambda>f. accepts E c f i) ?fs) (e_filter E c r [])"
    by (simp add: ec2_reads_def)
  moreover have "list_all (\<lambda>f. accepts E c f i) ?fs = member_of E P c i" for i
    by (auto simp: accepts_def member_of_def split: option.splits)
  ultimately show ?thesis by (simp add: found_def find_instances_def members_def live_def) (auto intro!: filter_cong)
qed

text \<open>A call that succeeds and changes neither what is found nor the numbers.\<close>

definition neutral :: "('c, 'i) ec2 \<Rightarrow> instance_params \<Rightarrow> ('c, unit) sres \<Rightarrow> bool" where
  "neutral E P f \<longleftrightarrow> (\<forall>c. \<exists>c'. f c = (c', Inr ()) \<and> found E P c' = found E P c \<and> id_tag E c' = id_tag E c)"

text \<open>
  What the module needs of its calls, with the requests that it makes: that new instances are as many as asked for and
  are found, that a terminated one is not, and that the tags it sets are numbers.
\<close>

definition ec2_works :: "('c, 'i) ec2 \<Rightarrow> instance_params \<Rightarrow> bool" where
  "ec2_works E P \<longleftrightarrow>
     (\<forall>c r. distinct (found E P c r)) \<and>
     (\<forall>c r r'. r \<noteq> r' \<longrightarrow> set (found E P c r) \<inter> set (found E P c r') = {}) \<and>
     (\<forall>c r n spec. 0 < n \<and> launch_spec P (find_ubuntu_ami E c r) n = Inr spec \<longrightarrow>
        (\<exists>c' new. e_create E r spec c = (c', Inr new) \<and> length new = n \<and> distinct new \<and>
           mset (found E P c' r) = mset (found E P c r) + mset new \<and> (\<forall>r'. r' \<noteq> r \<longrightarrow> found E P c' r' = found E P c r') \<and>
           (\<forall>r'. set new \<inter> set (found E P c r') = {}) \<and> (\<forall>i. i \<notin> set new \<longrightarrow> id_tag E c' i = id_tag E c i))) \<and>
     (\<forall>i c. \<exists>c'. e_terminate E i c = (c', Inr ()) \<and> (\<forall>r. found E P c' r = filter (\<lambda>j. j \<noteq> i) (found E P c r)) \<and> id_tag E c' = id_tag E c) \<and>
     (\<forall>r q. neutral E P (e_cancel_spot E r q)) \<and> (\<forall>ev r is. neutral E P (e_wait E ev r is)) \<and> (\<forall>i. neutral E P (e_reload E i)) \<and>
     (\<forall>i tag_id c. \<exists>c'. e_create_tags E i (instance_tags P tag_id) c = (c', Inr ()) \<and>
        found E P c' = found E P c \<and> id_tag E c' = (id_tag E c)(i := Some tag_id))"

lemma camel_names:
  "camel_to_snake ''VolumeSize'' = ''volume_size''" "camel_to_snake ''VolumeType'' = ''volume_type''" "camel_to_snake ''MaxPrice'' = ''max_price''"
  by code_simp+

lemma launch_spec_defined: "\<exists>spec. launch_spec P ami n = Inr spec"
  by (simp add: launch_spec_def camel_names param_option_def Let_def)

text \<open>The request for new instances asks for the right number, for an image of the region, and for the tags of the set.\<close>

lemma val_tags_of_spec:
  "map_of d ''ResourceType'' = Some (PyStr r) \<Longrightarrow> map_of d ''Tags'' = Some (PyList (map tag_dict ts)) \<Longrightarrow>
     val_tags r' (PyDict d) = (if r' = r then ts else [])"
proof -
  have "concat (map val_tag (map tag_dict ts)) = ts" by (induction ts) (auto simp: tag_dict_def)
  then show "map_of d ''ResourceType'' = Some (PyStr r) \<Longrightarrow> map_of d ''Tags'' = Some (PyList (map tag_dict ts)) \<Longrightarrow>
     val_tags r' (PyDict d) = (if r' = r then ts else [])" by auto
qed

lemma launch_spec_parts:
  assumes "launch_spec P ami n = Inr spec"
  shows "spec_count spec ''MinCount'' = Some (int n)" "spec_count spec ''MaxCount'' = Some (int n)" "spec_image spec = ami"
    "spec_tags spec ''instance'' =
       [(''Project'', p_project P), (''Namespace'', p_namespace P), (''Group'', p_group P)] @ p_add_tags P"
proof -
  let ?tags = "[(''Project'', p_project P), (''Namespace'', p_namespace P), (''Group'', p_group P)] @ p_add_tags P"
  have parts: "map_of spec ''MinCount'' = Some (PyInt (int n))" "map_of spec ''MaxCount'' = Some (PyInt (int n))"
    "map_of spec ''ImageId'' = Some (case ami of None \<Rightarrow> PyNone | Some i \<Rightarrow> PyStr i)"
    "map_of spec ''TagSpecifications'' = Some (PyList (map (\<lambda>rc_type. PyDict [(''ResourceType'', PyStr rc_type),
       (''Tags'', PyList (map tag_dict ?tags))]) [''instance'', ''volume'']))"
    using assms by (auto simp: launch_spec_def Let_def rbind_Inr_iff simp del: list.map append.simps split: if_splits)
  then show "spec_count spec ''MinCount'' = Some (int n)" "spec_count spec ''MaxCount'' = Some (int n)" "spec_image spec = ami"
    by (simp_all add: spec_count_def spec_image_def split: option.splits)
  have "val_tags ''instance'' (PyDict [(''ResourceType'', PyStr rc_type), (''Tags'', PyList (map tag_dict ?tags))]) =
      (if ''instance'' = rc_type then ?tags else [])" for rc_type
    by (rule val_tags_of_spec) simp_all
  then show "spec_tags spec ''instance'' = ?tags" by (simp add: spec_tags_def parts(4) del: val_tags.simps)
qed

lemma ami_of_region:
  assumes "e_images E c r \<noteq> []"
  shows "\<exists>image. find_ubuntu_ami E c r = Some image \<and> image \<in> snd ` set (e_images E c r)"
proof -
  have "sort_key fst (e_images E c r) \<noteq> []" using assms by (metis length_0_conv length_sort)
  then show ?thesis using last_in_set [of "sort_key fst (e_images E c r)"] by (simp add: find_ubuntu_ami_def Let_def)
qed

lemma undisturbing_neutral: "ec2_reads E \<Longrightarrow> params_ok P \<Longrightarrow> undisturbing E f \<Longrightarrow> neutral E P f"
proof -
  assume d: "ec2_reads E" "params_ok P" "undisturbing E f"
  show "neutral E P f"
    unfolding neutral_def
  proof
    fix c
    obtain c' where c': "f c = (c', Inr ())" "live E c' = live E c" "e_tags E c' = e_tags E c"
      using d(3) unfolding undisturbing_def by metis
    then have "member_of E P c' = member_of E P c" "id_tag E c' = id_tag E c"
      by (simp_all add: fun_eq_iff member_of_def tag_value_def id_tag_def)
    with c' show "\<exists>c'. f c = (c', Inr ()) \<and> found E P c' = found E P c \<and> id_tag E c' = id_tag E c"
      by (intro exI [of _ c']) (auto simp: found_members [OF d(1,2)] members_def)
  qed
qed

lemma documented_create:
  assumes "ec2_reads E" "ec2_creates E" "params_ok P" "e_images E c r \<noteq> []" "0 < n" "launch_spec P (find_ubuntu_ami E c r) n = Inr spec"
  shows "\<exists>c' new. e_create E r spec c = (c', Inr new) \<and> length new = n \<and> distinct new \<and>
    mset (found E P c' r) = mset (found E P c r) + mset new \<and> (\<forall>r'. r' \<noteq> r \<longrightarrow> found E P c' r' = found E P c r') \<and>
    (\<forall>r'. set new \<inter> set (found E P c r') = {}) \<and> (\<forall>i. i \<notin> set new \<longrightarrow> id_tag E c' i = id_tag E c i)"
proof -
  note parts = launch_spec_parts [OF assms(6)]
  let ?tags = "[(''Project'', p_project P), (''Namespace'', p_namespace P), (''Group'', p_group P)] @ p_add_tags P"
  obtain image where image: "spec_image spec = Some image" "image \<in> snd ` set (e_images E c r)"
    using ami_of_region [OF assms(4)] parts(3) by auto
  have "1 \<le> int n" "distinct (map fst ?tags)" using assms(3,5) by (simp_all add: params_ok_def)
  with assms(2) parts(1,2,4) image obtain c' new where new: "e_create E r spec c = (c', Inr new)" "int n \<le> int (length new)" "int (length new) \<le> int n"
    "distinct new" "\<forall>r'. set new \<inter> set (e_filter E c r' []) = {}" "mset (live E c' r) = mset (live E c r) + mset new"
    "\<forall>r'. r' \<noteq> r \<longrightarrow> live E c' r' = live E c r'" "\<forall>i. e_tags E c' i = (if i \<in> set new then ?tags else e_tags E c i)"
    unfolding ec2_creates_def by (metis order_refl)
  have old: "member_of E P c' i = member_of E P c i" "id_tag E c' i = id_tag E c i" if "i \<notin> set new" for i
    using that new(8) by (simp_all add: member_of_def tag_value_def id_tag_def)
  have fresh: "i \<notin> set new" if "i \<in> set (live E c r')" for i r'
    using that new(5) by (auto simp: live_def)
  have "filter_mset (member_of E P c') (mset new) = mset new"
    using new(8) by (auto simp: filter_mset_eq_conv member_of_def tag_value_def)
  moreover have "filter_mset (member_of E P c') (mset (live E c r)) = filter_mset (member_of E P c) (mset (live E c r))"
    by (rule filter_mset_cong) (auto simp: old fresh)
  ultimately have "mset (found E P c' r) = mset (found E P c r) + mset new"
    using new(6) by (simp add: found_members [OF assms(1,3)] members_def)
  moreover have "found E P c' r' = found E P c r'" if "r' \<noteq> r" for r'
    using that new(7) by (auto simp: found_members [OF assms(1,3)] members_def old fresh intro!: filter_cong)
  moreover have "set new \<inter> set (found E P c r') = {}" for r'
    using fresh by (auto simp: found_members [OF assms(1,3)] members_def)
  ultimately show ?thesis using new(1,2,3,4) old(2) by (intro exI [of _ c'] exI [of _ new]) auto
qed

lemma documented_terminate:
  assumes "ec2_reads E" "ec2_changes E" "params_ok P"
  shows "\<exists>c'. e_terminate E i c = (c', Inr ()) \<and> (\<forall>r. found E P c' r = filter (\<lambda>j. j \<noteq> i) (found E P c r)) \<and> id_tag E c' = id_tag E c"
proof -
  obtain c' where c': "e_terminate E i c = (c', Inr ())" "\<forall>r. live E c' r = filter (\<lambda>j. j \<noteq> i) (live E c r)" "e_tags E c' = e_tags E c"
    using assms(2) unfolding ec2_changes_def by metis
  then have "member_of E P c' = member_of E P c" "id_tag E c' = id_tag E c"
    by (simp_all add: fun_eq_iff member_of_def tag_value_def id_tag_def)
  with c' show ?thesis by (simp add: found_members [OF assms(1,3)] members_def conj_commute)
qed

lemma documented_tags:
  assumes "ec2_reads E" "ec2_changes E" "params_ok P"
  shows "\<exists>c'. e_create_tags E i (instance_tags P t) c = (c', Inr ()) \<and> found E P c' = found E P c \<and> id_tag E c' = (id_tag E c)(i := Some t)"
proof -
  have "distinct (map fst (instance_tags P t))" by (simp add: instance_tags_def)
  then obtain c' where c': "e_create_tags E i (instance_tags P t) c = (c', Inr ())" "live E c' = live E c"
    "tag_value E c' = (tag_value E c)(i := tag_value E c i ++ map_of (instance_tags P t))"
    using assms(2) unfolding ec2_changes_def by meson
  have same: "member_of E P c' = member_of E P c"
    by (rule ext) (simp add: member_of_def c'(3) instance_tags_def map_add_def)
  have "id_tag E c' = (id_tag E c)(i := Some t)"
    by (rule ext) (simp add: id_tag_number number_of_def c'(3) instance_tags_def map_add_def)
  moreover have "found E P c' = found E P c" using same c'(2) by (intro ext) (simp add: found_members [OF assms(1,3)] members_def)
  ultimately show ?thesis using c'(1) by blast
qed

lemma documented_works:
  assumes "ec2_documented E" "params_ok P" "\<And>c r. e_images E c r \<noteq> []"
  shows "ec2_works E P"
proof -
  have d: "ec2_reads E" "ec2_creates E" "ec2_changes E" using assms(1) by (simp_all add: ec2_documented_def)
  note found = found_members [OF d(1) assms(2)]
  have sub: "set (found E P c r) \<subseteq> set (e_filter E c r [])" for c r by (auto simp: found members_def live_def)
  have "\<forall>c r. distinct (found E P c r)" using d(1) by (simp add: ec2_reads_def found members_def live_def)
  moreover have "\<forall>c r r'. r \<noteq> r' \<longrightarrow> set (found E P c r) \<inter> set (found E P c r') = {}"
    using d(1) sub unfolding ec2_reads_def by (meson disjoint_iff subsetD)
  moreover have "(\<forall>r q. neutral E P (e_cancel_spot E r q)) \<and> (\<forall>ev r is. neutral E P (e_wait E ev r is)) \<and> (\<forall>i. neutral E P (e_reload E i))"
    using d(3) undisturbing_neutral [OF d(1) assms(2)] by (simp add: ec2_changes_def)
  moreover have "\<forall>c r n spec. 0 < n \<and> launch_spec P (find_ubuntu_ami E c r) n = Inr spec \<longrightarrow>
        (\<exists>c' new. e_create E r spec c = (c', Inr new) \<and> length new = n \<and> distinct new \<and>
           mset (found E P c' r) = mset (found E P c r) + mset new \<and> (\<forall>r'. r' \<noteq> r \<longrightarrow> found E P c' r' = found E P c r') \<and>
           (\<forall>r'. set new \<inter> set (found E P c r') = {}) \<and> (\<forall>i. i \<notin> set new \<longrightarrow> id_tag E c' i = id_tag E c i))"
  proof (intro allI impI, elim conjE)
    fix c r n spec assume "0 < n" "launch_spec P (find_ubuntu_ami E c r) n = Inr spec"
    then show "\<exists>c' new. e_create E r spec c = (c', Inr new) \<and> length new = n \<and> distinct new \<and>
           mset (found E P c' r) = mset (found E P c r) + mset new \<and> (\<forall>r'. r' \<noteq> r \<longrightarrow> found E P c' r' = found E P c r') \<and>
           (\<forall>r'. set new \<inter> set (found E P c r') = {}) \<and> (\<forall>i. i \<notin> set new \<longrightarrow> id_tag E c' i = id_tag E c i)"
      by (rule documented_create [OF d(1,2) assms(2,3)])
  qed
  moreover note documented_terminate [OF d(1,3) assms(2)] documented_tags [OF d(1,3) assms(2)]
  ultimately show ?thesis
    unfolding ec2_works_def by (elim conjE, intro conjI) (assumption | blast)+
qed

lemma works_create:
  assumes "ec2_works E P" "0 < n" "launch_spec P (find_ubuntu_ami E c r) n = Inr spec"
  obtains c' new where "e_create E r spec c = (c', Inr new)" "length new = n" "distinct new"
    "mset (found E P c' r) = mset (found E P c r) + mset new" "\<forall>r'. r' \<noteq> r \<longrightarrow> found E P c' r' = found E P c r'"
    "\<forall>r'. set new \<inter> set (found E P c r') = {}" "\<forall>i. i \<notin> set new \<longrightarrow> id_tag E c' i = id_tag E c i"
proof -
  from assms(1) have "\<forall>c r n spec. 0 < n \<and> launch_spec P (find_ubuntu_ami E c r) n = Inr spec \<longrightarrow>
        (\<exists>c' new. e_create E r spec c = (c', Inr new) \<and> length new = n \<and> distinct new \<and>
           mset (found E P c' r) = mset (found E P c r) + mset new \<and> (\<forall>r'. r' \<noteq> r \<longrightarrow> found E P c' r' = found E P c r') \<and>
           (\<forall>r'. set new \<inter> set (found E P c r') = {}) \<and> (\<forall>i. i \<notin> set new \<longrightarrow> id_tag E c' i = id_tag E c i))"
    unfolding ec2_works_def by (elim conjE)
  with assms(2,3) that show thesis by blast
qed

section \<open>Numbers of the regions\<close>

lemma assign_ids_append:
  "assign_ids regions is result r = result r @ map (\<lambda>i. nat_str (i + 1)) (filter (\<lambda>i. cycle_nth regions i = r) is)"
  by (induction "is" arbitrary: result) (simp_all add: Let_def)

lemma valid_instances_filter:
  "regions \<noteq> [] \<Longrightarrow> valid_instances regions cnt r = map (\<lambda>i. nat_str (i + 1)) (filter (\<lambda>i. cycle_nth regions i = r) [0..<nat cnt])"
  by (simp add: valid_instances_def assign_ids_append)

lemma sum_filter_regions:
  assumes "distinct rs" "\<And>i. i \<in> set is \<Longrightarrow> f i \<in> set rs"
  shows "mset (concat (map (\<lambda>r. map g (filter (\<lambda>i. f i = r) is)) rs)) = mset (map g is)"
  using assms(2)
proof (induction "is")
  case (Cons i "is")
  have "mset (concat (map (\<lambda>r. map g (if f i = r then i # filter (\<lambda>i. f i = r) is else filter (\<lambda>i. f i = r) is)) rs)) =
    (if f i \<in> set rs then {#g i#} else {#}) + mset (concat (map (\<lambda>r. map g (filter (\<lambda>i. f i = r) is)) rs))"
    using assms(1) by (induction rs) auto
  with Cons show ?case by simp
qed (induction rs, simp_all)

text \<open>All numbers from 1 to the count are there, each once.\<close>

lemma all_ids_assigned:
  assumes "regions \<noteq> []" "set regions \<subseteq> set AWS_REGIONS"
  shows "mset (concat (map (valid_instances regions cnt) AWS_REGIONS)) = mset (map (\<lambda>i. nat_str (i + 1)) [0..<nat cnt])"
proof -
  have "cycle_nth regions i \<in> set AWS_REGIONS" for i
    using assms nth_mem [of "i mod length regions" regions] by (auto simp: cycle_nth_def)
  moreover have "distinct AWS_REGIONS" by (simp add: AWS_REGIONS_def)
  ultimately show ?thesis
    using sum_filter_regions [of AWS_REGIONS "[0..<nat cnt]" "cycle_nth regions" "\<lambda>i. nat_str (i + 1)"]
    by (simp add: valid_instances_filter [OF assms(1)] cong: map_cong)
qed

section \<open>Quiet computations\<close>

text \<open>They succeed and change only what is awaited.\<close>

definition same_view :: "('c, 'i) ec2 \<Rightarrow> instance_params \<Rightarrow> ('c, 'i) manage \<Rightarrow> ('c, 'i) manage \<Rightarrow> bool" where
  "same_view E P s s' \<longleftrightarrow>
     found E P (cloud s') = found E P (cloud s) \<and> id_tag E (cloud s') = id_tag E (cloud s) \<and> hosts s' = hosts s \<and>
     terminated s' = terminated s \<and> tag_ids s' = tag_ids s \<and> changed s' = changed s"

definition quiet :: "('c, 'i) ec2 \<Rightarrow> instance_params \<Rightarrow> (('c, 'i) manage, unit) sres \<Rightarrow> bool" where
  "quiet E P m \<longleftrightarrow> (\<forall>s. \<exists>s'. m s = (s', Inr ()) \<and> same_view E P s s')"

lemma same_view_refl [simp]: "same_view E P s s"
  by (simp add: same_view_def)

lemma same_view_trans: "same_view E P s1 s2 \<Longrightarrow> same_view E P s2 s3 \<Longrightarrow> same_view E P s1 s3"
  by (simp add: same_view_def)

named_theorems quiet_rules \<open>computations that leave instances and results as they are\<close>

lemma quiet_sret [quiet_rules]: "quiet E P (sret ())"
  by (simp add: quiet_def)

lemma quiet_api [quiet_rules]:
  fixes E :: "('c, 'i) ec2"
  shows "neutral E P f \<Longrightarrow> quiet E P (api f)"
  unfolding quiet_def
proof
  fix s :: "('c, 'i) manage" assume "neutral E P f"
  then obtain c' where "f (cloud s) = (c', Inr ())" "found E P c' = found E P (cloud s)" "id_tag E c' = id_tag E (cloud s)"
    unfolding neutral_def by blast
  then show "\<exists>s'. api f s = (s', Inr ()) \<and> same_view E P s s'" by (simp add: api_def same_view_def)
qed

lemma quiet_sbind [quiet_rules]: "quiet E P m \<Longrightarrow> (\<And>x. quiet E P (f x)) \<Longrightarrow> quiet E P (sbind m f)"
  unfolding quiet_def by (metis sbind_step same_view_trans)

lemma quiet_smodify [quiet_rules]: "(\<And>s. same_view E P s (f s)) \<Longrightarrow> quiet E P (smodify f)"
  by (simp add: quiet_def)

lemma quiet_reload_all: "ec2_works E P \<Longrightarrow> quiet E P (reload_all E is)"
  by (induction "is") (auto intro!: quiet_rules simp: ec2_works_def)

lemma quiet_wait_all:
  assumes "ec2_works E P" "\<And>r s. same_view E P s (forget r s)"
  shows "quiet E P (wait_all E ev upd forget aw)"
  using assms by (induction E ev upd forget aw rule: wait_all.induct)
    (auto intro!: quiet_rules quiet_reload_all simp: ec2_works_def)

lemma quiet_waits: "ec2_works E P \<Longrightarrow> quiet E P (launcher_wait E)" "ec2_works E P \<Longrightarrow> quiet E P (terminator_wait E)"
  using quiet_wait_all [of E P "\<lambda>region s. s\<lparr>launching := AList.delete region (launching s)\<rparr>"]
    quiet_wait_all [of E P "\<lambda>region s. s\<lparr>terminating := AList.delete region (terminating s)\<rparr>"]
  by (simp_all add: quiet_def launcher_wait_def terminator_wait_def same_view_def)

section \<open>One region\<close>

text \<open>Which instances are kept, which are dropped and which numbers remain.\<close>

fun scan :: "('i \<Rightarrow> string option) \<Rightarrow> 'i list \<Rightarrow> string list \<Rightarrow> 'i list \<times> 'i list \<times> string list" where
  "scan tag [] valid = ([], [], valid)"
| "scan tag (i # is) valid =
     (case tag i of
        Some t \<Rightarrow> if t \<in> set valid then (case scan tag is (remove1 t valid) of (k, d, v) \<Rightarrow> (i # k, d, v))
                  else (case scan tag is valid of (k, d, v) \<Rightarrow> (k, i # d, v))
      | None \<Rightarrow> (case scan tag is valid of (k, d, v) \<Rightarrow> (k, i # d, v)))"

lemma mset_map_remove1: "t \<in> set xs \<Longrightarrow> mset (map f xs) = add_mset (f t) (mset (map f (remove1 t xs)))"
  by (induction xs) auto

lemma scan_numbers: "scan tag is valid = (k, d, v) \<Longrightarrow> mset (map tag k) + mset (map Some v) = mset (map Some valid)"
proof (induction "is" arbitrary: valid k d v)
  case (Cons i "is")
  show ?case
  proof (cases "\<exists>t. tag i = Some t \<and> t \<in> set valid")
    case True
    then obtain t where t: "tag i = Some t" "t \<in> set valid" by blast
    then obtain k' where k': "scan tag is (remove1 t valid) = (k', d, v)" "k = i # k'"
      using Cons.prems by (auto split: prod.splits)
    have "mset (map Some valid) = add_mset (Some t) (mset (map Some (remove1 t valid)))"
      using t(2) by (rule mset_map_remove1)
    with Cons.IH [OF k'(1)] t k'(2) show ?thesis by simp
  next
    case False
    with Cons.prems Cons.IH show ?thesis by (fastforce split: option.splits prod.splits if_splits)
  qed
qed simp

lemma scan_split: "scan tag is valid = (k, d, v) \<Longrightarrow> mset is = mset k + mset d"
  by (induction tag "is" valid arbitrary: k d v rule: scan.induct) (force split: option.splits prod.splits if_splits)+

lemma scan_all:
  "mset (map tag is) = mset (map Some valid) \<Longrightarrow> scan tag is valid = (is, [], [])"
proof (induction "is" arbitrary: valid)
  case (Cons i "is")
  then have "tag i \<in> set (map Some valid)" by (metis list.set_intros(1) list.simps(9) mset_eq_setD)
  then obtain t where t: "tag i = Some t" "t \<in> set valid" by auto
  with mset_map_remove1 [OF t(2), of Some] Cons.prems have "mset (map tag is) = mset (map Some (remove1 t valid))" by simp
  with Cons.IH t show ?case by simp
qed simp

text \<open>What the two kinds of instances do to the state.\<close>

lemma terminate_result:
  assumes "ec2_works E P"
  shows "\<exists>s'. terminate E i r s = (s', Inr ()) \<and> (\<forall>r. found E P (cloud s') r = filter (\<lambda>j. j \<noteq> i) (found E P (cloud s) r)) \<and>
    id_tag E (cloud s') = id_tag E (cloud s) \<and> hosts s' = hosts s \<and> terminated s' = terminated s \<and> tag_ids s' = tag_ids s \<and> changed s' = changed s"
proof -
  obtain c' where c': "e_terminate E i (cloud s) = (c', Inr ())" "\<And>r. found E P c' r = filter (\<lambda>j. j \<noteq> i) (found E P (cloud s) r)"
    "id_tag E c' = id_tag E (cloud s)"
    using assms unfolding ec2_works_def by metis
  let ?s = "s\<lparr>cloud := c', terminating := add_instance E c' i r (terminating s)\<rparr>"
  have "quiet E P (\<lambda>s. (case e_spot_request E (cloud s) i of None \<Rightarrow> sret ()
      | Some q \<Rightarrow> if q = [] then sret () else api (e_cancel_spot E (if r \<noteq> [] then r else instance_region E (cloud s) i) q)) s)"
    using assms quiet_api [of E P] by (fastforce simp: quiet_def ec2_works_def split: option.splits)
  then obtain s' where s': "(case e_spot_request E (cloud ?s) i of None \<Rightarrow> sret ()
      | Some q \<Rightarrow> if q = [] then sret () else api (e_cancel_spot E (if r \<noteq> [] then r else instance_region E (cloud ?s) i) q)) ?s = (s', Inr ())"
    "same_view E P ?s s'"
    unfolding quiet_def by blast
  have "terminate E i r s = (s', Inr ())"
    using s'(1) c'(1) by (simp add: terminate_def api_def)
  with s'(2) c' show ?thesis by (auto simp: same_view_def)
qed

lemma drop_result:
  assumes "ec2_works E P"
  shows "\<exists>s' h. drop_instance E r i s = (s', Inr ()) \<and> (\<forall>r. found E P (cloud s') r = filter (\<lambda>j. j \<noteq> i) (found E P (cloud s) r)) \<and>
    id_tag E (cloud s') = id_tag E (cloud s) \<and> hosts s' = hosts s \<and> terminated s' = terminated s @ [h] \<and> tag_ids s' = tag_ids s \<and> changed s'"
proof -
  obtain s' where "terminate E i r (s\<lparr>terminated := terminated s @ [host_info_of E (cloud s) i]\<rparr>) = (s', Inr ())"
    "(\<forall>r. found E P (cloud s') r = filter (\<lambda>j. j \<noteq> i) (found E P (cloud s) r)) \<and> id_tag E (cloud s') = id_tag E (cloud s) \<and>
     hosts s' = hosts s \<and> terminated s' = terminated s @ [host_info_of E (cloud s) i] \<and> tag_ids s' = tag_ids s"
    using terminate_result [OF assms, of i r "s\<lparr>terminated := terminated s @ [host_info_of E (cloud s) i]\<rparr>"] by auto
  then show ?thesis by (intro exI [of _ "s'\<lparr>changed := True\<rparr>"]) (auto simp: drop_instance_def)
qed

lemma sort_result:
  assumes "ec2_works E P"
  shows "scan (id_tag E (cloud s)) is valid = (k, d, v) \<Longrightarrow>
    \<exists>s' hs. sort_instances E r is valid s = (s', Inr v) \<and>
      (\<forall>r. found E P (cloud s') r = filter (\<lambda>j. j \<notin> set d) (found E P (cloud s) r)) \<and> id_tag E (cloud s') = id_tag E (cloud s) \<and>
      hosts s' = hosts s @ k \<and> terminated s' = terminated s @ hs \<and> length hs = length d \<and> tag_ids s' = tag_ids s \<and> changed s' = (changed s \<or> d \<noteq> [])"
proof (induction "is" arbitrary: s valid k d)
  case (Cons i "is")
  show ?case
  proof (cases "\<exists>t. id_tag E (cloud s) i = Some t \<and> t \<in> set valid")
    case True
    then obtain t where t: "id_tag E (cloud s) i = Some t" "t \<in> set valid" by blast
    then obtain k' where k': "scan (id_tag E (cloud s)) is (remove1 t valid) = (k', d, v)" "k = i # k'"
      using Cons.prems by (auto split: prod.splits)
    let ?s = "s\<lparr>hosts := hosts s @ [i], launching := add_instance E (cloud s) i r (launching s)\<rparr>"
    have "sort_instances E r (i # is) valid s = sort_instances E r is (remove1 t valid) ?s"
      using t by (simp add: id_tag_def)
    with Cons.IH [of ?s "remove1 t valid" k' d] k' show ?thesis by auto
  next
    case False
    then obtain d' where d': "scan (id_tag E (cloud s)) is valid = (k, d', v)" "d = i # d'"
      using Cons.prems by (auto split: option.splits prod.splits if_splits)
    obtain s1 h where s1: "drop_instance E r i s = (s1, Inr ())" "\<forall>r. found E P (cloud s1) r = filter (\<lambda>j. j \<noteq> i) (found E P (cloud s) r)"
      "id_tag E (cloud s1) = id_tag E (cloud s)" "hosts s1 = hosts s" "terminated s1 = terminated s @ [h]" "tag_ids s1 = tag_ids s" "changed s1"
      using drop_result [OF assms] by blast
    have "sort_instances E r (i # is) valid s = sort_instances E r is valid s1"
      using False s1(1) by (auto simp: id_tag_def split: option.splits)
    moreover obtain s' hs where "sort_instances E r is valid s1 = (s', Inr v)"
      "\<forall>r. found E P (cloud s') r = filter (\<lambda>j. j \<notin> set d') (found E P (cloud s1) r)" "id_tag E (cloud s') = id_tag E (cloud s1)"
      "hosts s' = hosts s1 @ k" "terminated s' = terminated s1 @ hs" "length hs = length d'" "tag_ids s' = tag_ids s1" "changed s'"
      using Cons.IH [of s1 valid k d'] d'(1) s1(3,7) by auto
    ultimately show ?thesis using s1 d'(2)
      by (intro exI [of _ s'] exI [of _ "h # hs"]) (auto simp: filter_filter conj_commute)
  qed
qed simp

lemma add_launched_result: "\<exists>s'. add_launched E r is s = (s', Inr ()) \<and> same_view E P s s'"
proof (induction "is" arbitrary: s)
  case (Cons i "is")
  from Cons.IH [of "s\<lparr>launching := add_instance E (cloud s) i r (launching s)\<rparr>"] show ?case by (auto simp: same_view_def)
qed simp

lemma launch_result:
  assumes "ec2_works E P"
  shows "\<exists>s' new. launch_missing E P r valid s = (s', Inr ()) \<and> length new = length valid \<and> distinct new \<and>
    mset (found E P (cloud s') r) = mset (found E P (cloud s) r) + mset new \<and> (\<forall>r'. r' \<noteq> r \<longrightarrow> found E P (cloud s') r' = found E P (cloud s) r') \<and>
    (\<forall>r'. set new \<inter> set (found E P (cloud s) r') = {}) \<and> (\<forall>i. i \<notin> set new \<longrightarrow> id_tag E (cloud s') i = id_tag E (cloud s) i) \<and>
    hosts s' = hosts s @ new \<and> tag_ids s' = tag_ids s @ zip new valid \<and> terminated s' = terminated s"
proof (cases "valid = []")
  case True
  then show ?thesis by (intro exI [of _ s] exI [of _ "[]"]) (simp add: launch_missing_def)
next
  case False
  obtain spec where spec: "launch_spec P (find_ubuntu_ami E (cloud s) r) (length valid) = Inr spec"
    using launch_spec_defined by blast
  then obtain c' new where new: "e_create E r spec (cloud s) = (c', Inr new)" "length new = length valid" "distinct new"
    "mset (found E P c' r) = mset (found E P (cloud s) r) + mset new" "\<forall>r'. r' \<noteq> r \<longrightarrow> found E P c' r' = found E P (cloud s) r'"
    "\<forall>r'. set new \<inter> set (found E P (cloud s) r') = {}" "\<forall>i. i \<notin> set new \<longrightarrow> id_tag E c' i = id_tag E (cloud s) i"
    using works_create [OF assms(1)] False by (metis length_greater_0_conv)
  obtain s1 where s1: "add_launched E r new (s\<lparr>cloud := c'\<rparr>) = (s1, Inr ())" "same_view E P (s\<lparr>cloud := c'\<rparr>) s1"
    using add_launched_result by blast
  have "launch E P (length valid) r s = (s1, Inr new)"
    using spec new(1) s1(1) by (simp add: launch_def api_def)
  with False have "launch_missing E P r valid s = (s1\<lparr>tag_ids := tag_ids s1 @ zip new valid,
    hosts := hosts s1 @ take (length valid) new, changed := (changed s1 \<or> zip new valid \<noteq> [])\<rparr>, Inr ())"
    by (simp add: launch_missing_def)
  with new s1(2) show ?thesis by (simp add: same_view_def)
qed

section \<open>All regions\<close>

text \<open>The number that an instance will have once the tags are set.\<close>

definition future_id :: "('c, 'i) ec2 \<Rightarrow> ('c, 'i) manage \<Rightarrow> 'i \<Rightarrow> string option" where
  "future_id E s = id_tag E (cloud s) ++ map_of (tag_ids s)"

definition settled :: "('c, 'i) ec2 \<Rightarrow> instance_params \<Rightarrow> (string \<Rightarrow> string list) \<Rightarrow> ('c, 'i) manage \<Rightarrow> string \<Rightarrow> bool" where
  "settled E P ids s r \<longleftrightarrow> mset (map (future_id E s) (found E P (cloud s) r)) = mset (map Some (ids r))"

definition pending_in :: "('c, 'i) ec2 \<Rightarrow> instance_params \<Rightarrow> string set \<Rightarrow> ('c, 'i) manage \<Rightarrow> bool" where
  "pending_in E P D s \<longleftrightarrow> distinct (map fst (tag_ids s)) \<and> fst ` set (tag_ids s) \<subseteq> (\<Union>r\<in>D. set (found E P (cloud s) r))"

lemma kept_remain:
  assumes "distinct is" "mset is = mset k + mset d"
  shows "mset (filter (\<lambda>j. j \<notin> set d) is) = mset k" and "set k \<subseteq> set is" and "set d \<subseteq> set is"
proof -
  have "distinct (k @ d)" using assms by (metis mset_append mset_eq_imp_distinct_iff)
  then have "filter_mset (\<lambda>j. j \<notin> set d) (mset k) = mset k" by (auto simp: filter_mset_eq_conv)
  moreover have "filter (\<lambda>j. j \<notin> set d) d = []" by (simp add: filter_empty_conv)
  then have "filter_mset (\<lambda>j. j \<notin> set d) (mset d) = {#}" by (metis mset.simps(1) mset_filter)
  ultimately show "mset (filter (\<lambda>j. j \<notin> set d) is) = mset k" using assms(2) by simp
  show "set k \<subseteq> set is" "set d \<subseteq> set is" using assms(2) by (metis Un_upper1 Un_upper2 set_mset_mset set_mset_union)+
qed

lemma map_of_zip_all: "distinct xs \<Longrightarrow> length xs = length ys \<Longrightarrow> map (map_of (zip xs ys)) xs = map Some ys"
  by (rule nth_equalityI) (simp_all add: map_of_zip_nth)

lemma future_id_extended:
  assumes "tag_ids s' = tag_ids s @ zip new v" "length new = length v" "distinct new" "set new \<inter> fst ` set (tag_ids s) = {}"
  shows "i \<notin> set new \<Longrightarrow> id_tag E (cloud s') i = id_tag E (cloud s) i \<Longrightarrow> future_id E s' i = future_id E s i"
    and "map (future_id E s') new = map Some v"
proof -
  have "map_of (zip new v) i = None" if "i \<notin> set new" for i
    using that assms(2) by (simp add: map_of_zip_is_None)
  then show "i \<notin> set new \<Longrightarrow> id_tag E (cloud s') i = id_tag E (cloud s) i \<Longrightarrow> future_id E s' i = future_id E s i"
    using assms(1) by (simp add: future_id_def map_add_def split: option.splits)
  have "future_id E s' i = map_of (zip new v) i" if "i \<in> set new" for i
  proof -
    have "map_of (tag_ids s) i = None" using that assms(4) by (auto simp: map_of_eq_None_iff)
    moreover obtain t where "map_of (zip new v) i = Some t" using \<open>i \<in> set new\<close> assms(2) by (metis map_of_zip_is_Some)
    ultimately show ?thesis using assms(1) by (simp add: future_id_def map_add_def)
  qed
  with map_of_zip_all [OF assms(3,2)] show "map (future_id E s') new = map Some v" by (metis map_cong)
qed

lemma region_step:
  assumes W: "ec2_works E P" and r: "r \<notin> D" and pend: "pending_in E P D s" and old: "\<forall>r'\<in>D. settled E P ids s r'"
  shows "\<exists>s'. sbind (sort_instances E r (found E P (cloud s) r) (ids r)) (launch_missing E P r) s = (s', Inr ()) \<and>
    pending_in E P (insert r D) s' \<and> (\<forall>r'\<in>insert r D. settled E P ids s' r')"
proof -
  let ?is = "found E P (cloud s) r"
  have dist: "distinct ?is" and disj: "\<And>c r r'. r \<noteq> r' \<Longrightarrow> set (found E P c r) \<inter> set (found E P c r') = {}"
    using W by (simp_all add: ec2_works_def)
  obtain k d v where scan: "scan (id_tag E (cloud s)) ?is (ids r) = (k, d, v)" by (metis prod_cases3)
  note kept = kept_remain [OF dist scan_split [OF scan]]
  obtain s1 where s1: "sort_instances E r ?is (ids r) s = (s1, Inr v)"
    "\<forall>r'. found E P (cloud s1) r' = filter (\<lambda>j. j \<notin> set d) (found E P (cloud s) r')"
    "id_tag E (cloud s1) = id_tag E (cloud s)" "tag_ids s1 = tag_ids s"
    using sort_result [OF W scan] by blast
  obtain s2 new where s2: "launch_missing E P r v s1 = (s2, Inr ())" "length new = length v" "distinct new"
    "mset (found E P (cloud s2) r) = mset (found E P (cloud s1) r) + mset new"
    "\<forall>r'. r' \<noteq> r \<longrightarrow> found E P (cloud s2) r' = found E P (cloud s1) r'"
    "\<forall>r'. set new \<inter> set (found E P (cloud s1) r') = {}" "\<forall>i. i \<notin> set new \<longrightarrow> id_tag E (cloud s2) i = id_tag E (cloud s1) i"
    "tag_ids s2 = tag_ids s1 @ zip new v"
    using launch_result [OF W] by blast
  have other: "found E P (cloud s2) r' = found E P (cloud s) r'" if "r' \<noteq> r" for r'
    using that s1(2) s2(5) kept(3) disj [of r' r "cloud s"] by (auto intro!: filter_True)
  have mset_r: "mset (found E P (cloud s2) r) = mset k + mset new"
    using s1(2) s2(4) kept(1) by simp
  have same: "found E P (cloud s1) r' = found E P (cloud s) r'" if "r' \<in> D" for r'
    using that r other [of r'] s2(5) by metis
  have pending: "fst ` set (tag_ids s) \<subseteq> (\<Union>r'\<in>D. set (found E P (cloud s1) r'))"
    using pend by (simp add: pending_in_def same)
  have new_tags: "set new \<inter> fst ` set (tag_ids s) = {}" using pending s2(6) by blast
  have k_tags: "set k \<inter> fst ` set (tag_ids s) = {}" "set k \<inter> set new = {}"
  proof -
    have "fst ` set (tag_ids s) \<subseteq> (\<Union>r'\<in>D. set (found E P (cloud s) r'))" using pend by (simp add: pending_in_def)
    moreover have "set ?is \<inter> (\<Union>r'\<in>D. set (found E P (cloud s) r')) = {}"
    proof (rule equals0I)
      fix i assume "i \<in> set ?is \<inter> (\<Union>r'\<in>D. set (found E P (cloud s) r'))"
      then obtain r' where "r' \<in> D" "i \<in> set ?is \<inter> set (found E P (cloud s) r')" by blast
      with r disj [of r r' "cloud s"] show False by blast
    qed
    ultimately show "set k \<inter> fst ` set (tag_ids s) = {}" using kept(2) by (meson disjoint_iff subsetD)
    have "set k = set (found E P (cloud s1) r)" using s1(2) kept(1) by (metis mset_eq_setD)
    with s2(6) show "set k \<inter> set new = {}" by blast
  qed
  note ext = future_id_extended [OF s2(8) [unfolded s1(4)] s2(2,3) new_tags]
  have fut: "\<And>i. i \<notin> set new \<Longrightarrow> future_id E s2 i = future_id E s i" and fut_new: "map (future_id E s2) new = map Some v"
    using ext s1(3) s2(7) by simp_all
  have fut_k: "map (future_id E s2) k = map (id_tag E (cloud s)) k"
  proof (rule map_cong [OF refl])
    fix i assume "i \<in> set k"
    with k_tags have "i \<notin> set new" "map_of (tag_ids s) i = None" by (auto simp: map_of_eq_None_iff)
    with fut show "future_id E s2 i = id_tag E (cloud s) i" by (simp add: future_id_def map_add_def)
  qed
  have "settled E P ids s2 r"
  proof -
    have "mset (map (future_id E s2) (found E P (cloud s2) r)) = mset (map (future_id E s2) k) + mset (map (future_id E s2) new)"
      using mset_r by (metis image_mset_union mset_map)
    then show ?thesis unfolding settled_def fut_k fut_new scan_numbers [OF scan] .
  qed
  moreover have "settled E P ids s2 r'" if "r' \<in> D" for r'
  proof -
    have ne: "r' \<noteq> r" using that r by blast
    have "i \<notin> set new" if "i \<in> set (found E P (cloud s) r')" for i
      using that same [OF \<open>r' \<in> D\<close>] s2(6) by (metis disjoint_iff)
    then have eq: "map (future_id E s2) (found E P (cloud s) r') = map (future_id E s) (found E P (cloud s) r')"
      using fut by simp
    from old that have "settled E P ids s r'" by blast
    then show ?thesis unfolding settled_def other [OF ne] eq .
  qed
  moreover have "pending_in E P (insert r D) s2"
  proof -
    have all: "map fst (tag_ids s2) = map fst (tag_ids s) @ new" using s1(4) s2(2,8) by simp
    have "set new \<subseteq> set (found E P (cloud s2) r)" using mset_r by (metis set_mset_mset set_mset_union sup_ge2)
    moreover have "found E P (cloud s2) r' = found E P (cloud s1) r'" if "r' \<in> D" for r'
      using that r s2(5) by metis
    then have "fst ` set (tag_ids s) \<subseteq> (\<Union>r'\<in>D. set (found E P (cloud s2) r'))" using pending by simp
    ultimately have "set (map fst (tag_ids s2)) \<subseteq> (\<Union>r'\<in>insert r D. set (found E P (cloud s2) r'))"
      unfolding all by auto
    moreover have "distinct (map fst (tag_ids s2))"
      unfolding all using pend new_tags s2(3) by (auto simp: pending_in_def)
    ultimately show ?thesis by (simp add: pending_in_def)
  qed
  ultimately show ?thesis using s1(1) s2(1) by auto
qed

lemma regions_result:
  assumes "ec2_works E P"
  shows "distinct rs \<Longrightarrow> D \<inter> set rs = {} \<Longrightarrow> pending_in E P D s \<Longrightarrow> \<forall>r\<in>D. settled E P ids s r \<Longrightarrow>
    \<exists>s'. manage_regions E P ids rs s = (s', Inr ()) \<and> distinct (map fst (tag_ids s')) \<and> (\<forall>r\<in>D \<union> set rs. settled E P ids s' r)"
proof (induction rs arbitrary: D s)
  case Nil
  then show ?case by (simp add: pending_in_def)
next
  case (Cons r rs)
  then obtain s1 where s1: "sbind (sort_instances E r (found E P (cloud s) r) (ids r)) (launch_missing E P r) s = (s1, Inr ())"
    "pending_in E P (insert r D) s1" "\<forall>r'\<in>insert r D. settled E P ids s1 r'"
    using region_step [OF assms, of r D s ids] by auto
  then have "manage_regions E P ids (r # rs) s = manage_regions E P ids rs s1"
    by (auto simp: found_def [symmetric] sbind_Inr_iff)
  with Cons.IH [of "insert r D" s1] Cons.prems s1(2,3) show ?case by auto
qed

text \<open>Setting the tags makes the future numbers present.\<close>

lemma tag_all_result:
  assumes "ec2_works E P"
  shows "distinct (map fst ts) \<Longrightarrow> \<exists>s'. tag_all E P ts s = (s', Inr ()) \<and> found E P (cloud s') = found E P (cloud s) \<and>
    id_tag E (cloud s') = id_tag E (cloud s) ++ map_of ts \<and>
    terminated s' = terminated s \<and> hosts s' = hosts s \<and> changed s' = changed s"
proof (induction ts arbitrary: s)
  case (Cons it ts)
  obtain i t where it: "it = (i, t)" by (cases it)
  obtain c' where c': "e_create_tags E i (instance_tags P t) (cloud s) = (c', Inr ())" "found E P c' = found E P (cloud s)"
    "id_tag E c' = (id_tag E (cloud s))(i := Some t)"
    using assms unfolding ec2_works_def by meson
  have "map_of ts i = None" using Cons.prems it by (simp add: map_of_eq_None_iff)
  moreover from Cons.IH [of "s\<lparr>cloud := c'\<rparr>"] Cons.prems obtain s' where
    "tag_all E P ts (s\<lparr>cloud := c'\<rparr>) = (s', Inr ())" "found E P (cloud s') = found E P c'"
    "id_tag E (cloud s') = id_tag E c' ++ map_of ts"
    "terminated s' = terminated s \<and> hosts s' = hosts s \<and> changed s' = changed s" by auto
  ultimately show ?case using it c' by (intro exI [of _ s']) (auto simp: api_def fun_eq_iff map_add_def split: option.splits)
qed simp

definition converged :: "('c, 'i) ec2 \<Rightarrow> instance_params \<Rightarrow> (string \<Rightarrow> string list) \<Rightarrow> 'c \<Rightarrow> bool" where
  "converged E P ids c \<longleftrightarrow> (\<forall>r\<in>set AWS_REGIONS. mset (map (id_tag E c) (found E P c r)) = mset (map Some (ids r)))"

lemma manage_converges:
  assumes "ec2_works E P"
  shows "\<exists>c' res. manage_instances E regions P cnt c = (c', Inr res) \<and> converged E P (valid_instances regions cnt) c'"
proof -
  let ?ids = "valid_instances regions cnt"
  have "pending_in E P {} (new_manage c)" by (simp add: pending_in_def new_manage_def)
  then obtain s1 where s1: "manage_regions E P ?ids AWS_REGIONS (new_manage c) = (s1, Inr ())" "distinct (map fst (tag_ids s1))"
    "\<forall>r\<in>set AWS_REGIONS. settled E P ?ids s1 r"
    using regions_result [OF assms, of AWS_REGIONS "{}" "new_manage c" ?ids] by (auto simp: AWS_REGIONS_def)
  obtain s2 where s2: "launcher_wait E s1 = (s2, Inr ())" "same_view E P s1 s2"
    using quiet_waits(1) [OF assms] unfolding quiet_def by blast
  obtain s3 where s3: "tag_all E P (tag_ids s2) s2 = (s3, Inr ())" "found E P (cloud s3) = found E P (cloud s2)"
    "id_tag E (cloud s3) = id_tag E (cloud s2) ++ map_of (tag_ids s2)"
    using tag_all_result [OF assms, of "tag_ids s2" s2] s1(2) s2(2) by (auto simp: same_view_def)
  obtain s4 where s4: "terminator_wait E s3 = (s4, Inr ())" "same_view E P s3 s4"
    using quiet_waits(2) [OF assms] unfolding quiet_def by blast
  have "id_tag E (cloud s4) = future_id E s1" "found E P (cloud s4) = found E P (cloud s1)"
    using s2(2) s3(2,3) s4(2) by (auto simp: same_view_def future_id_def)
  with s1(3) have "converged E P ?ids (cloud s4)" by (simp add: converged_def settled_def)
  moreover have "manage_body E regions P cnt (new_manage c) = (s4, Inr ())"
    using s1(1) s2(1) s3(1) s4(1) by (simp add: manage_body_def)
  ultimately show ?thesis by (simp add: manage_instances_def)
qed

text \<open>A run on a set that is as it should be finds every number taken and every instance in its place.\<close>

lemma regions_unchanged:
  assumes "ec2_works E P" "\<forall>r\<in>set rs. mset (map (id_tag E (cloud s)) (found E P (cloud s) r)) = mset (map Some (ids r))"
  shows "\<exists>s'. manage_regions E P ids rs s = (s', Inr ()) \<and> found E P (cloud s') = found E P (cloud s) \<and>
    id_tag E (cloud s') = id_tag E (cloud s) \<and> tag_ids s' = tag_ids s \<and> terminated s' = terminated s \<and> changed s' = changed s"
  using assms(2)
proof (induction rs arbitrary: s)
  case (Cons r rs)
  then have scan: "scan (id_tag E (cloud s)) (found E P (cloud s) r) (ids r) = (found E P (cloud s) r, [], [])"
    by (intro scan_all) simp
  obtain s1 where s1: "sort_instances E r (found E P (cloud s) r) (ids r) s = (s1, Inr [])"
    "found E P (cloud s1) = found E P (cloud s)" "id_tag E (cloud s1) = id_tag E (cloud s)" "terminated s1 = terminated s"
    "tag_ids s1 = tag_ids s" "changed s1 = changed s"
    using sort_result [OF assms(1) scan, of r] by (auto simp: fun_eq_iff)
  then have "manage_regions E P ids (r # rs) s = manage_regions E P ids rs s1"
    by (simp add: found_def [symmetric] launch_missing_def)
  with Cons.IH [of s1] Cons.prems s1 show ?case by auto
qed simp

lemma manage_stable:
  assumes "ec2_works E P" "converged E P (valid_instances regions cnt) c"
  shows "\<exists>c' res. manage_instances E regions P cnt c = (c', Inr res) \<and> found E P c' = found E P c \<and> id_tag E c' = id_tag E c \<and>
    \<not> r_changed res \<and> r_terminated res = []"
proof -
  let ?ids = "valid_instances regions cnt"
  obtain s1 where s1: "manage_regions E P ?ids AWS_REGIONS (new_manage c) = (s1, Inr ())" "found E P (cloud s1) = found E P c"
    "id_tag E (cloud s1) = id_tag E c" "tag_ids s1 = []" "terminated s1 = []" "\<not> changed s1"
    using regions_unchanged [OF assms(1), of AWS_REGIONS "new_manage c" ?ids] assms(2) by (auto simp: converged_def new_manage_def)
  obtain s2 where s2: "launcher_wait E s1 = (s2, Inr ())" "same_view E P s1 s2"
    using quiet_waits(1) [OF assms(1)] unfolding quiet_def by blast
  obtain s4 where s4: "terminator_wait E s2 = (s4, Inr ())" "same_view E P s2 s4"
    using quiet_waits(2) [OF assms(1)] unfolding quiet_def by blast
  have "manage_body E regions P cnt (new_manage c) = (s4, Inr ())"
    using s1(1,4) s2 s4(1) by (simp add: manage_body_def same_view_def)
  with s1 s2(2) s4(2) show ?thesis by (simp add: manage_instances_def same_view_def)
qed

text \<open>The numbers of a region, in terms of the list of regions alone.\<close>

definition numbers_in :: "string list \<Rightarrow> int \<Rightarrow> string \<Rightarrow> string list" where
  "numbers_in regions cnt r = map (\<lambda>i. nat_str (i + 1)) (filter (\<lambda>i. regions ! (i mod length regions) = r) [0..<nat cnt])"

lemma valid_instances_numbers: "regions \<noteq> [] \<Longrightarrow> valid_instances regions cnt r = numbers_in regions cnt r"
  by (simp add: valid_instances_filter numbers_in_def cycle_nth_def)

text \<open>
  C34: The set of instances converges. Let the calls of the cloud behave as documented and succeed, let every region
  have an image, let the list of regions be nonempty and name known regions only, and let the names of the set have no
  wildcards and no tag key be given twice. Then a run of \<open>manage_instances\<close> returns, and the live instances with the tags
  of the set are in every region those with the numbers that the region gets when the numbers from 1 to the count are
  dealt out to the listed regions in turn, each number once; a further run returns, reports no change, terminates
  nothing and leaves the instances of the set and their numbers as they are.
\<close>

theorem instances_converge:
  assumes "ec2_documented E" "\<And>c r. e_images E c r \<noteq> []" "params_ok P" "regions \<noteq> []" "set regions \<subseteq> set AWS_REGIONS"
  shows "\<exists>c' res c'' res'.
    manage_instances E regions P cnt c = (c', Inr res) \<and>
    (\<forall>r\<in>set AWS_REGIONS. mset (map (number_of E c') (members E P c' r)) = mset (map Some (numbers_in regions cnt r))) \<and>
    mset (concat (map (numbers_in regions cnt) AWS_REGIONS)) = mset (map (\<lambda>i. nat_str (i + 1)) [0..<nat cnt]) \<and>
    manage_instances E regions P cnt c' = (c'', Inr res') \<and> \<not> r_changed res' \<and> r_terminated res' = [] \<and>
    members E P c'' = members E P c' \<and> number_of E c'' = number_of E c'"
proof -
  have W: "ec2_works E P" by (rule documented_works [OF assms(1,3,2)])
  have found: "found E P = members E P"
    using found_members [OF _ assms(3)] assms(1) by (auto simp: fun_eq_iff ec2_documented_def)
  have ids: "valid_instances regions cnt = numbers_in regions cnt"
    by (rule ext) (rule valid_instances_numbers [OF assms(4)])
  obtain c' res where c': "manage_instances E regions P cnt c = (c', Inr res)" "converged E P (valid_instances regions cnt) c'"
    using manage_converges [OF W] by blast
  with manage_stable [OF W c'(2)] all_ids_assigned [OF assms(4,5), of cnt] show ?thesis
    unfolding converged_def found ids id_tag_number by blast
qed

text \<open>
  A cloud that behaves so: a counter, and for each instance its region, its state and its tags. It launches as many
  instances as it may.
\<close>

record sample_cloud =
  sc_next :: nat
  sc_region :: "nat \<Rightarrow> string"
  sc_state :: "nat \<Rightarrow> string"
  sc_tags :: "nat \<Rightarrow> tags"

definition sample_accepts :: "sample_cloud \<Rightarrow> string \<times> string list \<Rightarrow> nat \<Rightarrow> bool" where
  "sample_accepts c = (\<lambda>(name, values) i. take 4 name = ''tag:'' \<and> (case map_of (sc_tags c i) (drop 4 name) of None \<Rightarrow> False | Some v \<Rightarrow> v \<in> set values))"

definition sample_create :: "string \<Rightarrow> dict \<Rightarrow> (sample_cloud, nat list) sres" where
  "sample_create r spec c =
     (let k = (case spec_count spec ''MaxCount'' of Some k \<Rightarrow> nat k | None \<Rightarrow> 0); new = [sc_next c..<sc_next c + k]
      in (c\<lparr>sc_next := sc_next c + k, sc_region := (\<lambda>i. if i \<in> set new then r else sc_region c i),
            sc_state := (\<lambda>i. if i \<in> set new then ''pending'' else sc_state c i),
            sc_tags := (\<lambda>i. if i \<in> set new then spec_tags spec ''instance'' else sc_tags c i)\<rparr>, Inr new))"

definition sample_ec2 :: "(sample_cloud, nat) ec2" where
  "sample_ec2 = \<lparr>e_images = (\<lambda>_ _. [(''2019-01-01'', ''ami-1'')]),
     e_filter = (\<lambda>c r fs. filter (\<lambda>i. sc_region c i = r \<and> list_all (\<lambda>f. sample_accepts c f i) fs) [0..<sc_next c]),
     e_state = sc_state, e_tags = sc_tags, e_public_ip = (\<lambda>_ _. None), e_zone = sc_region, e_spot_request = (\<lambda>_ _. None),
     e_create = sample_create,
     e_terminate = (\<lambda>i c. (c\<lparr>sc_state := (sc_state c)(i := ''shutting-down'')\<rparr>, Inr ())),
     e_cancel_spot = (\<lambda>_ _. sret ()), e_wait = (\<lambda>_ _ _. sret ()), e_reload = (\<lambda>_. sret ()),
     e_create_tags = (\<lambda>i new c. (c\<lparr>sc_tags := (sc_tags c)(i := new @ sc_tags c i)\<rparr>, Inr ()))\<rparr>"

lemma sample_simps [simp]:
  "e_filter sample_ec2 c r fs = filter (\<lambda>i. sc_region c i = r \<and> list_all (\<lambda>f. sample_accepts c f i) fs) [0..<sc_next c]"
  "e_state sample_ec2 = sc_state" "e_tags sample_ec2 = sc_tags" "e_create sample_ec2 = sample_create"
  "e_images sample_ec2 c r = [(''2019-01-01'', ''ami-1'')]"
  "e_terminate sample_ec2 i c = (c\<lparr>sc_state := (sc_state c)(i := ''shutting-down'')\<rparr>, Inr ())"
  "e_create_tags sample_ec2 i new c = (c\<lparr>sc_tags := (sc_tags c)(i := new @ sc_tags c i)\<rparr>, Inr ())"
  by (simp_all add: sample_ec2_def)

lemma sample_accepts_eq: "accepts sample_ec2 c f i = sample_accepts c f i"
  by (simp add: accepts_def sample_accepts_def tag_value_def)

lemma sample_live: "live sample_ec2 c r = filter (\<lambda>i. sc_region c i = r \<and> sc_state c i \<notin> {''terminated'', ''shutting-down''}) [0..<sc_next c]"
  by (simp add: live_def conj_commute conj_left_commute)

lemma sample_reads: "ec2_reads sample_ec2"
  by (auto simp: ec2_reads_def sample_accepts_eq)

lemma sample_creates: "ec2_creates sample_ec2"
  unfolding ec2_creates_def
proof (intro allI impI, elim conjE)
  fix c :: sample_cloud and r spec lo hi assume n: "spec_count spec ''MaxCount'' = Some hi" "1 \<le> lo" "lo \<le> hi"
  let ?new = "[sc_next c..<sc_next c + nat hi]"
  let ?c = "fst (sample_create r spec c)"
  have run: "e_create sample_ec2 r spec c = (?c, Inr ?new)" using n by (simp add: sample_create_def Let_def)
  have c': "sc_next ?c = sc_next c + nat hi" "sc_region ?c i = (if i \<in> set ?new then r else sc_region c i)"
    "sc_state ?c i = (if i \<in> set ?new then ''pending'' else sc_state c i)"
    "sc_tags ?c i = (if i \<in> set ?new then spec_tags spec ''instance'' else sc_tags c i)" for i
    using n by (simp_all add: sample_create_def Let_def)
  have live: "live sample_ec2 ?c r' = live sample_ec2 c r' @ (if r' = r then ?new else [])" for r'
  proof -
    let ?P = "\<lambda>i. sc_region ?c i = r' \<and> sc_state ?c i \<notin> {''terminated'', ''shutting-down''}"
    have "filter ?P [0..<sc_next c] = live sample_ec2 c r'" unfolding sample_live by (rule filter_cong) (auto simp: c')
    moreover have "filter ?P ?new = (if r' = r then ?new else [])"
      by (cases "r' = r") (auto simp: c' intro: filter_True filter_False)
    ultimately show ?thesis unfolding sample_live c'(1) by (simp only: upt_add_eq_append [OF le0] filter_append)
  qed
  show "\<exists>c' new. e_create sample_ec2 r spec c = (c', Inr new) \<and> lo \<le> int (length new) \<and> int (length new) \<le> hi \<and> distinct new \<and>
    (\<forall>r'. set new \<inter> set (e_filter sample_ec2 c r' []) = {}) \<and> mset (live sample_ec2 c' r) = mset (live sample_ec2 c r) + mset new \<and>
    (\<forall>r'. r' \<noteq> r \<longrightarrow> live sample_ec2 c' r' = live sample_ec2 c r') \<and>
    (\<forall>i. e_tags sample_ec2 c' i = (if i \<in> set new then spec_tags spec ''instance'' else e_tags sample_ec2 c i))"
    using n run c'(4) by (intro exI [of _ ?c] exI [of _ ?new]) (auto simp: live simp del: sample_simps(4))
qed

lemma sample_changes: "ec2_changes sample_ec2"
  unfolding ec2_changes_def
proof (intro conjI allI impI)
  fix i and c :: sample_cloud
  show "\<exists>c'. e_terminate sample_ec2 i c = (c', Inr ()) \<and> (\<forall>r. live sample_ec2 c' r = filter (\<lambda>j. j \<noteq> i) (live sample_ec2 c r)) \<and>
    e_tags sample_ec2 c' = e_tags sample_ec2 c"
    by (intro exI [of _ "c\<lparr>sc_state := (sc_state c)(i := ''shutting-down'')\<rparr>"]) (auto simp: sample_live intro!: filter_cong)
next
  fix i and new :: tags and c :: sample_cloud
  show "\<exists>c'. e_create_tags sample_ec2 i new c = (c', Inr ()) \<and> live sample_ec2 c' = live sample_ec2 c \<and>
    tag_value sample_ec2 c' = (tag_value sample_ec2 c)(i := tag_value sample_ec2 c i ++ map_of new)"
    by (intro exI [of _ "c\<lparr>sc_tags := (sc_tags c)(i := new @ sc_tags c i)\<rparr>"]) (auto simp: fun_eq_iff sample_live tag_value_def map_add_def split: option.splits)
qed (auto simp: undisturbing_def sample_ec2_def)

definition sample_params :: instance_params where
  "sample_params = \<lparr>p_project = ''Indy'', p_namespace = ''test'', p_group = ''nodes'', p_add_tags = [], p_key_name = ''key'', p_security_group = ''sg'',
     p_type_name = ''t2.micro'', p_market_spot = False, p_spot_max_price = None, p_ebs_volume_size = Some 9, p_ebs_volume_type = None\<rparr>"

theorem instances_converge_witness:
  "let regions = [''us-east-1'', ''eu-west-1''];
       c = \<lparr>sc_next = 2, sc_region = (\<lambda>i. ''sa-east-1''), sc_state = (\<lambda>i. ''running''), sc_tags = (\<lambda>i. [(''ID'', ''1'')])\<rparr>
   in \<exists>c' res. manage_instances sample_ec2 regions sample_params 3 c = (c', Inr res) \<and>
        mset (map (number_of sample_ec2 c') (members sample_ec2 sample_params c' ''us-east-1'')) = {#Some ''1'', Some ''3''#}"
proof -
  have d: "ec2_documented sample_ec2" by (simp add: ec2_documented_def sample_reads sample_creates sample_changes)
  have p: "params_ok sample_params" by (simp add: params_ok_def sample_params_def plain_def)
  have r: "''us-east-1'' \<in> set AWS_REGIONS" "set [''us-east-1'', ''eu-west-1''] \<subseteq> set AWS_REGIONS" by (simp_all add: AWS_REGIONS_def)
  have n: "numbers_in [''us-east-1'', ''eu-west-1''] 3 ''us-east-1'' = [''1'', ''3'']" by code_simp
  show ?thesis
    unfolding Let_def using instances_converge [OF d _ p _ r(2), of 3] r(1) n by fastforce
qed

end
