(* ===== verification/LoadClient.thy ===== *)
theory LoadClient
  imports NodeControl
begin

text \<open>
  The client of the load test (scripts/performance/perf_load): its statistics (perf_clientstaistic.py) and the
  queues of requests that are generated, signed and sent by tasks on an event loop (perf_client.py). What the
  generator of requests, the wallet and the ledger answer is the outcome that a step of a task is given; JSON is
  a parameter. A request is known by the text of its data.
\<close>

section \<open>Statistics\<close>

record client_stat =
  short_stat :: bool
  req_prep :: nat
  req_sent :: nat
  req_succ :: nat
  req_fail :: nat
  req_nack :: nat
  req_rejc :: nat
  stat_reqs :: "(string \<times> dict) list"

definition new_stat :: "bool \<Rightarrow> client_stat" where
  "new_stat short = \<lparr>short_stat = short, req_prep = 0, req_sent = 0, req_succ = 0, req_fail = 0, req_nack = 0, req_rejc = 0, stat_reqs = []\<rparr>"

text \<open>\<open>reqs.setdefault(key, dict())[field] = v\<close>\<close>

definition put_field :: "string \<Rightarrow> string \<Rightarrow> pyval \<Rightarrow> client_stat \<Rightarrow> client_stat" where
  "put_field key field v st =
     st\<lparr>stat_reqs := AList.update key (dict_set (case map_of (stat_reqs st) key of None \<Rightarrow> [] | Some d \<Rightarrow> d) field v) (stat_reqs st)\<rparr>"

definition preparing :: "int \<Rightarrow> string \<Rightarrow> string \<Rightarrow> client_stat \<Rightarrow> client_stat" where
  "preparing t req_data test_label st =
     put_field req_data ''label'' (PyStr test_label) (put_field req_data ''client_preparing'' (PyInt t) st)"

definition prepared :: "int \<Rightarrow> string \<Rightarrow> client_stat \<Rightarrow> client_stat" where
  "prepared t req_data st = put_field req_data ''client_prepared'' (PyInt t) st"

definition stat_signed :: "int \<Rightarrow> string \<Rightarrow> client_stat \<Rightarrow> client_stat" where
  "stat_signed t req_data st = (put_field req_data ''client_signed'' (PyInt t) st)\<lparr>req_prep := req_prep st + 1\<rparr>"

definition stat_sent :: "int \<Rightarrow> string \<Rightarrow> string \<Rightarrow> client_stat \<Rightarrow> client_stat" where
  "stat_sent t req_data req st =
     (let st = (put_field req_data ''client_sent'' (PyInt t) st)\<lparr>req_sent := req_sent st + 1\<rparr>
      in if \<not> short_stat st then put_field req_data ''req'' (PyStr req) st else st)"

text \<open>What came back: a text, an exception with its text, or another value.\<close>

datatype response = RespText string | RespExc string | RespVal pyval

definition read_response :: "(string \<Rightarrow> pyval res) \<Rightarrow> response \<Rightarrow> response" where
  "read_response loads resp =
     (case resp of RespText s \<Rightarrow> (case loads s of Inl e \<Rightarrow> RespExc s | Inr v \<Rightarrow> RespVal v) | _ \<Rightarrow> resp)"

text \<open>\<open>int(v)\<close>\<close>

fun int_of :: "pyval \<Rightarrow> int res" where
  "int_of (PyInt i) = Inr i"
| "int_of (PyBool b) = Inr (if b then 1 else 0)"
| "int_of (PyStr s) = py_int s"
| "int_of v = Inl (TypeError ''int() argument must be a string or a number'')"

definition server_time :: "dict \<Rightarrow> int res" where
  "server_time resp =
     rbind (dict_index resp ''result'') (\<lambda>result.
     rbind (py_get_default result ''txnTime'' (PyBool False)) (\<lambda>tm.
     rbind (if truthy tm then Inr tm
            else rbind (py_get_default result ''txnMetadata'' (PyDict [])) (\<lambda>meta. py_get_default meta ''txnTime'' (PyBool False)))
       int_of))"

text \<open>The end of \<open>reply\<close>: the status and, unless the statistics are short, the response.\<close>

definition put_status :: "string \<Rightarrow> string \<Rightarrow> pyval \<Rightarrow> client_stat \<Rightarrow> client_stat" where
  "put_status req_data status resp st =
     (let st = put_field req_data ''status'' (PyStr status) st
      in if \<not> short_stat st then put_field req_data ''resp'' resp st else st)"

text \<open>A response with a known operation counts before the time of the server is read from it, which may raise.\<close>

definition stat_reply :: "(string \<Rightarrow> pyval res) \<Rightarrow> (pyval \<Rightarrow> string) \<Rightarrow> int \<Rightarrow> string \<Rightarrow> response \<Rightarrow> (client_stat, unit) sres" where
  "stat_reply loads dumps t req_data reply st =
     (let st = put_field req_data ''client_reply'' (PyInt t) st
      in case read_response loads reply of
           RespVal (PyDict d) \<Rightarrow>
             if \<not> dict_in ''op'' d then (put_status req_data ''fail'' (PyDict d) (st\<lparr>req_fail := req_fail st + 1\<rparr>), Inr ())
             else if dict_get d ''op'' = PyStr ''REQNACK''
             then (put_status req_data ''nack'' (PyStr (dumps (PyDict d))) (st\<lparr>req_nack := req_nack st + 1\<rparr>), Inr ())
             else if dict_get d ''op'' = PyStr ''REJECT''
             then (put_status req_data ''reject'' (PyStr (dumps (PyDict d))) (st\<lparr>req_rejc := req_rejc st + 1\<rparr>), Inr ())
             else if dict_get d ''op'' = PyStr ''REPLY''
             then (let st = st\<lparr>req_succ := req_succ st + 1\<rparr>
                   in case server_time d of
                        Inl e \<Rightarrow> (st, Inl e)
                      | Inr tm \<Rightarrow> (put_status req_data ''succ'' (PyStr (dumps (PyDict d))) (put_field req_data ''server_reply'' (PyInt tm) st), Inr ()))
             else (put_status req_data ''fail'' (PyStr (dumps (PyDict d))) (st\<lparr>req_fail := req_fail st + 1\<rparr>), Inr ())
         | RespVal v \<Rightarrow> (put_status req_data ''fail'' v (st\<lparr>req_fail := req_fail st + 1\<rparr>), Inr ())
         | RespExc m \<Rightarrow> (put_status req_data ''fail'' (PyStr m) (st\<lparr>req_fail := req_fail st + 1\<rparr>), Inr ())
         | RespText m \<Rightarrow> (st, Inr ()))"

record stat_dump =
  total_prepared :: nat
  total_sent :: nat
  total_fail :: nat
  total_succ :: nat
  total_nacked :: nat
  total_rejected :: nat
  dump_reqs :: "(string \<times> dict) list"

definition dump_stat :: "bool \<Rightarrow> client_stat \<Rightarrow> client_stat \<times> stat_dump" where
  "dump_stat dump_all st =
     (let done = (\<lambda>(k, d). dict_in ''status'' d \<or> dump_all)
      in (st\<lparr>stat_reqs := filter (\<lambda>e. \<not> done e) (stat_reqs st)\<rparr>,
          \<lparr>total_prepared = req_prep st, total_sent = req_sent st, total_fail = req_fail st, total_succ = req_succ st,
           total_nacked = req_nack st, total_rejected = req_rejc st, dump_reqs = filter done (stat_reqs st)\<rparr>))"

section \<open>Queues\<close>

datatype send_mode = SendResp | SendTime | SendSync

text \<open>
  A task that builds a request is created, runs (it has seen that the client is not closing), or has finished and
  waits for its callback; a task that sends one is created, waits for the ledger, or has finished.
\<close>

datatype gen_task = GenCreated | GenRunning | GenDone

datatype send_task = ToSend string string | InFlight string string | SendDone

datatype callback = GenReqs | ReqSend | SendStat | StopTest

record load_client =
  mode :: send_mode
  buff_reqs :: nat
  batch_size :: nat
  closing :: bool
  stopped :: bool
  client_stat :: client_stat
  load_client_reqs :: "(string \<times> string) list"
  gen_q :: "gen_task list"
  send_q :: "send_task list"
  ready :: "callback list"
  sent_stats :: "stat_dump list"

text \<open>The end of \<open>__init__\<close>.\<close>

definition new_client :: "send_mode \<Rightarrow> nat \<Rightarrow> nat \<Rightarrow> bool \<Rightarrow> load_client res" where
  "new_client m batch buff short =
     (if m = SendResp \<and> batch > 1 then Inl (OtherException ''Batch size cannot be greater than 1 in response waiting mode'')
      else if m = SendResp \<and> buff \<noteq> 0 then Inl (OtherException ''Cannot pregenerate reqs in response waiting mode'')
      else Inr \<lparr>mode = m, buff_reqs = buff, batch_size = batch, closing = False, stopped = False, client_stat = new_stat short,
             load_client_reqs = [], gen_q = [], send_q = [], ready = [], sent_stats = []\<rparr>)"

definition max_in_bg :: "load_client \<Rightarrow> nat" where
  "max_in_bg c = buff_reqs c + 1"

text \<open>
  The ways in which building a request can go: the generator has no data or fails before the request has data;
  it fails for the data, because none are left or for another reason; the acceptance of the agreement cannot be
  appended; the request is signed, perhaps with no result; signing fails.
\<close>

datatype gen_outcome =
    NoData
  | DataError
  | GenFailed string string bool
  | AppendFailed string string
  | Signed string string "string option"
  | SignFailed string string

definition update_stat :: "(client_stat \<Rightarrow> client_stat) \<Rightarrow> load_client \<Rightarrow> load_client" where
  "update_stat f c = c\<lparr>client_stat := f (client_stat c)\<rparr>"

text \<open>\<open>generate_request\<close> of the generator (perf_req_gen.py) and \<open>gen_signed_req\<close>; every exception but the lack of data stops the loop.\<close>

definition build_req ::
  "(string \<Rightarrow> pyval res) \<Rightarrow> (pyval \<Rightarrow> string) \<Rightarrow> int \<Rightarrow> gen_outcome \<Rightarrow> load_client \<Rightarrow> load_client" where
  "build_req loads dumps t out c =
     (case out of
        NoData \<Rightarrow> c
      | DataError \<Rightarrow> c\<lparr>stopped := True\<rparr>
      | GenFailed req_data label no_data \<Rightarrow>
          let c = update_stat (fst \<circ> stat_reply loads dumps t req_data (RespExc ''exception'') \<circ> preparing t req_data label) c
          in if no_data then c else c\<lparr>stopped := True\<rparr>
      | AppendFailed req_data label \<Rightarrow>
          (update_stat (prepared t req_data \<circ> preparing t req_data label) c)\<lparr>stopped := True\<rparr>
      | Signed req_data label sig_req \<Rightarrow>
          (let c = update_stat (prepared t req_data \<circ> preparing t req_data label) c
           in case sig_req of
                None \<Rightarrow> c
              | Some req \<Rightarrow> if req = [] then c
                            else (update_stat (stat_signed t req_data) c)\<lparr>load_client_reqs := load_client_reqs c @ [(req_data, req)]\<rparr>)
      | SignFailed req_data label \<Rightarrow>
          (update_stat (fst \<circ> stat_reply loads dumps t req_data (RespExc ''exception'') \<circ> prepared t req_data \<circ> preparing t req_data label) c)
            \<lparr>stopped := True\<rparr>)"

definition gen_signed_req ::
  "(string \<Rightarrow> pyval res) \<Rightarrow> (pyval \<Rightarrow> string) \<Rightarrow> int \<Rightarrow> gen_outcome \<Rightarrow> load_client \<Rightarrow> load_client" where
  "gen_signed_req loads dumps t out c = (if closing c then c else build_req loads dumps t out c)"

text \<open>The same as a task of the loop: its first step only looks whether the client is closing.\<close>

definition gen_begin :: "nat \<Rightarrow> load_client \<Rightarrow> load_client" where
  "gen_begin i c = c\<lparr>gen_q := (gen_q c)[i := if closing c then GenDone else GenRunning]\<rparr>"

definition gen_end ::
  "(string \<Rightarrow> pyval res) \<Rightarrow> (pyval \<Rightarrow> string) \<Rightarrow> int \<Rightarrow> gen_outcome \<Rightarrow> nat \<Rightarrow> load_client \<Rightarrow> load_client" where
  "gen_end loads dumps t out i c = (build_req loads dumps t out c)\<lparr>gen_q := (gen_q c)[i := GenDone]\<rparr>"

definition gen_reqs :: "load_client \<Rightarrow> load_client" where
  "gen_reqs c =
     (if closing c then c
      else if mode c \<noteq> SendResp \<and> length (gen_q c) + length (load_client_reqs c) > max_in_bg c then c
      else c\<lparr>gen_q := gen_q c @ [GenCreated]\<rparr>)"

definition watch_queues :: "load_client \<Rightarrow> load_client" where
  "watch_queues c =
     (if length (load_client_reqs c) + length (gen_q c) < max_in_bg c then c\<lparr>ready := ready c @ [GenReqs]\<rparr> else c)"

text \<open>The requests leave their list from its end; \<open>call_later\<close> is a callback like the others here.\<close>

definition req_send :: "nat option \<Rightarrow> load_client \<Rightarrow> load_client" where
  "req_send cnt c =
     (if closing c then c
      else let c = (if mode c = SendTime then c\<lparr>ready := ready c @ [ReqSend]\<rparr> else c);
               to_snd = (case cnt of None \<Rightarrow> batch_size c | Some n \<Rightarrow> if n = 0 then batch_size c else n);
               n = min (length (load_client_reqs c)) to_snd
           in c\<lparr>send_q := send_q c @ map (\<lambda>(d, r). ToSend d r) (take n (rev (load_client_reqs c))),
                load_client_reqs := take (length (load_client_reqs c) - n) (load_client_reqs c)\<rparr>)"

text \<open>The callbacks of the two kinds of tasks; \<open>i\<close> is the place of the task in its list.\<close>

definition check_batch_avail :: "nat \<Rightarrow> load_client \<Rightarrow> load_client" where
  "check_batch_avail i c =
     (let c = c\<lparr>gen_q := take i (gen_q c) @ drop (Suc i) (gen_q c)\<rparr>
      in if mode c \<noteq> SendResp then watch_queues c else req_send (Some 1) c)"

definition done_submit :: "nat \<Rightarrow> load_client \<Rightarrow> load_client" where
  "done_submit i c =
     (let c = c\<lparr>send_q := take i (send_q c) @ drop (Suc i) (send_q c)\<rparr>
      in if mode c \<noteq> SendResp then watch_queues c else c)"

text \<open>\<open>submit_req_update\<close> up to the call of the ledger, and after it; \<open>hook_ok\<close> tells whether the generator's own callback returns.\<close>

definition submit_start :: "int \<Rightarrow> nat \<Rightarrow> string \<Rightarrow> string \<Rightarrow> load_client \<Rightarrow> load_client" where
  "submit_start t i req_data req c =
     (update_stat (stat_sent t req_data req) c)\<lparr>send_q := (send_q c)[i := InFlight req_data req]\<rparr>"

definition submit_end ::
  "(string \<Rightarrow> pyval res) \<Rightarrow> (pyval \<Rightarrow> string) \<Rightarrow> int \<Rightarrow> response \<Rightarrow> bool \<Rightarrow> nat \<Rightarrow> string \<Rightarrow> load_client \<Rightarrow> load_client" where
  "submit_end loads dumps t resp hook_ok i req_data c =
     (case stat_reply loads dumps t req_data resp (client_stat c) of
        (st, r) \<Rightarrow>
          let c = c\<lparr>client_stat := st, send_q := (send_q c)[i := SendDone]\<rparr>
          in if r = Inr () \<and> hook_ok \<and> mode c = SendResp then gen_reqs c else c)"

definition send_stat :: "load_client \<Rightarrow> load_client" where
  "send_stat c = (case dump_stat False (client_stat c) of (st, d) \<Rightarrow> c\<lparr>client_stat := st, sent_stats := sent_stats c @ [d]\<rparr>)"

text \<open>The messages of the runner and \<open>read_cb\<close>; \<open>stop_test\<close> begins by refusing further work.\<close>

datatype message = MsgStop | MsgRun | MsgGetStat | MsgSend nat

definition read_cb :: "message \<Rightarrow> load_client \<Rightarrow> load_client" where
  "read_cb msg c =
     (case msg of
        MsgStop \<Rightarrow> if closing c then c else c\<lparr>ready := ready c @ [StopTest]\<rparr>
      | MsgRun \<Rightarrow> (let c = gen_reqs c in if mode c = SendTime then c\<lparr>ready := ready c @ [ReqSend]\<rparr> else c)
      | MsgGetStat \<Rightarrow> c\<lparr>ready := ready c @ [SendStat]\<rparr>
      | MsgSend cnt \<Rightarrow> if mode c = SendSync then req_send (Some cnt) c else c)"

fun pregen_reqs :: "(string \<Rightarrow> pyval res) \<Rightarrow> (pyval \<Rightarrow> string) \<Rightarrow> (int \<times> gen_outcome) list \<Rightarrow> load_client \<Rightarrow> load_client" where
  "pregen_reqs loads dumps [] c = c"
| "pregen_reqs loads dumps ((t, out) # outs) c =
     (if mode c = SendResp then c
      else let c = gen_signed_req loads dumps t out c in if stopped c then c else pregen_reqs loads dumps outs c)"

section \<open>Steps\<close>

text \<open>
  The event loop reads a message, runs a callback that is ready, or a task up to its next suspension. A step is
  labelled with what it means for a request: it is sent, it is answered, or building it fails and is counted as
  such. A loop that is told to stop finishes the iteration it is in; the relation leaves open which steps these are,
  so it has all the runs of the loop and more.
\<close>

datatype client_event = Sent string | Answered string | BuildFailed string | Internal

fun build_event :: "gen_outcome \<Rightarrow> client_event" where
  "build_event (GenFailed req_data label no_data) = BuildFailed req_data"
| "build_event (SignFailed req_data label) = BuildFailed req_data"
| "build_event out = Internal"

inductive client_step ::
  "(string \<Rightarrow> pyval res) \<Rightarrow> (pyval \<Rightarrow> string) \<Rightarrow> load_client \<Rightarrow> client_event \<Rightarrow> load_client \<Rightarrow> bool" for loads dumps where
  receive: "client_step loads dumps c Internal (read_cb msg c)"
| call_gen: "ready c = q @ GenReqs # q' \<Longrightarrow> client_step loads dumps c Internal (gen_reqs (c\<lparr>ready := q @ q'\<rparr>))"
| call_send: "ready c = q @ ReqSend # q' \<Longrightarrow> client_step loads dumps c Internal (req_send None (c\<lparr>ready := q @ q'\<rparr>))"
| call_stat: "ready c = q @ SendStat # q' \<Longrightarrow> client_step loads dumps c Internal (send_stat (c\<lparr>ready := q @ q'\<rparr>))"
| call_stop: "ready c = q @ StopTest # q' \<Longrightarrow> client_step loads dumps c Internal (c\<lparr>ready := q @ q', closing := True\<rparr>)"
| begin_gen: "i < length (gen_q c) \<Longrightarrow> gen_q c ! i = GenCreated \<Longrightarrow> client_step loads dumps c Internal (gen_begin i c)"
| end_gen: "i < length (gen_q c) \<Longrightarrow> gen_q c ! i = GenRunning \<Longrightarrow>
    client_step loads dumps c (build_event out) (gen_end loads dumps t out i c)"
| generated: "i < length (gen_q c) \<Longrightarrow> gen_q c ! i = GenDone \<Longrightarrow> client_step loads dumps c Internal (check_batch_avail i c)"
| submit: "i < length (send_q c) \<Longrightarrow> send_q c ! i = ToSend d r \<Longrightarrow>
    client_step loads dumps c (Sent d) (submit_start t i d r c)"
| answer: "i < length (send_q c) \<Longrightarrow> send_q c ! i = InFlight d r \<Longrightarrow>
    client_step loads dumps c (Answered d) (submit_end loads dumps t resp hook_ok i d c)"
| submitted: "i < length (send_q c) \<Longrightarrow> send_q c ! i = SendDone \<Longrightarrow> client_step loads dumps c Internal (done_submit i c)"

text \<open>A run with its history.\<close>

definition run_step ::
  "(string \<Rightarrow> pyval res) \<Rightarrow> (pyval \<Rightarrow> string) \<Rightarrow> client_event list \<times> load_client \<Rightarrow> client_event list \<times> load_client \<Rightarrow> bool" where
  "run_step loads dumps = (\<lambda>(h, c) (h', c'). \<exists>ev. client_step loads dumps c ev c' \<and> h' = h @ [ev])"

section \<open>What the statistics count\<close>

definition answers :: "client_stat \<Rightarrow> nat" where
  "answers st = req_succ st + req_fail st + req_nack st + req_rejc st"

lemma put_field_counts [simp]:
  "req_prep (put_field k f v st) = req_prep st" "req_sent (put_field k f v st) = req_sent st" "answers (put_field k f v st) = answers st"
  "short_stat (put_field k f v st) = short_stat st"
  by (simp_all add: put_field_def answers_def)

lemma put_status_counts [simp]:
  "req_prep (put_status k s v st) = req_prep st" "req_sent (put_status k s v st) = req_sent st" "answers (put_status k s v st) = answers st"
  by (simp_all add: put_status_def Let_def)

lemma stat_counts [simp]:
  "req_prep (preparing t d l st) = req_prep st" "req_sent (preparing t d l st) = req_sent st" "answers (preparing t d l st) = answers st"
  "req_prep (prepared t d st) = req_prep st" "req_sent (prepared t d st) = req_sent st" "answers (prepared t d st) = answers st"
  "req_prep (stat_signed t d st) = req_prep st + 1" "req_sent (stat_signed t d st) = req_sent st" "answers (stat_signed t d st) = answers st"
  "req_prep (stat_sent t d r st) = req_prep st" "req_sent (stat_sent t d r st) = req_sent st + 1" "answers (stat_sent t d r st) = answers st"
  by (simp_all add: preparing_def prepared_def stat_signed_def stat_sent_def Let_def) (simp_all add: answers_def put_field_def)

text \<open>Every reply counts once, also one whose time cannot be read.\<close>

lemma stat_reply_counts [simp]:
  "req_prep (fst (stat_reply loads dumps t d r st)) = req_prep st" "req_sent (fst (stat_reply loads dumps t d r st)) = req_sent st"
  "answers (fst (stat_reply loads dumps t d r st)) = answers st + 1"
proof -
  have "read_response loads r \<noteq> RespText s" for s
    by (simp add: read_response_def split: response.splits sum.splits)
  then show "req_prep (fst (stat_reply loads dumps t d r st)) = req_prep st" "req_sent (fst (stat_reply loads dumps t d r st)) = req_sent st"
    "answers (fst (stat_reply loads dumps t d r st)) = answers st + 1"
    by (simp_all add: stat_reply_def Let_def split: response.splits pyval.splits sum.splits) (simp_all add: answers_def put_field_def)
qed

end
