(* ===== verification/LoadRunner.thy ===== *)
theory LoadRunner
  imports LoadClient
begin

text \<open>
  The runner of the load test (scripts/performance/perf_load/perf_processes.py, perf_client_runner.py): the
  clients it started as processes, their states, the messages it sends them, and the files of results. The
  messages that were sent are recorded. Sending to a client whose process has gone raises: \<open>alive\<close> tells for
  which clients it does not. Connections are never falsy objects.
\<close>

section \<open>A client as the runner sees it\<close>

datatype client_status = ClientError | ClientCreated | ClientReady | ClientRun | ClientStopped

record client_runner =
  cr_status :: client_status
  cr_name :: string
  cr_total_sent :: nat
  cr_total_succ :: nat
  cr_total_failed :: nat
  cr_total_nack :: nat
  cr_total_reject :: nat

definition new_runner_client :: "string \<Rightarrow> client_runner" where
  "new_runner_client nm = \<lparr>cr_status = ClientCreated, cr_name = nm, cr_total_sent = 0, cr_total_succ = 0, cr_total_failed = 0,
     cr_total_nack = 0, cr_total_reject = 0\<rparr>"

definition is_finished :: "client_runner \<Rightarrow> bool" where
  "is_finished c \<longleftrightarrow> cr_status c = ClientStopped"

text \<open>A statistic that is no dictionary is \<open>None\<close> here.\<close>

definition refresh_stat :: "stat_dump option \<Rightarrow> client_runner \<Rightarrow> client_runner" where
  "refresh_stat stat c =
     (case stat of
        None \<Rightarrow> c
      | Some d \<Rightarrow> c\<lparr>cr_total_sent := total_sent d, cr_total_succ := total_succ d, cr_total_failed := total_fail d,
                    cr_total_nack := total_nacked d, cr_total_reject := total_rejected d\<rparr>)"

section \<open>The runner\<close>

datatype sync_mode = Freeflow | SyncAll | SyncOne | WaitResp

record load_runner =
  sync :: sync_mode
  run_batch :: nat
  stop_sec :: nat
  separator :: string
  run_short :: bool
  run_clients :: "(nat \<times> client_runner) list"
  messages :: "(nat \<times> message) list"
  ticks :: "nat option list"
  stops :: nat
  loop_stopped :: bool
  total_f :: "string list"
  succ_f :: "string list"
  nacked_f :: "string list"
  failed_f :: "string list"

text \<open>Values that are not positive (or negative) are replaced by the defaults; the processes are numbered.\<close>

definition new_load_runner :: "int \<Rightarrow> nat \<Rightarrow> int \<Rightarrow> int \<Rightarrow> string \<Rightarrow> sync_mode \<Rightarrow> bool \<Rightarrow> load_runner" where
  "new_load_runner clients cpu_count batch load_time val_sep m short =
     (let proc_count = (if clients > 0 then nat clients else cpu_count)
      in \<lparr>sync = m, run_batch = (if m = WaitResp then 1 else if batch > 0 then nat batch else 10),
          stop_sec = (if load_time > 0 then nat load_time else 0), separator = (if val_sep \<noteq> [] then val_sep else ''|''), run_short = short,
          run_clients = map (\<lambda>i. (i, new_runner_client (''LoadClient_'' @ nat_str i))) [0..<proc_count],
          messages = [], ticks = [], stops = 0, loop_stopped = False, total_f = [], succ_f = [], nacked_f = [], failed_f = []\<rparr>)"

definition start_sync :: "load_runner \<Rightarrow> bool" where
  "start_sync r \<longleftrightarrow> sync r \<in> {SyncAll, SyncOne}"

definition update_client :: "nat \<Rightarrow> (client_runner \<Rightarrow> client_runner) \<Rightarrow> load_runner \<Rightarrow> load_runner" where
  "update_client p f r = r\<lparr>run_clients := map (\<lambda>(q, c). (q, if q = p then f c else c)) (run_clients r)\<rparr>"

definition send_msg :: "nat \<Rightarrow> message \<Rightarrow> load_runner \<Rightarrow> load_runner" where
  "send_msg p m r = r\<lparr>messages := messages r @ [(p, m)]\<rparr>"

text \<open>\<open>run_client\<close>\<close>

definition run_client :: "(nat \<Rightarrow> bool) \<Rightarrow> nat \<times> client_runner \<Rightarrow> load_runner \<Rightarrow> load_runner" where
  "run_client alive = (\<lambda>(p, c) r.
     if cr_status c = ClientReady
     then (if alive p then update_client p (\<lambda>c. c\<lparr>cr_status := ClientRun\<rparr>) (send_msg p MsgRun r)
           else update_client p (\<lambda>c. c\<lparr>cr_status := ClientError\<rparr>) r)
     else r)"

text \<open>\<open>req_stats\<close>: the handler of a failed sending calls the logger with an argument it does not have, a \<open>TypeError\<close>.\<close>

definition req_stats :: "(nat \<Rightarrow> bool) \<Rightarrow> nat \<times> client_runner \<Rightarrow> (load_runner, unit) sres" where
  "req_stats alive = (\<lambda>(p, c) r.
     if cr_status c = ClientRun
     then (if alive p then (send_msg p MsgGetStat r, Inr ())
           else (r, Inl (TypeError ''_log() got an unexpected keyword argument file'')))
     else (r, Inr ()))"

fun request_stat :: "(nat \<Rightarrow> bool) \<Rightarrow> (nat \<times> client_runner) list \<Rightarrow> (load_runner, unit) sres" where
  "request_stat alive [] = sret ()"
| "request_stat alive (c # cs) = sbind (req_stats alive c) (\<lambda>_. request_stat alive cs)"

text \<open>One tick for one client; an exception is logged and nothing else.\<close>

definition tick_client :: "(nat \<Rightarrow> bool) \<Rightarrow> nat \<times> client_runner \<Rightarrow> load_runner \<Rightarrow> load_runner" where
  "tick_client alive = (\<lambda>(p, c) r. if cr_status c = ClientRun \<and> alive p then send_msg p (MsgSend (run_batch r)) r else r)"

text \<open>A scheduled tick is \<open>None\<close> for all clients and \<open>Some idx\<close> for one; with no clients the latter divides by zero and does nothing.\<close>

definition tick_all :: "(nat \<Rightarrow> bool) \<Rightarrow> load_runner \<Rightarrow> load_runner" where
  "tick_all alive r = fold (tick_client alive) (run_clients r) (r\<lparr>ticks := ticks r @ [None]\<rparr>)"

definition tick_one :: "(nat \<Rightarrow> bool) \<Rightarrow> nat \<Rightarrow> load_runner \<Rightarrow> load_runner" where
  "tick_one alive idx r =
     (if run_clients r = [] then r
      else let i = idx mod length (run_clients r)
           in tick_client alive (run_clients r ! i) (r\<lparr>ticks := ticks r @ [Some (i + 1)]\<rparr>))"

definition schedule_stop :: "load_runner \<Rightarrow> load_runner" where
  "schedule_stop r = (if stop_sec r > 0 then r\<lparr>stops := stops r + 1\<rparr> else r)"

definition start_clients :: "(nat \<Rightarrow> bool) \<Rightarrow> load_runner \<Rightarrow> load_runner" where
  "start_clients alive r =
     (let to_start = filter (\<lambda>(p, c). cr_status c = ClientReady) (run_clients r)
      in if start_sync r \<and> length to_start \<noteq> length (run_clients r) then r
         else let r = fold (run_client alive) to_start r;
                  all_run = (\<forall>(p, c)\<in>set (run_clients r). cr_status c = ClientRun);
                  r = (if all_run \<and> sync r = SyncAll then tick_all alive r
                       else if all_run \<and> sync r = SyncOne then tick_one alive 0 r else r)
              in schedule_stop r)"

section \<open>Results\<close>

definition field_text :: "dict \<Rightarrow> string \<Rightarrow> pyval \<Rightarrow> string" where
  "field_text d k dflt = py_str (dict_get_default d k dflt)"

definition total_line :: "string \<Rightarrow> string \<Rightarrow> string \<times> dict \<Rightarrow> string" where
  "total_line sep nm = (\<lambda>(r_id, d).
     py_join sep ([nm, field_text d ''label'' (PyStr []), r_id, field_text d ''status'' (PyStr [])] @
       map (\<lambda>k. field_text d k (PyInt 0)) [''client_preparing'', ''client_prepared'', ''client_signed'', ''client_sent'', ''client_reply'', ''server_reply'']))"

definition detail_line :: "string \<Rightarrow> string \<times> dict \<Rightarrow> string" where
  "detail_line sep = (\<lambda>(r_id, d). py_join sep [r_id, field_text d ''req'' (PyStr []), field_text d ''resp'' (PyStr [])])"

definition req_status :: "string \<times> dict \<Rightarrow> string" where
  "req_status = (\<lambda>(r_id, d). field_text d ''status'' (PyStr []))"

definition process_reqs :: "stat_dump option \<Rightarrow> string \<Rightarrow> load_runner \<Rightarrow> load_runner" where
  "process_reqs stat nm r =
     (case stat of
        None \<Rightarrow> r
      | Some d \<Rightarrow>
          let reqs = dump_reqs d; r = r\<lparr>total_f := total_f r @ map (total_line (separator r) nm) reqs\<rparr>
          in if run_short r then r
             else r\<lparr>succ_f := succ_f r @ map (detail_line (separator r)) (filter (\<lambda>e. req_status e = ''succ'') reqs),
                    nacked_f := nacked_f r @ map (detail_line (separator r)) (filter (\<lambda>e. req_status e \<in> {''nack'', ''reject''}) reqs),
                    failed_f := failed_f r @ map (detail_line (separator r)) (filter (\<lambda>e. req_status e \<notin> {''succ'', ''nack'', ''reject''}) reqs)\<rparr>)"

datatype client_report = ReportStat "stat_dump option" | ReportReady | ReportGarbage

definition client_name :: "nat \<Rightarrow> load_runner \<Rightarrow> string" where
  "client_name p r = (case map_of (run_clients r) p of None \<Rightarrow> [] | Some c \<Rightarrow> cr_name c)"

definition read_client_cb :: "(nat \<Rightarrow> bool) \<Rightarrow> nat \<Rightarrow> client_report \<Rightarrow> load_runner \<Rightarrow> load_runner" where
  "read_client_cb alive p report r =
     (case report of
        ReportStat d \<Rightarrow> process_reqs d (client_name p r) (update_client p (refresh_stat d) r)
      | ReportReady \<Rightarrow> start_clients alive (update_client p (\<lambda>c. c\<lparr>cr_status := ClientReady\<rparr>) r)
      | ReportGarbage \<Rightarrow> r)"

text \<open>The end of a client's process, with its last statistic or an exception (\<open>None\<close>).\<close>

definition client_done :: "nat \<Rightarrow> stat_dump option option \<Rightarrow> load_runner \<Rightarrow> load_runner" where
  "client_done p result r =
     (let r = (case result of None \<Rightarrow> r | Some d \<Rightarrow> process_reqs d (client_name p r) (update_client p (refresh_stat d) r));
          r = update_client p (\<lambda>c. c\<lparr>cr_status := ClientStopped\<rparr>) r
      in if (\<forall>(q, c)\<in>set (run_clients r). is_finished c) then r\<lparr>loop_stopped := True\<rparr> else r)"

definition sig_handler :: "(nat \<Rightarrow> bool) \<Rightarrow> load_runner \<Rightarrow> load_runner" where
  "sig_handler alive r =
     fold (\<lambda>(p, c) r. if \<not> is_finished c \<and> alive p then send_msg p MsgStop r else r) (run_clients r) r"

definition screen_stat :: "(nat \<Rightarrow> bool) \<Rightarrow> (load_runner, unit) sres" where
  "screen_stat alive r = request_stat alive (run_clients r) r"

text \<open>The sums that \<open>get_refresh_str\<close> prints: running clients, sent, succeeded, failed, nacked, rejected.\<close>

definition get_refresh :: "load_runner \<Rightarrow> nat list" where
  "get_refresh r =
     (let cs = map snd (run_clients r)
      in [length (filter (\<lambda>c. cr_status c = ClientRun) cs), sum_list (map cr_total_sent cs), sum_list (map cr_total_succ cs),
          sum_list (map cr_total_failed cs), sum_list (map cr_total_nack cs), sum_list (map cr_total_reject cs)])"

section \<open>Steps\<close>

text \<open>A client reports that it is ready once, after its initialisation, and nothing after its process has ended.\<close>

inductive runner_step :: "load_runner \<Rightarrow> load_runner \<Rightarrow> bool" where
  ready: "\<not> loop_stopped r \<Longrightarrow> map_of (run_clients r) p = Some c \<Longrightarrow> cr_status c = ClientCreated \<Longrightarrow>
    runner_step r (read_client_cb alive p ReportReady r)"
| stat: "\<not> loop_stopped r \<Longrightarrow> map_of (run_clients r) p = Some c \<Longrightarrow> cr_status c \<noteq> ClientStopped \<Longrightarrow>
    runner_step r (read_client_cb alive p (ReportStat d) r)"
| garbage: "\<not> loop_stopped r \<Longrightarrow> runner_step r (read_client_cb alive p ReportGarbage r)"
| finished: "\<not> loop_stopped r \<Longrightarrow> map_of (run_clients r) p = Some c \<Longrightarrow> cr_status c \<noteq> ClientStopped \<Longrightarrow>
    runner_step r (client_done p result r)"
| tick: "\<not> loop_stopped r \<Longrightarrow> ticks r = q @ None # q' \<Longrightarrow> runner_step r (tick_all alive (r\<lparr>ticks := q @ q'\<rparr>))"
| tick1: "\<not> loop_stopped r \<Longrightarrow> ticks r = q @ Some i # q' \<Longrightarrow> runner_step r (tick_one alive i (r\<lparr>ticks := q @ q'\<rparr>))"
| signal: "\<not> loop_stopped r \<Longrightarrow> runner_step r (sig_handler alive r)"
| screen: "\<not> loop_stopped r \<Longrightarrow> runner_step r (fst (screen_stat alive r))"

end
