(* ===== verification/LoadRunnerProperties.thy ===== *)
theory LoadRunnerProperties
  imports LoadRunner "HOL-Library.Multiset"
begin

text \<open>
  How the runner starts its clients: in the synchronous modes nobody runs before everybody is ready, and no
  client is asked to send before it was told to run; a client that ends before the start holds up all others.
\<close>

lemma keyed_map_mem: "(q, c) \<in> set (map (\<lambda>(q, c). (q, g q c)) xs) \<longleftrightarrow> (\<exists>c'. (q, c') \<in> set xs \<and> c = g q c')"
  by (induction xs) auto

section \<open>Sending\<close>

definition ordered_log :: "(nat \<times> message) list \<Rightarrow> bool" where
  "ordered_log ms \<longleftrightarrow> (\<forall>i<length ms. \<forall>p n. ms ! i = (p, MsgSend n) \<longrightarrow> (p, MsgRun) \<in> set (take i ms))"

lemma ordered_log_Nil [simp]: "ordered_log []"
  by (simp add: ordered_log_def)

lemma ordered_log_snoc [simp]:
  "ordered_log (ms @ [(p, m)]) \<longleftrightarrow> ordered_log ms \<and> (\<forall>n. m = MsgSend n \<longrightarrow> (p, MsgRun) \<in> set ms)"
  unfolding ordered_log_def by (auto simp: nth_append less_Suc_eq)

text \<open>The log and the states fit: who runs was told so, and asked to send only then.\<close>

definition log_fits :: "load_runner \<Rightarrow> bool" where
  "log_fits r \<longleftrightarrow> distinct (map fst (run_clients r)) \<and> ordered_log (messages r) \<and>
     (\<forall>p c. (p, c) \<in> set (run_clients r) \<longrightarrow> cr_status c = ClientRun \<longrightarrow> (p, MsgRun) \<in> set (messages r))"

definition told_to_run :: "load_runner \<Rightarrow> bool" where
  "told_to_run r \<longleftrightarrow> (\<exists>p. (p, MsgRun) \<in> set (messages r))"

definition barrier :: "load_runner \<Rightarrow> bool" where
  "barrier r \<longleftrightarrow> (start_sync r \<and> told_to_run r \<longrightarrow>
     (\<forall>p c. (p, c) \<in> set (run_clients r) \<longrightarrow> cr_status c \<notin> {ClientCreated, ClientReady}))"

lemma runner_frame [simp]:
  "log_fits (r\<lparr>ticks := t\<rparr>) = log_fits r" "barrier (r\<lparr>ticks := t\<rparr>) = barrier r" "told_to_run (r\<lparr>ticks := t\<rparr>) = told_to_run r"
  "log_fits (r\<lparr>stops := n\<rparr>) = log_fits r" "barrier (r\<lparr>stops := n\<rparr>) = barrier r" "told_to_run (r\<lparr>stops := n\<rparr>) = told_to_run r"
  "log_fits (r\<lparr>loop_stopped := b\<rparr>) = log_fits r" "barrier (r\<lparr>loop_stopped := b\<rparr>) = barrier r" "told_to_run (r\<lparr>loop_stopped := b\<rparr>) = told_to_run r"
  by (simp_all add: log_fits_def barrier_def told_to_run_def start_sync_def)

text \<open>What a computation that only sends leaves alone.\<close>

definition only_sends :: "load_runner \<Rightarrow> load_runner \<Rightarrow> bool" where
  "only_sends r r' \<longleftrightarrow> run_clients r' = run_clients r \<and> sync r' = sync r \<and>
     (log_fits r \<longrightarrow> log_fits r') \<and> (told_to_run r' \<longleftrightarrow> told_to_run r)"

lemma only_sends_refl [simp]: "only_sends r r"
  by (simp add: only_sends_def)

lemma only_sends_trans: "only_sends r r1 \<Longrightarrow> only_sends r1 r2 \<Longrightarrow> only_sends r r2"
  by (simp add: only_sends_def)

lemma only_sends_barrier: "only_sends r r' \<Longrightarrow> barrier r \<Longrightarrow> barrier r'"
  by (simp add: only_sends_def barrier_def start_sync_def)

lemma only_sends_fold:
  assumes "\<And>x s. x \<in> set xs \<Longrightarrow> run_clients s = run_clients r \<Longrightarrow> only_sends s (f x s)"
  shows "only_sends r (fold f xs r)"
proof -
  have "only_sends r (fold f xs s)" if "only_sends r s" "\<And>x s. x \<in> set xs \<Longrightarrow> run_clients s = run_clients r \<Longrightarrow> only_sends s (f x s)" for s
    using that
  proof (induction xs arbitrary: s)
    case (Cons x xs)
    have "only_sends r (f x s)" using Cons.prems by (meson list.set_intros(1) only_sends_def only_sends_trans)
    with Cons show ?case by simp
  qed simp
  with assms show ?thesis by simp
qed

lemma send_msg_only:
  assumes "m \<noteq> MsgRun" "\<And>n. m = MsgSend n \<Longrightarrow> (\<exists>c. (p, c) \<in> set (run_clients r) \<and> cr_status c = ClientRun)"
  shows "only_sends r (send_msg p m r)"
  using assms by (cases m) (auto simp: only_sends_def send_msg_def log_fits_def told_to_run_def)

lemma tick_client_only: "pc \<in> set (run_clients r) \<Longrightarrow> only_sends r (tick_client alive pc r)"
  by (auto simp: tick_client_def intro!: send_msg_only split: prod.splits)

lemma tick_only:
  "only_sends r (tick_all alive r)" "only_sends r (tick_one alive i r)"
proof -
  have *: "only_sends r (r\<lparr>ticks := t\<rparr>)" for t by (simp add: only_sends_def)
  show "only_sends r (tick_all alive r)"
    unfolding tick_all_def by (rule only_sends_trans [OF * only_sends_fold]) (simp add: tick_client_only)
  have "only_sends r (tick_client alive (run_clients r ! (i mod length (run_clients r))) (r\<lparr>ticks := t\<rparr>))" if "run_clients r \<noteq> []" for t
    using that by (intro only_sends_trans [OF * tick_client_only]) simp
  then show "only_sends r (tick_one alive i r)" by (simp add: tick_one_def Let_def)
qed

lemma sig_handler_only: "only_sends r (sig_handler alive r)"
  unfolding sig_handler_def by (rule only_sends_fold) (auto intro!: send_msg_only split: prod.splits)

lemma screen_only: "only_sends r (fst (screen_stat alive r))"
proof -
  have "keeps (only_sends r) (request_stat alive cs)" for cs
  proof (induction cs)
    case (Cons pc cs)
    have "keeps (only_sends r) (req_stats alive pc)"
      by (rule keepsI) (auto simp: req_stats_def intro: only_sends_trans send_msg_only split: prod.splits)
    with Cons show ?case by (auto intro!: keeps_rules)
  qed (simp add: keeps_def)
  then show ?thesis by (simp add: screen_stat_def keeps_def)
qed

section \<open>Starting\<close>

definition told :: "(nat \<Rightarrow> bool) \<Rightarrow> (nat \<times> client_runner) list \<Rightarrow> nat \<times> client_runner \<Rightarrow> nat \<times> client_runner" where
  "told alive ts = (\<lambda>(p, c). (p, if p \<in> fst ` set ts then c\<lparr>cr_status := if alive p then ClientRun else ClientError\<rparr> else c))"

lemma run_client_result:
  "cr_status c = ClientReady \<Longrightarrow> run_clients (run_client alive (p, c) r) = map (told alive [(p, c)]) (run_clients r)"
  "cr_status c = ClientReady \<Longrightarrow> messages (run_client alive (p, c) r) = messages r @ (if alive p then [(p, MsgRun)] else [])"
  "sync (run_client alive (p, c) r) = sync r"
  by (auto simp: run_client_def update_client_def send_msg_def told_def)

lemma run_all_result:
  assumes "distinct (map fst ts)" "\<forall>(p, c)\<in>set ts. cr_status c = ClientReady"
  shows "run_clients (fold (run_client alive) ts r) = map (told alive ts) (run_clients r) \<and>
    messages (fold (run_client alive) ts r) = messages r @ map (\<lambda>(p, c). (p, MsgRun)) (filter (alive \<circ> fst) ts) \<and>
    sync (fold (run_client alive) ts r) = sync r"
  using assms
proof (induction ts arbitrary: r)
  case Nil
  have "told alive [] = id" by (auto simp: told_def)
  then show ?case by simp
next
  case (Cons t ts)
  obtain p c where t: "t = (p, c)" by (cases t)
  have comp: "told alive ts \<circ> told alive [(p, c)] = told alive (t # ts)"
    by (rule ext) (auto simp: told_def t)
  from Cons.prems have "cr_status c = ClientReady" "distinct (map fst ts)" "\<forall>(p, c)\<in>set ts. cr_status c = ClientReady"
    by (simp_all add: t)
  from this(1) Cons.IH [OF this(2,3), of "run_client alive (p, c) r"] show ?case
    unfolding comp [symmetric] by (simp add: run_client_result t)
qed

lemma told_keys [simp]: "map fst (map (told alive ts) cs) = map fst cs"
  by (induction cs) (auto simp: told_def)

lemma told_mem:
  "(p, c') \<in> set (map (told alive ts) cs) \<longleftrightarrow> (\<exists>c. (p, c) \<in> set cs \<and> (p, c') = told alive ts (p, c))"
  unfolding told_def keyed_map_mem by auto

definition ready_clients :: "load_runner \<Rightarrow> (nat \<times> client_runner) list" where
  "ready_clients r = filter (\<lambda>(p, c). cr_status c = ClientReady) (run_clients r)"

lemma run_ready_fits:
  assumes "log_fits r" "barrier r" "ts = ready_clients r" "start_sync r \<Longrightarrow> length ts = length (run_clients r)"
  shows "log_fits (fold (run_client alive) ts r)" and "barrier (fold (run_client alive) ts r)"
proof -
  let ?r = "fold (run_client alive) ts r"
  have dist: "distinct (map fst (run_clients r))" using assms(1) by (simp add: log_fits_def)
  then have "distinct (map fst ts)" by (simp add: assms(3) ready_clients_def distinct_map inj_on_def)
  from run_all_result [OF this, of alive r] have run: "run_clients ?r = map (told alive ts) (run_clients r)" "sync ?r = sync r"
    "messages ?r = messages r @ map (\<lambda>(p, c). (p, MsgRun)) (filter (alive \<circ> fst) ts)"
    by (auto simp: assms(3) ready_clients_def)
  have mem: "(p, c') \<in> set (run_clients ?r) \<longleftrightarrow> (\<exists>c. (p, c) \<in> set (run_clients r) \<and> (p, c') = told alive ts (p, c))" for p c'
    unfolding run(1) by (rule told_mem)
  have ready: "p \<in> fst ` set ts \<longleftrightarrow> cr_status c = ClientReady" if "(p, c) \<in> set (run_clients r)" for p c
    using that dist by (force simp: assms(3) ready_clients_def distinct_map inj_on_def)
  show "log_fits ?r"
  proof -
    have "ordered_log (ms @ map (\<lambda>(p, c). (p, MsgRun)) ts)" if "ordered_log ms" for ms and ts :: "(nat \<times> client_runner) list"
      using that by (induction ts rule: rev_induct) (auto simp flip: append_assoc)
    then have "ordered_log (messages ?r)" using assms(1) by (simp add: run(3) log_fits_def)
    moreover have "(p, MsgRun) \<in> set (messages ?r)" if run': "(p, c') \<in> set (run_clients ?r)" "cr_status c' = ClientRun" for p c'
    proof -
      obtain c where c: "(p, c) \<in> set (run_clients r)" "(p, c') = told alive ts (p, c)" using run'(1) mem by blast
      show ?thesis
      proof (cases "cr_status c = ClientReady")
        case True
        with c run'(2) ready [OF c(1)] have "alive p" by (auto simp: told_def split: if_splits)
        moreover have "(p, c) \<in> set ts" using True c(1) by (simp add: assms(3) ready_clients_def)
        ultimately show ?thesis by (force simp: run(3))
      next
        case False
        with c run'(2) ready [OF c(1)] have "cr_status c = ClientRun" by (auto simp: told_def)
        with c(1) assms(1) show ?thesis by (auto simp: log_fits_def run(3))
      qed
    qed
    moreover have "distinct (map fst (run_clients ?r))" unfolding run(1) told_keys by (rule dist)
    ultimately show ?thesis by (auto simp: log_fits_def)
  qed
  show "barrier ?r"
  proof (cases "start_sync r")
    case True
    with assms(4) have "\<forall>(p, c)\<in>set (run_clients r). cr_status c = ClientReady"
      by (metis (mono_tags, lifting) assms(3) ready_clients_def length_filter_less less_irrefl)
    with ready show ?thesis by (auto simp: barrier_def mem told_def)
  next
    case False
    then show ?thesis by (simp add: barrier_def start_sync_def run(2))
  qed
qed

lemma start_clients_fits:
  assumes "log_fits r" "barrier r"
  shows "log_fits (start_clients alive r) \<and> barrier (start_clients alive r)"
proof (cases "start_sync r \<and> length (ready_clients r) \<noteq> length (run_clients r)")
  case True
  with assms show ?thesis by (simp add: start_clients_def ready_clients_def Let_def)
next
  case False
  let ?r = "fold (run_client alive) (ready_clients r) r"
  define s where "s = (if (\<forall>(p, c)\<in>set (run_clients ?r). cr_status c = ClientRun) \<and> sync ?r = SyncAll then tick_all alive ?r
    else if (\<forall>(p, c)\<in>set (run_clients ?r). cr_status c = ClientRun) \<and> sync ?r = SyncOne then tick_one alive 0 ?r else ?r)"
  have fits: "log_fits ?r" "barrier ?r"
    using run_ready_fits [OF assms refl, of alive] False by auto
  have "only_sends ?r s" unfolding s_def using tick_only by auto
  moreover have "only_sends s (schedule_stop s)" by (simp add: schedule_stop_def only_sends_def)
  ultimately have "only_sends ?r (schedule_stop s)" by (rule only_sends_trans)
  moreover have "start_clients alive r = schedule_stop s"
    by (simp only: start_clients_def Let_def ready_clients_def [symmetric] s_def False if_False)
  ultimately show ?thesis using only_sends_barrier fits(1,2) by (auto simp: only_sends_def)
qed

section \<open>All steps\<close>

lemma update_client_keys [simp]: "map fst (run_clients (update_client p f r)) = map fst (run_clients r)"
  by (simp add: update_client_def case_prod_beta)

lemma update_client_mem:
  "(q, c) \<in> set (run_clients (update_client p f r)) \<longleftrightarrow> (\<exists>c'. (q, c') \<in> set (run_clients r) \<and> c = (if q = p then f c' else c'))"
  unfolding update_client_def by (simp add: keyed_map_mem del: set_map)

lemma update_client_frame [simp]:
  "messages (update_client p f r) = messages r" "sync (update_client p f r) = sync r" "ticks (update_client p f r) = ticks r"
  "told_to_run (update_client p f r) = told_to_run r" "start_sync (update_client p f r) = start_sync r"
  by (simp_all add: update_client_def told_to_run_def start_sync_def)

text \<open>A change of a client that does not make it run, wait or be new.\<close>

lemma update_client_fits:
  assumes "log_fits r" "barrier r"
    and "\<And>c. (p, c) \<in> set (run_clients r) \<Longrightarrow> cr_status (f c) = ClientRun \<Longrightarrow> cr_status c = ClientRun"
    and "\<And>c. (p, c) \<in> set (run_clients r) \<Longrightarrow> cr_status (f c) \<in> {ClientCreated, ClientReady} \<Longrightarrow> cr_status c \<in> {ClientCreated, ClientReady}"
  shows "log_fits (update_client p f r) \<and> barrier (update_client p f r)"
  using assms by (fastforce simp: log_fits_def barrier_def update_client_mem split: if_splits)

lemma process_reqs_frame [simp]:
  "run_clients (process_reqs d nm r) = run_clients r" "messages (process_reqs d nm r) = messages r" "sync (process_reqs d nm r) = sync r"
  by (simp_all add: process_reqs_def Let_def split: option.splits)

lemma same_log: "run_clients r' = run_clients r \<Longrightarrow> messages r' = messages r \<Longrightarrow> sync r' = sync r \<Longrightarrow>
    log_fits r' = log_fits r \<and> barrier r' = barrier r"
  by (simp add: log_fits_def barrier_def told_to_run_def start_sync_def)

lemma refresh_status [simp]: "cr_status (refresh_stat d c) = cr_status c"
  by (simp add: refresh_stat_def split: option.splits)

lemma report_fits:
  assumes "log_fits r" "barrier r"
  shows "log_fits (process_reqs d nm (update_client p (refresh_stat d) r)) \<and> barrier (process_reqs d nm (update_client p (refresh_stat d) r))"
  using update_client_fits [OF assms, of p "refresh_stat d"] same_log [of "process_reqs d nm (update_client p (refresh_stat d) r)" "update_client p (refresh_stat d) r"]
  by simp

lemma done_fits:
  assumes "log_fits r" "barrier r"
  shows "log_fits (client_done p result r) \<and> barrier (client_done p result r)"
proof -
  let ?r = "case result of None \<Rightarrow> r | Some d \<Rightarrow> process_reqs d (client_name p r) (update_client p (refresh_stat d) r)"
  have "log_fits ?r \<and> barrier ?r" using assms report_fits [OF assms] by (simp split: option.splits)
  then have "log_fits (update_client p (\<lambda>c. c\<lparr>cr_status := ClientStopped\<rparr>) ?r) \<and> barrier (update_client p (\<lambda>c. c\<lparr>cr_status := ClientStopped\<rparr>) ?r)"
    by (intro update_client_fits) auto
  then show ?thesis by (simp add: client_done_def Let_def)
qed

lemma ready_fits:
  assumes "log_fits r" "barrier r" "map_of (run_clients r) p = Some c" "cr_status c = ClientCreated"
  shows "log_fits (read_client_cb alive p ReportReady r) \<and> barrier (read_client_cb alive p ReportReady r)"
proof -
  have "(p, c') \<in> set (run_clients r) \<Longrightarrow> c' = c" for c'
    using assms(1,3) by (auto simp: log_fits_def)
  then have "log_fits (update_client p (\<lambda>c. c\<lparr>cr_status := ClientReady\<rparr>) r) \<and> barrier (update_client p (\<lambda>c. c\<lparr>cr_status := ClientReady\<rparr>) r)"
    using assms(4) by (intro update_client_fits [OF assms(1,2)]) auto
  then show ?thesis by (simp add: read_client_cb_def start_clients_fits)
qed

text \<open>Every step keeps the log and the barrier.\<close>

definition runner_inv :: "load_runner \<Rightarrow> bool" where
  "runner_inv r \<longleftrightarrow> log_fits r \<and> barrier r"

lemma only_sends_inv: "only_sends r r' \<Longrightarrow> runner_inv r \<Longrightarrow> runner_inv r'"
  using only_sends_barrier by (auto simp: runner_inv_def only_sends_def)

lemma runner_inv_frame [simp]: "runner_inv (r\<lparr>ticks := t\<rparr>) = runner_inv r"
  by (simp add: runner_inv_def)

interpretation runner: step_invariant runner_step runner_inv
proof
  fix r r' assume inv: "runner_inv r" and "runner_step r r'"
  from this(2) show "runner_inv r'"
  proof cases
    case (ready p c alive)
    with inv ready_fits show ?thesis by (simp add: runner_inv_def)
  next
    case (stat p c alive d)
    with inv report_fits show ?thesis by (simp add: runner_inv_def read_client_cb_def)
  next
    case (garbage alive p)
    with inv show ?thesis by (simp add: read_client_cb_def)
  next
    case (finished p c result)
    with inv done_fits show ?thesis by (simp add: runner_inv_def)
  next
    case (tick q q' alive)
    with inv only_sends_inv [OF tick_only(1)] show ?thesis by simp
  next
    case (tick1 q i q' alive)
    with inv only_sends_inv [OF tick_only(2)] show ?thesis by simp
  next
    case (signal alive)
    with inv only_sends_inv [OF sig_handler_only] show ?thesis by simp
  next
    case (screen alive)
    with inv only_sends_inv [OF screen_only] show ?thesis by simp
  qed
qed

lemma new_runner_inv: "runner_inv (new_load_runner clients cpus batch load_time sep m short)"
  by (auto simp: runner_inv_def log_fits_def barrier_def told_to_run_def new_load_runner_def Let_def new_runner_client_def distinct_map inj_on_def)

text \<open>
  C37: The start of a load test is a barrier. Whatever the clients report and whenever ticks, signals and requests
  for statistics come, in the modes that start together some client was told to run only if no client is still
  being created or waiting; and in every mode a client is asked to send only after it was told to run.
\<close>

theorem load_start_barrier:
  assumes "runner_step\<^sup>*\<^sup>* (new_load_runner clients cpus batch load_time sep m short) r"
  shows "(sync r \<in> {SyncAll, SyncOne} \<and> (\<exists>p. (p, MsgRun) \<in> set (messages r)) \<longrightarrow>
      (\<forall>p c. (p, c) \<in> set (run_clients r) \<longrightarrow> cr_status c \<notin> {ClientCreated, ClientReady})) \<and>
    (\<forall>i<length (messages r). \<forall>p n. messages r ! i = (p, MsgSend n) \<longrightarrow> (p, MsgRun) \<in> set (take i (messages r)))"
  using runner.inv_reachable [OF assms new_runner_inv]
  by (auto simp: runner_inv_def log_fits_def barrier_def ordered_log_def told_to_run_def start_sync_def)

theorem load_start_barrier_witness:
  "\<exists>r. runner_step\<^sup>*\<^sup>* (new_load_runner 1 4 5 0 ''|'' SyncAll False) r \<and> messages r = [(0, MsgRun), (0, MsgSend 5)] \<and>
    (sync r \<in> {SyncAll, SyncOne} \<and> (\<exists>p. (p, MsgRun) \<in> set (messages r)) \<longrightarrow>
      (\<forall>p c. (p, c) \<in> set (run_clients r) \<longrightarrow> cr_status c \<notin> {ClientCreated, ClientReady})) \<and>
    (\<forall>i<length (messages r). \<forall>p n. messages r ! i = (p, MsgSend n) \<longrightarrow> (p, MsgRun) \<in> set (take i (messages r)))"
proof -
  let ?start = "new_load_runner 1 4 5 0 ''|'' SyncAll False"
  let ?r = "read_client_cb (\<lambda>_. True) 0 ReportReady ?start"
  have "runner_step ?start ?r"
    by (rule runner_step.ready [where c = "new_runner_client (''LoadClient_'' @ nat_str 0)"]) (simp_all add: new_load_runner_def new_runner_client_def)
  then have steps: "runner_step\<^sup>*\<^sup>* ?start ?r" by (rule r_into_rtranclp)
  have msgs: "messages ?r = [(0, MsgRun), (0, MsgSend 5)]"
    by (simp add: new_load_runner_def new_runner_client_def read_client_cb_def start_clients_def start_sync_def update_client_def run_client_def
        send_msg_def tick_all_def tick_client_def schedule_stop_def)
  from load_start_barrier [OF steps] steps msgs show ?thesis by (intro exI [of _ ?r] conjI) simp_all
qed

section \<open>A client that ends early\<close>

definition held_up :: "load_runner \<Rightarrow> bool" where
  "held_up r \<longleftrightarrow> distinct (map fst (run_clients r)) \<and> start_sync r \<and> \<not> told_to_run r \<and>
     (\<exists>p c. (p, c) \<in> set (run_clients r) \<and> cr_status c = ClientStopped)"

lemma held_up_only: "only_sends r r' \<Longrightarrow> held_up r \<Longrightarrow> held_up r'"
  by (simp add: only_sends_def held_up_def start_sync_def)

lemma held_up_frame [simp]: "held_up (r\<lparr>ticks := t\<rparr>) = held_up r" "held_up (r\<lparr>loop_stopped := b\<rparr>) = held_up r"
  "held_up (process_reqs d nm r) = held_up r"
  by (simp_all add: held_up_def start_sync_def told_to_run_def)

lemma held_up_update:
  assumes "held_up r" "\<And>c. (p, c) \<in> set (run_clients r) \<Longrightarrow> cr_status c = ClientStopped \<Longrightarrow> cr_status (f c) = ClientStopped"
  shows "held_up (update_client p f r)"
proof -
  obtain q c where "(q, c) \<in> set (run_clients r)" "cr_status c = ClientStopped" using assms(1) by (auto simp: held_up_def)
  then have "(q, if q = p then f c else c) \<in> set (run_clients (update_client p f r))" "cr_status (if q = p then f c else c) = ClientStopped"
    using assms(2) by (auto simp: update_client_mem)
  then show ?thesis using assms(1) unfolding held_up_def update_client_keys update_client_frame by blast
qed

lemma held_up_start: "held_up r \<Longrightarrow> start_clients alive r = r"
proof -
  assume h: "held_up r"
  then have "length (filter (\<lambda>(p, c). cr_status c = ClientReady) (run_clients r)) < length (run_clients r)"
    by (auto simp: held_up_def intro: length_filter_less)
  with h show ?thesis by (simp add: start_clients_def held_up_def Let_def)
qed

lemma held_up_ready:
  assumes "held_up r" "map_of (run_clients r) p = Some c" "cr_status c = ClientCreated"
  shows "held_up (read_client_cb alive p ReportReady r)"
proof -
  have "(p, c') \<in> set (run_clients r) \<Longrightarrow> c' = c" for c' using assms(1,2) by (auto simp: held_up_def)
  then have "held_up (update_client p (\<lambda>c. c\<lparr>cr_status := ClientReady\<rparr>) r)"
    using assms by (intro held_up_update) auto
  then show ?thesis by (simp add: read_client_cb_def held_up_start)
qed

interpretation hold: step_invariant runner_step held_up
proof
  fix r r' assume inv: "held_up r" and "runner_step r r'"
  from this(2) show "held_up r'"
  proof cases
    case (ready p c alive)
    with inv held_up_ready show ?thesis by simp
  next
    case (stat p c alive d)
    with inv held_up_update [of r p "refresh_stat d"] show ?thesis by (simp add: read_client_cb_def)
  next
    case (finished p c result)
    let ?r = "case result of None \<Rightarrow> r | Some d \<Rightarrow> process_reqs d (client_name p r) (update_client p (refresh_stat d) r)"
    have "held_up ?r" using inv held_up_update [of r p] by (auto split: option.splits)
    then have "held_up (update_client p (\<lambda>c. c\<lparr>cr_status := ClientStopped\<rparr>) ?r)" by (rule held_up_update) simp
    with finished show ?thesis by (simp add: client_done_def Let_def)
  next
    case (tick q q' alive)
    with inv held_up_only [OF tick_only(1)] show ?thesis by simp
  next
    case (tick1 q i q' alive)
    with inv held_up_only [OF tick_only(2)] show ?thesis by simp
  qed (use inv held_up_only [OF sig_handler_only] held_up_only [OF screen_only] in \<open>simp_all add: read_client_cb_def\<close>)
qed

text \<open>
  In the modes that start together a client that ends before the start, for instance because its initialisation
  failed, holds up all others: none of them is ever told to run, and none finishes by itself.
\<close>

theorem early_end_holds_up:
  assumes "runner_step\<^sup>*\<^sup>* (new_load_runner clients cpus batch load_time sep m short) r"
    and "sync r \<in> {SyncAll, SyncOne}" "\<forall>p. (p, MsgRun) \<notin> set (messages r)" "(p, c) \<in> set (run_clients r)" "cr_status c = ClientStopped"
    and "runner_step\<^sup>*\<^sup>* r r'"
  shows "\<forall>p. (p, MsgRun) \<notin> set (messages r')"
proof -
  have "held_up r"
    using runner.inv_reachable [OF assms(1) new_runner_inv] assms(2-5)
    by (auto simp: held_up_def runner_inv_def log_fits_def told_to_run_def start_sync_def)
  from hold.inv_reachable [OF assms(6) this] show ?thesis by (simp add: held_up_def told_to_run_def)
qed

section \<open>Results\<close>

text \<open>Every reported request has one line in the file of all results and, unless they are short, one in one of the other files.\<close>

lemma results_partition:
  assumes "\<not> run_short r" "process_reqs (Some d) nm r = r'"
  shows "\<exists>t s n f. total_f r' = total_f r @ t \<and> succ_f r' = succ_f r @ s \<and> nacked_f r' = nacked_f r @ n \<and> failed_f r' = failed_f r @ f \<and>
    t = map (total_line (separator r) nm) (dump_reqs d) \<and> mset s + mset n + mset f = mset (map (detail_line (separator r)) (dump_reqs d))"
proof -
  have "mset (filter (\<lambda>e. P e) xs) + mset (filter (\<lambda>e. Q e) xs) + mset (filter (\<lambda>e. \<not> P e \<and> \<not> Q e) xs) = mset xs"
    if "\<And>e. \<not> (P e \<and> Q e)" for P Q and xs :: "(string \<times> dict) list"
    using that by (induction xs) auto
  from this [of "\<lambda>e. req_status e = ''succ''" "\<lambda>e. req_status e \<in> {''nack'', ''reject''}" "dump_reqs d"]
  have "image_mset (detail_line (separator r)) (mset (filter (\<lambda>e. req_status e = ''succ'') (dump_reqs d)) +
      mset (filter (\<lambda>e. req_status e \<in> {''nack'', ''reject''}) (dump_reqs d)) +
      mset (filter (\<lambda>e. req_status e \<noteq> ''succ'' \<and> req_status e \<notin> {''nack'', ''reject''}) (dump_reqs d))) =
    image_mset (detail_line (separator r)) (mset (dump_reqs d))" by (intro arg_cong [where f = "image_mset _"]) auto
  then show ?thesis using assms by (intro exI conjI) (auto simp: process_reqs_def Let_def)
qed

end
