(* ===== verification/LoadFees.thy ===== *)
theory LoadFees
  imports NodeControl "HOL-Library.Multiset"
begin

text \<open>
  Payments in load tests: how inputs are taken from the unspent outputs of the addresses
  (scripts/performance/perf_load/perf_utils.py), how fees are added to a request, kept in mind and given back
  (perf_client_fees.py), how addresses are minted, and how a payment is made (perf_req_gen_payment.py). The
  payment library, the ledger and the signing are outcomes that the operations are given.
\<close>

section \<open>Taking inputs\<close>

type_synonym txo = "string \<times> int"
type_synonym addr_txos = "(string \<times> txo list) list"

text \<open>The inner loop on the list in reverse: the outputs that are taken, and those that remain. An amount that is not positive is dropped.\<close>

fun pop_txos :: "int \<Rightarrow> int \<Rightarrow> txo list \<Rightarrow> txo list \<times> txo list" where
  "pop_txos val total_amount [] = ([], [])"
| "pop_txos val total_amount ((source, amount) # rest) =
     (if total_amount < val
      then (if amount > 0
            then (case pop_txos val (total_amount + amount) rest of (taken, left) \<Rightarrow> ((source, amount) # taken, left))
            else pop_txos val total_amount rest)
      else ([], (source, amount) # rest))"

record selection =
  sel_address :: string
  sel_txos :: "txo list"
  sel_inputs :: "string list"
  sel_outputs :: "(string \<times> int) list"

text \<open>Each address in turn; what an address cannot pay goes back to the end of its list.\<close>

fun gen_input_output :: "addr_txos \<Rightarrow> int \<Rightarrow> addr_txos \<times> selection option" where
  "gen_input_output [] val = ([], None)"
| "gen_input_output ((address, txos) # addrs) val =
     (case pop_txos val 0 (rev txos) of
        (taken, left) \<Rightarrow>
          let total_amount = sum_list (map snd taken)
          in if total_amount \<ge> val
             then ((address, rev left) # addrs,
                   Some \<lparr>sel_address = address, sel_txos = taken, sel_inputs = map fst taken,
                     sel_outputs = (if total_amount - val > 0 then [(address, total_amount - val)] else [])\<rparr>)
             else (case gen_input_output addrs val of (addrs', sel) \<Rightarrow> ((address, rev left @ taken) # addrs', sel)))"

text \<open>\<open>divide_sequence_into_chunks\<close>; a chunk size of zero is a \<open>ValueError\<close> of \<open>range\<close>.\<close>

definition divide_sequence_into_chunks :: "'a list \<Rightarrow> nat \<Rightarrow> 'a list list res" where
  "divide_sequence_into_chunks seq chunk_size =
     (if chunk_size = 0 then Inl (ValueError ''range() arg 3 must not be zero'')
      else Inr (map (\<lambda>i. take chunk_size (drop (i * chunk_size) seq)) [0..<(length seq + chunk_size - 1) div chunk_size]))"

text \<open>The types of requests and responses, from a dictionary or from JSON.\<close>

definition decoded_dict :: "(string \<Rightarrow> pyval res) \<Rightarrow> string \<Rightarrow> pyval \<Rightarrow> pyval res" where
  "decoded_dict loads what v =
     (case v of PyDict d \<Rightarrow> Inr v | PyStr s \<Rightarrow> loads s | _ \<Rightarrow> Inl (OtherException (what @ '' of unsupported type'')))"

definition request_get_type :: "(string \<Rightarrow> pyval res) \<Rightarrow> pyval \<Rightarrow> pyval res" where
  "request_get_type loads req =
     rbind (decoded_dict loads ''Request'' req) (\<lambda>dict_req.
     rbind (py_get_default dict_req ''operation'' (PyDict [])) (\<lambda>operation. py_get_default operation ''type'' (PyStr [])))"

definition response_get_type :: "(string \<Rightarrow> pyval res) \<Rightarrow> pyval \<Rightarrow> pyval res" where
  "response_get_type loads req =
     rbind (decoded_dict loads ''Response'' req) (\<lambda>dict_resp.
     rbind (py_get_default dict_resp ''result'' (PyDict [])) (\<lambda>result.
     rbind (py_get_default result ''txn'' (PyDict [])) (\<lambda>txn. py_get_default txn ''type'' (PyStr []))))"

text \<open>\<open>ensure_is_reply\<close>; a reply that was decoded is a dictionary.\<close>

definition ensure_is_reply :: "(string \<Rightarrow> dict res) \<Rightarrow> string \<Rightarrow> unit res" where
  "ensure_is_reply loads resp =
     rbind (loads resp) (\<lambda>d.
       if \<not> dict_in ''op'' d \<or> dict_get d ''op'' \<noteq> PyStr ''REPLY''
       then Inl (OtherException (''Response is not a successful reply: '' @ py_str (PyDict d))) else Inr ())"

section \<open>Fees\<close>

definition PUB_XFER_TXN_ID :: string where "PUB_XFER_TXN_ID = ''10001''"

definition FEES_ALIAS_PREFIX :: string where "FEES_ALIAS_PREFIX = ''_fees_alias_prefix''"

definition create_alias :: "string \<Rightarrow> string" where
  "create_alias txn_type = txn_type @ FEES_ALIAS_PREFIX"

definition get_txn_type_by_alis :: "string \<Rightarrow> string" where
  "get_txn_type_by_alis alias = take (length alias - length FEES_ALIAS_PREFIX) alias"

record fees_client =
  pool_fees :: "(string \<times> int) list"
  allow_invalid_txns :: bool
  addr_txos :: addr_txos
  req_addrs :: "(string \<times> (string \<times> txo list)) list"

definition ignore_fees_txns :: "pyval list" where
  "ignore_fees_txns = [PyStr PUB_XFER_TXN_ID]"

text \<open>\<open>_init_fees_params\<close>: the metadata of the rules and the fees by alias; and the fees that the pool reports, by type.\<close>

definition init_fees_params :: "(string \<times> int) list \<Rightarrow> (string \<times> (string \<times> string) list) list \<times> (string \<times> int) list" where
  "init_fees_params set_fees_param =
     (map (\<lambda>(txn_type, _). (txn_type, [(''fees'', create_alias txn_type)])) set_fees_param,
      map (\<lambda>(txn_type, fees_amount). (create_alias txn_type, fees_amount)) set_fees_param)"

fun fees_by_type :: "(string \<times> int) list \<Rightarrow> (string \<times> int) list \<Rightarrow> (string \<times> int) list" where
  "fees_by_type fees [] = fees"
| "fees_by_type fees ((alias, fees_amount) # fees_set) = fees_by_type (AList.update (get_txn_type_by_alis alias) fees_amount fees) fees_set"

text \<open>\<open>self._pool_fees.get(req_type, 0)\<close>\<close>

definition fees_of :: "fees_client \<Rightarrow> pyval \<Rightarrow> int res" where
  "fees_of c req_type =
     (case req_type of
        PyStr t \<Rightarrow> Inr (case map_of (pool_fees c) t of None \<Rightarrow> 0 | Some v \<Rightarrow> v)
      | PyList _ \<Rightarrow> Inl (TypeError ''unhashable'')
      | PyDict _ \<Rightarrow> Inl (TypeError ''unhashable'')
      | _ \<Rightarrow> Inr 0)"

text \<open>\<open>_add_fees\<close>: the address with what was taken, and the request with its fees (\<open>None\<close> if there is none to send).\<close>

definition take_inputs :: "int \<Rightarrow> (fees_client, selection option) sres" where
  "take_inputs val c = (case gen_input_output (addr_txos c) val of (txos, sel) \<Rightarrow> (c\<lparr>addr_txos := txos\<rparr>, Inr sel))"

definition add_fees ::
  "(string \<Rightarrow> pyval res) \<Rightarrow> (string \<Rightarrow> string list \<Rightarrow> (string \<times> int) list \<Rightarrow> string res) \<Rightarrow> string
     \<Rightarrow> (fees_client, (string \<times> txo list) option \<times> string option) sres" where
  "add_fees loads add_request_fees req c =
     (sbind (slift (request_get_type loads (PyStr req))) (\<lambda>req_type.
        if req_type \<in> set ignore_fees_txns then sret (None, Some req)
        else sbind (slift (fees_of c req_type)) (\<lambda>fees_val.
          if fees_val = 0 then sret (None, Some req)
          else sbind (take_inputs fees_val) (\<lambda>sel.
            case sel of
              None \<Rightarrow> sret (None, if allow_invalid_txns c then Some req else None)
            | Some s \<Rightarrow>
                if sel_inputs s = [] then sret (None, if allow_invalid_txns c then Some req else None)
                else sbind (slift (add_request_fees req (sel_inputs s) (sel_outputs s))) (\<lambda>req_fees.
                  sret (Some (sel_address s, sel_txos s), Some req_fees)))))) c"

definition ledger_sign_req ::
  "(string \<Rightarrow> pyval res) \<Rightarrow> (string \<Rightarrow> string list \<Rightarrow> (string \<times> int) list \<Rightarrow> string res) \<Rightarrow> (string \<Rightarrow> string res) \<Rightarrow> string
     \<Rightarrow> (fees_client, string option) sres" where
  "ledger_sign_req loads add_request_fees sign_request req =
     sbind (add_fees loads add_request_fees req) (\<lambda>(addr, fees_req).
       case fees_req of
         None \<Rightarrow> sret None
       | Some r \<Rightarrow>
           sbind (slift (sign_request r)) (\<lambda>signed.
           sbind (smodify (\<lambda>c. case addr of None \<Rightarrow> c | Some a \<Rightarrow> c\<lparr>req_addrs := AList.update signed a (req_addrs c)\<rparr>)) (\<lambda>_.
             sret (Some signed))))"

text \<open>\<open>self._addr_txos[addr].extend(txos)\<close>\<close>

definition extend_txos :: "string \<Rightarrow> txo list \<Rightarrow> ('z fees_client_scheme, unit) sres" where
  "extend_txos addr txos c =
     (case map_of (addr_txos c) addr of
        None \<Rightarrow> (c, Inl (KeyError addr))
      | Some ts \<Rightarrow> (c\<lparr>addr_txos := AList.update addr (ts @ txos) (addr_txos c)\<rparr>, Inr ()))"

text \<open>\<open>self._req_addrs.pop(req, {})\<close>\<close>

definition forget_req :: "string \<Rightarrow> fees_client \<Rightarrow> fees_client" where
  "forget_req req c = c\<lparr>req_addrs := AList.delete req (req_addrs c)\<rparr>"

definition restore_fees_from_req :: "string \<Rightarrow> (fees_client, unit) sres" where
  "restore_fees_from_req req c =
     (case map_of (req_addrs c) req of
        None \<Rightarrow> (c, Inr ())
      | Some (addr, txos) \<Rightarrow> extend_txos addr txos (forget_req req c))"

fun add_receipts :: "(string \<times> string \<times> int) list \<Rightarrow> ('z fees_client_scheme, unit) sres" where
  "add_receipts [] = sret ()"
| "add_receipts ((recipient, receipt, amount) # ris) = sbind (extend_txos recipient [(receipt, amount)]) (\<lambda>_. add_receipts ris)"

text \<open>\<open>_parse_fees_resp\<close>: \<open>None\<close> is an exception of the ledger. \<open>receipts\<close> is the answer of the payment library. Exceptions in the branches are logged.\<close>

definition fees_outcome ::
  "(string \<Rightarrow> pyval res) \<Rightarrow> (string \<Rightarrow> (string \<times> string \<times> int) list res) \<Rightarrow> string \<Rightarrow> string \<Rightarrow> (fees_client, unit) sres" where
  "fees_outcome loads receipts req resp =
     sbind (slift (loads resp)) (\<lambda>resp_obj.
     sbind (slift (py_get_default resp_obj ''op'' (PyStr []))) (\<lambda>op_f.
     sbind (slift (response_get_type loads resp_obj)) (\<lambda>resp_type.
       if op_f = PyStr ''REPLY'' \<and> resp_type \<notin> set ignore_fees_txns
       then sbind (slift (receipts resp)) add_receipts
       else restore_fees_from_req req)))"

definition parse_fees_resp ::
  "(string \<Rightarrow> pyval res) \<Rightarrow> (string \<Rightarrow> (string \<times> string \<times> int) list res) \<Rightarrow> string \<Rightarrow> string option \<Rightarrow> fees_client \<Rightarrow> fees_client" where
  "parse_fees_resp loads receipts req resp_or_exp c =
     (case resp_or_exp of
        None \<Rightarrow> forget_req req c
      | Some resp \<Rightarrow> forget_req req (fst (scatch (fees_outcome loads receipts req resp) (\<lambda>e. sret ()) c)))"

section \<open>Minting\<close>

text \<open>The amounts that \<open>__mint_sources\<close> sends to every address, one request each.\<close>

fun mint_amounts :: "nat \<Rightarrow> nat \<Rightarrow> nat \<Rightarrow> nat list \<Rightarrow> nat list" where
  "mint_amounts amount by_val mint_val [] = []"
| "mint_amounts amount by_val mint_val (i # is) =
     (let mint_val = (if (i + 1) * by_val > amount then amount mod by_val else mint_val)
      in mint_val # mint_amounts amount by_val mint_val is)"

definition mint_sources :: "nat \<Rightarrow> nat \<Rightarrow> nat list" where
  "mint_sources amount by_val =
     (let iters = amount div by_val + (if amount mod by_val > 0 then 1 else 0) in mint_amounts amount by_val by_val [0..<iters])"

text \<open>\<open>_mint_by\<close> in \<open>__init__\<close>\<close>

definition mint_by :: "int \<Rightarrow> int \<Rightarrow> int" where
  "mint_by wanted addr_mint_limit = (if wanted < 1 \<or> wanted > addr_mint_limit then addr_mint_limit else wanted)"

text \<open>\<open>_payment_address_init\<close>: the requests that mint, by chunks of 500 addresses, as the outputs of each.\<close>

definition mint_requests :: "'a list \<Rightarrow> nat \<Rightarrow> nat \<Rightarrow> ('a \<times> nat) list list" where
  "mint_requests payment_addresses amount by_val =
     map (\<lambda>mint_val. map (\<lambda>payment_address. (payment_address, mint_val)) payment_addresses) (mint_sources amount by_val)"

definition payment_address_init :: "'a list \<Rightarrow> nat \<Rightarrow> nat \<Rightarrow> nat \<Rightarrow> ('a \<times> nat) list list res" where
  "payment_address_init pmt_addrs mint_addrs_count addr_mint_limit by_val =
     rbind (divide_sequence_into_chunks (take mint_addrs_count pmt_addrs) 500) (\<lambda>chunks.
       Inr (concat (map (\<lambda>chunk. mint_requests chunk addr_mint_limit by_val) chunks)))"

section \<open>Payments\<close>

text \<open>The generator of payments shares the outputs of the addresses with the client; \<open>choice\<close> picks one of a list.\<close>

record payment_gen = fees_client +
  payment_fees :: int
  sent_reqs :: "string set"

definition payment_input_output ::
  "(string list \<Rightarrow> string res) \<Rightarrow> int \<Rightarrow> int \<Rightarrow> (payment_gen, string list \<times> (string \<times> int) list) sres" where
  "payment_input_output choice val fees g =
     (case gen_input_output (addr_txos g) (val + fees) of
        (txos, None) \<Rightarrow> (g\<lparr>addr_txos := txos\<rparr>, Inl (OtherException ''NoReqDataAvailableException''))
      | (txos, Some s) \<Rightarrow>
          (case choice (remove1 (sel_address s) (map fst txos)) of
             Inl e \<Rightarrow> (g\<lparr>addr_txos := txos\<rparr>, Inl e)
           | Inr to_address \<Rightarrow> (g\<lparr>addr_txos := txos\<rparr>, Inr (sel_inputs s, sel_outputs s @ [(to_address, val)]))))"

definition payment_req_data :: "(string list \<Rightarrow> string res) \<Rightarrow> (payment_gen, string list \<times> (string \<times> int) list) sres" where
  "payment_req_data choice g = payment_input_output choice 1 (payment_fees g) g"

definition payment_generated :: "string \<Rightarrow> payment_gen \<Rightarrow> payment_gen" where
  "payment_generated req g = g\<lparr>sent_reqs := insert req (sent_reqs g)\<rparr>"

text \<open>\<open>on_request_replied\<close>: the outputs of a payment become unspent outputs of their addresses.\<close>

definition payment_replied ::
  "(string \<Rightarrow> pyval res) \<Rightarrow> (string \<Rightarrow> (string \<times> string \<times> int) list res) \<Rightarrow> string \<Rightarrow> string option \<Rightarrow> (payment_gen, unit) sres" where
  "payment_replied loads receipts gen_req resp_or_exp g =
     (if gen_req \<notin> sent_reqs g then (g, Inr ())
      else let g = g\<lparr>sent_reqs := sent_reqs g - {gen_req}\<rparr>
      in case resp_or_exp of
           None \<Rightarrow> (g, Inr ())
         | Some resp \<Rightarrow>
             sbind (slift (loads resp)) (\<lambda>reply.
             sbind (slift (py_get_default reply ''result'' PyNone)) (\<lambda>result.
               if \<not> truthy result then sret ()
               else sbind (slift (py_index result ''txn'')) (\<lambda>txn.
                    sbind (slift (py_index txn ''type'')) (\<lambda>ty.
                      if ty \<noteq> PyStr PUB_XFER_TXN_ID then sret ()
                      else sbind (slift (receipts resp)) add_receipts)))) g)"

text \<open>
  \<open>__perform_payments\<close>: a payment for each address while there are outputs to take. \<open>pay\<close> builds, signs and
  submits the request and checks that the answer is a reply; receipts that cannot be read are ignored.
\<close>

fun perform_payments ::
  "(string list \<Rightarrow> string res) \<Rightarrow> (string list \<Rightarrow> (string \<times> int) list \<Rightarrow> string res) \<Rightarrow> (string \<Rightarrow> string list res) \<Rightarrow> nat
     \<Rightarrow> string list \<Rightarrow> (payment_gen, string list) sres" where
  "perform_payments choice pay receipts 0 rs g = (g, Inr rs)"
| "perform_payments choice pay receipts (Suc n) rs g =
     (case payment_req_data choice g of
        (g', Inl e) \<Rightarrow> if e = OtherException ''NoReqDataAvailableException'' then (g', Inr rs) else (g', Inl e)
      | (g', Inr (inputs, outputs)) \<Rightarrow>
          (case pay inputs outputs of
             Inl e \<Rightarrow> (g', Inl e)
           | Inr resp \<Rightarrow>
               perform_payments choice pay receipts n (rs @ (case receipts resp of Inl _ \<Rightarrow> [] | Inr new \<Rightarrow> new)) g'))"

end
