(* ===== verification/LoadFeesProperties.thy ===== *)
theory LoadFeesProperties
  imports LoadFees
begin

text \<open>
  What the payments of load tests keep: inputs cover the amount and the change, an address that can pay is found
  if there is one, what signing takes from the outputs of the addresses is kept in mind with the request, if it succeeds, a refused request gives back what it took, and minting gives each address the same amount.
\<close>

section \<open>Taking inputs\<close>

definition positive :: "txo list \<Rightarrow> txo list" where
  "positive ts = filter (\<lambda>t. 0 < snd t) ts"

definition amount_of :: "txo list \<Rightarrow> int" where
  "amount_of ts = sum_list (map snd ts)"

definition balance :: "txo list \<Rightarrow> int" where
  "balance ts = amount_of (positive ts)"

definition tagged :: "string \<Rightarrow> txo list \<Rightarrow> (string \<times> txo) multiset" where
  "tagged address ts = image_mset (Pair address) (mset (positive ts))"

definition purse :: "addr_txos \<Rightarrow> (string \<times> txo) multiset" where
  "purse addrs = sum_list (map (\<lambda>(address, ts). tagged address ts) addrs)"

lemma positive_simps [simp]:
  "positive [] = []"
  "positive (t # ts) = (if 0 < snd t then t # positive ts else positive ts)"
  "positive (xs @ ys) = positive xs @ positive ys"
  "positive (rev xs) = rev (positive xs)"
  "positive (positive xs) = positive xs"
  by (simp_all add: positive_def rev_filter)

lemma amount_simps [simp]:
  "amount_of [] = 0"
  "amount_of (t # ts) = snd t + amount_of ts"
  "amount_of (xs @ ys) = amount_of xs + amount_of ys"
  "amount_of (rev xs) = amount_of xs"
  by (simp_all add: amount_of_def rev_map [symmetric] sum_list_rev)

lemma amount_positive: "0 \<le> amount_of (positive ts)"
  by (induction ts) auto

lemma tagged_simps [simp]:
  "tagged a [] = {#}"
  "tagged a (xs @ ys) = tagged a xs + tagged a ys"
  "tagged a (rev xs) = tagged a xs"
  by (simp_all add: tagged_def)

text \<open>What the inner loop takes and leaves, for a total that the loop started with.\<close>

lemma pop_txos_parts:
  "pop_txos val n ts = (taken, left) \<Longrightarrow> positive taken = taken \<and> positive ts = taken @ positive left"
proof (induction val n ts arbitrary: taken left rule: pop_txos.induct)
  case (2 val n source amount rest)
  then show ?case by (auto split: if_splits prod.splits)
qed simp

lemma pop_txos_enough:
  "pop_txos val n ts = (taken, left) \<Longrightarrow> (val \<le> n + amount_of taken \<or> left = [])"
  by (induction val n ts arbitrary: taken left rule: pop_txos.induct) (force split: if_splits prod.splits)+

lemma pop_txos_minimal:
  "pop_txos val n ts = (taken, left) \<Longrightarrow> taken \<noteq> [] \<Longrightarrow> n + amount_of (butlast taken) < val"
proof (induction val n ts arbitrary: taken left rule: pop_txos.induct)
  case (2 val n source amount rest)
  show ?case
  proof (cases "n < val \<and> 0 < amount")
    case True
    obtain taken' left' where r: "pop_txos val (n + amount) rest = (taken', left')" by fastforce
    with True 2(3) have t: "taken = (source, amount) # taken'" by simp
    show ?thesis
    proof (cases "taken' = []")
      case False
      with 2(1) r True have "n + amount + amount_of (butlast taken') < val" by blast
      with t False show ?thesis by simp
    qed (use t True in simp)
  qed (use 2 in \<open>auto split: if_splits\<close>)
qed simp

lemma pop_txos_iff:
  assumes "pop_txos val 0 (rev ts) = (taken, left)"
  shows "val \<le> amount_of taken \<longleftrightarrow> val \<le> balance ts"
proof -
  have p: "positive taken = taken" "positive (rev ts) = taken @ positive left" using pop_txos_parts [OF assms] by simp_all
  then have "rev (positive ts) = taken @ positive left" by simp
  then have "balance ts = amount_of taken + amount_of (positive left)"
    unfolding balance_def by (metis amount_simps(3,4))
  moreover have "amount_of (positive left) \<ge> 0" by (rule amount_positive)
  moreover have "val \<le> amount_of taken \<or> left = []" using pop_txos_enough [OF assms] by simp
  ultimately show ?thesis by auto
qed

lemma pop_txos_tagged:
  assumes "pop_txos val 0 (rev ts) = (taken, left)"
  shows "tagged a ts = tagged a left + tagged a taken"
proof -
  have p: "positive taken = taken" "positive (rev ts) = taken @ positive left" using pop_txos_parts [OF assms] by simp_all
  have "tagged a ts = tagged a (rev ts)" by simp
  also have "\<dots> = image_mset (Pair a) (mset (taken @ positive left))" by (simp only: tagged_def p(2))
  also have "\<dots> = tagged a left + tagged a taken" using p(1) by (simp add: tagged_def)
  finally show ?thesis .
qed

lemma purse_simps [simp]: "purse [] = {#}" "purse ((a, ts) # addrs) = tagged a ts + purse addrs"
  by (simp_all add: purse_def)

lemma gen_none_purse: "gen_input_output addrs val = (addrs', None) \<Longrightarrow> purse addrs' = purse addrs"
proof (induction addrs val arbitrary: addrs' rule: gen_input_output.induct)
  case (2 address txos addrs val)
  obtain taken left where p: "pop_txos val 0 (rev txos) = (taken, left)" by fastforce
  obtain rest sel where g: "gen_input_output addrs val = (rest, sel)" by fastforce
  from 2(2) p g have n: "\<not> val \<le> sum_list (map snd taken)" "sel = None" "addrs' = (address, rev left @ taken) # rest"
    by (auto simp: Let_def split: if_splits)
  with 2(1) [OF p [symmetric]] g have "purse rest = purse addrs" by simp
  then show ?case using n(3) pop_txos_tagged [OF p] by simp
qed simp

lemma gen_some:
  assumes "gen_input_output addrs val = (addrs', Some s)"
  shows "purse addrs = purse addrs' + tagged (sel_address s) (sel_txos s) \<and> map fst addrs' = map fst addrs
    \<and> sel_address s \<in> fst ` set addrs"
  using assms
proof (induction addrs val arbitrary: addrs' rule: gen_input_output.induct)
  case (2 address txos addrs val)
  obtain taken left where p: "pop_txos val 0 (rev txos) = (taken, left)" by fastforce
  obtain rest sel where g: "gen_input_output addrs val = (rest, sel)" by fastforce
  show ?case
  proof (cases "val \<le> sum_list (map snd taken)")
    case True
    with 2(2) p show ?thesis using pop_txos_tagged [OF p] by (auto simp: Let_def)
  next
    case False
    with 2(2) p g have n: "sel = Some s" "addrs' = (address, rev left @ taken) # rest" by (auto simp: Let_def)
    with 2(1) [OF p [symmetric]] False g have "purse addrs = purse rest + tagged (sel_address s) (sel_txos s)
      \<and> map fst rest = map fst addrs \<and> sel_address s \<in> fst ` set addrs" by simp
    then show ?thesis using n(2) pop_txos_tagged [OF p] by (simp add: add.assoc)
  qed
qed simp

text \<open>The selection: its sums, that it needs each of its inputs, and when there is one.\<close>

definition covers :: "selection \<Rightarrow> int \<Rightarrow> bool" where
  "covers s val \<longleftrightarrow> amount_of (sel_txos s) = val + sum_list (map snd (sel_outputs s)) \<and> sel_inputs s = map fst (sel_txos s)
     \<and> (\<forall>(a, n) \<in> set (sel_outputs s). a = sel_address s \<and> 0 < n)
     \<and> (sel_txos s \<noteq> [] \<longrightarrow> amount_of (butlast (sel_txos s)) < val)"

lemma gen_covers: "gen_input_output addrs val = (addrs', Some s) \<Longrightarrow> covers s val"
proof (induction addrs val arbitrary: addrs' rule: gen_input_output.induct)
  case (2 address txos addrs val)
  obtain taken left where p: "pop_txos val 0 (rev txos) = (taken, left)" by fastforce
  obtain rest sel where g: "gen_input_output addrs val = (rest, sel)" by fastforce
  show ?case
  proof (cases "val \<le> sum_list (map snd taken)")
    case True
    with 2(2) p have "s = \<lparr>sel_address = address, sel_txos = taken, sel_inputs = map fst taken,
        sel_outputs = (if sum_list (map snd taken) - val > 0 then [(address, sum_list (map snd taken) - val)] else [])\<rparr>"
      by (auto simp: Let_def)
    then show ?thesis using True pop_txos_minimal [OF p] by (auto simp: covers_def amount_of_def)
  next
    case False
    with 2(2) p g have "sel = Some s" by (auto simp: Let_def)
    with 2(1) [OF p [symmetric]] False g show ?thesis by simp
  qed
qed simp

lemma gen_iff: "snd (gen_input_output addrs val) = None \<longleftrightarrow> (\<forall>ts \<in> snd ` set addrs. balance ts < val)"
proof (induction addrs val rule: gen_input_output.induct)
  case (2 address txos addrs val)
  obtain taken left where p: "pop_txos val 0 (rev txos) = (taken, left)" by fastforce
  obtain rest sel where g: "gen_input_output addrs val = (rest, sel)" by fastforce
  show ?case using 2 [OF p [symmetric]] pop_txos_iff [OF p] p g
    by (cases "val \<le> sum_list (map snd taken)") (auto simp: Let_def amount_of_def)
qed simp

section \<open>Fees\<close>

text \<open>What requests under way have taken.\<close>

definition pending :: "fees_client \<Rightarrow> (string \<times> txo) multiset" where
  "pending c = purse (map snd (req_addrs c))"

definition sane :: "fees_client \<Rightarrow> bool" where
  "sane c \<longleftrightarrow> distinct (map fst (addr_txos c)) \<and> distinct (map fst (req_addrs c))"

text \<open>An answer that is no reply: its text decodes to a dictionary of another \<open>op\<close> (\<open>REQNACK\<close>, \<open>REJECT\<close>) without a result.\<close>

definition refusal :: "(string \<Rightarrow> pyval res) \<Rightarrow> string \<Rightarrow> bool" where
  "refusal loads resp \<longleftrightarrow> (case loads resp of
     Inr (PyDict d) \<Rightarrow> dict_get d ''op'' \<noteq> PyStr ''REPLY'' \<and> \<not> dict_in ''result'' d
   | _ \<Rightarrow> False)"

lemma refusal_outcome:
  assumes "refusal loads resp"
  shows "fees_outcome loads receipts req resp c = restore_fees_from_req req c"
proof -
  obtain d where d: "loads resp = Inr (PyDict d)" "dict_get d ''op'' \<noteq> PyStr ''REPLY''" "map_of d ''result'' = None"
    using assms by (auto simp: refusal_def dict_in_def split: sum.splits pyval.splits)
  have t: "response_get_type loads (PyDict d) = Inr (PyStr [])"
    using d(3) by (simp add: response_get_type_def decoded_dict_def dict_get_default_def)
  have "dict_get_default d ''op'' (PyStr []) \<noteq> PyStr ''REPLY''"
    using d(2) by (auto simp: dict_get_def dict_get_default_def split: option.splits)
  then show ?thesis using d(1) t by (simp add: fees_outcome_def sbind_def)
qed

lemma purse_update:
  "distinct (map fst addrs) \<Longrightarrow> map_of addrs a = Some ts \<Longrightarrow> purse (AList.update a (ts @ new) addrs) = purse addrs + tagged a new"
  by (induction addrs) (auto simp: ac_simps split: if_splits)

lemma purse_snd_append: "purse (xs @ [(a, ts)]) = purse xs + tagged a ts"
  by (simp add: purse_def)

lemma update_fresh: "k \<notin> fst ` set al \<Longrightarrow> AList.update k v al = al @ [(k, v)]"
  by (induction al) auto

lemma delete_fresh: "k \<notin> fst ` set al \<Longrightarrow> AList.delete k (al @ [(k, v)]) = al"
  by (induction al) auto

lemma map_of_fresh: "k \<notin> fst ` set al \<Longrightarrow> map_of (al @ [(k, v)]) k = Some v"
  by (induction al) auto

definition owns :: "fees_client \<Rightarrow> string \<Rightarrow> bool" where
  "owns c a \<longleftrightarrow> a \<in> fst ` set (addr_txos c)"

text \<open>
  A request that was signed: either it took nothing, or the client keeps in mind what it took from which of its addresses.
\<close>

definition took :: "fees_client \<Rightarrow> string \<Rightarrow> fees_client \<Rightarrow> bool" where
  "took c signed c' \<longleftrightarrow> (\<exists>a ts. req_addrs c' = AList.update signed (a, ts) (req_addrs c) \<and> owns c a
     \<and> purse (addr_txos c) = purse (addr_txos c') + tagged a ts)"

lemma gen_keys: "map fst (fst (gen_input_output addrs val)) = map fst addrs"
  by (induction addrs val rule: gen_input_output.induct) (auto simp: Let_def split: prod.splits)

lemma covers_no_inputs: "covers s val \<Longrightarrow> sel_inputs s = [] \<Longrightarrow> tagged a (sel_txos s) = {#}"
  by (simp add: covers_def)

text \<open>What taking inputs changes, in the two cases.\<close>

lemma take_inputs_cases:
  assumes "take_inputs val c = (c', r)"
  obtains (none) "r = Inr None" "purse (addr_txos c') = purse (addr_txos c)"
  | (some) s where "r = Inr (Some s)" "purse (addr_txos c) = purse (addr_txos c') + tagged (sel_address s) (sel_txos s)"
      "owns c (sel_address s)" "covers s val"
proof (cases "gen_input_output (addr_txos c) val")
  case (Pair txos sel)
  with assms have c: "c' = c\<lparr>addr_txos := txos\<rparr>" "r = Inr sel" by (simp_all add: take_inputs_def)
  show ?thesis
  proof (cases sel)
    case None
    then show ?thesis using Pair c gen_none_purse none by simp
  next
    case (Some s)
    with Pair have g: "gen_input_output (addr_txos c) val = (txos, Some s)" by simp
    show ?thesis using some [of s] gen_some [OF g] gen_covers [OF g] c Some by (simp add: owns_def)
  qed
qed

lemma take_inputs_frame:
  "take_inputs val c = (c', r) \<Longrightarrow> req_addrs c' = req_addrs c \<and> map fst (addr_txos c') = map fst (addr_txos c)"
  using gen_keys [of "addr_txos c" val] by (auto simp: take_inputs_def split: prod.splits)

lemma add_fees_cases:
  assumes "add_fees loads arf req c = (c', Inr (addr, r))"
  shows "req_addrs c' = req_addrs c \<and> map fst (addr_txos c') = map fst (addr_txos c)
    \<and> (case addr of None \<Rightarrow> purse (addr_txos c') = purse (addr_txos c)
       | Some (a, ts) \<Rightarrow> owns c a \<and> purse (addr_txos c) = purse (addr_txos c') + tagged a ts)"
proof -
  obtain ty where ty: "request_get_type loads (PyStr req) = Inr ty"
    using assms by (cases "request_get_type loads (PyStr req)") (auto simp: add_fees_def)
  show ?thesis
  proof (cases "ty \<in> set ignore_fees_txns \<or> fees_of c ty = Inr 0")
    case True
    then show ?thesis using assms ty by (auto simp: add_fees_def sbind_def split: if_splits)
  next
    case False
    obtain val where val: "fees_of c ty = Inr val" "val \<noteq> 0"
      using assms ty False by (cases "fees_of c ty") (auto simp: add_fees_def sbind_def)
    obtain c1 r1 where t: "take_inputs val c = (c1, r1)" by fastforce
    from t show ?thesis
    proof (cases rule: take_inputs_cases)
      case none
      then show ?thesis using assms ty False val t take_inputs_frame [OF t]
        by (auto simp: add_fees_def sbind_def)
    next
      case (some s)
      then show ?thesis using assms ty False val t take_inputs_frame [OF t] covers_no_inputs [OF some(4)]
        by (auto simp: add_fees_def sbind_def split: if_splits sum.splits)
    qed
  qed
qed

lemma sign_cases:
  assumes "ledger_sign_req loads arf sign req c = (c', Inr (Some signed))"
  shows "map fst (addr_txos c') = map fst (addr_txos c)
    \<and> (req_addrs c' = req_addrs c \<and> purse (addr_txos c') = purse (addr_txos c) \<or> took c signed c')"
proof -
  obtain c1 addr r where a: "add_fees loads arf req c = (c1, Inr (addr, r))"
    using assms by (auto simp: ledger_sign_req_def sbind_Inr_iff)
  note f = add_fees_cases [OF a]
  show ?thesis
  proof (cases addr)
    case None
    then show ?thesis using assms a f by (auto simp: ledger_sign_req_def sbind_def split: option.splits sum.splits)
  next
    case (Some p)
    obtain x ts where p: "p = (x, ts)" by fastforce
    have "c' = c1\<lparr>req_addrs := AList.update signed (x, ts) (req_addrs c)\<rparr>"
      using assms a f Some p by (auto simp: ledger_sign_req_def sbind_def split: option.splits sum.splits)
    then have "took c signed c'" unfolding took_def using f Some p by (intro exI [of _ x] exI [of _ ts]) simp
    then show ?thesis using \<open>c' = _\<close> f by simp
  qed
qed

text \<open>Signing that ends without a request, and signing that raises: nothing is kept in mind for a request.\<close>

lemma sign_none:
  assumes "ledger_sign_req loads arf sign req c = (c', Inr None)"
  shows "req_addrs c' = req_addrs c \<and> purse (addr_txos c') = purse (addr_txos c)"
proof -
  obtain c1 addr r where a: "add_fees loads arf req c = (c1, Inr (addr, r))"
    using assms by (auto simp: ledger_sign_req_def sbind_Inr_iff)
  have "r = None" "c' = c1"
    using assms a by (auto simp: ledger_sign_req_def sbind_def split: option.splits sum.splits)
  moreover from this have "addr = None"
    using a by (auto simp: add_fees_def sbind_def split: sum.splits if_splits option.splits prod.splits)
  ultimately show ?thesis using add_fees_cases [OF a] by simp
qed

lemma add_fees_raises:
  assumes "add_fees loads arf req c = (c', Inl e)"
  shows "req_addrs c' = req_addrs c
    \<and> (\<exists>lost. purse (addr_txos c) = purse (addr_txos c') + lost \<and> (lost \<noteq> {#} \<longrightarrow> (\<exists>r i out. arf r i out = Inl e)))"
proof (cases "c' = c")
  case False
  obtain ty where ty: "request_get_type loads (PyStr req) = Inr ty" "ty \<notin> set ignore_fees_txns"
    using assms False by (cases "request_get_type loads (PyStr req)") (auto simp: add_fees_def split: if_splits)
  obtain val where val: "fees_of c ty = Inr val" "val \<noteq> 0"
    using assms ty False by (cases "fees_of c ty") (auto simp: add_fees_def split: if_splits)
  obtain c1 r1 where t: "take_inputs val c = (c1, r1)" by fastforce
  from t show ?thesis
  proof (cases rule: take_inputs_cases)
    case none
    then show ?thesis using assms ty val t take_inputs_frame [OF t] by (auto simp: add_fees_def sbind_def)
  next
    case (some s)
    then have "arf req (sel_inputs s) (sel_outputs s) = Inl e" "c' = c1"
      using assms ty val t by (auto simp: add_fees_def sbind_def split: if_splits sum.splits)
    then show ?thesis using some(2) take_inputs_frame [OF t] by blast
  qed
qed (use assms in auto)

lemma sign_raises:
  assumes "ledger_sign_req loads arf sign req c = (c', Inl e)"
  shows "req_addrs c' = req_addrs c \<and> (\<exists>lost. purse (addr_txos c) = purse (addr_txos c') + lost
    \<and> (lost \<noteq> {#} \<longrightarrow> (\<exists>r i out. arf r i out = Inl e) \<or> (\<exists>r. sign r = Inl e)))"
proof (cases "add_fees loads arf req c")
  case (Pair c1 r)
  show ?thesis
  proof (cases r)
    case (Inl e1)
    then show ?thesis using assms Pair add_fees_raises [of loads arf req c] by (auto simp: ledger_sign_req_def sbind_def)
  next
    case (Inr p)
    obtain addr fr where p: "p = (addr, fr)" by fastforce
    have a: "add_fees loads arf req c = (c1, Inr (addr, fr))" using Pair Inr p by simp
    have "c' = c1" "\<exists>r. sign r = Inl e"
      using assms a by (auto simp: ledger_sign_req_def sbind_def split: option.splits sum.splits)
    then show ?thesis using add_fees_cases [OF a] by (cases addr) (auto split: prod.splits)
  qed
qed

lemma signed_conserved:
  assumes signed: "ledger_sign_req loads arf sign req c = (c', Inr (Some signed))"
    and fresh: "signed \<notin> fst ` set (req_addrs c)" and sane: "sane c"
  shows "purse (addr_txos c') + pending c' = purse (addr_txos c) + pending c
    \<and> (\<forall>receipts resp. refusal loads resp \<longrightarrow>
         (let c'' = parse_fees_resp loads receipts signed (Some resp) c'
          in purse (addr_txos c'') = purse (addr_txos c) \<and> req_addrs c'' = req_addrs c))"
proof (cases "took c signed c'")
  case False
  with sign_cases [OF signed] have eq: "req_addrs c' = req_addrs c" "purse (addr_txos c') = purse (addr_txos c)" by simp_all
  with fresh have "map_of (req_addrs c') signed = None" by (simp add: map_of_eq_None_iff)
  then show ?thesis using eq fresh
    by (simp add: pending_def Let_def parse_fees_resp_def scatch_def refusal_outcome restore_fees_from_req_def forget_req_def delete_id image_iff)
next
  case True
  then obtain a ts where t: "req_addrs c' = req_addrs c @ [(signed, (a, ts))]" "owns c a"
      "purse (addr_txos c) = purse (addr_txos c') + tagged a ts" using fresh by (auto simp: took_def update_fresh)
  have k: "map fst (addr_txos c') = map fst (addr_txos c)" using sign_cases [OF signed] by simp
  obtain old where old: "map_of (addr_txos c') a = Some old"
    using t(2) k unfolding owns_def by (metis list.set_map map_of_eq_None_iff not_None_eq)
  have m: "map_of (req_addrs c') signed = Some (a, ts)" unfolding t(1) by (rule map_of_fresh [OF fresh])
  have d: "distinct (map fst (addr_txos c'))" using k sane by (simp add: sane_def)
  have "pending c' = pending c + tagged a ts" using t(1) by (simp add: pending_def purse_snd_append)
  moreover have "purse (addr_txos (parse_fees_resp loads receipts signed (Some resp) c')) = purse (addr_txos c)
      \<and> req_addrs (parse_fees_resp loads receipts signed (Some resp) c') = req_addrs c" if "refusal loads resp" for receipts resp
    using that m old purse_update [OF d old] t fresh
    by (simp add: parse_fees_resp_def scatch_def refusal_outcome restore_fees_from_req_def extend_txos_def forget_req_def
        delete_fresh delete_id image_iff)
  ultimately show ?thesis using t(3) by (simp add: Let_def ac_simps)
qed

text \<open>
  C36: What signing does to the unspent outputs of the client, whatever the signing gives. A request that is signed
  has what its fees take from an address kept in mind with it, so that nothing is lost between the client and its
  requests under way; if the pool refuses the request, the client has exactly the outputs it had before, and if the
  ledger raises, what the request took is dropped. If there is no request to sign, the outputs are as before. If
  signing raises, no request keeps anything in mind, and outputs are lost only when the exception came from the
  payment library or from the wallet. No address and no request occurs twice in the tables of the client, and the text of
  the signed request is not that of one under way.
\<close>

theorem fees_conserved:
  assumes "sane c" "ledger_sign_req loads arf sign req c = (c', r)"
    and "\<And>signed. r = Inr (Some signed) \<Longrightarrow> signed \<notin> fst ` set (req_addrs c)"
  shows "case r of
      Inr (Some signed) \<Rightarrow>
        purse (addr_txos c') + pending c' = purse (addr_txos c) + pending c
        \<and> (\<forall>receipts resp. refusal loads resp \<longrightarrow>
             (let c'' = parse_fees_resp loads receipts signed (Some resp) c'
              in purse (addr_txos c'') = purse (addr_txos c) \<and> req_addrs c'' = req_addrs c))
        \<and> (\<forall>receipts. let c'' = parse_fees_resp loads receipts signed None c'
             in addr_txos c'' = addr_txos c' \<and> req_addrs c'' = req_addrs c)
    | Inr None \<Rightarrow> purse (addr_txos c') = purse (addr_txos c) \<and> req_addrs c' = req_addrs c
    | Inl e \<Rightarrow> req_addrs c' = req_addrs c \<and> (\<exists>lost. purse (addr_txos c) = purse (addr_txos c') + lost
        \<and> (lost \<noteq> {#} \<longrightarrow> (\<exists>q i out. arf q i out = Inl e) \<or> (\<exists>q. sign q = Inl e)))"
proof (cases r)
  case (Inl e)
  then show ?thesis using sign_raises assms(2) by simp
next
  case (Inr res)
  show ?thesis
  proof (cases res)
    case None
    then show ?thesis using Inr sign_none assms(2) by auto
  next
    case (Some signed)
    have fresh: "signed \<notin> fst ` set (req_addrs c)" using assms(3) Inr Some by simp
    have run: "ledger_sign_req loads arf sign req c = (c', Inr (Some signed))" using assms(2) Inr Some by simp
    have "AList.delete signed (req_addrs c') = req_addrs c"
      using sign_cases [OF run] fresh by (auto simp: took_def update_fresh delete_fresh delete_id image_iff)
    then have "\<forall>receipts. let c'' = parse_fees_resp loads receipts signed None c'
        in addr_txos c'' = addr_txos c' \<and> req_addrs c'' = req_addrs c"
      by (simp add: parse_fees_resp_def forget_req_def)
    with signed_conserved [OF run fresh assms(1)] Inr Some show ?thesis by simp
  qed
qed

text \<open>Inputs that were taken are lost if the wallet then fails to sign.\<close>

lemma inputs_lost_when_signing_raises:
  "let loads = (\<lambda>t. Inr (PyDict [(''operation'', PyDict [(''type'', PyStr ''1'')])]));
       c = \<lparr>pool_fees = [(''1'', 5)], allow_invalid_txns = False, addr_txos = [(''a'', [(''x'', 5)])], req_addrs = []\<rparr>
   in ledger_sign_req loads (\<lambda>req i out. Inr req) (\<lambda>req. Inl (OtherException ''wallet'')) ''nym'' c =
        (c\<lparr>addr_txos := [(''a'', [])]\<rparr>, Inl (OtherException ''wallet''))"
  by (simp add: ledger_sign_req_def add_fees_def request_get_type_def decoded_dict_def dict_get_default_def
      ignore_fees_txns_def PUB_XFER_TXN_ID_def fees_of_def take_inputs_def sbind_def Let_def)

theorem fees_conserved_witness:
  "let loads = (\<lambda>t. Inr (PyDict (if t = ''nack'' then [(''op'', PyStr ''REQNACK'')]
                              else [(''operation'', PyDict [(''type'', PyStr ''1'')])])));
       c = \<lparr>pool_fees = [(''1'', 5)], allow_invalid_txns = False,
             addr_txos = [(''a'', [(''x'', 4)]), (''b'', [(''y'', 9), (''z'', 2), (''e'', 0)])], req_addrs = []\<rparr>;
       r = ledger_sign_req loads (\<lambda>req i out. Inr (req @ ''+fees'')) (\<lambda>req. Inr (''signed '' @ req)) ''nym'' c
   in snd r = Inr (Some ''signed nym+fees'') \<and> req_addrs (fst r) = [(''signed nym+fees'', (''b'', [(''z'', 2), (''y'', 9)]))]
      \<and> purse (addr_txos (parse_fees_resp loads (\<lambda>_. Inr []) ''signed nym+fees'' (Some ''nack'') (fst r))) = purse (addr_txos c)"
proof -
  let ?loads = "\<lambda>t. Inr (PyDict (if t = ''nack'' then [(''op'', PyStr ''REQNACK'')]
                              else [(''operation'', PyDict [(''type'', PyStr ''1'')])])) :: pyval res"
  let ?c = "\<lparr>pool_fees = [(''1'', 5)], allow_invalid_txns = False,
             addr_txos = [(''a'', [(''x'', 4)]), (''b'', [(''y'', 9), (''z'', 2), (''e'', 0)])], req_addrs = []\<rparr>"
  let ?s = "''signed nym+fees''"
  let ?c' = "?c\<lparr>addr_txos := [(''a'', [(''x'', 4)]), (''b'', [])], req_addrs := [(?s, (''b'', [(''z'', 2), (''y'', 9)]))]\<rparr>"
  have run: "ledger_sign_req ?loads (\<lambda>req i out. Inr (req @ ''+fees'')) (\<lambda>req. Inr (''signed '' @ req)) ''nym'' ?c = (?c', Inr (Some ?s))"
    by (simp add: ledger_sign_req_def add_fees_def request_get_type_def decoded_dict_def dict_get_default_def
        ignore_fees_txns_def PUB_XFER_TXN_ID_def fees_of_def take_inputs_def sbind_def Let_def)
  have "refusal ?loads ''nack''" by (simp add: refusal_def dict_get_def dict_in_def)
  with fees_conserved [OF _ run] have "purse (addr_txos (parse_fees_resp ?loads (\<lambda>_. Inr []) ?s (Some ''nack'') ?c')) = purse (addr_txos ?c)"
    by (simp add: sane_def Let_def)
  then show ?thesis unfolding Let_def run by simp
qed

text \<open>An address pays if there is one that can: inputs are found exactly when the positive outputs of some
  address reach the amount. The inputs come from one address, sum up to the amount and the change that goes back to
  it, none of them is superfluous, and no other output with a value changes its place.\<close>

theorem inputs_found:
  "(snd (gen_input_output addrs val) = None \<longleftrightarrow> (\<forall>ts \<in> snd ` set addrs. balance ts < val))
   \<and> (case gen_input_output addrs val of
        (addrs', None) \<Rightarrow> purse addrs' = purse addrs
      | (addrs', Some s) \<Rightarrow> covers s val \<and> purse addrs = purse addrs' + tagged (sel_address s) (sel_txos s))"
  using gen_iff [of addrs val] gen_none_purse [of addrs val] gen_some [of addrs val] gen_covers [of addrs val]
  by (auto split: prod.splits option.splits)

theorem inputs_found_witness:
  "\<exists>s. snd (gen_input_output [(''a'', [(''x'', 4)]), (''b'', [(''y'', 9), (''z'', 2)])] 5) = Some s \<and> covers s 5"
  using inputs_found [of "[(''a'', [(''x'', 4)]), (''b'', [(''y'', 9), (''z'', 2)])]" 5] by (simp add: Let_def)

section \<open>Minting\<close>

lemma chunks_concat:
  "0 < k \<Longrightarrow> concat (map (\<lambda>i. take k (drop (i * k) xs)) [0..<n]) = take (n * k) xs"
  by (induction n) (simp_all add: take_add [symmetric] add.commute)

lemma chunk_count: "0 < k \<Longrightarrow> m \<le> (m + k - 1) div k * (k :: nat)"
  using dividend_less_times_div [of k "m + k - 1"] by (simp add: mult.commute)

text \<open>The chunks of a sequence are the sequence, and none is longer than asked for.\<close>

lemma divide_concat:
  assumes "divide_sequence_into_chunks seq k = Inr chunks"
  shows "concat chunks = seq" and "\<forall>chunk \<in> set chunks. length chunk \<le> k"
proof -
  have k: "0 < k" and c: "chunks = map (\<lambda>i. take k (drop (i * k) seq)) [0..<(length seq + k - 1) div k]"
    using assms by (auto simp: divide_sequence_into_chunks_def split: if_splits)
  show "concat chunks = seq" using chunks_concat [OF k, of seq] chunk_count [OF k, of "length seq"] by (simp add: c)
  show "\<forall>chunk \<in> set chunks. length chunk \<le> k" by (simp add: c)
qed

lemma mint_amounts_below:
  "n * k \<le> amount \<Longrightarrow> mint_amounts amount k k ([i..<n] @ is) = replicate (n - i) k @ mint_amounts amount k k is"
proof (induction "n - i" arbitrary: i)
  case (Suc d)
  then have "i < n" by simp
  then have "(i + 1) * k \<le> n * k" by (intro mult_le_mono1) simp
  with Suc \<open>i < n\<close> show ?case by (simp add: upt_rec [of i n] Suc_diff_Suc [symmetric])
qed simp

text \<open>The amounts of the minting requests: as often the full value as it fits, then the rest.\<close>

lemma mint_sources_eq:
  assumes "0 < k"
  shows "mint_sources amount k = replicate (amount div k) k @ (if amount mod k > 0 then [amount mod k] else [])"
proof -
  have le: "amount div k * k \<le> amount" by simp
  have "amount < (amount div k + 1) * k" using dividend_less_div_times [OF assms, of amount] by simp
  then show ?thesis
    using mint_amounts_below [OF le, of 0] mint_amounts_below [OF le, of 0 "[]"]
    by (simp add: mint_sources_def Let_def)
qed

lemma mint_sources_sum: "0 < k \<Longrightarrow> sum_list (mint_sources amount k) = amount"
  using div_mult_mod_eq [of amount k] by (auto simp: mint_sources_eq sum_list_replicate)

definition received :: "'a \<Rightarrow> ('a \<times> nat) list list \<Rightarrow> nat" where
  "received a reqs = sum_list (map snd (filter (\<lambda>x. fst x = a) (concat reqs)))"

lemma received_append [simp]: "received a (xs @ ys) = received a xs + received a ys"
  by (simp add: received_def)

lemma received_one: "distinct as \<Longrightarrow> received a [map (\<lambda>x. (x, v)) as] = (if a \<in> set as then v else 0)"
  by (induction as) (auto simp: received_def)

lemma received_requests:
  assumes "distinct as"
  shows "received a (map (\<lambda>v. map (\<lambda>x. (x, v)) as) vs) = (if a \<in> set as then sum_list vs else 0)"
proof (induction vs)
  case (Cons v vs)
  then show ?case using received_one [OF assms, of a v] by (simp add: received_def)
qed (simp add: received_def)

lemma received_chunks:
  assumes "distinct (concat chunks)" "0 < k"
  shows "received a (concat (map (\<lambda>chunk. mint_requests chunk amount k) chunks)) = (if a \<in> set (concat chunks) then amount else 0)"
  using assms
proof (induction chunks)
  case (Cons c cs)
  then show ?case
    using received_requests [of c a "mint_sources amount k"] mint_sources_sum [of k amount]
    by (auto simp: mint_requests_def)
qed (simp add: received_def)

text \<open>Minting gives each of the addresses that are to be minted exactly the limit, however it is split into
  requests by amount and by chunks of addresses, gives the other addresses nothing, and no request has more than
  500 outputs.\<close>

theorem minted_evenly:
  assumes "distinct addrs" and "0 < by_val"
  shows "\<exists>reqs. payment_address_init addrs n limit by_val = Inr reqs
    \<and> (\<forall>a. received a reqs = (if a \<in> set (take n addrs) then limit else 0)) \<and> (\<forall>req \<in> set reqs. length req \<le> 500)"
proof -
  obtain chunks where c: "divide_sequence_into_chunks (take n addrs) 500 = Inr chunks"
    by (simp add: divide_sequence_into_chunks_def)
  note d = divide_concat [OF c]
  have "received a (concat (map (\<lambda>chunk. mint_requests chunk limit by_val) chunks)) = (if a \<in> set (take n addrs) then limit else 0)" for a
    using received_chunks [of chunks by_val] d(1) assms by (metis distinct_take)
  moreover have "\<forall>req \<in> set (concat (map (\<lambda>chunk. mint_requests chunk limit by_val) chunks)). length req \<le> 500"
    using d(2) by (auto simp: mint_requests_def)
  ultimately show ?thesis using c by (simp add: payment_address_init_def)
qed

theorem minted_evenly_witness:
  "\<exists>reqs. payment_address_init [''a'', ''b'', ''c''] 2 10 4 = Inr reqs \<and> received ''a'' reqs = 10 \<and> received ''c'' reqs = 0"
  using minted_evenly [of "[''a'', ''b'', ''c'']" 4 2 10] by auto

end
