(* ===== verification/LoadClientProperties.thy ===== *)
theory LoadClientProperties
  imports LoadClient "HOL-Library.Multiset"
begin

text \<open>
  No request of a load test is lost: at every moment the requests that were prepared are waiting, handed to a
  sender or sent, those that were sent are in flight or were answered, each once, and the client does not build more
  requests ahead than it was told to.
\<close>

fun is_to_send :: "send_task \<Rightarrow> bool" where
  "is_to_send (ToSend d r) = True"
| "is_to_send task = False"

definition unsent :: "load_client \<Rightarrow> nat" where
  "unsent c = length (filter is_to_send (send_q c))"

definition building :: "load_client \<Rightarrow> nat" where
  "building c = length (filter (\<lambda>x. x \<noteq> GenDone) (gen_q c))"

text \<open>The data of the requests in flight, and of those that a history sent, answered, or failed to build.\<close>

fun flying :: "send_task \<Rightarrow> string list" where
  "flying (InFlight d r) = [d]"
| "flying task = []"

definition in_flight :: "load_client \<Rightarrow> string multiset" where
  "in_flight c = mset (concat (map flying (send_q c)))"

definition sent_in :: "client_event list \<Rightarrow> string multiset" where
  "sent_in h = mset (concat (map (\<lambda>ev. case ev of Sent d \<Rightarrow> [d] | _ \<Rightarrow> []) h))"

definition answered_in :: "client_event list \<Rightarrow> string multiset" where
  "answered_in h = mset (concat (map (\<lambda>ev. case ev of Answered d \<Rightarrow> [d] | _ \<Rightarrow> []) h))"

definition build_failures_in :: "client_event list \<Rightarrow> string multiset" where
  "build_failures_in h = mset (concat (map (\<lambda>ev. case ev of BuildFailed d \<Rightarrow> [d] | _ \<Rightarrow> []) h))"

lemmas history_defs = sent_in_def answered_in_def build_failures_in_def

lemma history_simps [simp]:
  "sent_in [] = {#}" "answered_in [] = {#}" "build_failures_in [] = {#}"
  "sent_in (h @ [Sent d]) = add_mset d (sent_in h)" "sent_in (h @ [Answered d]) = sent_in h"
  "answered_in (h @ [Sent d]) = answered_in h" "answered_in (h @ [Answered d]) = add_mset d (answered_in h)"
  "build_failures_in (h @ [Sent d]) = build_failures_in h" "build_failures_in (h @ [Answered d]) = build_failures_in h"
  by (simp_all add: history_defs)

text \<open>\<open>a0\<close> is the number of failures that were counted before the history begins.\<close>

definition accounted :: "nat \<Rightarrow> client_event list \<Rightarrow> load_client \<Rightarrow> bool" where
  "accounted a0 h c \<longleftrightarrow>
     req_prep (client_stat c) = length (load_client_reqs c) + unsent c + req_sent (client_stat c) \<and>
     req_sent (client_stat c) = size (sent_in h) \<and>
     sent_in h = in_flight c + answered_in h \<and>
     answers (client_stat c) = a0 + size (build_failures_in h) + size (answered_in h) \<and>
     (mode c \<noteq> SendResp \<longrightarrow> building c + length (load_client_reqs c) \<le> buff_reqs c + 2)"

section \<open>Counting in lists\<close>

lemma length_filter_update:
  "i < length xs \<Longrightarrow> length (filter P (xs[i := y])) + (if P (xs ! i) then 1 else 0) = length (filter P xs) + (if P y then 1 else 0)"
proof (induction xs arbitrary: i)
  case (Cons x xs)
  then show ?case by (cases i) auto
qed simp

lemma length_filter_remove:
  "i < length xs \<Longrightarrow> length (filter P (take i xs @ drop (Suc i) xs)) + (if P (xs ! i) then 1 else 0) = length (filter P xs)"
proof (induction xs arbitrary: i)
  case (Cons x xs)
  then show ?case by (cases i) auto
qed simp

lemma concat_update:
  "i < length xs \<Longrightarrow> mset (concat (map f (xs[i := y]))) + mset (f (xs ! i)) = mset (concat (map f xs)) + mset (f y)"
proof (induction xs arbitrary: i)
  case (Cons x xs)
  then show ?case by (cases i) (auto simp: union_assoc union_commute union_lcomm)
qed simp

lemma concat_remove:
  "i < length xs \<Longrightarrow> mset (concat (map f (take i xs @ drop (Suc i) xs))) + mset (f (xs ! i)) = mset (concat (map f xs))"
proof (induction xs arbitrary: i)
  case (Cons x xs)
  then show ?case by (cases i) (auto simp: union_assoc union_commute union_lcomm)
qed simp

section \<open>The operations\<close>

text \<open>A step that is internal keeps the account of any history.\<close>

lemma accounted_Internal [simp]: "accounted a0 (h @ [Internal]) c = accounted a0 h c"
  by (simp add: accounted_def history_defs)

lemma accounted_ready [simp]: "accounted a0 h (c\<lparr>ready := q\<rparr>) = accounted a0 h c" "accounted a0 h (c\<lparr>closing := b\<rparr>) = accounted a0 h c"
  "accounted a0 h (c\<lparr>ready := q, closing := b\<rparr>) = accounted a0 h c"
  by (simp_all add: accounted_def unsent_def in_flight_def building_def)

lemma accounted_gen_reqs: "accounted a0 h c \<Longrightarrow> accounted a0 h (gen_reqs c)"
proof -
  assume a: "accounted a0 h c"
  have "building c \<le> length (gen_q c)" "building (c\<lparr>gen_q := gen_q c @ [GenCreated]\<rparr>) = building c + 1"
    by (simp_all add: building_def)
  with a show ?thesis by (auto simp: accounted_def gen_reqs_def unsent_def in_flight_def max_in_bg_def)
qed

lemma accounted_watch [simp]: "accounted a0 h (watch_queues c) = accounted a0 h c"
  by (simp add: watch_queues_def)

lemma accounted_req_send: "accounted a0 h c \<Longrightarrow> accounted a0 h (req_send cnt c)"
proof -
  assume a: "accounted a0 h c"
  have "length (filter is_to_send (map (\<lambda>(d, r). ToSend d r) xs)) = length xs"
    and "concat (map (flying \<circ> (\<lambda>(d, r). ToSend d r)) xs) = []" for xs
    by (induction xs) auto
  with a show ?thesis
    by (auto simp: accounted_def req_send_def unsent_def in_flight_def building_def Let_def)
qed

lemma accounted_send_stat [simp]: "accounted a0 h (send_stat c) = accounted a0 h c"
  by (simp add: send_stat_def dump_stat_def accounted_def unsent_def in_flight_def building_def answers_def Let_def)

lemma accounted_read_cb: "accounted a0 h c \<Longrightarrow> accounted a0 h (read_cb msg c)"
  by (auto simp: read_cb_def Let_def accounted_req_send accounted_gen_reqs split: message.splits)

text \<open>A task that builds a request ends: at most one request more is waiting and one task less is building.\<close>

lemma build_req_frame:
  "mode (build_req loads dumps t out c) = mode c" "buff_reqs (build_req loads dumps t out c) = buff_reqs c"
  "send_q (build_req loads dumps t out c) = send_q c" "gen_q (build_req loads dumps t out c) = gen_q c"
  by (simp_all add: build_req_def update_stat_def Let_def split: gen_outcome.splits option.splits)

lemma build_req_counts:
  "\<exists>n\<le>1. length (load_client_reqs (build_req loads dumps t out c)) = length (load_client_reqs c) + n \<and>
     req_prep (client_stat (build_req loads dumps t out c)) = req_prep (client_stat c) + n"
  "req_sent (client_stat (build_req loads dumps t out c)) = req_sent (client_stat c)"
  "answers (client_stat (build_req loads dumps t out c)) = answers (client_stat c) + size (build_failures_in [build_event out])"
  by (simp_all add: build_req_def update_stat_def Let_def build_failures_in_def split: gen_outcome.splits option.splits)

lemma accounted_begin_gen:
  assumes "accounted a0 h c" "i < length (gen_q c)" "gen_q c ! i = GenCreated"
  shows "accounted a0 h (gen_begin i c)"
proof -
  have "building (gen_begin i c) \<le> building c"
    using assms(3) length_filter_update [OF assms(2), of "\<lambda>x. x \<noteq> GenDone" "if closing c then GenDone else GenRunning"]
    by (simp add: building_def gen_begin_def split: if_splits)
  moreover have "unsent (gen_begin i c) = unsent c" "in_flight (gen_begin i c) = in_flight c"
    by (simp_all add: unsent_def in_flight_def gen_begin_def)
  ultimately show ?thesis using assms(1) by (auto simp: accounted_def gen_begin_def)
qed

lemma accounted_end_gen:
  assumes "accounted a0 h c" "i < length (gen_q c)" "gen_q c ! i = GenRunning"
  shows "accounted a0 (h @ [build_event out]) (gen_end loads dumps t out i c)"
proof -
  obtain n where n: "n \<le> 1" "length (load_client_reqs (build_req loads dumps t out c)) = length (load_client_reqs c) + n"
    "req_prep (client_stat (build_req loads dumps t out c)) = req_prep (client_stat c) + n"
    using build_req_counts(1) by blast
  have hist: "sent_in (h @ [build_event out]) = sent_in h" "answered_in (h @ [build_event out]) = answered_in h"
    "build_failures_in (h @ [build_event out]) = build_failures_in h + build_failures_in [build_event out]"
    by (cases out; simp add: history_defs)+
  have "length (filter (\<lambda>x. x \<noteq> GenDone) ((gen_q c)[i := GenDone])) + 1 = length (filter (\<lambda>x. x \<noteq> GenDone) (gen_q c))"
    using length_filter_update [OF assms(2), of "\<lambda>x. x \<noteq> GenDone" GenDone] assms(3) by simp
  with assms(1) n build_req_counts(2,3) [of loads dumps t out c] show ?thesis
    by (auto simp: accounted_def gen_end_def build_req_frame unsent_def in_flight_def building_def hist)
qed

lemma accounted_check:
  assumes "accounted a0 h c" "i < length (gen_q c)"
  shows "accounted a0 h (check_batch_avail i c)"
proof -
  have "accounted a0 h (c\<lparr>gen_q := take i (gen_q c) @ drop (Suc i) (gen_q c)\<rparr>)"
    using assms(1) length_filter_remove [OF assms(2), of "\<lambda>x. x \<noteq> GenDone"]
    by (auto simp: accounted_def unsent_def in_flight_def building_def split: if_splits)
  then show ?thesis by (simp add: check_batch_avail_def Let_def accounted_req_send)
qed

lemma accounted_submit:
  assumes "accounted a0 h c" "i < length (send_q c)" "send_q c ! i = ToSend d r"
  shows "accounted a0 (h @ [Sent d]) (submit_start t i d r c)"
proof -
  have "mset (concat (map flying ((send_q c)[i := InFlight d r]))) = in_flight c + {#d#}"
    using concat_update [OF assms(2), of flying "InFlight d r"] assms(3) by (simp add: in_flight_def)
  moreover note length_filter_update [OF assms(2), of is_to_send "InFlight d r"]
  ultimately show ?thesis using assms(1,3)
    by (auto simp: accounted_def submit_start_def update_stat_def unsent_def in_flight_def building_def)
qed

lemma accounted_answer:
  assumes "accounted a0 h c" "i < length (send_q c)" "send_q c ! i = InFlight d r"
  shows "accounted a0 (h @ [Answered d]) (submit_end loads dumps t resp hook_ok i d c)"
proof -
  obtain st r' where st: "stat_reply loads dumps t d resp (client_stat c) = (st, r')" by (rule prod.exhaust)
  then have cnt: "req_prep st = req_prep (client_stat c)" "req_sent st = req_sent (client_stat c)" "answers st = answers (client_stat c) + 1"
    using stat_reply_counts [of loads dumps t d resp "client_stat c"] by simp_all
  have "in_flight c = mset (concat (map flying ((send_q c)[i := SendDone]))) + {#d#}"
    using concat_update [OF assms(2), of flying SendDone] assms(3) by (simp add: in_flight_def)
  moreover note length_filter_update [OF assms(2), of is_to_send SendDone]
  ultimately have "accounted a0 (h @ [Answered d]) (c\<lparr>client_stat := st, send_q := (send_q c)[i := SendDone]\<rparr>)"
    using assms(1,3) cnt by (auto simp: accounted_def unsent_def in_flight_def building_def)
  then show ?thesis by (simp add: submit_end_def st Let_def accounted_gen_reqs)
qed

lemma accounted_submitted:
  assumes "accounted a0 h c" "i < length (send_q c)" "send_q c ! i = SendDone"
  shows "accounted a0 h (done_submit i c)"
proof -
  from concat_remove [OF assms(2), of flying] length_filter_remove [OF assms(2), of is_to_send] assms(1,3)
  have "accounted a0 h (c\<lparr>send_q := take i (send_q c) @ drop (Suc i) (send_q c)\<rparr>)"
    by (simp add: accounted_def unsent_def in_flight_def building_def)
  then show ?thesis by (simp add: done_submit_def Let_def)
qed

lemmas accounted_rules = accounted_read_cb accounted_gen_reqs accounted_req_send accounted_begin_gen accounted_end_gen accounted_check
  accounted_submit accounted_answer accounted_submitted

interpretation client: step_invariant "run_step loads dumps" "\<lambda>(h, c). accounted a0 h c" for loads dumps a0
proof (unfold_locales, clarify)
  fix h c h' c' assume a: "accounted a0 h c" and "run_step loads dumps (h, c) (h', c')"
  then obtain ev where ev: "client_step loads dumps c ev c'" "h' = h @ [ev]" by (auto simp: run_step_def)
  from ev(1) a show "accounted a0 h' c'" unfolding ev(2) by cases (simp_all add: accounted_rules)
qed

section \<open>The start\<close>

lemma pregen_accounted:
  "gen_q c = [] \<Longrightarrow> send_q c = [] \<Longrightarrow> req_prep (client_stat c) = length (load_client_reqs c) \<Longrightarrow> req_sent (client_stat c) = 0 \<Longrightarrow>
    length (load_client_reqs c) + length outs \<le> buff_reqs c \<Longrightarrow>
    accounted (answers (client_stat (pregen_reqs loads dumps outs c))) [] (pregen_reqs loads dumps outs c)"
proof (induction loads dumps outs c rule: pregen_reqs.induct)
  case (1 loads dumps c)
  then show ?case by (simp add: accounted_def unsent_def in_flight_def building_def)
next
  case (2 loads dumps t out outs c)
  let ?c = "gen_signed_req loads dumps t out c"
  obtain n where n: "n \<le> 1" "length (load_client_reqs ?c) = length (load_client_reqs c) + n" "req_prep (client_stat ?c) = length (load_client_reqs ?c)"
  proof (cases "closing c")
    case True
    with that [of 0] "2.prems"(3) show ?thesis by (simp add: gen_signed_req_def)
  next
    case False
    obtain n where "n \<le> 1" "length (load_client_reqs ?c) = length (load_client_reqs c) + n" "req_prep (client_stat ?c) = req_prep (client_stat c) + n"
      using build_req_counts(1) [of loads dumps t out c] False by (auto simp: gen_signed_req_def)
    with that [of n] "2.prems"(3) show ?thesis by simp
  qed
  have fr: "gen_q ?c = []" "send_q ?c = []" "req_sent (client_stat ?c) = 0" "buff_reqs ?c = buff_reqs c"
    using "2.prems" by (simp_all add: gen_signed_req_def build_req_frame build_req_counts(2))
  consider (resp) "mode c = SendResp" | (stop) "mode c \<noteq> SendResp" "stopped ?c" | (go) "mode c \<noteq> SendResp" "\<not> stopped ?c" by blast
  then show ?case
  proof cases
    case resp
    with "2.prems" show ?thesis by (simp add: accounted_def unsent_def in_flight_def building_def)
  next
    case stop
    with n fr "2.prems"(5) show ?thesis by (simp add: accounted_def unsent_def in_flight_def building_def)
  next
    case go
    have "accounted (answers (client_stat (pregen_reqs loads dumps outs ?c))) [] (pregen_reqs loads dumps outs ?c)"
      using "2.IH" [OF go(1) refl go(2)] n fr "2.prems"(5) by auto
    with go show ?thesis by simp
  qed
qed

text \<open>
  C35: However messages, callbacks and tasks follow each other after the start of a load client, every request
  that was prepared is waiting, handed to a sender or sent; the requests that were sent are, each once, in flight or
  answered; the counters tell how many were sent, and the sum of the outcomes (succeeded, failed, nacked, rejected) is
  the number of answers and of failures to build a request, nothing being counted twice; and unless the client waits
  for responses, the requests that wait and those that are being built are at most two more than the configured number.
\<close>

theorem load_requests_accounted:
  assumes "new_client m batch buff short = Inr c0" "length outs = buff" "c1 = pregen_reqs loads dumps outs c0"
    and "(run_step loads dumps)\<^sup>*\<^sup>* ([], c1) (h, c)"
  shows "req_prep (client_stat c) = length (load_client_reqs c) + unsent c + req_sent (client_stat c) \<and>
    req_sent (client_stat c) = size (sent_in h) \<and> sent_in h = in_flight c + answered_in h \<and>
    req_succ (client_stat c) + req_fail (client_stat c) + req_nack (client_stat c) + req_rejc (client_stat c) =
      answers (client_stat c1) + size (build_failures_in h) + size (answered_in h) \<and>
    (mode c \<noteq> SendResp \<longrightarrow> building c + length (load_client_reqs c) \<le> buff_reqs c + 2)"
proof -
  have "accounted (answers (client_stat c1)) [] c1"
    unfolding assms(3) using assms(1,2) by (intro pregen_accounted) (auto simp: new_client_def new_stat_def split: if_splits)
  then have "accounted (answers (client_stat c1)) h c" using client.inv_reachable [OF assms(4)] by simp
  then show ?thesis by (simp add: accounted_def answers_def)
qed

theorem load_requests_accounted_witness:
  "\<exists>h c. in_flight c = {#''data''#} \<and> sent_in h = {#''data''#} \<and> req_sent (client_stat c) = size (sent_in h) \<and>
    req_prep (client_stat c) = length (load_client_reqs c) + unsent c + req_sent (client_stat c) \<and>
    req_succ (client_stat c) + req_fail (client_stat c) + req_nack (client_stat c) + req_rejc (client_stat c) =
      size (build_failures_in h) + size (answered_in h)"
proof -
  let ?loads = "\<lambda>_. Inl AssertionError" and ?dumps = "\<lambda>_. []"
  let ?outs = "[(7, Signed ''data'' ''nym'' (Some ''request''))]"
  define c0 where "c0 = \<lparr>mode = SendTime, buff_reqs = 1, batch_size = 1, closing = False, stopped = False, client_stat = new_stat False,
             load_client_reqs = [], gen_q = [], send_q = [], ready = [], sent_stats = []\<rparr>"
  have c0: "new_client SendTime 1 1 False = Inr c0" by (simp add: new_client_def c0_def)
  define c1 where "c1 = pregen_reqs ?loads ?dumps ?outs c0"
  define c2 where "c2 = read_cb MsgRun c1"
  define c3 where "c3 = req_send None (c2\<lparr>ready := []\<rparr>)"
  define c4 where "c4 = submit_start 8 0 ''data'' ''request'' c3"
  note defs = c4_def c3_def c2_def c1_def c0_def read_cb_def gen_reqs_def req_send_def max_in_bg_def gen_signed_req_def build_req_def
    update_stat_def submit_start_def
  have "client_step ?loads ?dumps c1 Internal c2" unfolding c2_def by (rule client_step.receive)
  moreover have "client_step ?loads ?dumps c2 Internal c3"
    using client_step.call_send [of c2 "[]" "[]" ?loads ?dumps] by (simp add: defs)
  moreover have "client_step ?loads ?dumps c3 (Sent ''data'') c4"
    unfolding c4_def by (rule client_step.submit) (simp_all add: defs)
  ultimately have "run_step ?loads ?dumps ([], c1) ([Internal], c2)" "run_step ?loads ?dumps ([Internal], c2) ([Internal, Internal], c3)"
    "run_step ?loads ?dumps ([Internal, Internal], c3) ([Internal, Internal, Sent ''data''], c4)"
    by (auto simp: run_step_def)
  then have "(run_step ?loads ?dumps)\<^sup>*\<^sup>* ([], c1) ([Internal, Internal, Sent ''data''], c4)"
    by (meson converse_rtranclp_into_rtranclp r_into_rtranclp)
  from load_requests_accounted [OF c0 _ c1_def this]
  have "req_sent (client_stat c4) = size (sent_in [Internal, Internal, Sent ''data''])"
    "sent_in [Internal, Internal, Sent ''data''] = in_flight c4 + answered_in [Internal, Internal, Sent ''data'']"
    "req_prep (client_stat c4) = length (load_client_reqs c4) + unsent c4 + req_sent (client_stat c4)"
    "req_succ (client_stat c4) + req_fail (client_stat c4) + req_nack (client_stat c4) + req_rejc (client_stat c4) =
      answers (client_stat c1) + size (build_failures_in [Internal, Internal, Sent ''data'']) + size (answered_in [Internal, Internal, Sent ''data''])"
    by simp_all
  moreover have "answers (client_stat c1) = 0" by (simp add: c1_def c0_def gen_signed_req_def build_req_def update_stat_def) (simp add: answers_def new_stat_def)
  moreover have "sent_in [Internal, Internal, Sent ''data''] = {#''data''#}" "answered_in [Internal, Internal, Sent ''data''] = {#}"
    by (simp_all add: history_defs)
  ultimately show ?thesis by (intro exI [of _ "[Internal, Internal, Sent ''data'']"] exI [of _ c4]) simp
qed

end
