(* ===== verification/NodeBootstrap.thy ===== *)
theory NodeBootstrap
  imports MessageTypes AuthMap
begin

text \<open>
  What the bootstrap of a node registers (indy_node/server/node_bootstrap.py): the request handlers of each manager in
  the order of registration, with the transaction type and the ledger that the constructor of a handler passes to
  its base class. The handlers of reads that plenum provides get their types from a parameter.
\<close>

section \<open>Handlers\<close>

datatype handler =
    NodeHandler
  | NymHandler | AttributeHandler | SchemaHandler | ClaimDefHandler | RevocRegDefHandler | RevocRegEntryHandler
  | JsonLdContextHandler | RichSchemaHandler | RichSchemaEncodingHandler | RichSchemaMappingHandler
  | RichSchemaCredDefHandler | RichSchemaPresDefHandler | IdrCacheNymHandler
  | AuthRuleHandler | AuthRulesHandler | PoolConfigHandler | PoolUpgradeHandler | TxnAuthorAgreementAmlHandler
  | TxnAuthorAgreementHandler | TxnAuthorAgreementDisableHandler | NodeUpgradeHandler | LedgersFreezeHandler
  | FlagRequestHandler | AuthRuleHandler191 | TxnAuthorAgreementHandlerV1
  | GetNymHandler | GetAttributeHandler | GetSchemaHandler | GetClaimDefHandler | GetRevocRegDefHandler
  | GetRevocRegHandler | GetRevocRegDeltaHandler | GetRichSchemaObjectByIdHandler | GetRichSchemaObjectByMetadataHandler
  | GetAuthRuleHandler | GetTxnAuthorAgreementAmlHandler | GetTxnAuthorAgreementHandler | GetFrozenLedgersHandler
  | GetFlagRequestHandler
  | PoolRestartHandler | ValidatorInfoHandler

datatype ledger = PoolLedger | DomainLedger | ConfigLedger

text \<open>The types of the three handlers of reads that plenum provides.\<close>

record plenum_types =
  GET_TXN_AUTHOR_AGREEMENT :: string
  GET_TXN_AUTHOR_AGREEMENT_AML :: string
  GET_FROZEN_LEDGERS :: string

fun txn_type :: "plenum_types \<Rightarrow> handler \<Rightarrow> string" where
  "txn_type P NodeHandler = NODE"
| "txn_type P NymHandler = NYM"
| "txn_type P AttributeHandler = ATTRIB"
| "txn_type P SchemaHandler = SCHEMA"
| "txn_type P ClaimDefHandler = CLAIM_DEF"
| "txn_type P RevocRegDefHandler = REVOC_REG_DEF"
| "txn_type P RevocRegEntryHandler = REVOC_REG_ENTRY"
| "txn_type P JsonLdContextHandler = JSON_LD_CONTEXT"
| "txn_type P RichSchemaHandler = RICH_SCHEMA"
| "txn_type P RichSchemaEncodingHandler = RICH_SCHEMA_ENCODING"
| "txn_type P RichSchemaMappingHandler = RICH_SCHEMA_MAPPING"
| "txn_type P RichSchemaCredDefHandler = RICH_SCHEMA_CRED_DEF"
| "txn_type P RichSchemaPresDefHandler = RICH_SCHEMA_PRES_DEF"
| "txn_type P IdrCacheNymHandler = NYM"
| "txn_type P AuthRuleHandler = AUTH_RULE"
| "txn_type P AuthRulesHandler = AUTH_RULES"
| "txn_type P PoolConfigHandler = POOL_CONFIG"
| "txn_type P PoolUpgradeHandler = POOL_UPGRADE"
| "txn_type P TxnAuthorAgreementAmlHandler = TXN_AUTHOR_AGREEMENT_AML"
| "txn_type P TxnAuthorAgreementHandler = TXN_AUTHOR_AGREEMENT"
| "txn_type P TxnAuthorAgreementDisableHandler = TXN_AUTHOR_AGREEMENT_DISABLE"
| "txn_type P NodeUpgradeHandler = NODE_UPGRADE"
| "txn_type P LedgersFreezeHandler = LEDGERS_FREEZE"
| "txn_type P FlagRequestHandler = FLAG"
| "txn_type P AuthRuleHandler191 = AUTH_RULE"
| "txn_type P TxnAuthorAgreementHandlerV1 = TXN_AUTHOR_AGREEMENT"
| "txn_type P GetNymHandler = ''105''"
| "txn_type P GetAttributeHandler = ''104''"
| "txn_type P GetSchemaHandler = ''107''"
| "txn_type P GetClaimDefHandler = ''108''"
| "txn_type P GetRevocRegDefHandler = ''115''"
| "txn_type P GetRevocRegHandler = ''116''"
| "txn_type P GetRevocRegDeltaHandler = ''117''"
| "txn_type P GetRichSchemaObjectByIdHandler = ''300''"
| "txn_type P GetRichSchemaObjectByMetadataHandler = ''301''"
| "txn_type P GetAuthRuleHandler = ''121''"
| "txn_type P GetTxnAuthorAgreementAmlHandler = GET_TXN_AUTHOR_AGREEMENT_AML P"
| "txn_type P GetTxnAuthorAgreementHandler = GET_TXN_AUTHOR_AGREEMENT P"
| "txn_type P GetFrozenLedgersHandler = GET_FROZEN_LEDGERS P"
| "txn_type P GetFlagRequestHandler = ''131''"
| "txn_type P PoolRestartHandler = POOL_RESTART"
| "txn_type P ValidatorInfoHandler = VALIDATOR_INFO"

text \<open>The ledger of a handler; actions have none.\<close>

fun ledger_of :: "handler \<Rightarrow> ledger option" where
  "ledger_of h =
     (if h \<in> {PoolRestartHandler, ValidatorInfoHandler} then None
      else if h = NodeHandler then Some PoolLedger
      else if h \<in> {AuthRuleHandler, AuthRulesHandler, PoolConfigHandler, PoolUpgradeHandler, TxnAuthorAgreementAmlHandler,
                TxnAuthorAgreementHandler, TxnAuthorAgreementDisableHandler, NodeUpgradeHandler, LedgersFreezeHandler, FlagRequestHandler,
                AuthRuleHandler191, TxnAuthorAgreementHandlerV1, GetAuthRuleHandler, GetTxnAuthorAgreementAmlHandler,
                GetTxnAuthorAgreementHandler, GetFrozenLedgersHandler, GetFlagRequestHandler} then Some ConfigLedger
      else Some DomainLedger)"

section \<open>Registration\<close>

text \<open>The handlers of each manager, with the version for which a handler takes the place of another, in the order of the calls.\<close>

record managers =
  write_manager :: "handler list"
  versioned_handlers :: "(string \<times> handler) list"
  read_manager :: "handler list"
  action_manager :: "handler list"

definition no_handlers :: managers where
  "no_handlers = \<lparr>write_manager = [], versioned_handlers = [], read_manager = [], action_manager = []\<rparr>"

definition register_writes :: "handler list \<Rightarrow> managers \<Rightarrow> managers" where
  "register_writes hs m = m\<lparr>write_manager := write_manager m @ hs\<rparr>"

definition register_reads :: "handler list \<Rightarrow> managers \<Rightarrow> managers" where
  "register_reads hs m = m\<lparr>read_manager := read_manager m @ hs\<rparr>"

definition register_pool_req_handlers :: "managers \<Rightarrow> managers" where
  "register_pool_req_handlers m = register_writes [NodeHandler] m"

definition register_idr_cache_nym_handler :: "managers \<Rightarrow> managers" where
  "register_idr_cache_nym_handler m = register_writes [IdrCacheNymHandler] m"

definition register_domain_req_handlers :: "managers \<Rightarrow> managers" where
  "register_domain_req_handlers m =
     register_reads [GetNymHandler, GetAttributeHandler, GetSchemaHandler, GetClaimDefHandler, GetRevocRegDefHandler,
       GetRevocRegHandler, GetRevocRegDeltaHandler, GetRichSchemaObjectByIdHandler, GetRichSchemaObjectByMetadataHandler]
     (register_idr_cache_nym_handler
     (register_writes [NymHandler, AttributeHandler, SchemaHandler, ClaimDefHandler, RevocRegDefHandler, RevocRegEntryHandler,
       JsonLdContextHandler, RichSchemaHandler, RichSchemaEncodingHandler, RichSchemaMappingHandler, RichSchemaCredDefHandler,
       RichSchemaPresDefHandler] m))"

definition register_config_req_handlers :: "managers \<Rightarrow> managers" where
  "register_config_req_handlers m =
     (let m = register_reads [GetAuthRuleHandler, GetTxnAuthorAgreementAmlHandler, GetTxnAuthorAgreementHandler,
                GetFrozenLedgersHandler, GetFlagRequestHandler]
              (register_writes [AuthRuleHandler, AuthRulesHandler, PoolConfigHandler, PoolUpgradeHandler, TxnAuthorAgreementAmlHandler,
                TxnAuthorAgreementHandler, TxnAuthorAgreementDisableHandler, NodeUpgradeHandler, LedgersFreezeHandler, FlagRequestHandler] m)
      in m\<lparr>versioned_handlers := versioned_handlers m @ [(''1.9.1'', AuthRuleHandler191), (''1'', TxnAuthorAgreementHandlerV1)]\<rparr>)"

definition register_action_req_handlers :: "managers \<Rightarrow> managers" where
  "register_action_req_handlers m = m\<lparr>action_manager := action_manager m @ [PoolRestartHandler, ValidatorInfoHandler]\<rparr>"

text \<open>The calls by plenum's bootstrap, one for each ledger and one for actions.\<close>

definition registered :: managers where
  "registered = register_action_req_handlers (register_config_req_handlers (register_domain_req_handlers (register_pool_req_handlers no_handlers)))"

section \<open>Every operation has its handler\<close>

definition handlers_for :: "plenum_types \<Rightarrow> string \<Rightarrow> handler list \<Rightarrow> handler list" where
  "handlers_for P ty hs = filter (\<lambda>h. txn_type P h = ty) hs"

text \<open>The types of plenum's reads are none of the types of this package.\<close>

definition plenum_apart :: "plenum_types \<Rightarrow> bool" where
  "plenum_apart P \<longleftrightarrow> distinct [GET_TXN_AUTHOR_AGREEMENT P, GET_TXN_AUTHOR_AGREEMENT_AML P, GET_FROZEN_LEDGERS P]
     \<and> {GET_TXN_AUTHOR_AGREEMENT P, GET_TXN_AUTHOR_AGREEMENT_AML P, GET_FROZEN_LEDGERS P}
        \<inter> (set (map fst IndyTransactions) \<union> {TXN_AUTHOR_AGREEMENT, TXN_AUTHOR_AGREEMENT_AML, TXN_AUTHOR_AGREEMENT_DISABLE, LEDGERS_FREEZE}) = {}"

lemma registered_eq:
  "write_manager registered = [NodeHandler, NymHandler, AttributeHandler, SchemaHandler, ClaimDefHandler, RevocRegDefHandler, RevocRegEntryHandler,
     JsonLdContextHandler, RichSchemaHandler, RichSchemaEncodingHandler, RichSchemaMappingHandler, RichSchemaCredDefHandler,
     RichSchemaPresDefHandler, IdrCacheNymHandler, AuthRuleHandler, AuthRulesHandler, PoolConfigHandler, PoolUpgradeHandler,
     TxnAuthorAgreementAmlHandler, TxnAuthorAgreementHandler, TxnAuthorAgreementDisableHandler, NodeUpgradeHandler, LedgersFreezeHandler,
     FlagRequestHandler]"
  "read_manager registered = [GetNymHandler, GetAttributeHandler, GetSchemaHandler, GetClaimDefHandler, GetRevocRegDefHandler,
     GetRevocRegHandler, GetRevocRegDeltaHandler, GetRichSchemaObjectByIdHandler, GetRichSchemaObjectByMetadataHandler, GetAuthRuleHandler,
     GetTxnAuthorAgreementAmlHandler, GetTxnAuthorAgreementHandler, GetFrozenLedgersHandler, GetFlagRequestHandler]"
  "action_manager registered = [PoolRestartHandler, ValidatorInfoHandler]"
  "versioned_handlers registered = [(''1.9.1'', AuthRuleHandler191), (''1'', TxnAuthorAgreementHandlerV1)]"
  by (simp_all add: registered_def no_handlers_def register_pool_req_handlers_def register_domain_req_handlers_def
      register_config_req_handlers_def register_action_req_handlers_def register_idr_cache_nym_handler_def register_writes_def
      register_reads_def Let_def)

lemma write_types_distinct: "distinct (map (txn_type P) (filter (\<lambda>h. h \<noteq> IdrCacheNymHandler) (write_manager registered)))"
  unfolding registered_eq by simp

lemma managers_disjoint:
  assumes "plenum_apart P"
  shows "distinct (map (txn_type P) (read_manager registered))"
    and "txn_type P ` set (write_manager registered) \<inter> txn_type P ` set (read_manager registered) = {}"
    and "txn_type P ` set (action_manager registered) \<inter> (txn_type P ` set (write_manager registered) \<union> txn_type P ` set (read_manager registered)) = {}"
  using assms unfolding registered_eq plenum_apart_def IndyTransactions_def by auto

lemma permitted_types: "map (txn_type P) (write_manager registered @ action_manager registered) =
    [NODE, NYM, ATTRIB, SCHEMA, CLAIM_DEF, REVOC_REG_DEF, REVOC_REG_ENTRY, JSON_LD_CONTEXT, RICH_SCHEMA, RICH_SCHEMA_ENCODING,
     RICH_SCHEMA_MAPPING, RICH_SCHEMA_CRED_DEF, RICH_SCHEMA_PRES_DEF, NYM, AUTH_RULE, AUTH_RULES, POOL_CONFIG, POOL_UPGRADE,
     TXN_AUTHOR_AGREEMENT_AML, TXN_AUTHOR_AGREEMENT, TXN_AUTHOR_AGREEMENT_DISABLE, NODE_UPGRADE, LEDGERS_FREEZE, FLAG, POOL_RESTART,
     VALIDATOR_INFO]"
  unfolding registered_eq by simp

lemma rules_handled:
  "\<forall>a\<in>set (map fst default_rules). act_txn_type a \<in> set (map (txn_type P) (write_manager registered @ action_manager registered))"
  unfolding permitted_types by code_simp

lemma handlers_nym: "plenum_apart P \<Longrightarrow>
    handlers_for P NYM (write_manager registered @ read_manager registered @ action_manager registered) = [NymHandler, IdrCacheNymHandler]"
  unfolding registered_eq handlers_for_def plenum_apart_def IndyTransactions_def by auto

lemma handlers_disclo: "plenum_apart P \<Longrightarrow>
    handlers_for P ''103'' (write_manager registered @ read_manager registered @ action_manager registered) = []"
  unfolding registered_eq handlers_for_def plenum_apart_def IndyTransactions_def by auto

text \<open>A list of handlers with distinct types has exactly one handler of each of its types.\<close>

lemma handlers_for_unique:
  assumes "distinct (map (txn_type P) hs)" "h \<in> set hs"
  shows "handlers_for P (txn_type P h) hs = [h]"
  using assms by (induction hs) (auto simp: handlers_for_def filter_empty_conv image_iff)

text \<open>The handlers other than the one that keeps the identity cache, over all managers, have different types.\<close>

lemma all_types_distinct:
  assumes "plenum_apart P"
  shows "distinct (map (txn_type P) (filter (\<lambda>h. h \<noteq> IdrCacheNymHandler)
     (write_manager registered @ read_manager registered @ action_manager registered)))"
proof -
  have "filter (\<lambda>h. h \<noteq> IdrCacheNymHandler) (read_manager registered) = read_manager registered"
    "filter (\<lambda>h. h \<noteq> IdrCacheNymHandler) (action_manager registered) = action_manager registered"
    "distinct (map (txn_type P) (action_manager registered))"
    unfolding registered_eq by simp_all
  then show ?thesis
    unfolding filter_append map_append distinct_append using write_types_distinct [of P] managers_disjoint [OF assms] by auto
qed

lemma typed_operation_handler:
  assumes "ty \<in> set (map fst specific_operations)" "ty \<noteq> ''103''"
  shows "\<exists>h\<in>set (filter (\<lambda>h. h \<noteq> IdrCacheNymHandler) (write_manager registered @ read_manager registered @ action_manager registered)).
    txn_type P h = ty"
  using assms unfolding registered_eq specific_operations_def by auto

text \<open>
  Every type of operation that the client can send with a schema of this package, except the unused \<open>DISCLO\<close>, has
  exactly one handler over all managers (a NYM goes to its handler and then to the one of the identity cache); every
  transaction type for which there is a default authorization rule has a handler that writes or acts; and a handler
  registered for an older version has the type and the ledger of one that is registered without a version.
\<close>

theorem operations_handled:
  assumes apart: "plenum_apart P"
  defines "everything \<equiv> write_manager registered @ read_manager registered @ action_manager registered"
  shows "(\<forall>ty\<in>set (map fst specific_operations) - {''103''}.
            \<exists>h. handlers_for P ty (filter (\<lambda>h. h \<noteq> IdrCacheNymHandler) everything) = [h])
       \<and> handlers_for P NYM everything = [NymHandler, IdrCacheNymHandler]
       \<and> handlers_for P ''103'' everything = []
       \<and> (\<forall>a\<in>set (map fst default_rules). act_txn_type a \<in> set (map (txn_type P) (write_manager registered @ action_manager registered)))
       \<and> (\<forall>(v, h)\<in>set (versioned_handlers registered). \<exists>g\<in>set (write_manager registered). txn_type P g = txn_type P h \<and> ledger_of g = ledger_of h)"
proof (intro conjI ballI)
  fix ty assume "ty \<in> set (map fst specific_operations) - {''103''}"
  then obtain h where "h \<in> set (filter (\<lambda>h. h \<noteq> IdrCacheNymHandler) everything)" "txn_type P h = ty"
    using typed_operation_handler [of ty P] by (auto simp: everything_def)
  then show "\<exists>h. handlers_for P ty (filter (\<lambda>h. h \<noteq> IdrCacheNymHandler) everything) = [h]"
    using handlers_for_unique [OF all_types_distinct [OF apart]] unfolding everything_def by blast
next
  fix vh assume "vh \<in> set (versioned_handlers registered)"
  then show "case vh of (v, h) \<Rightarrow> \<exists>g\<in>set (write_manager registered). txn_type P g = txn_type P h \<and> ledger_of g = ledger_of h"
    unfolding registered_eq by auto
qed (use rules_handled handlers_nym [OF apart] handlers_disclo [OF apart] in \<open>auto simp: everything_def\<close>)

end
