(* ===== verification/LegacyAuth.thy ===== *)
theory LegacyAuth
  imports AuthProperties NymHandler
begin

text \<open>
  The authoriser that came before the authorization rules (indy_common/auth.py): its map from texts of the form
  type, field, old value and new value to the roles that may act, the lookup with its two fallbacks, and how its
  decisions relate to the default rules that have taken its place.
\<close>

section \<open>The map\<close>

abbreviation OWNER :: string where "OWNER \<equiv> ''<owner>''"

type_synonym role_details = "(pyval \<times> string list) list"

definition generate_auth_map :: "pyval list \<Rightarrow> (string \<times> role_details) list" where
  "generate_auth_map valid_roles =
     [(NYM @ ''_role__'' @ TRUSTEE, [(PyStr TRUSTEE, [])]),
      (NYM @ ''_role__'' @ STEWARD, [(PyStr TRUSTEE, [])]),
      (NYM @ ''_role__'' @ ENDORSER, [(PyStr TRUSTEE, []), (PyStr STEWARD, [])]),
      (NYM @ ''_role__'', [(PyStr TRUSTEE, []), (PyStr STEWARD, []), (PyStr ENDORSER, [])]),
      (NYM @ ''_role_'' @ TRUSTEE @ ''_'', [(PyStr TRUSTEE, [])]),
      (NYM @ ''_role_'' @ STEWARD @ ''_'', [(PyStr TRUSTEE, [])]),
      (NYM @ ''_role_'' @ ENDORSER @ ''_'', [(PyStr TRUSTEE, [])]),
      (SCHEMA @ ''_<any>_<any>_<any>'', [(PyStr TRUSTEE, []), (PyStr STEWARD, []), (PyStr ENDORSER, [])]),
      (CLAIM_DEF @ ''_<any>_<any>_<any>'', [(PyStr TRUSTEE, [OWNER]), (PyStr STEWARD, [OWNER]), (PyStr ENDORSER, [OWNER])]),
      (NYM @ ''_verkey_<any>_<any>'', map (\<lambda>r. (r, [OWNER])) valid_roles),
      (NODE @ ''_services__[VALIDATOR]'', [(PyStr STEWARD, [OWNER])]),
      (NODE @ ''_services_[VALIDATOR]_[]'', [(PyStr TRUSTEE, []), (PyStr STEWARD, [OWNER])]),
      (NODE @ ''_services_[]_[VALIDATOR]'', [(PyStr TRUSTEE, []), (PyStr STEWARD, [OWNER])]),
      (NODE @ ''_node_ip_<any>_<any>'', [(PyStr STEWARD, [OWNER])]),
      (NODE @ ''_node_port_<any>_<any>'', [(PyStr STEWARD, [OWNER])]),
      (NODE @ ''_client_ip_<any>_<any>'', [(PyStr STEWARD, [OWNER])]),
      (NODE @ ''_client_port_<any>_<any>'', [(PyStr STEWARD, [OWNER])]),
      (NODE @ ''_blskey_<any>_<any>'', [(PyStr STEWARD, [OWNER])]),
      (POOL_UPGRADE @ ''_action__start'', [(PyStr TRUSTEE, [])]),
      (POOL_UPGRADE @ ''_action_start_cancel'', [(PyStr TRUSTEE, [])]),
      (POOL_RESTART @ ''_action_<any>_<any>'', [(PyStr TRUSTEE, [])]),
      (POOL_CONFIG @ ''_action_<any>_<any>'', [(PyStr TRUSTEE, [])]),
      (VALIDATOR_INFO @ ''_<any>_<any>_<any>'', [(PyStr TRUSTEE, []), (PyStr STEWARD, [])]),
      (LEDGERS_FREEZE @ ''_<any>_<any>_<any>'', [(PyStr TRUSTEE, [])])]"

section \<open>Names of roles\<close>

text \<open>\<open>Roles[roleName].value\<close>; no name is the role \<open>None\<close>.\<close>

definition getRoleFromName :: "string option \<Rightarrow> string option res" where
  "getRoleFromName roleName =
     (case roleName of
        None \<Rightarrow> Inr None
      | Some n \<Rightarrow>
          (if n = [] then Inr None
           else (case map_of (map prod.swap Roles) n of None \<Rightarrow> Inl (KeyError n) | Some v \<Rightarrow> Inr v)))"

definition isValidRoleName :: "string option \<Rightarrow> bool" where
  "isValidRoleName roleName =
     (if roleName = None \<or> roleName = Some [] then True
      else case getRoleFromName roleName of Inl (KeyError _) \<Rightarrow> False | _ \<Rightarrow> True)"

section \<open>The decision\<close>

text \<open>\<open>str(v).replace('"', '').replace("'", '')\<close>, the empty text for \<open>None\<close>.\<close>

definition value_text :: "pyval \<Rightarrow> string" where
  "value_text v = (if v = PyNone then [] else filter (\<lambda>c. c \<noteq> CHR 0x22 \<and> c \<noteq> CHR 0x27) (py_str v))"

definition role_arg :: "pyval \<Rightarrow> string option" where
  "role_arg v = (case v of PyStr s \<Rightarrow> Some s | _ \<Rightarrow> None)"

text \<open>The names of the allowed roles for the message.\<close>

fun role_names :: "pyval list \<Rightarrow> string list res" where
  "role_names [] = Inr []"
| "role_names (r # rs) = rbind (nameFromValue (role_arg r)) (\<lambda>n. rbind (role_names rs) (\<lambda>ns. Inr (n # ns)))"

definition any_text :: string where
  "any_text = ''<any>''"

definition auth_map_key :: "(string \<times> role_details) list \<Rightarrow> string \<Rightarrow> string \<Rightarrow> string \<Rightarrow> string \<Rightarrow> string option" where
  "auth_map_key m typ field oldVal newVal =
     (let key = py_join ''_'' [typ, field, oldVal, newVal];
          any_value = py_join ''_'' [typ, field, any_text, any_text];
          any_field = py_join ''_'' [typ, any_text, any_text, any_text]
      in if map_of m key \<noteq> None then Some key
         else if map_of m any_value \<noteq> None then Some any_value
         else if map_of m any_field \<noteq> None then Some any_field
         else None)"

text \<open>
  The decision and its message. A decision for an owner is the value of \<open>isActorOwnerOfSubject\<close>, which may be \<open>None\<close>.
\<close>

definition authorised :: "string \<Rightarrow> pyval \<Rightarrow> string option \<Rightarrow> pyval \<Rightarrow> pyval \<Rightarrow> bool option \<Rightarrow> (bool option \<times> string) res" where
  "authorised typ actorRole field oldVal newVal isActorOwnerOfSubject =
     (let m = generate_auth_map ValidRoles;
          field = (case field of None \<Rightarrow> [] | Some f \<Rightarrow> f);
          oldVal = value_text oldVal;
          newVal = value_text newVal
      in case auth_map_key m typ field oldVal newVal of
           None \<Rightarrow> Inr (Some False, ''key '' @ squoted (py_join ''_'' [typ, field, oldVal, newVal]) @ '' not found in authorized map'')
         | Some key \<Rightarrow>
             (let roles = the (map_of m key)
              in case map_of roles actorRole of
                   None \<Rightarrow>
                     rbind (role_names (map fst roles)) (\<lambda>roles_as_str.
                     rbind (nameFromValue (role_arg actorRole)) (\<lambda>n.
                       Inr (Some False, n @ '' not in allowed roles '' @ py_str (PyList (map PyStr roles_as_str)))))
                 | Some roleDetails \<Rightarrow>
                     if roleDetails = [] then Inr (Some True, [])
                     else let r = (if OWNER \<in> set roleDetails then isActorOwnerOfSubject else Some False)
                          in Inr (r, if r = Some True then [] else ''Only owner is allowed'')))"

section \<open>The default rules allow what the authoriser allowed\<close>

text \<open>What a constraint of the default rules demands of a request that its author alone has signed.\<close>

fun grants :: "string option \<Rightarrow> bool \<Rightarrow> constraint \<Rightarrow> bool" where
  "grants r own (AuthConstraint cr n need off m) \<longleftrightarrow> (need \<longrightarrow> own) \<and> n \<le> (if cr = Some ''*'' \<or> cr = r then 1 else 0)"
| "grants r own (AuthConstraintAnd cs) = list_all (grants r own) cs"
| "grants r own (AuthConstraintOr cs) = list_ex (grants r own) cs"
| "grants r own AuthConstraintForbidden = False"

definition signed_alone :: "(string \<Rightarrow> string option) \<Rightarrow> request \<Rightarrow> string \<Rightarrow> bool" where
  "signed_alone ro req r \<longleftrightarrow> has_signature req \<and> sigs req = [] \<and> endorser req = None
     \<and> (\<exists>d. req_identifier req = Some d \<and> ro d = Some r)"

lemma grants_satisfied:
  assumes "signed_alone ro req r"
  shows "grants (role_of_text r) (act_is_owner a) c \<Longrightarrow> satisfied ro req a c"
proof (induction c)
  case (AuthConstraint cr n need off m)
  with assms show ?case
    by (auto simp: signed_alone_def role_satisfied_def endorsed_def sig_counts_def is_role_accepted_def split: if_splits)
qed (use assms in \<open>auto simp: list_all_iff list_ex_iff\<close>)

text \<open>How the authoriser was asked about an action: an added value has no old one.\<close>

definition legacy_allows :: "auth_action \<Rightarrow> pyval \<Rightarrow> bool \<Rightarrow> bool" where
  "legacy_allows a role own \<longleftrightarrow>
     (case authorised (act_txn_type a) role (Some (act_field a))
             (case a of AuthActionAdd _ _ _ _ \<Rightarrow> PyNone | AuthActionEdit _ _ old _ _ \<Rightarrow> PyStr old) (PyStr (action_new a)) (Some own) of
        Inr (Some True, _) \<Rightarrow> True | _ \<Rightarrow> False)"

definition role_value :: "string \<Rightarrow> pyval" where
  "role_value r = (if r = [] then PyNone else PyStr r)"

definition tightened :: "auth_action list" where
  "tightened = [edit_schema, edit_frozen_ledgers, edit_role_action None None]"

definition legacy_entry :: "auth_action \<Rightarrow> role_details" where
  "legacy_entry a =
     (let m = generate_auth_map ValidRoles
      in case auth_map_key m (act_txn_type a) (act_field a)
                (case a of AuthActionAdd _ _ _ _ \<Rightarrow> [] | AuthActionEdit _ _ old _ _ \<Rightarrow> value_text (PyStr old)) (value_text (PyStr (action_new a))) of
           None \<Rightarrow> [] | Some key \<Rightarrow> the (map_of m key))"

lemma legacy_allows_entry:
  "legacy_allows a role own \<longleftrightarrow> (\<exists>d. map_of (legacy_entry a) role = Some d \<and> (d = [] \<or> OWNER \<in> set d \<and> own))"
proof -
  have "value_text PyNone = []" by (simp add: value_text_def)
  then show ?thesis
    by (cases a) (auto simp: legacy_allows_def authorised_def legacy_entry_def Let_def rbind_def
        split: option.splits sum.splits prod.splits if_splits bool.splits)
qed

lemma legacy_grants:
  "\<forall>(a, c)\<in>set default_rules. a \<notin> set tightened \<longrightarrow>
     list_all (\<lambda>(role, d). grants (role_arg role) True c \<and> (d = [] \<longrightarrow> grants (role_arg role) False c)) (legacy_entry a)"
  by code_simp

text \<open>
  Whatever the authoriser allowed an author who signs alone, the default rule for the action allows too, except for the
  three actions whose rules are now stricter: editing a schema, which nobody may, freezing ledgers, which needs three
  trustees, and setting the role of a DID without a role to no role again, which only its owner may.
\<close>

theorem legacy_within_default:
  assumes "(a, c) \<in> set default_rules" "a \<notin> set tightened" "act_is_owner a' = own"
    and "signed_alone ro req r" "legacy_allows a (role_value r) own"
  shows "satisfied ro req a' c"
proof -
  obtain d where d: "(role_value r, d) \<in> set (legacy_entry a)" "d = [] \<or> own"
    using assms(5) by (auto simp: legacy_allows_entry dest: map_of_SomeD)
  have role: "role_arg (role_value r) = role_of_text r"
    by (simp add: role_arg_def role_value_def role_of_text_def)
  have "list_all (\<lambda>(role, d). grants (role_arg role) True c \<and> (d = [] \<longrightarrow> grants (role_arg role) False c)) (legacy_entry a)"
    using bspec [OF legacy_grants assms(1)] assms(2) by simp
  with d(1) role have "grants (role_of_text r) True c" "d = [] \<Longrightarrow> grants (role_of_text r) False c"
    by (auto simp: list_all_iff)
  with d(2) have "grants (role_of_text r) own c" by (cases own) simp_all
  then show ?thesis using grants_satisfied [OF assms(4), of a'] assms(3) by simp
qed

theorem legacy_tightened:
  "legacy_allows edit_schema (PyStr ENDORSER) False" "legacy_allows edit_frozen_ledgers (PyStr TRUSTEE) False"
  "legacy_allows (edit_role_action None None) (PyStr ENDORSER) False"
  by code_simp+

text \<open>A name of a role gives its value back.\<close>

lemma getRoleFromName_name:
  assumes "(v, n) \<in> set Roles"
  shows "getRoleFromName (Some n) = Inr v" "isValidRoleName (Some n)"
  using assms by (auto simp: Roles_def getRoleFromName_def isValidRoleName_def)

end
