(* ===== verification/ClientIdentity.thy ===== *)
theory ClientIdentity
  imports NymHandler
begin

text \<open>
  An identity on the side of a client and the requests it makes for the ledger (indy_common/identity.py). Plenum's
  \<open>DidIdentity\<close>, which splits and completes an identifier and a key, is a parameter.
\<close>

abbreviation NULL :: string where "NULL \<equiv> ''null''"

type_synonym did_identity = "string option \<Rightarrow> string option \<Rightarrow> (string option \<times> string option) res"

record Identity =
  id_identity :: "string option \<times> string option"
  id_endorser :: "string option"
  id_role :: pyval
  id_last_synced :: "int option"
  id_seqNo :: "int option"

definition correctRole :: "pyval \<Rightarrow> pyval" where
  "correctRole role = (if role = PyStr NULL then PyNone else role)"

definition check_role :: "pyval \<Rightarrow> unit res" where
  "check_role role = (if isValidRole (correctRole role) then Inr () else Inl (AttributeError (''Invalid role '' @ py_str role)))"

definition mk_Identity ::
  "did_identity \<Rightarrow> string option \<Rightarrow> string option \<Rightarrow> string option \<Rightarrow> pyval \<Rightarrow> int option \<Rightarrow> int option \<Rightarrow> Identity res" where
  "mk_Identity DidIdentity identifier endrsr verkey role last_synced seq_no =
     rbind (DidIdentity identifier verkey) (\<lambda>idt.
     rbind (check_role role) (\<lambda>_.
       Inr \<lparr>id_identity = idt, id_endorser = endrsr, id_role = role, id_last_synced = last_synced, id_seqNo = seq_no\<rparr>))"

definition id_identifier :: "Identity \<Rightarrow> string option" where
  "id_identifier i = fst (id_identity i)"

definition id_verkey :: "Identity \<Rightarrow> string option" where
  "id_verkey i = snd (id_identity i)"

definition set_verkey :: "did_identity \<Rightarrow> Identity \<Rightarrow> string option \<Rightarrow> Identity res" where
  "set_verkey DidIdentity i new_val = rbind (DidIdentity (id_identifier i) new_val) (\<lambda>idt. Inr (i\<lparr>id_identity := idt\<rparr>))"

definition get_id_role :: "Identity \<Rightarrow> pyval" where
  "get_id_role i = correctRole (id_role i)"

definition set_role :: "Identity \<Rightarrow> pyval \<Rightarrow> Identity res" where
  "set_role i role = rbind (check_role role) (\<lambda>_. Inr (i\<lparr>id_role := role\<rparr>))"

definition text_or_none :: "string option \<Rightarrow> pyval" where
  "text_or_none v = (case v of None \<Rightarrow> PyNone | Some s \<Rightarrow> PyStr s)"

definition id_op :: "Identity \<Rightarrow> dict" where
  "id_op i =
     (let op = [(TXN_TYPE, PyStr NYM), (TARGET_NYM, text_or_none (id_identifier i))];
          op = (case id_verkey i of
                  None \<Rightarrow> op
                | Some k \<Rightarrow> dict_set op VERKEY (if k = [] then PyNone else PyStr k))
      in if truthy (id_role i) then dict_set op ROLE (get_id_role i) else op)"

text \<open>A request with the identifier of its author; \<open>None\<close> is returned for an identity that is already on the ledger.\<close>

definition ledgerRequest :: "Identity \<Rightarrow> (string option \<times> dict) option res" where
  "ledgerRequest i =
     (case id_seqNo i of
        Some n \<Rightarrow> if n \<noteq> 0 then Inr None else rbind (py_assert (id_identifier i \<noteq> None)) (\<lambda>_. Inr (Some (id_endorser i, id_op i)))
      | None \<Rightarrow> rbind (py_assert (id_identifier i \<noteq> None)) (\<lambda>_. Inr (Some (id_endorser i, id_op i))))"

definition id_opForGet :: "Identity \<Rightarrow> dict" where
  "id_opForGet i = [(TARGET_NYM, text_or_none (id_identifier i)), (TXN_TYPE, PyStr ''105'')]"

definition getRequest :: "Identity \<Rightarrow> string option \<Rightarrow> (string option \<times> dict) option" where
  "getRequest i requestAuthor = (if id_seqNo i \<notin> {None, Some 0} then None else Some (requestAuthor, id_opForGet i))"

section \<open>The role of an identity\<close>

text \<open>The role of every identity that the constructor or the setter returns is valid, and stays so under the setters.\<close>

definition identity_ok :: "Identity \<Rightarrow> bool" where
  "identity_ok i \<longleftrightarrow> isValidRole (get_id_role i)"

lemma mk_Identity_ok: "mk_Identity D idr e vk role ls sn = Inr i \<Longrightarrow> identity_ok i"
  by (auto simp: mk_Identity_def rbind_def check_role_def identity_ok_def get_id_role_def split: if_splits sum.splits)

lemma set_role_ok: "set_role i role = Inr i' \<Longrightarrow> identity_ok i'"
  by (auto simp: set_role_def rbind_def check_role_def identity_ok_def get_id_role_def split: if_splits sum.splits)

lemma set_verkey_ok: "identity_ok i \<Longrightarrow> set_verkey D i k = Inr i' \<Longrightarrow> identity_ok i'"
  by (auto simp: set_verkey_def rbind_def identity_ok_def get_id_role_def split: sum.splits)

text \<open>
  The request for the ledger has no role if none was given, an explicit null if the role was given as \<open>null\<close>, and
  otherwise the role; in every case the role passes the check of the NYM handler.
\<close>

theorem ledger_request_role:
  assumes "identity_ok i" "ledgerRequest i = Inr (Some (author, op))"
  shows "author = id_endorser i"
    and "dict_get op TXN_TYPE = PyStr NYM" "dict_get op TARGET_NYM = text_or_none (id_identifier i)"
    and "dict_in ROLE op \<longleftrightarrow> id_role i \<noteq> PyNone"
    and "dict_get op ROLE = get_id_role i" "isValidRole (dict_get op ROLE)"
proof -
  have op: "author = id_endorser i" "op = id_op i"
    using assms(2) by (auto simp: ledgerRequest_def rbind_def py_assert_def split: option.splits if_splits)
  have role: "id_role i \<in> {PyNone, PyStr TRUSTEE, PyStr STEWARD, PyStr ENDORSER, PyStr NETWORK_MONITOR, PyStr NULL}"
    using assms(1) by (auto simp: identity_ok_def get_id_role_def correctRole_def isValidRole_def ValidRoles_def split: if_splits)
  show "author = id_endorser i" by (rule op(1))
  show "dict_get op TXN_TYPE = PyStr NYM" "dict_get op TARGET_NYM = text_or_none (id_identifier i)"
    "dict_in ROLE op \<longleftrightarrow> id_role i \<noteq> PyNone" and get: "dict_get op ROLE = get_id_role i"
    using role unfolding op by (auto simp: id_op_def Let_def dict_get_def dict_set_def dict_in_def get_id_role_def correctRole_def split: option.splits)
  show "isValidRole (dict_get op ROLE)" unfolding get using assms(1) by (simp add: identity_ok_def)
qed

end
