(* ===== verification/ClientUtil.thy ===== *)
theory ClientUtil
  imports DomainHandlers
begin

text \<open>
  Helpers of clients and of the authenticator: the message that is signed (indy_node/server/client_authn.py), and
  from indy_common/util.py the message without its signature, the index of an item, and the polling for the
  reply to a request.
\<close>

section \<open>What is signed\<close>

abbreviation OPERATION :: string where "OPERATION \<equiv> ''operation''"

text \<open>
  \<open>LedgerBasedAuthNr.serializeForSig\<close>: of an attribute the hash is signed. \<open>pick\<close> is the choice of Python's
  \<open>set.pop\<close>, and \<open>super_ser\<close> the method of plenum's base class. Only texts have \<open>encode\<close>.
\<close>

definition hashed_field :: "(string set \<Rightarrow> string) \<Rightarrow> (string \<Rightarrow> string) \<Rightarrow> dict \<Rightarrow> dict res" where
  "hashed_field pick sha opn =
     (let keys = set (filter (\<lambda>k. dict_in k opn) [RAW, ENC, HASH])
      in if keys = {} then Inl (KeyError ''pop from an empty set'')
         else rbind (dict_index opn (pick keys)) (\<lambda>v. rbind (encodable v) (\<lambda>attr.
                Inr (dict_set opn (pick keys) (PyStr (sha attr))))))"

definition serializeForSig :: "(string set \<Rightarrow> string) \<Rightarrow> (string \<Rightarrow> string) \<Rightarrow> (dict \<Rightarrow> 'b res) \<Rightarrow> dict \<Rightarrow> 'b res" where
  "serializeForSig pick sha super_ser msg =
     rbind (dict_index msg OPERATION) (\<lambda>opn. rbind (py_get opn TXN_TYPE) (\<lambda>typ.
       if typ = PyStr ATTRIB
       then rbind (as_dict_value opn) (\<lambda>op. rbind (hashed_field pick sha op) (\<lambda>op'.
              super_ser (dict_set msg OPERATION (PyDict op'))))
       else super_ser msg))"

text \<open>The choice does not matter for an operation with one of the three fields, which is all that is accepted.\<close>

definition single_attr_field :: "dict \<Rightarrow> string \<Rightarrow> bool" where
  "single_attr_field opn k \<longleftrightarrow> filter (\<lambda>k. dict_in k opn) ALL_ATR_KEYS = [k]"

lemma single_attr_kind: "single_attr_field opn k \<Longrightarrow> k \<in> {RAW, ENC, HASH}"
  by (auto simp: single_attr_field_def ALL_ATR_KEYS_def split: if_splits)

lemma hashed_field_single:
  assumes "\<And>S. S \<noteq> {} \<Longrightarrow> pick S \<in> S" "single_attr_field opn k" "map_of opn k = Some (PyStr attr)"
  shows "hashed_field pick sha opn = Inr (dict_set opn k (PyStr (sha attr)))"
proof -
  have "pick {k} = k" using assms(1) [of "{k}"] by simp
  moreover have "set (filter (\<lambda>k. dict_in k opn) [RAW, ENC, HASH]) = {k}"
    using assms(2) unfolding single_attr_field_def ALL_ATR_KEYS_def by (metis empty_set list.simps(15))
  ultimately show ?thesis
    using assms(3) unfolding hashed_field_def Let_def by (simp only:) (simp add: dict_index_def)
qed

text \<open>
  What is signed for raw and encrypted data is the operation that is kept on the ledger: the signature of a transaction
  of the ledger can be checked without the data. The raw data has to be in the form that the serializer
  writes. (The ledger keeps the hash of the value as the operation has it for a \<open>hash\<close> attribute, where the
  signed message has a hash of the hash.)
\<close>

theorem signed_operation_on_ledger:
  assumes "\<And>S. S \<noteq> {} \<Longrightarrow> pick S \<in> S"
    and "single_attr_field (get_payload_data t) k" "k \<noteq> HASH"
    and "map_of (get_payload_data t) k = Some (PyStr attr)" "attr \<noteq> []"
    and "k = RAW \<Longrightarrow> \<exists>data key v. loads (PyStr attr) = Inr data \<and> popitem data = Inr (key, v) \<and> dumps data = attr"
  shows "\<exists>t'. transform_txn_for_ledger sha ser_text loads dumps t = Inr t'
    \<and> hashed_field pick sha (get_payload_data t) = Inr (get_payload_data t')"
proof -
  have "extract_attr_typed_value (get_payload_data t) = Inr (k, PyStr attr)"
    using assms(2,4) by (simp add: extract_attr_typed_value_def single_attr_field_def dict_index_def)
  moreover have "k = RAW \<or> k = ENC" using single_attr_kind [OF assms(2)] assms(3) by blast
  ultimately have "\<exists>key. parse_attr_txn loads dumps (get_payload_data t) = Inr (k, key, PyStr attr)"
    using assms(6) by (auto simp: parse_attr_txn_def)
  then have "transform_txn_for_ledger sha ser_text loads dumps t =
      Inr (t\<lparr>get_payload_data := dict_set (get_payload_data t) k (PyStr (sha attr))\<rparr>)"
    using assms(5) \<open>k = RAW \<or> k = ENC\<close> by (auto simp: transform_txn_for_ledger_def)
  then show ?thesis using hashed_field_single [of pick, OF assms(1) assms(2,4)] by simp
qed

text \<open>For a message that is no attribute nothing is hashed.\<close>

lemma serialize_other:
  "map_of msg OPERATION = Some (PyDict opn) \<Longrightarrow> dict_get opn TXN_TYPE \<noteq> PyStr ATTRIB
     \<Longrightarrow> serializeForSig pick sha super_ser msg = super_ser msg"
  by (simp add: serializeForSig_def dict_index_def)

lemma serialize_attribute:
  assumes "\<And>S. S \<noteq> {} \<Longrightarrow> pick S \<in> S" "map_of msg OPERATION = Some (PyDict opn)" "dict_get opn TXN_TYPE = PyStr ATTRIB"
    and "single_attr_field opn k" "map_of opn k = Some (PyStr attr)"
  shows "serializeForSig pick sha super_ser msg =
    super_ser (dict_set msg OPERATION (PyDict (dict_set opn k (PyStr (sha attr)))))"
  using assms(2,3) hashed_field_single [of pick, OF assms(1,4,5)] by (simp add: serializeForSig_def dict_index_def)

section \<open>Messages and lists\<close>

text \<open>\<open>getMsgWithoutSig\<close>, with its loop over the items.\<close>

fun copy_items :: "string \<Rightarrow> dict \<Rightarrow> dict \<Rightarrow> dict" where
  "copy_items sigFieldName msgWithoutSig [] = msgWithoutSig"
| "copy_items sigFieldName msgWithoutSig ((k, v) # items) =
     copy_items sigFieldName (if k \<noteq> sigFieldName then dict_set msgWithoutSig k v else msgWithoutSig) items"

definition getMsgWithoutSig :: "dict \<Rightarrow> string \<Rightarrow> dict" where
  "getMsgWithoutSig msg sigFieldName = copy_items sigFieldName [] msg"

lemma dict_set_fresh: "k \<notin> fst ` set d \<Longrightarrow> dict_set d k v = d @ [(k, v)]"
  unfolding dict_set_def by (induction d) auto

lemma copy_items_filter:
  "distinct (map fst (acc @ items)) \<Longrightarrow> copy_items f acc items = acc @ filter (\<lambda>(k, v). k \<noteq> f) items"
proof (induction f acc items rule: copy_items.induct)
  case (2 f acc k v items)
  from 2(2) have "distinct (map fst ((acc @ [(k, v)]) @ items))" "distinct (map fst (acc @ items))" "k \<notin> fst ` set acc"
    by auto
  then show ?case using 2(1) by (cases "k = f") (auto simp: dict_set_fresh)
qed simp

theorem message_without_signature:
  assumes "distinct (map fst msg)"
  shows "getMsgWithoutSig msg f = filter (\<lambda>(k, v). k \<noteq> f) msg"
  using copy_items_filter [of "[]" msg f] assms by (simp add: getMsgWithoutSig_def)

fun index_from :: "int \<Rightarrow> ('a \<Rightarrow> bool) \<Rightarrow> 'a list \<Rightarrow> int" where
  "index_from i p [] = -1"
| "index_from i p (v # items) = (if p v then i else index_from (i + 1) p items)"

definition getIndex :: "('a \<Rightarrow> bool) \<Rightarrow> 'a list \<Rightarrow> int" where
  "getIndex predicateFn items = index_from 0 predicateFn items"

lemma index_from_while:
  "index_from i p xs = (if \<exists>x\<in>set xs. p x then i + int (length (takeWhile (\<lambda>x. \<not> p x) xs)) else -1)"
  by (induction xs arbitrary: i) auto

theorem index_is_first:
  shows "getIndex p xs = -1 \<longleftrightarrow> \<not> (\<exists>x\<in>set xs. p x)"
    and "getIndex p xs = int i \<Longrightarrow> i < length xs \<and> p (xs ! i) \<and> (\<forall>j<i. \<not> p (xs ! j))"
proof -
  show "getIndex p xs = -1 \<longleftrightarrow> \<not> (\<exists>x\<in>set xs. p x)" by (auto simp: getIndex_def index_from_while)
  assume i: "getIndex p xs = int i"
  then have ex: "\<exists>x\<in>set xs. p x" and len: "i = length (takeWhile (\<lambda>x. \<not> p x) xs)"
    by (auto simp: getIndex_def index_from_while split: if_splits)
  have "takeWhile (\<lambda>x. \<not> p x) xs \<noteq> xs" using ex by (metis takeWhile_eq_all_conv)
  then have "i < length xs"
    using len length_takeWhile_le [of "\<lambda>x. \<not> p x" xs] takeWhile_eq_take [of "\<lambda>x. \<not> p x" xs] by (cases "i = length xs") auto
  moreover from this have "p (xs ! i)" using nth_length_takeWhile [of "\<lambda>x. \<not> p x" xs] len by simp
  moreover have "\<not> p (xs ! j)" if "j < i" for j
    using that len nth_mem [of j "takeWhile (\<lambda>x. \<not> p x) xs"] set_takeWhileD by (fastforce simp: takeWhile_nth)
  ultimately show "i < length xs \<and> p (xs ! i) \<and> (\<forall>j<i. \<not> p (xs ! j))" by blast
qed

section \<open>Waiting for a reply\<close>

text \<open>
  What the client knows of a request: the reply with its status, and the errors by sender (in the order of a
  dictionary, so that \<open>popitem\<close> takes the last one).
\<close>

record client_view =
  v_reply :: pyval
  v_status :: string
  v_errors :: dict

definition get_reply_if_confirmed :: "client_view \<Rightarrow> pyval \<times> pyval" where
  "get_reply_if_confirmed client =
     (if v_status client = ''CONFIRMED'' then (v_reply client, PyNone)
      else if v_errors client = [] then (PyNone, PyNone)
      else (v_reply client, snd (last (v_errors client))))"

record callback_call =
  cb_reply :: pyval
  cb_err :: pyval
  cb_pargs :: "pyval list"
  cb_kwargs :: dict

definition callback_with :: "pyval list option \<Rightarrow> dict option \<Rightarrow> pyval \<Rightarrow> pyval \<Rightarrow> callback_call" where
  "callback_with pargs kwargs reply err =
     (case (pargs, kwargs) of
        (Some p, Some k) \<Rightarrow> \<lparr>cb_reply = reply, cb_err = err, cb_pargs = p, cb_kwargs = k\<rparr>
      | (Some p, None) \<Rightarrow> \<lparr>cb_reply = reply, cb_err = err, cb_pargs = p, cb_kwargs = []\<rparr>
      | (None, Some k) \<Rightarrow> \<lparr>cb_reply = reply, cb_err = err, cb_pargs = [], cb_kwargs = k\<rparr>
      | (None, None) \<Rightarrow> \<lparr>cb_reply = reply, cb_err = err, cb_pargs = [], cb_kwargs = []\<rparr>)"

text \<open>
  \<open>ensureReqCompleted\<close> is called again after 0.2 seconds until it is through. \<open>client n\<close> and \<open>cond n\<close> are what its
  call number \<open>n\<close> finds; the result is the number of the last call, with the call of the callback if one was
  given, and \<open>None\<close> if the function is called again forever.
\<close>

definition unanswered :: "(nat \<Rightarrow> client_view) \<Rightarrow> (nat \<Rightarrow> bool) option \<Rightarrow> nat \<Rightarrow> bool" where
  "unanswered client cond n \<longleftrightarrow>
     get_reply_if_confirmed (client n) = (PyNone, PyNone) \<and> (case cond of None \<Rightarrow> True | Some c \<Rightarrow> \<not> c n)"

partial_function (option) ensureReqCompleted ::
  "(nat \<Rightarrow> client_view) \<Rightarrow> (nat \<Rightarrow> bool) option \<Rightarrow> bool \<Rightarrow> pyval list option \<Rightarrow> dict option \<Rightarrow> nat
     \<Rightarrow> (nat \<times> callback_call option) option" where
  "ensureReqCompleted client cond clbk pargs kwargs n =
     (if unanswered client cond n then ensureReqCompleted client cond clbk pargs kwargs (Suc n)
      else Some (n, if clbk then Some (case get_reply_if_confirmed (client n) of (reply, err) \<Rightarrow> callback_with pargs kwargs reply err)
                    else None))"

text \<open>
  The callback is called at the first call that finds a confirmed reply, an error or the condition; if none does, the
  function is scheduled forever, since there is no timeout.
\<close>

theorem callback_at_first_answer:
  assumes "\<not> unanswered client cond m" "\<And>k. n \<le> k \<Longrightarrow> k < m \<Longrightarrow> unanswered client cond k" "n \<le> m"
  shows "ensureReqCompleted client cond True pargs kwargs n =
    Some (m, Some (case get_reply_if_confirmed (client m) of (reply, err) \<Rightarrow> callback_with pargs kwargs reply err))"
  using assms(3,2)
proof (induction rule: inc_induct)
  case base
  show ?case using assms(1) by (subst ensureReqCompleted.simps) simp
next
  case (step k)
  then have "unanswered client cond k" by simp
  moreover have "ensureReqCompleted client cond True pargs kwargs (Suc k) =
      Some (m, Some (case get_reply_if_confirmed (client m) of (reply, err) \<Rightarrow> callback_with pargs kwargs reply err))"
    by (rule step.IH) (use step.prems in simp)
  ultimately show ?case by (subst ensureReqCompleted.simps) simp
qed

theorem unanswered_polls_forever:
  assumes "\<And>k. n \<le> k \<Longrightarrow> unanswered client cond k"
  shows "ensureReqCompleted client cond clbk pargs kwargs n = None"
proof (rule ccontr)
  assume "ensureReqCompleted client cond clbk pargs kwargs n \<noteq> None"
  then obtain m r where run: "ensureReqCompleted client cond clbk pargs kwargs n = Some (m, r)" by auto
  have "\<not> (\<forall>k\<ge>i. unanswered client' cond' k)" if "ensureReqCompleted client' cond' clbk' pa kw i = Some y"
    for client' cond' clbk' pa kw i y
    by (rule ensureReqCompleted.raw_induct [of "\<lambda>client' cond' clbk' pa kw i y. \<not> (\<forall>k\<ge>i. unanswered client' cond' k)", OF _ that])
      (fastforce split: if_splits dest: Suc_leD)
  from this [OF run] assms show False by blast
qed

text \<open>A reply that arrived but is not confirmed does not end the waiting.\<close>

lemma unconfirmed_reply_waits:
  "v_status (client n) \<noteq> ''CONFIRMED'' \<Longrightarrow> v_errors (client n) = [] \<Longrightarrow> unanswered client None n"
  by (simp add: unanswered_def get_reply_if_confirmed_def)

end
