(* ===== verification/TxnIds.thy ===== *)
theory TxnIds
  imports DomainHandlers RichSchema
begin

text \<open>
  The ids of the domain transactions: \<open>gen_txn_id\<close> of each handler, which is the path of the record that
  the transaction writes into the state. The handlers compute it on a path of their own, without the value;
  the lemmas show that the two computations cannot drift apart.
  The check of the transaction type is plenum's and is left out, as in the \<open>update_state\<close> definitions.
\<close>

section \<open>Operations\<close>

text \<open>\<open>prepare_attr_for_state(txn, path_only=True)\<close>: nothing is hashed and nothing is numbered.\<close>

definition attr_path_only ::
  "(string \<Rightarrow> string) \<Rightarrow> (pyval \<Rightarrow> pyval res) \<Rightarrow> (pyval \<Rightarrow> string) \<Rightarrow> txn \<Rightarrow> string res" where
  "attr_path_only sha loads dumps t =
     rbind (py_assert (get_type t = ATTRIB)) (\<lambda>_.
     rbind (dict_index (get_payload_data t) TARGET_NYM) (\<lambda>nym.
     rbind (parse_attr_txn loads dumps (get_payload_data t)) (\<lambda>(attr_type, attr_key, _).
     rbind (if attr_type = HASH then Inr (py_str attr_key) else encodable attr_key) (\<lambda>key.
       Inr (make_state_path_for_attr sha nym key (attr_type = HASH))))))"

definition attr_gen_txn_id ::
  "(string \<Rightarrow> string) \<Rightarrow> (pyval \<Rightarrow> pyval res) \<Rightarrow> (pyval \<Rightarrow> string) \<Rightarrow> txn \<Rightarrow> string res" where
  "attr_gen_txn_id sha loads dumps t = attr_path_only sha loads dumps t"

definition schema_gen_txn_id :: "txn \<Rightarrow> string res" where
  "schema_gen_txn_id t = schema_path t"

definition claim_def_gen_txn_id :: "txn \<Rightarrow> string res" where
  "claim_def_gen_txn_id t = claim_def_path t"

definition revoc_def_gen_txn_id :: "txn \<Rightarrow> string res" where
  "revoc_def_gen_txn_id t = revoc_def_path t"

definition revoc_entry_gen_txn_id :: "txn \<Rightarrow> string res" where
  "revoc_entry_gen_txn_id t = revoc_reg_entry_path t"

text \<open>The id of a rich schema object is its \<open>id\<close> field, whatever its type.\<close>

definition rs_gen_txn_id :: "rs_txn \<Rightarrow> pyval res" where
  "rs_gen_txn_id t = dict_index (get_payload_data t) RS_ID"

section \<open>The id is the path of the record\<close>

lemma attr_id_is_path:
  "map_sum id as_path (prepare_attr_for_state sha ser_text ser loads dumps t) = attr_gen_txn_id sha loads dumps t"
  by (auto simp: attr_gen_txn_id_def attr_path_only_def prepare_attr_for_state_def rbind_def Let_def
      split: sum.splits prod.splits)

text \<open>
  Every handler that writes a record gives the transaction the path of that record as its id, on the
  errors too: an attribute that has no record has no id, with the same exception.
\<close>

lemma attr_txn_id:
  "attr_update_state sha ser_text ser loads dumps t = Inr ((path, bytes), stored)
     \<Longrightarrow> attr_gen_txn_id sha loads dumps t = Inr path"
  by (auto simp: attr_update_state_def rbind_Inr_iff attr_id_is_path [of sha ser_text ser, symmetric])

lemma attr_txn_id_error:
  "attr_gen_txn_id sha loads dumps t = Inl e \<Longrightarrow> attr_update_state sha ser_text ser loads dumps t = Inl e"
  by (cases "prepare_attr_for_state sha ser_text ser loads dumps t")
    (auto simp: attr_update_state_def attr_id_is_path [of sha ser_text ser, symmetric])

lemma schema_txn_id:
  "schema_update_state ser t = Inr (path, bytes) \<Longrightarrow> schema_gen_txn_id t = Inr path"
  by (auto simp: schema_update_state_def prepare_schema_for_state_def schema_gen_txn_id_def rbind_Inr_iff)

lemma claim_def_txn_id:
  "claim_def_update_state ser t = Inr (path, bytes) \<Longrightarrow> claim_def_gen_txn_id t = Inr path"
  by (auto simp: claim_def_update_state_def prepare_claim_def_for_state_def claim_def_gen_txn_id_def rbind_Inr_iff)

lemma revoc_def_txn_id:
  "revoc_def_update_state ser t = Inr (path, bytes) \<Longrightarrow> revoc_def_gen_txn_id t = Inr path"
  by (auto simp: revoc_def_update_state_def prepare_revoc_def_for_state_def revoc_def_gen_txn_id_def rbind_Inr_iff Let_def)

text \<open>
  The id of a rich schema object is the first of the two keys that are written, and the value at the second
  key: a reader who looks an object up by type, name and version is led to its id.
\<close>

lemma rich_schema_txn_id:
  assumes "rs_update_state ser key_bytes t = Inr writes"
  shows "\<exists>i record secondary. rs_gen_txn_id t = Inr (PyStr i) \<and> writes = [(i, record), (secondary, key_bytes i)]"
proof -
  obtain v i where v: "rs_gen_txn_id t = Inr v" "encodable v = Inr i"
    and w: "\<exists>record secondary. writes = [(i, record), (secondary, key_bytes i)]"
    using assms by (auto simp: rs_update_state_def rs_gen_txn_id_def rbind_Inr_iff Let_def)
  from v(2) have "v = PyStr i" by (cases v) auto
  with v(1) w show ?thesis by simp
qed

section \<open>Registry entries\<close>

text \<open>
  A registry entry is written twice, with the whole entry and with the accumulator alone; the id is the path
  of the first. The strategies replace the lists of the entry but not the registry it belongs to.
\<close>

lemma path_of_with_indices [simp]:
  "revoc_reg_entry_path (with_indices t v emptied kept is) = revoc_reg_entry_path t"
  by (simp add: revoc_reg_entry_path_def with_indices_def)

lemma set_to_state_id:
  "set_to_state ser t = Inr writes \<Longrightarrow> \<exists>path bytes accum. revoc_reg_entry_path t = Inr path \<and> writes = [(path, bytes), accum]"
  by (auto simp: set_to_state_def prepare_revoc_reg_entry_for_state_def rbind_Inr_iff Let_def)

lemma lift_res_ret_iff: "lift_res r = ret x \<longleftrightarrow> r = Inr x"
  by (simp add: lift_res_def ret_def)

lemma strategy_write_id:
  assumes "strategy_write strat ser legacy cur t = ret writes"
  shows "\<exists>path bytes accum. revoc_reg_entry_path t = Inr path \<and> writes = [(path, bytes), accum]"
proof -
  have "\<exists>t'. set_to_state ser t' = Inr writes \<and> revoc_reg_entry_path t' = revoc_reg_entry_path t"
    using assms
    by (cases strat; cases "cur = PyNone")
      (auto simp: revoked_write_def issued_write_def cbind_ret_iff lift_res_ret_iff Let_def intro: path_of_with_indices)
  then show ?thesis by (metis set_to_state_id)
qed

theorem revoc_entry_txn_id:
  assumes "revoc_entry_update_state ser gfs legacy flag t = ret writes"
  shows "\<exists>path bytes accum. revoc_entry_gen_txn_id t = Inr path \<and> writes = [(path, bytes), accum]"
  using assms strategy_write_id
  by (auto simp: revoc_entry_update_state_def revoc_entry_gen_txn_id_def cbind_ret_iff)

end
