(* ===== verification/ControlLoop.thy ===== *)
theory ControlLoop
  imports ControlToolProperties
begin

text \<open>
  The socket loop of the node control tool (\<open>NodeControlTool.start\<close>): it waits for its server socket and for
  the open connections, accepts, reads and hands what it reads to \<open>_process_data\<close>. The results of
  \<open>select\<close>, \<open>accept\<close> and \<open>recv\<close> are the input of the model: a list of rounds, each the list of the sockets that
  were ready in it, with what the call on the socket gave.
\<close>

section \<open>Operations\<close>

datatype socket = Server | Connection nat

text \<open>
  What is ready: the server socket, with the new connection, or a connection, with the bytes that were read (none
  when the other side closed it). Either may raise: \<open>accept\<close> and \<open>setblocking\<close>, or \<open>recv\<close> and \<open>getpeername\<close> for the log.
\<close>

datatype ready = Acceptable "nat res" | Readable nat "string res"

definition serve_ready :: "'v tool_env \<Rightarrow> tool \<Rightarrow> (string \<Rightarrow> pyval res) \<Rightarrow> socket list \<Rightarrow> ready \<Rightarrow> socket list ctl" where
  "serve_ready T c loads readers r =
     (case r of
        Acceptable accepted \<Rightarrow> sbind (slift accepted) (\<lambda>connection. sret (readers @ [Connection connection]))
      | Readable s received \<Rightarrow>
          sbind (slift received) (\<lambda>data.
            if data \<noteq> [] then sbind (process_data T c loads data) (\<lambda>_. sret readers)
            else if Connection s \<in> set readers then sret (remove1 (Connection s) readers)
            else slift (Inl (ValueError ''list.remove(x): x not in list''))))"

fun serve_round :: "'v tool_env \<Rightarrow> tool \<Rightarrow> (string \<Rightarrow> pyval res) \<Rightarrow> socket list \<Rightarrow> ready list \<Rightarrow> socket list ctl" where
  "serve_round T c loads readers [] = sret readers"
| "serve_round T c loads readers (r # readable) =
     sbind (serve_ready T c loads readers r) (\<lambda>readers'. serve_round T c loads readers' readable)"

text \<open>
  The loop \<open>while readers\<close> on the rounds so far: \<open>Inl\<close> the sockets of a loop that waits for the next round,
  \<open>Inr\<close> when the loop was left.
\<close>

fun control_loop ::
  "'v tool_env \<Rightarrow> tool \<Rightarrow> (string \<Rightarrow> pyval res) \<Rightarrow> socket list \<Rightarrow> ready list list \<Rightarrow> (socket list + unit) ctl" where
  "control_loop T c loads readers rounds =
     (if readers = [] then sret (Inr ())
      else case rounds of
        [] \<Rightarrow> sret (Inl readers)
      | readable # rounds' \<Rightarrow>
          sbind (serve_round T c loads readers readable) (\<lambda>readers'. control_loop T c loads readers' rounds'))"

declare control_loop.simps [simp del]

definition tool_start ::
  "'v tool_env \<Rightarrow> tool \<Rightarrow> (string \<Rightarrow> pyval res) \<Rightarrow> ready list list \<Rightarrow> (socket list + unit) ctl" where
  "tool_start T c loads rounds =
     sbind (hold_packages (t_sys T) (t_apt_mark T) (PACKAGES_TO_HOLD c @ hold_ext c)) (\<lambda>_.
       control_loop T c loads [Server] rounds)"

section \<open>What the loop does\<close>

text \<open>
  The specification: the connections that are open and the messages, in the order in which they arrived. A call
  that raises is not part of it.
\<close>

fun quiet :: "ready \<Rightarrow> bool" where
  "quiet (Acceptable a) = (\<not> isl a)"
| "quiet (Readable s d) = (\<not> isl d)"

fun opened :: "socket list \<Rightarrow> ready \<Rightarrow> socket list" where
  "opened readers (Acceptable (Inr n)) = readers @ [Connection n]"
| "opened readers (Readable s (Inr [])) = remove1 (Connection s) readers"
| "opened readers r = readers"

fun message_of :: "ready \<Rightarrow> string list" where
  "message_of (Readable s (Inr (ch # chs))) = [ch # chs]"
| "message_of r = []"

fun socket_of :: "ready \<Rightarrow> socket" where
  "socket_of (Acceptable a) = Server"
| "socket_of (Readable s d) = Connection s"

text \<open>What \<open>select\<close> gives in each round: some of the sockets that it was called with, each once. No call on them raises.\<close>

definition round_ok :: "socket list \<Rightarrow> ready list \<Rightarrow> bool" where
  "round_ok readers readable \<longleftrightarrow> list_all quiet readable \<and> distinct (map socket_of readable) \<and> set (map socket_of readable) \<subseteq> set readers"

fun rounds_ok :: "socket list \<Rightarrow> ready list list \<Rightarrow> bool" where
  "rounds_ok readers [] = True"
| "rounds_ok readers (readable # rounds) = (round_ok readers readable \<and> rounds_ok (foldl opened readers readable) rounds)"

text \<open>Messages one after the other; none of them raises.\<close>

definition process_all :: "'v tool_env \<Rightarrow> tool \<Rightarrow> (string \<Rightarrow> pyval res) \<Rightarrow> string list \<Rightarrow> sys_state \<Rightarrow> sys_state" where
  "process_all T c loads msgs s = fold (\<lambda>data s. fst (process_data T c loads data s)) msgs s"

lemma process_all_append: "process_all T c loads (ms @ ns) s = process_all T c loads ns (process_all T c loads ms s)"
  by (simp add: process_all_def)

lemma process_data_then: "sbind (process_data T c loads data) f s = f () (fst (process_data T c loads data s))"
  using process_data_returns [of T c loads data s] by auto

lemma serve_ready_quiet:
  assumes "quiet r" "socket_of r \<in> set readers"
  shows "serve_ready T c loads readers r s = (process_all T c loads (message_of r) s, Inr (opened readers r))"
  using assms
  by (cases "(readers, r)" rule: opened.cases) (auto simp: serve_ready_def process_all_def process_data_then)

lemma opened_others: "x \<noteq> socket_of r \<Longrightarrow> x \<in> set readers \<Longrightarrow> x \<in> set (opened readers r)"
  by (cases "(readers, r)" rule: opened.cases) (auto simp: in_set_remove1)

lemma round_ok_Cons: "round_ok readers (r # readable) \<Longrightarrow> quiet r \<and> socket_of r \<in> set readers \<and> round_ok (opened readers r) readable"
  by (auto simp: round_ok_def image_iff intro!: opened_others)

lemma serve_round_quiet:
  assumes "round_ok readers readable"
  shows "serve_round T c loads readers readable s =
    (process_all T c loads (concat (map message_of readable)) s, Inr (foldl opened readers readable))"
  using assms
proof (induction readable arbitrary: readers s)
  case (Cons r readable)
  then show ?case using round_ok_Cons [OF Cons(2)] by (simp add: serve_ready_quiet process_all_append)
qed (simp add: process_all_def)

lemma opened_server: "Server \<in> set readers \<Longrightarrow> Server \<in> set (opened readers r)"
  by (cases "(readers, r)" rule: opened.cases) (auto simp: in_set_remove1)

lemma foldl_opened_server: "Server \<in> set readers \<Longrightarrow> Server \<in> set (foldl opened readers rs)"
  by (induction rs arbitrary: readers) (simp_all add: opened_server)

text \<open>
  C40: As long as no call on a socket raises, the control tool goes on: after every number of rounds of \<open>select\<close>, each of
  which gives some of the open sockets, it waits for the next round with its server socket and exactly the connections
  that were accepted and not closed, and it has processed every message that arrived, once and in the order of arrival,
  whatever is in the messages.
\<close>

theorem control_loop_serves:
  assumes "Server \<in> set readers" "rounds_ok readers rounds"
  shows "control_loop T c loads readers rounds s =
      (process_all T c loads (concat (map message_of (concat rounds))) s, Inr (Inl (foldl opened readers (concat rounds))))
    \<and> Server \<in> set (foldl opened readers (concat rounds))"
proof
  show "control_loop T c loads readers rounds s =
      (process_all T c loads (concat (map message_of (concat rounds))) s, Inr (Inl (foldl opened readers (concat rounds))))"
    using assms
  proof (induction rounds arbitrary: readers s)
    case Nil
    then show ?case by (auto simp: control_loop.simps process_all_def)
  next
    case (Cons readable rounds)
    have "control_loop T c loads readers (readable # rounds) s =
        control_loop T c loads (foldl opened readers readable) rounds (process_all T c loads (concat (map message_of readable)) s)"
      using Cons.prems by (subst control_loop.simps) (auto simp: serve_round_quiet)
    with Cons show ?case by (simp add: foldl_opened_server process_all_append)
  qed
qed (rule foldl_opened_server [OF assms(1)])

text \<open>Two nodes connect; one sends a message, which is no JSON document, and one closes its connection.\<close>

theorem control_loop_serves_witness:
  "\<forall>(T :: nat tool_env) c s. \<exists>readers. control_loop T c (\<lambda>data. Inl (ValueError data)) [Server]
      [[Acceptable (Inr 1)], [Acceptable (Inr 2), Readable 1 (Inr ''x'')], [Readable 2 (Inr [])]] s
    = (process_all T c (\<lambda>data. Inl (ValueError data)) [''x''] s, Inr (Inl readers)) \<and> readers = [Server, Connection 1]"
proof (intro allI)
  fix T :: "nat tool_env" and c s
  show "\<exists>readers. control_loop T c (\<lambda>data. Inl (ValueError data)) [Server]
      [[Acceptable (Inr 1)], [Acceptable (Inr 2), Readable 1 (Inr ''x'')], [Readable 2 (Inr [])]] s
    = (process_all T c (\<lambda>data. Inl (ValueError data)) [''x''] s, Inr (Inl readers)) \<and> readers = [Server, Connection 1]"
    using control_loop_serves [of "[Server]" "[[Acceptable (Inr 1)], [Acceptable (Inr 2), Readable 1 (Inr ''x'')], [Readable 2 (Inr [])]]"
        T c "\<lambda>data. Inl (ValueError data)" s]
    by (simp add: round_ok_def)
qed

text \<open>
  An error of a socket, such as a connection that was reset, is not caught: the tool ends with it, and what was ready
  after it is not processed.
\<close>

theorem socket_error_ends_tool:
  assumes "round_ok readers before" "r \<in> {Acceptable (Inl e), Readable n (Inl e)}" "Server \<in> set readers"
  shows "control_loop T c loads readers ((before @ r # after) # rounds) s =
    (process_all T c loads (concat (map message_of before)) s, Inl e)"
proof -
  have "serve_round T c loads readers (before @ r # after) s =
      (process_all T c loads (concat (map message_of before)) s, Inl e)"
    using assms(1)
  proof (induction before arbitrary: readers s)
    case Nil
    then show ?case using assms(2) by (auto simp: serve_ready_def process_all_def)
  next
    case (Cons b bs)
    then show ?case using round_ok_Cons [OF Cons(2)] by (simp add: serve_ready_quiet process_all_append)
  qed
  with assms(3) show ?thesis by (subst control_loop.simps) auto
qed

text \<open>
  Two messages that the system delivers in one read are one text, which is no JSON document; nothing is
  done for either of them. One node talks to the tool and opens a connection for every message, which keeps them apart.
\<close>

lemma undecodable_dropped:
  "loads data = Inl e \<Longrightarrow> data \<noteq> [] \<Longrightarrow> serve_ready T c loads readers (Readable n (Inr data)) s = (s, Inr readers)"
  by (simp add: serve_ready_def process_data_def scatch_def)

end
