(* ===== verification/NodeSetup.thy ===== *)
theory NodeSetup
  imports ControlTool AuthMap
begin

text \<open>
  What is set up before a node runs: the configuration object and its caches (indy_common/config_util.py and
  \<open>invalidate_config_caches\<close>), the directories it gives (indy_common/config_helper.py), the files of genesis
  transactions (indy_common/setup_util.py) and the plugins (indy_node/__init__.py).
\<close>

section \<open>The configuration\<close>

text \<open>
  Configurations are objects that are changed in place, named by addresses; three modules have a reference to
  the one in use. The functions of plenum are parameters: \<open>plenum_config_func\<close>, which makes or finds the
  object, and \<open>external\<close>, which reads the files of the administrator and of the user.
\<close>

record config_state =
  config_objects :: "nat \<Rightarrow> dict"
  stp_CONFIG :: "nat option"
  plenum_CONFIG :: "nat option"
  indy_CONFIG :: "nat option"

type_synonym 'a cfg = "(config_state, 'a) sres"

definition load_config ::
  "dict \<Rightarrow> (nat \<Rightarrow> string option \<Rightarrow> string option \<Rightarrow> unit cfg) \<Rightarrow> (string option \<Rightarrow> nat cfg)
     \<Rightarrow> string option \<Rightarrow> string option \<Rightarrow> bool \<Rightarrow> nat cfg" where
  "load_config indyConfig external plenum_config_func general_config_dir user_config_dir ignore_external_config_update_errors =
     sbind (plenum_config_func general_config_dir) (\<lambda>config.
     sbind (smodify (\<lambda>s. s\<lparr>config_objects := (config_objects s)(config := dict_update (config_objects s config) indyConfig)\<rparr>)) (\<lambda>_.
     sbind (scatch (external config general_config_dir user_config_dir)
              (\<lambda>ex. if \<not> ignore_external_config_update_errors then sraise ex else sret ())) (\<lambda>_.
       sret config)))"

definition getConfig ::
  "dict \<Rightarrow> (nat \<Rightarrow> string option \<Rightarrow> string option \<Rightarrow> unit cfg) \<Rightarrow> (string option \<Rightarrow> nat cfg)
     \<Rightarrow> string option \<Rightarrow> string option \<Rightarrow> nat cfg" where
  "getConfig indyConfig external PlenumConfig general_config_dir user_config_dir s =
     (case indy_CONFIG s of
        Some config \<Rightarrow> sret config s
      | None \<Rightarrow> sbind (load_config indyConfig external PlenumConfig general_config_dir user_config_dir False) (\<lambda>config.
                  sbind (smodify (\<lambda>s. s\<lparr>indy_CONFIG := Some config\<rparr>)) (\<lambda>_. sret config)) s)"

definition getConfigOnce ::
  "dict \<Rightarrow> (nat \<Rightarrow> string option \<Rightarrow> string option \<Rightarrow> unit cfg) \<Rightarrow> (string option \<Rightarrow> nat cfg)
     \<Rightarrow> string option \<Rightarrow> string option \<Rightarrow> bool \<Rightarrow> nat cfg" where
  "getConfigOnce indyConfig external PlenumConfigOnce general_config_dir user_config_dir ignore_external_config_update_errors =
     load_config indyConfig external PlenumConfigOnce general_config_dir user_config_dir ignore_external_config_update_errors"

definition invalidate_config_caches :: "unit cfg" where
  "invalidate_config_caches = smodify (\<lambda>s. s\<lparr>stp_CONFIG := None, plenum_CONFIG := None, indy_CONFIG := None\<rparr>)"

text \<open>
  A configuration that was loaded is the answer to every later call, for whatever directories, until the caches are
  invalidated; a load that fails leaves the cache empty, and the next call tries again. (Plenum's functions do not
  know the cache of indy.)
\<close>

theorem config_loaded_once:
  assumes "getConfig ic external pc g u s = (s', Inr config)"
  shows "getConfig ic external' pc' g' u' s' = (s', Inr config)"
  using assms by (auto simp: getConfig_def sbind_def split: option.splits prod.splits sum.splits)

lemma keeps_load_config:
  assumes "\<And>d. keeps (\<lambda>s. indy_CONFIG s = x) (pf d)" "\<And>a g u. keeps (\<lambda>s. indy_CONFIG s = x) (external a g u)"
  shows "keeps (\<lambda>s. indy_CONFIG s = x) (load_config ic external pf g u ignore)"
  unfolding load_config_def by (intro keeps_rules keeps_smodify assms) auto

theorem failed_load_not_cached:
  assumes "\<And>d. keeps (\<lambda>s. indy_CONFIG s = None) (pc d)" "\<And>a g u. keeps (\<lambda>s. indy_CONFIG s = None) (external a g u)"
    and "getConfig ic external pc g u s = (s', Inl e)"
  shows "indy_CONFIG s' = None"
proof -
  have none: "indy_CONFIG s = None" using assms(3) by (auto simp: getConfig_def split: option.splits)
  then have "fst (load_config ic external pc g u False s) = s'"
    using assms(3) by (auto simp: getConfig_def sbind_def split: prod.splits sum.splits)
  with keepsD [OF keeps_load_config [where pf = pc and external = external and ic = ic and g = g and u = u and ignore = False, OF assms(1,2)] none]
  show ?thesis by simp
qed

text \<open>After an invalidation the configuration is loaded as if for the first time.\<close>

lemma invalidated_reloads:
  "sbind invalidate_config_caches (\<lambda>_. getConfig ic external pc g u) s =
     getConfig ic external pc g u (s\<lparr>stp_CONFIG := None, plenum_CONFIG := None, indy_CONFIG := None\<rparr>)"
  by (simp add: invalidate_config_caches_def sbind_def)

text \<open>
  Values of indy override those of plenum, in the object that plenum made: its caches see them too. Errors of
  the external files can be ignored; then a load that plenum can start succeeds.
\<close>

theorem indy_values_override:
  assumes "pf g s = (s1, Inr config)" "\<And>s. external config g u s = (s, r)" "r = Inr () \<or> ignore" "distinct (map fst ic)"
  shows "\<exists>s'. load_config ic external pf g u ignore s = (s', Inr config)
    \<and> (\<forall>k. map_of (config_objects s' config) k = (case map_of ic k of None \<Rightarrow> map_of (config_objects s1 config) k | Some v \<Rightarrow> Some v))"
  using assms by (cases r) (auto simp: load_config_def scatch_def map_of_dict_update)

section \<open>Directories\<close>

text \<open>The properties of \<open>ConfigHelper\<close>; \<open>chroot_if_needed\<close> is a method of plenum's base class.\<close>

record dirs_config =
  LOG_DIR :: string
  GENESIS_DIR :: string
  KEYS_DIR :: string
  LEDGER_DIR :: string
  BACKUP_DIR :: string
  NODE_INFO_DIR :: string
  NETWORK_NAME :: string

definition path_joins :: "string \<Rightarrow> string list \<Rightarrow> string" where
  "path_joins p ps = foldl path_join p ps"

definition log_dir :: "(string \<Rightarrow> string) \<Rightarrow> dirs_config \<Rightarrow> string" where
  "log_dir chroot_if_needed c = chroot_if_needed (path_join (LOG_DIR c) (NETWORK_NAME c))"

definition genesis_dir :: "(string \<Rightarrow> string) \<Rightarrow> dirs_config \<Rightarrow> string" where
  "genesis_dir chroot_if_needed c = chroot_if_needed (path_join (GENESIS_DIR c) (NETWORK_NAME c))"

definition keys_dir :: "(string \<Rightarrow> string) \<Rightarrow> dirs_config \<Rightarrow> string" where
  "keys_dir chroot_if_needed c = chroot_if_needed (path_joins (KEYS_DIR c) [NETWORK_NAME c, ''keys''])"

definition ledger_base_dir :: "(string \<Rightarrow> string) \<Rightarrow> dirs_config \<Rightarrow> string" where
  "ledger_base_dir chroot_if_needed c = chroot_if_needed (LEDGER_DIR c)"

definition ledger_data_dir :: "(string \<Rightarrow> string) \<Rightarrow> dirs_config \<Rightarrow> string" where
  "ledger_data_dir chroot_if_needed c = chroot_if_needed (path_joins (LEDGER_DIR c) [NETWORK_NAME c, ''data''])"

definition log_base_dir :: "(string \<Rightarrow> string) \<Rightarrow> dirs_config \<Rightarrow> string" where
  "log_base_dir chroot_if_needed c = chroot_if_needed (LOG_DIR c)"

definition config_backup_dir :: "(string \<Rightarrow> string) \<Rightarrow> dirs_config \<Rightarrow> string" where
  "config_backup_dir chroot_if_needed c = chroot_if_needed (BACKUP_DIR c)"

definition node_info_dir :: "(string \<Rightarrow> string) \<Rightarrow> dirs_config \<Rightarrow> string" where
  "node_info_dir chroot_if_needed c = chroot_if_needed (path_join (NODE_INFO_DIR c) (NETWORK_NAME c))"

text \<open>\<open>NodeConfigHelper\<close>, whose constructor refuses a missing name.\<close>

definition ledger_dir :: "(string \<Rightarrow> string) \<Rightarrow> dirs_config \<Rightarrow> string option \<Rightarrow> string res" where
  "ledger_dir chroot_if_needed c name =
     (case name of
        None \<Rightarrow> Inl AssertionError
      | Some n \<Rightarrow> Inr (chroot_if_needed (path_joins (LEDGER_DIR c) [NETWORK_NAME c, ''data'', n])))"

text \<open>
  Without a change of the root, the ledger of a node is in a directory of its own below the data directory of its
  network: nodes of different names do not share a ledger. The name must be a plain one; a name that begins with
  a slash leaves the directory.
\<close>

theorem node_ledgers_apart:
  assumes "hd n \<noteq> CHR ''/''" "hd m \<noteq> CHR ''/''"
  shows "ledger_dir id c (Some n) = Inr (ledger_data_dir id c @ ''/'' @ n)"
    and "ledger_dir id c (Some n) = ledger_dir id c (Some m) \<longleftrightarrow> n = m"
proof -
  have last: "ledger_data_dir id c \<noteq> [] \<and> last (ledger_data_dir id c) \<noteq> CHR ''/''"
    by (simp add: ledger_data_dir_def path_joins_def path_join_def)
  have join: "ledger_dir id c (Some k) = Inr (ledger_data_dir id c @ ''/'' @ k)" if "hd k \<noteq> CHR ''/''" for k
  proof -
    have "ledger_dir id c (Some k) = Inr (path_join (ledger_data_dir id c) k)"
      by (simp add: ledger_dir_def ledger_data_dir_def path_joins_def)
    then show ?thesis using last that by (simp add: path_join_def)
  qed
  show "ledger_dir id c (Some n) = Inr (ledger_data_dir id c @ ''/'' @ n)" using join assms(1) by simp
  show "ledger_dir id c (Some n) = ledger_dir id c (Some m) \<longleftrightarrow> n = m" using join assms(1,2) by simp
qed

section \<open>Genesis transactions\<close>

text \<open>
  \<open>Setup.setupTxns\<close>: the files by path, with their contents; \<open>genesis_txn_file\<close> is the ledger package's name
  for the file, and a copy fails where \<open>writable\<close> is false.
\<close>

type_synonym files = "string \<rightharpoonup> string"

record Environment =
  poolLedger :: string
  domainLedger :: string

definition allEnvs :: "Environment list" where
  "allEnvs =
     [\<lparr>poolLedger = ''pool_transactions_local'', domainLedger = ''domain_transactions_local''\<rparr>,
      \<lparr>poolLedger = ''pool_transactions_sandbox'', domainLedger = ''domain_transactions_sandbox''\<rparr>,
      \<lparr>poolLedger = ''pool_transactions_live'', domainLedger = ''domain_transactions_live''\<rparr>]"

definition env_attr :: "Environment \<Rightarrow> string \<Rightarrow> string option" where
  "env_attr env key =
     (if key = ''poolLedger'' then Some (poolLedger env) else if key = ''domainLedger'' then Some (domainLedger env) else None)"

definition setup_env ::
  "(string \<Rightarrow> bool) \<Rightarrow> (string \<Rightarrow> string) \<Rightarrow> string \<Rightarrow> string \<Rightarrow> bool \<Rightarrow> string option \<Rightarrow> (files, unit) sres" where
  "setup_env writable genesis_txn_file dataDir base_dir force fileName fs =
     (case fileName of
        None \<Rightarrow> (fs, Inr ())
      | Some name \<Rightarrow>
          let destFilePath = path_join base_dir (genesis_txn_file name)
          in case fs (path_join dataDir name) of
               None \<Rightarrow> (fs, Inr ())
             | Some content \<Rightarrow>
                 if fs destFilePath \<noteq> None \<and> \<not> force then (fs, Inr ())
                 else if writable destFilePath then (fs(destFilePath \<mapsto> content), Inr ())
                 else (fs, Inl (OtherException ''copyfile'')))"

fun setup_envs ::
  "(string \<Rightarrow> bool) \<Rightarrow> (string \<Rightarrow> string) \<Rightarrow> string \<Rightarrow> string \<Rightarrow> bool \<Rightarrow> string option list \<Rightarrow> (files, unit) sres" where
  "setup_envs writable genesis_txn_file dataDir base_dir force [] = sret ()"
| "setup_envs writable genesis_txn_file dataDir base_dir force (name # names) =
     sbind (setup_env writable genesis_txn_file dataDir base_dir force name) (\<lambda>_.
       setup_envs writable genesis_txn_file dataDir base_dir force names)"

definition setupTxns ::
  "(string \<Rightarrow> bool) \<Rightarrow> (string \<Rightarrow> string) \<Rightarrow> string \<Rightarrow> string \<Rightarrow> string \<Rightarrow> bool \<Rightarrow> (files, unit) sres" where
  "setupTxns writable genesis_txn_file dataDir base_dir key force =
     setup_envs writable genesis_txn_file dataDir base_dir force (map (\<lambda>env. env_attr env key) allEnvs)"

definition setupCommon :: "(string \<Rightarrow> bool) \<Rightarrow> (string \<Rightarrow> string) \<Rightarrow> string \<Rightarrow> string \<Rightarrow> (files, unit) sres" where
  "setupCommon writable genesis_txn_file dataDir base_dir = setupTxns writable genesis_txn_file dataDir base_dir ''poolLedger'' False"

definition setupNode :: "(string \<Rightarrow> bool) \<Rightarrow> (string \<Rightarrow> string) \<Rightarrow> string \<Rightarrow> string \<Rightarrow> (files, unit) sres" where
  "setupNode writable genesis_txn_file dataDir base_dir = setupTxns writable genesis_txn_file dataDir base_dir ''domainLedger'' False"

text \<open>Without \<open>force\<close> no file that exists is changed, also when a copy fails.\<close>

definition keeps_files :: "files \<Rightarrow> files \<Rightarrow> bool" where
  "keeps_files fs0 fs \<longleftrightarrow> fs0 \<subseteq>\<^sub>m fs"

lemma keeps_setup_envs: "keeps (keeps_files fs0) (setup_envs w g d b False names)"
proof (induction names)
  case Nil
  show ?case by (simp add: keeps_def)
next
  case (Cons name names)
  have "keeps (keeps_files fs0) (setup_env w g d b False name)"
    by (auto simp: keeps_def keeps_files_def setup_env_def Let_def map_le_def dom_def fun_upd_def split: option.splits)
  with Cons show ?case by (auto intro: keeps_rules)
qed

theorem setup_keeps_files:
  "setupTxns w g d b key False fs = (fs', r) \<Longrightarrow> fs \<subseteq>\<^sub>m fs'"
  using keepsD [OF keeps_setup_envs, of fs fs w g d b "map (\<lambda>env. env_attr env key) allEnvs"]
  by (simp add: setupTxns_def keeps_files_def)

text \<open>
  Once set up, the genesis file of every network whose transactions are shipped is there, and a second set-up
  changes nothing.
\<close>

definition set_up :: "(string \<Rightarrow> string) \<Rightarrow> string \<Rightarrow> string \<Rightarrow> string option \<Rightarrow> files \<Rightarrow> bool" where
  "set_up g d b fileName fs =
     (case fileName of None \<Rightarrow> True
      | Some name \<Rightarrow> fs (path_join d name) = None \<or> fs (path_join b (g name)) \<noteq> None)"

lemma set_up_skips: "set_up g d b name fs \<Longrightarrow> setup_env w g d b False name fs = (fs, Inr ())"
  by (auto simp: set_up_def setup_env_def Let_def split: option.splits)

lemma set_up_all_skips: "\<forall>name\<in>set names. set_up g d b name fs \<Longrightarrow> setup_envs w g d b False names fs = (fs, Inr ())"
  by (induction names) (simp_all add: set_up_skips)

text \<open>No genesis file of the base directory is itself a source of transactions.\<close>

definition apart :: "(string \<Rightarrow> string) \<Rightarrow> string \<Rightarrow> string \<Rightarrow> string option set \<Rightarrow> bool" where
  "apart g d b names \<longleftrightarrow> (\<forall>n m. Some n \<in> names \<and> Some m \<in> names \<longrightarrow> path_join b (g n) \<noteq> path_join d m)"

lemma setup_env_cases:
  assumes "setup_env w g d b False name fs = (fs1, Inr ())"
  obtains "fs1 = fs" "set_up g d b name fs"
  | n content where "name = Some n" "fs1 = fs(path_join b (g n) \<mapsto> content)"
  using assms by (auto simp: setup_env_def set_up_def Let_def split: option.splits if_splits)

lemma setup_env_sets_up:
  assumes "setup_env w g d b False name fs = (fs1, Inr ())"
  shows "set_up g d b name fs1"
  using assms by (cases rule: setup_env_cases) (auto simp: set_up_def)

lemma setup_env_keeps_set_up:
  assumes "setup_env w g d b False name fs = (fs1, Inr ())" "set_up g d b other fs" "apart g d b {name, other}"
  shows "set_up g d b other fs1"
  using assms(1)
proof (cases rule: setup_env_cases)
  case (2 n content)
  then have "other = Some m \<Longrightarrow> path_join d m \<noteq> path_join b (g n)" for m
    using assms(3) unfolding apart_def by (metis insertCI)
  then show ?thesis using 2 assms(2) by (cases other) (auto simp: set_up_def)
qed (use assms(2) in simp)

lemma apart_subset: "apart g d b N \<Longrightarrow> M \<subseteq> N \<Longrightarrow> apart g d b M"
  by (auto simp: apart_def)

lemma setup_envs_done:
  assumes "setup_envs w g d b False names fs = (fs', Inr ())" "apart g d b (set names \<union> N)"
    and "\<forall>name\<in>N. set_up g d b name fs"
  shows "\<forall>name\<in>set names \<union> N. set_up g d b name fs'"
  using assms
proof (induction names arbitrary: fs N)
  case (Cons name names)
  obtain fs1 where s: "setup_env w g d b False name fs = (fs1, Inr ())" "setup_envs w g d b False names fs1 = (fs', Inr ())"
    using Cons.prems(1) by (auto simp: sbind_Inr_iff)
  have "set_up g d b n fs1" if "n \<in> insert name N" for n
    using that setup_env_sets_up [OF s(1)] setup_env_keeps_set_up [OF s(1)] Cons.prems(3) apart_subset [OF Cons.prems(2), of "{name, n}"]
    by auto
  then show ?case using Cons.IH [OF s(2), of "insert name N"] Cons.prems(2) by auto
qed simp

theorem setup_complete:
  assumes "setupTxns w g d b key False fs = (fs', Inr ())" "apart g d b (set (map (\<lambda>env. env_attr env key) allEnvs))"
  shows "\<forall>env\<in>set allEnvs. set_up g d b (env_attr env key) fs'" "setupTxns w' g d b key False fs' = (fs', Inr ())"
proof -
  show up: "\<forall>env\<in>set allEnvs. set_up g d b (env_attr env key) fs'"
    using setup_envs_done [where N = "{}"] assms by (fastforce simp: setupTxns_def)
  then show "setupTxns w' g d b key False fs' = (fs', Inr ())"
    by (simp add: setupTxns_def set_up_all_skips)
qed

section \<open>Plugins\<close>

text \<open>
  \<open>setup_plugins\<close>. A plugin is a module with up to three registers; \<open>import_module\<close> and \<open>exec_file\<close> load it by the
  name of a package or from a file. The reload of the message types at the end reads the registers and is not part
  of the model.
\<close>

record ('i, 'f) plugin =
  LEDGER_IDS :: "'i set option"
  CLIENT_REQUEST_FIELDS :: "(string \<times> 'f) list option"
  REQ_OP_TYPES :: "(string \<times> 'f) list option"

record ('i, 'f) plugin_registers =
  PLUGIN_LEDGER_IDS :: "'i set"
  PLUGIN_CLIENT_REQUEST_FIELDS :: "(string \<times> 'f) list"
  PLUGIN_CLIENT_REQ_OP_TYPES :: "(string \<times> 'f) list"

definition find_and_load_plugin ::
  "(string \<Rightarrow> ('i, 'f) plugin res) \<Rightarrow> (string \<Rightarrow> ('i, 'f) plugin res) \<Rightarrow> string \<Rightarrow> string set \<Rightarrow> string \<Rightarrow> ('i, 'f) plugin res" where
  "find_and_load_plugin import_module exec_file root_path installed_packages plugin_name =
     (if plugin_name \<in> installed_packages
      then import_module (map (\<lambda>ch. if ch = CHR ''-'' then CHR ''_'' else ch) plugin_name)
      else exec_file (path_joins root_path [plugin_name, ''__init__.py'']))"

definition register_plugin :: "('i, 'f) plugin \<Rightarrow> ('i, 'f) plugin_registers \<Rightarrow> ('i, 'f) plugin_registers" where
  "register_plugin p s =
     (let s = (case LEDGER_IDS p of None \<Rightarrow> s | Some ids \<Rightarrow> s\<lparr>PLUGIN_LEDGER_IDS := PLUGIN_LEDGER_IDS s \<union> ids\<rparr>);
          s = (case CLIENT_REQUEST_FIELDS p of None \<Rightarrow> s
               | Some fs \<Rightarrow> s\<lparr>PLUGIN_CLIENT_REQUEST_FIELDS := odict_update (PLUGIN_CLIENT_REQUEST_FIELDS s) fs\<rparr>)
      in (case REQ_OP_TYPES p of None \<Rightarrow> s
          | Some ts \<Rightarrow> s\<lparr>PLUGIN_CLIENT_REQ_OP_TYPES := odict_update (PLUGIN_CLIENT_REQ_OP_TYPES s) ts\<rparr>))"

fun load_plugins ::
  "(string \<Rightarrow> ('i, 'f) plugin res) \<Rightarrow> (string \<Rightarrow> ('i, 'f) plugin res) \<Rightarrow> string \<Rightarrow> string set \<Rightarrow> string list
     \<Rightarrow> (('i, 'f) plugin_registers, unit) sres" where
  "load_plugins import_module exec_file root_path installed_packages [] = sret ()"
| "load_plugins import_module exec_file root_path installed_packages (plugin_name # enabled_plugins) =
     sbind (slift (find_and_load_plugin import_module exec_file root_path installed_packages plugin_name)) (\<lambda>plugin.
     sbind (smodify (register_plugin plugin)) (\<lambda>_.
       load_plugins import_module exec_file root_path installed_packages enabled_plugins))"

text \<open>\<open>import_root\<close> yields the path of the package with the plugins, \<open>None\<close> for an \<open>ImportError\<close>.\<close>

definition setup_plugins ::
  "(string \<Rightarrow> string option) \<Rightarrow> (string \<Rightarrow> ('i, 'f) plugin res) \<Rightarrow> (string \<Rightarrow> ('i, 'f) plugin res) \<Rightarrow> string \<Rightarrow> string set
     \<Rightarrow> string list \<Rightarrow> (('i, 'f) plugin_registers, unit) sres" where
  "setup_plugins import_root import_module exec_file plugin_root installed_packages enabled_plugins =
     (case import_root plugin_root of
        None \<Rightarrow> sraise (OtherException (''Incorrect plugin root '' @ plugin_root @ ''. No such package found''))
      | Some root_path \<Rightarrow> load_plugins import_module exec_file root_path installed_packages enabled_plugins)"

text \<open>
  As a comment in the source says, loading the same plugin twice is not the problem: registering it again leaves the
  registers as they are.
\<close>

lemma update_present: "distinct (map fst m) \<Longrightarrow> map_of m k = Some v \<Longrightarrow> AList.update k v m = m"
  by (induction m) (auto split: if_splits simp: rev_image_eqI)

lemma odict_update_present:
  "distinct (map fst m) \<Longrightarrow> \<forall>(k, v)\<in>set e. map_of m k = Some v \<Longrightarrow> odict_update m e = m"
  by (induction e) (auto simp: odict_update_def update_present)

lemma map_of_odict_update: "map_of (odict_update m e) = map_of m ++ map_of (rev e)"
  by (induction e arbitrary: m) (auto simp: odict_update_def update_conv' fun_eq_iff map_add_def split: option.splits)

lemma distinct_odict_update: "distinct (map fst m) \<Longrightarrow> distinct (map fst (odict_update m e))"
  by (induction e arbitrary: m) (auto simp: odict_update_def distinct_update)

lemma odict_update_idem:
  assumes "distinct (map fst m)" "distinct (map fst e)"
  shows "odict_update (odict_update m e) e = odict_update m e"
proof (rule odict_update_present)
  show "distinct (map fst (odict_update m e))" by (rule distinct_odict_update [OF assms(1)])
  have "map_of (rev e) = map_of e" using assms(2) by (intro map_of_inject_set [THEN iffD2]) (simp_all add: rev_map [symmetric])
  then show "\<forall>(k, v)\<in>set e. map_of (odict_update m e) k = Some v"
    using assms(2) by (auto simp: map_of_odict_update map_add_def)
qed

text \<open>Registers and plugins are dictionaries: no key occurs twice.\<close>

definition registers_ok :: "('i, 'f) plugin_registers \<Rightarrow> bool" where
  "registers_ok s \<longleftrightarrow> distinct (map fst (PLUGIN_CLIENT_REQUEST_FIELDS s)) \<and> distinct (map fst (PLUGIN_CLIENT_REQ_OP_TYPES s))"

definition plugin_ok :: "('i, 'f) plugin \<Rightarrow> bool" where
  "plugin_ok p \<longleftrightarrow> pred_option (\<lambda>d. distinct (map fst d)) (CLIENT_REQUEST_FIELDS p)
     \<and> pred_option (\<lambda>d. distinct (map fst d)) (REQ_OP_TYPES p)"

lemma register_plugin_ok: "registers_ok s \<Longrightarrow> registers_ok (register_plugin p s)"
  by (auto simp: register_plugin_def Let_def registers_ok_def distinct_odict_update split: option.splits)

theorem setup_plugins_ok: "keeps registers_ok (setup_plugins ir im ef root inst plugins)"
proof -
  have "keeps registers_ok (load_plugins im ef path inst ps)" for path ps
  proof (induction ps)
    case Nil
    show ?case by (simp add: keeps_def)
  next
    case (Cons p ps)
    then show ?case by (auto intro!: keeps_rules keeps_smodify register_plugin_ok)
  qed
  then show ?thesis unfolding setup_plugins_def by (intro keeps_rules) auto
qed

theorem register_twice:
  assumes "registers_ok s" "plugin_ok p"
  shows "register_plugin p (register_plugin p s) = register_plugin p s"
  using assms
  by (auto simp: register_plugin_def Let_def registers_ok_def plugin_ok_def odict_update_idem split: option.splits
      intro!: plugin_registers.equality)

text \<open>
  There is no check for conflicts: of two plugins that give an operation different classes the later one wins, and
  so the order of \<open>ENABLED_PLUGINS\<close> decides.
\<close>

theorem later_plugin_wins:
  assumes "REQ_OP_TYPES q = Some ts" "distinct (map fst ts)" "map_of ts k = Some v"
  shows "map_of (PLUGIN_CLIENT_REQ_OP_TYPES (register_plugin q (register_plugin p s))) k = Some v"
proof -
  have "map_of (rev ts) = map_of ts" using assms(2) by (intro map_of_inject_set [THEN iffD2]) (simp_all add: rev_map [symmetric])
  then show ?thesis using assms(1,3) by (simp add: register_plugin_def Let_def map_of_odict_update split: option.splits)
qed

end
