(* ===== verification/RequestGen.thy ===== *)
theory RequestGen
  imports LoadFees
begin

text \<open>
  Where the requests of a load test come from (scripts/performance/perf_load): the data read from a file or made up,
  sequences of generators, the numbers of transactions that are read, the nodes that are demoted and promoted, and the
  generator of registry entries with its change of registries. libindy, JSON and the random numbers are parameters.
\<close>

section \<open>Fields of transactions\<close>

definition py_or :: "pyval \<Rightarrow> pyval \<Rightarrow> pyval" where
  "py_or a b = (if truthy a then a else b)"

definition get_txn_field :: "pyval \<Rightarrow> pyval res" where
  "get_txn_field txn_dict =
     (let tmp = py_or txn_dict (PyDict [])
      in rbind (py_get_default tmp ''result'' (PyDict [])) (\<lambda>result.
         rbind (py_get_default result ''txn'' (PyDict [])) (\<lambda>txn.
           if truthy txn then Inr txn else py_get_default tmp ''txn'' (PyDict []))))"

definition get_type_field :: "pyval \<Rightarrow> pyval res" where
  "get_type_field txn_dict = rbind (get_txn_field txn_dict) (\<lambda>txn. py_get txn ''type'')"

definition get_txnid_field :: "pyval \<Rightarrow> pyval res" where
  "get_txnid_field txn_dict =
     (let tmp = py_or txn_dict (PyDict [])
      in rbind (py_get_default tmp ''result'' (PyDict [])) (\<lambda>result.
         rbind (py_get_default result ''txnMetadata'' (PyDict [])) (\<lambda>metadata.
         rbind (if truthy metadata then Inr metadata else py_get_default tmp ''txnMetadata'' (PyDict [])) (\<lambda>metadata.
           py_get metadata ''txnId''))))"

section \<open>Data from a file\<close>

text \<open>The file is its lines, none of them empty, and the position is the number of the next one.\<close>

record rgen =
  rg_file :: "string list option"
  rg_pos :: nat
  rg_start :: nat
  rg_sep :: string
  rg_max_split :: int
  rg_field :: int

text \<open>The constructor; \<open>open_file\<close> is the check of the file and \<open>open\<close>.\<close>

definition mk_rgen :: "(string \<Rightarrow> string list res) \<Rightarrow> string option \<Rightarrow> bool \<Rightarrow> string option \<Rightarrow> int \<Rightarrow> int \<Rightarrow> rgen res" where
  "mk_rgen open_file file_name ignore_first_line file_sep file_max_split file_field =
     (let sep = (case file_sep of None \<Rightarrow> ''|'' | Some s \<Rightarrow> if s = [] then ''|'' else s);
          g = \<lparr>rg_file = None, rg_pos = 0, rg_start = 0, rg_sep = sep, rg_max_split = file_max_split, rg_field = file_field\<rparr>
      in case file_name of
           None \<Rightarrow> Inr g
         | Some n \<Rightarrow>
             rbind (open_file n) (\<lambda>ls.
               let first = (if ignore_first_line then min 1 (length ls) else 0)
               in Inr (g\<lparr>rg_file := Some ls, rg_pos := first, rg_start := first\<rparr>)))"

definition rg_lines :: "rgen \<Rightarrow> string list" where
  "rg_lines g = (case rg_file g of None \<Rightarrow> [] | Some ls \<Rightarrow> ls)"

text \<open>\<open>readline()\<close>: the empty text at the end.\<close>

definition readline :: "rgen \<Rightarrow> string \<times> rgen" where
  "readline g = (if rg_pos g < length (rg_lines g) then (rg_lines g ! rg_pos g, g\<lparr>rg_pos := Suc (rg_pos g)\<rparr>) else ([], g))"

text \<open>\<open>s.split(sep, maxsplit=n)\<close>\<close>

definition py_splitn :: "string \<Rightarrow> string \<Rightarrow> int \<Rightarrow> string list" where
  "py_splitn s sep n =
     (let parts = py_split s sep
      in if n < 0 \<or> int (length parts) \<le> n + 1 then parts else take (nat n) parts @ [py_join sep (drop (nat n) parts)])"

text \<open>\<open>xs[i]\<close>, from the end for a negative index.\<close>

definition py_nth :: "'a list \<Rightarrow> int \<Rightarrow> 'a res" where
  "py_nth xs i =
     (let j = (if i < 0 then i + int (length xs) else i)
      in if 0 \<le> j \<and> j < int (length xs) then Inr (xs ! nat j) else Inl (IndexError ''list index out of range''))"

text \<open>\<open>_from_file_str_data\<close> of the base class, and of its subclasses.\<close>

definition from_file_str_data :: "(string \<Rightarrow> pyval res) \<Rightarrow> string list \<Rightarrow> rgen \<Rightarrow> string \<Rightarrow> pyval res" where
  "from_file_str_data loads req_types g file_str =
     (let line_vals = py_splitn file_str (rg_sep g) (rg_max_split g)
      in if rg_field g < int (length line_vals)
         then rbind (py_nth line_vals (rg_field g)) (\<lambda>val. rbind (loads val) (\<lambda>tmp.
                if req_types = [] then Inr PyNone
                else rbind (get_type_field tmp) (\<lambda>ty. Inr (if ty \<in> set (map PyStr req_types) then tmp else PyNone))))
         else Inr PyNone)"

definition nym_from_file :: "(string \<Rightarrow> pyval res) \<Rightarrow> rgen \<Rightarrow> string \<Rightarrow> pyval res" where
  "nym_from_file loads g file_str =
     rbind (from_file_str_data loads [''1'', ''105''] g file_str) (\<lambda>req_json.
     rbind (get_txn_field req_json) (\<lambda>txn. rbind (py_get_default txn ''data'' (PyDict [])) (\<lambda>d. py_get d ''dest'')))"

definition attrib_from_file :: "(string \<Rightarrow> pyval res) \<Rightarrow> rgen \<Rightarrow> string \<Rightarrow> pyval res" where
  "attrib_from_file loads g file_str =
     rbind (from_file_str_data loads [''100'', ''104''] g file_str) (\<lambda>req_json.
     rbind (get_txn_field req_json) (\<lambda>txn. rbind (py_get_default txn ''data'' (PyDict [])) (\<lambda>d. py_get d ''raw'')))"

definition schema_from_file :: "(string \<Rightarrow> pyval res) \<Rightarrow> rgen \<Rightarrow> string \<Rightarrow> pyval res" where
  "schema_from_file loads g file_str = rbind (from_file_str_data loads [''101'', ''107''] g file_str) get_txnid_field"

definition definition_from_file :: "(string \<Rightarrow> pyval res) \<Rightarrow> string list \<Rightarrow> rgen \<Rightarrow> string \<Rightarrow> pyval res" where
  "definition_from_file loads req_types g file_str = rbind (from_file_str_data loads req_types g file_str) get_txnid_field"

text \<open>
  The generators of registry definitions and entries take the transaction id of what their base class returns, which is
  the transaction id already.
\<close>

definition def_revoc_from_file :: "(string \<Rightarrow> pyval res) \<Rightarrow> string list \<Rightarrow> rgen \<Rightarrow> string \<Rightarrow> pyval res" where
  "def_revoc_from_file loads req_types g file_str = rbind (definition_from_file loads req_types g file_str) get_txnid_field"

definition entry_revoc_from_file :: "(string \<Rightarrow> pyval res) \<Rightarrow> rgen \<Rightarrow> string \<Rightarrow> pyval res" where
  "entry_revoc_from_file loads g file_str = rbind (def_revoc_from_file loads [''114'', ''116'', ''117''] g file_str) get_txnid_field"

text \<open>The loop of \<open>_gen_req_data\<close>; a value that is not \<open>None\<close> ends it.\<close>

partial_function (option) file_loop :: "(string \<Rightarrow> pyval res) \<Rightarrow> rgen \<Rightarrow> (pyval res \<times> rgen) option" where
  "file_loop from_str g =
     (let (s, g) = readline g;
          (s, g) = (if s = [] then readline (g\<lparr>rg_pos := rg_start g\<rparr>) else (s, g))
      in if s = [] then Some (Inl (OtherException ''Data file does not contain valid entries''), g)
         else case from_str s of
                Inl e \<Rightarrow> Some (Inl e, g)
              | Inr v \<Rightarrow> if v = PyNone then file_loop from_str g else Some (Inr v, g))"

definition gen_req_data :: "(rgen \<Rightarrow> string \<Rightarrow> pyval res) \<Rightarrow> (unit \<Rightarrow> pyval) \<Rightarrow> rgen \<Rightarrow> (pyval res \<times> rgen) option" where
  "gen_req_data from_str rand_data g =
     (case rg_file g of Some _ \<Rightarrow> file_loop (from_str g) g | None \<Rightarrow> Some (Inr (rand_data ()), g))"

section \<open>What is read from a file\<close>

definition rg_body :: "rgen \<Rightarrow> string list" where
  "rg_body g = drop (rg_start g) (rg_lines g)"

definition rgen_ok :: "rgen \<Rightarrow> bool" where
  "rgen_ok g \<longleftrightarrow> [] \<notin> set (rg_lines g) \<and> rg_start g \<le> rg_pos g \<and> rg_pos g \<le> length (rg_lines g)"

lemma mk_rgen_ok: "mk_rgen op fn ig sep m f = Inr g \<Longrightarrow> (\<And>n ls. op n = Inr ls \<Longrightarrow> [] \<notin> set ls) \<Longrightarrow> rgen_ok g"
  by (auto simp: mk_rgen_def rgen_ok_def rg_lines_def rbind_def Let_def split: option.splits sum.splits if_splits)

definition skipped :: "(string \<Rightarrow> pyval res) \<Rightarrow> string \<Rightarrow> bool" where
  "skipped from_str s \<longleftrightarrow> from_str s = Inr PyNone"

lemma readline_line [simp]: "rg_pos g < length (rg_lines g) \<Longrightarrow> readline g = (rg_lines g ! rg_pos g, g\<lparr>rg_pos := Suc (rg_pos g)\<rparr>)"
  by (simp add: readline_def)

lemma rg_lines_update [simp]: "rg_lines (g\<lparr>rg_pos := p\<rparr>) = rg_lines g"
  by (simp add: rg_lines_def)

lemma rgen_ok_line: "rgen_ok g \<Longrightarrow> p < length (rg_lines g) \<Longrightarrow> rg_lines g ! p \<noteq> []"
  using nth_mem by (fastforce simp: rgen_ok_def)

lemma file_loop_line:
  assumes "rgen_ok g" "rg_pos g < length (rg_lines g)"
  shows "file_loop from_str g =
     (if skipped from_str (rg_lines g ! rg_pos g) then file_loop from_str (g\<lparr>rg_pos := Suc (rg_pos g)\<rparr>)
      else Some (from_str (rg_lines g ! rg_pos g), g\<lparr>rg_pos := Suc (rg_pos g)\<rparr>))"
  using rgen_ok_line [OF assms] assms(2)
  by (subst file_loop.simps) (auto simp: skipped_def split: sum.splits)

text \<open>At the end the file is read from its start again, or refused if there is nothing to read.\<close>

lemma file_loop_end:
  assumes "rgen_ok g" "rg_pos g = length (rg_lines g)"
  shows "file_loop from_str g =
     (if rg_body g = [] then Some (Inl (OtherException ''Data file does not contain valid entries''), g\<lparr>rg_pos := rg_start g\<rparr>)
      else file_loop from_str (g\<lparr>rg_pos := rg_start g\<rparr>))"
proof (cases "rg_body g = []")
  case True
  with assms show ?thesis
    by (subst file_loop.simps) (simp add: rgen_ok_def rg_body_def readline_def)
next
  case False
  then have start: "rg_start g < length (rg_lines g)" by (simp add: rg_body_def)
  have "rg_lines g ! rg_start g \<noteq> []" by (rule rgen_ok_line [OF assms(1) start])
  with start False assms(2) show ?thesis
    by (subst (1 2) file_loop.simps) (simp add: readline_def)
qed

text \<open>The first line in the given order that is not skipped is the one that is returned.\<close>

lemma file_loop_forward:
  assumes "rgen_ok g" "dropWhile (skipped from_str) (drop (rg_pos g) (rg_lines g)) = s # rest"
  shows "file_loop from_str g = Some (from_str s, g\<lparr>rg_pos := length (rg_lines g) - length rest\<rparr>)"
  using assms
proof (induction "length (rg_lines g) - rg_pos g" arbitrary: g)
  case 0
  then show ?case by simp
next
  case (Suc n)
  then have lt: "rg_pos g < length (rg_lines g)" by simp
  note step = file_loop_line [OF Suc.prems(1) lt, of from_str]
  have drop: "drop (rg_pos g) (rg_lines g) = rg_lines g ! rg_pos g # drop (Suc (rg_pos g)) (rg_lines g)"
    by (simp add: Cons_nth_drop_Suc lt)
  show ?case
  proof (cases "skipped from_str (rg_lines g ! rg_pos g)")
    case True
    then show ?thesis
      using Suc.hyps(1) [of "g\<lparr>rg_pos := Suc (rg_pos g)\<rparr>"] Suc.hyps(2) Suc.prems drop step lt
      by (simp add: rgen_ok_def)
  next
    case False
    then have "rest = drop (Suc (rg_pos g)) (rg_lines g)" using Suc.prems(2) drop by simp
    with False show ?thesis using Suc.prems(2) drop step lt by simp
  qed
qed

lemma file_loop_skip:
  assumes "rgen_ok g" "\<forall>s\<in>set (drop (rg_pos g) (rg_lines g)). skipped from_str s"
  shows "file_loop from_str g = file_loop from_str (g\<lparr>rg_pos := length (rg_lines g)\<rparr>)"
  using assms
proof (induction "length (rg_lines g) - rg_pos g" arbitrary: g)
  case 0
  then have "rg_pos g = length (rg_lines g)" by (simp add: rgen_ok_def)
  then show ?case by (metis rgen.surjective rgen.update_convs(2))
next
  case (Suc n)
  then have lt: "rg_pos g < length (rg_lines g)" by simp
  have skip: "skipped from_str (rg_lines g ! rg_pos g)" "\<forall>s\<in>set (drop (Suc (rg_pos g)) (rg_lines g)). skipped from_str s"
    using Suc.prems(2) lt by (simp_all add: Cons_nth_drop_Suc [symmetric])
  have "file_loop from_str (g\<lparr>rg_pos := Suc (rg_pos g)\<rparr>) = file_loop from_str (g\<lparr>rg_pos := length (rg_lines g)\<rparr>)"
    using Suc.hyps(1) [of "g\<lparr>rg_pos := Suc (rg_pos g)\<rparr>"] Suc.hyps(2) Suc.prems(1) skip(2) lt by (simp add: rgen_ok_def)
  then show ?case using file_loop_line [OF Suc.prems(1) lt, of from_str] skip(1) by simp
qed

text \<open>A file with lines of which none has the wanted type is read over and over.\<close>

lemma file_loop_diverges:
  assumes "rgen_ok g" "rg_body g \<noteq> []" "\<forall>s\<in>set (rg_body g). skipped from_str s"
  shows "file_loop from_str g = None"
proof -
  have "\<not> (rgen_ok g \<and> rg_body g \<noteq> [] \<and> (\<forall>s\<in>set (rg_body g). skipped from_str s))" if "file_loop from_str g = Some r" for g r
  proof (rule file_loop.raw_induct [of "\<lambda>from_str g r. \<not> (rgen_ok g \<and> rg_body g \<noteq> [] \<and> (\<forall>s\<in>set (rg_body g). skipped from_str s))", OF _ that])
    fix loop from_str g r
    assume rec: "\<And>from_str g r. loop from_str g = Some r \<Longrightarrow> \<not> (rgen_ok g \<and> rg_body g \<noteq> [] \<and> (\<forall>s\<in>set (rg_body g). skipped from_str s))"
      and body: "(let (s, g) = readline g; (s, g) = if s = [] then readline (g\<lparr>rg_pos := rg_start g\<rparr>) else (s, g)
        in if s = [] then Some (Inl (OtherException ''Data file does not contain valid entries''), g)
           else case from_str s of Inl e \<Rightarrow> Some (Inl e, g) | Inr v \<Rightarrow> if v = PyNone then loop from_str g else Some (Inr v, g)) = Some r"
    show "\<not> (rgen_ok g \<and> rg_body g \<noteq> [] \<and> (\<forall>s\<in>set (rg_body g). skipped from_str s))"
    proof
      assume inv: "rgen_ok g \<and> rg_body g \<noteq> [] \<and> (\<forall>s\<in>set (rg_body g). skipped from_str s)"
      then have start: "rg_start g < length (rg_lines g)" by (simp add: rg_body_def)
      define p where "p = (if rg_pos g < length (rg_lines g) then rg_pos g else rg_start g)"
      have p: "p < length (rg_lines g)" "rg_start g \<le> p" using start inv by (auto simp: p_def rgen_ok_def)
      then have "rg_lines g ! p \<in> set (rg_body g)"
        unfolding rg_body_def using nth_mem [of "p - rg_start g" "drop (rg_start g) (rg_lines g)"] by simp
      moreover have "rg_lines g ! p \<noteq> []" using rgen_ok_line [OF conjunct1 [OF inv] p(1)] .
      ultimately have "loop from_str (g\<lparr>rg_pos := Suc p\<rparr>) = Some r"
        using body inv start rgen_ok_line [OF conjunct1 [OF inv] start]
        by (auto simp: p_def readline_def skipped_def split: if_splits)
      from rec [OF this] inv p show False by (auto simp: rgen_ok_def rg_body_def)
    qed
  qed
  with assms show ?thesis by (metis option.exhaust)
qed

text \<open>
  The data of a request from a file is that of the next line that has the wanted type, the lines after the header being
  read in a circle. If no line has it the loop never ends, whatever the message of the error says, which is raised only
  for a file with no line after its header.
\<close>

theorem file_data_in_circle:
  assumes ok: "rgen_ok g" and opened: "rg_file g \<noteq> None"
  shows "gen_req_data from_file rand g =
     (case filter (\<lambda>s. \<not> skipped (from_file g) s) (drop (rg_pos g) (rg_lines g) @ rg_body g) of
        s # _ \<Rightarrow>
          Some (from_file g s, g\<lparr>rg_pos := length (rg_lines g)
             - length (case dropWhile (skipped (from_file g)) (drop (rg_pos g) (rg_lines g)) of
                         _ # rest \<Rightarrow> rest | [] \<Rightarrow> tl (dropWhile (skipped (from_file g)) (rg_body g)))\<rparr>)
      | [] \<Rightarrow>
          if rg_body g = [] then Some (Inl (OtherException ''Data file does not contain valid entries''), g\<lparr>rg_pos := rg_start g\<rparr>)
          else None)"
proof -
  let ?f = "from_file g" and ?ahead = "drop (rg_pos g) (rg_lines g)"
  have loop: "gen_req_data from_file rand g = file_loop ?f g"
    using opened by (auto simp: gen_req_data_def)
  have first: "filter (\<lambda>s. \<not> skipped ?f s) xs = (case dropWhile (skipped ?f) xs of [] \<Rightarrow> [] | s # rest \<Rightarrow> s # filter (\<lambda>s. \<not> skipped ?f s) rest)" for xs
    by (induction xs) auto
  show ?thesis
  proof (cases "dropWhile (skipped ?f) ?ahead")
    case (Cons s rest)
    then show ?thesis using file_loop_forward [OF ok Cons] loop first [of ?ahead] by simp
  next
    case Nil
    then have skip: "\<forall>s\<in>set ?ahead. skipped ?f s" by (simp add: dropWhile_eq_Nil_conv)
    let ?g = "g\<lparr>rg_pos := rg_start g\<rparr>"
    have end_ok: "rgen_ok (g\<lparr>rg_pos := length (rg_lines g)\<rparr>)" and start_ok: "rgen_ok ?g" using ok by (auto simp: rgen_ok_def)
    have wrap: "file_loop ?f g = (if rg_body g = [] then Some (Inl (OtherException ''Data file does not contain valid entries''), ?g) else file_loop ?f ?g)"
      using file_loop_skip [OF ok skip] file_loop_end [OF end_ok, of ?f] by (simp add: rg_body_def)
    show ?thesis
    proof (cases "dropWhile (skipped ?f) (rg_body g)")
      case (Cons s rest)
      then show ?thesis
        unfolding Nil using wrap loop first [of ?ahead, unfolded Nil] first [of "rg_body g"] file_loop_forward [OF start_ok, of ?f s rest] by (simp add: rg_body_def split: if_splits)
    next
      case none: Nil
      then have "rg_body g \<noteq> [] \<Longrightarrow> file_loop ?f ?g = None"
        using file_loop_diverges [OF start_ok] by (simp add: rg_body_def dropWhile_eq_Nil_conv)
      with Nil none wrap loop first [of ?ahead] first [of "rg_body g"] show ?thesis by simp
    qed
  qed
qed

text \<open>
  A line with a transaction of the wanted type, whose id the definition generator returns, makes the generators of
  registry definitions and entries raise: they look for the id inside of the id.
\<close>

theorem revocation_file_raises:
  assumes "definition_from_file loads req_types g s = Inr (PyStr txn_id)" "txn_id \<noteq> []"
  shows "def_revoc_from_file loads req_types g s = Inl (AttributeError ''get'')"
    and "req_types = [''114'', ''116'', ''117''] \<Longrightarrow> entry_revoc_from_file loads g s = Inl (AttributeError ''get'')"
  using assms by (simp_all add: def_revoc_from_file_def entry_revoc_from_file_def get_txnid_field_def py_or_def rbind_def)

text \<open>A transaction as the ledger tools print it, read for a definition and for a registry.\<close>

theorem revocation_file_example:
  fixes txn g
  defines "txn \<equiv> PyDict [(''txn'', PyDict [(''type'', PyStr ''113'')]), (''txnMetadata'', PyDict [(''txnId'', PyStr ''id1'')])]"
  defines "g \<equiv> \<lparr>rg_file = Some [''1|0|t''], rg_pos = 0, rg_start = 0, rg_sep = ''|'', rg_max_split = 2, rg_field = 2\<rparr>"
  shows "definition_from_file (\<lambda>_. Inr txn) [''113'', ''115''] g ''1|0|t'' = Inr (PyStr ''id1'')"
    and "def_revoc_from_file (\<lambda>_. Inr txn) [''113'', ''115''] g ''1|0|t'' = Inl (AttributeError ''get'')"
proof -
  show d: "definition_from_file (\<lambda>_. Inr txn) [''113'', ''115''] g ''1|0|t'' = Inr (PyStr ''id1'')"
    unfolding txn_def g_def by code_simp
  show "def_revoc_from_file (\<lambda>_. Inr txn) [''113'', ''115''] g ''1|0|t'' = Inl (AttributeError ''get'')"
    by (rule revocation_file_raises(1) [OF d]) simp
qed

end
