(* ===== verification/RequestKinds.thy ===== *)
theory RequestKinds
  imports RequestGen
begin

text \<open>
  Kinds of requests with a state of their own: reads of transactions by number, sequences of generators, demotions and
  promotions of nodes, and entries of revocation registries.
\<close>

section \<open>Reads by number\<close>

record get_txn =
  gt_ledger :: string
  min_seq :: int
  max_seq :: int
  rand_seq :: bool
  cur_seq :: int

definition mk_get_txn :: "string \<Rightarrow> int \<Rightarrow> int \<Rightarrow> bool \<Rightarrow> get_txn" where
  "mk_get_txn ledg lo hi rnd = \<lparr>gt_ledger = ledg, min_seq = lo, max_seq = hi, rand_seq = rnd, cur_seq = -1\<rparr>"

text \<open>\<open>randint\<close> is what \<open>random.randint\<close> returns.\<close>

definition get_txn_data :: "(int \<Rightarrow> int \<Rightarrow> int) \<Rightarrow> get_txn \<Rightarrow> ((string \<times> int) \<times> get_txn) res" where
  "get_txn_data randint g =
     (let width = max_seq g - min_seq g
      in if rand_seq g then let g = g\<lparr>cur_seq := randint (min_seq g) (max_seq g)\<rparr> in Inr ((gt_ledger g, cur_seq g), g)
         else if width = 0 then Inl (OtherException ''ZeroDivisionError'')
         else let g = g\<lparr>cur_seq := min_seq g + (cur_seq g + 1) mod width\<rparr> in Inr ((gt_ledger g, cur_seq g), g))"

fun read_numbers :: "nat \<Rightarrow> get_txn \<Rightarrow> int list res" where
  "read_numbers 0 g = Inr []"
| "read_numbers (Suc n) g =
     rbind (get_txn_data (\<lambda>_ _. 0) g) (\<lambda>((_, s), g'). rbind (read_numbers n g') (\<lambda>ss. Inr (s # ss)))"

text \<open>The numbers read one after the other: each is the smallest number and the last one, taken modulo the width.\<close>

lemma read_numbers_from:
  assumes "\<not> rand_seq g" "min_seq g < max_seq g" "(cur_seq g + 1) mod (max_seq g - min_seq g) = (k * (min_seq g + 1)) mod (max_seq g - min_seq g)"
  shows "read_numbers n g =
     Inr (map (\<lambda>i. min_seq g + ((k + int i) * (min_seq g + 1)) mod (max_seq g - min_seq g)) [0..<n])"
  using assms
proof (induction n arbitrary: g k)
  case 0
  then show ?case by simp
next
  case (Suc n)
  let ?w = "max_seq g - min_seq g" and ?g = "g\<lparr>cur_seq := min_seq g + (cur_seq g + 1) mod (max_seq g - min_seq g)\<rparr>"
  have "(cur_seq ?g + 1) mod ?w = (min_seq g + 1 + (k * (min_seq g + 1)) mod ?w) mod ?w"
    using Suc.prems(3) by (simp add: algebra_simps)
  also have "\<dots> = ((k + 1) * (min_seq g + 1)) mod ?w"
    unfolding mod_add_right_eq by (simp add: algebra_simps)
  finally have "read_numbers n ?g = Inr (map (\<lambda>i. min_seq g + ((k + 1 + int i) * (min_seq g + 1)) mod ?w) [0..<n])"
    using Suc.IH [of ?g "k + 1"] Suc.prems(1,2) by simp
  then show ?case
    using Suc.prems by (simp add: get_txn_data_def Let_def rbind_def upt_conv_Cons map_Suc_upt [symmetric] algebra_simps del: upt_Suc)
qed

theorem sequential_reads:
  assumes "lo < hi"
  shows "read_numbers n (mk_get_txn ledg lo hi False) = Inr (map (\<lambda>i. lo + (int i * (lo + 1)) mod (hi - lo)) [0..<n])"
  using read_numbers_from [of "mk_get_txn ledg lo hi False" 0] assms by (simp add: mk_get_txn_def)

text \<open>From zero the numbers go through the range in order; from one, every second number is left out.\<close>

lemma sequential_reads_from_zero:
  "0 < hi \<Longrightarrow> read_numbers n (mk_get_txn ledg 0 hi False) = Inr (map (\<lambda>i. int i mod hi) [0..<n])"
  using sequential_reads [of 0 hi n ledg] by simp

theorem sequential_reads_leave_out:
  "read_numbers n (mk_get_txn ledg 1 5 False) = Inr ss \<Longrightarrow> set ss \<subseteq> {1, 3}"
proof -
  have "1 + (int i * 2) mod 4 \<in> {1, 3}" for i
    by (cases "even i") (auto elim!: evenE oddE simp: mod_mult_mult1 [of 2 _ 2, simplified] algebra_simps)
  then show "read_numbers n (mk_get_txn ledg 1 5 False) = Inr ss \<Longrightarrow> set ss \<subseteq> {1, 3}"
    using sequential_reads [of 1 5 n ledg] by force
qed

section \<open>Sequences of generators\<close>

text \<open>A generator is an entry of \<open>sq_gens\<close>; the collection names it as often as its count says.\<close>

record 'g seq_reqs =
  sq_gens :: "'g list"
  sq_coll :: "nat list"
  sq_idx :: int
  sq_random :: bool

text \<open>The count and the keyword arguments of an entry; \<open>True\<close> is the number one.\<close>

definition entry_count :: "pyval \<Rightarrow> (int \<times> dict) res" where
  "entry_count prms =
     (case prms of
        PyInt n \<Rightarrow> if n > 0 then Inr (n, []) else Inl (OtherException ''Bad Request params provided'')
      | PyBool b \<Rightarrow> if b then Inr (1, []) else Inl (OtherException ''Bad Request params provided'')
      | PyDict d \<Rightarrow>
          (case dict_get_default d ''count'' (PyInt 1) of
             PyInt n \<Rightarrow> Inr (n, d) | PyBool b \<Rightarrow> Inr (if b then 1 else 0, d) | _ \<Rightarrow> Inl (TypeError ''range''))
      | _ \<Rightarrow> Inl (OtherException ''Bad Request params provided''))"

text \<open>
  The loop over the classes; \<open>is_gen\<close> is \<open>issubclass\<close> and \<open>mk\<close> the constructor, which runs before \<open>range\<close> looks at the count.
\<close>

fun make_entries :: "('c \<Rightarrow> bool) \<Rightarrow> ('c \<Rightarrow> dict \<Rightarrow> 'g res) \<Rightarrow> ('c \<times> pyval) list \<Rightarrow> 'g list \<times> nat list \<Rightarrow> ('g list \<times> nat list) res" where
  "make_entries is_gen mk [] acc = Inr acc"
| "make_entries is_gen mk ((reqc, prms) # reqs) (gens, coll) =
     (if \<not> is_gen reqc then Inl (OtherException ''Bad Request class provided'')
      else
        (case entry_count prms of
           Inl (TypeError m) \<Rightarrow> rbind (mk reqc (case prms of PyDict d \<Rightarrow> d | _ \<Rightarrow> [])) (\<lambda>_. Inl (TypeError m))
         | Inl e \<Rightarrow> Inl e
         | Inr (cnt, param) \<Rightarrow>
             rbind (mk reqc param) (\<lambda>g.
               make_entries is_gen mk reqs (gens @ [g], coll @ replicate (nat cnt) (length gens)))))"

definition mk_seq_reqs :: "('c \<Rightarrow> bool) \<Rightarrow> ('c \<Rightarrow> dict \<Rightarrow> 'g res) \<Rightarrow> ('c \<times> pyval) list \<Rightarrow> bool \<Rightarrow> 'g seq_reqs res" where
  "mk_seq_reqs is_gen mk reqs next_random =
     rbind (make_entries is_gen mk reqs ([], [])) (\<lambda>(gens, coll).
       if coll = [] then Inl (OtherException ''At least one class should be provided'')
       else Inr \<lparr>sq_gens = gens, sq_coll = coll, sq_idx = -1, sq_random = next_random\<rparr>)"

definition next_idx :: "(int \<Rightarrow> int \<Rightarrow> int) \<Rightarrow> 'g seq_reqs \<Rightarrow> int" where
  "next_idx randint q =
     (if sq_random q then randint 0 (int (length (sq_coll q)) - 1) else (sq_idx q + 1) mod int (length (sq_coll q)))"

text \<open>\<open>_gen_req_data\<close> moves on and asks the generator there; the generator is \<open>current_gen\<close> until the next call.\<close>

definition current_gen :: "'g seq_reqs \<Rightarrow> nat" where
  "current_gen q = sq_coll q ! nat (sq_idx q)"

definition seq_gen_req_data :: "(int \<Rightarrow> int \<Rightarrow> int) \<Rightarrow> ('g \<Rightarrow> 'd \<times> 'g) \<Rightarrow> 'g seq_reqs \<Rightarrow> 'd \<times> 'g seq_reqs" where
  "seq_gen_req_data randint gen_data q =
     (let q = q\<lparr>sq_idx := next_idx randint q\<rparr>;
          i = current_gen q;
          (d, g) = gen_data (sq_gens q ! i)
      in (d, q\<lparr>sq_gens := (sq_gens q)[i := g]\<rparr>))"

text \<open>\<open>on_request_generated\<close> and \<open>on_request_replied\<close> call every place of the collection, \<open>on_pool_create\<close> every generator once.\<close>

definition seq_notify :: "('g \<Rightarrow> 'g) \<Rightarrow> 'g seq_reqs \<Rightarrow> 'g seq_reqs" where
  "seq_notify f q = q\<lparr>sq_gens := fold (\<lambda>i gens. gens[i := f (gens ! i)]) (sq_coll q) (sq_gens q)\<rparr>"

definition seq_pool_create :: "('g \<Rightarrow> 'g) \<Rightarrow> 'g seq_reqs \<Rightarrow> 'g seq_reqs" where
  "seq_pool_create f q = q\<lparr>sq_gens := fold (\<lambda>i gens. gens[i := f (gens ! i)]) (remdups (sq_coll q)) (sq_gens q)\<rparr>"

text \<open>Which generators are asked in a number of calls.\<close>

fun asked :: "('g \<Rightarrow> 'd \<times> 'g) \<Rightarrow> nat \<Rightarrow> 'g seq_reqs \<Rightarrow> nat list" where
  "asked gen_data 0 q = []"
| "asked gen_data (Suc n) q = (let q' = snd (seq_gen_req_data (\<lambda>_ _. 0) gen_data q) in current_gen q' # asked gen_data n q')"

definition seq_ok :: "'g seq_reqs \<Rightarrow> bool" where
  "seq_ok q \<longleftrightarrow> sq_coll q \<noteq> [] \<and> (\<forall>i\<in>set (sq_coll q). i < length (sq_gens q))
     \<and> -1 \<le> sq_idx q \<and> sq_idx q < int (length (sq_coll q))"

lemma make_entries_ok:
  "make_entries is_gen mk reqs (gens, coll) = Inr (gens', coll') \<Longrightarrow> \<forall>i\<in>set coll. i < length gens \<Longrightarrow> \<forall>i\<in>set coll'. i < length gens'"
proof (induction is_gen mk reqs "(gens, coll)" arbitrary: gens coll rule: make_entries.induct)
  case (2 is_gen mk reqc prms reqs gens coll)
  obtain cnt param g where "make_entries is_gen mk reqs (gens @ [g], coll @ replicate (nat cnt) (length gens)) = Inr (gens', coll')"
    and e: "entry_count prms = Inr (cnt, param)" "is_gen reqc" "mk reqc param = Inr g"
    using "2.prems"(1) by (auto simp: rbind_def split: if_splits sum.splits exn.splits prod.splits)
  moreover have "\<forall>i\<in>set (coll @ replicate (nat cnt) (length gens)). i < length (gens @ [g])"
    using "2.prems"(2) by (auto simp: less_Suc_eq)
  ultimately show ?case using "2.hyps" [OF _ e(1)] e by simp
qed simp

lemma mk_seq_reqs_ok: "mk_seq_reqs is_gen mk reqs rnd = Inr q \<Longrightarrow> seq_ok q"
  by (auto simp: mk_seq_reqs_def rbind_def seq_ok_def split: sum.splits if_splits dest!: make_entries_ok)

lemma seq_step:
  assumes "seq_ok q" "\<not> sq_random q"
  shows "seq_ok (snd (seq_gen_req_data r gen_data q))" "\<not> sq_random (snd (seq_gen_req_data r gen_data q))"
    "sq_coll (snd (seq_gen_req_data r gen_data q)) = sq_coll q"
    "sq_idx (snd (seq_gen_req_data r gen_data q)) = (sq_idx q + 1) mod int (length (sq_coll q))"
proof -
  have "0 \<le> (sq_idx q + 1) mod int (length (sq_coll q))" using assms(1) by (simp add: seq_ok_def)
  then have "-1 \<le> (sq_idx q + 1) mod int (length (sq_coll q))" by linarith
  with assms show "seq_ok (snd (seq_gen_req_data r gen_data q))" "\<not> sq_random (snd (seq_gen_req_data r gen_data q))"
    "sq_coll (snd (seq_gen_req_data r gen_data q)) = sq_coll q"
    "sq_idx (snd (seq_gen_req_data r gen_data q)) = (sq_idx q + 1) mod int (length (sq_coll q))"
    by (auto simp: seq_gen_req_data_def next_idx_def seq_ok_def Let_def split: prod.splits)
qed

lemma asked_eq:
  assumes "seq_ok q" "\<not> sq_random q"
  shows "asked gen_data n q = map (\<lambda>i. sq_coll q ! nat ((sq_idx q + 1 + int i) mod int (length (sq_coll q)))) [0..<n]"
  using assms
proof (induction n arbitrary: q)
  case (Suc n)
  note step = seq_step [OF Suc.prems, of "\<lambda>_ _. 0" gen_data]
  let ?n = "int (length (sq_coll q))"
  have "((sq_idx q + 1) mod ?n + 1 + int i) mod ?n = (sq_idx q + 1 + (1 + int i)) mod ?n" for i
    using mod_add_left_eq [of "sq_idx q + 1" ?n "1 + int i"] by (simp add: add.assoc)
  then show ?case
    using Suc.IH [OF step(1,2)] step(3,4)
    by (simp add: Let_def current_gen_def upt_conv_Cons map_Suc_upt [symmetric] add.assoc del: upt_Suc)
qed simp

text \<open>
  In the sequential mode every run of as many calls as the collection has places asks each generator as often as its
  count says, wherever the run starts.
\<close>

theorem sequence_round_robin:
  assumes "seq_ok q" "\<not> sq_random q"
  shows "mset (asked gen_data (length (sq_coll q)) q) = mset (sq_coll q)"
proof -
  let ?n = "length (sq_coll q)" and ?k = "nat (sq_idx q + 1)"
  have n: "0 < ?n" and k: "?k \<le> ?n" using assms(1) by (auto simp: seq_ok_def)
  have idx: "nat ((sq_idx q + 1 + int i) mod int ?n) = (?k + i) mod ?n" for i
    using assms(1) by (simp add: seq_ok_def nat_mod_distrib nat_add_distrib)
  have "asked gen_data ?n q = map (\<lambda>i. sq_coll q ! ((?k + i) mod ?n)) [0..<?n]"
    unfolding asked_eq [OF assms] idx ..
  also have "\<dots> = rotate ?k (sq_coll q)"
    using n by (intro nth_equalityI) (simp_all add: nth_rotate)
  also have "mset \<dots> = mset (sq_coll q)"
    unfolding rotate_drop_take mset_append by (metis add.commute append_take_drop_id mset_append)
  finally show ?thesis .
qed

section \<open>Demotions and promotions\<close>

text \<open>The registry of nodes; \<open>choice\<close> is the index that \<open>random.choice\<close> takes.\<close>

record pool_registry =
  pool_data :: "(string \<times> string) list"
  nodes_queue :: "(string \<times> string) list"

definition mk_registry :: "(string \<times> string) list \<Rightarrow> int \<Rightarrow> pool_registry" where
  "mk_registry nodes untouched =
     \<lparr>pool_data = (if untouched > 0 then take (length nodes - nat untouched) nodes else nodes), nodes_queue = []\<rparr>"

definition random_choice :: "'a list \<Rightarrow> nat \<Rightarrow> 'a res" where
  "random_choice xs i = (if i < length xs then Inr (xs ! i) else Inl (IndexError ''Cannot choose from an empty sequence''))"

definition select_new_random_node :: "nat \<Rightarrow> pool_registry \<Rightarrow> ((string \<times> string) \<times> pool_registry) res" where
  "select_new_random_node choice r =
     rbind (random_choice (pool_data r) choice) (\<lambda>node. Inr (node, r\<lparr>nodes_queue := nodes_queue r @ [node]\<rparr>))"

definition current_node :: "nat \<Rightarrow> pool_registry \<Rightarrow> ((string \<times> string) \<times> pool_registry) res" where
  "current_node choice r =
     (case nodes_queue r of
        node # rest \<Rightarrow> Inr (node, r\<lparr>nodes_queue := rest\<rparr>)
      | [] \<Rightarrow> rbind (random_choice (pool_data r) choice) (\<lambda>node. Inr (node, r)))"

datatype node_request = Demote nat | Promote nat

text \<open>The nodes that a sequence of requests demotes and promotes.\<close>

fun node_requests :: "node_request list \<Rightarrow> pool_registry \<Rightarrow> ((string \<times> string) list \<times> (string \<times> string) list) res" where
  "node_requests [] r = Inr ([], [])"
| "node_requests (Demote c # ops) r =
     rbind (select_new_random_node c r) (\<lambda>(node, r). rbind (node_requests ops r) (\<lambda>(ds, ps). Inr (node # ds, ps)))"
| "node_requests (Promote c # ops) r =
     rbind (current_node c r) (\<lambda>(node, r). rbind (node_requests ops r) (\<lambda>(ds, ps). Inr (ds, node # ps)))"

text \<open>No promotion comes before the demotion that it answers.\<close>

fun answered :: "nat \<Rightarrow> node_request list \<Rightarrow> bool" where
  "answered n [] \<longleftrightarrow> True"
| "answered n (Demote c # ops) \<longleftrightarrow> answered (Suc n) ops"
| "answered n (Promote c # ops) \<longleftrightarrow> 0 < n \<and> answered (n - 1) ops"

theorem promotions_follow_demotions:
  assumes "node_requests ops r = Inr (ds, ps)" "answered (length (nodes_queue r)) ops"
  shows "ps = take (length ps) (nodes_queue r @ ds)"
  using assms
proof (induction ops r arbitrary: ds ps rule: node_requests.induct)
  case (2 c ops r)
  then obtain node r' ds' where d: "select_new_random_node c r = Inr (node, r')" "node_requests ops r' = Inr (ds', ps)" "ds = node # ds'"
    by (auto simp: rbind_def split: sum.splits)
  then have "nodes_queue r' = nodes_queue r @ [node]"
    by (auto simp: select_new_random_node_def rbind_def split: sum.splits)
  with 2(1) [OF d(1)] d 2(3) show ?case by simp
next
  case (3 c ops r)
  then obtain node r' ps' where d: "current_node c r = Inr (node, r')" "node_requests ops r' = Inr (ds, ps')" "ps = node # ps'"
    by (auto simp: rbind_def split: sum.splits)
  then have "nodes_queue r = node # nodes_queue r'"
    using 3(3) by (auto simp: current_node_def split: list.splits)
  with 3(1) [OF d(1)] d 3(3) show ?case by simp
qed simp

section \<open>Entries of revocation registries\<close>

text \<open>
  The generator issues a credential for each request and writes the change of the registry. What it asks libindy for is
  recorded: new registries and credentials issued in them. An attempt to make a registry fails before there is an
  identifier or afterwards, when its transactions are sent, or succeeds.
\<close>

datatype er_event = NewRegistry string | Issued string

datatype reg_attempt = CreateFails | SubmitFails string | RegistryMade string

record entry_revoc =
  er_registry :: string
  er_max_cred_num :: int
  er_old_reqs :: "string set"
  er_old_reqs_cnt :: int
  er_log :: "er_event list"

definition new_registry :: "string \<Rightarrow> entry_revoc \<Rightarrow> entry_revoc" where
  "new_registry reg s = s\<lparr>er_registry := reg, er_log := er_log s @ [NewRegistry reg]\<rparr>"

text \<open>\<open>_upd_revoc_reg\<close> tries until an attempt succeeds; \<open>None\<close> if no attempt of the list does.\<close>

fun upd_revoc_reg :: "reg_attempt list \<Rightarrow> entry_revoc \<Rightarrow> entry_revoc option" where
  "upd_revoc_reg [] s = None"
| "upd_revoc_reg (CreateFails # as) s = upd_revoc_reg as s"
| "upd_revoc_reg (SubmitFails reg # as) s = upd_revoc_reg as (new_registry reg s)"
| "upd_revoc_reg (RegistryMade reg # as) s = Some (new_registry reg s)"

text \<open>What becomes of \<open>_gen_req\<close>: it fails before a credential is issued, or when the request is built, or it returns.\<close>

datatype entry_outcome = NotIssued | BuildFails "reg_attempt list" | Built

definition entry_gen_req_data :: "string \<Rightarrow> entry_revoc \<Rightarrow> entry_revoc" where
  "entry_gen_req_data req_data s = s\<lparr>er_old_reqs := insert req_data (er_old_reqs s)\<rparr>"

definition entry_gen_req :: "entry_outcome \<Rightarrow> entry_revoc \<Rightarrow> entry_revoc option" where
  "entry_gen_req out s =
     (let issued = s\<lparr>er_log := er_log s @ [Issued (er_registry s)]\<rparr>
      in case out of
           NotIssued \<Rightarrow> Some s
         | BuildFails as \<Rightarrow> upd_revoc_reg as (issued\<lparr>er_old_reqs_cnt := 0\<rparr>)
         | Built \<Rightarrow> Some issued)"

definition entry_generated :: "reg_attempt list \<Rightarrow> string \<Rightarrow> entry_revoc \<Rightarrow> entry_revoc option" where
  "entry_generated as req_data s =
     (let s = (if req_data \<in> er_old_reqs s
               then s\<lparr>er_old_reqs_cnt := er_old_reqs_cnt s + 1, er_old_reqs := er_old_reqs s - {req_data}\<rparr> else s)
      in if er_old_reqs_cnt s \<ge> er_max_cred_num s then upd_revoc_reg as (s\<lparr>er_old_reqs_cnt := 0\<rparr>) else Some s)"

text \<open>The credentials issued since the registry was made.\<close>

definition in_registry :: "entry_revoc \<Rightarrow> nat" where
  "in_registry s = length (takeWhile (\<lambda>e. \<nexists>r. e = NewRegistry r) (rev (er_log s)))"

text \<open>
  The steps of several requests in any order; \<open>waiting\<close> are the data of the requests for which a credential of the
  current registry was issued and that have not been reported as generated.
\<close>

inductive entry_steps :: "entry_revoc \<Rightarrow> entry_revoc \<Rightarrow> string set \<Rightarrow> bool" for s0 where
  start: "upd_revoc_reg as s0 = Some s \<Longrightarrow> entry_steps s0 s {}"
| data: "entry_steps s0 s w \<Longrightarrow> d \<notin> er_old_reqs s \<Longrightarrow> entry_steps s0 (entry_gen_req_data d s) w"
| not_issued: "entry_steps s0 s w \<Longrightarrow> entry_gen_req NotIssued s = Some s' \<Longrightarrow> entry_steps s0 s' w"
| build_fails: "entry_steps s0 s w \<Longrightarrow> entry_gen_req (BuildFails as) s = Some s' \<Longrightarrow> entry_steps s0 s' {}"
| built: "entry_steps s0 s w \<Longrightarrow> d \<in> er_old_reqs s - w \<Longrightarrow> entry_gen_req Built s = Some s' \<Longrightarrow> entry_steps s0 s' (insert d w)"
| generated: "entry_steps s0 s w \<Longrightarrow> entry_generated as d s = Some s' \<Longrightarrow>
    entry_steps s0 s' (if er_log s' = er_log s then w - {d} else {})"

lemma in_registry_new [simp]: "in_registry (new_registry reg s) = 0"
  by (simp add: in_registry_def new_registry_def)

lemma in_registry_update [simp]:
  "in_registry (s\<lparr>er_old_reqs := x\<rparr>) = in_registry s" "in_registry (s\<lparr>er_old_reqs_cnt := c\<rparr>) = in_registry s"
  by (simp_all add: in_registry_def)

lemma upd_revoc_reg_fresh:
  "upd_revoc_reg as s = Some s' \<Longrightarrow> in_registry s' = 0 \<and> er_old_reqs_cnt s' = er_old_reqs_cnt s \<and> er_max_cred_num s' = er_max_cred_num s
     \<and> er_old_reqs s' = er_old_reqs s"
  by (induction as s rule: upd_revoc_reg.induct) (auto simp: new_registry_def in_registry_def)

lemma upd_revoc_reg_log: "upd_revoc_reg as s = Some s' \<Longrightarrow> er_log s' \<noteq> er_log s"
proof -
  have "upd_revoc_reg as s = Some s' \<Longrightarrow> length (er_log s) < length (er_log s')"
    by (induction as s rule: upd_revoc_reg.induct) (auto simp: new_registry_def)
  then show "upd_revoc_reg as s = Some s' \<Longrightarrow> er_log s' \<noteq> er_log s" by auto
qed

definition registry_inv :: "entry_revoc \<Rightarrow> string set \<Rightarrow> bool" where
  "registry_inv s w \<longleftrightarrow> 0 < er_max_cred_num s \<and> 0 \<le> er_old_reqs_cnt s \<and> er_old_reqs_cnt s < er_max_cred_num s
     \<and> finite w \<and> w \<subseteq> er_old_reqs s \<and> int (in_registry s) \<le> er_old_reqs_cnt s + int (card w)"

lemma registry_invariant:
  assumes "0 < er_max_cred_num s0" "er_old_reqs_cnt s0 = 0"
  shows "entry_steps s0 s w \<Longrightarrow> registry_inv s w"
proof (induction rule: entry_steps.induct)
  case (start as s)
  then show ?case using assms by (auto simp: registry_inv_def dest: upd_revoc_reg_fresh)
next
  case (data s w d)
  then show ?case by (auto simp: registry_inv_def entry_gen_req_data_def)
next
  case (not_issued s w s')
  then show ?case by (simp add: entry_gen_req_def)
next
  case (build_fails s w as s')
  then show ?case by (auto simp: registry_inv_def entry_gen_req_def Let_def dest!: upd_revoc_reg_fresh)
next
  case (built s w d s')
  then show ?case by (auto simp: registry_inv_def entry_gen_req_def Let_def in_registry_def)
next
  case (generated s w as d s')
  define t where "t = (if d \<in> er_old_reqs s
     then s\<lparr>er_old_reqs_cnt := er_old_reqs_cnt s + 1, er_old_reqs := er_old_reqs s - {d}\<rparr> else s)"
  have s': "if er_old_reqs_cnt t \<ge> er_max_cred_num t then upd_revoc_reg as (t\<lparr>er_old_reqs_cnt := 0\<rparr>) = Some s' else t = s'"
    using generated.hyps(2) unfolding entry_generated_def Let_def t_def [symmetric] by (simp split: if_splits)
  show ?case
  proof (cases "er_old_reqs_cnt t \<ge> er_max_cred_num t")
    case True
    with s' have "upd_revoc_reg as (t\<lparr>er_old_reqs_cnt := 0\<rparr>) = Some s'" by simp
    from upd_revoc_reg_fresh [OF this] upd_revoc_reg_log [OF this] generated.IH show ?thesis
      by (auto simp: registry_inv_def t_def split: if_splits)
  next
    case False
    with s' have "s' = t" by simp
    moreover have "int (card w) \<le> 1 + int (card (w - {d}))"
      using card_Diff_singleton_if [of w d] by (cases "d \<in> w") auto
    moreover have "w - {d} = w" if "d \<notin> er_old_reqs s" using generated.IH that by (auto simp: registry_inv_def)
    ultimately show ?thesis
      using generated.IH False by (auto simp: registry_inv_def t_def split: if_splits)
  qed
qed

text \<open>
  A registry never gets more credentials than it has room for but for those of requests that are being generated at the
  same time; with one request after the other it is never overfilled.
\<close>

theorem registry_not_overfilled:
  assumes "entry_steps s0 s w" "0 < er_max_cred_num s0" "er_old_reqs_cnt s0 = 0"
  shows "int (in_registry s) < er_max_cred_num s + int (card w)"
  using registry_invariant [OF assms(2,3,1)] by (simp add: registry_inv_def)

end
