(* ===== verification/RequestParser.thy ===== *)
theory RequestParser
  imports RequestKinds
begin

text \<open>
  The argument that names the kinds of requests of a load test (perf_gen_req_parser.py): a kind, or JSON with kinds,
  counts, parameters and labels. The classes of generators stand for themselves by their names; JSON is a parameter.
\<close>

definition supported_requests :: "(string \<times> string) list" where
  "supported_requests =
     [(''nym'', ''RGNym''), (''schema'', ''RGSchema''), (''attrib'', ''RGAttrib''), (''cred_def'', ''RGDefinition''),
      (''revoc_reg_def'', ''RGDefRevoc''), (''revoc_reg_entry'', ''RGEntryRevoc''), (''get_nym'', ''RGGetNym''),
      (''get_attrib'', ''RGGetAttrib''), (''get_schema'', ''RGGetSchema''), (''get_cred_def'', ''RGGetDefinition''),
      (''get_revoc_reg_def'', ''RGGetDefRevoc''), (''get_revoc_reg'', ''RGGetEntryRevoc''),
      (''get_revoc_reg_delta'', ''RGGetRevocRegDelta''), (''get_payment_sources'', ''RGGetPaymentSources''),
      (''payment'', ''RGPayment''), (''verify_payment'', ''RGVerifyPayment''), (''cfg_writes'', ''RGConfigChangeState''),
      (''demoted_node'', ''RGPoolNewDemotedNode''), (''get_txn'', ''RGGetTxn''), (''get_taa'', ''RGGetTAA''),
      (''get_taa_aml'', ''RGGetTAAAML''), (''get_auth_rule'', ''RGGetAuthRules''), (''get_fees'', ''RGGetFees''),
      (''demote'', ''RGDemoteNode''), (''promote'', ''RGPromoteNode'')]"

definition is_supported :: "string \<Rightarrow> bool" where
  "is_supported k \<longleftrightarrow> map_of supported_requests k \<noteq> None"

text \<open>The names of the class, of which the first becomes the label.\<close>

definition labels_of :: "string \<Rightarrow> string list" where
  "labels_of cls = map fst (filter (\<lambda>(k, v). v = cls) supported_requests)"

definition invalid_format :: exn where
  "invalid_format = OtherException ''Invalid parameter format''"

text \<open>
  \<open>__add_label\<close>: a number becomes a count, \<open>None\<close> no parameters. A text that contains the word label is returned as it
  is; every other value that is no dictionary has no items to assign.
\<close>

definition add_label :: "string \<Rightarrow> pyval \<Rightarrow> (string \<times> pyval) res" where
  "add_label cls param =
     (let labelled = (\<lambda>d. if dict_in ''label'' d then Inr (cls, PyDict d)
                       else case labels_of cls of
                              lbl # _ \<Rightarrow> Inr (cls, PyDict (dict_set d ''label'' (PyStr lbl)))
                            | [] \<Rightarrow> Inl (IndexError ''list index out of range''))
      in case param of
           PyNone \<Rightarrow> labelled []
         | PyInt n \<Rightarrow> labelled [(''count'', param)]
         | PyBool b \<Rightarrow> labelled [(''count'', param)]
         | PyDict d \<Rightarrow> labelled d
         | PyStr s \<Rightarrow> if py_split s ''label'' = [s] then Inl (TypeError ''item assignment'') else Inr (cls, param)
         | PyList xs \<Rightarrow> if PyStr ''label'' \<in> set xs then Inr (cls, param) else Inl (TypeError ''list indices''))"

text \<open>\<open>ret_par.update({"label": req_kind})\<close>\<close>

definition set_label :: "string \<Rightarrow> pyval \<Rightarrow> pyval res" where
  "set_label lbl par = (case par of PyDict d \<Rightarrow> Inr (PyDict (dict_set d ''label'' (PyStr lbl))) | _ \<Rightarrow> Inl (AttributeError ''update''))"

text \<open>
  \<open>__parse_single\<close>. Without a kind the parameters are the kind; with neither the call repeats itself, which Python ends
  with a \<open>RecursionError\<close>.
\<close>

definition parse_size :: "pyval \<Rightarrow> nat" where
  "parse_size v = size v + (if v = PyNone then 0 else 1)"

function parse_single :: "pyval \<Rightarrow> pyval \<Rightarrow> (string \<times> pyval) res" where
  "parse_single req_kind prms =
     (case req_kind of
        PyNone \<Rightarrow> if prms = PyNone then Inl (OtherException ''RecursionError'') else parse_single prms PyNone
      | PyStr k \<Rightarrow>
          (case map_of supported_requests k of
             Some cls \<Rightarrow> add_label cls prms
           | None \<Rightarrow>
               rbind (if prms = PyNone then Inl (OtherException ''RecursionError'') else parse_single prms PyNone) (\<lambda>(ret_cls, ret_par).
               rbind (set_label k ret_par) (\<lambda>par. Inr (ret_cls, par))))
      | PyDict [(k, v)] \<Rightarrow> parse_single (PyStr k) v
      | _ \<Rightarrow> Inl invalid_format)"
  by pat_completeness auto
termination
  by (relation "measure (\<lambda>(k, p). (case k of PyNone \<Rightarrow> 2 * parse_size p + 1 | PyStr _ \<Rightarrow> 2 * parse_size p + 1 | _ \<Rightarrow> 2 * parse_size k))")
    (auto simp: parse_size_def split: pyval.splits)

declare parse_single.simps [simp del]

fun parse_all :: "(pyval \<times> pyval) list \<Rightarrow> (string \<times> pyval) list res" where
  "parse_all [] = Inr []"
| "parse_all ((k, v) # rest) = rbind (parse_single k v) (\<lambda>r. rbind (parse_all rest) (\<lambda>rs. Inr (r # rs)))"

text \<open>
  \<open>create_req_generator\<close>: the class of one kind with its parameters, or the sequence of several with its mode. A value
  that is neither a dictionary nor a list leaves no kind, which the constructor of the sequence refuses.
\<close>

datatype generator_spec = Single string pyval | Sequence bool "(string \<times> pyval) list"

definition create_req_generator :: "(string \<Rightarrow> pyval res) \<Rightarrow> string \<Rightarrow> generator_spec res" where
  "create_req_generator loads req_kind_arg =
     (case map_of supported_requests req_kind_arg of
        Some cls \<Rightarrow> Inr (Single cls (PyDict [(''label'', PyStr req_kind_arg)]))
      | None \<Rightarrow>
          (case loads req_kind_arg of
             Inl _ \<Rightarrow> Inl invalid_format
           | Inr reqs \<Rightarrow>
               rbind (case reqs of
                        PyDict d \<Rightarrow> parse_all (map (\<lambda>(k, v). (PyStr k, v)) d)
                      | PyList rs \<Rightarrow> parse_all (map (\<lambda>r. (r, PyDict [])) rs)
                      | _ \<Rightarrow> Inr []) (\<lambda>ret_reqs.
                 case ret_reqs of
                   [(cls, par)] \<Rightarrow> rbind (add_label cls par) (\<lambda>(cls, par). Inr (Single cls par))
                 | _ \<Rightarrow> Inr (Sequence (case reqs of PyDict _ \<Rightarrow> True | _ \<Rightarrow> False) ret_reqs))))"

section \<open>What the parser accepts\<close>

lemma labels_distinct: "distinct (map fst supported_requests)" "distinct (map snd supported_requests)"
  by (simp_all add: supported_requests_def)

lemma filter_snd_unique: "distinct (map snd xs) \<Longrightarrow> (k, v) \<in> set xs \<Longrightarrow> filter (\<lambda>(a, b). b = v) xs = [(k, v)]"
  by (induction xs) (force simp: filter_empty_conv)+

lemma labels_of_supported: "(k, cls) \<in> set supported_requests \<Longrightarrow> labels_of cls = [k]"
  using filter_snd_unique [OF labels_distinct(2)] by (simp add: labels_of_def)

text \<open>The parameters that a parsed kind has: a label, and the class is one of those supported.\<close>

definition labelled :: "string \<times> pyval \<Rightarrow> bool" where
  "labelled r \<longleftrightarrow> fst r \<in> snd ` set supported_requests \<and> (\<forall>d. snd r = PyDict d \<longrightarrow> dict_in ''label'' d)"

lemma add_label_labelled:
  assumes "add_label cls par = Inr r" "cls \<in> snd ` set supported_requests"
  shows "labelled r"
  using assms(1)
  by (auto simp: add_label_def labelled_def assms(2) Let_def dict_in_def dict_set_def update_conv split: pyval.splits if_splits list.splits)

lemma set_label_labelled: "labelled (cls, par) \<Longrightarrow> set_label k par = Inr par' \<Longrightarrow> labelled (cls, par')"
  by (auto simp: labelled_def set_label_def dict_in_def dict_set_def update_conv split: pyval.splits)

lemma parse_single_labelled: "parse_single req_kind prms = Inr r \<Longrightarrow> labelled r"
proof (induction req_kind prms arbitrary: r rule: parse_single.induct)
  case (1 req_kind prms)
  show ?case
  proof (cases req_kind)
    case (PyStr k)
    show ?thesis
    proof (cases "map_of supported_requests k")
      case None
      with "1.prems" [unfolded parse_single.simps [of req_kind]] PyStr obtain cls par par' where p: "parse_single prms PyNone = Inr (cls, par)" "set_label k par = Inr par'" "r = (cls, par')" "prms \<noteq> PyNone"
        by (auto simp: rbind_def split: sum.splits if_splits)
      then have "labelled (cls, par)" using "1.IH"(2) [OF PyStr None] by simp
      then show ?thesis using set_label_labelled p by simp
    next
      case (Some cls)
      then have "cls \<in> snd ` set supported_requests" by (force dest: map_of_SomeD)
      then show ?thesis using "1.prems" [unfolded parse_single.simps [of req_kind]] PyStr Some add_label_labelled by simp
    qed
  next
    case (PyDict d)
    with "1.prems" [unfolded parse_single.simps [of req_kind]] obtain k v where d: "d = [(k, v)]" "parse_single (PyStr k) v = Inr r"
      by (auto split: list.splits)
    then show ?thesis using "1.IH"(3) [OF PyDict, of "(k, v)" "[]" k v] by simp
  qed (use "1.IH"(1) "1.prems" [unfolded parse_single.simps [of req_kind]] in \<open>auto split: if_splits\<close>)
qed

lemma parse_all_labelled: "parse_all ks = Inr rs \<Longrightarrow> \<forall>r\<in>set rs. labelled r"
  by (induction ks arbitrary: rs rule: parse_all.induct) (auto simp: rbind_def split: sum.splits dest: parse_single_labelled)

text \<open>
  Whatever the argument says, a generator that the parser returns is of a supported class and has a label, and so has every
  generator of a sequence, in the order of the argument; the mode is random exactly for a dictionary.
\<close>

theorem parsed_generators_labelled:
  assumes "create_req_generator loads arg = Inr spec"
  shows "case spec of Single cls par \<Rightarrow> labelled (cls, par)
         | Sequence rnd rs \<Rightarrow> (\<forall>r\<in>set rs. labelled r) \<and> length rs \<noteq> 1 \<and> (\<exists>reqs. loads arg = Inr reqs \<and> (rnd \<longleftrightarrow> (\<exists>d. reqs = PyDict d)))"
proof (cases "map_of supported_requests arg")
  case (Some cls)
  then have "cls \<in> snd ` set supported_requests" by (force dest: map_of_SomeD)
  moreover have "spec = Single cls (PyDict [(''label'', PyStr arg)])" using Some assms by (simp add: create_req_generator_def)
  ultimately show ?thesis by (simp add: labelled_def dict_in_def)
next
  case None
  then obtain reqs where l: "loads arg = Inr reqs" using assms by (auto simp: create_req_generator_def split: sum.splits)
  define parsed where "parsed = (case reqs of
      PyDict d \<Rightarrow> parse_all (map (\<lambda>(k, v). (PyStr k, v)) d) | PyList rs \<Rightarrow> parse_all (map (\<lambda>r. (r, PyDict [])) rs) | _ \<Rightarrow> Inr [])"
  have all: "\<forall>r\<in>set rs. labelled r" if "parsed = Inr rs" for rs
    using that by (cases reqs) (auto simp: parsed_def dest!: parse_all_labelled)
  have spec: "rbind parsed (\<lambda>ret_reqs. case ret_reqs of
      [(cls, par)] \<Rightarrow> rbind (add_label cls par) (\<lambda>(cls, par). Inr (Single cls par))
    | _ \<Rightarrow> Inr (Sequence (case reqs of PyDict _ \<Rightarrow> True | _ \<Rightarrow> False) ret_reqs)) = Inr spec"
    using assms None l by (simp add: create_req_generator_def parsed_def)
  then obtain rs where rs: "parsed = Inr rs" by (cases parsed) (simp_all add: rbind_def)
  show ?thesis
  proof (cases "\<exists>cls par. rs = [(cls, par)]")
    case True
    then obtain cls par where one: "rs = [(cls, par)]" by blast
    with all [OF rs] have "cls \<in> snd ` set supported_requests" by (simp add: labelled_def)
    with spec rs one show ?thesis by (auto simp: rbind_def split: sum.splits dest: add_label_labelled)
  next
    case False
    then have "length rs \<noteq> 1" by (auto simp: length_Suc_conv)
    moreover have "spec = Sequence (case reqs of PyDict _ \<Rightarrow> True | _ \<Rightarrow> False) rs"
      using spec rs False by (auto simp: rbind_def split: list.splits prod.splits)
    ultimately show ?thesis using all [OF rs] l by (auto split: pyval.splits)
  qed
qed

text \<open>A new label around a kind keeps the kind's parameters.\<close>

theorem relabelled:
  assumes "map_of supported_requests k = Some cls" "map_of supported_requests lbl = None"
  shows "parse_single (PyStr lbl) (PyDict [(k, PyInt n)]) = Inr (cls, PyDict [(''count'', PyInt n), (''label'', PyStr lbl)])"
  using assms labels_of_supported [OF map_of_SomeD [OF assms(1)]]
  by (simp add: parse_single.simps [of "PyStr _"] parse_single.simps [of "PyDict _"] add_label_def set_label_def rbind_def dict_set_def dict_in_def)

text \<open>An unknown name with no parameters, or with another unknown name, is not refused as an invalid format.\<close>

theorem unknown_kind_recurses:
  assumes "map_of supported_requests k = None" "map_of supported_requests l = None"
  shows "parse_single (PyStr k) PyNone = Inl (OtherException ''RecursionError'')"
    and "parse_single (PyStr k) (PyStr l) = Inl (OtherException ''RecursionError'')"
  using assms by (simp_all add: parse_single.simps [of "PyStr _"] rbind_def)

end
