(* ===== verification/LoadSetup.thy ===== *)
theory LoadSetup
  imports LoadFees AuthConstraints
begin

text \<open>
  The set-up of a client of the load test (scripts/performance/perf_load/perf_client.py): its trustees, the transaction
  author agreement and the fees in the authorization rules. The ledger is a parameter: a state that every request may
  change, whatever other clients do in the meantime, and that answers reads with replies.
\<close>

section \<open>Requests and replies\<close>

abbreviation TestAcceptanceMechanism :: string where "TestAcceptanceMechanism \<equiv> ''test''"

datatype setup_read = GetTAA string "string option" | GetAML string | GetNym string

datatype setup_write =
    SetTAA string string string
  | DisableTAA string
  | SetAML string
  | MakeTrustee string string string "(string \<times> string \<times> int) option"

record 'l ledger_api =
  api_read :: "setup_read \<Rightarrow> 'l \<Rightarrow> 'l \<times> dict res"
  api_write :: "setup_write \<Rightarrow> 'l \<Rightarrow> 'l \<times> unit res"
  api_new_did :: "string \<Rightarrow> 'l \<Rightarrow> 'l \<times> (string \<times> string) res"
  api_loads :: "pyval \<Rightarrow> pyval res"

record 'l setup_state =
  su_ledger :: 'l
  test_did :: string
  test_verk :: string
  trustee_dids :: "string list"
  taa_text :: "string option"
  taa_version :: "string option"
  taa_time :: "int option"

type_synonym ('l, 'a) setup_op = "('l setup_state, 'a) sres"

definition on_ledger :: "('l \<Rightarrow> 'l \<times> 'a res) \<Rightarrow> ('l, 'a) setup_op" where
  "on_ledger f s = (case f (su_ledger s) of (l, r) \<Rightarrow> (s\<lparr>su_ledger := l\<rparr>, r))"

definition is_reply :: "dict \<Rightarrow> unit res" where
  "is_reply d = ensure_is_reply (\<lambda>_. Inr d) []"

text \<open>\<open>_get_taa\<close>: no agreement has an empty text and version. An empty version asks for the latest agreement.\<close>

definition taa_of_reply :: "dict \<Rightarrow> (pyval \<times> pyval \<times> pyval) res" where
  "taa_of_reply reply =
     rbind (is_reply reply) (\<lambda>_.
     rbind (dict_index reply ''result'') (\<lambda>result.
     rbind (py_index result ''data'') (\<lambda>data.
       if data = PyNone then Inr (PyStr [], PyStr [], PyNone)
       else rbind (py_index data ''text'') (\<lambda>tx. rbind (py_index data ''version'') (\<lambda>v.
            rbind (py_index data ''ratification_ts'') (\<lambda>ts. Inr (tx, v, ts)))))))"

definition get_taa :: "'l ledger_api \<Rightarrow> string option \<Rightarrow> ('l, pyval \<times> pyval \<times> pyval) setup_op" where
  "get_taa A version s =
     sbind (on_ledger (api_read A (GetTAA (test_did s) (if version = Some [] then None else version))))
       (\<lambda>reply. slift (taa_of_reply reply)) s"

text \<open>\<open>_is_trustee\<close>: \<open>None\<close> for a DID that is not on the ledger.\<close>

definition trustee_of_reply :: "(pyval \<Rightarrow> pyval res) \<Rightarrow> dict \<Rightarrow> bool option res" where
  "trustee_of_reply loads reply =
     rbind (is_reply reply) (\<lambda>_.
     rbind (dict_index reply ''result'') (\<lambda>result.
     rbind (py_get result ''data'') (\<lambda>data_f.
       if data_f = PyNone then Inr None
       else rbind (loads data_f) (\<lambda>res_data. rbind (py_index res_data ''role'') (\<lambda>r. Inr (Some (r = PyStr TRUSTEE)))))))"

definition is_trustee :: "'l ledger_api \<Rightarrow> string \<Rightarrow> ('l, bool option) setup_op" where
  "is_trustee A did = sbind (on_ledger (api_read A (GetNym did))) (\<lambda>reply. slift (trustee_of_reply (api_loads A) reply))"

text \<open>\<open>append_taa_acceptance\<close>: what is added to a request once an agreement is accepted.\<close>

definition taa_acceptance :: "'l setup_state \<Rightarrow> (string \<times> string \<times> int) option" where
  "taa_acceptance s =
     (case (taa_text s, taa_version s, taa_time s) of (Some t, Some v, Some n) \<Rightarrow> if t = [] then None else Some (t, v, n) | _ \<Rightarrow> None)"

section \<open>Loops that wait for the ledger\<close>

text \<open>
  A loop \<open>while True\<close>: a round ends it with a result or goes on with a state. It ends when the ledger is in the
  wanted state or cannot get there, and \<open>None\<close> means that it never does.
\<close>

datatype ('s, 'r) loop_round = Done 'r | Again 's

partial_function (option) wait_loop :: "('s \<Rightarrow> ('s, 'r) loop_round) \<Rightarrow> 's \<Rightarrow> 'r option" where
  "wait_loop f s = (case f s of Done r \<Rightarrow> Some r | Again s' \<Rightarrow> wait_loop f s')"

type_synonym 'l setup_round = "('l setup_state, 'l setup_state \<times> unit res) loop_round"

text \<open>A write whose reply is not looked at, after which the loop goes on.\<close>

definition write_again :: "'l ledger_api \<Rightarrow> setup_write \<Rightarrow> 'l setup_state \<Rightarrow> 'l setup_round" where
  "write_again A w s = (case on_ledger (api_write A w) s of (s, Inl e) \<Rightarrow> Done (s, Inl e) | (s, Inr _) \<Rightarrow> Again s)"

definition trustee_round :: "'l ledger_api \<Rightarrow> string \<Rightarrow> 'l setup_state \<Rightarrow> 'l setup_round" where
  "trustee_round A did s =
     (case is_trustee A did s of
        (s, Inl e) \<Rightarrow> Done (s, Inl e)
      | (s, Inr (Some True)) \<Rightarrow> Done (s\<lparr>trustee_dids := trustee_dids s @ [did]\<rparr>, Inr ())
      | (s, Inr (Some False)) \<Rightarrow> Done (s, Inl (OtherException ''Submitter role must be TRUSTEE''))
      | (s, Inr None) \<Rightarrow>
          (case trustee_dids s of
             [] \<Rightarrow> Done (s, Inl (OtherException ''Cannot create new trustees without initial one''))
           | t # _ \<Rightarrow> write_again A (MakeTrustee t (test_did s) (test_verk s) (taa_acceptance s)) s))"

definition ensure_trustee :: "'l ledger_api \<Rightarrow> string \<Rightarrow> 'l setup_state \<Rightarrow> ('l setup_state \<times> unit res) option" where
  "ensure_trustee A did s = wait_loop (trustee_round A did) s"

text \<open>The mechanisms in the reply: whether there is a list at all, and its names.\<close>

definition aml_of_reply :: "dict \<Rightarrow> (bool \<times> dict) res" where
  "aml_of_reply reply =
     rbind (is_reply reply) (\<lambda>_.
     rbind (dict_index reply ''result'') (\<lambda>result.
     rbind (py_index result ''data'') (\<lambda>data.
       if truthy data
       then rbind (py_get_default data ''aml'' (PyDict [])) (\<lambda>aml. rbind (as_object aml) (\<lambda>d. Inr (True, d)))
       else Inr (data \<noteq> PyNone, []))))"

definition get_aml :: "'l ledger_api \<Rightarrow> ('l, bool \<times> dict) setup_op" where
  "get_aml A s = sbind (on_ledger (api_read A (GetAML (test_did s)))) (\<lambda>reply. slift (aml_of_reply reply)) s"

definition aml_round :: "'l ledger_api \<Rightarrow> 'l setup_state \<Rightarrow> 'l setup_round" where
  "aml_round A s =
     (case get_aml A s of
        (s, Inl e) \<Rightarrow> Done (s, Inl e)
      | (s, Inr (present, current_aml)) \<Rightarrow>
          if dict_in TestAcceptanceMechanism current_aml then Done (s, Inr ())
          else if present then Done (s, Inl (OtherException ''There is already incompatible TAA AML written to ledger''))
          else write_again A (SetAML (test_did s)) s)"

definition taa_aml_init :: "'l ledger_api \<Rightarrow> 'l setup_state \<Rightarrow> ('l setup_state \<times> unit res) option" where
  "taa_aml_init A s = wait_loop (aml_round A) s"

definition taa_accepted :: "string \<Rightarrow> string \<Rightarrow> pyval \<Rightarrow> 'l setup_state \<Rightarrow> 'l setup_state \<times> unit res" where
  "taa_accepted tx version ts s =
     (case ts of
        PyInt t \<Rightarrow> (s\<lparr>taa_text := Some tx, taa_version := Some version, taa_time := Some (t + 1)\<rparr>, Inr ())
      | _ \<Rightarrow> (s\<lparr>taa_text := Some tx, taa_version := Some version\<rparr>, Inl (TypeError ''+'')))"

definition taa_round :: "'l ledger_api \<Rightarrow> string \<Rightarrow> string \<Rightarrow> 'l setup_state \<Rightarrow> 'l setup_round" where
  "taa_round A tx version s =
     (case get_taa A None s of
        (s, Inl e) \<Rightarrow> Done (s, Inl e)
      | (s, Inr (current_text, current_version, current_time)) \<Rightarrow>
          if tx = [] \<and> current_text = PyStr [] then Done (s\<lparr>taa_text := Some []\<rparr>, Inr ())
          else if current_text = PyStr tx \<and> current_version = PyStr version then Done (taa_accepted tx version current_time s)
          else
            (case get_taa A (Some version) s of
               (s, Inl e) \<Rightarrow> Done (s, Inl e)
             | (s, Inr (expected_text, expected_version, _)) \<Rightarrow>
                 if expected_text \<noteq> PyStr tx \<and> expected_version = PyStr version
                 then Done (s, Inl (OtherException ''Ledger already contains different TAA with same version ''))
                 else write_again A (if tx \<noteq> [] then SetTAA (test_did s) tx version else DisableTAA (test_did s)) s))"

definition taa_init :: "'l ledger_api \<Rightarrow> string \<Rightarrow> string \<Rightarrow> 'l setup_state \<Rightarrow> ('l setup_state \<times> unit res) option" where
  "taa_init A tx version s =
     (if tx \<noteq> []
      then (case taa_aml_init A s of
              None \<Rightarrow> None
            | Some (s, Inl e) \<Rightarrow> Some (s, Inl e)
            | Some (s, Inr _) \<Rightarrow> wait_loop (taa_round A tx version) s)
      else wait_loop (taa_round A tx version) s)"

text \<open>The loop of \<open>_did_init\<close> over the seeds, with its checks before.\<close>

fun did_loop :: "'l ledger_api \<Rightarrow> string \<Rightarrow> string \<Rightarrow> string list \<Rightarrow> 'l setup_state \<Rightarrow> ('l setup_state \<times> unit res) option" where
  "did_loop A tx version [] s = Some (s, Inr ())"
| "did_loop A tx version (seed # seeds) s =
     (case on_ledger (api_new_did A seed) s of
        (s, Inl e) \<Rightarrow> Some (s, Inl e)
      | (s, Inr (did, verk)) \<Rightarrow>
          (case ensure_trustee A did (s\<lparr>test_did := did, test_verk := verk\<rparr>) of
             None \<Rightarrow> None
           | Some (s, Inl e) \<Rightarrow> Some (s, Inl e)
           | Some (s, Inr _) \<Rightarrow>
               (case (if taa_text s = None then taa_init A tx version s else Some (s, Inr ())) of
                  None \<Rightarrow> None
                | Some (s, Inl e) \<Rightarrow> Some (s, Inl e)
                | Some (s, Inr _) \<Rightarrow> did_loop A tx version seeds s)))"

definition did_init :: "'l ledger_api \<Rightarrow> int \<Rightarrow> string list \<Rightarrow> string \<Rightarrow> string \<Rightarrow> 'l setup_state \<Rightarrow> ('l setup_state \<times> unit res) option" where
  "did_init A req_num seeds tx version s =
     (if int (card (set seeds)) < req_num then Some (s, Inl (OtherException ''Number of trustee seeds must be eq''))
      else if card (set seeds) \<noteq> length seeds then Some (s, Inl (OtherException ''Duplicated seeds not allowed''))
      else did_loop A tx version seeds s)"

section \<open>Fees in the authorization rules\<close>

text \<open>\<open>update_constraint\<close>, which changes the JSON of a constraint in place.\<close>

function (sequential) update_constraint :: "dict \<Rightarrow> pyval \<Rightarrow> pyval res"
  and update_constraints :: "dict \<Rightarrow> pyval list \<Rightarrow> pyval list res" where
  "update_constraint fee (PyDict d) =
     (let cid = dict_get d CONSTRAINT_ID
      in if cid = PyStr ''ROLE''
         then (case dict_get_default d METADATA (PyDict []) of
                 PyDict m \<Rightarrow> Inr (PyDict (dict_set d METADATA (PyDict (dict_update m fee))))
               | _ \<Rightarrow> Inl (AttributeError ''update''))
         else if cid = PyStr ''OR'' \<or> cid = PyStr ''AND''
         then (case map_of d AUTH_CONSTRAINTS of
                 None \<Rightarrow> Inr (PyDict d)
               | Some (PyList cs) \<Rightarrow>
                   rbind (update_constraints fee cs) (\<lambda>cs'. Inr (PyDict (dict_set d AUTH_CONSTRAINTS (PyList cs'))))
               | Some v \<Rightarrow> Inl (TypeError ''not iterable''))
         else Inr (PyDict d))"
| "update_constraint fee v = Inl (AttributeError ''get'')"
| "update_constraints fee [] = Inr []"
| "update_constraints fee (c # cs) =
     rbind (update_constraint fee c) (\<lambda>c'. rbind (update_constraints fee cs) (\<lambda>cs'. Inr (c' # cs')))"
  by pat_completeness auto
termination
  by (relation "measure (\<lambda>x. case x of Inl (f, v) \<Rightarrow> 2 * size v | Inr (f, vs) \<Rightarrow> Suc (2 * size_list size vs))")
    (auto dest: size_map_of)

declare update_constraint.simps [simp del]

text \<open>
  \<open>_pool_auth_rules_init\<close>: the rules that the ledger reports are written again with the metadata of their types; the first
  failure ends it. The requests are the rule with its new constraint.
\<close>

fun set_auth_rules :: "(string \<Rightarrow> dict option) \<Rightarrow> (dict \<Rightarrow> 'l \<Rightarrow> 'l \<times> dict res) \<Rightarrow> pyval list \<Rightarrow> 'l \<Rightarrow> 'l \<times> unit res" where
  "set_auth_rules metadata submit [] l = (l, Inr ())"
| "set_auth_rules metadata submit (rule # rules) l =
     (case (rbind (as_object rule) (\<lambda>r.
            rbind (dict_index r ''auth_type'') (\<lambda>ty.
            rbind (case (case ty of PyStr t \<Rightarrow> metadata t | _ \<Rightarrow> None) of
                     Some (x # md) \<Rightarrow>
                       rbind (dict_index r ''constraint'') (\<lambda>c. rbind (update_constraint (x # md) c) (\<lambda>c'. Inr (dict_set r ''constraint'' c')))
                   | _ \<Rightarrow> Inr r) (\<lambda>r.
            rbind (dict_index r ''auth_action'') (\<lambda>_. rbind (dict_index r ''field'') (\<lambda>_. rbind (dict_index r ''constraint'') (\<lambda>_. Inr r))))))) of
        Inl e \<Rightarrow> (l, Inl e)
      | Inr r \<Rightarrow>
          (case submit r l of
             (l, Inl e) \<Rightarrow> (l, Inl e)
           | (l, Inr resp) \<Rightarrow>
               (case is_reply resp of Inl e \<Rightarrow> (l, Inl e) | Inr _ \<Rightarrow> set_auth_rules metadata submit rules l)))"

section \<open>Fees are added to every role of a rule\<close>

text \<open>What the change means for the constraint: each of its role constraints gets the metadata.\<close>

fun with_metadata :: "dict \<Rightarrow> constraint \<Rightarrow> constraint" where
  "with_metadata fee (AuthConstraint r n own off m) = AuthConstraint r n own off (dict_update m fee)"
| "with_metadata fee (AuthConstraintAnd cs) = AuthConstraintAnd (map (with_metadata fee) cs)"
| "with_metadata fee (AuthConstraintOr cs) = AuthConstraintOr (map (with_metadata fee) cs)"
| "with_metadata fee AuthConstraintForbidden = AuthConstraintForbidden"

lemma update_constraints_map:
  "(\<And>c. c \<in> set cs \<Longrightarrow> update_constraint fee (PyDict (f c)) = Inr (PyDict (g c))) \<Longrightarrow>
     update_constraints fee (map (\<lambda>c. PyDict (f c)) cs) = Inr (map (\<lambda>c. PyDict (g c)) cs)"
  by (induction cs) (auto simp: rbind_def)

theorem fees_added_to_constraint:
  "update_constraint fee (PyDict (as_dict c)) = Inr (PyDict (as_dict (with_metadata fee c)))"
proof (induction c)
  case (AuthConstraint r n own off m)
  then show ?case
    by (cases off) (simp_all add: update_constraint.simps dict_get_def dict_get_default_def dict_set_def)
next
  case (AuthConstraintAnd cs)
  then show ?case
    using update_constraints_map [of cs fee as_dict "\<lambda>c. as_dict (with_metadata fee c)"]
    by (simp add: update_constraint.simps dict_get_def dict_set_def rbind_def comp_def)
next
  case (AuthConstraintOr cs)
  then show ?case
    using update_constraints_map [of cs fee as_dict "\<lambda>c. as_dict (with_metadata fee c)"]
    by (simp add: update_constraint.simps dict_get_def dict_set_def rbind_def comp_def)
next
  case AuthConstraintForbidden
  then show ?case by (simp add: update_constraint.simps dict_get_def)
qed

section \<open>What the set-up reaches\<close>

text \<open>What holds of the result of a loop: an invariant of its rounds and what follows when a round ends it.\<close>

lemma wait_loop_invariant:
  assumes "wait_loop f s = Some r" "P s"
    and "\<And>s s'. P s \<Longrightarrow> f s = Again s' \<Longrightarrow> P s'"
    and "\<And>s r. P s \<Longrightarrow> f s = Done r \<Longrightarrow> Q r"
  shows "Q r"
proof -
  have "f = f0 \<longrightarrow> P s \<longrightarrow> Q r" if "wait_loop f s = Some r" "f0 = f" for f0 s
    using that(2)
  proof (rule_tac wait_loop.raw_induct [of "\<lambda>f s r. f = f0 \<longrightarrow> P s \<longrightarrow> Q r", OF _ that(1)])
    fix loop g s r
    assume f0: "f0 = f" and rec: "\<And>f s r. loop f s = Some r \<Longrightarrow> f = f0 \<longrightarrow> P s \<longrightarrow> Q r"
      and body: "(case g s of Done r \<Rightarrow> Some r | Again s' \<Rightarrow> loop g s') = Some r"
    show "g = f0 \<longrightarrow> P s \<longrightarrow> Q r"
      using body rec f0 assms(3,4) by (auto split: loop_round.splits)
  qed
  with assms(1,2) show ?thesis by simp
qed

lemma wait_loop_done [simp]: "f s = Done r \<Longrightarrow> wait_loop f s = Some r"
  by (subst wait_loop.simps) simp

lemma wait_loop_again: "f s = Again s' \<Longrightarrow> wait_loop f s = wait_loop f s'"
  by (subst wait_loop.simps) simp

text \<open>Requests change neither what the client has accepted nor its identities.\<close>

definition client_part :: "'l setup_state \<Rightarrow> (string option \<times> string option \<times> int option) \<times> string \<times> string \<times> string list" where
  "client_part s = ((taa_text s, taa_version s, taa_time s), test_did s, test_verk s, trustee_dids s)"

lemma on_ledger_client: "on_ledger f s = (s', r) \<Longrightarrow> client_part s' = client_part s"
  by (auto simp: on_ledger_def client_part_def split: prod.splits)

lemma read_client: "sbind (on_ledger f) (\<lambda>x. slift (g x)) s = (s', r) \<Longrightarrow> client_part s' = client_part s"
  by (auto simp: sbind_def dest: on_ledger_client split: prod.splits sum.splits)

lemma api_client:
  "get_taa A v s = (s', r) \<Longrightarrow> client_part s' = client_part s"
  "is_trustee A did s = (s', r') \<Longrightarrow> client_part s' = client_part s"
  "get_aml A s = (s', r'') \<Longrightarrow> client_part s' = client_part s"
  "write_again A w s = Again s' \<Longrightarrow> client_part s' = client_part s"
  by (auto simp: get_taa_def is_trustee_def get_aml_def write_again_def split: prod.splits sum.splits dest: read_client on_ledger_client)

lemma write_again_not_done [simp]: "write_again A w s \<noteq> Done (s', Inr ())"
  by (auto simp: write_again_def split: prod.splits sum.splits)

text \<open>A loop whose rounds keep the part of the client returns with the result of a round that starts with that part.\<close>

lemma client_loop:
  fixes f :: "'l setup_state \<Rightarrow> 'l setup_round"
  assumes loop: "wait_loop f s = Some (s', Inr ())"
    and again: "\<And>s s'. f s = Again s' \<Longrightarrow> client_part s' = client_part s"
    and finish: "\<And>t. client_part t = client_part s \<Longrightarrow> f t = Done (s', Inr ()) \<Longrightarrow> Q"
  shows Q
proof -
  define Q' where "Q' r \<longleftrightarrow> (r = (s', Inr ()) \<longrightarrow> Q)" for r :: "'l setup_state \<times> unit res"
  have "Q' (s', Inr ())"
  proof (rule wait_loop_invariant [where P = "\<lambda>t. client_part t = client_part s" and Q = Q', OF loop])
    show "client_part t' = client_part s" if "client_part t = client_part s" "f t = Again t'" for t t'
      using again [OF that(2)] that(1) by simp
    show "Q' r" if "client_part t = client_part s" "f t = Done r" for t r
      using finish [OF that(1)] that(2) by (simp add: Q'_def)
  qed simp
  then show Q by (simp add: Q'_def)
qed

definition taa_wanted :: "string \<Rightarrow> string \<Rightarrow> 'l setup_state \<Rightarrow> bool" where
  "taa_wanted tx version s \<longleftrightarrow> taa_text s = Some tx \<and> (tx \<noteq> [] \<longrightarrow> taa_version s = Some version \<and> taa_time s \<noteq> None)"

lemma taa_round_client:
  "taa_round A tx v s = Again s' \<Longrightarrow> client_part s' = client_part s"
  "taa_round A tx v s = Done (s'', Inr ()) \<Longrightarrow> taa_wanted tx v s'' \<and> snd (client_part s'') = snd (client_part s)"
  by (auto simp: taa_round_def taa_accepted_def taa_wanted_def client_part_def split: prod.splits sum.splits if_splits pyval.splits
      dest!: api_client)

lemma taa_loop_reached:
  assumes "wait_loop (taa_round A tx v) s = Some (s', Inr ())"
  shows "taa_wanted tx v s' \<and> snd (client_part s') = snd (client_part s)"
  by (rule client_loop [OF assms taa_round_client(1)]) (auto dest: taa_round_client(2))

lemma aml_round_client:
  "aml_round A s = Again s' \<Longrightarrow> client_part s' = client_part s"
  "aml_round A s = Done (s'', Inr ()) \<Longrightarrow> client_part s'' = client_part s"
  by (auto simp: aml_round_def split: prod.splits sum.splits if_splits dest!: api_client)

lemma aml_reached: "taa_aml_init A s = Some (s', Inr ()) \<Longrightarrow> client_part s' = client_part s"
  unfolding taa_aml_init_def by (erule client_loop) (auto dest: aml_round_client)

lemma taa_init_reached:
  "taa_init A tx v s = Some (s', Inr ()) \<Longrightarrow> taa_wanted tx v s' \<and> snd (client_part s') = snd (client_part s)"
  by (auto simp: taa_init_def split: if_splits option.splits prod.splits sum.splits dest!: taa_loop_reached aml_reached)

text \<open>A DID becomes one of the trustees when the ledger has reported its role.\<close>

definition reported_trustee :: "'l ledger_api \<Rightarrow> string \<Rightarrow> bool" where
  "reported_trustee A did \<longleftrightarrow> (\<exists>s s'. is_trustee A did s = (s', Inr (Some True)))"

lemma trustee_reached:
  assumes "ensure_trustee A did s = Some (s', Inr ())"
  shows "trustee_dids s' = trustee_dids s @ [did] \<and> reported_trustee A did \<and> fst (client_part s') = fst (client_part s)"
proof -
  have again: "trustee_round A did s = Again s' \<Longrightarrow> client_part s' = client_part s" for s s'
    by (auto simp: trustee_round_def split: prod.splits sum.splits option.splits bool.splits list.splits dest!: api_client)
  have ends: "trustee_round A did s = Done (s', Inr ()) \<Longrightarrow>
      trustee_dids s' = trustee_dids s @ [did] \<and> reported_trustee A did \<and> fst (client_part s') = fst (client_part s)" for s s'
    by (auto simp: trustee_round_def reported_trustee_def client_part_def split: prod.splits sum.splits option.splits bool.splits list.splits
        dest: api_client(2))
  show ?thesis
  proof (rule client_loop [OF assms [unfolded ensure_trustee_def] again])
    fix t assume "client_part t = client_part s" "trustee_round A did t = Done (s', Inr ())"
    from this(1) ends [OF this(2)] show ?thesis by (simp add: client_part_def)
  qed
qed

lemma did_loop_reached:
  assumes "did_loop A tx v seeds s = Some (s', Inr ())"
  shows "\<exists>dids. trustee_dids s' = trustee_dids s @ dids \<and> length dids = length seeds \<and> (\<forall>d\<in>set dids. reported_trustee A d)
     \<and> (taa_text s = None \<and> seeds \<noteq> [] \<longrightarrow> taa_wanted tx v s') \<and> (taa_text s \<noteq> None \<longrightarrow> fst (client_part s') = fst (client_part s))"
  using assms
proof (induction seeds arbitrary: s)
  case Nil
  then show ?case by simp
next
  case (Cons seed seeds)
  obtain s1 did verk where new: "on_ledger (api_new_did A seed) s = (s1, Inr (did, verk))"
    using Cons.prems by (auto split: prod.splits sum.splits)
  let ?s1 = "s1\<lparr>test_did := did, test_verk := verk\<rparr>"
  obtain s2 where trustee: "ensure_trustee A did ?s1 = Some (s2, Inr ())"
    using Cons.prems new by (auto split: option.splits prod.splits sum.splits)
  obtain s3 where taa: "(if taa_text s2 = None then taa_init A tx v s2 else Some (s2, Inr ())) = Some (s3, Inr ())"
    and rest: "did_loop A tx v seeds s3 = Some (s', Inr ())"
    using Cons.prems new trustee by (auto split: option.splits prod.splits sum.splits if_splits)
  have s2: "trustee_dids s2 = trustee_dids s @ [did]" "reported_trustee A did" "fst (client_part s2) = fst (client_part s)"
    using trustee_reached [OF trustee] on_ledger_client [OF new] by (auto simp: client_part_def)
  have s3: "trustee_dids s3 = trustee_dids s2" "taa_text s2 = None \<Longrightarrow> taa_wanted tx v s3" "taa_text s2 \<noteq> None \<Longrightarrow> s3 = s2"
    using taa by (auto simp: client_part_def split: if_splits dest: taa_init_reached)
  have "taa_text s3 \<noteq> None" using s3 by (cases "taa_text s2") (auto simp: taa_wanted_def)
  moreover have "taa_wanted tx v s'" if "taa_wanted tx v s3" "fst (client_part s') = fst (client_part s3)"
    using that by (simp add: taa_wanted_def client_part_def)
  moreover obtain dids where "trustee_dids s' = trustee_dids s3 @ dids" "length dids = length seeds" "\<forall>d\<in>set dids. reported_trustee A d"
    "taa_text s3 \<noteq> None \<longrightarrow> fst (client_part s') = fst (client_part s3)"
    using Cons.IH [OF rest] by blast
  ultimately show ?case
    using s2 s3 by (intro exI [of _ "did # dids"]) (auto simp: client_part_def)
qed

text \<open>
  A set-up that returns without an error has made the required number of trustees, one for each seed and each
  reported by the ledger as such, and has the agreement that was asked for, accepted at a time.
\<close>

theorem setup_reached:
  assumes "did_init A req_num seeds tx v s = Some (s', Inr ())" "trustee_dids s = []" "taa_text s = None"
  shows "length (trustee_dids s') = length seeds \<and> req_num \<le> int (length (trustee_dids s')) \<and> distinct seeds
     \<and> (\<forall>d\<in>set (trustee_dids s'). reported_trustee A d) \<and> (seeds \<noteq> [] \<longrightarrow> taa_wanted tx v s')"
proof -
  have "card (set seeds) = length seeds" "req_num \<le> int (card (set seeds))" "did_loop A tx v seeds s = Some (s', Inr ())"
    using assms(1) by (auto simp: did_init_def split: if_splits)
  then show ?thesis
    using did_loop_reached [of A tx v seeds s s'] assms(2,3) by (auto simp: card_distinct)
qed

section \<open>Agreements on a ledger that works\<close>

text \<open>
  A ledger that answers reads of agreements with what it holds, takes a new version, and disables the agreement on
  request.
\<close>

definition taa_reply :: "(string \<times> string \<times> int) option \<Rightarrow> dict" where
  "taa_reply a =
     [(''op'', PyStr ''REPLY''), (''result'', PyDict [(''data'',
        case a of None \<Rightarrow> PyNone
        | Some (t, v, ts) \<Rightarrow> PyDict [(''text'', PyStr t), (''version'', PyStr v), (''ratification_ts'', PyInt ts)])])]"

definition serves_taa ::
  "'l ledger_api \<Rightarrow> ('l \<Rightarrow> (string \<times> string \<times> int) option) \<Rightarrow> ('l \<Rightarrow> string \<Rightarrow> (string \<times> string \<times> int) option) \<Rightarrow> bool" where
  "serves_taa A latest of_version \<longleftrightarrow>
     (\<forall>d l. api_read A (GetTAA d None) l = (l, Inr (taa_reply (latest l))))
     \<and> (\<forall>d v l. v \<noteq> [] \<longrightarrow> api_read A (GetTAA d (Some v)) l = (l, Inr (taa_reply (of_version l v))))
     \<and> (\<forall>d t v l. of_version l v = None \<longrightarrow> (\<exists>l' ts. api_write A (SetTAA d t v) l = (l', Inr ()) \<and> latest l' = Some (t, v, ts)))
     \<and> (\<forall>d l. \<exists>l'. api_write A (DisableTAA d) l = (l', Inr ()) \<and> latest l' = None)"

lemma taa_of_taa_reply:
  "taa_of_reply (taa_reply a) = Inr (case a of None \<Rightarrow> (PyStr [], PyStr [], PyNone) | Some (t, v, ts) \<Rightarrow> (PyStr t, PyStr v, PyInt ts))"
  by (auto simp: taa_of_reply_def taa_reply_def is_reply_def ensure_is_reply_def rbind_def dict_in_def dict_get_def dict_index_def
      split: option.splits)

lemma get_taa_serves:
  assumes "serves_taa A latest of_version"
  shows "get_taa A None s = (s, Inr (case latest (su_ledger s) of None \<Rightarrow> (PyStr [], PyStr [], PyNone) | Some (t, v, ts) \<Rightarrow> (PyStr t, PyStr v, PyInt ts)))"
    and "v \<noteq> [] \<Longrightarrow> get_taa A (Some v) s = (s, Inr (case of_version (su_ledger s) v of None \<Rightarrow> (PyStr [], PyStr [], PyNone) | Some (t, v, ts) \<Rightarrow> (PyStr t, PyStr v, PyInt ts)))"
  using assms by (simp_all add: get_taa_def sbind_def on_ledger_def serves_taa_def taa_of_taa_reply)

text \<open>An agreement with a new version is in force after at most two rounds, whatever was in force before.\<close>

theorem taa_reached:
  assumes ledg: "serves_taa A latest of_version" and "tx \<noteq> []" "v \<noteq> []" "of_version (su_ledger s) v = None"
  shows "\<exists>s'. wait_loop (taa_round A tx v) s = Some (s', Inr ()) \<and> taa_wanted tx v s'"
proof -
  note served = get_taa_serves [OF ledg]
  have ends: "\<exists>s'. taa_round A tx v t = Done (s', Inr ())" if "latest (su_ledger t) = Some (tx, v, ts)" for t ts
    using that assms(2) by (simp add: taa_round_def served taa_accepted_def)
  have "\<exists>s'. wait_loop (taa_round A tx v) s = Some (s', Inr ())"
  proof (cases "\<exists>ts. latest (su_ledger s) = Some (tx, v, ts)")
    case True
    then show ?thesis using ends by (metis wait_loop_done)
  next
    case False
    obtain l' ts where w: "api_write A (SetTAA (test_did s) tx v) (su_ledger s) = (l', Inr ())" "latest l' = Some (tx, v, ts)"
      using ledg assms(4) unfolding serves_taa_def by meson
    have "taa_round A tx v s = Again (s\<lparr>su_ledger := l'\<rparr>)"
      using False assms w by (auto simp: taa_round_def served write_again_def on_ledger_def split: option.splits)
    moreover from ends [of "s\<lparr>su_ledger := l'\<rparr>" ts] w(2) obtain s' where "taa_round A tx v (s\<lparr>su_ledger := l'\<rparr>) = Done (s', Inr ())"
      by auto
    ultimately show ?thesis by (metis wait_loop_again wait_loop_done)
  qed
  then show ?thesis using taa_loop_reached by blast
qed

text \<open>
  A client that wants no agreement does not get rid of one if the version it was given, whose default is that of the
  tests, is known to the ledger: the check that protects a version comes before the request that disables agreements.
\<close>

theorem disabling_refused:
  assumes "serves_taa A latest of_version" "v \<noteq> []"
    and "latest (su_ledger s) = Some (t0, v0, ts0)" "t0 \<noteq> []" "of_version (su_ledger s) v = Some (t, v, ts)" "t \<noteq> []"
  shows "taa_init A [] v s = Some (s, Inl (OtherException ''Ledger already contains different TAA with same version ''))"
  using assms(2-) by (simp add: taa_init_def taa_round_def get_taa_serves [OF assms(1)])

text \<open>With the version left empty the agreement is disabled.\<close>

theorem disabling_without_version:
  assumes ledg: "serves_taa A latest of_version" and l: "latest (su_ledger s) = Some (t0, v0, ts0)" "v0 \<noteq> []"
  shows "\<exists>s'. taa_init A [] [] s = Some (s', Inr ()) \<and> taa_wanted [] [] s'"
proof -
  obtain l' where w: "api_write A (DisableTAA (test_did s)) (su_ledger s) = (l', Inr ())" "latest l' = None"
    using ledg unfolding serves_taa_def by meson
  have "get_taa A (Some []) s = get_taa A None s" by (simp add: get_taa_def)
  then have "taa_round A [] [] s = (if t0 = [] then Done (s\<lparr>taa_text := Some []\<rparr>, Inr ()) else Again (s\<lparr>su_ledger := l'\<rparr>))"
    using l w by (simp add: taa_round_def get_taa_serves [OF ledg] write_again_def on_ledger_def)
  moreover have "taa_round A [] [] (s\<lparr>su_ledger := l'\<rparr>) = Done (s\<lparr>su_ledger := l', taa_text := Some []\<rparr>, Inr ())"
    using w by (simp add: taa_round_def get_taa_serves [OF ledg])
  ultimately show ?thesis
    by (cases "t0 = []") (auto simp: taa_init_def taa_wanted_def wait_loop_again)
qed

text \<open>A ledger of this kind: the agreement in force and all there ever were.\<close>

definition sample_ledger :: "((string \<times> string \<times> int) option \<times> (string \<times> string \<times> int) list) ledger_api" where
  "sample_ledger =
     \<lparr>api_read = (\<lambda>r l. (l, case r of
          GetTAA d None \<Rightarrow> Inr (taa_reply (fst l))
        | GetTAA d (Some v) \<Rightarrow> Inr (taa_reply (find (\<lambda>(_, w, _). w = v) (snd l)))
        | _ \<Rightarrow> Inl (OtherException ''not served''))),
      api_write = (\<lambda>w l. case w of
          SetTAA d t v \<Rightarrow> ((Some (t, v, 0), (t, v, 0) # snd l), Inr ())
        | DisableTAA d \<Rightarrow> ((None, snd l), Inr ())
        | _ \<Rightarrow> (l, Inr ())),
      api_new_did = (\<lambda>s l. (l, Inr (s, s))), api_loads = (\<lambda>v. Inr v)\<rparr>"

lemma sample_serves: "serves_taa sample_ledger fst (\<lambda>l v. find (\<lambda>(_, w, _). w = v) (snd l))"
  by (simp add: serves_taa_def sample_ledger_def)

theorem disabling_refused_example:
  fixes s :: "((string \<times> string \<times> int) option \<times> (string \<times> string \<times> int) list) setup_state"
  assumes "su_ledger s = (Some (''text'', ''test_taa'', 0), [(''text'', ''test_taa'', 0)])"
  shows "taa_init sample_ledger [] ''test_taa'' s = Some (s, Inl (OtherException ''Ledger already contains different TAA with same version ''))"
  using disabling_refused [OF sample_serves, of "''test_taa''" s "''text''" "''test_taa''" 0 "''text''" 0] assms by simp

end
