(* ===== verification/SpikeLoad.thy ===== *)
theory SpikeLoad
  imports PyText
begin

text \<open>
  The schedule of a load test with spikes (scripts/performance/perf_load/perf_spike_load.py): which load scripts are started
  with which rate and duration, and the pauses between them, for the modes stable and stepwise. Times are whole seconds.
\<close>

section \<open>Arguments of the load script\<close>

text \<open>\<open>needle in s\<close>\<close>

fun py_contains :: "string \<Rightarrow> string \<Rightarrow> bool" where
  "py_contains needle [] \<longleftrightarrow> needle = []"
| "py_contains needle (c # cs) \<longleftrightarrow> take (length needle) (c # cs) = needle \<or> py_contains needle cs"

text \<open>
  The arguments from the common settings and those of the process; \<open>mkdir\<close> gives the directory that is created for the
  output. Steps and modes are no arguments of the script.
\<close>

definition get_args :: "(string list \<Rightarrow> string) \<Rightarrow> dict \<Rightarrow> dict \<Rightarrow> string \<Rightarrow> string list res" where
  "get_args mkdir common settings process_name =
     (let common_args = dict_update common settings;
          arg = (\<lambda>(k, v).
            if k = ''out_dir''
            then rbind (dict_index common ''out_dir'') (\<lambda>d. Inr [''--out_dir='' @ mkdir [py_str d, ''Spike_log'', process_name]])
            else if py_contains ''step'' k \<or> k = ''mode'' then Inr []
            else Inr [''--'' @ k @ ''='' @ py_str v])
      in fold (\<lambda>kv acc. rbind acc (\<lambda>as. rbind (arg kv) (\<lambda>a. Inr (as @ a)))) common_args (Inr [''perf_processes.py'']))"

section \<open>The schedule\<close>

text \<open>A script that is started, with its arguments and the rate and the time among them, or a pause.\<close>

datatype spike_act = Popen "string list" int int | Sleep int

text \<open>\<open>start_load_script\<close> appends to the list it is given, so later calls pass the arguments of the earlier ones too.\<close>

definition with_load :: "string list \<Rightarrow> int \<Rightarrow> int \<Rightarrow> string list" where
  "with_load as rate load_time = as @ [''--load_rate='' @ int_str rate, ''--load_time='' @ int_str load_time]"

record process_settings =
  initial_rate :: int
  step_value :: int
  step_time :: int

partial_function (option) step_loop ::
  "process_settings \<Rightarrow> int \<Rightarrow> string list \<Rightarrow> int \<Rightarrow> int \<Rightarrow> spike_act list option" where
  "step_loop p process_time as time_count step_count =
     (if time_count > 0
      then let as' = with_load as (step_value p) time_count
           in Option.bind (step_loop p process_time as' (time_count - step_time p) (step_count + 1)) (\<lambda>rest.
                Some (Popen as' (step_value p) time_count # Sleep (min (step_time p) (process_time - step_time p * step_count)) # rest))
      else Some [])"

definition run_stepwise_process :: "process_settings \<Rightarrow> string list \<Rightarrow> int \<Rightarrow> int \<Rightarrow> spike_act list option" where
  "run_stepwise_process p as process_time interval =
     (if process_time \<noteq> 0
      then if initial_rate p \<noteq> 0
           then let as' = with_load as (initial_rate p) process_time
                in Option.bind (step_loop p process_time as' (process_time - step_time p) 1) (\<lambda>acts.
                     Some (Popen as' (initial_rate p) process_time # Sleep (step_time p) # acts @ [Sleep interval]))
           else Option.bind (step_loop p process_time as process_time 0) (\<lambda>acts. Some (acts @ [Sleep interval]))
      else Some [Popen (with_load as (step_value p) process_time) (step_value p) process_time, Sleep (step_time p)])"

definition run_stable_process :: "process_settings \<Rightarrow> string list \<Rightarrow> int \<Rightarrow> int \<Rightarrow> spike_act list option" where
  "run_stable_process p as process_time interval =
     Some [Popen (with_load as (initial_rate p) process_time) (initial_rate p) process_time, Sleep interval]"

record profile =
  total_time :: int
  spike_time :: int
  rest_time :: int

partial_function (option) spike_loop :: "profile \<Rightarrow> spike_act list option \<Rightarrow> int \<Rightarrow> spike_act list option" where
  "spike_loop pr spike total_test_time =
     (if total_test_time > 0
      then Option.bind spike (\<lambda>acts.
           Option.bind (spike_loop pr spike (total_test_time - (spike_time pr + rest_time pr))) (\<lambda>rest. Some (acts @ rest)))
      else Some [])"

text \<open>
  \<open>spikes\<close>: each call makes its arguments anew, so it is the same list of actions; with a total time of zero it never ends.
  A mode that is neither stepwise nor stable is not started.
\<close>

definition spikes :: "profile \<Rightarrow> bool \<Rightarrow> (int \<Rightarrow> int \<Rightarrow> spike_act list option) \<Rightarrow> spike_act list option" where
  "spikes pr stepwise spike_fn =
     (let interval = (if stepwise then rest_time pr else rest_time pr + spike_time pr)
      in if total_time pr = 0 then None
         else spike_loop pr (spike_fn (spike_time pr) interval) (total_time pr))"

definition background :: "profile \<Rightarrow> bool \<Rightarrow> (int \<Rightarrow> int \<Rightarrow> spike_act list option) \<Rightarrow> spike_act list option" where
  "background pr stepwise background_fn =
     Option.bind (background_fn (total_time pr) 0) (\<lambda>acts. if total_time pr = 0 \<and> stepwise then None else Some acts)"

section \<open>When the scripts run\<close>

text \<open>The scripts with their start, rate and end, and the time when all is done.\<close>

fun timeline :: "int \<Rightarrow> spike_act list \<Rightarrow> (int \<times> int \<times> int) list" where
  "timeline t [] = []"
| "timeline t (Popen as rate load_time # acts) = (t, rate, t + load_time) # timeline t acts"
| "timeline t (Sleep s # acts) = timeline (t + s) acts"

fun duration :: "spike_act list \<Rightarrow> int" where
  "duration [] = 0"
| "duration (Popen as rate load_time # acts) = duration acts"
| "duration (Sleep s # acts) = s + duration acts"

lemma timeline_append: "timeline t (xs @ ys) = timeline t xs @ timeline (t + duration xs) ys"
  by (induction xs arbitrary: t rule: duration.induct) (auto simp: algebra_simps)

lemma duration_append [simp]: "duration (xs @ ys) = duration xs + duration ys"
  by (induction xs rule: duration.induct) auto

text \<open>The steps from number \<open>k\<close> on that start before the end of the process.\<close>

function steps_from :: "int \<Rightarrow> int \<Rightarrow> int \<Rightarrow> int list" where
  "steps_from total_t st k = (if 0 < st \<and> k * st < total_t then k # steps_from total_t st (k + 1) else [])"
  by pat_completeness auto
termination
  by (relation "measure (\<lambda>(total_t, st, k). nat (total_t - k * st))") (auto simp: algebra_simps)

declare steps_from.simps [simp del]

lemma step_loop_schedule:
  assumes "0 < step_time p" "time_count = T - k * step_time p"
  shows "\<exists>acts. step_loop p T as time_count k = Some acts
     \<and> timeline (t0 + k * step_time p) acts = map (\<lambda>i. (t0 + i * step_time p, step_value p, t0 + T)) (steps_from T (step_time p) k)
     \<and> duration acts = max 0 time_count"
  using assms
proof (induction "nat time_count" arbitrary: time_count k as rule: less_induct)
  case less
  show ?case
  proof (cases "0 < time_count")
    case True
    let ?as = "with_load as (step_value p) time_count"
    have next_count: "time_count - step_time p = T - (k + 1) * step_time p"
      using less.prems(2) by (simp add: algebra_simps)
    have "nat (time_count - step_time p) < nat time_count" using True less.prems(1) by simp
    from less.hyps [OF this less.prems(1) next_count, of ?as] obtain acts where
      acts: "step_loop p T ?as (time_count - step_time p) (k + 1) = Some acts"
        "timeline (t0 + (k + 1) * step_time p) acts = map (\<lambda>i. (t0 + i * step_time p, step_value p, t0 + T)) (steps_from T (step_time p) (k + 1))"
        "duration acts = max 0 (time_count - step_time p)" by blast
    have sleep: "T - step_time p * k = time_count" using less.prems(2) by (simp add: algebra_simps)
    have loop: "step_loop p T as time_count k = Some (Popen ?as (step_value p) time_count # Sleep (min (step_time p) time_count) # acts)"
      using True acts(1) by (subst step_loop.simps) (simp add: Let_def sleep)
    have steps: "steps_from T (step_time p) k = k # steps_from T (step_time p) (k + 1)"
      using True less.prems by (subst steps_from.simps) simp
    have last: "acts = []" "steps_from T (step_time p) (k + 1) = []" if "time_count \<le> step_time p"
      using that acts(1) next_count by (auto simp: step_loop.simps steps_from.simps)
    have "timeline (t0 + k * step_time p + min (step_time p) time_count) acts
        = map (\<lambda>i. (t0 + i * step_time p, step_value p, t0 + T)) (steps_from T (step_time p) (k + 1))"
      using last acts(2) by (cases "time_count \<le> step_time p") (simp_all add: algebra_simps min_def)
    then show ?thesis
      using loop steps less.prems True acts(3) by (auto simp: min_def max_def algebra_simps)
  next
    case False
    then have "step_loop p T as time_count k = Some []" by (subst step_loop.simps) simp
    moreover have "steps_from T (step_time p) k = []"
      using False less.prems by (simp add: steps_from.simps [of T "step_time p" k])
    moreover note False
    ultimately show ?thesis by simp
  qed
qed

text \<open>
  A stepwise process of a positive time starts its first script at once if it has an initial rate, and one more script with
  the value of the step after every step time; all of them end when the time of the process is over, so that the load is
  a staircase. The process takes its time, or one step if that is longer, and the pause.
\<close>

theorem stepwise_staircase:
  assumes "0 < step_time p" "0 < T"
  shows "\<exists>acts. run_stepwise_process p as T interval = Some acts
     \<and> timeline t acts =
         (if initial_rate p \<noteq> 0 then [(t, initial_rate p, t + T)] else [])
         @ map (\<lambda>k. (t + k * step_time p, step_value p, t + T)) (steps_from T (step_time p) (if initial_rate p \<noteq> 0 then 1 else 0))
     \<and> duration acts = (if initial_rate p \<noteq> 0 then max T (step_time p) else T) + interval"
proof (cases "initial_rate p = 0")
  case True
  obtain acts where "step_loop p T as T 0 = Some acts"
    "timeline t acts = map (\<lambda>i. (t + i * step_time p, step_value p, t + T)) (steps_from T (step_time p) 0)" "duration acts = max 0 T"
    using step_loop_schedule [OF assms(1), of T T 0 as t] by auto
  with True assms show ?thesis by (simp add: run_stepwise_process_def timeline_append)
next
  case False
  let ?as = "with_load as (initial_rate p) T"
  obtain acts where "step_loop p T ?as (T - step_time p) 1 = Some acts"
    "timeline (t + step_time p) acts = map (\<lambda>i. (t + i * step_time p, step_value p, t + T)) (steps_from T (step_time p) 1)"
    "duration acts = max 0 (T - step_time p)"
    using step_loop_schedule [OF assms(1), of "T - step_time p" T 1 ?as t] by auto
  with False assms show ?thesis by (simp add: run_stepwise_process_def timeline_append Let_def)
qed

lemma steps_from_set: "0 < st \<Longrightarrow> set (steps_from T st k) = {i. k \<le> i \<and> i * st < T}"
proof (induction T st k rule: steps_from.induct)
  case (1 T st k)
  show ?case
  proof (cases "k * st < T")
    case True
    then have "set (steps_from T st k) = insert k {i. k + 1 \<le> i \<and> i * st < T}"
      using 1 by (subst steps_from.simps) simp
    moreover have "{i. k \<le> i \<and> i * st < T} = insert k {i. k + 1 \<le> i \<and> i * st < T}"
      using True by (auto simp: order_le_less)
    ultimately show ?thesis by simp
  next
    case False
    then have "\<not> i * st < T" if "k \<le> i" for i
      using mult_right_mono [OF that, of st] \<open>0 < st\<close> by linarith
    with False show ?thesis by (subst steps_from.simps) auto
  qed
qed

text \<open>
  The spikes follow each other after the time of a spike and the rest in both modes, until the total time is over.
\<close>

lemma spike_loop_schedule:
  assumes "0 < spike_time pr + rest_time pr" "duration acts = spike_time pr + rest_time pr"
  shows "\<exists>all. spike_loop pr (Some acts) (T - k * (spike_time pr + rest_time pr)) = Some all
     \<and> timeline (t0 + k * (spike_time pr + rest_time pr)) all
        = concat (map (\<lambda>i. timeline (t0 + i * (spike_time pr + rest_time pr)) acts) (steps_from T (spike_time pr + rest_time pr) k))"
proof (induction T "spike_time pr + rest_time pr" k rule: steps_from.induct)
  case (1 T k)
  let ?s = "spike_time pr + rest_time pr"
  show ?case
  proof (cases "k * ?s < T")
    case True
    from 1 [OF conjI [OF assms(1) True]] obtain all where
      "spike_loop pr (Some acts) (T - (k + 1) * ?s) = Some all"
      "timeline (t0 + (k + 1) * ?s) all = concat (map (\<lambda>i. timeline (t0 + i * ?s) acts) (steps_from T ?s (k + 1)))" by blast
    moreover have "T - (k + 1) * ?s = T - k * ?s - ?s" "t0 + (k + 1) * ?s = t0 + k * ?s + ?s" by (simp_all add: algebra_simps)
    ultimately show ?thesis
      using True assms
      by (subst spike_loop.simps, subst steps_from.simps) (simp add: timeline_append)
  next
    case False
    then show ?thesis by (subst spike_loop.simps, subst steps_from.simps) simp
  qed
qed

theorem spikes_spaced:
  assumes "0 < spike_time pr + rest_time pr" "0 < total_time pr"
    and "spike_fn (spike_time pr) (if stepwise then rest_time pr else rest_time pr + spike_time pr) = Some acts"
    and "duration acts = spike_time pr + rest_time pr"
  shows "\<exists>all. spikes pr stepwise spike_fn = Some all
     \<and> timeline 0 all = concat (map (\<lambda>i. timeline (i * (spike_time pr + rest_time pr)) acts)
         (steps_from (total_time pr) (spike_time pr + rest_time pr) 0))"
  using spike_loop_schedule [OF assms(1,4), of "total_time pr" 0 0] assms(2,3) by (simp add: spikes_def Let_def)

text \<open>Both kinds of spikes last as long as the theorem asks, a stepwise one if a step is not longer than the spike.\<close>

lemma stable_duration: "run_stable_process p as T (rst + T) = Some acts \<Longrightarrow> duration acts = T + rst"
  by (auto simp: run_stable_process_def)

lemma stepwise_duration:
  "0 < step_time p \<Longrightarrow> step_time p \<le> T \<Longrightarrow> run_stepwise_process p as T rst = Some acts \<Longrightarrow> duration acts = T + rst"
  using stepwise_staircase [of p T as rst 0] by (auto split: if_splits)

text \<open>Steps without a duration never end.\<close>

theorem zero_step_diverges:
  assumes "step_time p = 0" "0 < T"
  shows "step_loop p T' as T k = None"
proof -
  have "\<not> (step_time p = 0 \<and> 0 < T)" if "step_loop p T' as T k = Some r" for p T' as T k r
  proof (rule step_loop.raw_induct [of "\<lambda>p T' as T k r. \<not> (step_time p = 0 \<and> 0 < T)", OF _ that])
    fix loop :: "process_settings \<Rightarrow> int \<Rightarrow> string list \<Rightarrow> int \<Rightarrow> int \<Rightarrow> spike_act list option" and p T' as T k r
    assume "\<And>p T' as T k r. loop p T' as T k = Some r \<Longrightarrow> \<not> (step_time p = 0 \<and> 0 < T)"
      and "(if 0 < T then let as' = with_load as (step_value p) T
          in Option.bind (loop p T' as' (T - step_time p) (k + 1)) (\<lambda>rest.
               Some (Popen as' (step_value p) T # Sleep (min (step_time p) (T' - step_time p * k)) # rest)) else Some []) = Some r"
    then show "\<not> (step_time p = 0 \<and> 0 < T)" by (fastforce simp: Let_def Option.bind_eq_Some_conv)
  qed
  with assms show ?thesis by (metis option.exhaust)
qed

end
