(* ===== verification/Spec2Isabelle.thy ===== *)
theory Spec2Isabelle
  imports RichSchemaProperties ConfigProperties CompatSetMore ControlToolProperties MessageProperties NodeProperties
    NodeVersion LedgerMigrationProperties FileMigrationsProperties StatefulSetProperties LoadRunnerProperties LoadFeesProperties LoadClientProperties
    NodeBootstrap LegacyAuth ClientIdentity ClientUtil TxnIds ControlLoop NodeSetup RequestParser LoadSetup SpikeLoad
begin

text \<open>
  A model of the indy-node ledger server and the properties that make its parts correct.

  The program. indy-node adds to the plenum package (consensus, ledgers, Merkle states, storage) the
  transactions of a ledger of decentralized identifiers. A client request passes the message types
  (indy_common/types.py), then the handler of its transaction type
  (indy_node/server/request_handlers): static validation of the request alone, dynamic validation against
  the state, in which the write request validator (indy_common/authorize) decides who may do it, and after
  consensus the update of the state. Read handlers answer from the state, also from past versions of it.
  The identity cache (indy_node/persistence/idr_cache.py) gives the roles and keys of DIDs. Transactions of
  the config ledger change rules and flags and drive the upgrader and, by actions, the restarter
  (indy_node/server), which keep a log and send requests to the node control tool (indy_node/utils) that
  runs beside the node and runs the migration scripts of a new version (data/migrations/deb). Around the server
  there are a load test, whose runner starts clients that generate, sign and send requests
  (scripts/performance/perf_load), and a module that manages the machines of a test pool
  (pool_automation/roles/aws_manage).

  How it is modelled. Python values are the datatype \<open>pyval\<close>, with dictionaries in insertion order; an
  exception is a value of \<open>exn\<close>, and a function that may raise returns \<open>'a res\<close> (\<open>Inl\<close> the exception). A
  function that may run forever returns \<open>'a comp\<close>, where \<open>None\<close> is divergence. Code that changes objects is
  in a state and exception monad (\<open>sres\<close>), where what was done before an exception stays done. A state of
  plenum is a function from paths to bytes, and a handler's update is the list of writes it makes. What is not
  in the repository is a parameter: the serializers, SHA-256, the base58 and JSON codecs, the key-value store
  of the cache, the storage behind reads, the package manager and the shell, plenum's message fields and the
  date parser. The laws that a theorem needs of a parameter are hypotheses of that theorem, and its witness
  gives a parameter that satisfies them.

  The theories, in the order of their dependence:

  \<^item> Prelude, PyText: values, exceptions, the three kinds of computations, dictionaries and the contract
    \<open>dict_like\<close> that they and sorted dictionaries fulfil, and Python's text operations with the round trip of
    \<open>split\<close> and \<open>join\<close>.
  \<^item> Constants (roles.py, transactions.py), AuthActions, AuthConstraints, Authorizer, AuthMap, AuthValidator
    (indy_common/authorize): actions and their ids, constraints and their dictionaries, the authorizers, the
    default rules in their order, the two strategies and the validator. The locale \<open>auth_strategy\<close> is the
    contract of a strategy, interpreted for the local map and for the config ledger. AuthProperties shows that
    the validator accepts exactly the requests that satisfy the constraint in force, read as a formula, and
    what follows for the default rules.
  \<^item> IdrCache, NymHandler, NymProperties: the identity cache with its batches and NYM transactions. Keys change
    only by the owner, new DIDs are bound to their keys, a transaction writes just the fields it names.
  \<^item> Probe, CompatSet, CompatSetInv, CompatSetOps, CompatSetMore (indy_common/compat_set.py): the hash set with
    the order of Python 3.5, as a table of slots with the probing of the source. The loops are partial
    functions; for non-negative hashes the probe sequence reaches every slot, so they return, the table
    invariant is kept and the operations refine those of sets; for negative hashes they may diverge.
  \<^item> StatePaths (state/domain.py, req_utils.py), Revocation (revocation_strategy.py), DomainHandlers,
    DomainProperties: keys and values of the domain state, the two revocation strategies, and the handlers for
    attributes, schemas, claim definitions and registries. \<open>index_calculus\<close> is the contract of the two
    orderings of index lists and \<open>revocation_strategy\<close> that of the strategies, each interpreted on both. Paths
    of these objects do not collide, schemas are written once, entries change only by the owner of the registry and are
    recorded exactly.
  \<^item> ConfigHandlers, ConfigProperties: rules, flags, the pool configuration and the agreement handlers. A rule
    takes effect for exactly the actions it governs, and only trustees change the configuration.
  \<^item> RichSchema, RichSchemaProperties: rich schema objects, their content checks, and their reads.
  \<^item> Reads, ReadsProperties: the other read handlers. What was written is read back, deltas of revocation
    registries lead from one entry to the other, reported rules are the enforced ones.
  \<^item> MessageTypes, MessageProperties (types.py): the schemas of all operations and the checks beyond them. An
    accepted operation is validated against the record it writes and is well-typed for its handler.
  \<^item> ActionLog, NodeControl, Maintainer, Upgrader, UpgraderProperties, PoolUpgrade, Restarter: the logs in the
    csv format, versions and packages, and the scheduling of upgrades and restarts as step relations. The
    locale \<open>maintained\<close> states what ties the schedule to the log and the queue; both maintainers are
    instances. Schedules that pass are spread, logs are read back, a performed upgrade is not repeated.
  \<^item> ControlTool, ControlToolProperties: the control tool with its trace of operations on the system. The
    migrations that run are the ones between the versions; a failed upgrade restores the backup. ControlLoop is the
    socket loop: every message is processed once and in order, and only an error of a socket ends the tool.
  \<^item> NodeOps, NodeProperties: NODE transactions, the version of the pool, the authenticators and the hooks of
    the node. Validators change by their stewards, the pool's version moves with a quorum, attributes of the
    ledger are restored.
  \<^item> NodeVersion (node_version_fallback.py, node_version.py, __metadata__.py): the parser of versions and the
    version file, which with the fallback class reads back what was written.
  \<^item> LedgerMigration, LedgerMigrationProperties (1_3_428_to_1_3_429.py): the rewriting of the ledgers, on a directory
    of stores whose operations may fail. No ledger is lost, success means that all are in the new format (only the
    replacement of the store of sequence numbers may fail unnoticed), and entries of registries still refer to their
    definitions if one author wrote both. FileMigrations, FileMigrationsProperties: the environment file, the configuration,
    and the change of the storage, which keeps seven stores.
  \<^item> StatefulSet, StatefulSetProperties (stateful_set.py): the instances of a set in the cloud, whose documented
    calls are stated over what they do to instances, states and tags; runs converge and a further run changes nothing.
  \<^item> LoadClient, LoadRunner, LoadFees and their properties (perf_load): the queues and statistics of a client and
    the runner of clients as step relations (instances of the locale \<open>step_invariant\<close>), and fees and
    payments. Every request that is sent is in flight or answered once, the start is a barrier, and fees take and give
    back unspent outputs without a loss unless the ledger, the wallet or the payment library raises.
  \<^item> RequestGen, RequestKinds, RequestParser, LoadSetup, SpikeLoad (perf_load): where the requests of a load test come from,
    the set-up of its clients against a ledger that changes, and the schedule of spikes. Files are read in a circle,
    sequences take turns, registries are not overfilled, a set-up that returns has what it was asked for, and steps add
    up to a staircase. Loops of the source that may not end are partial functions.
  \<^item> NodeBootstrap (node_bootstrap.py), LegacyAuth (indy_common/auth.py), ClientIdentity (identity.py): every operation has
    one handler and every default rule one that can act; the default rules allow what the old authoriser allowed, three
    actions aside; the requests of an identity carry a valid role.
  \<^item> TxnIds, ClientUtil, NodeSetup: the ids of transactions, which are the paths of their records; the message that is
    signed, which for attributes is the one on the ledger, and the polling for replies (client_authn.py, util.py); the
    configuration and its caches, genesis files and plugins (config_util.py, config_helper.py, setup_util.py,
    indy_node/__init__.py), where set-ups can be repeated.

  Bounds. No function has fuel. The only depth bound is the code's own (\<open>MAX_DEPS_DEPTH\<close> of package
  dependencies), and the only limit on retries is the code's own as well (\<open>retry_limit\<close>). Integers are
  Python's, unbounded; Python's hash of an integer is reduced modulo \<open>2 ^ 61 - 1\<close>, as in CPython.

  Abstractions. Error messages keep the texts of the source up to the listing of values. Truth values are no
  integers here, and floating point numbers do not occur. Metrics and log output are left out. Times are
  microseconds, with or without a time zone.

  Not modelled: the construction of the node and of its stores (node_bootstrap.py), which only passes arguments on;
  the statistics of the validator info tool; the crypto helpers of clients and the run-time checks of
  annotations; the reading of configuration files, which is plenum's; the migrations of the first versions, which rename users and
  services; owners and permissions of files; the pools, wallets and credentials that a load test asks libindy for and
  its tear-down, and the tools for sandboxes.
\<close>

end
